(* ===== verification/Kairos_Prelude.thy ===== *)
theory Kairos_Prelude
  imports Main "HOL-Library.Sublist" "HOL-Library.Product_Lexorder" "HOL-Library.List_Lexorder"
    "HOL-Library.Char_ord"
begin

text \<open>
  The prelude of the development: what every component theory shares.

  \<^item> Go's \<open>int32\<close> arithmetic, written out on \<open>int\<close>.
  \<^item> The functions of Go's \<open>strings\<close> package that the source calls, on \<open>string\<close> (a Go
    string is a sequence of bytes, and a \<open>char\<close> is a byte).
  \<^item> The action type: a reconcile step that reads and updates a state and either returns
    a value or an error, as a Go function returning \<open>(T, error)\<close> does, and the two
    proof principles used everywhere: \<open>guards\<close>, a two-state guarantee that composes
    along an action, and \<open>wpa\<close>, what holds of the result and the state after it.
\<close>

named_theorems guards_intros \<open>rules that reduce a two-state guarantee of an action to its parts\<close>
named_theorems wpa_simps \<open>equations that evaluate what holds after an action\<close>


section \<open>Go integers\<close>

definition int32_max :: int where
  "int32_max = 2147483647"

text \<open>Go's \<open>int32\<close> addition wraps around in two's complement.\<close>

definition wrap32 :: "int \<Rightarrow> int" where
  "wrap32 x = (x + 2147483648) mod 4294967296 - 2147483648"

lemma wrap32_id: "- 2147483648 \<le> x \<Longrightarrow> x \<le> int32_max \<Longrightarrow> wrap32 x = x"
  by (simp add: wrap32_def int32_max_def)

lemma wrap32_range: "- 2147483648 \<le> wrap32 x \<and> wrap32 x \<le> int32_max"
  by (simp add: wrap32_def int32_max_def)

text \<open>Go's integer division truncates towards zero.\<close>

definition go_div :: "int \<Rightarrow> int \<Rightarrow> int" where
  "go_div a b = sgn a * sgn b * (\<bar>a\<bar> div \<bar>b\<bar>)"

lemma go_div_nonneg: "0 \<le> a \<Longrightarrow> 0 < b \<Longrightarrow> go_div a b = a div b"
  by (cases "a = 0") (auto simp: go_div_def sgn_if)


section \<open>Go strings\<close>

text \<open>\<open>strings.HasPrefix\<close>, \<open>strings.Contains\<close>.\<close>

fun has_prefix :: "string \<Rightarrow> string \<Rightarrow> bool" where
  "has_prefix s [] = True"
| "has_prefix [] (_ # _) = False"
| "has_prefix (c # s) (d # p) = (c = d \<and> has_prefix s p)"

fun contains_str :: "string \<Rightarrow> string \<Rightarrow> bool" where
  "contains_str [] p = (p = [])"
| "contains_str (c # s) p = (has_prefix (c # s) p \<or> contains_str s p)"

text \<open>\<open>strings.LastIndex\<close>, with what follows the last occurrence of the separator
  instead of its index: \<open>s[i+len(sep):]\<close>.\<close>

fun after_last :: "string \<Rightarrow> string \<Rightarrow> string option" where
  "after_last sep [] = (if sep = [] then Some [] else None)"
| "after_last sep (c # s) =
     (case after_last sep s of
        Some t \<Rightarrow> Some t
      | None \<Rightarrow> if has_prefix (c # s) sep then Some (drop (length sep) (c # s)) else None)"

text \<open>\<open>strings.ToLower\<close> on the ASCII range, which is all a Kubernetes name can hold.\<close>

definition lower_char :: "char \<Rightarrow> char" where
  "lower_char c = (if CHR ''A'' \<le> c \<and> c \<le> CHR ''Z'' then char_of (of_char c + 32 :: nat) else c)"

definition to_lower :: "string \<Rightarrow> string" where
  "to_lower s = map lower_char s"

text \<open>\<open>strings.TrimRight(s, "-")\<close> for one cut character.\<close>

definition trim_right :: "char \<Rightarrow> string \<Rightarrow> string" where
  "trim_right c s = rev (dropWhile (\<lambda>d. d = c) (rev s))"

text \<open>\<open>strings.ReplaceAll\<close> of one character by another.\<close>

definition replace_char :: "char \<Rightarrow> char \<Rightarrow> string \<Rightarrow> string" where
  "replace_char a b s = map (\<lambda>c. if c = a then b else c) s"

text \<open>\<open>strings.Split\<close> on one character, and \<open>strings.Fields\<close>.\<close>

fun split_on :: "char \<Rightarrow> string \<Rightarrow> string list" where
  "split_on d [] = [[]]"
| "split_on d (c # s) =
     (if c = d then [] # split_on d s
      else case split_on d s of [] \<Rightarrow> [[c]] | w # ws \<Rightarrow> (c # w) # ws)"

definition is_space :: "char \<Rightarrow> bool" where
  "is_space c \<longleftrightarrow> of_char c \<in> {9::nat, 10, 11, 12, 13, 32}"

fun fields_aux :: "string \<Rightarrow> string \<Rightarrow> string list" where
  "fields_aux acc [] = (if acc = [] then [] else [rev acc])"
| "fields_aux acc (c # s) =
     (if is_space c then (if acc = [] then fields_aux [] s else rev acc # fields_aux [] s)
      else fields_aux (c # acc) s)"

definition fields :: "string \<Rightarrow> string list" where
  "fields s = fields_aux [] s"

text \<open>\<open>strings.Join\<close>.\<close>

fun join_str :: "string \<Rightarrow> string list \<Rightarrow> string" where
  "join_str sep [] = []"
| "join_str sep [w] = w"
| "join_str sep (w # v # ws) = w @ sep @ join_str sep (v # ws)"

definition is_digit :: "char \<Rightarrow> bool" where
  "is_digit c \<longleftrightarrow> CHR ''0'' \<le> c \<and> c \<le> CHR ''9''"

definition is_lower :: "char \<Rightarrow> bool" where
  "is_lower c \<longleftrightarrow> CHR ''a'' \<le> c \<and> c \<le> CHR ''z''"

definition is_upper :: "char \<Rightarrow> bool" where
  "is_upper c \<longleftrightarrow> CHR ''A'' \<le> c \<and> c \<le> CHR ''Z''"

lemmas char_class_defs = is_digit_def is_lower_def is_upper_def is_space_def

lemma has_prefix_append [simp]: "has_prefix (p @ s) p"
  by (induction p) auto

lemma has_prefix_iff: "has_prefix s p \<longleftrightarrow> (\<exists>t. s = p @ t)"
  by (induction s p rule: has_prefix.induct) auto

lemma has_prefix_set: "has_prefix s p \<Longrightarrow> set p \<subseteq> set s"
  by (auto simp: has_prefix_iff)

lemma contains_str_set: "contains_str s p \<Longrightarrow> set p \<subseteq> set s"
  by (induction s) (auto dest!: has_prefix_set)

lemma to_lower_length [simp]: "length (to_lower s) = length s"
  by (simp add: to_lower_def)

text \<open>A separator with a character the tail never holds is found in front of the tail,
  whatever the text before it.\<close>

lemma after_last_none: "c \<in> set sep \<Longrightarrow> c \<notin> set s \<Longrightarrow> after_last sep s = None"
  by (induction s) (auto dest!: has_prefix_set)

lemma has_prefix_long: "has_prefix s p \<Longrightarrow> length p \<le> length s"
  by (auto simp: has_prefix_iff)

lemma after_last_tail:
  assumes "x \<notin> set sep" "x \<notin> set t"
  shows "after_last (x # sep) ((x # sep) @ t) = Some t"
proof -
  have none: "after_last (x # sep) (sep @ t) = None"
    using assms by (intro after_last_none [of x]) auto
  show ?thesis using none by simp
qed

lemma after_last_prefix:
  "after_last sep s = Some t \<Longrightarrow> after_last sep (p @ s) = Some t"
  by (induction p) auto

lemma after_last_build:
  assumes "x \<notin> set sep" "x \<notin> set t"
  shows "after_last (x # sep) (p @ (x # sep) @ t) = Some t"
  using after_last_tail [OF assms] by (rule after_last_prefix)

lemma trim_right_append_other [simp]: "d \<noteq> c \<Longrightarrow> trim_right c (s @ [d]) = s @ [d]"
  by (simp add: trim_right_def)

lemma set_trim_right: "set (trim_right c s) \<subseteq> set s"
  unfolding trim_right_def by (simp add: set_dropWhileD subset_iff) (metis set_dropWhileD set_rev)

lemma length_trim_right: "length (trim_right c s) \<le> length s"
  unfolding trim_right_def using length_dropWhile_le [of "\<lambda>d. d = c" "rev s"] by simp

lemma trim_right_prefix: "prefix (trim_right c s) s"
  unfolding trim_right_def by (metis suffix_dropWhile suffix_to_prefix rev_rev_ident)

lemma trim_right_last: "trim_right c s \<noteq> [] \<Longrightarrow> last (trim_right c s) \<noteq> c"
  unfolding trim_right_def
  by (metis (mono_tags, lifting) hd_dropWhile last_rev rev_is_Nil_conv)

lemma fields_aux_word:
  "\<forall>c\<in>set w. \<not> is_space c \<Longrightarrow>
   fields_aux acc (w @ s) = fields_aux (rev w @ acc) s"
  by (induction w arbitrary: acc) auto

lemma fields_single: "w \<noteq> [] \<Longrightarrow> \<forall>c\<in>set w. \<not> is_space c \<Longrightarrow> fields w = [w]"
  using fields_aux_word [of w "[]" "[]"] by (simp add: fields_def)

lemma fields_cons:
  assumes "w \<noteq> []" "\<forall>c\<in>set w. \<not> is_space c"
  shows "fields (w @ CHR '' '' # s) = w # fields s"
  using fields_aux_word [OF assms(2), of "[]" "CHR '' '' # s"] assms(1)
  by (simp add: fields_def is_space_def)


lemma split_on_plain: "d \<notin> set w \<Longrightarrow> split_on d (w @ d # s) = w # split_on d s"
  by (induction w) auto

lemma split_on_word: "d \<notin> set w \<Longrightarrow> split_on d w = [w]"
  by (induction w) auto

lemma split_on_nonempty [simp]: "split_on d s \<noteq> []"
  by (induction s) (auto split: list.splits)

lemma split_on_free: "w \<in> set (split_on d s) \<Longrightarrow> d \<notin> set w"
  by (induction s arbitrary: w) (auto split: if_splits list.splits)

lemma split_on_set: "w \<in> set (split_on d s) \<Longrightarrow> set w \<subseteq> set s"
  by (induction s arbitrary: w) (auto split: if_splits list.splits, fastforce+)

lemma split_on_join:
  "ws \<noteq> [] \<Longrightarrow> \<forall>w\<in>set ws. d \<notin> set w \<Longrightarrow> split_on d (join_str [d] ws) = ws"
  by (induction "[d]" ws rule: join_str.induct) (auto simp: split_on_word split_on_plain)

lemma join_split_on: "join_str [d] (split_on d s) = s"
proof (induction s)
  case (Cons c s)
  obtain w ws where ws: "split_on d s = w # ws" by (cases "split_on d s") auto
  show ?case using Cons ws by (cases ws) auto
qed simp

lemma find_member: "find P xs = Some x \<Longrightarrow> x \<in> set xs \<and> P x"
  by (induction xs) (auto split: if_splits)


section \<open>Actions\<close>

text \<open>
  A Go method that takes the reconciler and returns \<open>(T, error)\<close> is an action: it maps a
  state to a result, either an error or a value, and the state after it. Updates made
  before an error stay made, as they do in Go.
\<close>

type_synonym ('s, 'e, 'a) act = "'s \<Rightarrow> ('e + 'a) \<times> 's"

definition ret :: "'a \<Rightarrow> ('s, 'e, 'a) act" where
  "ret x s = (Inr x, s)"

definition throw :: "'e \<Rightarrow> ('s, 'e, 'a) act" where
  "throw e s = (Inl e, s)"

text \<open>\<open>x, err := m; if err != nil { return err }; f(x)\<close>\<close>

definition bindA :: "('s, 'e, 'a) act \<Rightarrow> ('a \<Rightarrow> ('s, 'e, 'b) act) \<Rightarrow> ('s, 'e, 'b) act" where
  "bindA m f s = (case m s of (Inl e, s') \<Rightarrow> (Inl e, s') | (Inr x, s') \<Rightarrow> f x s')"

text \<open>\<open>x, err := m\<close>, with the error left to the code that follows.\<close>

definition tryA :: "('s, 'e, 'a) act \<Rightarrow> ('s, 'e, 'e + 'a) act" where
  "tryA m s = (case m s of (r, s') \<Rightarrow> (Inr r, s'))"

definition getsA :: "('s \<Rightarrow> 'a) \<Rightarrow> ('s, 'e, 'a) act" where
  "getsA f s = (Inr (f s), s)"

definition modA :: "('s \<Rightarrow> 's) \<Rightarrow> ('s, 'e, unit) act" where
  "modA f s = (Inr (), f s)"

lemmas act_defs = ret_def throw_def bindA_def tryA_def getsA_def modA_def

text \<open>\<open>for _, x := range xs\<close> with early exits: the body returns \<open>Some r\<close> to return \<open>r\<close> from
  the enclosing function, \<open>None\<close> to go on with the next element.\<close>

fun forA :: "'a list \<Rightarrow> ('a \<Rightarrow> ('s, 'e, 'r option) act) \<Rightarrow> ('s, 'e, 'r option) act" where
  "forA [] body = ret None"
| "forA (x # xs) body =
     bindA (body x) (\<lambda>r. case r of Some v \<Rightarrow> ret (Some v) | None \<Rightarrow> forA xs body)"

text \<open>The same loop when it collects a value from each element.\<close>

fun mapA :: "('a \<Rightarrow> ('s, 'e, 'b) act) \<Rightarrow> 'a list \<Rightarrow> ('s, 'e, 'b list) act" where
  "mapA f [] = ret []"
| "mapA f (x # xs) = bindA (f x) (\<lambda>y. bindA (mapA f xs) (\<lambda>ys. ret (y # ys)))"


subsection \<open>What holds after an action\<close>

definition wpa :: "('s, 'e, 'a) act \<Rightarrow> ('e + 'a \<Rightarrow> 's \<Rightarrow> bool) \<Rightarrow> 's \<Rightarrow> bool" where
  "wpa m Q s \<longleftrightarrow> (case m s of (r, s') \<Rightarrow> Q r s')"

lemma wpa_ret [wpa_simps]: "wpa (ret x) Q s = Q (Inr x) s"
  by (simp add: wpa_def ret_def)

lemma wpa_throw [wpa_simps]: "wpa (throw e) Q s = Q (Inl e) s"
  by (simp add: wpa_def throw_def)

lemma wpa_bind [wpa_simps]:
  "wpa (bindA m f) Q s =
   wpa m (\<lambda>r s'. case r of Inl e \<Rightarrow> Q (Inl e) s' | Inr x \<Rightarrow> wpa (f x) Q s') s"
  by (auto simp: wpa_def bindA_def split: prod.splits sum.splits)

lemma wpa_try [wpa_simps]: "wpa (tryA m) Q s = wpa m (\<lambda>r s'. Q (Inr r) s') s"
  by (simp add: wpa_def tryA_def split: prod.splits)

lemma wpa_gets [wpa_simps]: "wpa (getsA f) Q s = Q (Inr (f s)) s"
  by (simp add: wpa_def getsA_def)

lemma wpa_mod [wpa_simps]: "wpa (modA f) Q s = Q (Inr ()) (f s)"
  by (simp add: wpa_def modA_def)

lemma wpa_result: "m s = (r, s') \<Longrightarrow> wpa m Q s \<Longrightarrow> Q r s'"
  by (simp add: wpa_def)

lemma wpa_weaken: "wpa m Q s \<Longrightarrow> (\<And>r s'. Q r s' \<Longrightarrow> R r s') \<Longrightarrow> wpa m R s"
  by (auto simp: wpa_def split: prod.splits)

lemma bindA_inv_Inr:
  "bindA m f s = (Inr y, s') \<Longrightarrow> \<exists>x s1. m s = (Inr x, s1) \<and> f x s1 = (Inr y, s')"
  by (auto simp: bindA_def split: prod.splits sum.splits)

lemma mapA_post:
  assumes "mapA f xs s = (Inr ys, s')"
    and "\<And>x s y s'. x \<in> set xs \<Longrightarrow> f x s = (Inr y, s') \<Longrightarrow> P x y"
  shows "list_all2 P xs ys"
  using assms
proof (induction xs arbitrary: s ys s')
  case (Cons x xs)
  from Cons.prems(1) obtain y s1 ys' s2 where
    y: "f x s = (Inr y, s1)" and ys: "mapA f xs s1 = (Inr ys', s2)" "ys = y # ys'"
    by (auto dest!: bindA_inv_Inr simp: ret_def)
  have "list_all2 P xs ys'" by (rule Cons.IH [OF ys(1)]) (use Cons.prems(2) in auto)
  with Cons.prems(2) [OF _ y] ys(2) show ?case by simp
qed (simp add: ret_def)

lemma bindA_assoc: "bindA (bindA m f) g = bindA m (\<lambda>x. bindA (f x) g)"
  by (auto simp: bindA_def fun_eq_iff split: prod.splits sum.splits)

lemma bindA_ret_left [simp]: "bindA (ret x) f = f x"
  by (auto simp: bindA_def ret_def)

lemma bindA_throw [simp]: "bindA (throw e) f = throw e"
  by (auto simp: bindA_def throw_def)

lemma tryA_ret [simp]: "tryA (ret x) = ret (Inr x)"
  by (auto simp: tryA_def ret_def)

lemma tryA_throw [simp]: "tryA (throw e) = ret (Inl e)"
  by (auto simp: tryA_def ret_def throw_def)


subsection \<open>Two-state guarantees\<close>

text \<open>
  \<open>guards R m\<close>: whatever the state, the state after \<open>m\<close> is related to it by \<open>R\<close>. For a
  reflexive and transitive \<open>R\<close> this composes along every construct above. An invariant
  \<open>P\<close> is the relation \<open>\<lambda>s s'. P s \<longrightarrow> P s'\<close>.
\<close>

definition guards :: "('s \<Rightarrow> 's \<Rightarrow> bool) \<Rightarrow> ('s, 'e, 'a) act \<Rightarrow> bool" where
  "guards R m \<longleftrightarrow> (\<forall>s. R s (snd (m s)))"

locale guarantee =
  fixes R :: "'s \<Rightarrow> 's \<Rightarrow> bool"
  assumes R_refl: "R s s"
    and R_trans: "R s t \<Longrightarrow> R t u \<Longrightarrow> R s u"
begin

lemma ret_guards: "guards R (ret x)"
  by (simp add: guards_def ret_def R_refl)

lemma throw_guards: "guards R (throw e)"
  by (simp add: guards_def throw_def R_refl)

lemma gets_guards: "guards R (getsA f)"
  by (simp add: guards_def getsA_def R_refl)

lemma mod_guards: "(\<And>s. R s (f s)) \<Longrightarrow> guards R (modA f)"
  by (simp add: guards_def modA_def)

lemma try_guards: "guards R m \<Longrightarrow> guards R (tryA m)"
  by (simp add: guards_def tryA_def split: prod.splits) (metis snd_conv)

lemma bind_guards: "guards R m \<Longrightarrow> (\<And>x. guards R (f x)) \<Longrightarrow> guards R (bindA m f)"
  unfolding guards_def bindA_def
  by (auto split: prod.splits sum.splits) (metis R_trans snd_conv)+

text \<open>The same, knowing that the value came out of \<open>m\<close>.\<close>

lemma bind_result:
  assumes "guards R m" "\<And>s x s'. m s = (Inr x, s') \<Longrightarrow> guards R (f x)"
  shows "guards R (bindA m f)"
  unfolding guards_def
proof
  fix s
  obtain r s1 where m: "m s = (r, s1)" by (cases "m s")
  have R1: "R s s1" using assms(1) m by (metis guards_def snd_conv)
  show "R s (snd (bindA m f s))"
  proof (cases r)
    case (Inr x)
    then have "R s1 (snd (f x s1))" using assms(2) m by (simp add: guards_def)
    with R1 show ?thesis by (auto simp: bindA_def m Inr intro: R_trans)
  qed (simp add: bindA_def m R1)
qed

lemma try_result:
  assumes "guards R m" "\<And>s r s'. m s = (r, s') \<Longrightarrow> guards R (f r)"
  shows "guards R (bindA (tryA m) f)"
  by (rule bind_result [OF try_guards [OF assms(1)]])
    (use assms(2) in \<open>auto simp: tryA_def split: prod.splits\<close>)

lemma for_guards: "(\<And>x. x \<in> set xs \<Longrightarrow> guards R (body x)) \<Longrightarrow> guards R (forA xs body)"
proof (induction xs)
  case Nil
  show ?case by (simp add: ret_guards)
next
  case (Cons x xs)
  have "guards R (case r of Some v \<Rightarrow> ret (Some v) | None \<Rightarrow> forA xs body)" for r
    using Cons by (cases r) (auto simp: ret_guards)
  then show ?case using Cons.prems by (auto intro: bind_guards)
qed

lemma map_guards: "(\<And>x. x \<in> set xs \<Longrightarrow> guards R (f x)) \<Longrightarrow> guards R (mapA f xs)"
  by (induction xs) (auto intro!: bind_guards ret_guards)

lemmas flow = ret_guards throw_guards gets_guards try_guards bind_guards

end

text \<open>\<open>guards_from P R m\<close> asks for the same only where \<open>P\<close> holds before.\<close>

definition guards_from :: "('s \<Rightarrow> bool) \<Rightarrow> ('s \<Rightarrow> 's \<Rightarrow> bool) \<Rightarrow> ('s, 'e, 'a) act \<Rightarrow> bool" where
  "guards_from P R m \<longleftrightarrow> (\<forall>s. P s \<longrightarrow> R s (snd (m s)))"

lemma guards_from_weaken: "guards R m \<Longrightarrow> guards_from P R m"
  by (simp add: guards_def guards_from_def)

text \<open>
  A gate: some effects are allowed only while \<open>gate\<close> holds, \<open>quiet\<close> steps keep it open,
  and a check that succeeds leaves it open. An action that runs its gated effects only
  after such a check, with quiet steps in between, guards \<open>R\<close> from every state.
\<close>

locale gated = guarantee R for R :: "'s \<Rightarrow> 's \<Rightarrow> bool" +
  fixes gate :: "'s \<Rightarrow> bool"
    and quiet :: "'s \<Rightarrow> 's \<Rightarrow> bool"
  assumes quiet_gate: "quiet s s' \<Longrightarrow> gate s \<Longrightarrow> gate s'"
begin

lemma open_bind:
  assumes "guards_from gate R m" "guards quiet m" "\<And>x. guards_from gate R (f x)"
  shows "guards_from gate R (bindA m f)"
  unfolding guards_from_def
proof (intro allI impI)
  fix s assume g: "gate s"
  obtain r s1 where m: "m s = (r, s1)" by (cases "m s")
  have R1: "R s s1" using assms(1) g m by (metis guards_from_def snd_conv)
  have "gate s1" using assms(2) g m quiet_gate by (metis guards_def snd_conv)
  then have "R s1 (snd (f x s1))" for x using assms(3) by (simp add: guards_from_def)
  with R1 show "R s (snd (bindA m f s))"
    by (auto simp: bindA_def m split: sum.splits intro: R_trans)
qed

lemma open_try: "guards_from gate R m \<Longrightarrow> guards_from gate R (tryA m)"
  unfolding guards_from_def tryA_def by (auto split: prod.splits)

lemma open_ret: "guards_from gate R (ret x)"
  by (intro guards_from_weaken ret_guards)

lemma open_throw: "guards_from gate R (throw e)"
  by (intro guards_from_weaken throw_guards)

lemmas open_flow = open_bind open_try open_ret open_throw

lemma check_bind:
  assumes "guards R m" "\<And>s x s'. m s = (Inr x, s') \<Longrightarrow> gate s'" "\<And>x. guards_from gate R (f x)"
  shows "guards R (bindA m f)"
  unfolding guards_def
proof
  fix s
  obtain r s1 where m: "m s = (r, s1)" by (cases "m s")
  have R1: "R s s1" using assms(1) m by (metis guards_def snd_conv)
  show "R s (snd (bindA m f s))"
  proof (cases r)
    case (Inr x)
    then have "gate s1" using assms(2) m by simp
    then have "R s1 (snd (f x s1))" using assms(3) by (simp add: guards_from_def)
    with R1 show ?thesis by (auto simp: bindA_def m Inr intro: R_trans)
  qed (simp add: bindA_def m R1)
qed

text \<open>The same for a check whose error is left to the code that follows.\<close>

lemma check_try:
  assumes "guards R m" "\<And>s x s'. m s = (Inr x, s') \<Longrightarrow> gate s'"
    and "\<And>x. guards_from gate R (f (Inr x))" "\<And>e. guards R (f (Inl e))"
  shows "guards R (bindA (tryA m) f)"
  unfolding guards_def
proof
  fix s
  obtain r s1 where m: "m s = (r, s1)" by (cases "m s")
  have R1: "R s s1" using assms(1) m by (metis guards_def snd_conv)
  have "R s1 (snd (f r s1))"
  proof (cases r)
    case (Inl e)
    with assms(4) show ?thesis by (simp add: guards_def)
  next
    case (Inr x)
    with assms(2,3) m show ?thesis by (auto simp: guards_from_def)
  qed
  with R1 show "R s (snd (bindA (tryA m) f s))"
    by (auto simp: bindA_def tryA_def m intro: R_trans)
qed

end

lemma guards_if [guards_intros]:
  "guards R a \<Longrightarrow> guards R b \<Longrightarrow> guards R (if c then a else b)"
  by simp

lemma guards_option [guards_intros]:
  "guards R a \<Longrightarrow> (\<And>x. guards R (f x)) \<Longrightarrow> guards R (case v of None \<Rightarrow> a | Some x \<Rightarrow> f x)"
  by (cases v) auto

lemma guards_sum [guards_intros]:
  "(\<And>e. guards R (g e)) \<Longrightarrow> (\<And>x. guards R (f x)) \<Longrightarrow>
   guards R (case v of Inl e \<Rightarrow> g e | Inr x \<Rightarrow> f x)"
  by (cases v) auto

lemma guards_list [guards_intros]:
  "guards R a \<Longrightarrow> (\<And>x xs. guards R (f x xs)) \<Longrightarrow>
   guards R (case v of [] \<Rightarrow> a | x # xs \<Rightarrow> f x xs)"
  by (cases v) auto

lemma guards_prod [guards_intros]:
  "(\<And>x y. guards R (f x y)) \<Longrightarrow> guards R (case v of (x, y) \<Rightarrow> f x y)"
  by (cases v) auto

lemma guards_bool [guards_intros]:
  "guards R a \<Longrightarrow> guards R b \<Longrightarrow> guards R (case c of True \<Rightarrow> a | False \<Rightarrow> b)"
  by (cases c) auto

lemma guards_let [guards_intros]: "(\<And>x. guards R (f x)) \<Longrightarrow> guards R (let x = v in f x)"
  by simp

text \<open>The same, knowing in each branch which one was taken.\<close>

lemma guards_if_known:
  "(c \<Longrightarrow> guards R a) \<Longrightarrow> (\<not> c \<Longrightarrow> guards R b) \<Longrightarrow> guards R (if c then a else b)"
  by simp

lemma guards_option_known:
  "(v = None \<Longrightarrow> guards R a) \<Longrightarrow> (\<And>x. v = Some x \<Longrightarrow> guards R (f x)) \<Longrightarrow>
   guards R (case v of None \<Rightarrow> a | Some x \<Rightarrow> f x)"
  by (cases v) auto

lemmas guards_known = guards_if_known guards_option_known

lemma guardsD: "guards R m \<Longrightarrow> m s = (r, s') \<Longrightarrow> R s s'"
  by (metis guards_def snd_conv)

text \<open>The same reductions where only \<open>guards_from\<close> is asked for.\<close>

lemma guards_from_if [guards_intros]:
  "guards_from P R a \<Longrightarrow> guards_from P R b \<Longrightarrow> guards_from P R (if c then a else b)"
  by simp

lemma guards_from_option [guards_intros]:
  "guards_from P R a \<Longrightarrow> (\<And>x. guards_from P R (f x)) \<Longrightarrow>
   guards_from P R (case v of None \<Rightarrow> a | Some x \<Rightarrow> f x)"
  by (cases v) auto

lemma guards_from_sum [guards_intros]:
  "(\<And>e. guards_from P R (g e)) \<Longrightarrow> (\<And>x. guards_from P R (f x)) \<Longrightarrow>
   guards_from P R (case v of Inl e \<Rightarrow> g e | Inr x \<Rightarrow> f x)"
  by (cases v) auto

lemma guards_from_list [guards_intros]:
  "guards_from P R a \<Longrightarrow> (\<And>x xs. guards_from P R (f x xs)) \<Longrightarrow>
   guards_from P R (case v of [] \<Rightarrow> a | x # xs \<Rightarrow> f x xs)"
  by (cases v) auto

lemma guards_from_prod [guards_intros]:
  "(\<And>x y. guards_from P R (f x y)) \<Longrightarrow> guards_from P R (case v of (x, y) \<Rightarrow> f x y)"
  by (cases v) auto

lemma guards_from_let [guards_intros]:
  "(\<And>x. guards_from P R (f x)) \<Longrightarrow> guards_from P R (let x = v in f x)"
  by simp

lemma guards_from_pre: "guards_from P R m \<Longrightarrow> (\<And>s. P' s \<Longrightarrow> P s) \<Longrightarrow> guards_from P' R m"
  by (simp add: guards_from_def)

lemma guards_from_true: "guards R m \<longleftrightarrow> guards_from (\<lambda>_. True) R m"
  by (simp add: guards_def guards_from_def)

end
