(* ===== verification/Go_Net.thy ===== *)
theory Go_Net
  imports Kairos_Prelude
begin

text \<open>
  The part of Go's standard library the source reads addresses and numbers with:
  \<open>net.ParseIP\<close>, \<open>net.IP.String\<close> and the address-class predicates of \<open>net.IP\<close>,
  \<open>net.SplitHostPort\<close> as far as the host goes, and \<open>strconv.ParseUint\<close> and
  \<open>FormatUint\<close> in base 16.

  An address is its 16 bytes (\<open>net.IP.To16\<close>), an IPv4 address its IPv4-mapped form, as
  \<open>net.ParseIP\<close> returns it.
\<close>

type_synonym ip = "nat list"


section \<open>Digits\<close>

definition digit_val :: "char \<Rightarrow> nat option" where
  "digit_val c = (if is_digit c then Some (of_char c - 48) else None)"

definition hex_val :: "char \<Rightarrow> nat option" where
  "hex_val c =
     (if is_digit c then Some (of_char c - 48)
      else if CHR ''a'' \<le> c \<and> c \<le> CHR ''f'' then Some (of_char c - 87)
      else if CHR ''A'' \<le> c \<and> c \<le> CHR ''F'' then Some (of_char c - 55)
      else None)"

definition hex_char :: "nat \<Rightarrow> char" where
  "hex_char n = (if n < 10 then char_of (48 + n) else char_of (87 + n))"

text \<open>\<open>strconv.FormatUint(n, base)\<close>, most significant digit first.\<close>

fun format_base :: "nat \<Rightarrow> nat \<Rightarrow> string" where
  "format_base b n =
     (if b < 2 \<or> n < b then [hex_char n] else format_base b (n div b) @ [hex_char (n mod b)])"

declare format_base.simps [simp del]

definition format_hex :: "nat \<Rightarrow> string" where
  "format_hex = format_base 16"

definition format_dec :: "nat \<Rightarrow> string" where
  "format_dec = format_base 10"

fun parse_hex_digits :: "nat \<Rightarrow> string \<Rightarrow> nat option" where
  "parse_hex_digits acc [] = Some acc"
| "parse_hex_digits acc (c # s) =
     (case hex_val c of None \<Rightarrow> None | Some d \<Rightarrow> parse_hex_digits (acc * 16 + d) s)"

text \<open>\<open>strconv.ParseUint(raw, 16, 64)\<close>: hexadecimal digits only, at least one, and a value
  that fits in 64 bits.\<close>

definition parse_uint_hex64 :: "string \<Rightarrow> nat option" where
  "parse_uint_hex64 s =
     (if s = [] then None
      else case parse_hex_digits 0 s of
             None \<Rightarrow> None
           | Some n \<Rightarrow> if n < 2 ^ 64 then Some n else None)"


section \<open>IPv4 and IPv6 text forms\<close>

definition v4_prefix :: "nat list" where
  "v4_prefix = [0,0,0,0,0,0,0,0,0,0,255,255]"

fun v4_field_digits :: "nat \<Rightarrow> string \<Rightarrow> nat option" where
  "v4_field_digits acc [] = Some acc"
| "v4_field_digits acc (c # s) =
     (case digit_val c of
        None \<Rightarrow> None
      | Some d \<Rightarrow> if acc * 10 + d > 255 then None else v4_field_digits (acc * 10 + d) s)"

text \<open>One decimal field: digits only, no leading zero, at most 255.\<close>

definition v4_field :: "string \<Rightarrow> nat option" where
  "v4_field s =
     (if s = [] then None
      else if length s > 1 \<and> hd s = CHR ''0'' then None
      else v4_field_digits 0 s)"

definition parse_v4 :: "string \<Rightarrow> nat list option" where
  "parse_v4 s =
     (case map v4_field (split_on CHR ''.'' s) of
        [Some a, Some b, Some c, Some d] \<Rightarrow> Some [a, b, c, d]
      | _ \<Rightarrow> None)"

fun take_hex :: "string \<Rightarrow> string \<times> string" where
  "take_hex [] = ([], [])"
| "take_hex (c # s) =
     (if hex_val c = None then ([], c # s)
      else (case take_hex s of (a, b) \<Rightarrow> (c # a, b)))"

text \<open>
  The loop of \<open>netip.parseIPv6\<close>: groups of one to four hexadecimal digits separated by
  colons, at most one ellipsis, and a dotted IPv4 tail in the last two groups. The first
  argument bounds the groups (a group fills two of the sixteen bytes); \<open>out\<close> are the
  bytes read so far, \<open>ell\<close> the position of the ellipsis. The result carries the text
  left unread.
\<close>

fun parse_v6_loop :: "nat \<Rightarrow> string \<Rightarrow> nat list \<Rightarrow> nat option \<Rightarrow>
    (string \<times> nat list \<times> nat option) option" where
  "parse_v6_loop 0 s out ell = Some (s, out, ell)"
| "parse_v6_loop (Suc n) s out ell =
     (case take_hex s of (h, rest) \<Rightarrow>
        if h = [] \<or> length h > 4 then None
        else case rest of
          [] \<Rightarrow>
            (case parse_hex_digits 0 h of
               None \<Rightarrow> None
             | Some v \<Rightarrow> Some ([], out @ [v div 256, v mod 256], ell))
        | c # rest' \<Rightarrow>
            if c = CHR ''.'' then
              (if ell = None \<and> length out \<noteq> 12 then None
               else if length out + 4 > 16 then None
               else case parse_v4 s of
                      None \<Rightarrow> None
                    | Some v \<Rightarrow> Some ([], out @ v, ell))
            else if c \<noteq> CHR '':'' then None
            else case parse_hex_digits 0 h of
               None \<Rightarrow> None
             | Some v \<Rightarrow>
                let out' = out @ [v div 256, v mod 256] in
                (case rest' of
                   [] \<Rightarrow> None
                 | d # rest'' \<Rightarrow>
                     if d = CHR '':'' then
                       (if ell \<noteq> None then None
                        else if rest'' = [] then Some ([], out', Some (length out'))
                        else parse_v6_loop n rest'' out' (Some (length out')))
                     else parse_v6_loop n rest' out' ell))"

definition parse_v6 :: "string \<Rightarrow> ip option" where
  "parse_v6 s =
     (if s = ''::'' then Some (replicate 16 0)
      else case (if has_prefix s ''::'' then parse_v6_loop 8 (drop 2 s) [] (Some 0)
                 else parse_v6_loop 8 s [] None) of
        None \<Rightarrow> None
      | Some (left, out, ell) \<Rightarrow>
          if left \<noteq> [] then None
          else if length out < 16 then
            (case ell of
               None \<Rightarrow> None
             | Some e \<Rightarrow> Some (take e out @ replicate (16 - length out) 0 @ drop e out))
          else if ell \<noteq> None then None
          else Some out)"

text \<open>\<open>net.ParseIP\<close>: the first dot or colon decides the family; a zone is refused.\<close>

fun ip_family :: "string \<Rightarrow> char option" where
  "ip_family [] = None"
| "ip_family (c # s) = (if c \<in> {CHR ''.'', CHR '':'', CHR ''%''} then Some c else ip_family s)"

definition parse_ip :: "string \<Rightarrow> ip option" where
  "parse_ip s =
     (case ip_family s of
        None \<Rightarrow> None
      | Some c \<Rightarrow>
          if c = CHR ''.'' then map_option (\<lambda>v. v4_prefix @ v) (parse_v4 s)
          else if c = CHR '':'' then (if CHR ''%'' \<in> set s then None else parse_v6 s)
          else None)"


section \<open>Canonical text form\<close>

definition is_v4 :: "ip \<Rightarrow> bool" where
  "is_v4 a \<longleftrightarrow> take 12 a = v4_prefix"

fun groups_of :: "nat list \<Rightarrow> nat list" where
  "groups_of (a # b # bs) = (a * 256 + b) # groups_of bs"
| "groups_of _ = []"

definition zero_run :: "nat list \<Rightarrow> nat \<Rightarrow> nat" where
  "zero_run gs i = length (takeWhile (\<lambda>g. g = 0) (drop i gs))"

text \<open>The first longest run of at least two zero groups, as \<open>(start, length)\<close>.\<close>

definition best_run :: "nat list \<Rightarrow> (nat \<times> nat) option" where
  "best_run gs =
     fold (\<lambda>i best. let l = zero_run gs i in
             if l < 2 then best
             else case best of
                    None \<Rightarrow> Some (i, l)
                  | Some (_, l') \<Rightarrow> if l > l' then Some (i, l) else best)
          [0..<length gs] None"

definition v6_to_string :: "nat list \<Rightarrow> string" where
  "v6_to_string gs =
     (case best_run gs of
        None \<Rightarrow> join_str '':'' (map format_hex gs)
      | Some (i, l) \<Rightarrow>
          join_str '':'' (map format_hex (take i gs)) @ ''::'' @
          join_str '':'' (map format_hex (drop (i + l) gs)))"

definition ip_to_string :: "ip \<Rightarrow> string" where
  "ip_to_string a =
     (if is_v4 a then join_str ''.'' (map format_dec (drop 12 a))
      else v6_to_string (groups_of a))"


section \<open>Address classes\<close>

definition is_loopback :: "ip \<Rightarrow> bool" where
  "is_loopback a = (if is_v4 a then a ! 12 = 127 else a = replicate 15 0 @ [1])"

definition is_unspecified :: "ip \<Rightarrow> bool" where
  "is_unspecified a \<longleftrightarrow> a = v4_prefix @ [0, 0, 0, 0] \<or> a = replicate 16 0"

definition is_multicast :: "ip \<Rightarrow> bool" where
  "is_multicast a = (if is_v4 a then a ! 12 div 16 = 14 else a ! 0 = 255)"

definition is_link_local_unicast :: "ip \<Rightarrow> bool" where
  "is_link_local_unicast a =
     (if is_v4 a then a ! 12 = 169 \<and> a ! 13 = 254 else a ! 0 = 254 \<and> a ! 1 div 64 = 2)"

definition is_global_unicast :: "ip \<Rightarrow> bool" where
  "is_global_unicast a \<longleftrightarrow>
     a \<noteq> v4_prefix @ [255, 255, 255, 255] \<and> \<not> is_unspecified a \<and> \<not> is_loopback a \<and>
     \<not> is_multicast a \<and> \<not> is_link_local_unicast a"

text \<open>
  \<open>net.SplitHostPort\<close>: the host of \<open>host:port\<close> or \<open>[host]:port\<close>, \<open>None\<close> when it returns
  an error (no port, an unbracketed host with a colon, stray brackets).
\<close>

definition split_last_colon :: "string \<Rightarrow> (string \<times> string) option" where
  "split_last_colon s =
     (if CHR '':'' \<in> set s
      then let p = takeWhile (\<lambda>c. c \<noteq> CHR '':'') (rev s) in
           Some (take (length s - length p - 1) s, rev p)
      else None)"

definition split_host :: "string \<Rightarrow> string option" where
  "split_host s =
     (case split_last_colon s of
        None \<Rightarrow> None
      | Some (host, port) \<Rightarrow>
          if s \<noteq> [] \<and> hd s = CHR ''['' then
            (if host \<noteq> [] \<and> last host = CHR '']'' then
               let h = butlast (tl host) in
               if CHR ''['' \<in> set h \<or> CHR '']'' \<in> set h \<or>
                  CHR ''['' \<in> set port \<or> CHR '']'' \<in> set port then None else Some h
             else None)
          else if CHR '':'' \<in> set host then None
          else if CHR ''['' \<in> set s \<or> CHR '']'' \<in> set s then None
          else Some host)"

text \<open>\<open>net.JoinHostPort\<close> brackets a host with a colon.\<close>

definition join_host_port :: "string \<Rightarrow> string \<Rightarrow> string" where
  "join_host_port h p = (if CHR '':'' \<in> set h then ''['' @ h @ '']:'' @ p else h @ '':'' @ p)"


section \<open>Lemmas\<close>

lemma hex_val_hex_char: "n < 16 \<Longrightarrow> hex_val (hex_char n) = Some n"
  by (cases "n < 10")
    (auto simp: hex_val_def hex_char_def char_class_defs less_eq_char_def of_char_of)

lemma parse_hex_digits_append:
  "parse_hex_digits acc (s @ t) =
   (case parse_hex_digits acc s of None \<Rightarrow> None | Some n \<Rightarrow> parse_hex_digits n t)"
  by (induction s arbitrary: acc) (auto split: option.splits)

lemma parse_hex_format: "parse_hex_digits 0 (format_hex n) = Some n"
  unfolding format_hex_def
proof (induction n rule: less_induct)
  case (less n)
  show ?case
  proof (cases "n < 16")
    case True
    then show ?thesis by (simp add: format_base.simps [of 16 n] hex_val_hex_char)
  next
    case False
    then have "parse_hex_digits 0 (format_base 16 (n div 16)) = Some (n div 16)"
      by (intro less) auto
    with False show ?thesis
      by (simp add: format_base.simps [of 16 n] parse_hex_digits_append hex_val_hex_char)
  qed
qed

lemma format_base_nonempty [simp]: "format_base b n \<noteq> []"
  by (subst format_base.simps) auto

lemma parse_format_hex64: "n < 2 ^ 64 \<Longrightarrow> parse_uint_hex64 (format_hex n) = Some n"
  by (simp add: parse_uint_hex64_def parse_hex_format) (simp add: format_hex_def)

definition is_hex_lower :: "char \<Rightarrow> bool" where
  "is_hex_lower c \<longleftrightarrow> is_digit c \<or> (CHR ''a'' \<le> c \<and> c \<le> CHR ''f'')"

lemma hex_char_chars: "n < 16 \<Longrightarrow> is_hex_lower (hex_char n)"
  by (auto simp: is_hex_lower_def hex_char_def is_digit_def less_eq_char_def of_char_of)

lemma format_hex_chars: "list_all is_hex_lower (format_hex n)"
  unfolding format_hex_def
proof (induction n rule: less_induct)
  case (less n)
  show ?case
  proof (cases "n < 16")
    case True
    then show ?thesis by (simp add: format_base.simps [of 16 n] hex_char_chars)
  next
    case False
    then have "list_all is_hex_lower (format_base 16 (n div 16))"
      by (intro less) auto
    with False show ?thesis
      by (simp add: format_base.simps [of 16 n] hex_char_chars)
  qed
qed

end
