(* ===== verification/Go_Time.thy ===== *)
theory Go_Time
  imports Go_Net
begin

text \<open>
  Go's \<open>time\<close> package as far as the source uses it: instants and durations in
  nanoseconds, and the RFC 3339 text form every stamp annotation holds
  (\<open>time.Parse(time.RFC3339, s)\<close> and \<open>t.UTC().Format(time.RFC3339)\<close>).

  An instant counts nanoseconds since 0000-01-01T00:00:00Z in the proleptic Gregorian
  calendar. Formatting truncates to the second, and parsing what was formatted gives the
  truncated instant back (\<open>parse_format_rfc3339\<close>), for the four-digit years.
\<close>

type_synonym time = int
type_synonym duration = int

definition ns_per_s :: int where "ns_per_s = 1000000000"

definition seconds :: "int \<Rightarrow> duration" where "seconds n = n * ns_per_s"
definition minutes :: "int \<Rightarrow> duration" where "minutes n = seconds (60 * n)"
definition hours :: "int \<Rightarrow> duration" where "hours n = minutes (60 * n)"

lemmas duration_defs = ns_per_s_def seconds_def minutes_def hours_def

text \<open>The instant at the start of the second \<open>t\<close> lies in.\<close>

definition trunc_s :: "time \<Rightarrow> time" where
  "trunc_s t = t div ns_per_s * ns_per_s"

lemma trunc_s_bounds: "trunc_s t \<le> t \<and> t < trunc_s t + ns_per_s"
proof -
  have "t = t div ns_per_s * ns_per_s + t mod ns_per_s" by simp
  moreover have "0 \<le> t mod ns_per_s" "t mod ns_per_s < ns_per_s"
    by (simp_all add: ns_per_s_def)
  ultimately show ?thesis unfolding trunc_s_def by linarith
qed


section \<open>The calendar\<close>

definition leap :: "nat \<Rightarrow> bool" where
  "leap y \<longleftrightarrow> y mod 4 = 0 \<and> (y mod 100 \<noteq> 0 \<or> y mod 400 = 0)"

definition year_len :: "nat \<Rightarrow> nat" where
  "year_len y = (if leap y then 366 else 365)"

definition month_lens :: "nat \<Rightarrow> nat list" where
  "month_lens y = [31, if leap y then 29 else 28, 31, 30, 31, 30, 31, 31, 30, 31, 30, 31]"

text \<open>The days from year 0 to the start of year \<open>y\<close>.\<close>

definition days_before_year :: "nat \<Rightarrow> nat" where
  "days_before_year y = 365 * y + (y + 3) div 4 + (y + 399) div 400 - (y + 99) div 100"

lemma div_step: "0 < k \<Longrightarrow> (Suc y + (k - 1)) div k = (y + (k - 1)) div k + (if y mod k = 0 then 1 else 0)"
  for k :: nat
  using div_Suc [of "y + (k - 1)" k] by simp

lemma day_arith:
  "q2 \<le> 365 * y \<Longrightarrow> b \<le> 1 \<Longrightarrow>
   365 * Suc y + (q1 + a) + (q3 + c) - (q2 + b) = (365 * y + q1 + q3 - q2) + (365 + a + c - b)"
  for y :: nat
  by arith

lemma days_before_year_Suc: "days_before_year (Suc y) = days_before_year y + year_len y"
proof -
  have a: "(Suc y + 3) div 4 = (y + 3) div 4 + (if y mod 4 = 0 then 1 else 0)"
    using div_step [of 4 y] by simp
  have b: "(Suc y + 99) div 100 = (y + 99) div 100 + (if y mod 100 = 0 then 1 else 0)"
    using div_step [of 100 y] by simp
  have c: "(Suc y + 399) div 400 = (y + 399) div 400 + (if y mod 400 = 0 then 1 else 0)"
    using div_step [of 400 y] by simp
  have d: "(y + 99) div 100 \<le> y + 1"
    by (rule order_trans [OF div_le_mono [of "y + 99" "(y + 1) * 100" 100]]) auto
  have e: "y mod 400 = 0 \<Longrightarrow> y mod 100 = 0" "y mod 100 = 0 \<Longrightarrow> y mod 4 = 0"
    by (auto simp: mod_eq_0_iff_dvd elim: dvd_trans [rotated])
  show ?thesis
  proof (cases "y = 0")
    case True
    then show ?thesis by (simp add: days_before_year_def year_len_def leap_def)
  next
    case False
    with d have "(y + 99) div 100 \<le> 365 * y" by linarith
    then show ?thesis
      unfolding days_before_year_def a b c
      by (subst day_arith) (use e in \<open>auto simp: year_len_def leap_def\<close>)
  qed
qed

lemma days_before_cycle: "days_before_year (400 * k) = 146097 * k"
proof (induction k)
  case 0
  show ?case by (simp add: days_before_year_def)
next
  case (Suc k)
  have "(400 * k + 3) div 4 = 100 * k" "(400 * k + 99) div 100 = 4 * k" "(400 * k + 399) div 400 = k"
    for k :: nat by simp_all
  then show ?case by (simp add: days_before_year_def)
qed

lemma days_before_year_mono: "y \<le> z \<Longrightarrow> days_before_year y \<le> days_before_year z"
  by (induction rule: dec_induct) (auto simp: days_before_year_Suc)

text \<open>Split a day number into a year and a day of that year, and that into a month and a
  day of the month (both counted from 0).\<close>

function year_from :: "nat \<Rightarrow> nat \<Rightarrow> nat \<times> nat" where
  "year_from y d = (if d < year_len y then (y, d) else year_from (Suc y) (d - year_len y))"
  by pat_completeness auto
termination
  by (relation "measure snd") (auto simp: year_len_def)

declare year_from.simps [simp del]

definition year_of_days :: "nat \<Rightarrow> nat \<times> nat" where
  "year_of_days d = year_from (400 * (d div 146097)) (d mod 146097)"

fun month_from :: "nat list \<Rightarrow> nat \<Rightarrow> nat \<times> nat" where
  "month_from [] d = (0, d)"
| "month_from (l # ls) d =
     (if d < l then (0, d) else case month_from ls (d - l) of (m, r) \<Rightarrow> (Suc m, r))"

lemma year_from_spec:
  "year_from y d = (y', r) \<Longrightarrow> days_before_year y + d = days_before_year y' + r \<and> r < year_len y'"
proof (induction y d arbitrary: y' r rule: year_from.induct)
  case (1 y d)
  show ?case
  proof (cases "d < year_len y")
    case True
    with 1 show ?thesis by (auto simp: year_from.simps [of y d])
  next
    case False
    with 1 show ?thesis
      by (fastforce simp: year_from.simps [of y d] days_before_year_Suc)
  qed
qed

lemma year_of_days_spec:
  assumes "year_of_days d = (y, r)"
  shows "d = days_before_year y + r \<and> r < year_len y"
proof -
  have "days_before_year (400 * (d div 146097)) + d mod 146097 = days_before_year y + r \<and> r < year_len y"
    using year_from_spec assms by (simp add: year_of_days_def)
  then show ?thesis by (simp add: days_before_cycle)
qed

lemma month_from_spec:
  "month_from ls d = (m, r) \<Longrightarrow> d < sum_list ls \<Longrightarrow>
   m < length ls \<and> d = sum_list (take m ls) + r \<and> r < ls ! m"
  by (induction ls arbitrary: d m r) (auto split: if_splits prod.splits, fastforce+)

lemma sum_month_lens: "sum_list (month_lens y) = year_len y"
  by (simp add: month_lens_def year_len_def)

lemma year_of_days_bound: "year_of_days d = (y, r) \<Longrightarrow> d < days_before_year 10000 \<Longrightarrow> y < 10000"
  using year_of_days_spec [of d y r] days_before_year_mono [of 10000 y] by fastforce


section \<open>RFC 3339\<close>

definition dig :: "nat \<Rightarrow> char" where "dig n = char_of (48 + n)"

definition pad2 :: "nat \<Rightarrow> string" where "pad2 n = [dig (n div 10 mod 10), dig (n mod 10)]"

definition pad4 :: "nat \<Rightarrow> string" where
  "pad4 n = [dig (n div 1000 mod 10), dig (n div 100 mod 10), dig (n div 10 mod 10), dig (n mod 10)]"

text \<open>\<open>t.UTC().Format(time.RFC3339)\<close>.\<close>

definition format_rfc3339 :: "time \<Rightarrow> string" where
  "format_rfc3339 t =
     (let s = nat (t div ns_per_s);
          (y, r) = year_of_days (s div 86400);
          (m, d) = month_from (month_lens y) r;
          sod = s mod 86400
      in pad4 y @ ''-'' @ pad2 (m + 1) @ ''-'' @ pad2 (d + 1) @ ''T'' @
         pad2 (sod div 3600) @ '':'' @ pad2 (sod mod 3600 div 60) @ '':'' @ pad2 (sod mod 60) @ ''Z'')"

fun parse_num :: "nat \<Rightarrow> nat \<Rightarrow> string \<Rightarrow> (nat \<times> string) option" where
  "parse_num 0 acc s = Some (acc, s)"
| "parse_num (Suc k) acc [] = None"
| "parse_num (Suc k) acc (c # s) =
     (case digit_val c of None \<Rightarrow> None | Some d \<Rightarrow> parse_num k (acc * 10 + d) s)"

fun expect :: "char \<Rightarrow> string \<Rightarrow> string option" where
  "expect c [] = None"
| "expect c (d # s) = (if c = d then Some s else None)"

text \<open>The hour may be written with one digit, as \<open>time.Parse\<close> accepts it.\<close>

definition parse_hour :: "string \<Rightarrow> (nat \<times> string) option" where
  "parse_hour s =
     (case parse_num 2 0 s of Some r \<Rightarrow> Some r | None \<Rightarrow> parse_num 1 0 s)"

text \<open>A fraction of a second after a dot or a comma: nanoseconds, further digits dropped.\<close>

definition parse_frac :: "string \<Rightarrow> int \<times> string" where
  "parse_frac s =
     (case s of
        c # s' \<Rightarrow>
          let ds = takeWhile is_digit s' in
          if (c = CHR ''.'' \<or> c = CHR '','') \<and> ds \<noteq> [] then
            (foldl (\<lambda>acc d. acc * 10 + int (of_char d) - 48) 0 (take 9 (ds @ replicate 9 (CHR ''0''))),
             dropWhile is_digit s')
          else (0, s)
      | [] \<Rightarrow> (0, s))"

text \<open>The zone: \<open>Z\<close>, or a signed offset of hours up to 24 and minutes up to 60, in seconds.\<close>

definition parse_zone :: "string \<Rightarrow> int option" where
  "parse_zone s =
     (if s = ''Z'' then Some 0
      else case s of
        sg # s1 \<Rightarrow>
          (if sg \<noteq> CHR ''+'' \<and> sg \<noteq> CHR ''-'' then None
           else Option.bind (parse_num 2 0 s1) (\<lambda>(h, s2).
                Option.bind (expect CHR '':'' s2) (\<lambda>s3.
                Option.bind (parse_num 2 0 s3) (\<lambda>(mi, s4).
                  if s4 = [] \<and> h \<le> 24 \<and> mi \<le> 60
                  then Some ((if sg = CHR ''-'' then -1 else 1) * int ((h * 60 + mi) * 60))
                  else None))))
      | [] \<Rightarrow> None)"

text \<open>\<open>time.Parse(time.RFC3339, s)\<close>, with \<open>None\<close> for an error.\<close>

definition parse_rfc3339 :: "string \<Rightarrow> time option" where
  "parse_rfc3339 s =
     Option.bind (parse_num 4 0 s) (\<lambda>(y, s).
     Option.bind (expect CHR ''-'' s) (\<lambda>s.
     Option.bind (parse_num 2 0 s) (\<lambda>(m, s).
     Option.bind (expect CHR ''-'' s) (\<lambda>s.
     Option.bind (parse_num 2 0 s) (\<lambda>(d, s).
     Option.bind (expect CHR ''T'' s) (\<lambda>s.
     Option.bind (parse_hour s) (\<lambda>(h, s).
     Option.bind (expect CHR '':'' s) (\<lambda>s.
     Option.bind (parse_num 2 0 s) (\<lambda>(mi, s).
     Option.bind (expect CHR '':'' s) (\<lambda>s.
     Option.bind (parse_num 2 0 s) (\<lambda>(se, s).
     (case parse_frac s of (ns, s) \<Rightarrow>
     Option.bind (parse_zone s) (\<lambda>off.
       if 1 \<le> m \<and> m \<le> 12 \<and> 1 \<le> d \<and> d \<le> month_lens y ! (m - 1) \<and> h < 24 \<and> mi < 60 \<and> se < 60
       then Some ((int (days_before_year y + sum_list (take (m - 1) (month_lens y)) + (d - 1)) * 86400
                   + int (h * 3600 + mi * 60 + se) - off) * ns_per_s + ns)
       else None)))))))))))))"

lemma digit_val_dig [simp]: "n < 10 \<Longrightarrow> digit_val (dig n) = Some n"
  by (simp add: digit_val_def dig_def is_digit_def less_eq_char_def of_char_of)

lemma parse_pad2 [simp]: "n < 100 \<Longrightarrow> parse_num 2 0 (pad2 n @ s) = Some (n, s)"
  by (simp add: pad2_def numeral_2_eq_2)

lemma parse_four_digits:
  "a < 10 \<Longrightarrow> b < 10 \<Longrightarrow> c < 10 \<Longrightarrow> d < 10 \<Longrightarrow>
   parse_num 4 0 ([dig a, dig b, dig c, dig d] @ s) = Some (((a * 10 + b) * 10 + c) * 10 + d, s)"
  by (simp add: eval_nat_numeral)

lemma parse_pad4 [simp]: "n < 10000 \<Longrightarrow> parse_num 4 0 (pad4 n @ s) = Some (n, s)"
proof -
  assume n: "n < 10000"
  have "n div 1000 < 10" using n by (simp add: less_mult_imp_div_less)
  moreover have "n div 1000 = n div 100 div 10" "n div 100 = n div 10 div 10"
    by (simp_all flip: div_mult2_eq)
  ultimately have "(((n div 1000 mod 10) * 10 + n div 100 mod 10) * 10 + n div 10 mod 10) * 10 + n mod 10 = n"
    by (metis div_mult_mod_eq mod_less)
  then show ?thesis
    using parse_four_digits [of "n div 1000 mod 10" "n div 100 mod 10" "n div 10 mod 10" "n mod 10" s]
    unfolding pad4_def by (metis mod_less_divisor zero_less_numeral)
qed

lemma expect_same [simp]: "expect c (c # s) = Some s"
  by simp

lemma time_split: "(s :: nat) = s div 86400 * 86400 + (s mod 86400 div 3600 * 3600 + s mod 86400 mod 3600 div 60 * 60 + s mod 86400 mod 60)"
proof -
  have "s mod 86400 mod 3600 mod 60 = s mod 86400 mod 60" by (rule mod_mod_cancel) simp
  then show ?thesis
    using div_mult_mod_eq [of s 86400] div_mult_mod_eq [of "s mod 86400" 3600]
      div_mult_mod_eq [of "s mod 86400 mod 3600" 60] by linarith
qed

lemma parse_fields:
  assumes "y < 10000" "m < 12" "d < month_lens y ! m" "d < 31" "h < 24" "mi < 60" "se < 60"
  shows "parse_rfc3339 (pad4 y @ ''-'' @ pad2 (m + 1) @ ''-'' @ pad2 (d + 1) @ ''T'' @
      pad2 h @ '':'' @ pad2 mi @ '':'' @ pad2 se @ ''Z'') =
    Some ((int (days_before_year y + sum_list (take m (month_lens y)) + d) * 86400
          + int (h * 3600 + mi * 60 + se)) * ns_per_s)"
  unfolding parse_rfc3339_def parse_hour_def
  using assms by (simp add: parse_frac_def parse_zone_def)

lemma parse_format_rfc3339:
  assumes "0 \<le> t" "t < int (days_before_year 10000) * 86400 * ns_per_s"
  shows "parse_rfc3339 (format_rfc3339 t) = Some (trunc_s t)"
proof -
  define s where "s = nat (t div ns_per_s)"
  obtain y r where yr: "year_of_days (s div 86400) = (y, r)" by fastforce
  obtain m d where md: "month_from (month_lens y) r = (m, d)" by fastforce
  have "t div ns_per_s < int (days_before_year 10000) * 86400"
    using assms(2) by (simp add: ns_per_s_def)
  moreover have nonneg: "0 \<le> t div ns_per_s" using assms(1) by (simp add: ns_per_s_def)
  ultimately have "s < days_before_year 10000 * 86400" unfolding s_def by linarith
  then have "s div 86400 < days_before_year 10000" by (simp add: less_mult_imp_div_less)
  with yr have y: "y < 10000" by (rule year_of_days_bound)
  have days: "s div 86400 = days_before_year y + r" and r: "r < year_len y"
    using year_of_days_spec [OF yr] by auto
  have m: "m < 12" and rd: "r = sum_list (take m (month_lens y)) + d"
    and d: "d < month_lens y ! m"
    using month_from_spec [OF md] r by (auto simp: sum_month_lens) (auto simp: month_lens_def)
  have "\<forall>l\<in>set (month_lens y). l \<le> 31" "length (month_lens y) = 12"
    by (simp_all add: month_lens_def)
  with m have "month_lens y ! m \<le> 31" by simp
  with d have d31: "d < 31" by simp
  have form: "format_rfc3339 t = pad4 y @ ''-'' @ pad2 (m + 1) @ ''-'' @ pad2 (d + 1) @ ''T'' @
      pad2 (s mod 86400 div 3600) @ '':'' @ pad2 (s mod 86400 mod 3600 div 60) @ '':'' @
      pad2 (s mod 86400 mod 60) @ ''Z''"
    by (simp add: format_rfc3339_def s_def [symmetric] yr md Let_def)
  have bounds: "s mod 86400 div 3600 < 24" "s mod 86400 mod 3600 div 60 < 60" "s mod 86400 mod 60 < 60"
    by (rule less_mult_imp_div_less, simp)+ simp
  have whole: "int ((s div 86400) * 86400) + int (s mod 86400 div 3600 * 3600 +
      s mod 86400 mod 3600 div 60 * 60 + s mod 86400 mod 60) = t div ns_per_s"
  proof -
    have "int s = t div ns_per_s" using nonneg by (simp add: s_def)
    moreover have "int s = int ((s div 86400) * 86400) + int (s mod 86400 div 3600 * 3600 +
        s mod 86400 mod 3600 div 60 * 60 + s mod 86400 mod 60)"
      using arg_cong [OF time_split [of s], of int] by (simp only: of_nat_add)
    ultimately show ?thesis by (simp only:)
  qed
  have "parse_rfc3339 (format_rfc3339 t) =
      Some ((int (days_before_year y + sum_list (take m (month_lens y)) + d) * 86400 +
             int (s mod 86400 div 3600 * 3600 + s mod 86400 mod 3600 div 60 * 60 + s mod 86400 mod 60)) * ns_per_s)"
    unfolding form by (rule parse_fields [OF y m d d31 bounds])
  moreover have "int (days_before_year y + sum_list (take m (month_lens y)) + d) * 86400 =
      int ((s div 86400) * 86400)"
    unfolding days rd by simp
  ultimately show ?thesis unfolding trunc_s_def using whole by simp
qed

text \<open>A stamp holds digits and the separators only.\<close>

lemma set_dig: "n < 10 \<Longrightarrow> is_digit (dig n)"
  by (simp add: dig_def is_digit_def less_eq_char_def of_char_of)

lemma format_rfc3339_chars:
  "list_all (\<lambda>c. is_digit c \<or> c \<in> set ''-:TZ'') (format_rfc3339 t)"
  by (simp add: format_rfc3339_def Let_def pad2_def pad4_def set_dig split: prod.splits)

end
