(* ===== verification/Kubeconfig_Sanitize.thy ===== *)
theory Kubeconfig_Sanitize
  imports Go_Time
begin

text \<open>
  The kubeconfig sanitizer: \<open>internal/kubeconfig\<close> (\<open>sanitize.go\<close>, \<open>errors.go\<close>, \<open>expiry.go\<close>).

  A kubeconfig a node pushed is decoded, checked entry by entry against what is not allowed
  (S0 to S4), and rebuilt from the caller's server and cluster name, the CA bundle and the
  credentials (S5). A rejection is its reason; its message is not modelled.

  Reading and writing YAML (\<open>clientcmd.Load\<close>, \<open>clientcmd.Write\<close>), PEM blocks, X.509
  certificates, key pairs, URLs and SHA-256 are the parameters of \<open>kubelib\<close>. What the
  properties need of them is stated as \<open>writes_back\<close> and \<open>pem_law\<close>.
\<close>


section \<open>Kubeconfigs\<close>

text \<open>\<open>clientcmdapi.Config\<close> as loaded: a Go map is a list without repeated keys, a nil entry
  is \<open>None\<close>. Of \<open>Extensions\<close>, \<open>ImpersonateGroups\<close> and \<open>ImpersonateUserExtra\<close> the number of
  entries is kept, of \<open>Exec\<close> and \<open>AuthProvider\<close> whether they are set.\<close>

record kc_cluster =
  cl_server :: string
  cl_ca_file :: string
  cl_ca_data :: string
  cl_insecure :: bool
  cl_proxy :: string
  cl_tls_name :: string
  cl_extensions :: nat

record kc_user =
  us_token_file :: string
  us_cert_file :: string
  us_key_file :: string
  us_exec :: bool
  us_auth_provider :: bool
  us_username :: string
  us_password :: string
  us_impersonate :: string
  us_impersonate_uid :: string
  us_impersonate_groups :: nat
  us_impersonate_extra :: nat
  us_extensions :: nat
  us_cert :: string
  us_key :: string
  us_token :: string

record kc_context =
  cx_cluster :: string
  cx_user :: string
  cx_namespace :: string
  cx_extensions :: nat

record kc_config =
  cf_clusters :: "(string \<times> kc_cluster option) list"
  cf_users :: "(string \<times> kc_user option) list"
  cf_contexts :: "(string \<times> kc_context option) list"
  cf_current :: string
  cf_extensions :: nat
  cf_preferences :: nat

record pem_block =
  pb_type :: string
  pb_bytes :: string

record x509_cert =
  xc_ca :: bool
  xc_not_before :: time
  xc_not_after :: time

text \<open>\<open>kl_pem\<close> is \<open>pem.Decode\<close>, \<open>None\<close> when there is no further block; \<open>kl_pem_encode\<close> is
  \<open>pem.EncodeToMemory\<close> of a CERTIFICATE block.\<close>

record kubelib =
  kl_url_ok :: "string \<Rightarrow> bool"
  kl_load :: "string \<Rightarrow> kc_config option"
  kl_write :: "kc_config \<Rightarrow> string option"
  kl_pem :: "string \<Rightarrow> (pem_block \<times> string) option"
  kl_pem_encode :: "string \<Rightarrow> string"
  kl_x509 :: "string \<Rightarrow> x509_cert option"
  kl_pair_ok :: "string \<Rightarrow> string \<Rightarrow> bool"
  kl_sha256_hex :: "string \<Rightarrow> string"


section \<open>Rejections\<close>

datatype rejection = Oversized | Unparseable | Structure | UnsafeCluster | UnsafeIdentity
  | Credentials | Expired

text \<open>What \<open>Sanitize\<close> returns as error: a \<open>RejectedError\<close>, or the failure to serialize its own
  output.\<close>

datatype sanitize_error = Rejected rejection | WriteFailed

definition max_size :: nat where "max_size = 64 * 1024"


section \<open>White space\<close>

text \<open>\<open>len(bytes.TrimSpace(s)) == 0\<close>: only the UTF-8 forms of the characters \<open>unicode.IsSpace\<close>
  accepts.\<close>

definition go_spaces :: "nat list list" where
  "go_spaces = [[9], [10], [11], [12], [13], [32], [194, 133], [194, 160], [225, 154, 128],
     [226, 128, 128], [226, 128, 129], [226, 128, 130], [226, 128, 131], [226, 128, 132],
     [226, 128, 133], [226, 128, 134], [226, 128, 135], [226, 128, 136], [226, 128, 137],
     [226, 128, 138], [226, 128, 168], [226, 128, 169], [226, 128, 175], [226, 129, 159],
     [227, 128, 128]]"

lemma go_space_word: "w \<in> set go_spaces \<Longrightarrow> w \<noteq> []"
  by (auto simp: go_spaces_def)

function only_space :: "nat list \<Rightarrow> bool" where
  "only_space bs =
     (if bs = [] then True
      else case find (\<lambda>w. take (length w) bs = w) go_spaces of
        None \<Rightarrow> False
      | Some w \<Rightarrow> only_space (drop (length w) bs))"
  by pat_completeness auto
termination
  by (relation "measure length") (auto dest!: find_member go_space_word)

declare only_space.simps [simp del]


section \<open>Clusters (S2)\<close>

text \<open>\<open>validateCABundle\<close>: the canonical bundle, or \<open>None\<close> when it is refused. The loop carries
  what has been encoded, whether a block and whether a CA has been seen. \<open>pem.Decode\<close>
  consumes what it returns, so the rest is shorter.\<close>

function ca_bundle_loop :: "kubelib \<Rightarrow> string \<Rightarrow> string \<Rightarrow> nat \<Rightarrow> bool \<Rightarrow> string option" where
  "ca_bundle_loop L rest canonical blocks sawCA =
     (case kl_pem L rest of
        Some (block, rest') \<Rightarrow>
          if pb_type block \<noteq> ''CERTIFICATE'' then None
          else (case kl_x509 L (pb_bytes block) of
                  None \<Rightarrow> None
                | Some cert \<Rightarrow>
                    if length rest' < length rest
                    then ca_bundle_loop L rest' (canonical @ kl_pem_encode L (pb_bytes block))
                           (Suc blocks) (sawCA \<or> xc_ca cert)
                    else None)
      | None \<Rightarrow>
          if blocks = 0 then None
          else if \<not> only_space (map of_char rest) then None
          else if \<not> sawCA then None
          else Some canonical)"
  by pat_completeness auto
termination by (relation "measure (\<lambda>(L, rest, c, b, s). length rest)") auto

declare ca_bundle_loop.simps [simp del]

definition validateCABundle :: "kubelib \<Rightarrow> string \<Rightarrow> string option" where
  "validateCABundle L data = ca_bundle_loop L data [] 0 False"

definition validateClusterEntry :: "kubelib \<Rightarrow> kc_cluster option \<Rightarrow> rejection + string" where
  "validateClusterEntry L e = (case e of
     None \<Rightarrow> Inl UnsafeCluster
   | Some c \<Rightarrow>
       if cl_ca_file c \<noteq> [] then Inl UnsafeCluster
       else if cl_insecure c then Inl UnsafeCluster
       else if cl_proxy c \<noteq> [] then Inl UnsafeCluster
       else if cl_tls_name c \<noteq> [] then Inl UnsafeCluster
       else if cl_extensions c \<noteq> 0 then Inl UnsafeCluster
       else if cl_ca_data c = [] then Inl UnsafeCluster
       else (case validateCABundle L (cl_ca_data c) of
               None \<Rightarrow> Inl UnsafeCluster
             | Some ca \<Rightarrow> Inr ca))"


section \<open>Users and contexts (S3, S4)\<close>

text \<open>The credentials a user entry is accepted with: certificate, key and token.\<close>

type_synonym credentials = "string \<times> string \<times> string"

definition validateUserEntry :: "kubelib \<Rightarrow> kc_user option \<Rightarrow> rejection + credentials" where
  "validateUserEntry L e = (case e of
     None \<Rightarrow> Inl UnsafeIdentity
   | Some u \<Rightarrow>
       if us_token_file u \<noteq> [] then Inl UnsafeIdentity
       else if us_cert_file u \<noteq> [] then Inl UnsafeIdentity
       else if us_key_file u \<noteq> [] then Inl UnsafeIdentity
       else if us_exec u then Inl UnsafeIdentity
       else if us_auth_provider u then Inl UnsafeIdentity
       else if us_username u \<noteq> [] \<or> us_password u \<noteq> [] then Inl UnsafeIdentity
       else if us_impersonate u \<noteq> [] \<or> us_impersonate_uid u \<noteq> [] \<or> us_impersonate_groups u \<noteq> 0 \<or>
         us_impersonate_extra u \<noteq> 0 then Inl UnsafeIdentity
       else if us_extensions u \<noteq> 0 then Inl UnsafeIdentity
       else
         (let pair = us_cert u \<noteq> [] \<or> us_key u \<noteq> []; token = us_token u \<noteq> [] in
          if pair \<and> token then Inl Credentials
          else if pair then
            (if us_cert u = [] \<or> us_key u = [] then Inl Credentials
             else if \<not> kl_pair_ok L (us_cert u) (us_key u) then Inl Credentials
             else Inr (us_cert u, us_key u, []))
          else if token then Inr ([], [], us_token u)
          else Inl Credentials))"

definition validateContextEntry :: "kc_context option \<Rightarrow> rejection + unit" where
  "validateContextEntry e = (case e of
     None \<Rightarrow> Inl UnsafeIdentity
   | Some c \<Rightarrow> if cx_extensions c \<noteq> 0 then Inl UnsafeIdentity else Inr ())"


section \<open>Structure (S1)\<close>

definition sortedKeys :: "(string \<times> 'a) list \<Rightarrow> string list" where
  "sortedKeys m = sort (map fst m)"

text \<open>The loops over the entries of a map, in the order of their keys: the first rejection, or
  what each entry was accepted with.\<close>

definition map_entry :: "(string \<times> 'a option) list \<Rightarrow> string \<Rightarrow> 'a option" where
  "map_entry m k = (case map_of m k of None \<Rightarrow> None | Some e \<Rightarrow> e)"

fun validate_all :: "('a option \<Rightarrow> rejection + 'b) \<Rightarrow> (string \<times> 'a option) list \<Rightarrow> string list \<Rightarrow>
    rejection + (string \<times> 'b) list" where
  "validate_all f m [] = Inr []"
| "validate_all f m (k # ks) = (case f (map_entry m k) of
     Inl r \<Rightarrow> Inl r
   | Inr v \<Rightarrow> (case validate_all f m ks of Inl r \<Rightarrow> Inl r | Inr vs \<Rightarrow> Inr ((k, v) # vs)))"

text \<open>\<open>validateStructure\<close>: the names of the only cluster and user. A context entry that reaches
  it is not nil.\<close>

definition validateStructure :: "kc_config \<Rightarrow> rejection + (string \<times> string)" where
  "validateStructure cfg = (case cf_clusters cfg of
     [(cluster, _)] \<Rightarrow> (case cf_users cfg of
       [(user, _)] \<Rightarrow> (case cf_contexts cfg of
         [(name, Some ctx)] \<Rightarrow>
           if cx_cluster ctx \<noteq> cluster then Inl Structure
           else if cx_user ctx \<noteq> user then Inl Structure
           else if cf_current cfg \<noteq> name then Inl Structure
           else Inr (cluster, user)
       | _ \<Rightarrow> Inl Structure)
     | _ \<Rightarrow> Inl Structure)
   | _ \<Rightarrow> Inl Structure)"


section \<open>The sanitizer\<close>

definition entry_of :: "(string \<times> 'b) list \<Rightarrow> string \<Rightarrow> 'b \<Rightarrow> 'b" where
  "entry_of m k zero = (case map_of m k of None \<Rightarrow> zero | Some v \<Rightarrow> v)"

definition rebuilt :: "string \<Rightarrow> string \<Rightarrow> string \<Rightarrow> credentials \<Rightarrow> kc_config" where
  "rebuilt clusterName server ca creds =
     (let user = clusterName @ ''-admin''; context_name = user @ ''@'' @ clusterName in
      \<lparr>cf_clusters = [(clusterName, Some \<lparr>cl_server = server, cl_ca_file = [], cl_ca_data = ca,
         cl_insecure = False, cl_proxy = [], cl_tls_name = [], cl_extensions = 0\<rparr>)],
       cf_users = [(user, Some \<lparr>us_token_file = [], us_cert_file = [], us_key_file = [],
         us_exec = False, us_auth_provider = False, us_username = [], us_password = [],
         us_impersonate = [], us_impersonate_uid = [], us_impersonate_groups = 0,
         us_impersonate_extra = 0, us_extensions = 0,
         us_cert = fst creds, us_key = fst (snd creds), us_token = snd (snd creds)\<rparr>)],
       cf_contexts = [(context_name, Some \<lparr>cx_cluster = clusterName, cx_user = user,
         cx_namespace = [], cx_extensions = 0\<rparr>)],
       cf_current = context_name, cf_extensions = 0, cf_preferences = 0\<rparr>)"

text \<open>\<open>Sanitize\<close>, from the decoded input on.\<close>

definition sanitize_config :: "kubelib \<Rightarrow> kc_config \<Rightarrow> string \<Rightarrow> string \<Rightarrow> sanitize_error + string" where
  "sanitize_config L cfg clusterName expectedServer =
     (if cf_extensions cfg \<noteq> 0 then Inl (Rejected UnsafeIdentity)
      else if cf_preferences cfg \<noteq> 0 then Inl (Rejected UnsafeIdentity)
      else case validate_all (validateClusterEntry L) (cf_clusters cfg) (sortedKeys (cf_clusters cfg)) of
        Inl r \<Rightarrow> Inl (Rejected r)
      | Inr clusterCAs \<Rightarrow>
          case validate_all (validateUserEntry L) (cf_users cfg) (sortedKeys (cf_users cfg)) of
            Inl r \<Rightarrow> Inl (Rejected r)
          | Inr userCreds \<Rightarrow>
              case validate_all validateContextEntry (cf_contexts cfg) (sortedKeys (cf_contexts cfg)) of
                Inl r \<Rightarrow> Inl (Rejected r)
              | Inr _ \<Rightarrow>
                  case validateStructure cfg of
                    Inl r \<Rightarrow> Inl (Rejected r)
                  | Inr (inputCluster, inputUser) \<Rightarrow>
                      case kl_write L (rebuilt clusterName expectedServer
                             (entry_of clusterCAs inputCluster []) (entry_of userCreds inputUser ([], [], []))) of
                        None \<Rightarrow> Inl WriteFailed
                      | Some out \<Rightarrow> Inr out)"

definition Sanitize :: "kubelib \<Rightarrow> string \<Rightarrow> string \<Rightarrow> string \<Rightarrow> sanitize_error + string" where
  "Sanitize L raw clusterName expectedServer =
     (if clusterName = [] then Inl (Rejected Structure)
      else if expectedServer = [] then Inl (Rejected Structure)
      else if \<not> kl_url_ok L expectedServer then Inl (Rejected Structure)
      else if max_size < length raw then Inl (Rejected Oversized)
      else case kl_load L raw of
        None \<Rightarrow> Inl (Rejected Unparseable)
      | Some cfg \<Rightarrow> sanitize_config L cfg clusterName expectedServer)"

definition IsFixedPoint :: "kubelib \<Rightarrow> string \<Rightarrow> string \<Rightarrow> string \<Rightarrow> sanitize_error + bool" where
  "IsFixedPoint L raw clusterName expectedServer =
     (case Sanitize L raw clusterName expectedServer of
        Inl e \<Rightarrow> Inl e
      | Inr out \<Rightarrow> Inr (raw = out))"


section \<open>Expiry of the client certificate\<close>

definition CheckClientCertificateExpiry :: "kubelib \<Rightarrow> string \<Rightarrow> time \<Rightarrow> rejection option" where
  "CheckClientCertificateExpiry L sanitized now =
     (if max_size < length sanitized then Some Oversized
      else case kl_load L sanitized of
        None \<Rightarrow> Some Unparseable
      | Some cfg \<Rightarrow> (case cf_users cfg of
          [(_, user)] \<Rightarrow> (case user of
            None \<Rightarrow> None
          | Some u \<Rightarrow>
              if us_cert u = [] then None
              else (case kl_pem L (us_cert u) of
                None \<Rightarrow> Some Credentials
              | Some (block, _) \<Rightarrow> (case kl_x509 L (pb_bytes block) of
                  None \<Rightarrow> Some Credentials
                | Some cert \<Rightarrow>
                    if now < xc_not_before cert then Some Expired
                    else if xc_not_after cert < now then Some Expired
                    else None)))
        | _ \<Rightarrow> Some Structure))"


section \<open>The CA fingerprint\<close>

text \<open>\<open>caFingerprint\<close> (\<open>kubeconfig_publish.go\<close>): the hash of the certificates of the first
  cluster entry that has CA data. \<open>None\<close> is the error.\<close>

function cert_bytes :: "kubelib \<Rightarrow> string \<Rightarrow> string list" where
  "cert_bytes L rest = (case kl_pem L rest of
     None \<Rightarrow> []
   | Some (block, rest') \<Rightarrow>
       if length rest' < length rest
       then (if pb_type block \<noteq> ''CERTIFICATE'' then [] else [pb_bytes block]) @ cert_bytes L rest'
       else [])"
  by pat_completeness auto
termination by (relation "measure (\<lambda>(L, rest). length rest)") auto

declare cert_bytes.simps [simp del]

definition caFingerprint :: "kubelib \<Rightarrow> string \<Rightarrow> string option" where
  "caFingerprint L sanitized = (case kl_load L sanitized of
     None \<Rightarrow> None
   | Some cfg \<Rightarrow> (case [cl_ca_data c. (_, Some c) \<leftarrow> cf_clusters cfg, cl_ca_data c \<noteq> []] of
       [] \<Rightarrow> None
     | caData # _ \<Rightarrow> (case cert_bytes L caData of
         [] \<Rightarrow> None
       | ders \<Rightarrow> Some (kl_sha256_hex L (concat ders)))))"

end
