(* ===== verification/Kcp_Model.thy ===== *)
theory Kcp_Model
  imports Kubeconfig_Sanitize
begin

text \<open>
  The data the control-plane controller works on, the environment it runs against, and the
  effects it has.

  \<^item> Records for the objects of the source: the KairosControlPlane
    (\<open>api/controlplane/v1beta2/kairoscontrolplane_types.go\<close>), the Cluster and Machine of
    Cluster API, the KairosConfig, and the k0s EtcdMember. Only the fields the modelled code
    reads or writes are kept.
  \<^item> The environment \<open>env\<close>: what the two API servers, the clock and the random source
    answer. Neither server is code of this repository, so every answer is a parameter: the
    n-th request of a pass gets whatever the field for it says at n. Nothing is assumed of
    it, so a theorem holds for every behaviour of the servers, failures and partial
    failures included. A pass is modelled at one instant \<open>e_now\<close>.
  \<^item> The pass state \<open>st\<close>: the in-memory KairosControlPlane, the reconciler's two rate-limit
    entries for it, the number of requests made, and the log of effects that took place.

  An effect is logged when the server accepted the request. A request the server refused
  leaves no effect.
\<close>


section \<open>Errors\<close>

text \<open>What \<open>apierrors\<close> and \<open>meta.IsNoMatchError\<close> tell apart.\<close>

datatype apierr = NotFound | AlreadyExists | Conflict | NoMatch | Forbidden | OtherApi

text \<open>
  The errors the code distinguishes with \<open>errors.Is\<close>, an API error passed through, and
  every other error with its text. Wrapping keeps the identity, so a wrapped error is its
  root.
\<close>

datatype err = IdentityChanged | IdentityNotPinned | NameTaken | Api apierr | Failed string


section \<open>Objects\<close>

record owner_ref =
  or_kind :: string
  or_name :: string
  or_uid :: string
  or_controller :: bool
  or_api :: string

text \<open>The \<open>apiVersion\<close> (\<open>GroupVersion\<close>) and kind of the KairosControlPlane.\<close>

definition kcp_group :: string where "kcp_group = ''controlplane.cluster.x-k8s.io''"
definition kcp_api :: string where "kcp_api = kcp_group @ ''/v1beta2''"
definition kcp_kind :: string where "kcp_kind = ''KairosControlPlane''"

record machine =
  m_name :: string
  m_namespace :: string
  m_created :: time
  m_deletion :: "time option"
  m_labels :: "string \<rightharpoonup> string"
  m_annotations :: "string \<rightharpoonup> string"
  m_owners :: "owner_ref list"
  m_version :: string
  m_phase :: string
  m_node :: "string option"
  m_addresses :: "string list"
  m_cfg_group :: string
  m_cfg_kind :: string
  m_cfg_name :: string
  m_infra_kind :: string
  m_infra_name :: string
  m_conditions :: "(string \<times> string \<times> string) list"
  m_drain :: "int option"

text \<open>A condition of the KairosControlPlane: its status, and for a false one the reason and
  whether its severity is Info, Warning or Error.\<close>

datatype severity = SevNone | SevInfo | SevWarning | SevError

record cond =
  cd_status :: bool
  cd_reason :: string
  cd_severity :: severity

record kstatus =
  ks_initialized :: bool
  ks_cp_initialized :: "bool option"
  ks_replicas :: int
  ks_ready :: int
  ks_updated :: int
  ks_unavailable :: int
  ks_available :: int
  ks_version :: string
  ks_failure :: string
  ks_observed :: int
  ks_conds :: "string \<rightharpoonup> cond"
  ks_last_push :: "time option"
  ks_selector :: string

record kcp =
  k_name :: string
  k_namespace :: string
  k_uid :: string
  k_generation :: int
  k_deletion :: "time option"
  k_labels :: "string \<rightharpoonup> string"
  k_annotations :: "string \<rightharpoonup> string"
  k_finalizer :: bool
  k_replicas :: "int option"
  k_version :: string
  k_distribution :: string
  k_template :: string
  k_template_kind :: string
  k_infra_kind :: string
  k_infra_namespace :: string
  k_infra_name :: string
  k_drain :: "duration option"
  k_max_surge :: "int option"
  k_vip :: "string option"
  k_vip_interface :: string
  k_vip_mode :: string
  k_meta_labels :: "(string \<times> string) list"
  k_meta_annotations :: "(string \<times> string) list"
  k_status :: kstatus

record cluster =
  c_name :: string
  c_namespace :: string
  c_uid :: string
  c_endpoint_host :: string
  c_endpoint_valid :: bool
  c_endpoint_port :: int
  c_created :: time
  c_paused :: bool
  c_ref :: "(string \<times> string \<times> string) option"

record kairos_config =
  kc_name :: string
  kc_role :: string
  kc_hostname :: string
  kc_annotations :: "string \<rightharpoonup> string"

record secret_ref =
  sr_name :: string
  sr_namespace :: string
  sr_key :: string

record config_template =
  kt_distribution :: string
  kt_hostname :: string
  kt_k3s_token :: "secret_ref option"
  kt_join_token :: "secret_ref option"
  kt_vip :: "(string \<times> string \<times> string) option"

text \<open>\<open>etcdMemberStatus\<close>, as decoded from a node's report; and k0s's EtcdMember, with the
  raw text of \<open>status.memberID\<close> and \<open>status.peerAddress\<close>.\<close>

record etcd_status =
  es_name :: string
  es_healthy :: bool
  es_voting :: bool
  es_members :: int
  es_reported_at :: string

record etcd_member =
  em_name :: string
  em_member_id :: string
  em_peer :: string
  em_leave :: bool
  em_conds :: "(string \<times> string) list"


text \<open>What the control plane writes into the spec of a KairosConfig it creates: the role, version
  and distribution, the reference to the join-token Secret of the distribution, the VIP
  block, and the token ID annotation; and the template it starts from.\<close>

record new_config =
  nc_name :: string
  nc_role :: string
  nc_distribution :: string
  nc_version :: string
  nc_cp_role :: string
  nc_single_node :: bool
  nc_k3s_token :: "secret_ref option"
  nc_join_token :: "secret_ref option"
  nc_vip :: "(string \<times> string \<times> string) option"
  nc_token_id :: "string option"
  nc_template :: "config_template option"

text \<open>The content of an unstructured object, an object's fields in no particular order; an
  infrastructure machine template as the API server returns it, and the infrastructure
  machine cloned from it.\<close>

datatype json = JNull | JBool bool | JNum int | JFloat string | JStr string
  | JArr "json list" | JObj "(string \<times> json) list"

record infra_template =
  it_group :: string
  it_version :: string
  it_kind :: string
  it_name :: string
  it_content :: json

record infra_object =
  io_group :: string
  io_version :: string
  io_kind :: string
  io_name :: string
  io_namespace :: string
  io_labels :: "(string \<times> string) list"
  io_annotations :: "(string \<times> string) list"
  io_content :: json

text \<open>A bootstrap token, its Secret in the workload cluster, a decoded k0s join token, the
  join-token Secret of the management cluster, and the EndpointSlice of
  \<open>default/kubernetes\<close>.\<close>

record bootstrap_token =
  bt_id :: string
  bt_secret :: string

record token_secret =
  ts_type :: string
  ts_data :: "string \<rightharpoonup> string"

record join_token =
  jt_server :: string
  jt_ca :: string
  jt_token :: bootstrap_token

record join_secret =
  js_annotation :: "string option"
  js_data :: "string option"
  js_owner :: "string option"
  js_settled :: bool

text \<open>A Secret that holds a kubeconfig, \<open>sec_value\<close> its \<open>value\<close> key; and of the control
  plane's LoadBalancer Service the status' ingress points (IP and hostname), the external IPs
  and the ports.\<close>

record ksecret =
  sec_name :: string
  sec_type :: string
  sec_created :: time
  sec_labels :: "string \<rightharpoonup> string"
  sec_annotations :: "string \<rightharpoonup> string"
  sec_owners :: "owner_ref list"
  sec_finalizers :: "string list"
  sec_immutable :: bool
  sec_value :: "string option"

record lb_service =
  lb_ingress :: "(string \<times> string) list"
  lb_external :: "string list"
  lb_ports :: "int list"

record endpoint =
  ep_ready :: "bool option"
  ep_terminating :: "bool option"
  ep_addresses :: "string list"

record endpoint_slice =
  sl_type :: string
  sl_endpoints :: "endpoint list"


section \<open>Effects\<close>

datatype object_kind = KairosConfigObj | InfraMachineObj | MachineObj

datatype created_object = NewConfig new_config | NewInfra infra_object | NewMachine machine

datatype event_type = Normal | Warning

datatype effect =
    KcpPatched "(string \<times> string) list" "string list"
  | MachineAnnotated string "(string \<times> string) list"
  | HookRemoved string
  | DrainPatched string "int option"
  | MetadataPatched string "(string \<times> string) list" "(string \<times> string) list"
  | ObjectCreated created_object
  | ObjectDeleted object_kind string
  | MachineDeleted string
  | LeaveWritten string string string
  | SpecLeaveSet string string bool
  | TokenSecretCreated string string token_secret
  | TokenSecretExtended string string string
  | TokenSecretDeleted string string
  | JoinSecretPatched "string option"
  | ConfigAnnotated string
  | SecretEnsured string bool
  | ContractWritten bool ksecret
  | ContractEmptied ksecret
  | StagingCreated ksecret
  | StagingRepaired ksecret
  | TemplateOwned string string "owner_ref list"
  | ServiceEnsured string
  | EndpointsEnsured string "string list"
  | DistributionSet string
  | LabelSet string
  | ClusterTouched string
  | FinalizerAdded
  | FinalizerRemoved
  | StatusUpdated kstatus
  | StatusPatched kstatus
  | Event event_type string

text \<open>The effects that write to the workload cluster, and those that change control-plane
  membership: a Machine created or deleted, an etcd-leave hook removed, and what is written
  to the workload cluster. Deleting a join token is a workload write that changes no
  membership: it only takes an admission back, and \<open>ensureK0sControllerJoinTokenAt\<close> does it
  for the token it minted when the identity turns out to have changed meanwhile.\<close>

fun workload_write :: "effect \<Rightarrow> bool" where
  "workload_write (LeaveWritten _ _ _) = True"
| "workload_write (SpecLeaveSet _ _ _) = True"
| "workload_write (TokenSecretCreated _ _ _) = True"
| "workload_write (TokenSecretExtended _ _ _) = True"
| "workload_write (TokenSecretDeleted _ _) = True"
| "workload_write _ = False"

fun membership_effect :: "effect \<Rightarrow> bool" where
  "membership_effect (HookRemoved _) = True"
| "membership_effect (ObjectCreated _) = True"
| "membership_effect (ObjectDeleted _ _) = True"
| "membership_effect (MachineDeleted _) = True"
| "membership_effect (TokenSecretDeleted _ _) = False"
| "membership_effect e = workload_write e"


section \<open>Environment and pass state\<close>

record env =
  e_now :: time
  e_recorder :: bool
  e_write :: "nat \<Rightarrow> apierr option"
  e_machines :: "nat \<Rightarrow> apierr + machine list"
  e_status :: "nat \<Rightarrow> apierr + (string \<times> string) list"
  e_unmarshal :: "string \<Rightarrow> etcd_status option"
  e_config :: "nat \<Rightarrow> string \<Rightarrow> apierr + kairos_config"
  e_template :: "nat \<Rightarrow> string \<Rightarrow> apierr + config_template"
  e_client :: "nat \<Rightarrow> string \<Rightarrow> apierr option"
  e_uid :: "nat \<Rightarrow> string \<Rightarrow> apierr + string"
  e_leave_cm :: "nat \<Rightarrow> string \<Rightarrow> apierr + (string \<rightharpoonup> string)"
  e_member :: "nat \<Rightarrow> string \<Rightarrow> string \<Rightarrow> apierr + etcd_member"
  e_members :: "nat \<Rightarrow> string \<Rightarrow> apierr + etcd_member list"
  e_patched :: "nat \<Rightarrow> etcd_member \<Rightarrow> etcd_member"
  e_wl_write :: "nat \<Rightarrow> string \<Rightarrow> apierr option"
  e_suffix :: "nat \<Rightarrow> string"
  e_infra_template :: "nat \<Rightarrow> string \<Rightarrow> string \<Rightarrow> apierr + infra_template"
  e_cached :: "nat \<Rightarrow> string \<Rightarrow> apierr option"
  e_polls :: nat
  e_join_secret :: "nat \<Rightarrow> apierr + join_secret"
  e_status_secret :: "nat \<Rightarrow> apierr + join_secret"
  e_random :: "nat \<Rightarrow> string option"
  e_ca :: "nat \<Rightarrow> apierr + string"
  e_slice :: "nat \<Rightarrow> string \<Rightarrow> apierr + endpoint_slice"
  e_token :: "nat \<Rightarrow> string \<Rightarrow> string \<Rightarrow> apierr + token_secret"
  e_new_token :: "nat \<Rightarrow> bootstrap_token option"
  e_encode :: "string \<Rightarrow> string \<Rightarrow> bootstrap_token \<Rightarrow> string option"
  e_decode :: "string \<Rightarrow> join_token option"
  e_label_errors :: "string \<Rightarrow> string list"
  e_subdomain_errors :: "string \<Rightarrow> string list"
  e_lib :: kubelib
  e_kcp :: "nat \<Rightarrow> string \<Rightarrow> apierr + kcp"
  e_stored :: "nat \<Rightarrow> kstatus"
  e_cluster :: "nat \<Rightarrow> string \<Rightarrow> apierr + cluster"
  e_clusters :: "nat \<Rightarrow> apierr + cluster list"
  e_secret :: "nat \<Rightarrow> string \<Rightarrow> apierr + ksecret"
  e_service :: "nat \<Rightarrow> apierr + lb_service"
  e_owners :: "nat \<Rightarrow> string \<Rightarrow> string \<Rightarrow> apierr + owner_ref list"
  e_vmi :: "nat \<Rightarrow> string \<Rightarrow> apierr + json"
  e_stamp :: "nat \<Rightarrow> apierr + string"
  e_settled :: "nat \<Rightarrow> bool"
  e_cluster_machines :: "nat \<Rightarrow> string \<Rightarrow> apierr + machine list"
  e_generation :: "nat \<Rightarrow> int"
  e_infra_obj :: "nat \<Rightarrow> string \<Rightarrow> string \<Rightarrow> apierr + json"
  e_has_owner :: "owner_ref list \<Rightarrow> owner_ref \<Rightarrow> bool"
  e_ensure_owner :: "owner_ref list \<Rightarrow> owner_ref \<Rightarrow> owner_ref list"

record st =
  s_tick :: nat
  s_kcp :: kcp
  s_identity_checked :: "time option"
  s_orphan_checked :: "time option"
  s_log :: "effect list"

type_synonym 'a op = "(st, err, 'a) act"

text \<open>One request: its number in the pass.\<close>

definition tick :: "nat op" where
  "tick s = (Inr (s_tick s), s\<lparr>s_tick := Suc (s_tick s)\<rparr>)"

definition log_effect :: "effect \<Rightarrow> unit op" where
  "log_effect e = modA (\<lambda>s. s\<lparr>s_log := s_log s @ [e]\<rparr>)"

text \<open>A write to the management API server: refused with an error, or accepted and logged.\<close>

definition mgmt_write :: "env \<Rightarrow> effect \<Rightarrow> unit op" where
  "mgmt_write E e =
     bindA tick (\<lambda>n. case e_write E n of Some x \<Rightarrow> throw (Api x) | None \<Rightarrow> log_effect e)"

definition workload_write_via :: "env \<Rightarrow> string \<Rightarrow> effect \<Rightarrow> unit op" where
  "workload_write_via E via e =
     bindA tick (\<lambda>n. case e_wl_write E n via of Some x \<Rightarrow> throw (Api x) | None \<Rightarrow> log_effect e)"

definition read_api :: "(nat \<Rightarrow> apierr + 'a) \<Rightarrow> 'a op" where
  "read_api f = bindA tick (\<lambda>n. case f n of Inl x \<Rightarrow> throw (Api x) | Inr v \<Rightarrow> ret v)"

text \<open>\<open>r.Recorder.Eventf\<close>, when a recorder is set.\<close>

definition event :: "env \<Rightarrow> event_type \<Rightarrow> string \<Rightarrow> unit op" where
  "event E t reason = (if e_recorder E then log_effect (Event t reason) else ret ())"

definition get_kcp :: "kcp op" where
  "get_kcp = getsA s_kcp"

text \<open>\<open>conditions.MarkTrue\<close>, \<open>MarkFalse\<close> and \<open>IsTrue\<close> of Cluster API: set or read the
  condition of a type.\<close>

definition set_cond :: "string \<Rightarrow> cond \<Rightarrow> kcp \<Rightarrow> kcp" where
  "set_cond t c k = k\<lparr>k_status := (k_status k)\<lparr>ks_conds := (ks_conds (k_status k))(t \<mapsto> c)\<rparr>\<rparr>"

definition cond_true :: cond where
  "cond_true = \<lparr>cd_status = True, cd_reason = [], cd_severity = SevNone\<rparr>"

definition cond_false :: "string \<Rightarrow> severity \<Rightarrow> cond" where
  "cond_false reason sev = \<lparr>cd_status = False, cd_reason = reason, cd_severity = sev\<rparr>"

definition is_true :: "kcp \<Rightarrow> string \<Rightarrow> bool" where
  "is_true k t = (case ks_conds (k_status k) t of None \<Rightarrow> False | Some c \<Rightarrow> cd_status c)"

definition mark_true :: "string \<Rightarrow> unit op" where
  "mark_true t = modA (\<lambda>s. s\<lparr>s_kcp := set_cond t cond_true (s_kcp s)\<rparr>)"

definition mark_false :: "string \<Rightarrow> string \<Rightarrow> severity \<Rightarrow> unit op" where
  "mark_false t reason sev = modA (\<lambda>s. s\<lparr>s_kcp := set_cond t (cond_false reason sev) (s_kcp s)\<rparr>)"

text \<open>A missing annotation reads as the empty string, as a Go map does.\<close>

definition ann :: "(string \<rightharpoonup> string) \<Rightarrow> string \<Rightarrow> string" where
  "ann m k = (case m k of None \<Rightarrow> [] | Some v \<Rightarrow> v)"

definition upd_all :: "('a \<rightharpoonup> 'b) \<Rightarrow> ('a \<times> 'b) list \<Rightarrow> ('a \<rightharpoonup> 'b)" where
  "upd_all m kvs = fold (\<lambda>(k, v) m. m(k \<mapsto> v)) kvs m"

definition del_all :: "('a \<rightharpoonup> 'b) \<Rightarrow> 'a list \<Rightarrow> ('a \<rightharpoonup> 'b)" where
  "del_all m ks = fold (\<lambda>k m. m(k := None)) ks m"

text \<open>
  \<open>patchKCPAnnotations\<close>: one patch of the KairosControlPlane's annotations, pinned to its
  resourceVersion. The in-memory object takes the new annotations only when the server
  accepted the patch.
\<close>

definition patchKCPAnnotations :: "env \<Rightarrow> (string \<times> string) list \<Rightarrow> string list \<Rightarrow> unit op" where
  "patchKCPAnnotations E set_kvs remove =
     bindA (mgmt_write E (KcpPatched set_kvs remove)) (\<lambda>_.
     modA (\<lambda>s. s\<lparr>s_kcp := (s_kcp s)\<lparr>k_annotations :=
       del_all (upd_all (k_annotations (s_kcp s)) set_kvs) remove\<rparr>\<rparr>))"

text \<open>\<open>desiredReplicas\<close>: one when \<open>spec.replicas\<close> is unset.\<close>

definition desired_replicas :: "kcp \<Rightarrow> int" where
  "desired_replicas k = (case k_replicas k of None \<Rightarrow> 1 | Some n \<Rightarrow> n)"

text \<open>\<open>distributionOf\<close>.\<close>

definition distributionOf :: "kcp \<Rightarrow> string" where
  "distributionOf k = (if k_distribution k = [] then ''k0s'' else k_distribution k)"

definition deleting :: "machine \<Rightarrow> bool" where
  "deleting m \<longleftrightarrow> m_deletion m \<noteq> None"

definition registered :: "machine \<Rightarrow> bool" where
  "registered m \<longleftrightarrow> m_node m \<noteq> None"

definition node_name :: "machine \<Rightarrow> string" where
  "node_name m = (case m_node m of None \<Rightarrow> [] | Some n \<Rightarrow> n)"

lemmas op_defs = tick_def log_effect_def mgmt_write_def workload_write_via_def read_api_def
  event_def get_kcp_def mark_true_def mark_false_def


section \<open>What the primitive operations do\<close>

lemma wpa_tick [wpa_simps]: "wpa tick Q s = Q (Inr (s_tick s)) (s\<lparr>s_tick := Suc (s_tick s)\<rparr>)"
  by (simp add: wpa_def tick_def)

lemma wpa_log [wpa_simps]: "wpa (log_effect e) Q s = Q (Inr ()) (s\<lparr>s_log := s_log s @ [e]\<rparr>)"
  by (simp add: log_effect_def wpa_simps)

lemma wpa_mgmt_write [wpa_simps]:
  "wpa (mgmt_write E e) Q s =
   (case e_write E (s_tick s) of
      Some x \<Rightarrow> Q (Inl (Api x)) (s\<lparr>s_tick := Suc (s_tick s)\<rparr>)
    | None \<Rightarrow> Q (Inr ()) (s\<lparr>s_tick := Suc (s_tick s), s_log := s_log s @ [e]\<rparr>))"
  by (simp add: mgmt_write_def wpa_simps split: option.splits)

lemma wpa_workload_write [wpa_simps]:
  "wpa (workload_write_via E via e) Q s =
   (case e_wl_write E (s_tick s) via of
      Some x \<Rightarrow> Q (Inl (Api x)) (s\<lparr>s_tick := Suc (s_tick s)\<rparr>)
    | None \<Rightarrow> Q (Inr ()) (s\<lparr>s_tick := Suc (s_tick s), s_log := s_log s @ [e]\<rparr>))"
  by (simp add: workload_write_via_def wpa_simps split: option.splits)

lemma wpa_read_api [wpa_simps]:
  "wpa (read_api f) Q s =
   (case f (s_tick s) of
      Inl x \<Rightarrow> Q (Inl (Api x)) (s\<lparr>s_tick := Suc (s_tick s)\<rparr>)
    | Inr v \<Rightarrow> Q (Inr v) (s\<lparr>s_tick := Suc (s_tick s)\<rparr>))"
  by (simp add: read_api_def wpa_simps split: sum.splits)

lemma wpa_event [wpa_simps]:
  "wpa (event E t r) Q s =
   (if e_recorder E then Q (Inr ()) (s\<lparr>s_log := s_log s @ [Event t r]\<rparr>) else Q (Inr ()) s)"
  by (simp add: event_def wpa_simps)

lemma wpa_get_kcp [wpa_simps]: "wpa get_kcp Q s = Q (Inr (s_kcp s)) s"
  by (simp add: get_kcp_def wpa_simps)

lemma wpa_mark_true [wpa_simps]:
  "wpa (mark_true t) Q s = Q (Inr ()) (s\<lparr>s_kcp := set_cond t cond_true (s_kcp s)\<rparr>)"
  by (simp add: mark_true_def wpa_simps)

lemma wpa_mark_false [wpa_simps]:
  "wpa (mark_false t r v) Q s = Q (Inr ()) (s\<lparr>s_kcp := set_cond t (cond_false r v) (s_kcp s)\<rparr>)"
  by (simp add: mark_false_def wpa_simps)

lemma wpa_patchKCP [wpa_simps]:
  "wpa (patchKCPAnnotations E kvs rm) Q s =
   (case e_write E (s_tick s) of
      Some x \<Rightarrow> Q (Inl (Api x)) (s\<lparr>s_tick := Suc (s_tick s)\<rparr>)
    | None \<Rightarrow> Q (Inr ()) (s\<lparr>s_tick := Suc (s_tick s), s_log := s_log s @ [KcpPatched kvs rm],
        s_kcp := (s_kcp s)\<lparr>k_annotations := del_all (upd_all (k_annotations (s_kcp s)) kvs) rm\<rparr>\<rparr>))"
  by (simp add: patchKCPAnnotations_def wpa_simps split: option.splits)

lemma set_cond_frame [simp]:
  "k_annotations (set_cond t c k) = k_annotations k"
  "k_name (set_cond t c k) = k_name k"
  "k_deletion (set_cond t c k) = k_deletion k"
  "k_replicas (set_cond t c k) = k_replicas k"
  "k_distribution (set_cond t c k) = k_distribution k"
  "k_version (set_cond t c k) = k_version k"
  by (simp_all add: set_cond_def)

lemma is_true_set_cond [simp]:
  "is_true (set_cond t c k) t' = (if t = t' then cd_status c else is_true k t')"
  by (simp add: is_true_def set_cond_def)

lemma upd_all_simps [simp]:
  "upd_all m [] = m" "upd_all m ((k, v) # kvs) = upd_all (m(k \<mapsto> v)) kvs"
  by (simp_all add: upd_all_def)

lemma del_all_simps [simp]:
  "del_all m [] = m" "del_all m (k # ks) = del_all (m(k := None)) ks"
  by (simp_all add: del_all_def)

lemma ann_Nil_iff: "ann m k = [] \<longleftrightarrow> m k = None \<or> m k = Some []"
  by (cases "m k") (auto simp: ann_def)


section \<open>What an operation may log\<close>

text \<open>\<open>logs_only Q\<close>: every effect an operation has satisfies \<open>Q\<close>.\<close>

definition logs_only :: "(effect \<Rightarrow> bool) \<Rightarrow> st \<Rightarrow> st \<Rightarrow> bool" where
  "logs_only Q s s' \<longleftrightarrow> (\<exists>es. s_log s' = s_log s @ es \<and> list_all Q es)"

interpretation logs: guarantee "logs_only Q" for Q
proof
  fix s t u :: st
  show "logs_only Q s s" by (simp add: logs_only_def)
  show "logs_only Q s u" if "logs_only Q s t" "logs_only Q t u"
    using that by (auto simp: logs_only_def)
qed

named_theorems logs_rules \<open>operations and the effects they may have\<close>

lemma guards_wpa: "guards R m \<longleftrightarrow> (\<forall>s. wpa m (\<lambda>_ s'. R s s') s)"
  by (simp add: guards_def wpa_def case_prod_beta)

lemma guards_from_wpa: "guards_from P R m \<longleftrightarrow> (\<forall>s. P s \<longrightarrow> wpa m (\<lambda>_ s'. R s s') s)"
  by (simp add: guards_from_def wpa_def case_prod_beta)

lemma logs_same: "s_log s' = s_log s \<Longrightarrow> logs_only Q s s'"
  by (simp add: logs_only_def)

lemma logs_grow: "s_log s' = s_log s @ es \<Longrightarrow> list_all Q es \<Longrightarrow> logs_only Q s s'"
  by (auto simp: logs_only_def)

lemma logs_writes:
  "Q e \<Longrightarrow> guards (logs_only Q) (mgmt_write E e)"
  "Q e \<Longrightarrow> guards (logs_only Q) (workload_write_via E via e)"
  "Q e \<Longrightarrow> guards (logs_only Q) (log_effect e)"
  "Q (KcpPatched kvs rm) \<Longrightarrow> guards (logs_only Q) (patchKCPAnnotations E kvs rm)"
  "Q (Event et reason) \<Longrightarrow> guards (logs_only Q) (event E et reason)"
  unfolding guards_wpa wpa_simps
  by (auto intro: logs_same logs_grow [where es = "[e]"] logs_grow [where es = "[KcpPatched kvs rm]"]
      logs_grow [where es = "[Event et reason]"] split: option.splits)

lemma logs_reads [logs_rules]:
  "guards (logs_only Q) tick" "guards (logs_only Q) (read_api f)" "guards (logs_only Q) get_kcp"
  "guards (logs_only Q) (mark_true t)" "guards (logs_only Q) (mark_false t r v)"
  unfolding guards_wpa wpa_simps by (auto intro: logs_same split: sum.splits)

lemma logs_mod: "(\<And>s. s_log (f s) = s_log s) \<Longrightarrow> guards (logs_only Q) (modA f)"
  unfolding guards_wpa wpa_simps by (simp add: logs_same)

text \<open>A read whose answer decides what follows.\<close>

lemma read_logs:
  assumes "\<And>i x. f i = Inl x \<Longrightarrow> guards (logs_only Q) (g (Inl (Api x)))"
    and "\<And>i v. f i = Inr v \<Longrightarrow> guards (logs_only Q) (g (Inr v))"
  shows "guards (logs_only Q) (bindA (tryA (read_api f)) g)"
  unfolding guards_def
proof
  fix s :: st
  let ?s = "s\<lparr>s_tick := Suc (s_tick s)\<rparr>"
  have lift: "logs_only Q s s'" if "logs_only Q ?s s'" for s'
    using that by (simp add: logs_only_def)
  show "logs_only Q s (snd (bindA (tryA (read_api f)) g s))"
  proof (cases "f (s_tick s)")
    case (Inl x)
    then show ?thesis
      using lift assms(1) [OF Inl]
      by (simp add: guards_def bindA_def tryA_def read_api_def tick_def throw_def)
  next
    case (Inr v)
    then show ?thesis
      using lift assms(2) [OF Inr]
      by (simp add: guards_def bindA_def tryA_def read_api_def tick_def ret_def)
  qed
qed

text \<open>The effects of an operation, as the end of the log.\<close>

abbreviation new_effects :: "st \<Rightarrow> st \<Rightarrow> effect list" where
  "new_effects s s' \<equiv> drop (length (s_log s)) (s_log s')"

lemma logs_onlyD: "logs_only Q s s' \<Longrightarrow> e \<in> set (new_effects s s') \<Longrightarrow> Q e"
  by (auto simp: logs_only_def list_all_iff)



subsection \<open>The result together with the effects\<close>

text \<open>\<open>traces P m\<close>: whatever the state, \<open>P\<close> holds of the control plane before and after \<open>m\<close>,
  its result and the effects it has.\<close>

type_synonym 'a trace_pred = "kcp \<Rightarrow> kcp \<Rightarrow> err + 'a \<Rightarrow> effect list \<Rightarrow> bool"

definition traces :: "'a trace_pred \<Rightarrow> 'a op \<Rightarrow> bool" where
  "traces P m \<longleftrightarrow>
     (\<forall>s. wpa m (\<lambda>r s'. \<exists>es. s_log s' = s_log s @ es \<and> P (s_kcp s) (s_kcp s') r es) s)"

lemma traces_bind_given:
  assumes "traces P m" "\<And>x k k' es. P k k' (Inr x) es \<Longrightarrow> traces (Q x) (f x)"
    and "\<And>k k' e es. P k k' (Inl e) es \<Longrightarrow> T k k' (Inl e) es"
    and "\<And>k k' k'' x r es fs. P k k' (Inr x) es \<Longrightarrow> Q x k' k'' r fs \<Longrightarrow> T k k'' r (es @ fs)"
  shows "traces T (bindA m f)"
  unfolding traces_def wpa_bind
proof (intro allI)
  fix s :: st
  define post where "post \<equiv> \<lambda>r (s' :: st). \<exists>es. s_log s' = s_log s @ es \<and> T (s_kcp s) (s_kcp s') r es"
  have "wpa m (\<lambda>r s'. \<exists>es. s_log s' = s_log s @ es \<and> P (s_kcp s) (s_kcp s') r es) s"
    using assms(1) by (simp add: traces_def)
  then show "wpa m (\<lambda>r s'. case r of Inl e \<Rightarrow> post (Inl e) s' | Inr x \<Rightarrow> wpa (f x) post s') s"
  proof (rule wpa_weaken)
    fix r and s1 :: st assume "\<exists>es. s_log s1 = s_log s @ es \<and> P (s_kcp s) (s_kcp s1) r es"
    then obtain es where es: "s_log s1 = s_log s @ es" "P (s_kcp s) (s_kcp s1) r es" by blast
    show "case r of Inl e \<Rightarrow> post (Inl e) s1 | Inr x \<Rightarrow> wpa (f x) post s1"
    proof (cases r)
      case (Inl e)
      with es assms(3) show ?thesis by (auto simp: post_def)
    next
      case (Inr x)
      have "wpa (f x) (\<lambda>r s'. \<exists>fs. s_log s' = s_log s1 @ fs \<and> Q x (s_kcp s1) (s_kcp s') r fs) s1"
        using assms(2) es(2) Inr by (simp add: traces_def)
      then have "wpa (f x) post s1"
        by (rule wpa_weaken) (use es Inr assms(4) in \<open>fastforce simp: post_def\<close>)
      with Inr show ?thesis by simp
    qed
  qed
qed

lemma traces_bind:
  assumes "traces P m" "\<And>x. traces (Q x) (f x)"
    and "\<And>k k' e es. P k k' (Inl e) es \<Longrightarrow> T k k' (Inl e) es"
    and "\<And>k k' k'' x r es fs. P k k' (Inr x) es \<Longrightarrow> Q x k' k'' r fs \<Longrightarrow> T k k'' r (es @ fs)"
  shows "traces T (bindA m f)"
  using assms by (rule traces_bind_given)

lemma traces_try: "traces (\<lambda>k k' r. P k k' (Inr r)) m \<Longrightarrow> traces P (tryA m)"
  by (simp add: traces_def wpa_simps)

lemma traces_ret: "(\<And>k. P k k (Inr x) []) \<Longrightarrow> traces P (ret x)"
  and traces_throw: "(\<And>k. P k k (Inl e) []) \<Longrightarrow> traces P (throw e)"
  by (simp_all add: traces_def wpa_simps)

lemma traces_get_kcp: "traces (\<lambda>k k' r es. k' = k \<and> r = Inr k \<and> es = []) get_kcp"
  by (simp add: traces_def wpa_simps)

lemma traces_mono: "traces P m \<Longrightarrow> (\<And>k k' r es. P k k' r es \<Longrightarrow> Q k k' r es) \<Longrightarrow> traces Q m"
  unfolding traces_def by (blast intro: wpa_weaken)

lemma traces_write:
  "traces (\<lambda>k k' r es. k' = k \<and> (case r of
      Inl e \<Rightarrow> es = [] \<and> (\<exists>n x. e = Api x \<and> e_write E n = Some x) | Inr _ \<Rightarrow> es = [ef]))
    (mgmt_write E ef)"
  unfolding traces_def wpa_simps by (auto split: option.splits)

lemma traces_logs: "guards (logs_only Q) m \<Longrightarrow> traces (\<lambda>_ _ _ es. list_all Q es) m"
  unfolding traces_def guards_wpa logs_only_def by (auto intro: wpa_weaken)

lemma traces_wpa:
  "traces P m \<Longrightarrow> (\<And>r s' es. s_log s' = s_log s @ es \<Longrightarrow> P (s_kcp s) (s_kcp s') r es \<Longrightarrow> Q r s') \<Longrightarrow>
   wpa m Q s"
  unfolding traces_def by (drule spec [of _ s], erule wpa_weaken) auto

lemma tracesD: "traces P m \<Longrightarrow> m s = (r, s') \<Longrightarrow> P (s_kcp s) (s_kcp s') r (new_effects s s')"
  unfolding traces_def by (drule spec [of _ s]) (auto dest: wpa_result)

end
