(* ===== verification/Leave_Candidates.thy ===== *)
theory Leave_Candidates
  imports Kcp_Model "HOL-Library.Multiset"
begin

text \<open>
  Which addresses the workload-cluster traffic of the controller may go to:
  \<open>ownMemberAddresses\<close> (\<open>ha_k0s_jointoken.go\<close>), and \<open>leaveCandidateIPs\<close>,
  \<open>leaveExcludedHosts\<close>, \<open>memberRESTConfig\<close> (\<open>ha_leave_member.go\<close>).

  The source keys its maps by \<open>net.IP.String()\<close>; so does the model. A Go map used as a set
  of keys is a bool-valued function of the key.
\<close>

text \<open>The IPs in \<open>status.addresses\<close> of a Machine, in order; entries \<open>net.ParseIP\<close> refuses
  are skipped.\<close>

definition address_ips :: "machine \<Rightarrow> ip list" where
  "address_ips m = List.map_filter parse_ip (m_addresses m)"

definition address_keys :: "machine \<Rightarrow> string list" where
  "address_keys m = map ip_to_string (address_ips m)"

definition ownMemberAddresses :: "machine list \<Rightarrow> string \<Rightarrow> bool" where
  "ownMemberAddresses ms key \<longleftrightarrow>
     key \<in> set (concat (map address_keys (filter (\<lambda>m. \<not> deleting m) ms))) \<and>
     key \<notin> set (concat (map address_keys (filter deleting ms)))"

text \<open>The loop over one Machine's addresses with its \<open>seen\<close> map: the first IP of each key.\<close>

fun first_of_key :: "string list \<Rightarrow> ip list \<Rightarrow> ip list" where
  "first_of_key seen [] = []"
| "first_of_key seen (a # as) =
     (if ip_to_string a \<in> set seen then first_of_key seen as
      else a # first_of_key (ip_to_string a # seen) as)"

definition reported_ips :: "machine \<Rightarrow> ip list" where
  "reported_ips m = first_of_key [] (filter is_global_unicast (address_ips m))"

definition excluded_keys :: "machine \<Rightarrow> string list \<Rightarrow> string list" where
  "excluded_keys target exclude =
     map ip_to_string (List.map_filter parse_ip exclude) @ address_keys target"

definition leave_peers :: "machine list \<Rightarrow> machine \<Rightarrow> machine list" where
  "leave_peers ms target = filter (\<lambda>m. m_name m \<noteq> m_name target \<and> \<not> deleting m) ms"

definition reported_by :: "machine list \<Rightarrow> string \<Rightarrow> nat" where
  "reported_by peers key = count_list (concat (map (\<lambda>m. map ip_to_string (reported_ips m)) peers)) key"

definition leave_candidates :: "machine list \<Rightarrow> machine \<Rightarrow> string list \<Rightarrow> (bool \<times> ip) list" where
  "leave_candidates ms target exclude =
     concat (map (\<lambda>m. map (\<lambda>a. (\<not> registered m, a))
       (filter (\<lambda>a. ownMemberAddresses ms (ip_to_string a) \<and>
                    ip_to_string a \<notin> set (excluded_keys target exclude)) (reported_ips m)))
       (leave_peers ms target))"

text \<open>The stable sort puts registered Machines first, then orders by address bytes. A
  candidate is paired with "not registered", so the pair's own order is the one of the
  source.\<close>

definition leaveCandidateIPs :: "machine list \<Rightarrow> machine \<Rightarrow> string list \<Rightarrow> string list" where
  "leaveCandidateIPs ms target exclude =
     filter (\<lambda>key. reported_by (leave_peers ms target) key = 1)
       (map (\<lambda>c. ip_to_string (snd c)) (sort_key (\<lambda>c. c) (leave_candidates ms target exclude)))"

definition leaveExcludedHosts :: "kcp \<Rightarrow> cluster \<Rightarrow> string list" where
  "leaveExcludedHosts k cl =
     c_endpoint_host cl # (case k_vip k of None \<Rightarrow> [] | Some a \<Rightarrow> [a])"

text \<open>\<open>&clusterv1.Machine{}\<close>: no leaving Machine.\<close>

definition no_machine :: machine where
  "no_machine = \<lparr>m_name = [], m_namespace = [], m_created = 0, m_deletion = None,
     m_labels = (\<lambda>_. None), m_annotations = (\<lambda>_. None), m_owners = [], m_version = [], m_phase = [], m_node = None,
     m_addresses = [], m_cfg_group = [], m_cfg_kind = [], m_cfg_name = [], m_infra_kind = [], m_infra_name = [],
     m_conditions = [], m_drain = None\<rparr>"

text \<open>The connection settings of a member client, and those of the workload kubeconfig it
  copies. What client-go adds beyond them is not code of this repository.\<close>

record rest_config =
  rc_host :: string
  rc_timeout :: duration
  rc_server_name :: string
  rc_insecure :: bool
  rc_ca :: string
  rc_credential :: string

definition k0s_api_port :: string where "k0s_api_port = ''6443''"

definition member_request_timeout :: duration where "member_request_timeout = seconds 5"

definition memberRESTConfig :: "rest_config \<Rightarrow> string \<Rightarrow> err + rest_config" where
  "memberRESTConfig base ip =
     (case parse_ip ip of
        None \<Rightarrow> Inl (Failed ''member address is not an IP address'')
      | Some a \<Rightarrow> Inr (base\<lparr>rc_host := ''https://'' @ join_host_port (ip_to_string a) k0s_api_port,
          rc_timeout := member_request_timeout, rc_server_name := [], rc_insecure := False\<rparr>))"


section \<open>Lemmas\<close>

lemma first_of_key_keys:
  "ip_to_string ` set (first_of_key seen as) = ip_to_string ` set as - set seen"
  by (induction seen as rule: first_of_key.induct) auto

lemma first_of_key_subset: "set (first_of_key seen as) \<subseteq> set as"
  by (induction seen as rule: first_of_key.induct) auto

lemma first_of_key_distinct: "distinct (map ip_to_string (first_of_key seen as))"
  using first_of_key_keys
  by (induction seen as rule: first_of_key.induct) (auto simp del: first_of_key.simps(1), auto)

lemma reported_keys:
  "ip_to_string ` set (reported_ips m) = ip_to_string ` {a \<in> set (address_ips m). is_global_unicast a}"
  by (auto simp: reported_ips_def first_of_key_keys)

lemma reported_unicast: "a \<in> set (reported_ips m) \<Longrightarrow> a \<in> set (address_ips m) \<and> is_global_unicast a"
  unfolding reported_ips_def using first_of_key_subset by fastforce

lemma distinct_count_list: "distinct xs \<Longrightarrow> count_list xs x = (if x \<in> set xs then 1 else 0)"
  by (induction xs) auto

lemma reported_by_machines:
  "reported_by peers key =
   length (filter (\<lambda>m. key \<in> ip_to_string ` {a \<in> set (address_ips m). is_global_unicast a}) peers)"
proof (induction peers)
  case Nil
  show ?case by (simp add: reported_by_def)
next
  case (Cons m peers)
  have "distinct (map ip_to_string (reported_ips m))"
    by (simp add: reported_ips_def first_of_key_distinct)
  then have "count_list (map ip_to_string (reported_ips m)) key =
      (if key \<in> ip_to_string ` set (reported_ips m) then 1 else 0)"
    by (simp add: distinct_count_list)
  with Cons show ?case by (simp add: reported_by_def reported_keys)
qed

lemma candidate_keys:
  "key \<in> (\<lambda>c. ip_to_string (snd c)) ` set (leave_candidates ms target ex) \<longleftrightarrow>
   ownMemberAddresses ms key \<and> key \<notin> set (excluded_keys target ex) \<and>
   (\<exists>m\<in>set (leave_peers ms target). key \<in> ip_to_string ` set (reported_ips m))"
  unfolding leave_candidates_def by (auto simp: image_iff)

lemma reported_by_pos:
  "0 < reported_by peers key \<longleftrightarrow> (\<exists>m\<in>set peers. key \<in> ip_to_string ` set (reported_ips m))"
  unfolding reported_by_def by (auto simp: count_list_0_iff simp flip: neq0_conv)

lemma count_list_filter_map_le:
  "count_list (map f (filter P xs)) y \<le> count_list (map f xs) y"
  by (induction xs) auto

lemma candidates_count:
  "count_list (map (\<lambda>c. ip_to_string (snd c)) (leave_candidates ms target ex)) key
   \<le> reported_by (leave_peers ms target) key"
proof -
  have "count_list (map (\<lambda>c. ip_to_string (snd c)) (concat (map (\<lambda>m. map (\<lambda>a. (\<not> registered m, a))
          (filter P (reported_ips m))) ps))) key
        \<le> count_list (concat (map (\<lambda>m. map ip_to_string (reported_ips m)) ps)) key" for P ps
    by (induction ps) (auto simp: comp_def add_mono count_list_filter_map_le)
  then show ?thesis by (simp add: leave_candidates_def reported_by_def)
qed

lemma count_list_mset: "count_list xs x = count (mset xs) x"
  by (induction xs) auto

lemma distinct_of_counts: "(\<And>x. count_list xs x \<le> 1) \<Longrightarrow> distinct xs"
proof (induction xs)
  case (Cons y ys)
  have "count_list ys y = 0" using Cons.prems [of y] by simp
  then have "y \<notin> set ys" by (simp add: count_list_0_iff)
  moreover have "count_list ys x \<le> 1" for x
    using Cons.prems [of x] by (cases "x = y") auto
  ultimately show ?case using Cons.IH by simp
qed simp

lemma count_list_filter_le: "count_list (filter P xs) x \<le> count_list xs x"
  by (induction xs) auto

text \<open>
  The addresses the leave and identity traffic may go to are exactly those that are not
  the endpoint, the VIP or an address of the leaving Machine, that no Machine being deleted
  reports, and that exactly one Machine which is neither leaving nor being deleted reports as
  a global unicast address; and each is tried once.
\<close>

theorem leaveCandidateIPs_exact:
  "(key \<in> set (leaveCandidateIPs ms target ex)) =
     (ownMemberAddresses ms key \<and> key \<notin> set (excluded_keys target ex) \<and>
      length (filter (\<lambda>m. key \<in> ip_to_string ` {a \<in> set (address_ips m). is_global_unicast a})
        (leave_peers ms target)) = 1)
   \<and> distinct (leaveCandidateIPs ms target ex)"
proof
  let ?cs = "map (\<lambda>c. ip_to_string (snd c)) (sort_key (\<lambda>c. c) (leave_candidates ms target ex))"
  have keys: "key \<in> set ?cs \<longleftrightarrow> key \<in> (\<lambda>c. ip_to_string (snd c)) ` set (leave_candidates ms target ex)"
    by simp
  show "(key \<in> set (leaveCandidateIPs ms target ex)) =
     (ownMemberAddresses ms key \<and> key \<notin> set (excluded_keys target ex) \<and>
      length (filter (\<lambda>m. key \<in> ip_to_string ` {a \<in> set (address_ips m). is_global_unicast a})
        (leave_peers ms target)) = 1)"
    using reported_by_pos [of "leave_peers ms target" key]
    unfolding leaveCandidateIPs_def reported_by_machines [symmetric]
    by (auto simp only: set_filter mem_Collect_eq keys candidate_keys)
  have "count_list ?cs x \<le> reported_by (leave_peers ms target) x" for x
    using candidates_count [of ms target ex x] by (simp add: count_list_mset)
  then show "distinct (leaveCandidateIPs ms target ex)"
    unfolding leaveCandidateIPs_def
    by (intro distinct_of_counts)
      (metis (mono_tags, lifting) count_list_0_iff count_list_filter_le le_trans linorder_linear
        mem_Collect_eq set_filter zero_le_one)
qed

end
