(* ===== verification/Workload_Identity.thy ===== *)
theory Workload_Identity
  imports Leave_Candidates
begin

text \<open>
  The workload-cluster identity pin and the freeze: \<open>ha_identity.go\<close>.

  The control plane pins the UID of the workload cluster's \<open>kube-system\<close> Namespace in an
  annotation. An apiserver that answers with another UID freezes it: a second annotation
  records the observation and the pin it was measured against, and while it is there no
  Machine is created or deleted, no hook is removed and nothing is written to the workload
  cluster. The annotation value is \<open><observed> via <who> at <RFC 3339>; pinned <pin>\<close>.

  A client of the workload cluster is the name it is reached through (\<open>via\<close>): the
  endpoint, or a member's IP. Building one and reading through it are requests whose
  answers \<open>env\<close> holds; a timeout is a refused request. The rate-limit entry
  \<open>identityCheckedAt[identityCheckKey(kcp)]\<close> is \<open>s_identity_checked\<close>. The texts of
  conditions' messages, events and API errors are not modelled.
\<close>


section \<open>Constants\<close>

definition workload_uid_ann :: string where
  "workload_uid_ann = ''controlplane.cluster.x-k8s.io/workload-cluster-uid''"

definition mismatch_ann :: string where
  "mismatch_ann = ''controlplane.cluster.x-k8s.io/workload-cluster-identity-mismatch''"

definition recheck_interval :: duration where "recheck_interval = minutes 1"

definition frozen_requeue :: duration where "frozen_requeue = seconds 60"

definition pinned_sep :: string where "pinned_sep = ''; pinned ''"

definition identity_none :: string where "identity_none = ''<none>''"

definition identity_malformed :: string where "identity_malformed = ''<malformed>''"

definition leaveViaEndpoint :: string where "leaveViaEndpoint = ''endpoint''"

lemma ann_keys_differ [simp]: "workload_uid_ann \<noteq> mismatch_ann" "mismatch_ann \<noteq> workload_uid_ann"
  by (simp_all add: workload_uid_ann_def mismatch_ann_def)

text \<open>\<open>uidShape\<close>: one to 64 letters, digits and hyphens.\<close>

definition uid_char :: "char \<Rightarrow> bool" where
  "uid_char c \<longleftrightarrow> is_upper c \<or> is_lower c \<or> is_digit c \<or> c = CHR ''-''"

definition uidShape :: "string \<Rightarrow> bool" where
  "uidShape uid \<longleftrightarrow> uid \<noteq> [] \<and> length uid \<le> 64 \<and> list_all uid_char uid"

definition displayUID :: "string \<Rightarrow> string" where
  "displayUID uid =
     (if uid = [] then identity_none else if uidShape uid then uid else identity_malformed)"

record identity_gate =
  g_frozen :: bool
  g_hold :: string

definition no_gate :: identity_gate where
  "no_gate = \<lparr>g_frozen = False, g_hold = []\<rparr>"

definition hold_gate :: "string \<Rightarrow> identity_gate" where
  "hold_gate why = \<lparr>g_frozen = False, g_hold = why\<rparr>"

record identity_observation =
  ob_via :: string
  ob_answer :: "err + string"


section \<open>The freeze\<close>

text \<open>\<open>workloadIdentityFrozen\<close>: the message when the freeze is in place.\<close>

definition workloadIdentityFrozen :: "kcp \<Rightarrow> string option" where
  "workloadIdentityFrozen k =
     (case k_annotations k mismatch_ann of
        None \<Rightarrow> None
      | Some v \<Rightarrow> Some (''A workload apiserver answered with a different cluster identity (kube-system UID): '' @ v @
          ''. Control-plane Machines are not created or deleted, and etcd-leave hooks are not removed, until an operator '' @
          ''verifies the cluster and re-pins annotation '' @ workload_uid_ann @
          '' (see docs/HIGH_AVAILABILITY.md).''))"

definition frozen :: "kcp \<Rightarrow> bool" where
  "frozen k \<longleftrightarrow> k_annotations k mismatch_ann \<noteq> None"

definition errIfIdentityFrozen :: "kcp \<Rightarrow> err option" where
  "errIfIdentityFrozen k =
     (case workloadIdentityFrozen k of Some _ \<Rightarrow> Some IdentityChanged | None \<Rightarrow> None)"

text \<open>\<open>if err := errIfIdentityFrozen(kcp, ...); err != nil { return err }\<close>\<close>

definition refuse_if_frozen :: "unit op" where
  "refuse_if_frozen =
     bindA get_kcp (\<lambda>k. case errIfIdentityFrozen k of Some e \<Rightarrow> throw e | None \<Rightarrow> ret ())"

definition recordedPin :: "string \<Rightarrow> string option" where
  "recordedPin mismatch = after_last pinned_sep mismatch"

definition identityApplies :: "kcp \<Rightarrow> machine list \<Rightarrow> int \<Rightarrow> bool" where
  "identityApplies k ms desired =
     (if ann (k_annotations k) workload_uid_ann \<noteq> [] then True
      else if desired \<le> 1 \<and> length ms \<le> 1 then False
      else list_ex registered ms)"


section \<open>The recheck clock\<close>

definition identityRecheckDue :: "env \<Rightarrow> bool op" where
  "identityRecheckDue E = getsA (\<lambda>s. case s_identity_checked s of
     None \<Rightarrow> True | Some at \<Rightarrow> e_now E - at \<ge> recheck_interval)"

definition markIdentityChecked :: "env \<Rightarrow> unit op" where
  "markIdentityChecked E = modA (\<lambda>s. s\<lparr>s_identity_checked := Some (e_now E)\<rparr>)"

definition forgetIdentityCheck :: "unit op" where
  "forgetIdentityCheck = modA (\<lambda>s. s\<lparr>s_identity_checked := None\<rparr>)"


section \<open>Reading and verifying the identity\<close>

text \<open>\<open>workloadClientFor\<close> and the member client factory.\<close>

definition build_client :: "env \<Rightarrow> string \<Rightarrow> unit op" where
  "build_client E via =
     bindA tick (\<lambda>n. case e_client E n via of Some x \<Rightarrow> throw (Api x) | None \<Rightarrow> ret ())"

definition readWorkloadIdentity :: "env \<Rightarrow> string \<Rightarrow> string op" where
  "readWorkloadIdentity E via =
     bindA (read_api (\<lambda>n. e_uid E n via)) (\<lambda>uid.
     if uid = [] then throw (Failed ''namespace kube-system has no UID'') else ret uid)"

text \<open>
  \<open>tripIdentityFreeze\<close> always returns an error that \<open>errors.Is\<close> reports as
  \<open>errWorkloadIdentityChanged\<close>, so only the error's text is left to return.
\<close>

definition mismatch_value :: "env \<Rightarrow> string \<Rightarrow> string \<Rightarrow> string \<Rightarrow> string" where
  "mismatch_value E uid via pin =
     displayUID uid @ '' via '' @ via @ '' at '' @ format_rfc3339 (e_now E) @ pinned_sep @ displayUID pin"

definition changed_text :: "string \<Rightarrow> string \<Rightarrow> string \<Rightarrow> string" where
  "changed_text uid via pin =
     ''workload apiserver '' @ via @ '' answered with kube-system UID '' @ displayUID uid @ '', but '' @
     displayUID pin @ '' is pinned: the workload cluster identity does not match the pinned identity''"

definition tripIdentityFreeze :: "env \<Rightarrow> string \<Rightarrow> string \<Rightarrow> string \<Rightarrow> string op" where
  "tripIdentityFreeze E uid via pin =
     bindA get_kcp (\<lambda>k.
     let changed = changed_text uid via pin in
     if workloadIdentityFrozen k \<noteq> None then ret changed
     else bindA (tryA (patchKCPAnnotations E [(mismatch_ann, mismatch_value E uid via pin)] [])) (\<lambda>r.
       case r of
         Inl _ \<Rightarrow> ret (changed @ [CHR 0x0A] @ ''record the identity mismatch on the KairosControlPlane'')
       | Inr _ \<Rightarrow>
           bindA forgetIdentityCheck (\<lambda>_.
           bindA (event E Warning ''WorkloadClusterIdentityChanged'') (\<lambda>_.
           ret changed))))"

definition verifyWorkloadIdentity :: "env \<Rightarrow> string \<Rightarrow> unit op" where
  "verifyWorkloadIdentity E via =
     bindA refuse_if_frozen (\<lambda>_.
     bindA get_kcp (\<lambda>k.
     let pin = ann (k_annotations k) workload_uid_ann in
     if pin = [] then ret ()
     else bindA (readWorkloadIdentity E via) (\<lambda>uid.
       if uid \<noteq> pin then bindA (tripIdentityFreeze E uid via pin) (\<lambda>_. throw IdentityChanged)
       else ret ())))"

definition verifyPinnedWorkloadIdentity :: "env \<Rightarrow> string \<Rightarrow> unit op" where
  "verifyPinnedWorkloadIdentity E via =
     bindA refuse_if_frozen (\<lambda>_.
     bindA get_kcp (\<lambda>k.
     if ann (k_annotations k) workload_uid_ann = [] then throw IdentityNotPinned
     else verifyWorkloadIdentity E via))"

definition verifyIdentityViaEndpoint :: "env \<Rightarrow> unit op" where
  "verifyIdentityViaEndpoint E =
     bindA refuse_if_frozen (\<lambda>_.
     bindA get_kcp (\<lambda>k.
     if ann (k_annotations k) workload_uid_ann = [] then ret ()
     else bindA (build_client E leaveViaEndpoint) (\<lambda>_.
       verifyWorkloadIdentity E leaveViaEndpoint)))"

text \<open>\<open>identityPreflight\<close>: \<open>None\<close> to proceed, otherwise when to come back.\<close>

definition joiner_gate_requeue :: duration where "joiner_gate_requeue = seconds 15"

definition identityPreflight :: "env \<Rightarrow> duration option op" where
  "identityPreflight E =
     bindA (tryA (verifyIdentityViaEndpoint E)) (\<lambda>r.
     case r of
       Inr _ \<Rightarrow> ret None
     | Inl e \<Rightarrow> if e = IdentityChanged then ret (Some frozen_requeue) else ret (Some joiner_gate_requeue))"


text \<open>\<open>errors.Is(err, errWorkloadIdentityChanged)\<close> on a result.\<close>

fun is_changed :: "err + 'a \<Rightarrow> bool" where
  "is_changed (Inl e) = (e = IdentityChanged)"
| "is_changed (Inr _) = False"

lemma is_changed_iff [simp]: "is_changed r \<longleftrightarrow> r = Inl IdentityChanged"
  by (cases r) auto


section \<open>Observing every path\<close>

definition observe_via :: "env \<Rightarrow> string \<Rightarrow> identity_observation op" where
  "observe_via E via =
     bindA (tryA (bindA (build_client E via) (\<lambda>_. readWorkloadIdentity E via))) (\<lambda>r.
     ret \<lparr>ob_via = via, ob_answer = r\<rparr>)"

fun observe_all :: "env \<Rightarrow> string list \<Rightarrow> identity_observation list op" where
  "observe_all E [] = ret []"
| "observe_all E (via # vias) =
     bindA (observe_via E via) (\<lambda>o1. bindA (observe_all E vias) (\<lambda>os. ret (o1 # os)))"

definition observeWorkloadIdentity :: "env \<Rightarrow> cluster \<Rightarrow> machine list \<Rightarrow> identity_observation list op" where
  "observeWorkloadIdentity E cl ms =
     bindA get_kcp (\<lambda>k.
     observe_all E (leaveViaEndpoint # leaveCandidateIPs ms no_machine (leaveExcludedHosts k cl)))"

fun answers :: "identity_observation list \<Rightarrow> (string \<times> string) list" where
  "answers [] = []"
| "answers (ob # obs) =
     (case ob_answer ob of Inl _ \<Rightarrow> answers obs | Inr uid \<Rightarrow> (ob_via ob, uid) # answers obs)"

text \<open>\<open>frozenGate\<close>: the recorded freeze's message, or the error's text when the annotation
  could not be written.\<close>

definition frozenGate :: "string \<Rightarrow> identity_gate op" where
  "frozenGate trip_text =
     bindA get_kcp (\<lambda>k.
     ret \<lparr>g_frozen = True,
          g_hold = (case workloadIdentityFrozen k of Some msg \<Rightarrow> msg | None \<Rightarrow> trip_text)\<rparr>)"

definition trip_gate :: "env \<Rightarrow> string \<Rightarrow> string \<Rightarrow> string \<Rightarrow> identity_gate op" where
  "trip_gate E uid via pin = bindA (tripIdentityFreeze E uid via pin) frozenGate"

definition conflict_or :: "err \<Rightarrow> string \<Rightarrow> identity_gate op" where
  "conflict_or e why = (if e = Api Conflict then ret (hold_gate why) else throw e)"

definition recordPin :: "env \<Rightarrow> string \<Rightarrow> identity_gate op" where
  "recordPin E uid =
     bindA (tryA (patchKCPAnnotations E [(workload_uid_ann, uid)] [])) (\<lambda>r.
     case r of
       Inl e \<Rightarrow> conflict_or e
         ''the KairosControlPlane changed while the workload cluster identity was being pinned; retrying''
     | Inr _ \<Rightarrow>
         bindA (markIdentityChecked E) (\<lambda>_.
         bindA (event E Normal ''WorkloadClusterIdentityPinned'') (\<lambda>_.
         ret no_gate)))"

text \<open>An answer that is not UID-shaped trips first; then the first that differs from the
  first answer; otherwise the common answer becomes the pin.\<close>

definition pinAnswers :: "env \<Rightarrow> (string \<times> string) list \<Rightarrow> identity_gate op" where
  "pinAnswers E answered =
     (case answered of
        [] \<Rightarrow> ret (hold_gate ''no workload apiserver answered the cluster identity read'')
      | (via, uid) # rest \<Rightarrow>
         (case find (\<lambda>a. \<not> uidShape (snd a)) answered of
            Some (via', uid') \<Rightarrow> trip_gate E uid' via' []
          | None \<Rightarrow>
             (case find (\<lambda>a. snd a \<noteq> uid) rest of
                Some (via', uid') \<Rightarrow> trip_gate E uid' via' []
              | None \<Rightarrow> recordPin E uid)))"

definition pinWorkloadIdentity :: "env \<Rightarrow> cluster \<Rightarrow> machine list \<Rightarrow> identity_gate op" where
  "pinWorkloadIdentity E cl ms =
     bindA (observeWorkloadIdentity E cl ms) (\<lambda>obs. pinAnswers E (answers obs))"

definition clearRepinnedIdentityFreeze :: "env \<Rightarrow> unit op" where
  "clearRepinnedIdentityFreeze E =
     bindA get_kcp (\<lambda>k.
     case k_annotations k mismatch_ann of
       None \<Rightarrow> ret ()
     | Some mismatch \<Rightarrow>
         (case recordedPin mismatch of
            None \<Rightarrow> ret ()
          | Some recorded \<Rightarrow>
              if recorded = displayUID (ann (k_annotations k) workload_uid_ann) then ret ()
              else bindA (patchKCPAnnotations E [] [mismatch_ann]) (\<lambda>_.
                bindA forgetIdentityCheck (\<lambda>_.
                event E Normal ''WorkloadClusterIdentityFreezeCleared''))))"

text \<open>The loop of a due recheck: the first answer that is not the pin trips the freeze;
  otherwise the check counts when anything answered.\<close>

definition recheckAnswers :: "env \<Rightarrow> (string \<times> string) list \<Rightarrow> string \<Rightarrow> identity_gate op" where
  "recheckAnswers E answered pin =
     (case find (\<lambda>a. snd a \<noteq> pin) answered of
        Some (via, uid) \<Rightarrow> trip_gate E uid via pin
      | None \<Rightarrow>
          if answered = [] then ret no_gate
          else bindA (markIdentityChecked E) (\<lambda>_. ret no_gate))"

definition recheckIdentity :: "env \<Rightarrow> cluster \<Rightarrow> machine list \<Rightarrow> string \<Rightarrow> identity_gate op" where
  "recheckIdentity E cl ms pin =
     bindA (observeWorkloadIdentity E cl ms) (\<lambda>obs. recheckAnswers E (answers obs) pin)"

text \<open>\<open>kubeconfig_ready\<close> is \<open>KubeconfigReadyCondition\<close>.\<close>

definition kubeconfig_ready :: string where "kubeconfig_ready = ''KubeconfigReady''"

definition identityStep :: "env \<Rightarrow> cluster \<Rightarrow> machine list \<Rightarrow> int \<Rightarrow> kcp \<Rightarrow> identity_gate op" where
  "identityStep E cl ms desired k =
     (case workloadIdentityFrozen k of
        Some msg \<Rightarrow> bindA forgetIdentityCheck (\<lambda>_. ret \<lparr>g_frozen = True, g_hold = msg\<rparr>)
      | None \<Rightarrow>
          if \<not> identityApplies k ms desired then ret no_gate
          else if ann (k_annotations k) workload_uid_ann = [] then
            (if \<not> is_true k kubeconfig_ready
             then ret (hold_gate ''the workload kubeconfig is not ready, so the workload cluster identity cannot be pinned yet'')
             else pinWorkloadIdentity E cl ms)
          else bindA (identityRecheckDue E) (\<lambda>due.
            if \<not> due then ret no_gate
            else recheckIdentity E cl ms (ann (k_annotations k) workload_uid_ann)))"

definition reconcileWorkloadIdentity :: "env \<Rightarrow> cluster \<Rightarrow> machine list \<Rightarrow> int \<Rightarrow> identity_gate op" where
  "reconcileWorkloadIdentity E cl ms desired =
     bindA (tryA (clearRepinnedIdentityFreeze E)) (\<lambda>c.
     case c of
       Inl e \<Rightarrow> conflict_or e
         ''the KairosControlPlane changed while the identity freeze was being cleared; retrying''
     | Inr _ \<Rightarrow> bindA get_kcp (identityStep E cl ms desired))"

text \<open>\<open>markWorkloadIdentityConditions\<close>.\<close>

definition ready_cond :: string where "ready_cond = ''Ready''"
definition available_cond :: string where "available_cond = ''Available''"
definition etcd_healthy_cond :: string where "etcd_healthy_cond = ''EtcdHealthy''"

definition identity_changed_reason :: string where
  "identity_changed_reason = ''WorkloadClusterIdentityChanged''"

definition markWorkloadIdentityConditions :: "kcp \<Rightarrow> kcp" where
  "markWorkloadIdentityConditions k =
     (if workloadIdentityFrozen k = None then k
      else fold (\<lambda>t. set_cond t (cond_false identity_changed_reason SevError))
             [ready_cond, available_cond, etcd_healthy_cond] k)"


section \<open>The freeze as a monitor of the effect log\<close>

text \<open>
  The freeze annotation changes only when a patch of the KairosControlPlane sets or removes
  it. The monitor reads it off the log of effects: \<open>safe_log fr es\<close> says that, starting
  from a freeze \<open>fr\<close>, no effect of \<open>es\<close> that changes membership takes place while the freeze
  is in place. \<open>freeze_ok\<close> is the guarantee every operation gives: its effects are safe, and
  the in-memory object agrees with the monitor afterwards.
\<close>

fun freeze_step :: "bool \<Rightarrow> effect \<Rightarrow> bool" where
  "freeze_step fr (KcpPatched kvs rm) =
     (if mismatch_ann \<in> set rm then False
      else if mismatch_ann \<in> fst ` set kvs then True else fr)"
| "freeze_step fr _ = fr"

fun safe_log :: "bool \<Rightarrow> effect list \<Rightarrow> bool" where
  "safe_log fr [] = True"
| "safe_log fr (e # es) = ((fr \<longrightarrow> \<not> membership_effect e) \<and> safe_log (freeze_step fr e) es)"

definition freeze_ok :: "st \<Rightarrow> st \<Rightarrow> bool" where
  "freeze_ok s s' \<longleftrightarrow> (\<exists>es. s_log s' = s_log s @ es \<and> safe_log (frozen (s_kcp s)) es \<and>
     frozen (s_kcp s') = foldl freeze_step (frozen (s_kcp s)) es)"

definition unfrozen :: "st \<Rightarrow> bool" where
  "unfrozen s \<longleftrightarrow> \<not> frozen (s_kcp s)"

definition same_annotations :: "st \<Rightarrow> st \<Rightarrow> bool" where
  "same_annotations s s' \<longleftrightarrow> k_annotations (s_kcp s') = k_annotations (s_kcp s)"

text \<open>The pin, once set, is never changed by the controller.\<close>

definition pin_kept :: "st \<Rightarrow> st \<Rightarrow> bool" where
  "pin_kept s s' \<longleftrightarrow>
     (ann (k_annotations (s_kcp s)) workload_uid_ann \<noteq> [] \<longrightarrow>
      ann (k_annotations (s_kcp s')) workload_uid_ann = ann (k_annotations (s_kcp s)) workload_uid_ann)"

lemma safe_log_append:
  "safe_log fr (es @ fs) \<longleftrightarrow> safe_log fr es \<and> safe_log (foldl freeze_step fr es) fs"
  by (induction es arbitrary: fr) auto

interpretation frz: gated freeze_ok unfrozen same_annotations
proof
  fix s t u :: st
  show "freeze_ok s s" by (simp add: freeze_ok_def)
  show "freeze_ok s u" if "freeze_ok s t" "freeze_ok t u"
    using that by (auto simp: freeze_ok_def safe_log_append)
  show "unfrozen t" if "same_annotations s t" "unfrozen s"
    using that by (simp add: same_annotations_def unfrozen_def frozen_def)
qed

interpretation quiet: guarantee same_annotations
  by unfold_locales (auto simp: same_annotations_def)

text \<open>The pin may be written only while there is none.\<close>

definition unpinned :: "st \<Rightarrow> bool" where
  "unpinned s \<longleftrightarrow> ann (k_annotations (s_kcp s)) workload_uid_ann = []"

interpretation pinned: gated pin_kept unpinned same_annotations
  by unfold_locales (auto simp: pin_kept_def same_annotations_def unpinned_def)

named_theorems freeze_rules \<open>operations that give the freeze guarantee\<close>
named_theorems quiet_rules \<open>operations that leave the annotations of the KairosControlPlane alone\<close>
named_theorems pin_rules \<open>operations that keep the pin\<close>

lemma upd_all_other [simp]: "k \<notin> fst ` set kvs \<Longrightarrow> upd_all m kvs k = m k"
  by (induction kvs arbitrary: m) auto

lemma upd_all_some: "k \<in> fst ` set kvs \<Longrightarrow> upd_all m kvs k \<noteq> None"
proof (induction kvs arbitrary: m)
  case (Cons kv kvs)
  then show ?case by (cases kv; cases "k \<in> fst ` set kvs") auto
qed simp

lemma del_all_lookup [simp]: "del_all m ks k = (if k \<in> set ks then None else m k)"
  by (induction ks arbitrary: m) auto

lemma frozen_after_patch:
  "frozen (k\<lparr>k_annotations := del_all (upd_all (k_annotations k) kvs) rm\<rparr>) =
   freeze_step (frozen k) (KcpPatched kvs rm)"
  using upd_all_some [of mismatch_ann kvs "k_annotations k"] by (auto simp: frozen_def)

definition plain_effect :: "effect \<Rightarrow> bool" where
  "plain_effect e \<longleftrightarrow> (\<forall>fr. freeze_step fr e = fr)"

lemma plain_effects [simp]:
  "plain_effect (KcpPatched kvs rm) \<longleftrightarrow> mismatch_ann \<notin> set rm \<and> mismatch_ann \<notin> fst ` set kvs"
  "plain_effect (MachineAnnotated n a)" "plain_effect (HookRemoved n)" "plain_effect (DrainPatched n d)"
  "plain_effect (MetadataPatched n ls as)"
  "plain_effect (ObjectCreated ob)" "plain_effect (ObjectDeleted kd n)" "plain_effect (MachineDeleted n)"
  "plain_effect (LeaveWritten v n x)" "plain_effect (SpecLeaveSet v n b)"
  "plain_effect (TokenSecretCreated v n ts)" "plain_effect (TokenSecretExtended v n x)"
  "plain_effect (TokenSecretDeleted v n)" "plain_effect (JoinSecretPatched jd)"
  "plain_effect (ConfigAnnotated n)" "plain_effect (SecretEnsured n b)" "plain_effect FinalizerRemoved"
  "plain_effect (StatusUpdated ks)" "plain_effect (StatusPatched ks)" "plain_effect (Event t n)"
  unfolding plain_effect_def all_bool_eq by simp_all

lemma log_plain_ok:
  assumes "plain_effect e" "\<not> frozen (s_kcp s) \<or> \<not> membership_effect e"
    "s_log s' = s_log s @ [e]" "k_annotations (s_kcp s') = k_annotations (s_kcp s)"
  shows "freeze_ok s s'"
  unfolding freeze_ok_def
proof (intro exI conjI)
  show "s_log s' = s_log s @ [e]" by (rule assms(3))
  show "safe_log (frozen (s_kcp s)) [e]" using assms(2) by simp
  show "frozen (s_kcp s') = foldl freeze_step (frozen (s_kcp s)) [e]"
    using assms(1,4) by (simp add: plain_effect_def frozen_def)
qed

lemma nothing_logged_ok:
  assumes "s_log s' = s_log s" "k_annotations (s_kcp s') = k_annotations (s_kcp s)"
  shows "freeze_ok s s'"
  unfolding freeze_ok_def by (rule exI [of _ "[]"]) (use assms in \<open>simp add: frozen_def\<close>)

lemma tick_freeze [freeze_rules]: "guards freeze_ok tick"
  by (simp add: guards_wpa wpa_simps nothing_logged_ok)

lemma mod_freeze:
  "(\<And>s. s_log (f s) = s_log s \<and> k_annotations (s_kcp (f s)) = k_annotations (s_kcp s)) \<Longrightarrow>
   guards freeze_ok (modA f)"
  by (simp add: guards_wpa wpa_simps nothing_logged_ok)

lemma mgmt_write_freeze:
  "plain_effect e \<Longrightarrow> \<not> membership_effect e \<Longrightarrow> guards freeze_ok (mgmt_write E e)"
  unfolding guards_wpa wpa_simps
  by (auto intro: nothing_logged_ok log_plain_ok split: option.splits)

lemma mgmt_write_unfrozen: "plain_effect e \<Longrightarrow> guards_from unfrozen freeze_ok (mgmt_write E e)"
  unfolding guards_from_wpa wpa_simps unfrozen_def
  by (auto intro: nothing_logged_ok log_plain_ok split: option.splits)

lemma workload_write_unfrozen:
  "plain_effect e \<Longrightarrow> guards_from unfrozen freeze_ok (workload_write_via E via e)"
  unfolding guards_from_wpa wpa_simps unfrozen_def
  by (auto intro: nothing_logged_ok log_plain_ok split: option.splits)

lemma read_api_freeze [freeze_rules]: "guards freeze_ok (read_api f)"
  unfolding guards_wpa wpa_simps by (auto intro: nothing_logged_ok split: sum.splits)

lemma event_freeze [freeze_rules]: "guards freeze_ok (event E t r)"
  unfolding guards_wpa wpa_simps
  by (auto intro: nothing_logged_ok log_plain_ok [where e = "Event t r"])

lemma get_kcp_freeze [freeze_rules]: "guards freeze_ok get_kcp"
  by (simp add: guards_wpa wpa_simps nothing_logged_ok)

lemma mark_freeze [freeze_rules]:
  "guards freeze_ok (mark_true t)" "guards freeze_ok (mark_false t r v)"
  by (simp_all add: guards_wpa wpa_simps nothing_logged_ok)

lemma patchKCP_freeze [freeze_rules]: "guards freeze_ok (patchKCPAnnotations E kvs rm)"
proof -
  have "freeze_ok s (s\<lparr>s_tick := Suc (s_tick s), s_log := s_log s @ [KcpPatched kvs rm],
      s_kcp := (s_kcp s)\<lparr>k_annotations := del_all (upd_all (k_annotations (s_kcp s)) kvs) rm\<rparr>\<rparr>)" for s
    unfolding freeze_ok_def
    by (rule exI [of _ "[KcpPatched kvs rm]"]) (simp add: frozen_after_patch del: freeze_step.simps)
  then show ?thesis
    unfolding guards_wpa wpa_simps by (auto intro: nothing_logged_ok split: option.splits)
qed

lemma quiet_pin: "guards same_annotations m \<Longrightarrow> guards pin_kept m"
  by (simp add: guards_def same_annotations_def pin_kept_def)

lemma mod_quiet:
  "(\<And>s. k_annotations (s_kcp (f s)) = k_annotations (s_kcp s)) \<Longrightarrow> guards same_annotations (modA f)"
  by (simp add: guards_wpa wpa_simps same_annotations_def)

lemma primitives_quiet [quiet_rules]:
  "guards same_annotations tick"
  "guards same_annotations (mgmt_write E e)"
  "guards same_annotations (workload_write_via E via e)"
  "guards same_annotations (read_api f)"
  "guards same_annotations (event E et r)"
  "guards same_annotations get_kcp"
  "guards same_annotations (mark_true t)"
  "guards same_annotations (mark_false t r v)"
  by (auto simp: guards_wpa wpa_simps same_annotations_def split: option.splits sum.splits)

lemma patchKCP_pin [pin_rules]:
  "workload_uid_ann \<notin> fst ` set kvs \<Longrightarrow> workload_uid_ann \<notin> set rm \<Longrightarrow>
   guards pin_kept (patchKCPAnnotations E kvs rm)"
  unfolding guards_wpa wpa_simps by (auto simp: pin_kept_def ann_def split: option.splits)

lemma patchKCP_pin_first: "guards_from unpinned pin_kept (patchKCPAnnotations E kvs rm)"
  unfolding guards_from_wpa wpa_simps by (auto simp: pin_kept_def unpinned_def split: option.splits)

lemma bind_get_kcp:
  "guards_from P R (bindA get_kcp f) \<longleftrightarrow> (\<forall>s. P s \<longrightarrow> R s (snd (f (s_kcp s) s)))"
  by (simp add: guards_from_def bindA_def get_kcp_def getsA_def)


section \<open>What the identity operations guarantee\<close>

lemma frozen_msg: "workloadIdentityFrozen k = None \<longleftrightarrow> \<not> frozen k"
  by (simp add: workloadIdentityFrozen_def frozen_def split: option.splits)

lemma frozen_err [simp]: "errIfIdentityFrozen k = (if frozen k then Some IdentityChanged else None)"
  by (auto simp: errIfIdentityFrozen_def frozen_def workloadIdentityFrozen_def split: option.splits)

lemma wpa_refuse [wpa_simps]:
  "wpa refuse_if_frozen Q s =
   (if frozen (s_kcp s) then Q (Inl IdentityChanged) s else Q (Inr ()) s)"
  by (simp add: refuse_if_frozen_def wpa_simps)

lemma run_get_kcp: "bindA get_kcp f s = f (s_kcp s) s"
  by (simp add: bindA_def get_kcp_def getsA_def)

lemma run_refuse:
  "bindA refuse_if_frozen f s = (if frozen (s_kcp s) then (Inl IdentityChanged, s) else f () s)"
  by (simp add: bindA_def refuse_if_frozen_def get_kcp_def getsA_def ret_def throw_def)

lemma wpa_build_client [wpa_simps]:
  "wpa (build_client E via) Q s =
   (case e_client E (s_tick s) via of
      Some x \<Rightarrow> Q (Inl (Api x)) (s\<lparr>s_tick := Suc (s_tick s)\<rparr>)
    | None \<Rightarrow> Q (Inr ()) (s\<lparr>s_tick := Suc (s_tick s)\<rparr>))"
  by (simp add: build_client_def wpa_simps split: option.splits)

lemma wpa_readIdentity [wpa_simps]:
  "wpa (readWorkloadIdentity E via) Q s =
   (case e_uid E (s_tick s) via of
      Inl x \<Rightarrow> Q (Inl (Api x)) (s\<lparr>s_tick := Suc (s_tick s)\<rparr>)
    | Inr uid \<Rightarrow>
        if uid = [] then Q (Inl (Failed ''namespace kube-system has no UID'')) (s\<lparr>s_tick := Suc (s_tick s)\<rparr>)
        else Q (Inr uid) (s\<lparr>s_tick := Suc (s_tick s)\<rparr>))"
  by (simp add: readWorkloadIdentity_def wpa_simps split: sum.splits)

lemma refuse_opens: "refuse_if_frozen s = (Inr x, s') \<Longrightarrow> unfrozen s'"
  using wpa_result [of refuse_if_frozen s "Inr x" s' "\<lambda>r s'. \<forall>x. r = Inr x \<longrightarrow> unfrozen s'"]
  by (auto simp: wpa_simps unfrozen_def)

lemma identity_reads_freeze [freeze_rules]:
  "guards freeze_ok refuse_if_frozen"
  "guards freeze_ok (build_client E via)"
  "guards freeze_ok (readWorkloadIdentity E via)"
  "guards freeze_ok (observe_via E via)"
  unfolding refuse_if_frozen_def build_client_def readWorkloadIdentity_def observe_via_def
  by (intro frz.flow guards_intros freeze_rules)+

lemma identity_reads_quiet [quiet_rules]:
  "guards same_annotations refuse_if_frozen"
  "guards same_annotations (build_client E via)"
  "guards same_annotations (readWorkloadIdentity E via)"
  "guards same_annotations (observe_via E via)"
  unfolding refuse_if_frozen_def build_client_def readWorkloadIdentity_def observe_via_def
  by (intro quiet.flow guards_intros quiet_rules)+

lemma observe_all_freeze [freeze_rules]: "guards freeze_ok (observe_all E vias)"
  by (induction vias) (auto intro!: frz.flow guards_intros freeze_rules)

lemma observe_all_quiet [quiet_rules]: "guards same_annotations (observe_all E vias)"
  by (induction vias) (auto intro!: quiet.flow guards_intros quiet_rules)

lemma observe_freeze [freeze_rules]: "guards freeze_ok (observeWorkloadIdentity E cl ms)"
  unfolding observeWorkloadIdentity_def by (intro frz.flow guards_intros freeze_rules)

lemma observe_quiet [quiet_rules]: "guards same_annotations (observeWorkloadIdentity E cl ms)"
  unfolding observeWorkloadIdentity_def by (intro quiet.flow guards_intros quiet_rules)

lemma clock_freeze [freeze_rules]:
  "guards freeze_ok (identityRecheckDue E)" "guards freeze_ok (markIdentityChecked E)"
  "guards freeze_ok forgetIdentityCheck"
  by (simp_all add: identityRecheckDue_def markIdentityChecked_def forgetIdentityCheck_def
      frz.gets_guards mod_freeze)

lemma clock_quiet [quiet_rules]:
  "guards same_annotations (identityRecheckDue E)" "guards same_annotations (markIdentityChecked E)"
  "guards same_annotations forgetIdentityCheck"
  by (simp_all add: identityRecheckDue_def markIdentityChecked_def forgetIdentityCheck_def
      quiet.gets_guards mod_quiet)

lemma trip_freeze [freeze_rules]: "guards freeze_ok (tripIdentityFreeze E uid via pin)"
  unfolding tripIdentityFreeze_def Let_def by (intro frz.flow guards_intros freeze_rules)

lemma verify_freeze [freeze_rules]:
  "guards freeze_ok (verifyWorkloadIdentity E via)"
  "guards freeze_ok (verifyPinnedWorkloadIdentity E via)"
  "guards freeze_ok (verifyIdentityViaEndpoint E)"
  "guards freeze_ok (identityPreflight E)"
  unfolding verifyPinnedWorkloadIdentity_def verifyIdentityViaEndpoint_def identityPreflight_def
    verifyWorkloadIdentity_def Let_def
  by (intro frz.flow guards_intros freeze_rules)+

lemma gate_freeze [freeze_rules]:
  "guards freeze_ok (trip_gate E uid via pin)" "guards freeze_ok (conflict_or e why)"
  "guards freeze_ok (recordPin E uid)" "guards freeze_ok (pinAnswers E answered)"
  "guards freeze_ok (recheckAnswers E answered p)"
  "guards freeze_ok (pinWorkloadIdentity E cl ms)"
  "guards freeze_ok (clearRepinnedIdentityFreeze E)"
  "guards freeze_ok (recheckIdentity E cl ms p)"
  "guards freeze_ok (reconcileWorkloadIdentity E cl ms desired)"
  unfolding trip_gate_def conflict_or_def pinWorkloadIdentity_def clearRepinnedIdentityFreeze_def
    recheckIdentity_def reconcileWorkloadIdentity_def frozenGate_def recordPin_def pinAnswers_def
    recheckAnswers_def identityStep_def
  by (intro frz.flow guards_intros freeze_rules)+

lemma wpa_trip:
  "(\<And>msg s'. s_kcp s' = s_kcp s \<or> frozen (s_kcp s') \<Longrightarrow> Q (Inr msg) s') \<Longrightarrow>
   wpa (tripIdentityFreeze E uid via pin) Q s"
  unfolding tripIdentityFreeze_def Let_def forgetIdentityCheck_def
  by (auto simp: wpa_simps frozen_def split: option.splits)

lemma verify_post:
  "wpa (verifyWorkloadIdentity E via)
     (\<lambda>r s'. r = Inr () \<longrightarrow> unfrozen s' \<and> s_kcp s' = s_kcp s \<and> s_log s' = s_log s \<and>
        (ann (k_annotations (s_kcp s)) workload_uid_ann = [] \<or>
         e_uid E (s_tick s) via = Inr (ann (k_annotations (s_kcp s)) workload_uid_ann))) s"
  unfolding verifyWorkloadIdentity_def Let_def
  by (auto simp: wpa_simps unfrozen_def intro!: wpa_trip split: sum.splits)

lemma verifyPinned_post:
  "wpa (verifyPinnedWorkloadIdentity E via)
     (\<lambda>r s'. r = Inr () \<longrightarrow> unfrozen s' \<and> s_kcp s' = s_kcp s \<and> s_log s' = s_log s \<and>
        ann (k_annotations (s_kcp s)) workload_uid_ann \<noteq> [] \<and>
        e_uid E (s_tick s) via = Inr (ann (k_annotations (s_kcp s)) workload_uid_ann)) s"
  unfolding verifyPinnedWorkloadIdentity_def
  by (auto simp: wpa_simps intro!: wpa_weaken [OF verify_post])

lemma verifyEndpoint_post:
  "wpa (verifyIdentityViaEndpoint E)
     (\<lambda>r s'. r = Inr () \<longrightarrow> unfrozen s' \<and> s_kcp s' = s_kcp s \<and> s_log s' = s_log s \<and>
        (ann (k_annotations (s_kcp s)) workload_uid_ann = [] \<or>
         (\<exists>n. e_uid E n leaveViaEndpoint = Inr (ann (k_annotations (s_kcp s)) workload_uid_ann)))) s"
  unfolding verifyIdentityViaEndpoint_def
  by (auto simp: wpa_simps unfrozen_def intro!: wpa_weaken [OF verify_post] split: option.splits)

lemma preflight_post:
  "wpa (identityPreflight E)
     (\<lambda>r s'. r = Inr None \<longrightarrow> unfrozen s' \<and> s_kcp s' = s_kcp s \<and> s_log s' = s_log s \<and>
        (ann (k_annotations (s_kcp s)) workload_uid_ann = [] \<or>
         (\<exists>n. e_uid E n leaveViaEndpoint = Inr (ann (k_annotations (s_kcp s)) workload_uid_ann)))) s"
  unfolding identityPreflight_def
  by (auto simp: wpa_simps intro!: wpa_weaken [OF verifyEndpoint_post] split: sum.splits)

lemma verify_opens:
  "verifyWorkloadIdentity E via s = (Inr x, s') \<Longrightarrow> unfrozen s'"
  "verifyPinnedWorkloadIdentity E via s = (Inr x, s') \<Longrightarrow> unfrozen s'"
  "verifyIdentityViaEndpoint E s = (Inr x, s') \<Longrightarrow> unfrozen s'"
  "identityPreflight E s = (Inr None, s') \<Longrightarrow> unfrozen s'"
  using wpa_result [OF _ verify_post, of E via s "Inr x" s']
    wpa_result [OF _ verifyPinned_post, of E via s "Inr x" s']
    wpa_result [OF _ verifyEndpoint_post, of E s "Inr x" s']
    wpa_result [OF _ preflight_post, of E s "Inr None" s']
  by (auto simp: old.unit.exhaust)

lemma displayUID_chars: "list_all (\<lambda>c. uid_char c \<or> c = CHR ''<'' \<or> c = CHR ''>'') (displayUID uid)"
  by (auto simp: displayUID_def identity_none_def identity_malformed_def uidShape_def uid_char_def
      char_class_defs less_eq_char_def list_all_iff)

lemma displayUID_no_semicolon: "CHR '';'' \<notin> set (displayUID uid)"
  using displayUID_chars [of uid]
  by (auto simp: list_all_iff uid_char_def char_class_defs less_eq_char_def)

lemma displayUID_inj: "uidShape u \<Longrightarrow> displayUID v = displayUID u \<longleftrightarrow> v = u"
  by (auto simp: displayUID_def uidShape_def identity_none_def identity_malformed_def uid_char_def
      char_class_defs less_eq_char_def)

text \<open>
  The pin a mismatch annotation records is read back exactly, whatever apiserver name
  the observation came through.
\<close>

theorem recordedPin_mismatch_value: "recordedPin (mismatch_value E uid via pin) = Some (displayUID pin)"
proof -
  have "after_last (CHR '';'' # '' pinned '')
      ((displayUID uid @ '' via '' @ via @ '' at '' @ format_rfc3339 (e_now E)) @
       (CHR '';'' # '' pinned '') @ displayUID pin) = Some (displayUID pin)"
    by (rule after_last_build) (simp_all add: displayUID_no_semicolon)
  then show ?thesis by (simp add: recordedPin_def mismatch_value_def pinned_sep_def)
qed

text \<open>
  While the freeze is in place because UID \<open>uid\<close> was read through \<open>via\<close> against pin
  \<open>pin\<close>, the controller lifts it exactly when the server accepts the patch and the pin is no
  longer the one that was violated.
\<close>

theorem freeze_cleared_iff_repinned:
  assumes "k_annotations (s_kcp s) mismatch_ann = Some (mismatch_value E' uid via pin)"
  shows "frozen (s_kcp (snd (clearRepinnedIdentityFreeze E s))) =
    (displayUID (ann (k_annotations (s_kcp s)) workload_uid_ann) = displayUID pin \<or>
     e_write E (s_tick s) \<noteq> None)"
proof -
  have "wpa (clearRepinnedIdentityFreeze E) (\<lambda>r s'. frozen (s_kcp s') =
    (displayUID (ann (k_annotations (s_kcp s)) workload_uid_ann) = displayUID pin \<or>
     e_write E (s_tick s) \<noteq> None)) s"
    unfolding clearRepinnedIdentityFreeze_def forgetIdentityCheck_def using assms
    by (auto simp: wpa_simps recordedPin_mismatch_value frozen_def split: option.splits)
  then show ?thesis by (simp add: wpa_def case_prod_beta)
qed


section \<open>Reads leave no trace\<close>

definition silent :: "st \<Rightarrow> st \<Rightarrow> bool" where
  "silent s s' \<longleftrightarrow> s_log s' = s_log s \<and> s_kcp s' = s_kcp s \<and>
     s_identity_checked s' = s_identity_checked s \<and> s_orphan_checked s' = s_orphan_checked s"

interpretation silent: guarantee silent
  by unfold_locales (auto simp: silent_def)

named_theorems silent_rules \<open>operations that only read\<close>

lemma silent_quiet: "guards silent m \<Longrightarrow> guards same_annotations m"
  by (simp add: guards_def silent_def same_annotations_def)

lemma silent_logs: "guards silent m \<Longrightarrow> guards (logs_only Q) m"
  by (simp add: guards_def silent_def logs_same)

lemma silent_freeze: "guards silent m \<Longrightarrow> guards freeze_ok m"
  by (simp add: guards_def silent_def nothing_logged_ok)

lemma silent_traces: "guards silent m \<Longrightarrow> traces (\<lambda>k k' r es. k' = k \<and> es = []) m"
  by (simp add: guards_wpa traces_def silent_def) (auto elim: wpa_weaken)

lemma wpa_silent:
  "guards silent m \<Longrightarrow> (\<And>r s'. m s = (r, s') \<Longrightarrow> silent s s' \<Longrightarrow> Q r s') \<Longrightarrow> wpa m Q s"
  unfolding guards_def wpa_def by (cases "m s") (metis (lifting) case_prod_conv snd_conv)

lemma reads_silent [silent_rules]:
  "guards silent tick" "guards silent get_kcp" "guards silent (read_api f)"
  by (auto simp: guards_wpa wpa_simps silent_def split: sum.splits)

lemma identity_reads_silent [silent_rules]:
  "guards silent refuse_if_frozen"
  "guards silent (build_client E via)"
  "guards silent (readWorkloadIdentity E via)"
  "guards silent (observe_via E via)"
  "guards silent (identityRecheckDue E)"
  unfolding refuse_if_frozen_def build_client_def readWorkloadIdentity_def observe_via_def
    identityRecheckDue_def
  by (intro silent.flow guards_intros silent_rules)+

lemma observe_all_silent [silent_rules]: "guards silent (observe_all E vias)"
  by (induction vias) (auto intro!: silent.flow guards_intros silent_rules)

lemma observe_silent [silent_rules]: "guards silent (observeWorkloadIdentity E cl ms)"
  unfolding observeWorkloadIdentity_def by (intro silent.flow guards_intros silent_rules)

text \<open>Every path is tried once, in order, and what is reported as answered was answered.\<close>

lemma wpa_observe_via:
  "wpa (observe_via E via)
     (\<lambda>r s'. \<exists>a. r = Inr \<lparr>ob_via = via, ob_answer = a\<rparr> \<and> (\<forall>u. a = Inr u \<longrightarrow> u \<noteq> [] \<and> (\<exists>n. e_uid E n via = Inr u))) s"
  unfolding observe_via_def by (auto simp: wpa_simps split: option.splits sum.splits)

lemma answers_Cons:
  "answers (ob # obs) = (case ob_answer ob of Inl _ \<Rightarrow> [] | Inr u \<Rightarrow> [(ob_via ob, u)]) @ answers obs"
  by (auto split: sum.splits)

lemma wpa_observe_all:
  "wpa (observe_all E vias)
     (\<lambda>r s'. \<exists>obs. r = Inr obs \<and> map ob_via obs = vias \<and>
        (\<forall>(via, u) \<in> set (answers obs). u \<noteq> [] \<and> (\<exists>n. e_uid E n via = Inr u))) s"
proof (induction vias arbitrary: s)
  case Nil
  show ?case by (simp add: wpa_simps)
next
  case (Cons via vias)
  show ?case
    apply (simp only: observe_all.simps wpa_bind [of "observe_via E via"])
    apply (rule wpa_weaken [OF wpa_observe_via])
    apply (clarsimp simp: wpa_bind)
    apply (rule wpa_weaken [OF Cons])
    apply (auto simp: wpa_simps answers_Cons simp del: answers.simps split: sum.splits)
    done
qed

lemma wpa_observe:
  "wpa (observeWorkloadIdentity E cl ms)
     (\<lambda>r s'. silent s s' \<and> observeWorkloadIdentity E cl ms s = (r, s') \<and>
        (\<exists>obs. r = Inr obs \<and>
          map ob_via obs = leaveViaEndpoint # leaveCandidateIPs ms no_machine (leaveExcludedHosts (s_kcp s) cl) \<and>
          (\<forall>(via, u) \<in> set (answers obs). u \<noteq> [] \<and> (\<exists>n. e_uid E n via = Inr u)))) s"
  (is "wpa ?m ?Q s")
proof -
  have "wpa ?m (\<lambda>r s'. \<exists>obs. r = Inr obs \<and>
          map ob_via obs = leaveViaEndpoint # leaveCandidateIPs ms no_machine (leaveExcludedHosts (s_kcp s) cl) \<and>
          (\<forall>(via, u) \<in> set (answers obs). u \<noteq> [] \<and> (\<exists>n. e_uid E n via = Inr u))) s"
    unfolding observeWorkloadIdentity_def
    by (simp only: wpa_bind wpa_get_kcp sum.case) (rule wpa_observe_all)
  then show ?thesis
    using observe_silent [of E cl ms] unfolding wpa_def guards_def
    by (cases "?m s") (metis (mono_tags, lifting) case_prod_conv snd_conv)
qed


section \<open>Pinning and rechecking\<close>

lemma wpa_observe_bind:
  assumes "\<And>obs s'. silent s s' \<Longrightarrow> fst (observeWorkloadIdentity E cl ms s) = Inr obs \<Longrightarrow>
     map ob_via obs = leaveViaEndpoint # leaveCandidateIPs ms no_machine (leaveExcludedHosts (s_kcp s) cl) \<Longrightarrow>
     wpa (f obs) Q s'"
  shows "wpa (bindA (observeWorkloadIdentity E cl ms) f) Q s"
  unfolding wpa_bind
  by (rule wpa_weaken [OF wpa_observe]) (use assms in \<open>auto split: sum.splits\<close>)

lemma trip_keeps_pin:
  "wpa (trip_gate E uid via pin)
     (\<lambda>r s'. k_annotations (s_kcp s') workload_uid_ann = k_annotations (s_kcp s) workload_uid_ann \<and>
        (\<exists>g. r = Inr g \<and> g_frozen g)) s"
  unfolding trip_gate_def tripIdentityFreeze_def frozenGate_def Let_def forgetIdentityCheck_def
  by (auto simp: wpa_simps split: option.splits)

lemma wpa_pinAnswers:
  assumes trip: "\<And>uid via. wpa (trip_gate E uid via []) Q s"
    and pin: "\<And>uid. answered \<noteq> [] \<Longrightarrow> list_all (\<lambda>a. snd a = uid) answered \<Longrightarrow> uidShape uid \<Longrightarrow>
      wpa (recordPin E uid) Q s"
    and none: "Q (Inr (hold_gate ''no workload apiserver answered the cluster identity read'')) s"
  shows "wpa (pinAnswers E answered) Q s"
proof (cases answered)
  case Nil
  then show ?thesis using none by (simp add: pinAnswers_def wpa_simps)
next
  case (Cons a rest)
  obtain via uid where a: "a = (via, uid)" by (cases a)
  have "list_all (\<lambda>a. snd a = uid) answered \<and> uidShape uid"
    if "find (\<lambda>a. \<not> uidShape (snd a)) answered = None" "find (\<lambda>a. snd a \<noteq> uid) rest = None"
    using that by (auto simp: Cons a find_None_iff list_all_iff split: if_splits)
  then show ?thesis using trip pin Cons
    unfolding pinAnswers_def Cons a
    by (auto simp: a simp del: find.simps split: prod.splits option.splits)
qed

lemma pin_answers_post:
  "wpa (pinAnswers E answered)
     (\<lambda>r s'. k_annotations (s_kcp s') workload_uid_ann = k_annotations (s_kcp s) workload_uid_ann \<or>
        (\<exists>u. answered \<noteq> [] \<and> list_all (\<lambda>a. snd a = u) answered \<and> uidShape u \<and>
          k_annotations (s_kcp s') = (k_annotations (s_kcp s))(workload_uid_ann \<mapsto> u))) s"
proof (rule wpa_pinAnswers, goal_cases)
  case (1 uid via)
  show ?case by (rule wpa_weaken [OF trip_keeps_pin]) simp
next
  case (2 uid)
  then show ?case
    unfolding recordPin_def conflict_or_def markIdentityChecked_def
    by (auto simp: wpa_simps split: option.splits)
qed simp

lemma pin_post:
  "wpa (pinWorkloadIdentity E cl ms)
     (\<lambda>r s'. k_annotations (s_kcp s') workload_uid_ann = k_annotations (s_kcp s) workload_uid_ann \<or>
        (\<exists>obs u. fst (observeWorkloadIdentity E cl ms s) = Inr obs \<and>
          map ob_via obs = leaveViaEndpoint # leaveCandidateIPs ms no_machine (leaveExcludedHosts (s_kcp s) cl) \<and>
          answers obs \<noteq> [] \<and> list_all (\<lambda>a. snd a = u) (answers obs) \<and> uidShape u \<and>
          k_annotations (s_kcp s') = (k_annotations (s_kcp s))(workload_uid_ann \<mapsto> u))) s"
  unfolding pinWorkloadIdentity_def
  by (rule wpa_observe_bind, rule wpa_weaken [OF pin_answers_post]) (auto simp: silent_def)

text \<open>
  C8: pinning records a UID only when at least one apiserver answered, every apiserver that
  answered reported that same UID, the endpoint and every member address the leave traffic
  could use having been asked, and the UID is UID-shaped.
\<close>

theorem pin_needs_agreement:
  assumes "pinWorkloadIdentity E cl ms s = (r, s')"
    and "k_annotations (s_kcp s') workload_uid_ann \<noteq> k_annotations (s_kcp s) workload_uid_ann"
  shows "\<exists>obs u. fst (observeWorkloadIdentity E cl ms s) = Inr obs \<and>
    map ob_via obs = leaveViaEndpoint # leaveCandidateIPs ms no_machine (leaveExcludedHosts (s_kcp s) cl) \<and>
    answers obs \<noteq> [] \<and> list_all (\<lambda>a. snd a = u) (answers obs) \<and> uidShape u \<and>
    k_annotations (s_kcp s') = (k_annotations (s_kcp s))(workload_uid_ann \<mapsto> u)"
  using wpa_result [OF assms(1) pin_post] assms(2) by simp

lemma recheck_answers_post:
  "wpa (recheckAnswers E answered pin)
     (\<lambda>r s'. \<exists>g. r = Inr g \<and> g_frozen g = (\<not> list_all (\<lambda>a. snd a = pin) answered) \<and>
        (s_identity_checked s' = Some (e_now E) \<longrightarrow>
           s_identity_checked s = Some (e_now E) \<or>
           answered \<noteq> [] \<and> list_all (\<lambda>a. snd a = pin) answered)) s"
  (is "wpa _ ?Q s")
proof (cases "find (\<lambda>a. snd a \<noteq> pin) answered")
  case None
  then have "list_all (\<lambda>a. snd a = pin) answered"
    by (auto simp: find_None_iff list_all_iff)
  then show ?thesis using None
    by (auto simp: recheckAnswers_def wpa_simps markIdentityChecked_def no_gate_def)
next
  case (Some a)
  then have bad: "\<not> list_all (\<lambda>a. snd a = pin) answered"
    by (metis find_Some_iff list_all_length)
  have frz: "wpa (trip_gate E uid via pin) (\<lambda>r s'. \<exists>g. r = Inr g \<and> g_frozen g \<and>
      (s_identity_checked s' = s_identity_checked s \<or> s_identity_checked s' = None)) s" for uid via
    unfolding trip_gate_def tripIdentityFreeze_def frozenGate_def Let_def forgetIdentityCheck_def
    by (auto simp: wpa_simps split: option.splits)
  show ?thesis using Some bad
    by (auto simp: recheckAnswers_def split: prod.splits intro!: wpa_weaken [OF frz])
qed

lemma recheck_post:
  "wpa (recheckIdentity E cl ms pin)
     (\<lambda>r s'. \<exists>g obs. r = Inr g \<and> fst (observeWorkloadIdentity E cl ms s) = Inr obs \<and>
        g_frozen g = (\<not> list_all (\<lambda>a. snd a = pin) (answers obs)) \<and>
        (s_identity_checked s' = Some (e_now E) \<longrightarrow>
           s_identity_checked s = Some (e_now E) \<or>
           answers obs \<noteq> [] \<and> list_all (\<lambda>a. snd a = pin) (answers obs))) s"
  unfolding recheckIdentity_def
  by (rule wpa_observe_bind, rule wpa_weaken [OF recheck_answers_post]) (auto simp: silent_def)

text \<open>
  A recheck freezes the control plane exactly when some apiserver that answered reported
  a UID other than the pin, and it counts as a check only when something answered and
  everything that answered reported the pin.
\<close>

theorem recheck_freezes_on_mismatch:
  assumes "recheckIdentity E cl ms pin s = (r, s')"
  shows "\<exists>g obs. r = Inr g \<and> fst (observeWorkloadIdentity E cl ms s) = Inr obs \<and>
    g_frozen g = (\<not> list_all (\<lambda>a. snd a = pin) (answers obs)) \<and>
    (s_identity_checked s \<noteq> s_identity_checked s' \<and> s_identity_checked s' = Some (e_now E) \<longrightarrow>
       answers obs \<noteq> [] \<and> list_all (\<lambda>a. snd a = pin) (answers obs))"
  using wpa_result [OF assms recheck_post] by auto


section \<open>The gate\<close>

abbreviation pin_of :: "st \<Rightarrow> string" where
  "pin_of s \<equiv> ann (k_annotations (s_kcp s)) workload_uid_ann"

text \<open>What an open gate, one with no reason to hold, stands for.\<close>

definition gate_opens :: "kcp \<Rightarrow> machine list \<Rightarrow> int \<Rightarrow> err + identity_gate \<Rightarrow> st \<Rightarrow> bool" where
  "gate_opens k ms desired r s' \<longleftrightarrow>
     (\<forall>g. r = Inr g \<and> g_hold g = [] \<longrightarrow> \<not> g_frozen g \<and> unfrozen s' \<and>
        (identityApplies k ms desired \<longrightarrow> pin_of s' \<noteq> []))"

lemma trip_gate_holds: "wpa (trip_gate E uid via pin) (gate_opens k ms desired) s"
  unfolding trip_gate_def tripIdentityFreeze_def frozenGate_def Let_def forgetIdentityCheck_def
  by (auto simp: wpa_simps gate_opens_def workloadIdentityFrozen_def changed_text_def
      split: option.splits)

lemma pin_gate_opens:
  assumes "unfrozen s"
  shows "wpa (pinWorkloadIdentity E cl ms) (gate_opens k ms desired) s"
  unfolding pinWorkloadIdentity_def
proof (rule wpa_observe_bind)
  fix s' obs
  assume "silent s s'"
  then have u: "unfrozen s'" using assms by (simp add: silent_def unfrozen_def)
  have "wpa (recordPin E uid) (gate_opens k ms desired) s'" if "uid \<noteq> []" for uid
    using u that unfolding recordPin_def conflict_or_def markIdentityChecked_def
    by (auto simp: wpa_simps gate_opens_def hold_gate_def no_gate_def unfrozen_def
        frozen_def ann_def split: option.splits)
  then show "wpa (pinAnswers E (answers obs)) (gate_opens k ms desired) s'"
    using trip_gate_holds unfolding pinAnswers_def
    by (auto simp: find_None_iff uidShape_def wpa_simps gate_opens_def [of _ _ _ "Inr _"] hold_gate_def
        split: list.split prod.splits option.splits)
qed

lemma recheck_gate_opens:
  assumes "unfrozen s" "pin_of s \<noteq> []"
  shows "wpa (recheckIdentity E cl ms pin) (gate_opens k ms desired) s"
  unfolding recheckIdentity_def
proof (rule wpa_observe_bind)
  fix s' obs
  assume "silent s s'"
  then have "unfrozen s' \<and> pin_of s' \<noteq> []" using assms by (simp add: silent_def unfrozen_def)
  then show "wpa (recheckAnswers E (answers obs) pin) (gate_opens k ms desired) s'"
    using trip_gate_holds unfolding recheckAnswers_def
    by (auto simp: wpa_simps gate_opens_def no_gate_def markIdentityChecked_def unfrozen_def
        split: option.splits)
qed

lemma clear_post:
  "wpa (clearRepinnedIdentityFreeze E) (\<lambda>r s'. pin_of s' = pin_of s \<and>
     (\<forall>ms d. identityApplies (s_kcp s') ms d = identityApplies (s_kcp s) ms d)) s"
  unfolding clearRepinnedIdentityFreeze_def forgetIdentityCheck_def
  by (auto simp: wpa_simps identityApplies_def ann_def split: option.splits)

lemma reconcile_gate_opens:
  "wpa (reconcileWorkloadIdentity E cl ms desired) (gate_opens (s_kcp s) ms desired) s"
  unfolding reconcileWorkloadIdentity_def wpa_bind [of "tryA (clearRepinnedIdentityFreeze E)"] wpa_try
proof (rule wpa_weaken [OF clear_post], goal_cases)
  case (1 r s')
  show ?case
  proof (cases r)
    case (Inl e)
    then show ?thesis by (simp add: wpa_simps conflict_or_def gate_opens_def hold_gate_def)
  next
    case (Inr u)
    have ap: "identityApplies (s_kcp s') ms desired = identityApplies (s_kcp s) ms desired"
      using 1 by simp
    show ?thesis
    proof (cases "frozen (s_kcp s')")
      case True
      then show ?thesis
        by (auto simp: Inr identityStep_def wpa_simps gate_opens_def workloadIdentityFrozen_def frozen_def
            forgetIdentityCheck_def)
    next
      case False
      then have f: "workloadIdentityFrozen (s_kcp s') = None" "unfrozen s'"
        by (simp_all add: frozen_msg unfrozen_def)
      show ?thesis
        using f ap pin_gate_opens [OF f(2)] recheck_gate_opens [OF f(2)]
        by (auto simp: Inr identityStep_def wpa_simps identityRecheckDue_def gate_opens_def no_gate_def hold_gate_def)
    qed
  qed
qed

text \<open>
  C12: when the gate a pass runs under gives no reason to hold, no freeze is in place, and if
  the identity must be protected (more than one replica and a registered member, or a pin
  already there) it is pinned.
\<close>

theorem open_gate_means_verified:
  assumes "reconcileWorkloadIdentity E cl ms desired s = (Inr g, s')"
    and "g_hold g = []"
  shows "\<not> g_frozen g \<and> \<not> frozen (s_kcp s') \<and>
    (\<not> identityApplies (s_kcp s) ms desired \<or> ann (k_annotations (s_kcp s')) workload_uid_ann \<noteq> [])"
  using wpa_result [OF assms(1) reconcile_gate_opens] assms(2) by (auto simp: gate_opens_def unfrozen_def)

text \<open>
  A connection that passed the strict check was answered, by the apiserver it goes to,
  with the pinned UID; the check is refused while the freeze is in place or nothing is
  pinned, and a check that passes changes nothing.
\<close>

theorem verified_connection_answers_pin:
  assumes "verifyPinnedWorkloadIdentity E via s = (Inr (), s')"
  shows "ann (k_annotations (s_kcp s)) workload_uid_ann \<noteq> [] \<and>
    e_uid E (s_tick s) via = Inr (ann (k_annotations (s_kcp s)) workload_uid_ann) \<and>
    \<not> frozen (s_kcp s') \<and> s_kcp s' = s_kcp s \<and> s_log s' = s_log s"
  using wpa_result [OF assms verifyPinned_post] by (auto simp: unfrozen_def)

lemma identity_pin [pin_rules]:
  "guards pin_kept (tripIdentityFreeze E uid via pin)"
  "guards pin_kept (trip_gate E uid via pin)" "guards pin_kept (conflict_or e why)"
  "guards pin_kept (clearRepinnedIdentityFreeze E)"
  "guards pin_kept (recheckAnswers E answered p)"
  "guards pin_kept (recheckIdentity E cl ms p)"
  unfolding tripIdentityFreeze_def trip_gate_def conflict_or_def clearRepinnedIdentityFreeze_def
    recheckIdentity_def frozenGate_def Let_def recheckAnswers_def
  by (intro pinned.flow guards_intros pin_rules quiet_rules [THEN quiet_pin] | simp)+

lemma verify_pin [pin_rules]:
  "guards pin_kept (verifyWorkloadIdentity E via)"
  "guards pin_kept (verifyPinnedWorkloadIdentity E via)"
  "guards pin_kept (verifyIdentityViaEndpoint E)"
  "guards pin_kept (identityPreflight E)"
  unfolding verifyPinnedWorkloadIdentity_def verifyIdentityViaEndpoint_def identityPreflight_def
    verifyWorkloadIdentity_def Let_def
  by (intro pinned.flow guards_intros pin_rules quiet_rules [THEN quiet_pin])+

lemma recordPin_pin: "guards_from unpinned pin_kept (recordPin E uid)"
  unfolding recordPin_def conflict_or_def markIdentityChecked_def guards_from_wpa
  by (auto simp: wpa_simps unpinned_def pin_kept_def split: option.splits)

lemma pinWorkloadIdentity_pin: "guards_from unpinned pin_kept (pinWorkloadIdentity E cl ms)"
  unfolding pinWorkloadIdentity_def
proof (rule pinned.open_bind)
  show "guards_from unpinned pin_kept (observeWorkloadIdentity E cl ms)"
    by (intro guards_from_weaken quiet_pin quiet_rules)
  show "guards same_annotations (observeWorkloadIdentity E cl ms)" by (intro quiet_rules)
  show "guards_from unpinned pin_kept (pinAnswers E (answers obs))" for obs
    unfolding pinAnswers_def
    by (auto split: list.split prod.splits option.splits
        intro!: recordPin_pin guards_from_weaken pin_rules pinned.ret_guards)
qed

lemma identityStep_pin: "guards_from (\<lambda>s. s_kcp s = k) pin_kept (identityStep E cl ms desired k)"
proof (cases "ann (k_annotations k) workload_uid_ann = []")
  case True
  then have "guards_from (\<lambda>s. s_kcp s = k) pin_kept (pinWorkloadIdentity E cl ms)"
    by (intro guards_from_pre [OF pinWorkloadIdentity_pin]) (simp add: unpinned_def)
  with True show ?thesis
    unfolding identityStep_def
    by (auto split: option.split
        intro!: guards_from_weaken pinned.bind_guards pinned.ret_guards quiet_rules [THEN quiet_pin])
next
  case False
  then show ?thesis
    unfolding identityStep_def
    by (intro guards_from_weaken)
      (auto split: option.split intro!: pinned.bind_guards guards_if pinned.ret_guards
        pin_rules quiet_rules [THEN quiet_pin])
qed

lemma reconcileIdentity_pin [pin_rules]: "guards pin_kept (reconcileWorkloadIdentity E cl ms desired)"
proof -
  have step: "guards pin_kept (bindA get_kcp (identityStep E cl ms desired))"
    using identityStep_pin unfolding guards_from_true bind_get_kcp by (simp add: guards_from_def)
  show ?thesis
    unfolding reconcileWorkloadIdentity_def
    by (rule pinned.bind_guards, intro pinned.try_guards pin_rules,
        rule guards_sum, rule pin_rules, rule step)
qed

text \<open>
  C13: once a UID is pinned, no pass over the identity ever writes another one or removes it,
  whatever the apiservers answer; only an operator changes a pin.
\<close>

theorem controller_never_changes_pin:
  assumes "ann (k_annotations (s_kcp s)) workload_uid_ann = pin" "pin \<noteq> []"
  shows "ann (k_annotations (s_kcp (snd (reconcileWorkloadIdentity E cl ms desired s)))) workload_uid_ann = pin"
  using reconcileIdentity_pin assms by (metis guards_def pin_kept_def)

text \<open>
  Under a freeze, Ready, Available and EtcdHealthy all read false with the reason of the
  freeze and severity Error, and every other condition is left alone.
\<close>

theorem frozen_conditions_read_false:
  assumes "frozen k"
  shows "ks_conds (k_status (markWorkloadIdentityConditions k)) =
    (ks_conds (k_status k))(ready_cond \<mapsto> cond_false identity_changed_reason SevError,
      available_cond \<mapsto> cond_false identity_changed_reason SevError,
      etcd_healthy_cond \<mapsto> cond_false identity_changed_reason SevError)"
  using assms by (simp add: markWorkloadIdentityConditions_def frozen_msg set_cond_def)

end
