(* ===== verification/Leave_Connect.thy ===== *)
theory Leave_Connect
  imports Workload_Identity
begin

text \<open>
  Finding a workload apiserver for the etcd-leave handshake and the orphan cleanup:
  \<open>readLeaveThrough\<close>, \<open>verifiedLeaveConn\<close>, \<open>connectVerified\<close> and its two callers
  (\<open>ha_leave_member.go\<close>).

  A connection is the name it goes through and the leave ConfigMap's data as read through
  it, empty when the ConfigMap does not exist.
\<close>

record leave_conn =
  lc_via :: string
  lc_cm :: "string \<rightharpoonup> string"

definition readLeaveThrough :: "env \<Rightarrow> string \<Rightarrow> leave_conn op" where
  "readLeaveThrough E via =
     bindA (build_client E via) (\<lambda>_.
     bindA (tryA (read_api (\<lambda>n. e_leave_cm E n via))) (\<lambda>r.
     case r of
       Inr cm \<Rightarrow> ret \<lparr>lc_via = via, lc_cm = cm\<rparr>
     | Inl e \<Rightarrow>
         if e = Api NotFound then ret \<lparr>lc_via = via, lc_cm = (\<lambda>_. None)\<rparr> else throw e))"

definition verifiedLeaveConn :: "env \<Rightarrow> string \<Rightarrow> bool \<Rightarrow> leave_conn op" where
  "verifiedLeaveConn E via readLeaveCM =
     (if \<not> readLeaveCM then
        bindA (build_client E via) (\<lambda>_.
        bindA (verifyPinnedWorkloadIdentity E via) (\<lambda>_.
        ret \<lparr>lc_via = via, lc_cm = (\<lambda>_. None)\<rparr>))
      else
        bindA (readLeaveThrough E via) (\<lambda>conn.
        bindA (verifyPinnedWorkloadIdentity E via) (\<lambda>_.
        ret conn)))"

definition connectVerified :: "env \<Rightarrow> cluster \<Rightarrow> machine list \<Rightarrow> machine \<Rightarrow> bool \<Rightarrow> leave_conn op" where
  "connectVerified E cl ms target readLeaveCM =
     bindA refuse_if_frozen (\<lambda>_.
     bindA get_kcp (\<lambda>k.
     if ann (k_annotations k) workload_uid_ann = [] then throw IdentityNotPinned
     else bindA (forA (leaveCandidateIPs ms target (leaveExcludedHosts k cl)) (\<lambda>ip.
            bindA (tryA (verifiedLeaveConn E ip readLeaveCM)) (\<lambda>r.
            case r of
              Inr conn \<Rightarrow> ret (Some conn)
            | Inl e \<Rightarrow> if e = IdentityChanged then throw e else ret None)))
          (\<lambda>found. case found of
             Some conn \<Rightarrow> ret conn
           | None \<Rightarrow>
               bindA (tryA (verifiedLeaveConn E leaveViaEndpoint readLeaveCM)) (\<lambda>r.
               case r of
                 Inr conn \<Rightarrow> ret conn
               | Inl e \<Rightarrow>
                   if e = IdentityChanged then throw e
                   else throw (Failed ''no workload apiserver answered'')))))"

definition connectForLeave :: "env \<Rightarrow> cluster \<Rightarrow> machine list \<Rightarrow> machine \<Rightarrow> leave_conn op" where
  "connectForLeave E cl ms target = connectVerified E cl ms target True"

definition connectForOrphans :: "env \<Rightarrow> cluster \<Rightarrow> machine list \<Rightarrow> leave_conn op" where
  "connectForOrphans E cl ms = connectVerified E cl ms no_machine False"


section \<open>What a connection stands for\<close>

text \<open>A connection through \<open>via\<close> that the state's pin vouches for: the apiserver answered
  with it, in this pass.\<close>

definition vouched :: "env \<Rightarrow> st \<Rightarrow> string \<Rightarrow> bool" where
  "vouched E s via \<longleftrightarrow> pin_of s \<noteq> [] \<and> (\<exists>n. e_uid E n via = Inr (pin_of s))"

definition conn_post :: "env \<Rightarrow> st \<Rightarrow> (string \<Rightarrow> bool) \<Rightarrow> err + leave_conn \<Rightarrow> st \<Rightarrow> bool" where
  "conn_post E s tried r s' \<longleftrightarrow>
     (case r of
        Inl e \<Rightarrow> e \<noteq> IdentityChanged \<longrightarrow> s_kcp s' = s_kcp s \<and> s_log s' = s_log s
      | Inr conn \<Rightarrow> unfrozen s' \<and> s_kcp s' = s_kcp s \<and> s_log s' = s_log s \<and>
          vouched E s (lc_via conn) \<and> tried (lc_via conn))"

lemma verify_error_quiet:
  "wpa (verifyWorkloadIdentity E via)
     (\<lambda>r s'. \<forall>e. r = Inl e \<longrightarrow> e \<noteq> IdentityChanged \<longrightarrow> s_kcp s' = s_kcp s \<and> s_log s' = s_log s) s"
  unfolding verifyWorkloadIdentity_def Let_def
  by (auto simp: wpa_simps intro!: wpa_trip split: sum.splits)

lemma verifyPinned_conn:
  "wpa (verifyPinnedWorkloadIdentity E via)
     (\<lambda>r s'. (case r of
        Inl e \<Rightarrow> e \<noteq> IdentityChanged \<longrightarrow> s_kcp s' = s_kcp s \<and> s_log s' = s_log s
      | Inr _ \<Rightarrow> unfrozen s' \<and> s_kcp s' = s_kcp s \<and> s_log s' = s_log s \<and> vouched E s via)) s"
proof -
  have err: "wpa (verifyPinnedWorkloadIdentity E via)
     (\<lambda>r s'. \<forall>e. r = Inl e \<longrightarrow> e \<noteq> IdentityChanged \<longrightarrow> s_kcp s' = s_kcp s \<and> s_log s' = s_log s) s"
    unfolding verifyPinnedWorkloadIdentity_def
    by (auto simp: wpa_simps intro!: wpa_weaken [OF verify_error_quiet])
  show ?thesis
    using verifyPinned_post [of E via s] err
    by (auto simp: wpa_def vouched_def split: prod.splits sum.splits)
qed

lemma verifiedConn_post:
  "wpa (verifiedLeaveConn E via readCM) (conn_post E s (\<lambda>v. v = via)) s"
proof -
  have ver: "wpa (verifyPinnedWorkloadIdentity E via)
     (\<lambda>r s'. (case r of
        Inl e \<Rightarrow> e \<noteq> IdentityChanged \<longrightarrow> s_kcp s' = s_kcp s \<and> s_log s' = s_log s
      | Inr _ \<Rightarrow> unfrozen s' \<and> s_kcp s' = s_kcp s \<and> s_log s' = s_log s \<and> vouched E s via)) s1"
    if "s_kcp s1 = s_kcp s" "s_log s1 = s_log s" for s1
    using verifyPinned_conn [of E via s1] that by (simp add: vouched_def cong: sum.case_cong)
  show ?thesis
    unfolding verifiedLeaveConn_def readLeaveThrough_def
    by (auto simp: wpa_simps conn_post_def intro!: wpa_weaken [OF ver] split: sum.splits option.splits)
qed

lemma conn_loop_post:
  "wpa (forA ips (\<lambda>ip.
      bindA (tryA (verifiedLeaveConn E ip readCM)) (\<lambda>r.
      case r of
        Inr conn \<Rightarrow> ret (Some conn)
      | Inl e \<Rightarrow> if e = IdentityChanged then throw e else ret None)))
     (\<lambda>r s'. case r of
        Inl e \<Rightarrow> e = IdentityChanged
      | Inr None \<Rightarrow> s_kcp s' = s_kcp s \<and> s_log s' = s_log s
      | Inr (Some conn) \<Rightarrow> unfrozen s' \<and> s_kcp s' = s_kcp s \<and> s_log s' = s_log s \<and>
          vouched E s (lc_via conn) \<and> lc_via conn \<in> set ips) s"
proof (induction ips arbitrary: s)
  case Nil
  show ?case by (simp add: wpa_simps)
next
  case (Cons ip ips)
  show ?case
    unfolding forA.simps wpa_bind wpa_try
    by (rule wpa_weaken [OF verifiedConn_post])
      (auto simp: conn_post_def wpa_simps vouched_def split: sum.splits option.splits
        intro!: wpa_weaken [OF Cons])
qed

lemma connectVerified_post:
  "wpa (connectVerified E cl ms target readCM)
     (conn_post E s (\<lambda>v. v \<in> set (leaveCandidateIPs ms target (leaveExcludedHosts (s_kcp s) cl)) \<or>
        v = leaveViaEndpoint)) s"
proof -
  let ?ips = "leaveCandidateIPs ms target (leaveExcludedHosts (s_kcp s) cl)"
  have ep: "wpa (verifiedLeaveConn E leaveViaEndpoint readCM)
      (conn_post E s (\<lambda>v. v = leaveViaEndpoint)) s1"
    if "s_kcp s1 = s_kcp s" "s_log s1 = s_log s" for s1
    using verifiedConn_post [of E leaveViaEndpoint readCM s1] that
    by (simp add: conn_post_def [abs_def] vouched_def cong: sum.case_cong)
  show ?thesis
    unfolding connectVerified_def wpa_bind [of refuse_if_frozen] wpa_refuse wpa_bind [of get_kcp]
      wpa_get_kcp sum.case
    apply (simp add: conn_post_def [of _ _ _ "Inl IdentityChanged"])
    apply (intro impI conjI)
     apply (simp add: wpa_throw conn_post_def)
    apply (simp only: wpa_bind [of "forA ips body" for ips body])
    apply (rule wpa_weaken [OF conn_loop_post])
    apply (auto simp: wpa_simps conn_post_def split: sum.splits option.splits
        intro!: wpa_weaken [OF ep])
    done
qed

lemma connect_freeze [freeze_rules]:
  "guards freeze_ok (readLeaveThrough E via)"
  "guards freeze_ok (verifiedLeaveConn E via readCM)"
  "guards freeze_ok (connectVerified E cl ms target readCM)"
  "guards freeze_ok (connectForLeave E cl ms target)"
  "guards freeze_ok (connectForOrphans E cl ms)"
  unfolding readLeaveThrough_def verifiedLeaveConn_def connectVerified_def connectForLeave_def
    connectForOrphans_def
  by (intro frz.flow frz.for_guards guards_intros freeze_rules)+

lemma connect_pin [pin_rules]:
  "guards pin_kept (readLeaveThrough E via)"
  "guards pin_kept (verifiedLeaveConn E via readCM)"
  "guards pin_kept (connectVerified E cl ms target readCM)"
  "guards pin_kept (connectForLeave E cl ms target)"
  "guards pin_kept (connectForOrphans E cl ms)"
  unfolding readLeaveThrough_def verifiedLeaveConn_def connectVerified_def connectForLeave_def
    connectForOrphans_def
  by (intro pinned.flow pinned.for_guards guards_intros pin_rules quiet_rules [THEN quiet_pin])+


section \<open>The interface to the clients of a connection\<close>

text \<open>
  What the leave handshake and the orphan cleanup rely on, whatever finds the connection: a
  connection handed out means the freeze is not in place and the apiserver vouched for the
  pin, and looking for one changes nothing but, possibly, the freeze. A client that only
  acts through a connection it was handed is then safe.
\<close>

locale verified_provider =
  fixes connect :: "leave_conn op" and E :: env
  assumes handed_out: "connect s = (Inr conn, s') \<Longrightarrow>
      unfrozen s' \<and> s_kcp s' = s_kcp s \<and> vouched E s (lc_via conn)"
    and connect_guards: "guards freeze_ok connect"
begin

lemma client_safe:
  "(\<And>conn. guards_from unfrozen freeze_ok (act conn)) \<Longrightarrow> guards freeze_ok (bindA connect act)"
  by (rule frz.check_bind [OF connect_guards]) (auto dest: handed_out)

lemma client_vouched:
  assumes "bindA connect act s = (Inr x, s')"
  shows "\<exists>conn s1. connect s = (Inr conn, s1) \<and> vouched E s1 (lc_via conn) \<and> act conn s1 = (Inr x, s')"
proof -
  obtain conn s1 where c: "connect s = (Inr conn, s1)" "act conn s1 = (Inr x, s')"
    using bindA_inv_Inr [OF assms] by auto
  then have "vouched E s1 (lc_via conn)"
    using handed_out [OF c(1)] by (simp add: vouched_def)
  with c show ?thesis by auto
qed

end

lemma connectVerified_provider:
  "connectVerified E cl ms target readCM s = (Inr conn, s') \<Longrightarrow>
   unfrozen s' \<and> s_kcp s' = s_kcp s \<and> vouched E s (lc_via conn)"
  using wpa_result [OF _ connectVerified_post, of E cl ms target readCM s "Inr conn" s']
  by (simp add: conn_post_def)

interpretation leave_provider: verified_provider "connectForLeave E cl ms target" E for E cl ms target
  by unfold_locales
    (auto simp: connectForLeave_def dest!: connectVerified_provider intro: freeze_rules)

interpretation orphan_provider: verified_provider "connectForOrphans E cl ms" E for E cl ms
  by unfold_locales
    (auto simp: connectForOrphans_def dest!: connectVerified_provider intro: freeze_rules)

text \<open>Looking for a connection has no effect but the freeze and its event.\<close>

definition freeze_effect :: "effect \<Rightarrow> bool" where
  "freeze_effect e = (case e of KcpPatched _ _ \<Rightarrow> True | Event _ _ \<Rightarrow> True | _ \<Rightarrow> False)"

lemma identity_logs:
  assumes "\<And>e. freeze_effect e \<Longrightarrow> Q e"
  shows "guards (logs_only Q) (tripIdentityFreeze E uid via pin)"
    and "guards (logs_only Q) (verifyWorkloadIdentity E via)"
    and "guards (logs_only Q) (verifyPinnedWorkloadIdentity E via)"
    and "guards (logs_only Q) (verifyIdentityViaEndpoint E)"
    and "guards (logs_only Q) (identityPreflight E)"
    and "guards (logs_only Q) (connectVerified E cl ms target readCM)"
proof -
  have Q: "Q (KcpPatched kvs rm)" "Q (Event et reason)" for kvs rm et reason
    using assms by (simp_all add: freeze_effect_def)
  have forget: "guards (logs_only Q) forgetIdentityCheck"
    unfolding forgetIdentityCheck_def by (rule logs_mod) simp
  show trip: "guards (logs_only Q) (tripIdentityFreeze E uid via pin)" for uid via pin
    unfolding tripIdentityFreeze_def Let_def
    by (intro logs.flow guards_intros logs_rules logs_writes Q forget)
  show verify: "guards (logs_only Q) (verifyWorkloadIdentity E via)" for via
    unfolding verifyWorkloadIdentity_def Let_def
    by (intro logs.flow guards_intros logs_rules trip silent_rules [THEN silent_logs])
  show strict: "guards (logs_only Q) (verifyPinnedWorkloadIdentity E via)" for via
    unfolding verifyPinnedWorkloadIdentity_def
    by (intro logs.flow guards_intros logs_rules verify silent_rules [THEN silent_logs])
  show ep: "guards (logs_only Q) (verifyIdentityViaEndpoint E)"
    unfolding verifyIdentityViaEndpoint_def
    by (intro logs.flow guards_intros logs_rules verify silent_rules [THEN silent_logs])
  show "guards (logs_only Q) (identityPreflight E)"
    unfolding identityPreflight_def by (intro logs.flow guards_intros ep)
  have conn: "guards (logs_only Q) (verifiedLeaveConn E via readCM)" for via
    unfolding verifiedLeaveConn_def readLeaveThrough_def
    by (intro logs.flow guards_intros logs_rules strict silent_rules [THEN silent_logs])
  show "guards (logs_only Q) (connectVerified E cl ms target readCM)"
    unfolding connectVerified_def
    by (intro logs.flow logs.for_guards guards_intros logs_rules conn silent_rules [THEN silent_logs])
qed

text \<open>
  A connection handed out for the leave handshake goes to the endpoint or to one of the
  addresses \<open>leaveCandidateIPs\<close> selects, that apiserver answered with the pinned UID in this
  pass, the freeze is not in place, and no effect took place on the way.
\<close>

theorem leave_connection_is_verified:
  assumes "connectForLeave E cl ms target s = (Inr conn, s')"
  shows "(lc_via conn = leaveViaEndpoint \<or>
      lc_via conn \<in> set (leaveCandidateIPs ms target (leaveExcludedHosts (s_kcp s) cl))) \<and>
    ann (k_annotations (s_kcp s)) workload_uid_ann \<noteq> [] \<and>
    (\<exists>n. e_uid E n (lc_via conn) = Inr (ann (k_annotations (s_kcp s)) workload_uid_ann)) \<and>
    \<not> frozen (s_kcp s') \<and> s_log s' = s_log s"
  using wpa_result [OF assms [unfolded connectForLeave_def] connectVerified_post]
  by (auto simp: conn_post_def vouched_def unfrozen_def)

end
