(* ===== verification/Etcd_Status.thy ===== *)
theory Etcd_Status
  imports Leave_Connect
begin

text \<open>
  The etcd health the nodes report, and the quorum guard of every Machine deletion that is
  not a teardown: \<open>readEtcdStatus\<close>, \<open>etcdVotingHealthyCount\<close>, \<open>canRemoveMember\<close>
  (\<open>ha_etcd.go\<close>).

  The Secret's data is a list of keys and raw texts; a Go map has each key once. Decoding a
  report (\<open>json.Unmarshal\<close>) is the parameter \<open>e_unmarshal\<close>.
\<close>

definition decode_status :: "env \<Rightarrow> (string \<times> string) list \<Rightarrow> (string \<times> etcd_status) list" where
  "decode_status E kvs = List.map_filter (\<lambda>(member, raw).
     case e_unmarshal E raw of None \<Rightarrow> None | Some es \<Rightarrow> Some (member, es)) kvs"

definition readEtcdStatus :: "env \<Rightarrow> (string \<times> etcd_status) list op" where
  "readEtcdStatus E =
     bindA (tryA (read_api (e_status E))) (\<lambda>r.
     case r of
       Inl e \<Rightarrow> if e = Api NotFound then ret [] else throw e
     | Inr kvs \<Rightarrow> ret (decode_status E kvs))"

fun etcdVotingHealthyCount :: "(string \<times> etcd_status) list \<Rightarrow> int" where
  "etcdVotingHealthyCount [] = 0"
| "etcdVotingHealthyCount ((_, es) # rest) =
     (if es_healthy es \<and> es_voting es then 1 else 0) + etcdVotingHealthyCount rest"

definition machine_running :: string where "machine_running = ''Running''"

text \<open>The decision on a report that was read: the last part of \<open>canRemoveMember\<close>.\<close>

definition removal_keeps_quorum :: "int \<Rightarrow> (string \<times> etcd_status) list \<Rightarrow> string \<Rightarrow> bool \<times> string" where
  "removal_keeps_quorum desired status targetKey =
     (case map_of status targetKey of
        None \<Rightarrow> (False, ''target is a live control-plane node with no etcd-status report; cannot prove quorum safety'')
      | Some es \<Rightarrow>
          let voting = etcdVotingHealthyCount status;
              postRemoval = (if es_healthy es \<and> es_voting es then voting - 1 else voting);
              quorum = go_div desired 2 + 1
          in if postRemoval < quorum
             then (False, ''removing this member would leave fewer healthy voting etcd members than the quorum minimum'')
             else (True, []))"

definition canRemoveMember :: "env \<Rightarrow> machine \<Rightarrow> (bool \<times> string) op" where
  "canRemoveMember E target =
     bindA get_kcp (\<lambda>k.
     if k_deletion k \<noteq> None then ret (True, [])
     else if desired_replicas k \<le> 1 then ret (True, [])
     else if \<not> registered target \<or> m_phase target \<noteq> machine_running then ret (True, [])
     else bindA (readEtcdStatus E) (\<lambda>status.
       ret (removal_keeps_quorum (desired_replicas k) status (node_name target))))"

lemma readEtcdStatus_silent [silent_rules]: "guards silent (readEtcdStatus E)"
  unfolding readEtcdStatus_def by (intro silent.flow guards_intros silent_rules)

lemma canRemove_silent [silent_rules]: "guards silent (canRemoveMember E target)"
  unfolding canRemoveMember_def by (intro silent.flow guards_intros silent_rules)

lemma count_nonneg: "0 \<le> etcdVotingHealthyCount status"
  by (induction status rule: etcdVotingHealthyCount.induct) auto

lemma count_without_absent:
  "key \<notin> fst ` set status \<Longrightarrow> filter (\<lambda>m. fst m \<noteq> key) status = status"
  by (rule filter_True) auto

lemma count_without:
  assumes "distinct (map fst status)" "map_of status key = Some es"
  shows "etcdVotingHealthyCount (filter (\<lambda>m. fst m \<noteq> key) status) =
    (if es_healthy es \<and> es_voting es then etcdVotingHealthyCount status - 1 else etcdVotingHealthyCount status)"
  using assms
proof (induction status rule: etcdVotingHealthyCount.induct)
  case (2 k es' rest)
  show ?case
  proof (cases "k = key")
    case True
    with 2 show ?thesis by (simp add: count_without_absent)
  next
    case False
    with 2 show ?thesis by (auto split: if_splits)
  qed
qed simp

lemma decode_status_keys: "distinct (map fst kvs) \<Longrightarrow> distinct (map fst (decode_status E kvs))"
proof (induction kvs)
  case (Cons kv kvs)
  have "fst ` set (decode_status E kvs) \<subseteq> fst ` set kvs"
    unfolding decode_status_def by (induction kvs) (auto simp: map_filter_simps split: option.splits)
  with Cons show ?case
    by (cases kv) (auto simp: decode_status_def map_filter_simps split: option.splits)
qed (simp add: decode_status_def map_filter_simps)

text \<open>
  C21: outside teardown and single-node control planes, the guard lets a running, registered
  Machine go only when its node reported, and the other nodes that report healthy and voting
  still make a majority of the desired size; a failed read lets nothing go.
\<close>

theorem removal_needs_remaining_quorum:
  assumes "canRemoveMember E target s = (Inr (True, why), s')"
    and "k_deletion (s_kcp s) = None" and "1 < desired_replicas (s_kcp s)"
    and "m_node target = Some node" and "m_phase target = machine_running"
    and "\<And>n kvs. e_status E n = Inr kvs \<Longrightarrow> distinct (map fst kvs)"
  shows "\<exists>status. fst (readEtcdStatus E s) = Inr status \<and> map_of status node \<noteq> None \<and>
    desired_replicas (s_kcp s) div 2 + 1 \<le> etcdVotingHealthyCount (filter (\<lambda>m. fst m \<noteq> node) status)"
proof -
  have reg: "registered target" "node_name target = node"
    using assms(4) by (simp_all add: registered_def node_name_def)
  obtain status s1 where read: "readEtcdStatus E s = (Inr status, s1)"
    and dec: "removal_keeps_quorum (desired_replicas (s_kcp s)) status node = (True, why)"
    using assms(1-3,5) reg
    by (auto simp: canRemoveMember_def bindA_def get_kcp_def getsA_def ret_def split: prod.splits sum.splits)
  have dist: "distinct (map fst status)"
    using read assms(6)
    by (auto simp: readEtcdStatus_def read_api_def tick_def bindA_def tryA_def ret_def throw_def
        decode_status_keys split: sum.splits if_splits)
  from dec obtain es where es: "map_of status node = Some es"
    by (auto simp: removal_keeps_quorum_def split: option.splits)
  then have "desired_replicas (s_kcp s) div 2 + 1 \<le>
      etcdVotingHealthyCount (filter (\<lambda>m. fst m \<noteq> node) status)"
    using dec assms(3)
    by (auto simp: removal_keeps_quorum_def count_without [OF dist es] go_div_nonneg Let_def split: if_splits)
  with read es show ?thesis by auto
qed

text \<open>
  The guard's answer is decided on every path: teardown and single-node control planes
  always pass, a Machine with no Node or not running always passes (also when its node
  reports healthy and voting), a failed read is an error, and a missing Secret counts as no
  report, which refuses.
\<close>

theorem canRemoveMember_decision:
  "fst (canRemoveMember E target s) =
    (if k_deletion (s_kcp s) \<noteq> None then Inr (True, [])
     else if desired_replicas (s_kcp s) \<le> 1 then Inr (True, [])
     else if m_node target = None then Inr (True, [])
     else if m_phase target \<noteq> machine_running then Inr (True, [])
     else (case e_status E (s_tick s) of
             Inl NotFound \<Rightarrow> Inr (removal_keeps_quorum (desired_replicas (s_kcp s)) [] (node_name target))
           | Inl x \<Rightarrow> Inl (Api x)
           | Inr kvs \<Rightarrow> Inr (removal_keeps_quorum (desired_replicas (s_kcp s)) (decode_status E kvs) (node_name target))))"
  by (auto simp: canRemoveMember_def readEtcdStatus_def read_api_def tick_def bindA_def tryA_def
      get_kcp_def getsA_def ret_def throw_def registered_def split: sum.splits apierr.splits)

end
