(* ===== verification/Member_Leave.thy ===== *)
theory Member_Leave
  imports Etcd_Status
begin

text \<open>
  The etcd-leave handshake of a control-plane Machine that is being deleted:
  \<open>ha_leave.go\<close>, \<open>ha_leave_nodename.go\<close>, \<open>ha_leave_unregistered.go\<close>,
  \<open>ha_leave_etcdmember.go\<close>, and the hostname rules of \<open>api/bootstrap/v1beta2/hostname.go\<close>.

  A Machine carries a pre-terminate hook until its etcd member has left, or a bound has
  passed. Where the Go code updates the annotations of the Machine it was given, the model
  returns the updated Machine. A result \<open>(true, err)\<close> is the error: the only caller looks at
  the error first.
\<close>


section \<open>Identifiers and bounds\<close>

definition etcd_leave_hook :: string where
  "etcd_leave_hook = ''pre-terminate.delete.hook.machine.cluster.x-k8s.io/kairos-etcd-leave''"

definition leave_requested_value :: string where "leave_requested_value = ''leave-requested''"

definition left_value :: string where "left_value = ''left''"

definition leave_requested_at :: string where
  "leave_requested_at = ''controlplane.cluster.x-k8s.io/etcd-leave-requested-at''"

definition leave_unreachable_since :: string where
  "leave_unreachable_since = ''controlplane.cluster.x-k8s.io/etcd-leave-unreachable-since''"

definition member_leave_requested_at :: string where
  "member_leave_requested_at = ''controlplane.cluster.x-k8s.io/etcd-member-leave-requested-at''"

definition member_leave_member_id :: string where
  "member_leave_member_id = ''controlplane.cluster.x-k8s.io/etcd-member-leave-member-id''"

definition member_leave_timeout :: duration where "member_leave_timeout = minutes 5"

definition member_leave_cap :: duration where "member_leave_cap = minutes 10"

definition leave_unreachable_bound :: duration where
  "leave_unreachable_bound = member_leave_timeout + member_leave_cap"

lemmas leave_keys = etcd_leave_hook_def leave_requested_at_def leave_unreachable_since_def
  member_leave_requested_at_def member_leave_member_id_def

definition hasEtcdLeaveHook :: "machine \<Rightarrow> bool" where
  "hasEtcdLeaveHook m \<longleftrightarrow> m_annotations m etcd_leave_hook \<noteq> None"

definition role_init :: string where "role_init = ''init''"
definition role_join :: string where "role_join = ''join''"
definition role_none :: string where "role_none = []"

definition shouldStampEtcdLeaveHook :: "kcp \<Rightarrow> string \<Rightarrow> bool" where
  "shouldStampEtcdLeaveHook k role =
     (if distributionOf k \<noteq> ''k0s'' then False else role = role_init \<or> role = role_join)"

text \<open>\<open>resolveEffectiveDistribution\<close>.\<close>

definition resolveEffectiveDistribution :: "env \<Rightarrow> string op" where
  "resolveEffectiveDistribution E =
     bindA get_kcp (\<lambda>k.
     if k_template k = [] then ret []
     else bindA (tryA (read_api (\<lambda>n. e_template E n (k_template k)))) (\<lambda>r.
       case r of
         Inl e \<Rightarrow> if e = Api NotFound then ret [] else throw e
       | Inr t \<Rightarrow> ret (kt_distribution t)))"

definition machineAtPreTerminate :: "machine \<Rightarrow> bool" where
  "machineAtPreTerminate m =
     (case find (\<lambda>c. fst c = ''Deleting'') (m_conditions m) of
        None \<Rightarrow> False
      | Some c \<Rightarrow> fst (snd c) = ''True'' \<and> snd (snd c) = ''WaitingForPreTerminateHook'')"


section \<open>Deadlines anchored in annotations\<close>

text \<open>The common shape of \<open>leaveTimedOut\<close>, \<open>leaveUnreachableExpired\<close> and
  \<open>etcdMemberLeaveCapped\<close>: a stamp that does not parse never expires.\<close>

definition leaveTimedOut :: "env \<Rightarrow> machine \<Rightarrow> bool" where
  "leaveTimedOut E m =
     (case parse_rfc3339 (ann (m_annotations m) leave_requested_at) of
        None \<Rightarrow> False | Some at \<Rightarrow> e_now E - at > member_leave_timeout)"

definition leaveUnreachableExpired :: "env \<Rightarrow> machine \<Rightarrow> bool" where
  "leaveUnreachableExpired E m =
     (case parse_rfc3339 (ann (m_annotations m) leave_unreachable_since) of
        None \<Rightarrow> False | Some at \<Rightarrow> e_now E - at > leave_unreachable_bound)"

definition etcdMemberLeaveCapped :: "env \<Rightarrow> machine \<Rightarrow> bool" where
  "etcdMemberLeaveCapped E m =
     (case parse_rfc3339 (ann (m_annotations m) member_leave_requested_at) of
        None \<Rightarrow> False | Some at \<Rightarrow> e_now E - at > member_leave_cap)"


section \<open>Names\<close>

text \<open>\<open>IsDNS1123Label\<close> of apimachinery is the parameter \<open>label_errors\<close>.\<close>

definition NodeHostnameErrors :: "(string \<Rightarrow> string list) \<Rightarrow> string \<Rightarrow> string list" where
  "NodeHostnameErrors label_errors h =
     (if contains_str h ''{{'' then [''must not contain template markup''] else []) @ label_errors h"

definition ValidNodeHostname :: "(string \<Rightarrow> string list) \<Rightarrow> string \<Rightarrow> bool" where
  "ValidNodeHostname label_errors h \<longleftrightarrow> NodeHostnameErrors label_errors h = []"

definition RenderedHostname :: "kairos_config option \<Rightarrow> string \<Rightarrow> string" where
  "RenderedHostname spec machineName =
     (case spec of None \<Rightarrow> machineName
      | Some c \<Rightarrow> if kc_hostname c \<noteq> [] then kc_hostname c else machineName)"

definition renderedHostname :: "env \<Rightarrow> machine \<Rightarrow> string op" where
  "renderedHostname E m =
     (if m_cfg_name m = [] \<or> m_cfg_kind m \<noteq> ''KairosConfig'' \<or> m_cfg_group m \<noteq> ''bootstrap.cluster.x-k8s.io''
      then ret (m_name m)
      else bindA (tryA (read_api (\<lambda>n. e_config E n (m_cfg_name m)))) (\<lambda>r.
        case r of
          Inl e \<Rightarrow> if e = Api NotFound then ret (m_name m) else throw e
        | Inr c \<Rightarrow> ret (RenderedHostname (Some c) (m_name m))))"

definition renderedNodeName :: "env \<Rightarrow> machine \<Rightarrow> string op" where
  "renderedNodeName E m = bindA (renderedHostname E m) (\<lambda>h. ret (to_lower h))"

definition leaveNodeName :: "env \<Rightarrow> machine \<Rightarrow> string op" where
  "leaveNodeName E m = (if registered m then ret (node_name m) else renderedNodeName E m)"


section \<open>Writes to a Machine\<close>

definition annotateOnce :: "env \<Rightarrow> machine \<Rightarrow> (string \<times> string) list \<Rightarrow> machine op" where
  "annotateOnce E m values =
     (let missing = sort_key fst (filter (\<lambda>kv. m_annotations m (fst kv) = None) values) in
      if missing = [] then ret m
      else bindA (mgmt_write E (MachineAnnotated (m_name m) missing)) (\<lambda>_.
        ret (m\<lparr>m_annotations := upd_all (m_annotations m) missing\<rparr>)))"

definition stampAnnotationOnce :: "env \<Rightarrow> machine \<Rightarrow> string \<Rightarrow> machine op" where
  "stampAnnotationOnce E m key = annotateOnce E m [(key, format_rfc3339 (e_now E))]"

definition stampLeaveRequestedAt :: "env \<Rightarrow> machine \<Rightarrow> machine op" where
  "stampLeaveRequestedAt E m = stampAnnotationOnce E m leave_requested_at"

definition removeEtcdLeaveHook :: "env \<Rightarrow> machine \<Rightarrow> unit op" where
  "removeEtcdLeaveHook E m =
     (if \<not> hasEtcdLeaveHook m then ret ()
      else bindA refuse_if_frozen (\<lambda>_. mgmt_write E (HookRemoved (m_name m))))"

definition warnIfK3sEtcdLimitation :: "env \<Rightarrow> machine \<Rightarrow> unit op" where
  "warnIfK3sEtcdLimitation E target =
     bindA get_kcp (\<lambda>k.
     if \<not> e_recorder E \<or> distributionOf k = ''k0s'' then ret ()
     else if desired_replicas k \<le> 1 then ret ()
     else event E Warning ''EtcdMemberRemoveUnsupportedForK3s'')"

text \<open>\<open>CreateOrUpdate\<close> of the leave ConfigMap: read it, set the key, and write it when it
  changed. An existing \<open>left\<close> is kept unless forced.\<close>

definition ensureLeaveRequested :: "env \<Rightarrow> string \<Rightarrow> string \<Rightarrow> bool \<Rightarrow> unit op" where
  "ensureLeaveRequested E via node force =
     bindA (tryA (read_api (\<lambda>n. e_leave_cm E n via))) (\<lambda>r.
     case r of
       Inl e \<Rightarrow>
         if e = Api NotFound then workload_write_via E via (LeaveWritten via node leave_requested_value)
         else throw e
     | Inr cm \<Rightarrow>
         if \<not> force \<and> cm node = Some left_value then ret ()
         else if cm node = Some leave_requested_value then ret ()
         else workload_write_via E via (LeaveWritten via node leave_requested_value))"


section \<open>The k0s EtcdMember\<close>

definition etcdMemberPeerOwner :: "etcd_member \<Rightarrow> machine list \<Rightarrow> machine \<Rightarrow> string" where
  "etcdMemberPeerOwner member ms target =
     (let peer = (case split_host (em_peer member) of Some host \<Rightarrow> host | None \<Rightarrow> em_peer member) in
      case parse_ip peer of
        None \<Rightarrow> []
      | Some a \<Rightarrow>
          (case find (\<lambda>m. m_name m \<noteq> m_name target \<and> a \<in> set (address_ips m)) ms of
             None \<Rightarrow> [] | Some m \<Rightarrow> m_name m))"

definition canonicalMemberID :: "string \<Rightarrow> string option" where
  "canonicalMemberID raw =
     (if raw = [] then None
      else case parse_uint_hex64 raw of
             None \<Rightarrow> None
           | Some i \<Rightarrow> if i = 0 then None else Some (format_hex i))"

definition etcdMemberID :: "etcd_member \<Rightarrow> string option" where
  "etcdMemberID member = canonicalMemberID (em_member_id member)"

definition etcdMemberJoinedStatus :: "etcd_member \<Rightarrow> string" where
  "etcdMemberJoinedStatus member =
     (case find (\<lambda>c. fst c = ''Joined'') (em_conds member) of None \<Rightarrow> [] | Some c \<Rightarrow> snd c)"

definition not_joined :: string where "not_joined = ''False''"

definition abandonMemberLeave :: "env \<Rightarrow> machine \<Rightarrow> unit op" where
  "abandonMemberLeave E target =
     bindA (event E Warning ''EtcdMemberLeaveTimedOut'') (\<lambda>_. removeEtcdLeaveHook E target)"

abbreviation abandon :: "env \<Rightarrow> machine \<Rightarrow> bool op" where
  "abandon E target \<equiv> bindA (abandonMemberLeave E target) (\<lambda>_. ret True)"

text \<open>Stamp the start of the delegation, and keep the hook until the cap.\<close>

definition delegate_wait :: "env \<Rightarrow> machine \<Rightarrow> err \<Rightarrow> bool op" where
  "delegate_wait E target cause =
     bindA (stampAnnotationOnce E target member_leave_requested_at) (\<lambda>t.
     if etcdMemberLeaveCapped E t then abandon E t else throw cause)"

text \<open>\<open>spec.leave\<close> is set with a patch pinned to the object that was inspected; the server
  answers with the object it stored.\<close>

definition set_spec_leave :: "env \<Rightarrow> string \<Rightarrow> etcd_member \<Rightarrow> bool \<Rightarrow> etcd_member op" where
  "set_spec_leave E via member leave =
     bindA tick (\<lambda>n.
     case e_wl_write E n via of
       Some x \<Rightarrow> throw (Api x)
     | None \<Rightarrow>
         bindA (log_effect (SpecLeaveSet via (em_name member) leave)) (\<lambda>_.
         ret (e_patched E n (member\<lparr>em_leave := leave\<rparr>))))"

text \<open>The end of \<open>delegateMemberLeave\<close>: what k0s reports of the member.\<close>

definition delegate_outcome :: "env \<Rightarrow> machine \<Rightarrow> etcd_member \<Rightarrow> bool op" where
  "delegate_outcome E t member =
     (if etcdMemberJoinedStatus member = not_joined
      then bindA (removeEtcdLeaveHook E t) (\<lambda>_. ret True)
      else if etcdMemberLeaveCapped E t then abandon E t
      else ret False)"

definition delegate_set_leave :: "env \<Rightarrow> string \<Rightarrow> machine \<Rightarrow> etcd_member \<Rightarrow> bool op" where
  "delegate_set_leave E via t member =
     (if em_leave member then delegate_outcome E t member
      else bindA (tryA (set_spec_leave E via member True)) (\<lambda>r.
        case r of
          Inl e \<Rightarrow> if etcdMemberLeaveCapped E t then abandon E t else throw e
        | Inr member' \<Rightarrow>
            bindA (event E Normal ''EtcdMemberLeaveDelegated'') (\<lambda>_.
            delegate_outcome E t member')))"

definition delegate_member :: "env \<Rightarrow> string \<Rightarrow> machine list \<Rightarrow> machine \<Rightarrow> etcd_member \<Rightarrow> bool op" where
  "delegate_member E via ms target member =
     (if etcdMemberPeerOwner member ms target \<noteq> [] then abandon E target
      else case etcdMemberID member of
        None \<Rightarrow> abandon E target
      | Some memberID \<Rightarrow>
          if m_annotations target member_leave_member_id \<notin> {None, Some memberID} then abandon E target
          else bindA (annotateOnce E target
              [(member_leave_requested_at, format_rfc3339 (e_now E)), (member_leave_member_id, memberID)])
            (\<lambda>t. delegate_set_leave E via t member))"

definition delegateMemberLeave :: "env \<Rightarrow> machine list \<Rightarrow> machine \<Rightarrow> string \<Rightarrow> err + leave_conn \<Rightarrow> bool op" where
  "delegateMemberLeave E ms target nodeName conn =
     (case conn of
        Inl connErr \<Rightarrow> delegate_wait E target connErr
      | Inr c \<Rightarrow>
          bindA (tryA (read_api (\<lambda>n. e_member E n (lc_via c) nodeName))) (\<lambda>r.
          case r of
            Inl e \<Rightarrow>
              if e = Api NoMatch \<or> e = Api NotFound then abandon E target
              else delegate_wait E target e
          | Inr member \<Rightarrow> delegate_member E (lc_via c) ms target member))"


section \<open>A Machine whose node never registered\<close>

definition leaveUnreachable :: "env \<Rightarrow> machine \<Rightarrow> err \<Rightarrow> bool op" where
  "leaveUnreachable E target cause =
     bindA (stampAnnotationOnce E target leave_unreachable_since) (\<lambda>t.
     if leaveUnreachableExpired E t then abandon E t else throw cause)"

text \<open>Another Machine whose member goes by the same name, or the empty string.\<close>

definition otherMachineWithNodeName :: "env \<Rightarrow> machine list \<Rightarrow> machine \<Rightarrow> string \<Rightarrow> string op" where
  "otherMachineWithNodeName E ms target nodeName =
     bindA (forA ms (\<lambda>m.
       if m_name m = m_name target then ret None
       else bindA (leaveNodeName E m) (\<lambda>n. ret (if n = nodeName then Some (m_name m) else None))))
     (\<lambda>r. ret (case r of Some n \<Rightarrow> n | None \<Rightarrow> []))"

text \<open>
  \<open>inspectUnregisteredLeave\<close>: either \<open>reconcileMemberLeave\<close> is done with this result, or it
  proceeds with the Machine, its member ID recorded.
\<close>

datatype inspection = Finished bool | Proceed machine

definition inspect_member :: "env \<Rightarrow> machine list \<Rightarrow> machine \<Rightarrow> string \<Rightarrow> etcd_member \<Rightarrow> inspection op" where
  "inspect_member E ms target nodeName member =
     (if etcdMemberPeerOwner member ms target \<noteq> []
      then bindA (abandon E target) (\<lambda>d. ret (Finished d))
      else bindA (otherMachineWithNodeName E ms target nodeName) (\<lambda>other.
        if other \<noteq> [] then bindA (abandon E target) (\<lambda>d. ret (Finished d))
        else if etcdMemberJoinedStatus member = not_joined
          then bindA (removeEtcdLeaveHook E target) (\<lambda>_. ret (Finished True))
        else case etcdMemberID member of
               None \<Rightarrow> ret (Proceed target)
             | Some i \<Rightarrow> bindA (annotateOnce E target [(member_leave_member_id, i)]) (\<lambda>t. ret (Proceed t))))"

definition inspectUnregisteredLeave :: "env \<Rightarrow> machine list \<Rightarrow> machine \<Rightarrow> string \<Rightarrow> leave_conn \<Rightarrow> inspection op" where
  "inspectUnregisteredLeave E ms target nodeName conn =
     bindA (renderedHostname E target) (\<lambda>raw.
     if \<not> ValidNodeHostname (e_label_errors E) raw
     then bindA (leaveUnreachable E target (Failed ''rendered hostname is not a lowercase DNS-1123 label''))
            (\<lambda>d. ret (Finished d))
     else bindA (tryA (read_api (\<lambda>n. e_member E n (lc_via conn) nodeName))) (\<lambda>r.
       case r of
         Inl e \<Rightarrow>
           if e = Api NoMatch then bindA (abandon E target) (\<lambda>d. ret (Finished d))
           else if e = Api NotFound then bindA (removeEtcdLeaveHook E target) (\<lambda>_. ret (Finished True))
           else bindA (leaveUnreachable E target e) (\<lambda>d. ret (Finished d))
       | Inr member \<Rightarrow> inspect_member E ms target nodeName member))"


section \<open>The handshake\<close>

text \<open>The first pass of an eviction that reaches the workload cluster.\<close>

definition leave_first_request ::
    "env \<Rightarrow> machine list \<Rightarrow> machine \<Rightarrow> string \<Rightarrow> err + leave_conn \<Rightarrow> bool op" where
  "leave_first_request E ms target nodeName conn =
     (case conn of
        Inl connErr \<Rightarrow> leaveUnreachable E target connErr
      | Inr c \<Rightarrow>
          bindA (if registered target then ret (Proceed target)
                 else inspectUnregisteredLeave E ms target nodeName c) (\<lambda>i.
          case i of
            Finished d \<Rightarrow> ret d
          | Proceed t \<Rightarrow>
              bindA (ensureLeaveRequested E (lc_via c) nodeName True) (\<lambda>_.
              bindA (stampLeaveRequestedAt E t) (\<lambda>_.
              ret False))))"

text \<open>A requested leave: the timeout, an unanswered pass, or keeping the request in place.\<close>

definition leave_waiting ::
    "env \<Rightarrow> machine list \<Rightarrow> machine \<Rightarrow> string \<Rightarrow> err + leave_conn \<Rightarrow> bool op" where
  "leave_waiting E ms target nodeName conn =
     (if leaveTimedOut E target then delegateMemberLeave E ms target nodeName conn
      else case conn of
        Inl connErr \<Rightarrow> throw connErr
      | Inr c \<Rightarrow> bindA (ensureLeaveRequested E (lc_via c) nodeName False) (\<lambda>_. ret False))"

text \<open>The ack and the etcd-status checks, which need an answer from the workload cluster.\<close>

definition leave_requested_pass ::
    "env \<Rightarrow> machine list \<Rightarrow> machine \<Rightarrow> string \<Rightarrow> err + leave_conn \<Rightarrow> bool op" where
  "leave_requested_pass E ms target nodeName conn =
     (case conn of
        Inl _ \<Rightarrow> leave_waiting E ms target nodeName conn
      | Inr c \<Rightarrow>
          if lc_cm c nodeName = Some left_value
          then bindA (removeEtcdLeaveHook E target) (\<lambda>_. ret True)
          else if registered target then
            bindA (tryA (readEtcdStatus E)) (\<lambda>r.
            case r of
              Inr status \<Rightarrow>
                if map_of status nodeName = None
                then bindA (removeEtcdLeaveHook E target) (\<lambda>_. ret True)
                else leave_waiting E ms target nodeName conn
            | Inl _ \<Rightarrow> leave_waiting E ms target nodeName conn)
          else leave_waiting E ms target nodeName conn)"

definition leave_pass :: "env \<Rightarrow> cluster \<Rightarrow> machine list \<Rightarrow> machine \<Rightarrow> string \<Rightarrow> bool op" where
  "leave_pass E cl ms target nodeName =
     (if m_annotations target leave_requested_at = None \<and> \<not> machineAtPreTerminate target then ret False
      else bindA (tryA (connectForLeave E cl ms target)) (\<lambda>conn.
        if is_changed conn then throw IdentityChanged
        else if m_annotations target leave_requested_at = None
        then leave_first_request E ms target nodeName conn
        else leave_requested_pass E ms target nodeName conn))"

definition reconcileMemberLeave :: "env \<Rightarrow> cluster \<Rightarrow> machine list \<Rightarrow> machine \<Rightarrow> bool op" where
  "reconcileMemberLeave E cl ms target =
     bindA refuse_if_frozen (\<lambda>_.
     bindA get_kcp (\<lambda>k.
     if distributionOf k \<noteq> ''k0s'' then bindA (removeEtcdLeaveHook E target) (\<lambda>_. ret True)
     else bindA (leaveNodeName E target) (leave_pass E cl ms target)))"


section \<open>Reads, quiet operations and the freeze\<close>

lemma names_silent [silent_rules]:
  "guards silent (resolveEffectiveDistribution E)"
  "guards silent (renderedHostname E m)" "guards silent (renderedNodeName E m)"
  "guards silent (leaveNodeName E m)"
  unfolding resolveEffectiveDistribution_def renderedHostname_def renderedNodeName_def leaveNodeName_def
  by (intro silent.flow guards_intros silent_rules)+

lemma otherMachine_silent [silent_rules]: "guards silent (otherMachineWithNodeName E ms target n)"
  unfolding otherMachineWithNodeName_def
  by (intro silent.flow silent.for_guards guards_intros silent_rules)

lemma leave_quiet [quiet_rules]:
  "guards same_annotations (annotateOnce E m kvs)"
  "guards same_annotations (stampAnnotationOnce E m key)"
  "guards same_annotations (stampLeaveRequestedAt E m)"
  "guards same_annotations (removeEtcdLeaveHook E m)"
  "guards same_annotations (warnIfK3sEtcdLimitation E m)"
  "guards same_annotations (ensureLeaveRequested E via n force)"
  "guards same_annotations (abandonMemberLeave E m)"
  "guards same_annotations (delegate_wait E m e)"
  "guards same_annotations (set_spec_leave E via member b)"
  "guards same_annotations (delegate_outcome E m member)"
  "guards same_annotations (delegate_set_leave E via m member)"
  "guards same_annotations (delegate_member E via ms m member)"
  "guards same_annotations (leaveUnreachable E m e)"
  unfolding annotateOnce_def stampAnnotationOnce_def stampLeaveRequestedAt_def removeEtcdLeaveHook_def
    warnIfK3sEtcdLimitation_def ensureLeaveRequested_def abandonMemberLeave_def delegate_wait_def
    set_spec_leave_def delegate_outcome_def delegate_set_leave_def delegate_member_def
    leaveUnreachable_def Let_def log_effect_def
  by (intro quiet.flow guards_intros quiet_rules mod_quiet | simp)+

lemma leave_quiet2 [quiet_rules]:
  "guards same_annotations (delegateMemberLeave E ms m n conn)"
  "guards same_annotations (inspect_member E ms m n member)"
  "guards same_annotations (inspectUnregisteredLeave E ms m n c)"
  unfolding delegateMemberLeave_def inspect_member_def inspectUnregisteredLeave_def
  by (intro quiet.flow guards_intros quiet_rules silent_rules [THEN silent_quiet])+

lemma guards_inspection [guards_intros]:
  "(\<And>d. guards R (f d)) \<Longrightarrow> (\<And>m. guards R (g m)) \<Longrightarrow>
   guards R (case i of Finished d \<Rightarrow> f d | Proceed m \<Rightarrow> g m)"
  by (cases i) auto

lemma guards_from_inspection [guards_intros]:
  "(\<And>d. guards_from P R (f d)) \<Longrightarrow> (\<And>m. guards_from P R (g m)) \<Longrightarrow>
   guards_from P R (case i of Finished d \<Rightarrow> f d | Proceed m \<Rightarrow> g m)"
  by (cases i) auto

lemma handshake_quiet [quiet_rules]:
  "guards same_annotations (leave_first_request E ms m n conn)"
  "guards same_annotations (leave_waiting E ms m n conn)"
  "guards same_annotations (leave_requested_pass E ms m n conn)"
  unfolding leave_first_request_def leave_waiting_def leave_requested_pass_def
  by (intro quiet.flow guards_intros quiet_rules silent_rules [THEN silent_quiet])+

named_theorems open_rules \<open>operations that give the freeze guarantee from an unfrozen state\<close>

lemma annotate_freeze [freeze_rules]:
  "guards freeze_ok (annotateOnce E m kvs)"
  "guards freeze_ok (stampAnnotationOnce E m key)"
  "guards freeze_ok (stampLeaveRequestedAt E m)"
  "guards freeze_ok (warnIfK3sEtcdLimitation E m)"
  unfolding annotateOnce_def stampAnnotationOnce_def stampLeaveRequestedAt_def
    warnIfK3sEtcdLimitation_def Let_def
  by (intro frz.flow guards_intros freeze_rules mgmt_write_freeze | simp)+

lemma removeHook_freeze [freeze_rules]: "guards freeze_ok (removeEtcdLeaveHook E m)"
  unfolding removeEtcdLeaveHook_def
  by (intro guards_if frz.ret_guards frz.check_bind [OF identity_reads_freeze(1)] refuse_opens
      mgmt_write_unfrozen) simp_all

lemma abandon_freeze [freeze_rules]:
  "guards freeze_ok (abandonMemberLeave E m)"
  "guards freeze_ok (delegate_wait E m e)"
  "guards freeze_ok (delegate_outcome E m member)"
  "guards freeze_ok (leaveUnreachable E m e)"
  "guards freeze_ok (inspect_member E ms m n member)"
  "guards freeze_ok (inspectUnregisteredLeave E ms m n c)"
  unfolding abandonMemberLeave_def delegate_wait_def delegate_outcome_def leaveUnreachable_def
    inspect_member_def inspectUnregisteredLeave_def
  by (intro frz.flow guards_intros freeze_rules silent_rules [THEN silent_freeze])+

lemma leave_writes_open [open_rules]:
  "guards_from unfrozen freeze_ok (ensureLeaveRequested E via n force)"
  "guards_from unfrozen freeze_ok (set_spec_leave E via member b)"
proof -
  show "guards_from unfrozen freeze_ok (ensureLeaveRequested E via n force)"
    unfolding ensureLeaveRequested_def
    by (intro frz.open_flow guards_intros guards_from_weaken [OF read_api_freeze] quiet.try_guards
        quiet_rules workload_write_unfrozen | simp)+
  show "guards_from unfrozen freeze_ok (set_spec_leave E via member b)"
    unfolding guards_from_wpa set_spec_leave_def wpa_simps unfrozen_def
    by (auto simp: wpa_simps intro: nothing_logged_ok
        log_plain_ok [where e = "SpecLeaveSet via (em_name member) b"] split: option.splits)
qed

lemma delegate_open [open_rules]:
  "guards_from unfrozen freeze_ok (delegate_set_leave E via m member)"
  "guards_from unfrozen freeze_ok (delegate_member E via ms m member)"
  "guards_from unfrozen freeze_ok (delegateMemberLeave E ms m n conn)"
  unfolding delegate_set_leave_def delegate_member_def delegateMemberLeave_def
  by (intro frz.open_flow guards_intros open_rules quiet.try_guards quiet_rules
      freeze_rules [THEN guards_from_weaken])+

lemma handshake_open [open_rules]:
  "guards_from unfrozen freeze_ok (leave_waiting E ms m n conn)"
  "guards_from unfrozen freeze_ok (leave_requested_pass E ms m n conn)"
  "guards_from unfrozen freeze_ok (leave_first_request E ms m n conn)"
  unfolding leave_waiting_def leave_requested_pass_def leave_first_request_def
  by (intro frz.open_flow guards_intros open_rules quiet.flow quiet_rules
      freeze_rules [THEN guards_from_weaken] silent_rules [THEN silent_freeze, THEN guards_from_weaken]
      silent_rules [THEN silent_quiet])+

lemma connect_then:
  assumes "\<And>r. r \<noteq> Inl IdentityChanged \<Longrightarrow> guards_from unfrozen freeze_ok (f r)"
  shows "guards_from unfrozen freeze_ok (bindA (tryA (connectForLeave E cl ms target))
    (\<lambda>r. if is_changed r then throw IdentityChanged else f r))"
  unfolding guards_from_def
proof (intro allI impI)
  fix s :: st assume u: "unfrozen s"
  obtain r s1 where c: "connectForLeave E cl ms target s = (r, s1)" by (cases "connectForLeave E cl ms target s")
  have R1: "freeze_ok s s1" using guardsD [OF connect_freeze(4) c] .
  have u1: "unfrozen s1" if "r \<noteq> Inl IdentityChanged"
    using wpa_result [OF c [unfolded connectForLeave_def] connectVerified_post] u that
    by (auto simp: conn_post_def unfrozen_def split: sum.splits)
  have "freeze_ok s1 (snd (f r s1))" if "r \<noteq> Inl IdentityChanged"
    using assms [OF that] u1 [OF that] by (simp add: guards_from_def)
  with R1 show "freeze_ok s (snd (bindA (tryA (connectForLeave E cl ms target))
      (\<lambda>r. if is_changed r then throw IdentityChanged else f r) s))"
    by (auto simp: bindA_def tryA_def c throw_def intro: frz.R_trans)
qed

lemma leave_pass_open [open_rules]: "guards_from unfrozen freeze_ok (leave_pass E cl ms target n)"
  unfolding leave_pass_def
  by (intro guards_from_if frz.open_ret connect_then open_rules)

lemma reconcileMemberLeave_freeze [freeze_rules]: "guards freeze_ok (reconcileMemberLeave E cl ms target)"
  unfolding reconcileMemberLeave_def
  by (rule frz.check_bind [OF identity_reads_freeze(1)], erule refuse_opens)
    (intro frz.open_flow guards_from_if open_rules quiet_rules quiet.flow
        freeze_rules [THEN guards_from_weaken] silent_rules [THEN silent_freeze, THEN guards_from_weaken]
        silent_rules [THEN silent_quiet])

lemma reconcileMemberLeave_pin [pin_rules]:
  "guards pin_kept (leave_pass E cl ms target n)"
  "guards pin_kept (reconcileMemberLeave E cl ms target)"
  unfolding reconcileMemberLeave_def leave_pass_def
  by (intro pinned.flow guards_intros pin_rules quiet_rules [THEN quiet_pin]
      silent_rules [THEN silent_quiet, THEN quiet_pin])+


section \<open>The deadlines\<close>

text \<open>
  One interface for the three deadlines of a leave: a check that compares the instant in an
  annotation with a bound. Its client is the bound on the whole leave.
\<close>

locale deadline =
  fixes expired :: "env \<Rightarrow> machine \<Rightarrow> bool" and key :: string and bound :: duration
  assumes expired_iff: "expired E m \<longleftrightarrow>
      (\<exists>at. parse_rfc3339 (ann (m_annotations m) key) = Some at \<and> e_now E > at + bound)"
    and bound_pos: "ns_per_s \<le> bound"
begin

lemma stamped_value:
  "0 \<le> t \<Longrightarrow> t < int (days_before_year 10000) * 86400 * ns_per_s \<Longrightarrow>
   m_annotations m key = Some (format_rfc3339 t) \<Longrightarrow>
   expired E m \<longleftrightarrow> e_now E > trunc_s t + bound"
  by (auto simp: expired_iff ann_def parse_format_rfc3339)

lemma fresh_stamp:
  assumes "0 \<le> e_now E" "e_now E < int (days_before_year 10000) * 86400 * ns_per_s"
    and "m_annotations m key = Some (format_rfc3339 (e_now E))"
  shows "\<not> expired E m"
  using stamped_value [OF assms, of E] trunc_s_bounds [of "e_now E"] bound_pos by simp

lemma expires:
  assumes "0 \<le> t" "t < int (days_before_year 10000) * 86400 * ns_per_s"
    and "m_annotations m key = Some (format_rfc3339 t)" and "e_now E > t + bound"
  shows "expired E m"
  using stamped_value [OF assms(1-3), of E] trunc_s_bounds [of t] assms(4) by simp

lemma stays_expired: "expired E m \<Longrightarrow> e_now E \<le> e_now E' \<Longrightarrow> expired E' m"
  by (auto simp: expired_iff)

end

lemmas bound_defs = member_leave_timeout_def member_leave_cap_def leave_unreachable_bound_def duration_defs

interpretation requested: deadline leaveTimedOut leave_requested_at member_leave_timeout
  by unfold_locales (auto simp: leaveTimedOut_def bound_defs split: option.splits)

interpretation unreachable: deadline leaveUnreachableExpired leave_unreachable_since leave_unreachable_bound
  by unfold_locales (auto simp: leaveUnreachableExpired_def bound_defs split: option.splits)

interpretation delegated: deadline etcdMemberLeaveCapped member_leave_requested_at member_leave_cap
  by unfold_locales (auto simp: etcdMemberLeaveCapped_def bound_defs split: option.splits)


section \<open>When the hook is released\<close>

text \<open>
  \<open>release_ok E n P\<close>: the hook of Machine \<open>n\<close> was released only with the warning that its
  member may be left behind, or because \<open>P\<close> holds.
\<close>

definition leave_warning :: effect where
  "leave_warning = Event Warning ''EtcdMemberLeaveTimedOut''"

definition release_ok :: "env \<Rightarrow> string \<Rightarrow> bool \<Rightarrow> st \<Rightarrow> st \<Rightarrow> bool" where
  "release_ok E n P s s' \<longleftrightarrow> (\<exists>es. s_log s' = s_log s @ es \<and>
     (HookRemoved n \<in> set es \<longrightarrow> leave_warning \<in> set es \<or> \<not> e_recorder E \<or> P))"

interpretation rel: guarantee "release_ok E n P" for E n P
proof
  fix s t u :: st
  show "release_ok E n P s s" by (simp add: release_ok_def)
  show "release_ok E n P s u" if "release_ok E n P s t" "release_ok E n P t u"
    using that by (auto simp: release_ok_def)
qed

named_theorems release_rules \<open>operations that release no hook without a warning\<close>

lemma release_grow: "s_log s' = s_log s @ es \<Longrightarrow> HookRemoved n \<notin> set es \<or> P \<Longrightarrow> release_ok E n P s s'"
  by (auto simp: release_ok_def)

lemma release_same: "s_log s' = s_log s \<Longrightarrow> release_ok E n P s s'"
  by (simp add: release_ok_def)

lemma silent_release: "guards silent m \<Longrightarrow> guards (release_ok E n P) m"
  by (simp add: guards_def silent_def release_same)

lemma writes_release:
  "e \<noteq> HookRemoved n \<or> P \<Longrightarrow> guards (release_ok E' n P) (mgmt_write E e)"
  "e \<noteq> HookRemoved n \<Longrightarrow> guards (release_ok E' n P) (workload_write_via E via e)"
  unfolding guards_wpa wpa_simps
  by (auto intro: release_same release_grow [where es = "[e]"] split: option.splits)

lemma log_release: "e \<noteq> HookRemoved n \<Longrightarrow> guards (release_ok E n P) (log_effect e)"
  unfolding guards_wpa wpa_simps by (auto intro: release_grow [where es = "[e]"])

lemma event_release [release_rules]: "guards (release_ok E' n P) (event E t r)"
  unfolding guards_wpa wpa_simps by (auto intro: release_same release_grow [where es = "[Event t r]"])

lemma annotate_release [release_rules]:
  "guards (release_ok E' n P) (annotateOnce E m kvs)"
  "guards (release_ok E' n P) (stampAnnotationOnce E m key)"
  "guards (release_ok E' n P) (stampLeaveRequestedAt E m)"
  "guards (release_ok E' n P) (ensureLeaveRequested E via node force)"
  "guards (release_ok E' n P) (set_spec_leave E via member b)"
  unfolding annotateOnce_def stampAnnotationOnce_def stampLeaveRequestedAt_def ensureLeaveRequested_def
    set_spec_leave_def Let_def
  by (intro rel.flow guards_intros writes_release log_release release_rules
      silent_rules [THEN silent_release] | simp)+

lemma abandon_release [release_rules]: "guards (release_ok E n P) (abandonMemberLeave E m)"
  unfolding guards_wpa abandonMemberLeave_def removeEtcdLeaveHook_def
proof
  fix s :: st
  have two: "release_ok E n P s s'" if "s_log s' = s_log s @ es" "leave_warning \<in> set es \<or> \<not> e_recorder E" for s' es
    using that by (auto simp: release_ok_def)
  show "wpa (bindA (event E Warning ''EtcdMemberLeaveTimedOut'') (\<lambda>_.
      if \<not> hasEtcdLeaveHook m then ret () else bindA refuse_if_frozen (\<lambda>_. mgmt_write E (HookRemoved (m_name m)))))
    (\<lambda>_. release_ok E n P s) s"
    by (auto simp: wpa_simps intro: two [where es = "[leave_warning]"] two [where es = "[]"]
        two [where es = "[leave_warning, HookRemoved (m_name m)]"] two [where es = "[HookRemoved (m_name m)]"]
        simp: leave_warning_def split: option.splits)
qed

lemma removeHook_release: "P \<Longrightarrow> guards (release_ok E' n P) (removeEtcdLeaveHook E m)"
  unfolding removeEtcdLeaveHook_def
  by (intro rel.flow guards_intros silent_rules [THEN silent_release] writes_release) simp

lemma wait_release [release_rules]:
  "guards (release_ok E n P) (delegate_wait E m e)"
  "guards (release_ok E n P) (leaveUnreachable E m e)"
  unfolding delegate_wait_def leaveUnreachable_def
  by (intro rel.flow guards_intros release_rules)+

text \<open>A read whose answer decides what follows.\<close>

lemma read_release:
  assumes "\<And>i x. f i = Inl x \<Longrightarrow> guards (release_ok E n P) (g (Inl (Api x)))"
    and "\<And>i v. f i = Inr v \<Longrightarrow> guards (release_ok E n P) (g (Inr v))"
  shows "guards (release_ok E n P) (bindA (tryA (read_api f)) g)"
  unfolding guards_def
proof
  fix s :: st
  let ?s = "s\<lparr>s_tick := Suc (s_tick s)\<rparr>"
  have lift: "release_ok E n P s s'" if "release_ok E n P ?s s'" for s'
    using that by (simp add: release_ok_def)
  show "release_ok E n P s (snd (bindA (tryA (read_api f)) g s))"
  proof (cases "f (s_tick s)")
    case (Inl x)
    then show ?thesis
      using lift assms(1) [OF Inl]
      by (simp add: guards_def bindA_def tryA_def read_api_def tick_def throw_def)
  next
    case (Inr v)
    then show ?thesis
      using lift assms(2) [OF Inr]
      by (simp add: guards_def bindA_def tryA_def read_api_def tick_def ret_def)
  qed
qed

lemma set_leave_release:
  assumes "\<And>e. guards (release_ok E n P) (g (Inl e))"
    and "\<And>j. guards (release_ok E n P) (g (Inr (e_patched E j (member\<lparr>em_leave := b\<rparr>))))"
  shows "guards (release_ok E n P) (bindA (tryA (set_spec_leave E via member b)) g)"
  unfolding guards_def
proof
  fix s :: st
  let ?s = "s\<lparr>s_tick := Suc (s_tick s)\<rparr>"
  let ?s' = "?s\<lparr>s_log := s_log s @ [SpecLeaveSet via (em_name member) b]\<rparr>"
  have lift: "release_ok E n P s s'" if "release_ok E n P ?s s'" for s'
    using that by (simp add: release_ok_def)
  have "release_ok E n P s ?s'"
    by (rule release_grow [where es = "[SpecLeaveSet via (em_name member) b]"]) simp_all
  then have lift': "release_ok E n P s s'" if "release_ok E n P ?s' s'" for s'
    using that rel.R_trans by blast
  show "release_ok E n P s (snd (bindA (tryA (set_spec_leave E via member b)) g s))"
  proof (cases "e_wl_write E (s_tick s) via")
    case (Some x)
    then show ?thesis
      using lift assms(1) by (simp add: guards_def bindA_def tryA_def set_spec_leave_def tick_def throw_def)
  next
    case None
    then show ?thesis
      using lift' assms(2)
      by (simp add: guards_def bindA_def tryA_def set_spec_leave_def tick_def ret_def log_effect_def modA_def)
  qed
qed

text \<open>k0s reported the member out of etcd, as read or in its answer to the patch.\<close>

definition k0s_says_gone :: "env \<Rightarrow> etcd_member \<Rightarrow> bool" where
  "k0s_says_gone E member \<longleftrightarrow> etcdMemberJoinedStatus member = not_joined \<or>
     (\<exists>j. etcdMemberJoinedStatus (e_patched E j (member\<lparr>em_leave := True\<rparr>)) = not_joined)"

text \<open>
  The evidence a hook may be released on, through connection \<open>c\<close>: the node's ack to a request
  of this eviction; for a registered node, no report under its name after the request; for
  one that never registered, no EtcdMember of its name before any request; or k0s's word.
\<close>

definition left_evidence :: "env \<Rightarrow> machine \<Rightarrow> string \<Rightarrow> leave_conn \<Rightarrow> bool" where
  "left_evidence E m node c \<longleftrightarrow>
     (m_annotations m leave_requested_at \<noteq> None \<and> lc_cm c node = Some left_value) \<or>
     (m_annotations m leave_requested_at \<noteq> None \<and> registered m \<and>
        (\<exists>i. e_status E i = Inl NotFound \<or>
          (\<exists>kvs. e_status E i = Inr kvs \<and> map_of (decode_status E kvs) node = None))) \<or>
     (m_annotations m leave_requested_at = None \<and> \<not> registered m \<and>
        (\<exists>i. e_member E i (lc_via c) node = Inl NotFound)) \<or>
     (\<exists>i member. e_member E i (lc_via c) node = Inr member \<and> k0s_says_gone E member)"

lemma outcome_release:
  "(etcdMemberJoinedStatus member = not_joined \<Longrightarrow> P) \<Longrightarrow> guards (release_ok E n P) (delegate_outcome E t member)"
  unfolding delegate_outcome_def
  by (cases "etcdMemberJoinedStatus member = not_joined")
    (auto intro!: rel.flow guards_if release_rules removeHook_release)

lemma delegate_release:
  assumes "\<And>i member. e_member E i (lc_via c) node = Inr member \<Longrightarrow> k0s_says_gone E member \<Longrightarrow> P"
  shows "guards (release_ok E n P) (delegateMemberLeave E ms m node (Inr c))"
proof -
  have set_leave: "guards (release_ok E n P) (delegate_set_leave E via t member)"
    if "k0s_says_gone E member \<Longrightarrow> P" for via t member
    unfolding delegate_set_leave_def
  proof (intro guards_if set_leave_release outcome_release)
    show P if "etcdMemberJoinedStatus member = not_joined"
      using that \<open>k0s_says_gone E member \<Longrightarrow> P\<close> by (simp add: k0s_says_gone_def)
  next
    fix j
    have "guards (release_ok E n P) (delegate_outcome E t (e_patched E j (member\<lparr>em_leave := True\<rparr>)))"
      by (rule outcome_release) (use that in \<open>auto simp: k0s_says_gone_def\<close>)
    then show "guards (release_ok E n P) (case Inr (e_patched E j (member\<lparr>em_leave := True\<rparr>)) of
          Inl e \<Rightarrow> if etcdMemberLeaveCapped E t then abandon E t else throw e
        | Inr member' \<Rightarrow>
            bindA (event E Normal ''EtcdMemberLeaveDelegated'') (\<lambda>_. delegate_outcome E t member'))"
      by (auto intro!: rel.flow release_rules)
  qed (auto intro!: rel.flow release_rules)
  have "guards (release_ok E n P) (delegate_member E via ms m member)"
    if "k0s_says_gone E member \<Longrightarrow> P" for via member
    unfolding delegate_member_def
    by (intro rel.flow guards_if guards_option release_rules set_leave that)
  then show ?thesis
    unfolding delegateMemberLeave_def sum.case using assms
    by (intro read_release) (auto intro!: rel.flow guards_if release_rules)
qed

lemma waiting_release:
  assumes "\<And>c i member. conn = Inr c \<Longrightarrow> e_member E i (lc_via c) node = Inr member \<Longrightarrow>
    k0s_says_gone E member \<Longrightarrow> P"
  shows "guards (release_ok E n P) (leave_waiting E ms m node conn)"
proof (cases conn)
  case (Inl e)
  then show ?thesis
    unfolding leave_waiting_def delegateMemberLeave_def
    by (auto intro!: rel.flow release_rules)
next
  case (Inr c)
  have "guards (release_ok E n P) (delegateMemberLeave E ms m node (Inr c))"
    by (rule delegate_release) (rule assms [OF Inr])
  then show ?thesis
    unfolding leave_waiting_def Inr by (auto intro!: rel.flow release_rules)
qed

lemma requested_release:
  assumes "m_annotations m leave_requested_at \<noteq> None"
    and "\<And>c. conn = Inr c \<Longrightarrow> left_evidence E m node c \<Longrightarrow> P"
  shows "guards (release_ok E n P) (leave_requested_pass E ms m node conn)"
proof -
  have wait: "guards (release_ok E n P) (leave_waiting E ms m node conn)"
    by (rule waiting_release) (use assms(2) in \<open>auto simp: left_evidence_def\<close>)
  have status: "guards (release_ok E n P) (bindA (tryA (readEtcdStatus E)) (\<lambda>r.
            case r of
              Inr status \<Rightarrow>
                if map_of status node = None
                then bindA (removeEtcdLeaveHook E m) (\<lambda>_. ret True)
                else leave_waiting E ms m node conn
            | Inl _ \<Rightarrow> leave_waiting E ms m node conn))"
    if "conn = Inr c" "registered m" for c
  proof -
    have *: "bindA (tryA (bindA (tryA m1) f)) g = bindA (tryA m1) (\<lambda>r. bindA (tryA (f r)) g)"
      for m1 :: "'x op" and f :: "err + 'x \<Rightarrow> 'y op" and g :: "err + 'y \<Rightarrow> bool op"
      by (auto simp: bindA_def tryA_def fun_eq_iff split: prod.splits)
    show ?thesis
      unfolding readEtcdStatus_def *
      using that assms wait
      by (intro read_release)
        (auto simp: left_evidence_def intro!: rel.flow removeHook_release)
  qed
  show ?thesis
  proof (cases conn)
    case (Inl e)
    then show ?thesis unfolding leave_requested_pass_def using wait by simp
  next
    case (Inr c)
    have ack: "guards (release_ok E n P) (bindA (removeEtcdLeaveHook E m) (\<lambda>_. ret True))"
      if "lc_cm c node = Some left_value"
      using that Inr assms by (intro rel.flow removeHook_release) (simp add: left_evidence_def)
    show ?thesis
      unfolding leave_requested_pass_def
      using wait status [OF Inr] ack unfolding Inr by auto
  qed
qed

lemma inspect_release:
  assumes "\<not> registered m" "m_annotations m leave_requested_at = None"
    and "left_evidence E m node c \<Longrightarrow> P"
  shows "guards (release_ok E n P) (inspectUnregisteredLeave E ms m node c)"
proof -
  have member: "guards (release_ok E n P) (inspect_member E ms m node member)"
    if "etcdMemberJoinedStatus member = not_joined \<Longrightarrow> P" for member
  proof -
    have known: "guards (release_ok E n P) (if etcdMemberJoinedStatus member = not_joined
          then bindA (removeEtcdLeaveHook E m) (\<lambda>_. ret (Finished True))
          else case etcdMemberID member of
               None \<Rightarrow> ret (Proceed m)
             | Some i \<Rightarrow> bindA (annotateOnce E m [(member_leave_member_id, i)]) (\<lambda>t. ret (Proceed t)))"
      using that
      by (cases "etcdMemberJoinedStatus member = not_joined")
        (auto intro!: rel.flow removeHook_release release_rules split: option.split)
    have give_up: "guards (release_ok E n P) (bindA (abandon E m) (\<lambda>d. ret (Finished d)))"
      by (intro rel.flow release_rules)
    show ?thesis
      unfolding inspect_member_def
      by (rule guards_if [OF give_up], rule rel.bind_guards, rule silent_rules [THEN silent_release],
          rule guards_if [OF give_up known])
  qed
  have read: "guards (release_ok E n P) (bindA (tryA (read_api (\<lambda>i. e_member E i (lc_via c) node))) (\<lambda>r.
       case r of
         Inl e \<Rightarrow>
           if e = Api NoMatch then bindA (abandon E m) (\<lambda>d. ret (Finished d))
           else if e = Api NotFound then bindA (removeEtcdLeaveHook E m) (\<lambda>_. ret (Finished True))
           else bindA (leaveUnreachable E m e) (\<lambda>d. ret (Finished d))
       | Inr member \<Rightarrow> inspect_member E ms m node member))"
  proof (intro read_release; unfold sum.case)
    fix i x
    assume i: "e_member E i (lc_via c) node = Inl x"
    show "guards (release_ok E n P) (if Api x = Api NoMatch then bindA (abandon E m) (\<lambda>d. ret (Finished d))
           else if Api x = Api NotFound then bindA (removeEtcdLeaveHook E m) (\<lambda>_. ret (Finished True))
           else bindA (leaveUnreachable E m (Api x)) (\<lambda>d. ret (Finished d)))"
    proof (cases "x = NotFound")
      case True
      with i assms have P by (auto simp: left_evidence_def)
      with True show ?thesis by (auto intro!: rel.flow removeHook_release)
    next
      case False
      then show ?thesis by (auto intro!: rel.flow release_rules)
    qed
  next
    fix i member
    assume i: "e_member E i (lc_via c) node = Inr member"
    show "guards (release_ok E n P) (inspect_member E ms m node member)"
      by (rule member) (use i assms in \<open>auto simp: left_evidence_def k0s_says_gone_def\<close>)
  qed
  show ?thesis
    unfolding inspectUnregisteredLeave_def
    by (rule rel.bind_guards) (auto intro!: rel.flow read release_rules silent_rules [THEN silent_release])
qed

lemma first_release:
  assumes "m_annotations m leave_requested_at = None"
    and "\<And>c. conn = Inr c \<Longrightarrow> left_evidence E m node c \<Longrightarrow> P"
  shows "guards (release_ok E n P) (leave_first_request E ms m node conn)"
proof (cases conn)
  case (Inl e)
  then show ?thesis unfolding leave_first_request_def by (auto intro!: release_rules)
next
  case (Inr c)
  have ins: "guards (release_ok E n P) (if registered m then ret (Proceed m)
      else inspectUnregisteredLeave E ms m node c)"
    using inspect_release [OF _ assms(1)] assms(2) [OF Inr] rel.ret_guards by auto
  show ?thesis
    unfolding leave_first_request_def Inr sum.case
    by (rule rel.bind_guards [OF ins]) (intro rel.flow guards_inspection release_rules)
qed

lemma connect_release:
  "guards (release_ok E' n P) (tripIdentityFreeze E uid via pin)"
  "guards (release_ok E' n P) (verifyWorkloadIdentity E via)"
  "guards (release_ok E' n P) (verifyPinnedWorkloadIdentity E via)"
  "guards (release_ok E' n P) (verifiedLeaveConn E via readCM)"
  "guards (release_ok E' n P) (connectForLeave E cl ms target)"
proof -
  have patch: "guards (release_ok E' n P) (patchKCPAnnotations E kvs rm)" for kvs rm
    unfolding guards_wpa wpa_simps
    by (auto intro: release_same release_grow [where es = "[KcpPatched kvs rm]"] split: option.splits)
  have forget: "guards (release_ok E' n P) forgetIdentityCheck"
    unfolding guards_wpa forgetIdentityCheck_def wpa_simps by (simp add: release_same)
  show trip: "guards (release_ok E' n P) (tripIdentityFreeze E uid via pin)" for uid via pin
    unfolding tripIdentityFreeze_def Let_def
    by (intro rel.flow guards_intros patch forget release_rules silent_rules [THEN silent_release])
  show verify: "guards (release_ok E' n P) (verifyWorkloadIdentity E via)" for via
    unfolding verifyWorkloadIdentity_def Let_def
    by (intro rel.flow guards_intros trip silent_rules [THEN silent_release])
  show strict: "guards (release_ok E' n P) (verifyPinnedWorkloadIdentity E via)" for via
    unfolding verifyPinnedWorkloadIdentity_def
    by (intro rel.flow guards_intros verify silent_rules [THEN silent_release])
  show conn: "guards (release_ok E' n P) (verifiedLeaveConn E via readCM)" for via readCM
    unfolding verifiedLeaveConn_def readLeaveThrough_def
    by (intro rel.flow guards_intros strict silent_rules [THEN silent_release])
  show "guards (release_ok E' n P) (connectForLeave E cl ms target)"
    unfolding connectForLeave_def connectVerified_def
    by (intro rel.flow rel.for_guards guards_intros conn silent_rules [THEN silent_release])
qed



section \<open>The leave is bounded\<close>

definition hook_gone :: "string \<Rightarrow> err + bool \<Rightarrow> st \<Rightarrow> bool" where
  "hook_gone n r s' \<longleftrightarrow> r = Inr True \<and> s_log s' \<noteq> [] \<and> last (s_log s') = HookRemoved n"

text \<open>\<open>annotateOnce\<close> keeps every annotation that is there, whatever it is given.\<close>

lemma upd_all_missing:
  "m k = Some v \<Longrightarrow> upd_all m (sort_key fst (filter (\<lambda>kv. m (fst kv) = None) kvs)) k = Some v"
  by (subst upd_all_other) auto

lemma wpa_annotateOnce:
  "wpa (annotateOnce E m kvs) (\<lambda>r s'. s_kcp s' = s_kcp s \<and>
     (case r of Inl e \<Rightarrow> (\<exists>n. e_write E n \<noteq> None)
      | Inr t \<Rightarrow> m_name t = m_name m \<and> (\<forall>k v. m_annotations m k = Some v \<longrightarrow> m_annotations t k = Some v))) s"
  unfolding annotateOnce_def Let_def
  by (auto simp: wpa_simps upd_all_missing split: option.splits)

lemma wpa_removeHook:
  assumes "hasEtcdLeaveHook m" "unfrozen s" "\<And>n. e_write E n = None"
  shows "wpa (bindA (removeEtcdLeaveHook E m) (\<lambda>_. ret True)) (hook_gone (m_name m)) s"
  unfolding removeEtcdLeaveHook_def using assms
  by (simp add: wpa_simps hook_gone_def unfrozen_def)

lemma wpa_abandon:
  assumes "hasEtcdLeaveHook m" "unfrozen s" "\<And>n. e_write E n = None"
  shows "wpa (abandon E m) (hook_gone (m_name m)) s"
  unfolding abandonMemberLeave_def removeEtcdLeaveHook_def using assms
  by (auto simp: wpa_simps hook_gone_def unfrozen_def)

text \<open>The Machine as far as the bound is concerned: \<open>t\<close> is \<open>m\<close> with annotations added.\<close>

definition still_due :: "env \<Rightarrow> machine \<Rightarrow> machine \<Rightarrow> bool" where
  "still_due E m t \<longleftrightarrow> m_name t = m_name m \<and> hasEtcdLeaveHook t \<and> etcdMemberLeaveCapped E t"

lemma annotated_still_due:
  assumes "still_due E m t" and "\<And>n. e_write E n = None" and "unfrozen s"
    and cont: "\<And>t' s'. still_due E m t' \<Longrightarrow> unfrozen s' \<Longrightarrow> wpa (f t') (hook_gone (m_name m)) s'"
  shows "wpa (bindA (annotateOnce E t kvs) f) (hook_gone (m_name m)) s"
  unfolding wpa_bind
proof (rule wpa_weaken [OF wpa_annotateOnce], elim conjE)
  fix r :: "err + machine" and s' :: st
  assume k: "s_kcp s' = s_kcp s" and
    r: "case r of Inl e \<Rightarrow> \<exists>n. e_write E n \<noteq> None
      | Inr t' \<Rightarrow> m_name t' = m_name t \<and> (\<forall>k v. m_annotations t k = Some v \<longrightarrow> m_annotations t' k = Some v)"
  have "unfrozen s'" using k assms(3) by (simp add: unfrozen_def)
  moreover have "still_due E m t'" if "r = Inr t'" for t'
  proof -
    have keep: "m_name t' = m_name t" "\<And>k v. m_annotations t k = Some v \<Longrightarrow> m_annotations t' k = Some v"
      using r that by auto
    have "parse_rfc3339 [] = None" by code_simp
    then have "ann (m_annotations t') member_leave_requested_at = ann (m_annotations t) member_leave_requested_at"
      using assms(1) keep(2) [of member_leave_requested_at]
      by (auto simp: still_due_def etcdMemberLeaveCapped_def ann_def split: option.splits)
    then show ?thesis
      using assms(1) keep by (auto simp: still_due_def etcdMemberLeaveCapped_def hasEtcdLeaveHook_def)
  qed
  ultimately show "case r of Inl e \<Rightarrow> hook_gone (m_name m) (Inl e) s'
      | Inr t' \<Rightarrow> wpa (f t') (hook_gone (m_name m)) s'"
    using cont r assms(2) by (auto split: sum.splits)
qed

lemma due_abandon:
  "still_due E m t \<Longrightarrow> unfrozen s \<Longrightarrow> (\<And>n. e_write E n = None) \<Longrightarrow>
   wpa (abandon E t) (hook_gone (m_name m)) s"
  using wpa_abandon [of t s E] by (simp add: still_due_def)

lemma due_removed:
  "still_due E m t \<Longrightarrow> unfrozen s \<Longrightarrow> (\<And>n. e_write E n = None) \<Longrightarrow>
   wpa (bindA (removeEtcdLeaveHook E t) (\<lambda>_. ret True)) (hook_gone (m_name m)) s"
  using wpa_removeHook [of t s E] by (simp add: still_due_def)

lemma due_delegate:
  assumes "still_due E m m" "unfrozen s" and w: "\<And>n. e_write E n = None"
  shows "wpa (delegateMemberLeave E ms m node conn) (hook_gone (m_name m)) s"
proof -
  have wait: "wpa (delegate_wait E t e) (hook_gone (m_name m)) s'"
    if "still_due E m t" "unfrozen s'" for t e s'
    unfolding delegate_wait_def stampAnnotationOnce_def
    by (rule annotated_still_due [OF that(1) w that(2)])
      (use due_abandon [OF _ _ w] in \<open>simp add: still_due_def\<close>)
  have outcome: "wpa (delegate_outcome E t member) (hook_gone (m_name m)) s'"
    if "still_due E m t" "unfrozen s'" for t member s'
    using that due_abandon [OF that w] due_removed [OF that w]
    by (simp add: delegate_outcome_def still_due_def)
  have set_leave: "wpa (delegate_set_leave E via t member) (hook_gone (m_name m)) s'"
    if due: "still_due E m t" "unfrozen s'" for via t member s'
  proof -
    have up: "unfrozen (s'\<lparr>s_tick := i\<rparr>)" "unfrozen (s'\<lparr>s_tick := i, s_log := l\<rparr>)" for i and l :: "effect list"
      using due(2) by (simp_all add: unfrozen_def)
    have capped: "etcdMemberLeaveCapped E t" using due(1) by (simp add: still_due_def)
    show ?thesis
      using capped due_abandon [OF due(1) up(1) w] outcome [OF due(1) up(2)] outcome [OF due]
      by (cases "e_wl_write E (s_tick s') via")
        (auto simp: delegate_set_leave_def set_spec_leave_def wpa_bind wpa_try wpa_tick wpa_log
          wpa_event wpa_ret wpa_throw)
  qed
  have member: "wpa (delegate_member E via ms m member) (hook_gone (m_name m)) s'"
    if "unfrozen s'" for via member s'
    unfolding delegate_member_def
    using due_abandon [OF assms(1) that w] annotated_still_due [OF assms(1) w that] set_leave
    by (auto split: option.split)
  have up: "unfrozen (s\<lparr>s_tick := i\<rparr>)" for i using assms(2) by (simp add: unfrozen_def)
  show ?thesis
    unfolding delegateMemberLeave_def
    using wait [OF assms(1,2)] wait [OF assms(1) up] member [OF up] due_abandon [OF assms(1) up w]
    by (auto simp: wpa_bind [of "tryA m" for m] wpa_try wpa_read_api split: sum.splits)
qed

text \<open>
  C5: the wait for a leave is bounded whatever the workload cluster answers. Once the leave
  was requested more than five minutes ago and its delegation to k0s started more than ten
  minutes ago, a pass under no freeze releases the hook, unless it finds that an apiserver
  serves another cluster or the management API server fails.
\<close>

theorem leave_is_bounded:
  assumes "\<not> frozen (s_kcp s)" and "distributionOf (s_kcp s) = ''k0s''" and "hasEtcdLeaveHook target"
    and "0 \<le> t_req" "t_req < int (days_before_year 10000) * 86400 * ns_per_s"
    and "0 \<le> t_del" "t_del < int (days_before_year 10000) * 86400 * ns_per_s"
    and "m_annotations target leave_requested_at = Some (format_rfc3339 t_req)"
    and "m_annotations target member_leave_requested_at = Some (format_rfc3339 t_del)"
    and "e_now E > t_req + member_leave_timeout" "e_now E > t_del + member_leave_cap"
    and "\<And>n. e_write E n = None"
    and "\<And>n x. e_config E n (m_cfg_name target) = Inl x \<Longrightarrow> x = NotFound"
    and "reconcileMemberLeave E cl ms target s = (r, s')"
  shows "r = Inl IdentityChanged \<or>
    r = Inr True \<and> s_log s' \<noteq> [] \<and> last (s_log s') = HookRemoved (m_name target)"
proof -
  have due: "still_due E target target"
    using delegated.expires [OF assms(6,7,9,11)] assms(3) by (simp add: still_due_def)
  have late: "leaveTimedOut E target" using requested.expires [OF assms(4,5,8,10)] .
  have waiting: "wpa (leave_waiting E ms target node conn) (hook_gone (m_name target)) s1"
    if "unfrozen s1" for node conn s1
    using due_delegate [OF due that assms(12)] late by (simp add: leave_waiting_def)
  have pass: "wpa (leave_requested_pass E ms target node conn) (hook_gone (m_name target)) s1"
    if u: "unfrozen s1" for node conn s1
  proof (cases conn)
    case (Inl e)
    then show ?thesis using waiting [OF u] by (simp add: leave_requested_pass_def)
  next
    case (Inr c)
    have "wpa (bindA (tryA (readEtcdStatus E)) (\<lambda>r.
            case r of
              Inr status \<Rightarrow>
                if map_of status node = None
                then bindA (removeEtcdLeaveHook E target) (\<lambda>_. ret True)
                else leave_waiting E ms target node conn
            | Inl _ \<Rightarrow> leave_waiting E ms target node conn)) (hook_gone (m_name target)) s1"
      unfolding wpa_bind [of "tryA (readEtcdStatus E)"] wpa_try
    proof (rule wpa_silent [OF readEtcdStatus_silent])
      fix r s2 assume "silent s1 s2"
      then have "unfrozen s2" using u by (simp add: silent_def unfrozen_def)
      then show "case Inr r of Inl e \<Rightarrow> hook_gone (m_name target) (Inl e) s2
        | Inr r \<Rightarrow> wpa (case r of
              Inr status \<Rightarrow>
                if map_of status node = None
                then bindA (removeEtcdLeaveHook E target) (\<lambda>_. ret True)
                else leave_waiting E ms target node conn
            | Inl _ \<Rightarrow> leave_waiting E ms target node conn) (hook_gone (m_name target)) s2"
        using waiting due_removed [OF due _ assms(12)] by (auto split: sum.split)
    qed
    then show ?thesis
      using waiting [OF u] due_removed [OF due u assms(12)]
      unfolding leave_requested_pass_def Inr by auto
  qed
  have conn: "fst (leave_pass E cl ms target node s1) = Inl IdentityChanged \<or>
      hook_gone (m_name target) (fst (leave_pass E cl ms target node s1)) (snd (leave_pass E cl ms target node s1))"
    if "unfrozen s1" for node s1
  proof -
    obtain c s2 where c: "connectForLeave E cl ms target s1 = (c, s2)"
      by (cases "connectForLeave E cl ms target s1")
    have "unfrozen s2" if "c \<noteq> Inl IdentityChanged"
      using wpa_result [OF c [unfolded connectForLeave_def] connectVerified_post] \<open>unfrozen s1\<close> that
      by (auto simp: conn_post_def unfrozen_def split: sum.splits)
    then show ?thesis
      using pass [of s2 node c] assms(8)
      by (auto simp: leave_pass_def bindA_def tryA_def c throw_def wpa_def case_prod_beta)
  qed
  have names: "\<exists>node. r = Inr node" if "leaveNodeName E target s1 = (r, s2)" for s1 r s2
    using that assms(13) [of "s_tick s1"]
    by (cases "e_config E (s_tick s1) (m_cfg_name target)")
      (auto simp: leaveNodeName_def renderedNodeName_def renderedHostname_def read_api_def tick_def
        bindA_def tryA_def ret_def throw_def split: if_splits)
  obtain node s1 where n: "leaveNodeName E target s = (Inr node, s1)"
    using names [of s] by (cases "leaveNodeName E target s") metis
  have u1: "unfrozen s1"
    using guardsD [OF names_silent(4) n] assms(1) by (simp add: silent_def unfrozen_def)
  have "reconcileMemberLeave E cl ms target s = leave_pass E cl ms target node s1"
    using assms(1,2) n
    by (simp add: reconcileMemberLeave_def bindA_def refuse_if_frozen_def get_kcp_def getsA_def ret_def)
  then show ?thesis using conn [OF u1, of node] assms(14)
    by (cases "leave_pass E cl ms target node s1") (auto simp: hook_gone_def)
qed

end
