(* ===== verification/Leave_Protocol.thy ===== *)
theory Leave_Protocol
  imports Member_Leave
begin

text \<open>
  Properties of the etcd-leave handshake of \<open>Member_Leave\<close>: what it may write, and to whom;
  that nothing is sent before CAPI has finished with the node; the member IDs k0s is asked
  about; and, over any number of passes, that its stamps are written once.
\<close>


section \<open>Member IDs\<close>

text \<open>
  The canonical form of a member ID is stable and identifies the member: a raw ID is
  accepted exactly when it is hexadecimal, fits 64 bits and is not zero, and then its
  canonical form reads back as the same number and is its own canonical form.
\<close>

theorem canonicalMemberID_roundtrip:
  "canonicalMemberID raw = (case parse_uint_hex64 raw of
     None \<Rightarrow> None | Some i \<Rightarrow> if i = 0 then None else Some (format_hex i)) \<and>
   (case canonicalMemberID raw of None \<Rightarrow> True | Some c \<Rightarrow>
     parse_uint_hex64 c = parse_uint_hex64 raw \<and> canonicalMemberID c = Some c \<and>
     list_all is_hex_lower c)"
proof (cases "parse_uint_hex64 raw")
  case None
  then show ?thesis by (simp add: canonicalMemberID_def)
next
  case (Some i)
  then have "i < 2 ^ 64" "raw \<noteq> []"
    by (auto simp: parse_uint_hex64_def split: option.splits if_splits)
  then have "parse_uint_hex64 (format_hex i) = Some i" "format_hex i \<noteq> []"
    by (simp_all only: parse_format_hex64) (simp add: format_hex_def)
  with Some \<open>raw \<noteq> []\<close> show ?thesis
    by (simp add: canonicalMemberID_def format_hex_chars)
qed


section \<open>What the handshake writes\<close>

text \<open>
  The workload writes allowed when \<open>target\<close> leaves under the name \<open>node\<close>: the request under
  its own key, and \<open>spec.leave\<close> on an EtcdMember of its name, whose peer address no other
  Machine reports, with the member ID recorded for this leave, after the timeout; all
  through an apiserver that reported the pinned UID.
\<close>

definition own_write :: "env \<Rightarrow> st \<Rightarrow> machine list \<Rightarrow> machine \<Rightarrow> string \<Rightarrow> effect \<Rightarrow> bool" where
  "own_write E s ms target node e =
     (case e of
        LeaveWritten via n v \<Rightarrow> vouched E s via \<and> n = node \<and> v = leave_requested_value
      | SpecLeaveSet via n b \<Rightarrow> vouched E s via \<and> b \<and> leaveTimedOut E target \<and>
          (\<exists>i member j. e_member E i via node = Inr member \<and> em_name member = n \<and>
             etcdMemberPeerOwner member ms target = [] \<and> etcdMemberID member = Some j \<and>
             m_annotations target member_leave_member_id \<in> {None, Some j})
      | _ \<Rightarrow> \<not> workload_write e)"

lemma own_write_plain [simp]:
  "own_write E s ms t n (KcpPatched kvs rm)" "own_write E s ms t n (Event et r)"
  "own_write E s ms t n (MachineAnnotated mn kvs)" "own_write E s ms t n (HookRemoved mn)"
  by (simp_all add: own_write_def)

lemma hook_logs:
  assumes "\<And>n. Q (HookRemoved n)" "\<And>n kvs. Q (MachineAnnotated n kvs)" "\<And>et r. Q (Event et r)"
  shows "guards (logs_only Q) (removeEtcdLeaveHook E m)"
    and "guards (logs_only Q) (abandonMemberLeave E m)"
    and "guards (logs_only Q) (annotateOnce E m kvs)"
    and "guards (logs_only Q) (delegate_wait E m e)"
    and "guards (logs_only Q) (leaveUnreachable E m e)"
    and "guards (logs_only Q) (delegate_outcome E m member)"
    and "guards (logs_only Q) (inspect_member E ms m n member)"
    and "guards (logs_only Q) (inspectUnregisteredLeave E ms m n c)"
proof -
  show rm: "guards (logs_only Q) (removeEtcdLeaveHook E m)" for m
    unfolding removeEtcdLeaveHook_def
    by (intro logs.flow guards_intros logs_writes assms silent_rules [THEN silent_logs])
  show ab: "guards (logs_only Q) (abandonMemberLeave E m)" for m
    unfolding abandonMemberLeave_def by (intro logs.flow guards_intros logs_writes assms rm)
  show an: "guards (logs_only Q) (annotateOnce E m kvs)" for m kvs
    unfolding annotateOnce_def Let_def by (intro logs.flow guards_intros logs_writes assms)
  show "guards (logs_only Q) (delegate_wait E m e)" for m e
    unfolding delegate_wait_def stampAnnotationOnce_def by (intro logs.flow guards_intros ab an)
  show un: "guards (logs_only Q) (leaveUnreachable E m e)" for e
    unfolding leaveUnreachable_def stampAnnotationOnce_def by (intro logs.flow guards_intros ab an)
  show "guards (logs_only Q) (delegate_outcome E m member)"
    unfolding delegate_outcome_def by (intro logs.flow guards_intros rm ab)
  show ins: "guards (logs_only Q) (inspect_member E ms m n member)" for member
    unfolding inspect_member_def
    by (intro logs.flow guards_intros rm ab an silent_rules [THEN silent_logs])
  show "guards (logs_only Q) (inspectUnregisteredLeave E ms m n c)"
    unfolding inspectUnregisteredLeave_def
    by (intro logs.flow guards_intros rm ab un ins logs_rules silent_rules [THEN silent_logs])
qed

lemma delegate_own:
  assumes "vouched E s (lc_via c)" "leaveTimedOut E target"
  shows "guards (logs_only (own_write E s ms target node)) (delegateMemberLeave E ms target node (Inr c))"
proof -
  let ?Q = "own_write E s ms target node"
  note hooks = hook_logs [of ?Q, OF own_write_plain(4) own_write_plain(3) own_write_plain(2)]
  have member: "guards (logs_only ?Q) (delegate_member E (lc_via c) ms target member)"
    if "e_member E i (lc_via c) node = Inr member" for i member
  proof -
    have spec: "guards (logs_only ?Q) (delegate_set_leave E (lc_via c) t member)"
      if "etcdMemberPeerOwner member ms target = []" "etcdMemberID member = Some j"
        "m_annotations target member_leave_member_id \<in> {None, Some j}" for t j
    proof -
      have "?Q (SpecLeaveSet (lc_via c) (em_name member) True)"
        using assms that \<open>e_member E i (lc_via c) node = Inr member\<close>
        by (auto simp: own_write_def)
      then have "guards (logs_only ?Q) (set_spec_leave E (lc_via c) member True)"
        unfolding set_spec_leave_def by (intro logs.flow guards_intros logs_rules logs_writes)
      then show ?thesis
        unfolding delegate_set_leave_def
        by (auto intro!: logs.flow guards_if guards_sum hooks logs_writes)
    qed
    show ?thesis
    proof (cases "etcdMemberPeerOwner member ms target = [] \<and>
        (\<exists>j. etcdMemberID member = Some j \<and> m_annotations target member_leave_member_id \<in> {None, Some j})")
      case True
      then obtain j where "etcdMemberPeerOwner member ms target = []" "etcdMemberID member = Some j"
        "m_annotations target member_leave_member_id \<in> {None, Some j}" by auto
      from spec [OF this] this show ?thesis
        unfolding delegate_member_def by (auto intro!: logs.bind_guards hooks)
    next
      case False
      then show ?thesis
        unfolding delegate_member_def
        by (auto split: option.split intro!: logs.flow hooks)
    qed
  qed
  show ?thesis
    unfolding delegateMemberLeave_def sum.case
    by (intro read_logs) (auto intro!: logs.flow guards_if hooks member)
qed

lemma request_own:
  assumes "vouched E s via"
  shows "guards (logs_only (own_write E s ms target node)) (ensureLeaveRequested E via node force)"
  unfolding ensureLeaveRequested_def
  by (intro logs.flow guards_intros logs_rules logs_writes) (use assms in \<open>simp_all add: own_write_def\<close>)

lemma handshake_own:
  assumes "\<And>c. conn = Inr c \<Longrightarrow> vouched E s (lc_via c)"
  shows "guards (logs_only (own_write E s ms target node)) (leave_first_request E ms target node conn)"
    and "guards (logs_only (own_write E s ms target node)) (leave_requested_pass E ms target node conn)"
proof -
  let ?Q = "own_write E s ms target node"
  note hooks = hook_logs [of ?Q, OF own_write_plain(4) own_write_plain(3) own_write_plain(2)]
  have stamp: "guards (logs_only ?Q) (stampLeaveRequestedAt E t)" for t
    unfolding stampLeaveRequestedAt_def stampAnnotationOnce_def by (rule hooks)
  show "guards (logs_only ?Q) (leave_first_request E ms target node conn)"
  proof (cases conn)
    case (Inl e)
    then show ?thesis by (simp add: leave_first_request_def hooks)
  next
    case (Inr c)
    show ?thesis
      unfolding leave_first_request_def Inr sum.case
      by (intro logs.flow guards_intros hooks stamp request_own assms Inr)
  qed
  have waiting: "guards (logs_only ?Q) (leave_waiting E ms target node conn)"
  proof (cases conn)
    case (Inl e)
    then show ?thesis
      by (auto simp: leave_waiting_def delegateMemberLeave_def hooks logs.throw_guards)
  next
    case (Inr c)
    have "guards (logs_only ?Q) (bindA (ensureLeaveRequested E (lc_via c) node False) (\<lambda>_. ret False))"
      by (intro logs.flow request_own assms Inr)
    then show ?thesis
      unfolding leave_waiting_def Inr sum.case using delegate_own [of E s c target] assms [OF Inr] by auto
  qed
  show "guards (logs_only ?Q) (leave_requested_pass E ms target node conn)"
    unfolding leave_requested_pass_def
    by (intro logs.flow guards_intros hooks waiting silent_rules [THEN silent_logs])
qed

text \<open>
  C7: whatever a leave pass writes to the workload cluster concerns the leaving Machine
  alone and goes through an apiserver that reported the pinned UID in this pass: the request
  under the Machine's own node name, or \<open>spec.leave\<close> (never cleared) on the EtcdMember of
  that name, after the timeout, with the recorded member ID and a peer address that no
  other Machine reports.
\<close>

theorem leave_writes_only_own_member:
  assumes "reconcileMemberLeave E cl ms target s = (r, s')"
    and "e \<in> set (new_effects s s')" and "workload_write e"
  shows "\<exists>node s1. leaveNodeName E target s = (Inr node, s1) \<and> own_write E s ms target node e"
proof -
  let ?R = "logs_only (\<lambda>e. workload_write e \<longrightarrow>
    (\<exists>node s1. leaveNodeName E target s = (Inr node, s1) \<and> own_write E s ms target node e))"
  have plain: "?R = logs_only Q" if "Q = (\<lambda>e. workload_write e \<longrightarrow>
    (\<exists>node s1. leaveNodeName E target s = (Inr node, s1) \<and> own_write E s ms target node e))" for Q
    using that by simp
  have weak: "?R s1 s2" if "logs_only (own_write E s ms target node) s1 s2"
      "leaveNodeName E target s = (Inr node, s0)" for s0 s1 s2 node
    using that by (auto simp: logs_only_def list_all_iff)
  have conn_logs: "guards ?R (connectForLeave E cl ms target)"
    unfolding connectForLeave_def
    by (rule identity_logs(6)) (auto simp: freeze_effect_def split: effect.splits)
  have pass: "?R s1 (snd (leave_pass E cl ms target node s1))"
    if n: "leaveNodeName E target s = (Inr node, s1)" for s1 node
  proof -
    have k: "s_kcp s1 = s_kcp s" using guardsD [OF names_silent(4) n] by (simp add: silent_def)
    obtain c s2 where c: "connectForLeave E cl ms target s1 = (c, s2)"
      by (cases "connectForLeave E cl ms target s1")
    have R: "?R s1 s2" using conn_logs c by (rule guardsD)
    have v: "vouched E s (lc_via conn)" if "c = Inr conn" for conn
      using connectVerified_provider [OF c [unfolded that connectForLeave_def]] k
      by (simp add: vouched_def)
    have "?R s2 (snd (leave_first_request E ms target node c s2))"
      "?R s2 (snd (leave_requested_pass E ms target node c s2))"
      using handshake_own [of c E s ms target node] v weak [OF _ n] by (simp_all add: guards_def)
    then show ?thesis
      unfolding leave_pass_def using R logs.R_refl
      by (auto simp: bindA_def tryA_def c ret_def throw_def intro: logs.R_trans)
  qed
  have "?R s s'"
  proof (cases "frozen (s_kcp s)")
    case True
    then show ?thesis using assms(1)
      by (auto simp: reconcileMemberLeave_def bindA_def refuse_if_frozen_def get_kcp_def getsA_def throw_def
          logs.R_refl)
  next
    case False
    obtain n s1 where n: "leaveNodeName E target s = (n, s1)" by (cases "leaveNodeName E target s")
    have rm: "guards ?R (bindA (removeEtcdLeaveHook E target) (\<lambda>_. ret True))"
      by (intro logs.flow hook_logs) simp_all
    have "s_log s1 = s_log s" using guardsD [OF names_silent(4) n] by (simp add: silent_def)
    then have "?R s s1" by (rule logs_same)
    then show ?thesis
      using assms(1) False n pass [of _ s1] guardsD [OF rm]
      by (cases n)
        (auto simp: reconcileMemberLeave_def bindA_def refuse_if_frozen_def get_kcp_def getsA_def ret_def
          intro: logs.R_trans split: if_splits)
  qed
  then show ?thesis using assms(2,3) by (auto dest: logs_onlyD)
qed

text \<open>
  Before CAPI has drained the node and waits on the hook, and no leave was requested, a
  pass over a k0s Machine has no effect at all: nothing is sent to the workload cluster, no
  stamp is written and the hook stays.
\<close>

theorem no_effect_before_pre_terminate:
  assumes "m_annotations target leave_requested_at = None" and "\<not> machineAtPreTerminate target"
    and "distributionOf (s_kcp s) = ''k0s''"
  shows "s_log (snd (reconcileMemberLeave E cl ms target s)) = s_log s \<and>
    fst (reconcileMemberLeave E cl ms target s) \<noteq> Inr True"
proof -
  obtain n s1 where n: "leaveNodeName E target s = (n, s1)" by (cases "leaveNodeName E target s")
  then have "s_log s1 = s_log s" using guardsD [OF names_silent(4) n] by (simp add: silent_def)
  then show ?thesis
    using assms n
    by (cases n) (auto simp: reconcileMemberLeave_def leave_pass_def bindA_def refuse_if_frozen_def get_kcp_def
        getsA_def ret_def throw_def)
qed


section \<open>Absent reports\<close>

text \<open>
  What "member gone from etcd-status" amounts to: once a leave was requested for a
  registered node, an etcd-status Secret that does not exist, or holds no decodable entry of
  that node, releases the hook at the next pass that reaches the workload cluster, with no
  ack and without the warning that the member may be left behind.
\<close>

theorem absent_report_releases_hook:
  assumes "\<not> frozen (s_kcp s)" and "distributionOf (s_kcp s) = ''k0s''" and "hasEtcdLeaveHook target"
    and "m_node target = Some node" and "m_annotations target leave_requested_at \<noteq> None"
    and "connectForLeave E cl ms target s = (Inr c, s1)" and "lc_cm c node \<noteq> Some left_value"
    and "e_status E (s_tick s1) = Inl NotFound \<or>
      (\<exists>kvs. e_status E (s_tick s1) = Inr kvs \<and> map_of (decode_status E kvs) node = None)"
    and "e_write E (Suc (s_tick s1)) = None"
    and "reconcileMemberLeave E cl ms target s = (r, s')"
  shows "r = Inr True \<and> new_effects s s' = [HookRemoved (m_name target)]"
proof -
  have c: "unfrozen s1" "s_log s1 = s_log s"
    using wpa_result [OF assms(6) [unfolded connectForLeave_def] connectVerified_post]
    by (simp_all add: conn_post_def)
  have start: "reconcileMemberLeave E cl ms target s = leave_requested_pass E ms target node (Inr c) s1"
    using assms(1,2,4,5,6)
    by (auto simp: reconcileMemberLeave_def leave_pass_def leaveNodeName_def registered_def node_name_def
        bindA_def refuse_if_frozen_def get_kcp_def getsA_def ret_def tryA_def)
  have "wpa (leave_requested_pass E ms target node (Inr c))
      (\<lambda>r s'. r = Inr True \<and> s_log s' = s_log s @ [HookRemoved (m_name target)]) s1"
    unfolding leave_requested_pass_def readEtcdStatus_def removeEtcdLeaveHook_def
    using assms(3,4,7,8,9) c
    by (auto simp: wpa_simps registered_def unfrozen_def split: sum.splits)
  then show ?thesis
    using assms(10) start by (simp add: wpa_def)
qed


section \<open>Any number of passes\<close>

text \<open>What an effect does to the Machine on the server.\<close>

fun apply_effect :: "effect \<Rightarrow> machine \<Rightarrow> machine" where
  "apply_effect (MachineAnnotated n kvs) m =
     (if n = m_name m then m\<lparr>m_annotations := upd_all (m_annotations m) kvs\<rparr> else m)"
| "apply_effect (HookRemoved n) m =
     (if n = m_name m then m\<lparr>m_annotations := (m_annotations m)(etcd_leave_hook := None)\<rparr> else m)"
| "apply_effect _ m = m"

text \<open>A run of a leave: passes in any environment, under any control-plane state, and between
  them any change that keeps the Machine's name and annotations (what Cluster API and the
  infrastructure do to it).\<close>

inductive leave_run :: "machine \<Rightarrow> machine \<Rightarrow> bool" for m0 :: machine where
  start: "leave_run m0 m0"
| pass: "leave_run m0 m \<Longrightarrow> reconcileMemberLeave E cl ms m s = (r, s') \<Longrightarrow>
    leave_run m0 (fold apply_effect (new_effects s s') m)"
| outside: "leave_run m0 m \<Longrightarrow> m_name m' = m_name m \<Longrightarrow> m_annotations m' = m_annotations m \<Longrightarrow>
    leave_run m0 m'"

inductive_cases leave_runE: "leave_run m0 m"

text \<open>An effect that adds annotations to the Machine but replaces none.\<close>

definition adds_only :: "machine \<Rightarrow> effect \<Rightarrow> bool" where
  "adds_only m e = (case e of
     MachineAnnotated _ kvs \<Rightarrow> list_all (\<lambda>kv. m_annotations m (fst kv) = None) kvs | _ \<Rightarrow> True)"

lemma adds_only_plain [simp]:
  "adds_only m (KcpPatched kvs rm)" "adds_only m (Event et r)" "adds_only m (HookRemoved mn)"
  "adds_only m (LeaveWritten v n x)" "adds_only m (SpecLeaveSet v n b)"
  by (simp_all add: adds_only_def)

lemma apply_effects_keep:
  assumes "list_all (adds_only m) es" "key \<noteq> etcd_leave_hook" "m_annotations m key = Some v"
  shows "m_annotations t key = Some v \<Longrightarrow> m_annotations (fold apply_effect es t) key = Some v"
  using assms(1)
proof (induction es arbitrary: t)
  case (Cons e es)
  have "m_annotations (apply_effect e t) key = Some v"
  proof (cases e)
    case (MachineAnnotated n kvs)
    then have "key \<notin> fst ` set kvs" using Cons.prems assms(3) by (auto simp: adds_only_def list_all_iff)
    with MachineAnnotated Cons.prems show ?thesis by simp
  qed (use Cons.prems assms(2) in simp_all)
  with Cons show ?case by simp
qed simp

lemma annotate_adds: "guards (logs_only (adds_only m)) (annotateOnce E m kvs)"
  unfolding annotateOnce_def Let_def
  by (intro logs.flow guards_intros logs_writes) (simp add: adds_only_def list_all_iff)

lemma stamp_adds:
  assumes "m_annotations m key = None"
  shows "guards (logs_only (adds_only m)) (stampAnnotationOnce E t key)"
  unfolding stampAnnotationOnce_def annotateOnce_def Let_def
  by (intro logs.flow guards_intros logs_writes) (use assms in \<open>auto simp: adds_only_def list_all_iff\<close>)

lemma leave_adds:
  "guards (logs_only (adds_only m)) (reconcileMemberLeave E cl ms m)"
proof -
  let ?Q = "adds_only m"
  have rm: "guards (logs_only ?Q) (removeEtcdLeaveHook E t)" for t
    unfolding removeEtcdLeaveHook_def
    by (intro logs.flow guards_intros logs_writes silent_rules [THEN silent_logs]) simp
  have ab: "guards (logs_only ?Q) (abandonMemberLeave E t)" for t
    unfolding abandonMemberLeave_def by (intro logs.flow guards_intros logs_writes rm) simp
  have stamp: "guards (logs_only ?Q) (stampAnnotationOnce E m key)" for key
    unfolding stampAnnotationOnce_def by (rule annotate_adds)
  have wait: "guards (logs_only ?Q) (delegate_wait E m e)" "guards (logs_only ?Q) (leaveUnreachable E m e)" for e
    unfolding delegate_wait_def leaveUnreachable_def by (intro logs.flow guards_intros stamp ab)+
  have set_leave: "guards (logs_only ?Q) (delegate_set_leave E via t member)" for via t member
    unfolding delegate_set_leave_def delegate_outcome_def set_spec_leave_def
    by (intro logs.flow guards_intros rm ab logs_writes logs_rules | simp)+
  have delegate: "guards (logs_only ?Q) (delegateMemberLeave E ms m n conn)" for n conn
    unfolding delegateMemberLeave_def delegate_member_def
    by (intro logs.flow guards_intros wait ab set_leave annotate_adds logs_rules)
  have request: "guards (logs_only ?Q) (ensureLeaveRequested E via n force)" for via n force
    unfolding ensureLeaveRequested_def by (intro logs.flow guards_intros logs_rules logs_writes | simp)+
  have inspect: "guards (logs_only ?Q) (inspectUnregisteredLeave E ms m n c)" for n c
    unfolding inspectUnregisteredLeave_def inspect_member_def
    by (intro logs.flow guards_intros rm ab wait annotate_adds logs_rules silent_rules [THEN silent_logs])
  have first: "guards (logs_only ?Q) (leave_first_request E ms m n conn)"
    if "m_annotations m leave_requested_at = None" for n conn
    unfolding leave_first_request_def stampLeaveRequestedAt_def
    by (intro logs.flow guards_intros request inspect wait stamp_adds that)
  have "guards (logs_only ?Q) (leave_requested_pass E ms m n conn)" for n conn
    unfolding leave_requested_pass_def leave_waiting_def
    by (intro logs.flow guards_intros rm request delegate silent_rules [THEN silent_logs])
  moreover have "guards (logs_only ?Q) (connectForLeave E cl ms m)"
    unfolding connectForLeave_def
    by (rule identity_logs(6)) (auto simp: freeze_effect_def adds_only_def split: effect.splits)
  ultimately have "guards (logs_only ?Q) (leave_pass E cl ms m n)" for n
    unfolding leave_pass_def using first logs.throw_guards
    by (auto intro!: logs.bind_guards logs.try_guards logs.ret_guards)
  then show ?thesis
    unfolding reconcileMemberLeave_def
    by (intro logs.flow guards_intros rm logs_rules silent_rules [THEN silent_logs])
qed

text \<open>
  Along any number of passes, under any answers of the servers and any changes by others
  that keep the annotations, the stamps of a leave (when it was requested, since when the
  cluster is unreachable, when it was delegated, which member ID it is about) are written
  once: a deadline is never pushed back and the member is never swapped.
\<close>

theorem leave_stamps_written_once:
  assumes "leave_run m0 m" and "m_annotations m0 key = Some v"
    and "key \<in> {leave_requested_at, leave_unreachable_since, member_leave_requested_at, member_leave_member_id}"
  shows "m_annotations m key = Some v"
  using assms(1)
proof induction
  case start
  show ?case by (rule assms(2))
next
  case (pass m E cl ms s r s')
  have "key \<noteq> etcd_leave_hook" using assms(3) by (auto simp: leave_keys)
  moreover have "list_all (adds_only m) (new_effects s s')"
    using guardsD [OF leave_adds pass.hyps(2)] by (auto simp: logs_only_def)
  ultimately show ?case using pass.IH by (intro apply_effects_keep)
next
  case (outside m m')
  then show ?case by simp
qed

end
