(* ===== verification/Etcd_Orphans.thy ===== *)
theory Etcd_Orphans
  imports Leave_Protocol
begin

text \<open>
  Removing k0s etcd members that no control-plane Machine accounts for:
  \<open>ha_etcd_orphans.go\<close>.

  A removal is recorded in an annotation of the KairosControlPlane before k0s is asked for
  it, and followed until k0s reports the member gone, the EtcdMember describes another
  member, or a cap passes; it holds every other membership change meanwhile. A result
  \<open>(Result, hold)\<close> is a pair of an optional requeue delay and the hold.

  \<open>IsDNS1123Subdomain\<close> of apimachinery is the parameter \<open>e_subdomain_errors\<close>. A Go map
  used as a set of names is a list of names.
\<close>

type_synonym hold_result = "duration option \<times> bool"

definition orphan_leave_ann :: string where
  "orphan_leave_ann = ''controlplane.cluster.x-k8s.io/etcd-orphan-member-leave''"

definition orphan_check_interval :: duration where "orphan_check_interval = minutes 1"

definition orphan_clock_skew :: duration where "orphan_clock_skew = minutes 5"

lemma orphan_ann_differs [simp]: "orphan_leave_ann \<noteq> mismatch_ann" "mismatch_ann \<noteq> orphan_leave_ann"
  "orphan_leave_ann \<noteq> workload_uid_ann" "workload_uid_ann \<noteq> orphan_leave_ann"
  by (simp_all add: orphan_leave_ann_def mismatch_ann_def workload_uid_ann_def)


section \<open>The record of a removal\<close>

record orphan_leave =
  ol_name :: string
  ol_member_id :: string
  ol_at :: time

definition orphan_leave_string :: "orphan_leave \<Rightarrow> string" where
  "orphan_leave_string rec =
     ol_name rec @ '' '' @ ol_member_id rec @ '' '' @ format_rfc3339 (ol_at rec)"

definition validEtcdMemberName :: "env \<Rightarrow> string \<Rightarrow> bool" where
  "validEtcdMemberName E name \<longleftrightarrow> e_subdomain_errors E name = []"

definition parseOrphanLeave :: "env \<Rightarrow> string \<Rightarrow> orphan_leave option" where
  "parseOrphanLeave E v =
     (case Kairos_Prelude.fields v of
        [name, ident, stamp] \<Rightarrow>
          if \<not> validEtcdMemberName E name then None
          else if canonicalMemberID ident \<noteq> Some ident then None
          else (case parse_rfc3339 stamp of
            None \<Rightarrow> None
          | Some at \<Rightarrow>
              if at > e_now E + orphan_clock_skew then None
              else Some \<lparr>ol_name = name, ol_member_id = ident, ol_at = at\<rparr>)
      | _ \<Rightarrow> None)"


section \<open>The check clock\<close>

definition orphanCheckDue :: "env \<Rightarrow> bool op" where
  "orphanCheckDue E = getsA (\<lambda>s. case s_orphan_checked s of
     None \<Rightarrow> True | Some at \<Rightarrow> e_now E - at \<ge> orphan_check_interval)"

definition forgetOrphanCheck :: "unit op" where
  "forgetOrphanCheck = modA (\<lambda>s. s\<lparr>s_orphan_checked := None\<rparr>)"

definition markOrphanChecked :: "env \<Rightarrow> unit op" where
  "markOrphanChecked E = modA (\<lambda>s. s\<lparr>s_orphan_checked := Some (e_now E)\<rparr>)"


section \<open>Which members are accounted for\<close>

definition orphanCleanupBlocked :: "kcp \<Rightarrow> machine list \<Rightarrow> machine list \<Rightarrow> int \<Rightarrow> string" where
  "orphanCleanupBlocked k owned all desired =
     (if k_deletion k \<noteq> None then ''the control plane is being deleted''
      else if wrap32 (int (length owned)) \<noteq> desired then ''scaling''
      else if list_ex (\<lambda>m. m_version m = [] \<or> m_version m \<noteq> k_version k) owned then ''rolling out''
      else case find (\<lambda>m. deleting m \<or> \<not> registered m) all of
        None \<Rightarrow> []
      | Some m \<Rightarrow>
          if deleting m then ''Machine is being deleted'' else ''Machine has not registered a Node'')"

definition clusterControlPlaneMachines :: "env \<Rightarrow> machine list op" where
  "clusterControlPlaneMachines E = bindA (read_api (e_machines E)) (\<lambda>ms. ret (sort_key m_name ms))"

definition etcdMemberPeerIP :: "etcd_member \<Rightarrow> string" where
  "etcdMemberPeerIP member =
     (let peer = (case split_host (em_peer member) of Some host \<Rightarrow> host | None \<Rightarrow> em_peer member) in
      case parse_ip peer of None \<Rightarrow> [] | Some a \<Rightarrow> ip_to_string a)"

text \<open>The first loop: the names of the members used up, and of the Machines matched, by
  Node name.\<close>

fun match_by_name :: "etcd_member list \<Rightarrow> machine list \<Rightarrow> string list \<times> string list \<Rightarrow> string list \<times> string list" where
  "match_by_name joined [] acc = acc"
| "match_by_name joined (m # ms) (used, matched) =
     (if registered m \<and> node_name m \<in> em_name ` set joined \<and> node_name m \<notin> set used
      then match_by_name joined ms (node_name m # used, m_name m # matched)
      else match_by_name joined ms (used, matched))"

text \<open>The second loop: for the Machines left, a member by a peer address they report.\<close>

fun match_by_address :: "etcd_member list \<Rightarrow> string list \<Rightarrow> machine list \<Rightarrow> string list \<Rightarrow> string list" where
  "match_by_address joined matched [] used = []"
| "match_by_address joined matched (m # ms) used =
     (if m_name m \<in> set matched then match_by_address joined matched ms used
      else case find (\<lambda>member. em_name member \<notin> set used \<and> etcdMemberPeerIP member \<noteq> [] \<and>
               etcdMemberPeerIP member \<in> set (address_keys m)) joined of
             Some member \<Rightarrow> match_by_address joined matched ms (em_name member # used)
           | None \<Rightarrow> m_name m # match_by_address joined matched ms used)"

definition unmatchedMachines :: "machine list \<Rightarrow> etcd_member list \<Rightarrow> string list" where
  "unmatchedMachines ms joined =
     (case match_by_name joined ms ([], []) of
        (used, matched) \<Rightarrow> match_by_address joined matched ms used)"

record expected_members =
  ex_names :: "string list"
  ex_addrs :: "string list"

definition expected_has :: "expected_members \<Rightarrow> etcd_member \<Rightarrow> bool" where
  "expected_has ex member =
     (if em_name member \<in> set (ex_names ex) then True
      else if etcdMemberPeerIP member \<noteq> [] then etcdMemberPeerIP member \<in> set (ex_addrs ex)
      else False)"

fun expectedEtcdMembers :: "env \<Rightarrow> machine list \<Rightarrow> expected_members op" where
  "expectedEtcdMembers E [] = ret \<lparr>ex_names = [], ex_addrs = []\<rparr>"
| "expectedEtcdMembers E (m # ms) =
     bindA (renderedNodeName E m) (\<lambda>rendered.
     bindA (expectedEtcdMembers E ms) (\<lambda>ex.
     ret \<lparr>ex_names = rendered # (if registered m then node_name m # ex_names ex else ex_names ex),
          ex_addrs = address_keys m @ ex_addrs ex\<rparr>))"

definition joined_members :: "etcd_member list \<Rightarrow> etcd_member list" where
  "joined_members members = filter (\<lambda>member. etcdMemberJoinedStatus member \<noteq> not_joined) members"

definition listJoinedEtcdMembers :: "env \<Rightarrow> string \<Rightarrow> etcd_member list op" where
  "listJoinedEtcdMembers E via =
     bindA (read_api (\<lambda>n. e_members E n via)) (\<lambda>members. ret (joined_members members))"

definition deletingMachine :: "machine list \<Rightarrow> string" where
  "deletingMachine ms = (case find deleting ms of None \<Rightarrow> [] | Some m \<Rightarrow> m_name m)"

definition healthyVotingMembers ::
    "etcd_member list \<Rightarrow> etcd_member \<Rightarrow> machine list \<Rightarrow> (string \<times> etcd_status) list \<Rightarrow> int" where
  "healthyVotingMembers joined removing ms status =
     int (length (filter (\<lambda>member.
       em_name member \<noteq> em_name removing \<and>
       em_name member \<in> node_name ` set (filter registered ms) \<and>
       (case map_of status (em_name member) of
          None \<Rightarrow> False | Some es \<Rightarrow> es_healthy es \<and> es_voting es)) joined))"

text \<open>The quorum that must be left: a majority of the members left and of the desired
  replicas.\<close>

definition orphan_quorum :: "etcd_member list \<Rightarrow> int \<Rightarrow> int" where
  "orphan_quorum joined desired =
     max (go_div (int (length joined) - 1) 2 + 1) (go_div desired 2 + 1)"

definition orphanRemovalBlocked ::
    "env \<Rightarrow> machine list \<Rightarrow> etcd_member list \<Rightarrow> etcd_member \<Rightarrow> (string \<times> etcd_status) list \<Rightarrow> int \<Rightarrow> bool op" where
  "orphanRemovalBlocked E ms joined target status desired =
     (if unmatchedMachines ms joined \<noteq> []
      then bindA (event E Warning ''EtcdOrphanMemberRemovalBlocked'') (\<lambda>_. ret True)
      else if healthyVotingMembers joined target ms status < orphan_quorum joined desired
      then bindA (event E Warning ''EtcdOrphanMemberRemovalBlocked'') (\<lambda>_. ret True)
      else ret False)"

definition setEtcdMemberLeave :: "env \<Rightarrow> string \<Rightarrow> etcd_member \<Rightarrow> bool \<Rightarrow> unit op" where
  "setEtcdMemberLeave E via member leave =
     workload_write_via E via (SpecLeaveSet via (em_name member) leave)"


section \<open>Starting a removal\<close>

definition orphan_wait :: hold_result where "orphan_wait = (Some joiner_gate_requeue, True)"

definition orphan_done :: hold_result where "orphan_done = (None, False)"

definition every_member_reports :: "machine list \<Rightarrow> (string \<times> etcd_status) list \<Rightarrow> bool" where
  "every_member_reports ms status = list_all (\<lambda>m.
     case map_of status (node_name m) of
       None \<Rightarrow> False | Some es \<Rightarrow> es_healthy es \<and> es_voting es) ms"

text \<open>The first orphan by name, among those with a valid name and a member ID.\<close>

definition choose_orphan :: "env \<Rightarrow> etcd_member list \<Rightarrow> (etcd_member \<times> string) option" where
  "choose_orphan E orphans =
     (case find (\<lambda>member. validEtcdMemberName E (em_name member) \<and> etcdMemberID member \<noteq> None)
             (sort_key em_name orphans) of
        None \<Rightarrow> None
      | Some member \<Rightarrow> (case etcdMemberID member of None \<Rightarrow> None | Some ident \<Rightarrow> Some (member, ident)))"

definition start_orphan_removal :: "env \<Rightarrow> string \<Rightarrow> etcd_member \<Rightarrow> string \<Rightarrow> hold_result op" where
  "start_orphan_removal E via target targetID =
     (let rec = \<lparr>ol_name = em_name target, ol_member_id = targetID, ol_at = e_now E\<rparr> in
      bindA (tryA (patchKCPAnnotations E [(orphan_leave_ann, orphan_leave_string rec)] [])) (\<lambda>r.
      case r of
        Inl e \<Rightarrow>
          bindA forgetOrphanCheck (\<lambda>_.
          if e = Api Conflict then ret (Some (seconds 1), True) else throw e)
      | Inr _ \<Rightarrow>
          bindA (tryA (setEtcdMemberLeave E via target True)) (\<lambda>w.
          case w of
            Inl _ \<Rightarrow> ret orphan_wait
          | Inr _ \<Rightarrow> bindA (event E Normal ''EtcdOrphanMemberLeaveRequested'') (\<lambda>_. ret orphan_wait))))"

definition remove_listed_orphan ::
    "env \<Rightarrow> string \<Rightarrow> machine list \<Rightarrow> etcd_member list \<Rightarrow> (string \<times> etcd_status) list \<Rightarrow> int \<Rightarrow> hold_result op" where
  "remove_listed_orphan E via ms members status desired =
     bindA (markOrphanChecked E) (\<lambda>_.
     bindA (expectedEtcdMembers E ms) (\<lambda>ex.
     let joined = joined_members members in
     case choose_orphan E (filter (\<lambda>member. \<not> expected_has ex member) joined) of
       None \<Rightarrow> ret orphan_done
     | Some (target, targetID) \<Rightarrow>
         bindA (orphanRemovalBlocked E ms joined target status desired) (\<lambda>blocked.
         if blocked then ret orphan_done else start_orphan_removal E via target targetID)))"

definition removeOneOrphan :: "env \<Rightarrow> cluster \<Rightarrow> machine list \<Rightarrow> int \<Rightarrow> hold_result op" where
  "removeOneOrphan E cl ms desired =
     bindA (readEtcdStatus E) (\<lambda>status.
     if \<not> every_member_reports ms status then ret orphan_done
     else bindA (tryA (connectForOrphans E cl ms)) (\<lambda>conn.
       case conn of
         Inl e \<Rightarrow> if e = IdentityChanged then throw e else ret orphan_done
       | Inr c \<Rightarrow>
           bindA (tryA (read_api (\<lambda>n. e_members E n (lc_via c)))) (\<lambda>r.
           case r of
             Inl e \<Rightarrow>
               if e = Api NoMatch then bindA (markOrphanChecked E) (\<lambda>_. ret orphan_done)
               else ret orphan_done
           | Inr members \<Rightarrow> remove_listed_orphan E (lc_via c) ms members status desired)))"


section \<open>Following a removal\<close>

definition finish_orphan :: "env \<Rightarrow> event_type \<Rightarrow> string \<Rightarrow> hold_result op" where
  "finish_orphan E et reason =
     bindA (tryA (patchKCPAnnotations E [] [orphan_leave_ann])) (\<lambda>r.
     case r of
       Inl e \<Rightarrow> if e = Api Conflict then ret orphan_wait else throw e
     | Inr _ \<Rightarrow> bindA (event E et reason) (\<lambda>_. ret orphan_done))"

definition orphan_capped :: "env \<Rightarrow> orphan_leave \<Rightarrow> bool" where
  "orphan_capped E rec \<longleftrightarrow> e_now E - ol_at rec > member_leave_cap"

definition orphan_timed_out :: "env \<Rightarrow> hold_result op" where
  "orphan_timed_out E = finish_orphan E Warning ''EtcdOrphanMemberRemovalTimedOut''"

abbreviation wait_or_time_out :: "env \<Rightarrow> orphan_leave \<Rightarrow> hold_result op" where
  "wait_or_time_out E rec \<equiv> (if orphan_capped E rec then orphan_timed_out E else ret orphan_wait)"

text \<open>The first \<open>spec.leave\<close> of a recorded removal, after checking again what a first
  request checks.\<close>

definition request_recorded_orphan ::
    "env \<Rightarrow> string \<Rightarrow> machine list \<Rightarrow> int \<Rightarrow> orphan_leave \<Rightarrow> etcd_member \<Rightarrow> hold_result op" where
  "request_recorded_orphan E via ms desired rec member =
     bindA (tryA (listJoinedEtcdMembers E via)) (\<lambda>lr.
     bindA (tryA (readEtcdStatus E)) (\<lambda>sr.
     if deletingMachine ms \<noteq> [] then wait_or_time_out E rec
     else case lr of
       Inl _ \<Rightarrow> wait_or_time_out E rec
     | Inr joined \<Rightarrow>
         (case sr of
            Inl _ \<Rightarrow> wait_or_time_out E rec
          | Inr status \<Rightarrow>
              bindA (orphanRemovalBlocked E ms joined member status desired) (\<lambda>blocked.
              if blocked then wait_or_time_out E rec
              else bindA (tryA (setEtcdMemberLeave E via member True)) (\<lambda>_. wait_or_time_out E rec)))))"

definition take_back_orphan :: "env \<Rightarrow> string \<Rightarrow> etcd_member \<Rightarrow> hold_result op" where
  "take_back_orphan E via member =
     bindA (tryA (setEtcdMemberLeave E via member False)) (\<lambda>w.
     case w of
       Inl _ \<Rightarrow> ret orphan_wait
     | Inr _ \<Rightarrow> finish_orphan E Warning ''EtcdOrphanMemberChanged'')"

definition follow_orphan_member ::
    "env \<Rightarrow> string \<Rightarrow> machine list \<Rightarrow> int \<Rightarrow> orphan_leave \<Rightarrow> etcd_member \<Rightarrow> hold_result op" where
  "follow_orphan_member E via ms desired rec member =
     (if etcdMemberID member \<noteq> Some (ol_member_id rec)
      then finish_orphan E Warning ''EtcdOrphanMemberChanged''
      else if etcdMemberJoinedStatus member = not_joined
      then finish_orphan E Normal ''EtcdOrphanMemberRemoved''
      else bindA (expectedEtcdMembers E ms) (\<lambda>ex.
        if expected_has ex member then take_back_orphan E via member
        else if \<not> em_leave member then request_recorded_orphan E via ms desired rec member
        else wait_or_time_out E rec))"

definition progressOrphanLeave ::
    "env \<Rightarrow> cluster \<Rightarrow> machine list \<Rightarrow> int \<Rightarrow> orphan_leave \<Rightarrow> hold_result op" where
  "progressOrphanLeave E cl ms desired rec =
     bindA (tryA (connectForOrphans E cl ms)) (\<lambda>conn.
     case conn of
       Inl e \<Rightarrow> if e = IdentityChanged then throw e else wait_or_time_out E rec
     | Inr c \<Rightarrow>
         bindA (tryA (read_api (\<lambda>n. e_member E n (lc_via c) (ol_name rec)))) (\<lambda>r.
         case r of
           Inl e \<Rightarrow>
             if e = Api NotFound then finish_orphan E Normal ''EtcdOrphanMemberRemoved''
             else if e = Api NoMatch then finish_orphan E Warning ''EtcdOrphanMemberRemovalTimedOut''
             else wait_or_time_out E rec
         | Inr member \<Rightarrow> follow_orphan_member E (lc_via c) ms desired rec member))"

text \<open>The two halves of \<open>reconcileOrphanEtcdMembers\<close> once the cluster's Machines are known.\<close>

definition orphan_recorded :: "env \<Rightarrow> cluster \<Rightarrow> machine list \<Rightarrow> int \<Rightarrow> string \<Rightarrow> hold_result op" where
  "orphan_recorded E cl all desired raw =
     (case parseOrphanLeave E raw of
        None \<Rightarrow> bindA (patchKCPAnnotations E [] [orphan_leave_ann]) (\<lambda>_. ret orphan_done)
      | Some rec \<Rightarrow> progressOrphanLeave E cl all desired rec)"

definition orphan_search :: "env \<Rightarrow> cluster \<Rightarrow> kcp \<Rightarrow> machine list \<Rightarrow> machine list \<Rightarrow> int \<Rightarrow> hold_result op" where
  "orphan_search E cl k ms all desired =
     (if orphanCleanupBlocked k ms all desired \<noteq> [] then ret orphan_done
      else bindA (orphanCheckDue E) (\<lambda>due.
        if \<not> due then ret orphan_done else removeOneOrphan E cl all desired))"

definition reconcileOrphanEtcdMembers :: "env \<Rightarrow> cluster \<Rightarrow> machine list \<Rightarrow> int \<Rightarrow> hold_result op" where
  "reconcileOrphanEtcdMembers E cl ms desired =
     bindA get_kcp (\<lambda>k.
     let recorded = k_annotations k orphan_leave_ann in
     if recorded = None \<and> (distributionOf k \<noteq> ''k0s'' \<or> desired \<le> 1) then ret orphan_done
     else bindA refuse_if_frozen (\<lambda>_.
       bindA (clusterControlPlaneMachines E) (\<lambda>all.
       case recorded of
         Some raw \<Rightarrow> orphan_recorded E cl all desired raw
       | None \<Rightarrow> orphan_search E cl k ms all desired)))"


section \<open>The freeze\<close>

text \<open>Patching the record leaves the freeze as it is, so it does not close the gate.\<close>

definition same_freeze :: "st \<Rightarrow> st \<Rightarrow> bool" where
  "same_freeze s s' \<longleftrightarrow> frozen (s_kcp s') = frozen (s_kcp s)"

interpretation sfrz: gated freeze_ok unfrozen same_freeze
  by unfold_locales (auto simp: same_freeze_def unfrozen_def)

interpretation steady: guarantee same_freeze
  by unfold_locales (auto simp: same_freeze_def)

lemma quiet_steady: "guards same_annotations m \<Longrightarrow> guards same_freeze m"
  by (simp add: guards_def same_annotations_def same_freeze_def frozen_def)

lemma patch_steady:
  "mismatch_ann \<notin> fst ` set kvs \<Longrightarrow> mismatch_ann \<notin> set rm \<Longrightarrow> guards same_freeze (patchKCPAnnotations E kvs rm)"
  unfolding guards_wpa wpa_simps
  by (auto simp: same_freeze_def frozen_after_patch split: option.splits)

lemma orphan_clock_silent_free [freeze_rules]:
  "guards freeze_ok (markOrphanChecked E)" "guards freeze_ok forgetOrphanCheck" "guards freeze_ok (orphanCheckDue E)"
  by (simp_all add: markOrphanChecked_def forgetOrphanCheck_def orphanCheckDue_def mod_freeze frz.gets_guards)

lemma orphan_clock_quiet [quiet_rules]:
  "guards same_annotations (markOrphanChecked E)" "guards same_annotations forgetOrphanCheck"
  "guards same_annotations (orphanCheckDue E)" "guards same_annotations (setEtcdMemberLeave E via m b)"
  by (simp_all add: markOrphanChecked_def forgetOrphanCheck_def orphanCheckDue_def setEtcdMemberLeave_def
      mod_quiet quiet.gets_guards quiet_rules)

lemma expected_silent [silent_rules]: "guards silent (expectedEtcdMembers E ms)"
  by (induction ms) (auto intro!: silent.flow silent_rules)

lemma orphan_reads_silent [silent_rules]:
  "guards silent (clusterControlPlaneMachines E)" "guards silent (listJoinedEtcdMembers E via)"
  unfolding clusterControlPlaneMachines_def listJoinedEtcdMembers_def
  by (intro silent.flow silent_rules)+

lemma orphanBlocked_rules [freeze_rules]: "guards freeze_ok (orphanRemovalBlocked E ms joined t status desired)"
  unfolding orphanRemovalBlocked_def by (intro frz.flow guards_intros freeze_rules)

lemma orphanBlocked_quiet [quiet_rules]: "guards same_annotations (orphanRemovalBlocked E ms joined t status desired)"
  unfolding orphanRemovalBlocked_def by (intro quiet.flow guards_intros quiet_rules)

lemma finish_freeze [freeze_rules]:
  "guards freeze_ok (finish_orphan E et reason)" "guards freeze_ok (orphan_timed_out E)"
  unfolding orphan_timed_out_def finish_orphan_def by (intro frz.flow guards_intros freeze_rules)+

lemma finish_steady:
  "guards same_freeze (finish_orphan E et reason)" "guards same_freeze (orphan_timed_out E)"
  unfolding orphan_timed_out_def finish_orphan_def
  by (intro steady.flow guards_intros patch_steady quiet_rules [THEN quiet_steady] | simp)+

lemma setLeave_open [open_rules]: "guards_from unfrozen freeze_ok (setEtcdMemberLeave E via m b)"
  unfolding setEtcdMemberLeave_def by (rule workload_write_unfrozen) simp

lemma start_open [open_rules]: "guards_from unfrozen freeze_ok (start_orphan_removal E via t i)"
  unfolding start_orphan_removal_def Let_def
  by (intro sfrz.open_flow guards_intros open_rules freeze_rules [THEN guards_from_weaken]
      steady.flow patch_steady quiet_rules [THEN quiet_steady] | simp)+

lemma orphan_steps_open [open_rules]:
  "guards_from unfrozen freeze_ok (take_back_orphan E via m)"
  "guards_from unfrozen freeze_ok (request_recorded_orphan E via ms desired rec m)"
  "guards_from unfrozen freeze_ok (remove_listed_orphan E via ms members status desired)"
  unfolding take_back_orphan_def request_recorded_orphan_def remove_listed_orphan_def Let_def
  by (intro frz.open_flow guards_intros guards_from_if open_rules freeze_rules [THEN guards_from_weaken]
      silent_rules [THEN silent_freeze, THEN guards_from_weaken] quiet.flow quiet_rules
      silent_rules [THEN silent_quiet] | (split prod.split, intro allI impI))+

lemma follow_open [open_rules]:
  "guards_from unfrozen freeze_ok (follow_orphan_member E via ms desired rec m)"
  unfolding follow_orphan_member_def
  by (intro frz.open_flow guards_intros open_rules freeze_rules [THEN guards_from_weaken]
      silent_rules [THEN silent_freeze, THEN guards_from_weaken] silent_rules [THEN silent_quiet])

text \<open>A connection that was found leaves the gate open; one that was not leads nowhere that
  needs it open.\<close>

lemma orphan_connect_then:
  assumes "\<And>e. guards freeze_ok (f (Inl e))" "\<And>c. guards_from unfrozen freeze_ok (f (Inr c))"
  shows "guards freeze_ok (bindA (tryA (connectForOrphans E cl ms)) f)"
  unfolding guards_def
proof
  fix s :: st
  obtain r s1 where c: "connectForOrphans E cl ms s = (r, s1)" by (cases "connectForOrphans E cl ms s")
  have R1: "freeze_ok s s1" using guardsD [OF connect_freeze(5) c] .
  have "freeze_ok s1 (snd (f r s1))"
    using assms orphan_provider.handed_out [of E cl ms s _ s1] c
    by (cases r) (auto simp: guards_def guards_from_def)
  with R1 show "freeze_ok s (snd (bindA (tryA (connectForOrphans E cl ms)) f s))"
    by (auto simp: bindA_def tryA_def c intro: frz.R_trans)
qed

lemma progress_freeze [freeze_rules]: "guards freeze_ok (progressOrphanLeave E cl ms desired rec)"
  unfolding progressOrphanLeave_def
  by (rule orphan_connect_then; simp only: sum.case)
    (intro frz.flow guards_intros frz.open_flow open_rules freeze_rules freeze_rules [THEN guards_from_weaken]
      quiet.flow quiet_rules)+

lemma removeOne_freeze [freeze_rules]: "guards freeze_ok (removeOneOrphan E cl ms desired)"
  unfolding removeOneOrphan_def
  by (intro frz.bind_guards guards_if frz.ret_guards silent_rules [THEN silent_freeze] orphan_connect_then;
      simp only: sum.case)
    (intro frz.flow guards_intros frz.open_flow open_rules freeze_rules freeze_rules [THEN guards_from_weaken]
      quiet.flow quiet_rules)+

lemma reconcileOrphan_freeze [freeze_rules]: "guards freeze_ok (reconcileOrphanEtcdMembers E cl ms desired)"
  unfolding reconcileOrphanEtcdMembers_def orphan_recorded_def orphan_search_def Let_def
  by (intro frz.flow guards_intros freeze_rules silent_rules [THEN silent_freeze])

lemma orphan_pin [pin_rules]:
  "guards pin_kept (orphanRemovalBlocked E ms joined t status desired)"
  "guards pin_kept (finish_orphan E et reason)" "guards pin_kept (orphan_timed_out E)"
  "guards pin_kept (start_orphan_removal E via m i)"
  "guards pin_kept (take_back_orphan E via m)"
  "guards pin_kept (request_recorded_orphan E via ms desired rec m)"
  "guards pin_kept (remove_listed_orphan E via ms members status desired)"
  "guards pin_kept (follow_orphan_member E via ms desired rec m)"
  "guards pin_kept (progressOrphanLeave E cl ms desired rec)"
  "guards pin_kept (removeOneOrphan E cl ms desired)"
  "guards pin_kept (reconcileOrphanEtcdMembers E cl ms desired)"
  unfolding orphanRemovalBlocked_def orphan_timed_out_def finish_orphan_def start_orphan_removal_def Let_def
    take_back_orphan_def request_recorded_orphan_def remove_listed_orphan_def follow_orphan_member_def
    progressOrphanLeave_def removeOneOrphan_def reconcileOrphanEtcdMembers_def orphan_recorded_def
    orphan_search_def
  by (intro pinned.flow guards_intros pin_rules quiet_rules [THEN quiet_pin]
      silent_rules [THEN silent_quiet, THEN quiet_pin] | (split prod.split, intro allI impI) | simp)+


section \<open>The two check clocks\<close>

text \<open>
  One interface for the rate limits of the identity and of the orphan checks: after a mark,
  the next check is due when the interval has passed and not before; after a forget, at
  once. (Two environments stand for two passes.)
\<close>

locale check_clock =
  fixes due :: "env \<Rightarrow> bool op" and mark :: "env \<Rightarrow> unit op" and forget :: "unit op"
    and interval :: duration
  assumes due_after_mark: "fst (due E' (snd (mark E s))) = Inr (e_now E' - e_now E \<ge> interval)"
    and due_after_forget: "fst (due E (snd (forget s))) = Inr True"
    and due_reads: "snd (due E s) = s"
begin

lemma not_due_within: "e_now E' < e_now E + interval \<Longrightarrow> fst (due E' (snd (mark E s))) = Inr False"
  by (simp add: due_after_mark)

lemma due_at_latest: "e_now E' \<ge> e_now E + interval \<Longrightarrow> fst (due E' (snd (mark E s))) = Inr True"
  by (simp add: due_after_mark)

end

interpretation identity_clock: check_clock identityRecheckDue markIdentityChecked forgetIdentityCheck recheck_interval
  by unfold_locales
    (simp_all add: identityRecheckDue_def markIdentityChecked_def forgetIdentityCheck_def getsA_def modA_def)

interpretation orphan_clock: check_clock orphanCheckDue markOrphanChecked forgetOrphanCheck orphan_check_interval
  by unfold_locales
    (simp_all add: orphanCheckDue_def markOrphanChecked_def forgetOrphanCheck_def getsA_def modA_def)


section \<open>Properties\<close>

lemma format_rfc3339_word: "format_rfc3339 t \<noteq> [] \<and> (\<forall>c\<in>set (format_rfc3339 t). \<not> is_space c)"
proof
  show "format_rfc3339 t \<noteq> []" by (simp add: format_rfc3339_def Let_def pad4_def split: prod.splits)
  show "\<forall>c\<in>set (format_rfc3339 t). \<not> is_space c"
    using format_rfc3339_chars [of t]
    by (auto simp: list_all_iff is_space_def is_digit_def less_eq_char_def)
qed

lemma member_id_word:
  assumes "canonicalMemberID i = Some i"
  shows "i \<noteq> [] \<and> (\<forall>c\<in>set i. \<not> is_space c)"
proof -
  have "list_all is_hex_lower i" "i \<noteq> []"
    using assms format_hex_chars by (auto simp: canonicalMemberID_def split: option.splits if_splits)
  then show ?thesis
    by (auto simp: list_all_iff is_hex_lower_def is_space_def is_digit_def less_eq_char_def)
qed

lemma name_word:
  "list_all (\<lambda>c. is_lower c \<or> is_digit c \<or> c = CHR ''-'' \<or> c = CHR ''.'') n \<Longrightarrow> \<forall>c\<in>set n. \<not> is_space c"
  by (auto simp: list_all_iff is_space_def char_class_defs less_eq_char_def)

text \<open>
  The record of an orphan removal is read back as it was written, its instant cut to
  seconds, for every member name the API server accepts and every canonical member ID. The
  assumption on \<open>IsDNS1123Subdomain\<close> is its documented rule: a valid name is not empty and
  holds lower-case letters, digits, hyphens and dots only.
\<close>

theorem orphan_record_roundtrip:
  assumes "\<And>n. e_subdomain_errors E n = [] \<Longrightarrow>
      n \<noteq> [] \<and> list_all (\<lambda>c. is_lower c \<or> is_digit c \<or> c = CHR ''-'' \<or> c = CHR ''.'') n"
    and "validEtcdMemberName E (ol_name rec)"
    and "canonicalMemberID (ol_member_id rec) = Some (ol_member_id rec)"
    and "0 \<le> ol_at rec" "ol_at rec < int (days_before_year 10000) * 86400 * ns_per_s"
    and "ol_at rec \<le> e_now E + orphan_clock_skew"
  shows "parseOrphanLeave E (orphan_leave_string rec) = Some (rec\<lparr>ol_at := trunc_s (ol_at rec)\<rparr>)"
proof -
  note stamp = format_rfc3339_word [of "ol_at rec"] and ident = member_id_word [OF assms(3)]
  have name: "ol_name rec \<noteq> []" "\<forall>c\<in>set (ol_name rec). \<not> is_space c"
    using assms(1,2) name_word by (auto simp: validEtcdMemberName_def)
  have "Kairos_Prelude.fields (orphan_leave_string rec) =
      [ol_name rec, ol_member_id rec, format_rfc3339 (ol_at rec)]"
    unfolding orphan_leave_string_def using name ident stamp
    by (simp add: fields_cons fields_single)
  moreover have "parse_rfc3339 (format_rfc3339 (ol_at rec)) = Some (trunc_s (ol_at rec))"
    using parse_format_rfc3339 assms(4,5) by blast
  moreover have "trunc_s (ol_at rec) \<le> e_now E + orphan_clock_skew"
    using trunc_s_bounds [of "ol_at rec"] assms(6) by simp
  ultimately show ?thesis
    using assms(2,3) by (simp add: parseOrphanLeave_def)
qed

text \<open>What a pass under a recorded removal may return.\<close>

definition held_or_cleared :: "err + hold_result \<Rightarrow> st \<Rightarrow> bool" where
  "held_or_cleared r s' \<longleftrightarrow>
     (case r of Inl _ \<Rightarrow> True
      | Inr (_, hold) \<Rightarrow> hold \<or> k_annotations (s_kcp s') orphan_leave_ann = None)"

lemma wpa_any: "(\<And>r s'. Q r s') \<Longrightarrow> wpa m Q s"
  by (simp add: wpa_def case_prod_beta)

lemma finish_held: "wpa (finish_orphan E et reason) held_or_cleared s"
  unfolding finish_orphan_def
  by (auto simp: wpa_simps held_or_cleared_def orphan_wait_def orphan_done_def split: option.splits)

lemma wait_held:
  "wpa (orphan_timed_out E) held_or_cleared s" "wpa (ret orphan_wait) held_or_cleared s"
  using finish_held by (simp_all add: orphan_timed_out_def wpa_simps held_or_cleared_def orphan_wait_def)

lemma bind_held:
  assumes "\<And>x s. wpa (f x) held_or_cleared s"
  shows "wpa (bindA m f) held_or_cleared s"
  unfolding wpa_bind by (rule wpa_any) (use assms in \<open>auto simp: held_or_cleared_def split: sum.split\<close>)

lemma progress_held: "wpa (progressOrphanLeave E cl ms desired rec) held_or_cleared s"
proof -
  have request: "wpa (request_recorded_orphan E via ms desired rec member) held_or_cleared s" for via member s
    unfolding request_recorded_orphan_def
    by (auto intro!: bind_held wait_held split: sum.split)
  have take: "wpa (take_back_orphan E via member) held_or_cleared s" for via member s
    unfolding take_back_orphan_def
    by (auto intro!: bind_held finish_held split: sum.split simp: wpa_ret held_or_cleared_def orphan_wait_def)
  have follow: "wpa (follow_orphan_member E via ms desired rec member) held_or_cleared s" for via member s
    unfolding follow_orphan_member_def
    by (auto intro!: bind_held finish_held request take wait_held)
  show ?thesis
    unfolding progressOrphanLeave_def
    by (auto intro!: bind_held finish_held follow wait_held split: sum.split
        simp: wpa_throw held_or_cleared_def [of "Inl _"])
qed

text \<open>
  While a removal is recorded, a pass over the orphans either holds every other
  membership change, fails, or has taken the record off; it never lets the pass go on with
  the record in place.
\<close>

theorem recorded_removal_holds:
  assumes "k_annotations (s_kcp s) orphan_leave_ann \<noteq> None"
    and "reconcileOrphanEtcdMembers E cl ms desired s = (Inr (requeue, hold), s')"
  shows "hold \<or> k_annotations (s_kcp s') orphan_leave_ann = None"
proof -
  have step: "wpa (orphan_recorded E cl all desired raw) held_or_cleared s1" for all raw s1
    unfolding orphan_recorded_def
    by (auto simp: progress_held wpa_simps held_or_cleared_def orphan_done_def split: option.splits)
  obtain raw where "k_annotations (s_kcp s) orphan_leave_ann = Some raw" using assms(1) by auto
  then have "wpa (reconcileOrphanEtcdMembers E cl ms desired) held_or_cleared s"
    unfolding reconcileOrphanEtcdMembers_def Let_def wpa_bind [of get_kcp] wpa_get_kcp
    by (auto intro!: bind_held step)
  then have "held_or_cleared (Inr (requeue, hold)) s'" using assms(2) by (simp add: wpa_def)
  then show ?thesis by (simp add: held_or_cleared_def)
qed

text \<open>
  A member that may be removed: it has a member ID, and it is accounted for by no
  control-plane Machine of the cluster by Node name or by peer address, none of those
  Machines being deleted, each of them paired with a joined member of its own, and enough
  healthy voting members left.
\<close>

definition safe_orphan :: "env \<Rightarrow> int \<Rightarrow> string \<Rightarrow> string \<Rightarrow> bool" where
  "safe_orphan E desired via n \<longleftrightarrow>
     (\<exists>i j ms0 ms members member status s1.
        e_machines E i = Inr ms0 \<and> ms = sort_key m_name ms0 \<and>
        e_members E j via = Inr members \<and>
        em_name member = n \<and> etcdMemberID member \<noteq> None \<and>
        n \<notin> node_name ` set (filter registered ms) \<and>
        (etcdMemberPeerIP member = [] \<or> etcdMemberPeerIP member \<notin> set (concat (map address_keys ms))) \<and>
        deletingMachine ms = [] \<and>
        unmatchedMachines ms (joined_members members) = [] \<and>
        fst (readEtcdStatus E s1) = Inr status \<and>
        orphan_quorum (joined_members members) desired
          \<le> healthyVotingMembers (joined_members members) member ms status)"

definition orphan_write :: "env \<Rightarrow> st \<Rightarrow> int \<Rightarrow> effect \<Rightarrow> bool" where
  "orphan_write E s desired e =
     (case e of
        SpecLeaveSet via n b \<Rightarrow> vouched E s via \<and> (\<not> b \<or> safe_orphan E desired via n)
      | _ \<Rightarrow> \<not> workload_write e)"

lemma orphan_write_plain [simp]:
  "orphan_write E s d (KcpPatched kvs rm)" "orphan_write E s d (Event et r)"
  by (simp_all add: orphan_write_def)

lemma expected_covers:
  "expectedEtcdMembers E ms s = (Inr ex, s') \<Longrightarrow>
   node_name ` set (filter registered ms) \<subseteq> set (ex_names ex) \<and>
   set (concat (map address_keys ms)) \<subseteq> set (ex_addrs ex)"
proof (induction ms arbitrary: s ex s')
  case Nil
  then show ?case by (auto simp: ret_def)
next
  case (Cons m ms)
  from Cons.prems obtain rendered s1 ex' s2 where
    rest: "expectedEtcdMembers E ms s1 = (Inr ex', s2)" and
    ex: "ex = \<lparr>ex_names = rendered # (if registered m then node_name m # ex_names ex' else ex_names ex'),
          ex_addrs = address_keys m @ ex_addrs ex'\<rparr>"
    by (auto dest!: bindA_inv_Inr simp: ret_def)
  show ?case using Cons.IH [OF rest] by (auto simp: ex)
qed

lemma unexpected:
  assumes "expectedEtcdMembers E ms s = (Inr ex, s')" "\<not> expected_has ex member"
  shows "em_name member \<notin> node_name ` set (filter registered ms) \<and>
    (etcdMemberPeerIP member = [] \<or> etcdMemberPeerIP member \<notin> set (concat (map address_keys ms)))"
  using expected_covers [OF assms(1)] assms(2) by (auto simp: expected_has_def split: if_splits)

lemma blocked_false:
  assumes "orphanRemovalBlocked E ms joined target status desired s = (Inr False, s')"
  shows "unmatchedMachines ms joined = [] \<and>
    orphan_quorum joined desired \<le> healthyVotingMembers joined target ms status"
  using assms by (auto simp: orphanRemovalBlocked_def bindA_def ret_def split: if_splits prod.splits sum.splits)

lemma orphan_helpers_logs:
  assumes "\<And>kvs rm. Q (KcpPatched kvs rm)" "\<And>et r. Q (Event et r)"
  shows "guards (logs_only Q) (finish_orphan E et reason)"
    and "guards (logs_only Q) (orphan_timed_out E)"
    and "guards (logs_only Q) (orphanRemovalBlocked E ms joined t status desired)"
    and "guards (logs_only Q) (markOrphanChecked E)" "guards (logs_only Q) forgetOrphanCheck"
proof -
  show fin: "guards (logs_only Q) (finish_orphan E et reason)" for et reason
    unfolding finish_orphan_def by (intro logs.flow guards_intros logs_writes assms)
  show "guards (logs_only Q) (orphan_timed_out E)" unfolding orphan_timed_out_def by (rule fin)
  show "guards (logs_only Q) (orphanRemovalBlocked E ms joined t status desired)"
    unfolding orphanRemovalBlocked_def by (intro logs.flow guards_intros logs_writes assms)
  show "guards (logs_only Q) (markOrphanChecked E)" "guards (logs_only Q) forgetOrphanCheck"
    by (simp_all add: markOrphanChecked_def forgetOrphanCheck_def logs_mod)
qed

lemma set_leave_logs:
  "Q (SpecLeaveSet via (em_name member) b) \<Longrightarrow> guards (logs_only Q) (setEtcdMemberLeave E via member b)"
  unfolding setEtcdMemberLeave_def by (rule logs_writes)

lemma choose_orphan_Some:
  "choose_orphan E orphans = Some (target, i) \<Longrightarrow>
   target \<in> set orphans \<and> etcdMemberID target = Some i \<and> validEtcdMemberName E (em_name target)"
  by (auto simp: choose_orphan_def dest!: find_member split: option.splits)

lemma start_logs:
  "orphan_write E s desired (SpecLeaveSet via (em_name t) True) \<Longrightarrow>
   guards (logs_only (orphan_write E s desired)) (start_orphan_removal E via t i)"
  unfolding start_orphan_removal_def Let_def
  by (intro logs.flow guards_intros logs_writes set_leave_logs orphan_helpers_logs orphan_write_plain)

lemma listed_safe:
  assumes "vouched E s via" "e_machines E i = Inr ms0" "ms = sort_key m_name ms0"
    "e_members E j via = Inr members" "deletingMachine ms = []" "fst (readEtcdStatus E s1) = Inr status"
  shows "guards (logs_only (orphan_write E s desired)) (remove_listed_orphan E via ms members status desired)"
proof -
  let ?Q = "orphan_write E s desired"
  have start: "guards (logs_only ?Q) (bindA (orphanRemovalBlocked E ms (joined_members members) target status desired)
      (\<lambda>blocked. if blocked then ret orphan_done else start_orphan_removal E via target ident))"
    if ex: "expectedEtcdMembers E ms s2 = (Inr ex, s3)" "\<not> expected_has ex target"
      and ident: "etcdMemberID target = Some ident" for s2 ex s3 target ident
  proof (rule logs.bind_result)
    show "guards (logs_only ?Q) (orphanRemovalBlocked E ms (joined_members members) target status desired)"
      by (intro orphan_helpers_logs) simp_all
  next
    fix s4 blocked s5
    assume b: "orphanRemovalBlocked E ms (joined_members members) target status desired s4 = (Inr blocked, s5)"
    have "?Q (SpecLeaveSet via (em_name target) True)" if "\<not> blocked"
    proof -
      have "unmatchedMachines ms (joined_members members) = [] \<and> orphan_quorum (joined_members members) desired
          \<le> healthyVotingMembers (joined_members members) target ms status"
        using blocked_false [of E ms "joined_members members" target status desired s4 s5] b that by simp
      then have "safe_orphan E desired via (em_name target)"
        unfolding safe_orphan_def using assms unexpected [OF ex] ident by blast
      then show ?thesis using assms(1) by (simp add: orphan_write_def)
    qed
    then show "guards (logs_only ?Q) (if blocked then ret orphan_done else start_orphan_removal E via target ident)"
      using start_logs [of E s desired via target] logs.ret_guards by auto
  qed
  show ?thesis
    unfolding remove_listed_orphan_def Let_def
  proof (rule logs.bind_guards)
    show "guards (logs_only ?Q) (markOrphanChecked E)" by (intro orphan_helpers_logs) simp_all
    show "guards (logs_only ?Q) (bindA (expectedEtcdMembers E ms) (\<lambda>ex.
       case choose_orphan E (filter (\<lambda>member. \<not> expected_has ex member) (joined_members members)) of
         None \<Rightarrow> ret orphan_done
       | Some (target, targetID) \<Rightarrow>
           bindA (orphanRemovalBlocked E ms (joined_members members) target status desired) (\<lambda>blocked.
           if blocked then ret orphan_done else start_orphan_removal E via target targetID)))" for u :: unit
      by (rule logs.bind_result, rule silent_rules [THEN silent_logs])
        (auto split: option.split dest!: choose_orphan_Some intro!: logs.ret_guards start)
  qed
qed

lemma request_safe:
  assumes "vouched E s via" "e_machines E i = Inr ms0" "ms = sort_key m_name ms0"
    and ex: "expectedEtcdMembers E ms s1 = (Inr ex, s2)" "\<not> expected_has ex member"
    and ident: "etcdMemberID member \<noteq> None"
  shows "guards (logs_only (orphan_write E s desired)) (request_recorded_orphan E via ms desired rec member)"
proof -
  let ?Q = "orphan_write E s desired"
  have wait: "guards (logs_only ?Q) (wait_or_time_out E rec)"
    by (intro guards_if logs.ret_guards orphan_helpers_logs) simp_all
  have ask: "guards (logs_only ?Q) (bindA (orphanRemovalBlocked E ms joined member status desired)
      (\<lambda>blocked. if blocked then wait_or_time_out E rec
        else bindA (tryA (setEtcdMemberLeave E via member True)) (\<lambda>_. wait_or_time_out E rec)))"
    if none: "deletingMachine ms = []" and l: "listJoinedEtcdMembers E via s3 = (Inr joined, s4)"
      and st: "readEtcdStatus E s5 = (Inr status, s6)" for s3 joined s4 s5 status s6
  proof (rule logs.bind_result)
    show "guards (logs_only ?Q) (orphanRemovalBlocked E ms joined member status desired)"
      by (intro orphan_helpers_logs) simp_all
  next
    fix s7 blocked s8
    assume b: "orphanRemovalBlocked E ms joined member status desired s7 = (Inr blocked, s8)"
    obtain j members where "e_members E j via = Inr members" "joined = joined_members members"
      using l by (auto simp: listJoinedEtcdMembers_def read_api_def tick_def bindA_def ret_def throw_def
          split: sum.splits)
    then have "safe_orphan E desired via (em_name member)" if "\<not> blocked"
      using blocked_false [of E ms joined member status desired s7 s8] b that assms(2,3) unexpected [OF ex]
        ident none st unfolding safe_orphan_def by (metis fst_conv)
    then have "?Q (SpecLeaveSet via (em_name member) True)" if "\<not> blocked"
      using assms(1) that by (simp add: orphan_write_def)
    then show "guards (logs_only ?Q) (if blocked then wait_or_time_out E rec
        else bindA (tryA (setEtcdMemberLeave E via member True)) (\<lambda>_. wait_or_time_out E rec))"
      using wait by (auto intro!: logs.bind_guards logs.try_guards set_leave_logs)
  qed
  show ?thesis
    unfolding request_recorded_orphan_def
  proof (rule logs.try_result, rule silent_rules [THEN silent_logs],
      rule logs.try_result, rule silent_rules [THEN silent_logs])
    fix s3 lr s4 s5 sr s6
    assume "listJoinedEtcdMembers E via s3 = (lr, s4)" "readEtcdStatus E s5 = (sr, s6)"
    then show "guards (logs_only ?Q) (if deletingMachine ms \<noteq> [] then wait_or_time_out E rec
     else case lr of
       Inl _ \<Rightarrow> wait_or_time_out E rec
     | Inr joined \<Rightarrow>
         (case sr of
            Inl _ \<Rightarrow> wait_or_time_out E rec
          | Inr status \<Rightarrow>
              bindA (orphanRemovalBlocked E ms joined member status desired) (\<lambda>blocked.
              if blocked then wait_or_time_out E rec
              else bindA (tryA (setEtcdMemberLeave E via member True)) (\<lambda>_. wait_or_time_out E rec))))"
      using wait ask by (cases lr; cases sr) auto
  qed
qed

lemma orphan_connect_logs:
  assumes "\<And>e. guards (logs_only (orphan_write E s desired)) (f (Inl e))"
    and "\<And>c. vouched E s (lc_via c) \<Longrightarrow> guards (logs_only (orphan_write E s desired)) (f (Inr c))"
    and "s_kcp s1 = s_kcp s"
  shows "logs_only (orphan_write E s desired) s1 (snd (bindA (tryA (connectForOrphans E cl ms)) f s1))"
proof -
  let ?R = "logs_only (orphan_write E s desired)"
  obtain c s2 where c: "connectForOrphans E cl ms s1 = (c, s2)" by (cases "connectForOrphans E cl ms s1")
  have "guards ?R (connectForOrphans E cl ms)"
    unfolding connectForOrphans_def
    by (rule identity_logs(6)) (auto simp: freeze_effect_def orphan_write_def split: effect.splits)
  then have "?R s1 s2" using c by (rule guardsD)
  moreover have "?R s2 (snd (f c s2))"
  proof (cases c)
    case (Inl e)
    then show ?thesis using assms(1) by (simp add: guards_def)
  next
    case (Inr conn)
    then have "vouched E s (lc_via conn)"
      using orphan_provider.handed_out [OF c [unfolded Inr]] assms(3) by (simp add: vouched_def)
    then show ?thesis using assms(2) Inr by (simp add: guards_def)
  qed
  ultimately show ?thesis by (auto simp: bindA_def tryA_def c intro: logs.R_trans)
qed

lemma follow_safe:
  assumes "vouched E s via" "e_machines E i = Inr ms0" "ms = sort_key m_name ms0"
  shows "guards (logs_only (orphan_write E s desired)) (follow_orphan_member E via ms desired rec member)"
proof -
  let ?Q = "orphan_write E s desired"
  have fin: "guards (logs_only ?Q) (finish_orphan E et reason)" for et reason
    by (intro orphan_helpers_logs) simp_all
  have wait: "guards (logs_only ?Q) (wait_or_time_out E rec)"
    by (intro guards_if logs.ret_guards orphan_helpers_logs) simp_all
  have take: "guards (logs_only ?Q) (take_back_orphan E via member)"
    unfolding take_back_orphan_def using assms(1)
    by (intro logs.flow guards_intros fin set_leave_logs) (simp add: orphan_write_def)
  have "guards (logs_only ?Q) (bindA (expectedEtcdMembers E ms) (\<lambda>ex.
        if expected_has ex member then take_back_orphan E via member
        else if \<not> em_leave member then request_recorded_orphan E via ms desired rec member
        else wait_or_time_out E rec))" if "etcdMemberID member \<noteq> None"
    by (rule logs.bind_result, rule silent_rules [THEN silent_logs])
      (use take wait request_safe [OF assms _ _ that] in auto)
  then show ?thesis
    unfolding follow_orphan_member_def using fin by auto
qed



section \<open>The pairing\<close>

lemma match_by_name_count:
  assumes "match_by_name joined ms (used, matched) = (used', matched')"
    and "distinct used" "distinct (map m_name ms)" "set matched \<inter> m_name ` set ms = {}"
  shows "distinct used' \<and> set used' \<subseteq> set used \<union> (em_name ` set joined \<inter> node_name ` set (filter registered ms)) \<and>
    set matched \<subseteq> set matched' \<and> set matched' \<subseteq> set matched \<union> m_name ` set ms \<and>
    length used' = length used + length (filter (\<lambda>m. m_name m \<in> set matched') ms)"
  using assms
proof (induction ms arbitrary: used matched)
  case Nil
  then show ?case by simp
next
  case (Cons m ms)
  show ?case
  proof (cases "registered m \<and> node_name m \<in> em_name ` set joined \<and> node_name m \<notin> set used")
    case True
    have "distinct used' \<and> set used' \<subseteq> set (node_name m # used) \<union> (em_name ` set joined \<inter> node_name ` set (filter registered ms)) \<and>
      set (m_name m # matched) \<subseteq> set matched' \<and> set matched' \<subseteq> set (m_name m # matched) \<union> m_name ` set ms \<and>
      length used' = length (node_name m # used) + length (filter (\<lambda>m. m_name m \<in> set matched') ms)"
      using Cons.prems True by (intro Cons.IH) auto
    with True show ?thesis by auto
  next
    case False
    have "distinct used' \<and> set used' \<subseteq> set used \<union> (em_name ` set joined \<inter> node_name ` set (filter registered ms)) \<and>
      set matched \<subseteq> set matched' \<and> set matched' \<subseteq> set matched \<union> m_name ` set ms \<and>
      length used' = length used + length (filter (\<lambda>m. m_name m \<in> set matched') ms)"
      using Cons.prems False by (intro Cons.IH) (auto split: if_splits)
    moreover have "m_name m \<notin> set matched'"
      using calculation Cons.prems(3,4) by auto
    ultimately show ?thesis by auto
  qed
qed

lemma match_by_address_count:
  assumes "match_by_address joined matched ms used = []" and "distinct used"
  shows "\<exists>used'. distinct used' \<and>
    set used' \<subseteq> set used \<union> em_name ` {member \<in> set joined. etcdMemberPeerIP member \<noteq> [] \<and>
      etcdMemberPeerIP member \<in> set (concat (map address_keys ms))} \<and>
    length used' = length used + length (filter (\<lambda>m. m_name m \<notin> set matched) ms)"
  using assms
proof (induction ms arbitrary: used)
  case Nil
  then show ?case by auto
next
  case (Cons m ms)
  show ?case
  proof (cases "m_name m \<in> set matched")
    case True
    from Cons.IH [of used] Cons.prems True obtain used' where
      "distinct used'" "set used' \<subseteq> set used \<union> em_name ` {member \<in> set joined. etcdMemberPeerIP member \<noteq> [] \<and>
        etcdMemberPeerIP member \<in> set (concat (map address_keys ms))}"
      "length used' = length used + length (filter (\<lambda>m. m_name m \<notin> set matched) ms)" by auto
    with True show ?thesis by (intro exI [of _ used']) auto
  next
    case False
    then obtain member where f: "find (\<lambda>member. em_name member \<notin> set used \<and> etcdMemberPeerIP member \<noteq> [] \<and>
        etcdMemberPeerIP member \<in> set (address_keys m)) joined = Some member"
      and rest: "match_by_address joined matched ms (em_name member # used) = []"
      using Cons.prems by (auto split: option.splits)
    note member = find_member [OF f]
    from Cons.IH [OF rest] member Cons.prems(2) obtain used' where
      "distinct used'" "set used' \<subseteq> set (em_name member # used) \<union> em_name ` {member \<in> set joined. etcdMemberPeerIP member \<noteq> [] \<and>
        etcdMemberPeerIP member \<in> set (concat (map address_keys ms))}"
      "length used' = length (em_name member # used) + length (filter (\<lambda>m. m_name m \<notin> set matched) ms)" by auto
    with False member show ?thesis by (intro exI [of _ used']) auto
  qed
qed

text \<open>
  The pairing check is a counting argument: when it finds no unmatched Machine, and the
  member to remove has neither a Machine's Node name nor a Machine's address as its peer,
  then without that member there are still at least as many joined members as control-plane
  Machines.
\<close>

theorem removal_leaves_member_per_machine:
  assumes "unmatchedMachines ms joined = []" and "distinct (map m_name ms)"
    and "em_name target \<notin> node_name ` set (filter registered ms)"
    and "etcdMemberPeerIP target = [] \<or> etcdMemberPeerIP target \<notin> set (concat (map address_keys ms))"
    and "target \<in> set joined" and "distinct (map em_name joined)"
  shows "length ms \<le> length joined - 1"
proof -
  obtain used matched where m: "match_by_name joined ms ([], []) = (used, matched)"
    by (cases "match_by_name joined ms ([], [])")
  note names = match_by_name_count [OF m _ assms(2)]
  have a: "match_by_address joined matched ms used = []" using assms(1) m by (simp add: unmatchedMachines_def)
  obtain used' where u: "distinct used'"
    "set used' \<subseteq> set used \<union> em_name ` {member \<in> set joined. etcdMemberPeerIP member \<noteq> [] \<and>
      etcdMemberPeerIP member \<in> set (concat (map address_keys ms))}"
    "length used' = length used + length (filter (\<lambda>m. m_name m \<notin> set matched) ms)"
    using match_by_address_count [OF a] names by auto
  have same: "member = target" if "member \<in> set joined" "em_name member = em_name target" for member
    using assms(5,6) that by (auto simp: distinct_map inj_on_def)
  have "set used' \<subseteq> em_name ` set joined - {em_name target}"
    using u(2) names assms(3,4) same by auto
  then have "card (set used') \<le> card (em_name ` set joined - {em_name target})"
    by (intro card_mono) auto
  also have "\<dots> = length joined - 1"
    using assms(5,6) by (simp add: card_Diff_singleton distinct_card [symmetric])
      (metis distinct_card length_map set_map)
  finally have "length used' \<le> length joined - 1" using distinct_card [OF u(1)] by simp
  moreover have "length used' = length ms"
    using u(3) names sum_length_filter_compl [of "\<lambda>m. m_name m \<in> set matched" ms] by simp
  ultimately show ?thesis by simp
qed

text \<open>
  Taking a request back is not bounded by the cap: while a Machine accounts for the
  recorded member, k0s still reports it joined, and the workload API server refuses the
  patch that clears \<open>spec.leave\<close>, every pass holds all membership changes, however long ago
  the removal was recorded.
\<close>

theorem take_back_is_not_capped:
  assumes "connectForOrphans E cl ms s = (Inr c, s1)"
    and "e_member E (s_tick s1) (lc_via c) (ol_name rec) = Inr member"
    and "etcdMemberID member = Some (ol_member_id rec)" and "etcdMemberJoinedStatus member \<noteq> not_joined"
    and "expectedEtcdMembers E ms (s1\<lparr>s_tick := Suc (s_tick s1)\<rparr>) = (Inr ex, s2)"
    and "expected_has ex member" and "e_wl_write E (s_tick s2) (lc_via c) = Some refused"
  shows "fst (progressOrphanLeave E cl ms desired rec s) = Inr (Some joiner_gate_requeue, True)"
  using assms
  by (simp add: progressOrphanLeave_def follow_orphan_member_def take_back_orphan_def setEtcdMemberLeave_def
      workload_write_via_def read_api_def tick_def bindA_def tryA_def ret_def throw_def orphan_wait_def)

end
