(* ===== verification/Sanitize_Safety.thy ===== *)
theory Sanitize_Safety
  imports Kubeconfig_Sanitize
begin

text \<open>
  What the kubeconfig sanitizer guarantees: the shape of its output, that the input's server
  has no influence on it, that its output is a fixed point, and which inputs it rejects for
  which reason.
\<close>


section \<open>The libraries\<close>

text \<open>What \<open>clientcmd.Write\<close> and \<open>encoding/pem\<close> promise: what was written loads back, and a
  PEM block that was encoded is decoded, with what follows it as the rest.\<close>

definition writes_back :: "kubelib \<Rightarrow> bool" where
  "writes_back L \<longleftrightarrow> (\<forall>name server ca creds out.
     kl_write L (rebuilt name server ca creds) = Some out \<longrightarrow>
     kl_load L out = Some (rebuilt name server ca creds))"

definition pem_law :: "kubelib \<Rightarrow> bool" where
  "pem_law L \<longleftrightarrow> kl_pem L [] = None \<and> (\<forall>der rest. kl_x509 L der \<noteq> None \<longrightarrow>
     kl_pem_encode L der \<noteq> [] \<and>
     kl_pem L (kl_pem_encode L der @ rest) = Some (\<lparr>pb_type = ''CERTIFICATE'', pb_bytes = der\<rparr>, rest))"


section \<open>CA bundles\<close>

text \<open>A CA bundle in canonical form: certificates that parse, one of them a CA, encoded one
  after the other.\<close>

definition is_ca :: "kubelib \<Rightarrow> string \<Rightarrow> bool" where
  "is_ca L der \<longleftrightarrow> (case kl_x509 L der of Some c \<Rightarrow> xc_ca c | None \<Rightarrow> False)"

definition encoded :: "kubelib \<Rightarrow> string list \<Rightarrow> string" where
  "encoded L ders = concat (map (kl_pem_encode L) ders)"

definition ca_ders :: "kubelib \<Rightarrow> string list \<Rightarrow> bool" where
  "ca_ders L ders \<longleftrightarrow> (\<forall>d\<in>set ders. kl_x509 L d \<noteq> None) \<and> (\<exists>d\<in>set ders. is_ca L d)"

lemma only_space_Nil [simp]: "only_space []"
  by (simp add: only_space.simps)

lemma ca_bundle_sound:
  "ca_bundle_loop L rest canonical blocks saw = Some ca \<Longrightarrow>
   \<exists>ders. ca = canonical @ encoded L ders \<and> (\<forall>d\<in>set ders. kl_x509 L d \<noteq> None) \<and>
     (saw \<or> (\<exists>d\<in>set ders. is_ca L d))"
proof (induction L rest canonical blocks saw rule: ca_bundle_loop.induct)
  case (1 L rest canonical blocks saw)
  show ?case
  proof (cases "kl_pem L rest")
    case None
    with "1.prems" have "ca = canonical \<and> saw"
      by (simp add: ca_bundle_loop.simps [of L rest] split: if_splits)
    then show ?thesis by (intro exI [of _ "[]"]) (simp add: encoded_def)
  next
    case (Some p)
    obtain block rest' where p: "p = (block, rest')" by (cases p)
    from "1.prems" Some p obtain cert where c: "pb_type block = ''CERTIFICATE''"
      "kl_x509 L (pb_bytes block) = Some cert" "length rest' < length rest"
      "ca_bundle_loop L rest' (canonical @ kl_pem_encode L (pb_bytes block)) (Suc blocks)
         (saw \<or> xc_ca cert) = Some ca"
      by (simp add: ca_bundle_loop.simps [of L rest] split: if_splits option.splits)
    have "\<not> pb_type block \<noteq> ''CERTIFICATE''" using c(1) by simp
    from "1.IH" [OF Some p [symmetric] this c(2) c(3) c(4)] obtain ders where
      d: "ca = (canonical @ kl_pem_encode L (pb_bytes block)) @ encoded L ders"
      "\<forall>d\<in>set ders. kl_x509 L d \<noteq> None" "(saw \<or> xc_ca cert) \<or> (\<exists>d\<in>set ders. is_ca L d)"
      by auto
    then show ?thesis
      using c(2) by (intro exI [of _ "pb_bytes block # ders"]) (auto simp: encoded_def is_ca_def)
  qed
qed

lemma validateCABundle_sound:
  "validateCABundle L data = Some ca \<Longrightarrow> \<exists>ders. ca = encoded L ders \<and> ca_ders L ders"
  unfolding validateCABundle_def ca_ders_def by (drule ca_bundle_sound) auto

lemma ca_bundle_encoded:
  assumes law: "pem_law L"
  shows "(\<forall>d\<in>set ders. kl_x509 L d \<noteq> None) \<Longrightarrow> 0 < blocks + length ders \<Longrightarrow>
    saw \<or> (\<exists>d\<in>set ders. is_ca L d) \<Longrightarrow>
    ca_bundle_loop L (encoded L ders) canonical blocks saw = Some (canonical @ encoded L ders)"
proof (induction ders arbitrary: canonical blocks saw)
  case Nil
  with law show ?case by (simp add: ca_bundle_loop.simps [of L "[]"] encoded_def pem_law_def)
next
  case (Cons d ders)
  from Cons.prems(1) obtain cert where c: "kl_x509 L d = Some cert" by auto
  from law c have pem: "kl_pem L (encoded L (d # ders)) =
      Some (\<lparr>pb_type = ''CERTIFICATE'', pb_bytes = d\<rparr>, encoded L ders)"
    and short: "length (encoded L ders) < length (encoded L (d # ders))"
    by (auto simp: pem_law_def encoded_def)
  have "ca_bundle_loop L (encoded L ders) (canonical @ kl_pem_encode L d) (Suc blocks) (saw \<or> xc_ca cert) =
      Some ((canonical @ kl_pem_encode L d) @ encoded L ders)"
    by (rule Cons.IH) (use Cons.prems c in \<open>auto simp: is_ca_def\<close>)
  with c short show ?case
    by (subst ca_bundle_loop.simps) (simp add: pem, simp add: encoded_def)
qed

lemma validateCABundle_encoded:
  assumes "pem_law L" "ca_ders L ders"
  shows "validateCABundle L (encoded L ders) = Some (encoded L ders)"
proof -
  from assms(2) have "0 < 0 + length ders" by (cases ders) (auto simp: ca_ders_def)
  with assms ca_bundle_encoded [of L ders 0 False "[]"] show ?thesis
    by (simp add: validateCABundle_def ca_ders_def)
qed

lemma encoded_nonempty: "pem_law L \<Longrightarrow> ca_ders L ders \<Longrightarrow> encoded L ders \<noteq> []"
  by (auto simp: encoded_def ca_ders_def pem_law_def)


section \<open>The entries of a map\<close>

lemma map_of_single [simp]: "sortedKeys [(k, v)] = [k]" "map_entry [(k, e)] k = e"
  by (simp_all add: sortedKeys_def map_entry_def)

lemma validate_all_Inr:
  "validate_all f m ks = Inr vs \<Longrightarrow>
   map fst vs = ks \<and> (\<forall>k v. (k, v) \<in> set vs \<longrightarrow>
     f (map_entry m k) = Inr v)"
  by (induction ks arbitrary: vs) (auto split: sum.splits)

lemma validate_all_Inl:
  "validate_all f m ks = Inl r \<Longrightarrow> \<exists>k\<in>set ks. f (map_entry m k) = Inl r"
  by (induction ks) (auto split: sum.splits)

lemma validate_all_hit:
  "k \<in> set ks \<Longrightarrow> f (map_entry m k) = Inl r \<Longrightarrow>
   \<exists>r'. validate_all f m ks = Inl r'"
  by (induction ks) (auto split: sum.splits)

lemma validate_all_cong:
  assumes "map fst m = map fst m'"
    and "\<And>k. f (map_entry m k) = f (map_entry m' k)"
  shows "validate_all f m (sortedKeys m) = validate_all f m' (sortedKeys m')"
proof -
  have "validate_all f m ks = validate_all f m' ks" for ks
    by (induction ks) (simp_all add: assms(2) split: sum.splits)
  then show ?thesis by (simp add: sortedKeys_def assms(1))
qed


section \<open>What is accepted\<close>

text \<open>The output: the caller's server, a canonical CA bundle, and either a valid certificate and
  key or a token.\<close>

definition sound_creds :: "kubelib \<Rightarrow> credentials \<Rightarrow> bool" where
  "sound_creds L creds \<longleftrightarrow> (case creds of (cert, key, token) \<Rightarrow>
     (cert \<noteq> [] \<and> key \<noteq> [] \<and> kl_pair_ok L cert key \<and> token = []) \<or>
     (cert = [] \<and> key = [] \<and> token \<noteq> []))"

definition s5_output :: "kubelib \<Rightarrow> string \<Rightarrow> string \<Rightarrow> string \<Rightarrow> bool" where
  "s5_output L clusterName server out \<longleftrightarrow> clusterName \<noteq> [] \<and> server \<noteq> [] \<and> kl_url_ok L server \<and>
     (\<exists>ders creds. ca_ders L ders \<and> sound_creds L creds \<and>
        kl_write L (rebuilt clusterName server (encoded L ders) creds) = Some out)"

text \<open>An entry none of the rules S2 and S4 objects to.\<close>

definition safe_cluster :: "kc_cluster \<Rightarrow> bool" where
  "safe_cluster c \<longleftrightarrow> cl_ca_file c = [] \<and> \<not> cl_insecure c \<and> cl_proxy c = [] \<and> cl_tls_name c = [] \<and>
     cl_extensions c = 0 \<and> cl_ca_data c \<noteq> []"

definition safe_user :: "kc_user \<Rightarrow> bool" where
  "safe_user u \<longleftrightarrow> us_token_file u = [] \<and> us_cert_file u = [] \<and> us_key_file u = [] \<and> \<not> us_exec u \<and>
     \<not> us_auth_provider u \<and> us_username u = [] \<and> us_password u = [] \<and> us_impersonate u = [] \<and>
     us_impersonate_uid u = [] \<and> us_impersonate_groups u = 0 \<and> us_impersonate_extra u = 0 \<and>
     us_extensions u = 0"

definition safe_input :: "kc_config \<Rightarrow> bool" where
  "safe_input cfg \<longleftrightarrow> cf_extensions cfg = 0 \<and> cf_preferences cfg = 0 \<and>
     (\<exists>cn c un u xn x. cf_clusters cfg = [(cn, Some c)] \<and> safe_cluster c \<and>
        cf_users cfg = [(un, Some u)] \<and> safe_user u \<and>
        cf_contexts cfg = [(xn, Some x)] \<and> cx_extensions x = 0 \<and>
        cx_cluster x = cn \<and> cx_user x = un \<and> cf_current cfg = xn)"

lemma cluster_accepted:
  "validateClusterEntry L e = Inr ca \<Longrightarrow>
   \<exists>c ders. e = Some c \<and> safe_cluster c \<and> ca = encoded L ders \<and> ca_ders L ders"
  by (auto simp: validateClusterEntry_def safe_cluster_def split: option.splits if_splits
      dest: validateCABundle_sound)

lemma user_accepted:
  "validateUserEntry L e = Inr creds \<Longrightarrow>
   \<exists>u. e = Some u \<and> safe_user u \<and> sound_creds L creds \<and> creds = (us_cert u, us_key u, us_token u)"
  by (auto simp: validateUserEntry_def safe_user_def sound_creds_def Let_def
      split: option.splits if_splits)

lemma context_accepted:
  "validateContextEntry e = Inr v \<Longrightarrow> \<exists>c. e = Some c \<and> cx_extensions c = 0"
  by (auto simp: validateContextEntry_def split: option.splits if_splits)

lemma structure_accepted:
  "validateStructure cfg = Inr (cn, un) \<Longrightarrow>
   \<exists>c u xn x. cf_clusters cfg = [(cn, c)] \<and> cf_users cfg = [(un, u)] \<and> cf_contexts cfg = [(xn, Some x)] \<and>
     cx_cluster x = cn \<and> cx_user x = un \<and> cf_current cfg = xn"
  by (auto simp: validateStructure_def split: list.splits prod.splits option.splits if_splits)

lemma sanitize_accepted:
  assumes "Sanitize L raw clusterName server = Inr out"
  shows "length raw \<le> max_size \<and> s5_output L clusterName server out \<and>
    (\<exists>cfg. kl_load L raw = Some cfg \<and> safe_input cfg)"
proof -
  from assms obtain cfg cas us xs cn un where s: "clusterName \<noteq> []" "server \<noteq> []" "kl_url_ok L server"
    "length raw \<le> max_size" "kl_load L raw = Some cfg" "cf_extensions cfg = 0" "cf_preferences cfg = 0"
    and cas: "validate_all (validateClusterEntry L) (cf_clusters cfg) (sortedKeys (cf_clusters cfg)) = Inr cas"
    and us: "validate_all (validateUserEntry L) (cf_users cfg) (sortedKeys (cf_users cfg)) = Inr us"
    and xs: "validate_all validateContextEntry (cf_contexts cfg) (sortedKeys (cf_contexts cfg)) = Inr xs"
    and st: "validateStructure cfg = Inr (cn, un)"
    and wr: "kl_write L (rebuilt clusterName server (entry_of cas cn []) (entry_of us un ([], [], []))) = Some out"
    unfolding Sanitize_def sanitize_config_def by (auto split: if_splits option.splits sum.splits prod.splits)
  from structure_accepted [OF st] obtain c u xn x where
    shape: "cf_clusters cfg = [(cn, c)]" "cf_users cfg = [(un, u)]" "cf_contexts cfg = [(xn, Some x)]"
    "cx_cluster x = cn" "cx_user x = un" "cf_current cfg = xn" by blast
  from cas shape(1) obtain ca where ca: "validateClusterEntry L c = Inr ca" "cas = [(cn, ca)]"
    by (auto split: sum.splits)
  from us shape(2) obtain cr where cr: "validateUserEntry L u = Inr cr" "us = [(un, cr)]"
    by (auto split: sum.splits)
  from xs shape(3) obtain v where "validateContextEntry (Some x) = Inr v"
    by (auto split: sum.splits)
  from context_accepted [OF this] have "cx_extensions x = 0" by simp
  moreover from cluster_accepted [OF ca(1)] obtain c' ders where
    "c = Some c'" "safe_cluster c'" "ca = encoded L ders" "ca_ders L ders" by blast
  moreover from user_accepted [OF cr(1)] obtain u' where "u = Some u'" "safe_user u'" "sound_creds L cr"
    by blast
  moreover have "s5_output L clusterName server out"
    unfolding s5_output_def
    using s wr ca(2) cr(2) cluster_accepted [OF ca(1)] user_accepted [OF cr(1)]
    by (intro conjI) (auto simp: entry_of_def)
  ultimately show ?thesis
    using s shape by (simp add: safe_input_def)
qed

text \<open>Its own output goes through unchanged.\<close>

lemma sanitize_rebuilt:
  assumes "pem_law L" "kl_load L raw = Some (rebuilt name server0 (encoded L ders) creds)"
    "ca_ders L ders" "sound_creds L creds" "length raw \<le> max_size"
    "clusterName \<noteq> []" "server \<noteq> []" "kl_url_ok L server"
  shows "Sanitize L raw clusterName server =
    (case kl_write L (rebuilt clusterName server (encoded L ders) creds) of
       None \<Rightarrow> Inl WriteFailed | Some out \<Rightarrow> Inr out)"
proof -
  obtain cert key token where cr: "creds = (cert, key, token)" by (cases creds) auto
  have user: "validateUserEntry L (snd (hd (cf_users (rebuilt name server0 (encoded L ders) creds)))) = Inr creds"
    using assms(4) cr by (auto simp: rebuilt_def Let_def validateUserEntry_def sound_creds_def)
  have cl: "validateClusterEntry L (snd (hd (cf_clusters (rebuilt name server0 (encoded L ders) creds)))) =
      Inr (encoded L ders)"
    using validateCABundle_encoded [OF assms(1,3)] encoded_nonempty [OF assms(1,3)]
    by (simp add: rebuilt_def Let_def validateClusterEntry_def)
  from user cl assms show ?thesis
    by (simp add: Sanitize_def sanitize_config_def rebuilt_def Let_def validateContextEntry_def validateStructure_def
        entry_of_def not_less)
qed


section \<open>The properties\<close>

text \<open>
  What the sanitizer lets through. From any bytes it accepts, at most 64 KiB, it rebuilds
  a kubeconfig with the caller's server, a CA bundle of parsed certificates with a CA among
  them, and one credential, a valid key pair or a token; and every entry of the input, not
  only those the current context names, was free of file paths, plugins, impersonation,
  proxies, insecure TLS and extensions.
\<close>

theorem sanitize_output:
  assumes "Sanitize L raw clusterName server = Inr out"
  shows "length raw \<le> max_size \<and> s5_output L clusterName server out \<and>
    (\<exists>cfg. kl_load L raw = Some cfg \<and> safe_input cfg)"
  by (rule sanitize_accepted [OF assms])

text \<open>
  C34: the sanitizer is idempotent, so its output is what \<open>IsFixedPoint\<close> calls valid, for
  that server or any other one given next; except for an output beyond the size limit, which
  the sanitizer itself then refuses.
\<close>

theorem sanitize_fixed_point:
  assumes "writes_back L" "pem_law L" "Sanitize L raw clusterName server = Inr out"
  shows "IsFixedPoint L out clusterName server =
    (if length out \<le> max_size then Inr True else Inl (Rejected Oversized))"
proof -
  from sanitize_accepted [OF assms(3)] obtain ders creds where s: "clusterName \<noteq> []" "server \<noteq> []"
    "kl_url_ok L server" "ca_ders L ders" "sound_creds L creds"
    and wr: "kl_write L (rebuilt clusterName server (encoded L ders) creds) = Some out"
    unfolding s5_output_def by blast
  from assms(1) wr have ld: "kl_load L out = Some (rebuilt clusterName server (encoded L ders) creds)"
    unfolding writes_back_def by blast
  have "Sanitize L out clusterName server = Inr out" if "length out \<le> max_size"
    using sanitize_rebuilt [OF assms(2) ld s(4,5) that s(1,2,3)] wr by simp
  moreover have "Sanitize L out clusterName server = Inl (Rejected Oversized)" if "\<not> length out \<le> max_size"
    using that s by (simp add: Sanitize_def not_less [symmetric])
  ultimately show ?thesis by (simp add: IsFixedPoint_def)
qed

text \<open>The parts of the input the sanitizer never reads.\<close>

definition forget_server :: "kc_config \<Rightarrow> kc_config" where
  "forget_server cfg = cfg\<lparr>
     cf_clusters := map (\<lambda>(n, e). (n, map_option (\<lambda>c. c\<lparr>cl_server := []\<rparr>) e)) (cf_clusters cfg),
     cf_contexts := map (\<lambda>(n, e). (n, map_option (\<lambda>c. c\<lparr>cx_namespace := []\<rparr>) e)) (cf_contexts cfg)\<rparr>"

lemma map_entry_map: "map_entry (map (\<lambda>(n, e). (n, map_option f e)) m) k = map_option f (map_entry m k)"
  by (induction m) (auto simp: map_entry_def)

lemma cluster_server: "validateClusterEntry L (map_option (\<lambda>c. c\<lparr>cl_server := []\<rparr>) e) = validateClusterEntry L e"
  by (cases e) (simp_all add: validateClusterEntry_def)

lemma context_namespace: "validateContextEntry (map_option (\<lambda>c. c\<lparr>cx_namespace := []\<rparr>) e) = validateContextEntry e"
  by (cases e) (simp_all add: validateContextEntry_def)

lemma forget_validates:
  "validate_all (validateClusterEntry L) (cf_clusters (forget_server cfg)) (sortedKeys (cf_clusters (forget_server cfg))) =
   validate_all (validateClusterEntry L) (cf_clusters cfg) (sortedKeys (cf_clusters cfg))"
  "validate_all validateContextEntry (cf_contexts (forget_server cfg)) (sortedKeys (cf_contexts (forget_server cfg))) =
   validate_all validateContextEntry (cf_contexts cfg) (sortedKeys (cf_contexts cfg))"
  by (rule validate_all_cong; simp add: forget_server_def map_entry_map cluster_server
      context_namespace comp_def case_prod_beta)+

lemma forget_structure: "validateStructure (forget_server cfg) = validateStructure cfg"
  by (auto simp: validateStructure_def forget_server_def split: list.splits option.splits)

lemma forget_frame: "cf_users (forget_server cfg) = cf_users cfg"
  "cf_extensions (forget_server cfg) = cf_extensions cfg"
  "cf_preferences (forget_server cfg) = cf_preferences cfg"
  by (simp_all add: forget_server_def)

lemma sanitize_forgets: "sanitize_config L (forget_server cfg) clusterName server = sanitize_config L cfg clusterName server"
  unfolding sanitize_config_def forget_validates forget_structure forget_frame ..

text \<open>
  The server of the input has no influence (S2), nor has a context's namespace: two inputs
  that decode to the same kubeconfig but for these are treated alike, whether they are
  accepted or rejected.
\<close>

theorem sanitize_ignores_server:
  assumes "kl_load L raw = Some cfg" "kl_load L raw' = Some cfg'"
    and "length raw \<le> max_size" "length raw' \<le> max_size"
    and "forget_server cfg = forget_server cfg'"
  shows "Sanitize L raw clusterName server = Sanitize L raw' clusterName server"
  using assms by (simp add: Sanitize_def) (metis sanitize_forgets)

text \<open>The rejections that empty the contract Secret (\<open>neutralizesContent\<close>).\<close>

fun neutralizesContent :: "sanitize_error \<Rightarrow> bool" where
  "neutralizesContent (Rejected r) \<longleftrightarrow> r \<in> {Oversized, Unparseable, UnsafeCluster, UnsafeIdentity}"
| "neutralizesContent WriteFailed \<longleftrightarrow> False"

definition caller_ok :: "kubelib \<Rightarrow> string \<Rightarrow> string \<Rightarrow> bool" where
  "caller_ok L clusterName server \<longleftrightarrow> clusterName \<noteq> [] \<and> server \<noteq> [] \<and> kl_url_ok L server"

lemma cluster_rejected: "validateClusterEntry L e = Inl r \<Longrightarrow> r = UnsafeCluster"
  by (auto simp: validateClusterEntry_def split: option.splits if_splits)

text \<open>
  An unsafe cluster entry, or an extension at the top level, is reported as unsafe
  whatever else is wrong with the input, so content with one is never kept as merely
  misshapen.
\<close>

theorem unsafe_cluster_reported:
  assumes "caller_ok L clusterName server" "kl_load L raw = Some cfg" "distinct (map fst (cf_clusters cfg))"
    and "cf_extensions cfg \<noteq> 0 \<or> cf_preferences cfg \<noteq> 0 \<or>
      (\<exists>n c. (n, Some c) \<in> set (cf_clusters cfg) \<and> \<not> safe_cluster c)"
  shows "\<exists>e. Sanitize L raw clusterName server = Inl e \<and> neutralizesContent e"
proof -
  have hit: "\<exists>e. validate_all (validateClusterEntry L) (cf_clusters cfg) (sortedKeys (cf_clusters cfg)) = Inl UnsafeCluster"
    if "(n, Some c) \<in> set (cf_clusters cfg)" "\<not> safe_cluster c" for n c
  proof -
    from that(2) cluster_accepted [of L "Some c"] obtain r where r: "validateClusterEntry L (Some c) = Inl r"
      by (cases "validateClusterEntry L (Some c)") auto
    from that(1) assms(3) have m: "map_entry (cf_clusters cfg) n = Some c" by (simp add: map_entry_def)
    have "n \<in> set (sortedKeys (cf_clusters cfg))"
      using that(1) by (force simp: sortedKeys_def)
    from validate_all_hit [of n _ "validateClusterEntry L" "cf_clusters cfg" r, OF this] m r
    obtain r' where "validate_all (validateClusterEntry L) (cf_clusters cfg) (sortedKeys (cf_clusters cfg)) = Inl r'"
      by auto
    with validate_all_Inl [OF this] cluster_rejected show ?thesis by force
  qed
  from assms(4) show ?thesis
  proof (elim disjE exE conjE)
    fix n c assume "(n, Some c) \<in> set (cf_clusters cfg)" "\<not> safe_cluster c"
    with hit assms(1,2) show ?thesis by (fastforce simp: Sanitize_def sanitize_config_def caller_ok_def)
  qed (use assms(1,2) in \<open>auto simp: Sanitize_def sanitize_config_def caller_ok_def\<close>)
qed

text \<open>
  For users the order matters: the entries are checked by name, and one without
  credentials ends the check, so the unsafe fields of a later entry go unreported. The
  rejection then is one that leaves the content where it is.
\<close>

theorem unsafe_user_masked:
  assumes "caller_ok L clusterName server" "length raw \<le> max_size"
    and "kl_load L raw = Some \<lparr>cf_clusters = [], cf_users = [(''a'', Some u), (''b'', Some v)],
      cf_contexts = [], cf_current = [], cf_extensions = 0, cf_preferences = 0\<rparr>"
    and "safe_user u" "us_cert u = []" "us_key u = []" "us_token u = []" "us_exec v"
  shows "Sanitize L raw clusterName server = Inl (Rejected Credentials) \<and>
    \<not> neutralizesContent (Rejected Credentials)"
proof -
  have "validateUserEntry L (Some u) = Inl Credentials"
    using assms(4-7) by (simp add: validateUserEntry_def safe_user_def)
  then show ?thesis
    using assms(1-3)
    by (simp add: Sanitize_def sanitize_config_def caller_ok_def sortedKeys_def map_entry_def)
qed

end
