(* ===== verification/Sanitize_Examples.thy ===== *)
theory Sanitize_Examples
  imports Sanitize_Safety
begin

text \<open>
  Instances of the sanitizer's properties on a small library: a text format with one
  separator for the kubeconfig, and a PEM block written as its bytes between two markers.
\<close>

text \<open>A PEM block is \<open><\<close>, its bytes, and \<open>>\<close>; a certificate is a CA when it starts with
  \<open>C\<close>.\<close>

fun toy_pem :: "string \<Rightarrow> (pem_block \<times> string) option" where
  "toy_pem [] = None"
| "toy_pem (c # s) =
     (if c \<noteq> CHR ''<'' then None
      else case dropWhile (\<lambda>c. c \<noteq> CHR ''>'') s of
        [] \<Rightarrow> None
      | _ # rest \<Rightarrow> Some (\<lparr>pb_type = ''CERTIFICATE'', pb_bytes = takeWhile (\<lambda>c. c \<noteq> CHR ''>'') s\<rparr>, rest))"

definition toy_x509 :: "string \<Rightarrow> x509_cert option" where
  "toy_x509 der = (if der = [] \<or> CHR ''>'' \<in> set der then None
     else Some \<lparr>xc_ca = (hd der = CHR ''C''), xc_not_before = 0, xc_not_after = hours 24\<rparr>)"

text \<open>A kubeconfig \<open>name|server|ca|cert|key|token\<close>, the name without a bar and the rest as
  the sanitizer writes them; the text \<open>masked\<close> decodes to two users.\<close>

definition bar :: char where "bar = CHR ''|''"

definition no_creds :: kc_user where
  "no_creds = \<lparr>us_token_file = [], us_cert_file = [], us_key_file = [], us_exec = False,
     us_auth_provider = False, us_username = [], us_password = [], us_impersonate = [],
     us_impersonate_uid = [], us_impersonate_groups = 0, us_impersonate_extra = 0,
     us_extensions = 0, us_cert = [], us_key = [], us_token = []\<rparr>"

definition masked_config :: kc_config where
  "masked_config = \<lparr>cf_clusters = [], cf_users = [(''a'', Some no_creds), (''b'', Some (no_creds\<lparr>us_exec := True\<rparr>))],
     cf_contexts = [], cf_current = [], cf_extensions = 0, cf_preferences = 0\<rparr>"

definition toy_load :: "string \<Rightarrow> kc_config option" where
  "toy_load s = (if s = ''masked'' then Some masked_config
     else case split_on bar s of
       [n, server, ca, cert, key, token] \<Rightarrow> Some (rebuilt n server ca (cert, key, token))
     | _ \<Rightarrow> None)"

definition toy_fields :: "kc_config \<Rightarrow> string list" where
  "toy_fields cfg = (case (cf_clusters cfg, cf_users cfg) of
     ([(n, Some c)], [(_, Some u)]) \<Rightarrow> [n, cl_server c, cl_ca_data c, us_cert u, us_key u, us_token u]
   | _ \<Rightarrow> [])"

definition toy_write :: "kc_config \<Rightarrow> string option" where
  "toy_write cfg = (if \<exists>w \<in> set (toy_fields cfg). bar \<in> set w then None
     else Some (join_str [bar] (toy_fields cfg)))"

definition toy_lib :: kubelib where
  "toy_lib = \<lparr>kl_url_ok = (\<lambda>_. True), kl_load = toy_load, kl_write = toy_write, kl_pem = toy_pem,
     kl_pem_encode = (\<lambda>der. ''<'' @ der @ ''>''), kl_x509 = toy_x509, kl_pair_ok = (\<lambda>_ _. True),
     kl_sha256_hex = id\<rparr>"

lemma toy_lib_simps [simp]:
  "kl_load toy_lib = toy_load" "kl_write toy_lib = toy_write" "kl_pem toy_lib = toy_pem"
  "kl_x509 toy_lib = toy_x509" "kl_pem_encode toy_lib der = ''<'' @ der @ ''>''"
  by (simp_all add: toy_lib_def)

lemma toy_pem_law: "pem_law toy_lib"
proof -
  have *: "dropWhile (\<lambda>c. c \<noteq> CHR ''>'') (der @ CHR ''>'' # rest) = CHR ''>'' # rest \<and>
      takeWhile (\<lambda>c. c \<noteq> CHR ''>'') (der @ CHR ''>'' # rest) = der"
    if "CHR ''>'' \<notin> set der" for der rest
    using that by (induction der) auto
  show ?thesis
    by (auto simp: pem_law_def toy_x509_def * split: if_splits)
qed

lemma toy_writes_back: "writes_back toy_lib"
proof -
  have "toy_load out = Some (rebuilt n server ca creds)"
    if "toy_write (rebuilt n server ca creds) = Some out" for n server ca creds out
  proof -
    obtain cert key token where cr: "creds = (cert, key, token)" by (cases creds) auto
    from that cr have plain: "\<forall>w \<in> {n, server, ca, cert, key, token}. bar \<notin> set w"
      and out: "out = n @ bar # server @ bar # ca @ bar # cert @ bar # key @ bar # token"
      by (auto simp: toy_write_def toy_fields_def rebuilt_def Let_def split: if_splits)
    from out have "bar \<in> set out" by simp
    then have "out \<noteq> ''masked''" by (auto simp: bar_def)
    moreover have "split_on bar out = [n, server, ca, cert, key, token]"
      using plain by (simp add: out split_on_plain split_on_word)
    ultimately show ?thesis using cr by (simp add: toy_load_def)
  qed
  then show ?thesis by (simp add: writes_back_def)
qed

definition toy_raw :: string where
  "toy_raw = ''x|https://old|<C1><L2>|||t0ken''"

definition toy_out :: string where
  "toy_out = ''c|https://cp:6443|<C1><L2>|||t0ken''"

lemma toy_accepts: "Sanitize toy_lib toy_raw ''c'' ''https://cp:6443'' = Inr toy_out"
  by code_simp

lemma sanitize_output_witness:
  "length toy_raw \<le> max_size \<and> s5_output toy_lib ''c'' ''https://cp:6443'' toy_out \<and>
   (\<exists>cfg. kl_load toy_lib toy_raw = Some cfg \<and> safe_input cfg)"
  using sanitize_output [OF toy_accepts] by simp

lemma sanitize_fixed_point_witness: "IsFixedPoint toy_lib toy_out ''c'' ''https://cp:6443'' = Inr True"
  using sanitize_fixed_point [OF toy_writes_back toy_pem_law toy_accepts]
  by (simp add: toy_out_def max_size_def)

lemma sanitize_ignores_server_witness:
  "Sanitize toy_lib toy_raw ''c'' ''https://cp:6443'' =
   Sanitize toy_lib ''x|https://evil|<C1><L2>|||t0ken'' ''c'' ''https://cp:6443''"
proof -
  have l: "kl_load toy_lib toy_raw = Some (rebuilt ''x'' ''https://old'' ''<C1><L2>'' ([], [], ''t0ken''))"
    "kl_load toy_lib ''x|https://evil|<C1><L2>|||t0ken'' =
     Some (rebuilt ''x'' ''https://evil'' ''<C1><L2>'' ([], [], ''t0ken''))"
    by (simp_all add: toy_load_def toy_raw_def bar_def)
  show ?thesis
    by (rule sanitize_ignores_server [OF l])
      (simp_all add: toy_raw_def max_size_def forget_server_def rebuilt_def Let_def)
qed

lemma unsafe_cluster_reported_witness:
  "\<exists>e. Sanitize (toy_lib\<lparr>kl_load := (\<lambda>_. Some (masked_config\<lparr>cf_extensions := 1\<rparr>))\<rparr>) ''any'' ''c'' ''s'' = Inl e \<and>
     neutralizesContent e"
  by (rule unsafe_cluster_reported [where cfg = "masked_config\<lparr>cf_extensions := 1\<rparr>"])
    (simp_all add: caller_ok_def toy_lib_def masked_config_def)

lemma unsafe_user_masked_witness:
  "Sanitize toy_lib ''masked'' ''c'' ''s'' = Inl (Rejected Credentials) \<and>
   \<not> neutralizesContent (Rejected Credentials)"
  by (rule unsafe_user_masked [where u = no_creds and v = "no_creds\<lparr>us_exec := True\<rparr>"])
    (simp_all add: caller_ok_def toy_lib_def toy_load_def masked_config_def no_creds_def
      safe_user_def max_size_def)

end
