(* ===== verification/Worked_Examples.thy ===== *)
theory Worked_Examples
  imports Etcd_Orphans Sanitize_Examples
begin

text \<open>
  Concrete instances of the theorems of the other theories: a small environment, control
  plane and Machines, and each theorem that has assumptions applied where they hold.
\<close>


section \<open>A control plane and its environment\<close>

definition now0 :: time where "now0 = hours 48"

definition kstatus0 :: kstatus where
  "kstatus0 = \<lparr>ks_initialized = True, ks_cp_initialized = Some True, ks_replicas = 3, ks_ready = 3,
     ks_updated = 3, ks_unavailable = 0, ks_available = 3, ks_version = ''v1.30.0'', ks_failure = [],
     ks_observed = 1, ks_conds = (\<lambda>_. None), ks_last_push = None, ks_selector = []\<rparr>"

definition env0 :: env where
  "env0 = \<lparr>e_now = now0, e_recorder = True, e_write = (\<lambda>_. None), e_machines = (\<lambda>_. Inr []),
     e_status = (\<lambda>_. Inr []), e_unmarshal = (\<lambda>_. None),
     e_config = (\<lambda>_ _. Inl NotFound), e_template = (\<lambda>_ _. Inl NotFound), e_client = (\<lambda>_ _. None),
     e_uid = (\<lambda>_ _. Inr ''u-1''), e_leave_cm = (\<lambda>_ _. Inl NotFound),
     e_member = (\<lambda>_ _ _. Inl NotFound), e_members = (\<lambda>_ _. Inr []), e_patched = (\<lambda>_ m. m),
     e_wl_write = (\<lambda>_ _. None), e_suffix = (\<lambda>_. ''abcde''),
     e_infra_template = (\<lambda>_ _ _. Inl NotFound), e_cached = (\<lambda>_ _. None), e_polls = 3,
     e_join_secret = (\<lambda>_. Inl NotFound), e_status_secret = (\<lambda>_. Inl NotFound),
     e_random = (\<lambda>_. Some ''random''), e_ca = (\<lambda>_. Inr ''ca''),
     e_slice = (\<lambda>_ _. Inl NotFound), e_token = (\<lambda>_ _ _. Inl NotFound),
     e_new_token = (\<lambda>_. None), e_encode = (\<lambda>_ _ _. None), e_decode = (\<lambda>_. None),
     e_label_errors = (\<lambda>_. []),
     e_subdomain_errors = (\<lambda>n. if n \<noteq> [] \<and>
        list_all (\<lambda>c. is_lower c \<or> is_digit c \<or> c = CHR ''-'' \<or> c = CHR ''.'') n then [] else [''invalid'']),
     e_lib = toy_lib, e_kcp = (\<lambda>_ _. Inl NotFound), e_stored = (\<lambda>_. kstatus0),
     e_cluster = (\<lambda>_ _. Inl NotFound), e_clusters = (\<lambda>_. Inr []), e_secret = (\<lambda>_ _. Inl NotFound),
     e_service = (\<lambda>_. Inl NotFound), e_owners = (\<lambda>_ _ _. Inl NotFound), e_vmi = (\<lambda>_ _. Inl NotFound),
     e_stamp = (\<lambda>_. Inr []), e_settled = (\<lambda>_. False),
     e_cluster_machines = (\<lambda>_ _. Inr []),
     e_generation = (\<lambda>_. 2), e_infra_obj = (\<lambda>_ _ _. Inl NotFound),
     e_has_owner = (\<lambda>rs r. r \<in> set rs), e_ensure_owner = (\<lambda>rs r. rs @ [r])\<rparr>"

definition kcp0 :: kcp where
  "kcp0 = \<lparr>k_name = ''cp'', k_namespace = ''default'', k_uid = ''k-1'', k_generation = 1,
     k_deletion = None, k_labels = (\<lambda>_. None), k_annotations = (\<lambda>_. None), k_finalizer = True,
     k_replicas = Some 3, k_version = ''v1.30.0'', k_distribution = ''k0s'', k_template = ''tmpl'',
     k_template_kind = [],
     k_infra_kind = ''VSphereMachineTemplate'', k_infra_namespace = [], k_infra_name = ''vt'', k_drain = None,
     k_max_surge = None, k_vip = None, k_vip_interface = [], k_vip_mode = [],
     k_meta_labels = [], k_meta_annotations = [], k_status = kstatus0\<rparr>"

definition pinned_kcp :: kcp where
  "pinned_kcp = kcp0\<lparr>k_annotations := [workload_uid_ann \<mapsto> ''u-1'']\<rparr>"

definition st_of :: "kcp \<Rightarrow> st" where
  "st_of k = \<lparr>s_tick = 0, s_kcp = k, s_identity_checked = None, s_orphan_checked = None, s_log = []\<rparr>"

definition cluster0 :: cluster where
  "cluster0 = \<lparr>c_name = ''c'', c_namespace = ''default'', c_uid = ''c-1'', c_endpoint_host = ''10.0.0.100'',
     c_endpoint_valid = True, c_endpoint_port = 6443, c_created = 0, c_paused = False,
     c_ref = Some (''controlplane.cluster.x-k8s.io'', ''KairosControlPlane'', ''cp'')\<rparr>"

definition machine0 :: machine where
  "machine0 = no_machine\<lparr>m_name := ''cp-a'', m_phase := ''Running'', m_node := Some ''node-a'',
     m_version := ''v1.30.0''\<rparr>"

lemmas world = env0_def kstatus0_def kcp0_def pinned_kcp_def st_of_def cluster0_def machine0_def
  no_machine_def now0_def

lemma pinned_pin [simp]: "k_annotations pinned_kcp workload_uid_ann = Some ''u-1''"
  "k_annotations pinned_kcp mismatch_ann = None"
  by (simp_all add: pinned_kcp_def)


section \<open>The identity\<close>

lemma freeze_cleared_iff_repinned_witness:
  "frozen (s_kcp (snd (clearRepinnedIdentityFreeze env0
     (st_of (kcp0\<lparr>k_annotations := [workload_uid_ann \<mapsto> ''u-1'',
        mismatch_ann \<mapsto> mismatch_value env0 ''u-2'' ''10.0.0.5'' ''u-1'']\<rparr>)))))"
  by (subst freeze_cleared_iff_repinned [where E' = env0 and uid = "''u-2''" and via = "''10.0.0.5''" and pin = "''u-1''"])
    (simp_all add: st_of_def ann_def)

lemma pin_needs_agreement_witness:
  "\<exists>obs u. fst (observeWorkloadIdentity env0 cluster0 [] (st_of kcp0)) = Inr obs \<and>
    map ob_via obs = leaveViaEndpoint # leaveCandidateIPs [] no_machine (leaveExcludedHosts (s_kcp (st_of kcp0)) cluster0) \<and>
    answers obs \<noteq> [] \<and> list_all (\<lambda>a. snd a = u) (answers obs) \<and> uidShape u \<and>
    k_annotations (s_kcp (snd (pinWorkloadIdentity env0 cluster0 [] (st_of kcp0)))) =
      (k_annotations (s_kcp (st_of kcp0)))(workload_uid_ann \<mapsto> u)"
proof (rule pin_needs_agreement [OF prod.collapse [symmetric]])
  show "k_annotations (s_kcp (snd (pinWorkloadIdentity env0 cluster0 [] (st_of kcp0)))) workload_uid_ann
      \<noteq> k_annotations (s_kcp (st_of kcp0)) workload_uid_ann"
    by code_simp
qed

lemma recheck_freezes_on_mismatch_witness:
  "\<exists>g obs. fst (recheckIdentity env0 cluster0 [] ''u-2'' (st_of pinned_kcp)) = Inr g \<and>
    fst (observeWorkloadIdentity env0 cluster0 [] (st_of pinned_kcp)) = Inr obs \<and>
    g_frozen g = (\<not> list_all (\<lambda>a. snd a = ''u-2'') (answers obs))"
  using recheck_freezes_on_mismatch [OF prod.collapse [symmetric], of env0 cluster0 "[]" "''u-2''" "st_of pinned_kcp"]
  by blast

lemma open_gate_means_verified_witness:
  "\<not> frozen (s_kcp (snd (reconcileWorkloadIdentity env0 cluster0 [machine0] 3 (st_of pinned_kcp))))"
proof -
  obtain g where g: "fst (reconcileWorkloadIdentity env0 cluster0 [machine0] 3 (st_of pinned_kcp)) = Inr g" "g_hold g = []"
  proof
    show "fst (reconcileWorkloadIdentity env0 cluster0 [machine0] 3 (st_of pinned_kcp)) = Inr no_gate"
      by code_simp
    show "g_hold no_gate = []" by (simp add: no_gate_def)
  qed
  have "reconcileWorkloadIdentity env0 cluster0 [machine0] 3 (st_of pinned_kcp) =
      (Inr g, snd (reconcileWorkloadIdentity env0 cluster0 [machine0] 3 (st_of pinned_kcp)))"
    using g(1) by (metis prod.collapse)
  from open_gate_means_verified [OF this g(2)] show ?thesis by blast
qed

lemma verified_connection_answers_pin_witness:
  "e_uid env0 0 ''10.0.0.5'' = Inr ''u-1''"
proof -
  have "fst (verifyPinnedWorkloadIdentity env0 ''10.0.0.5'' (st_of pinned_kcp)) = Inr ()" by code_simp
  then have "verifyPinnedWorkloadIdentity env0 ''10.0.0.5'' (st_of pinned_kcp) =
      (Inr (), snd (verifyPinnedWorkloadIdentity env0 ''10.0.0.5'' (st_of pinned_kcp)))"
    by (metis prod.collapse)
  from verified_connection_answers_pin [OF this] show ?thesis
    by (simp add: st_of_def ann_def)
qed

lemma controller_never_changes_pin_witness:
  "ann (k_annotations (s_kcp (snd (reconcileWorkloadIdentity
     (env0\<lparr>e_uid := (\<lambda>_ _. Inr ''u-9'')\<rparr>) cluster0 [machine0] 3 (st_of pinned_kcp))))) workload_uid_ann = ''u-1''"
  by (rule controller_never_changes_pin) (simp_all add: st_of_def ann_def)

lemma frozen_conditions_read_false_witness:
  "ks_conds (k_status (markWorkloadIdentityConditions (kcp0\<lparr>k_annotations := [mismatch_ann \<mapsto> ''x'']\<rparr>))) =
    [ready_cond \<mapsto> cond_false identity_changed_reason SevError,
     available_cond \<mapsto> cond_false identity_changed_reason SevError,
     etcd_healthy_cond \<mapsto> cond_false identity_changed_reason SevError]"
  by (subst frozen_conditions_read_false) (simp_all add: frozen_def kcp0_def kstatus0_def)

lemma leave_connection_is_verified_witness:
  "\<exists>conn. fst (connectForLeave env0 cluster0 [] machine0 (st_of pinned_kcp)) = Inr conn \<and>
     (\<exists>n. e_uid env0 n (lc_via conn) = Inr ''u-1'')"
proof -
  have "case fst (connectForLeave env0 cluster0 [] machine0 (st_of pinned_kcp)) of
      Inr conn \<Rightarrow> lc_via conn = leaveViaEndpoint | Inl _ \<Rightarrow> False"
    by code_simp
  then obtain conn where c: "fst (connectForLeave env0 cluster0 [] machine0 (st_of pinned_kcp)) = Inr conn"
    by (auto split: sum.splits)
  then have "connectForLeave env0 cluster0 [] machine0 (st_of pinned_kcp) =
      (Inr conn, snd (connectForLeave env0 cluster0 [] machine0 (st_of pinned_kcp)))"
    by (metis prod.collapse)
  from leave_connection_is_verified [OF this] c show ?thesis by (auto simp: st_of_def ann_def)
qed


section \<open>Quorum and the leave handshake\<close>

definition healthy_report :: etcd_status where
  "healthy_report = \<lparr>es_name = [], es_healthy = True, es_voting = True, es_members = 3, es_reported_at = []\<rparr>"

definition env_reports :: env where
  "env_reports = env0\<lparr>e_status := (\<lambda>_. Inr [(''node-a'', []), (''node-b'', []), (''node-c'', [])]),
     e_unmarshal := (\<lambda>_. Some healthy_report)\<rparr>"

lemma removal_needs_remaining_quorum_witness:
  "\<exists>status. fst (readEtcdStatus env_reports (st_of pinned_kcp)) = Inr status \<and>
     2 \<le> etcdVotingHealthyCount (filter (\<lambda>m. fst m \<noteq> ''node-a'') status)"
proof -
  have "fst (canRemoveMember env_reports machine0 (st_of pinned_kcp)) = Inr (True, [])" by code_simp
  then have "canRemoveMember env_reports machine0 (st_of pinned_kcp) =
      (Inr (True, []), snd (canRemoveMember env_reports machine0 (st_of pinned_kcp)))"
    by (metis prod.collapse)
  moreover have "k_deletion (s_kcp (st_of pinned_kcp)) = None" "desired_replicas (s_kcp (st_of pinned_kcp)) = 3"
    "m_node machine0 = Some ''node-a''" "m_phase machine0 = machine_running"
    by (simp_all add: world desired_replicas_def machine_running_def)
  moreover have "distinct (map fst kvs)" if "e_status env_reports n = Inr kvs" for n kvs
    using that by (auto simp: env_reports_def)
  ultimately show ?thesis
    using removal_needs_remaining_quorum [of env_reports machine0 "st_of pinned_kcp" "[]" _ "''node-a''"]
    by fastforce
qed

definition leaving :: machine where
  "leaving = machine0\<lparr>m_deletion := Some 0, m_annotations := [etcd_leave_hook \<mapsto> []],
     m_conditions := [(''Deleting'', ''True'', ''WaitingForPreTerminateHook'')]\<rparr>"

definition leaving_unregistered :: machine where
  "leaving_unregistered = leaving\<lparr>m_node := None\<rparr>"

definition leaving_requested :: machine where
  "leaving_requested = leaving\<lparr>m_annotations := [etcd_leave_hook \<mapsto> [],
     leave_requested_at \<mapsto> format_rfc3339 0, member_leave_requested_at \<mapsto> format_rfc3339 0]\<rparr>"

lemma wpa_snd: "wpa m (\<lambda>_ s'. P s') s \<Longrightarrow> P (snd (m s))"
  by (simp add: wpa_def case_prod_beta)

text \<open>With no other Machine, the connection is the endpoint, in three requests.\<close>

lemma no_candidates: "leaveCandidateIPs [] m ex = []"
  by (simp add: leaveCandidateIPs_def leave_candidates_def leave_peers_def)

lemma endpoint_connection:
  assumes "e_leave_cm E 1 leaveViaEndpoint = Inl NotFound"
    "e_client E 0 leaveViaEndpoint = None" "e_uid E 2 leaveViaEndpoint = Inr ''u-1''"
  shows "connectForLeave E cluster0 [] m (st_of pinned_kcp) =
     (Inr \<lparr>lc_via = leaveViaEndpoint, lc_cm = (\<lambda>_. None)\<rparr>, (st_of pinned_kcp)\<lparr>s_tick := 3\<rparr>)"
proof -
  have "wpa (connectForLeave E cluster0 [] m)
      (\<lambda>r s'. r = Inr \<lparr>lc_via = leaveViaEndpoint, lc_cm = (\<lambda>_. None)\<rparr> \<and> s' = (st_of pinned_kcp)\<lparr>s_tick := 3\<rparr>)
      (st_of pinned_kcp)"
    using assms
    by (simp add: connectForLeave_def connectVerified_def verifiedLeaveConn_def readLeaveThrough_def
        verifyPinnedWorkloadIdentity_def verifyWorkloadIdentity_def no_candidates Let_def wpa_simps
        st_of_def ann_def frozen_def numeral_2_eq_2 numeral_3_eq_3)
  then show ?thesis by (simp add: wpa_def case_prod_beta prod_eq_iff)
qed

lemma wpa_connect0 [wpa_simps]:
  "e_leave_cm E 1 leaveViaEndpoint = Inl NotFound \<Longrightarrow>
   e_client E 0 leaveViaEndpoint = None \<Longrightarrow> e_uid E 2 leaveViaEndpoint = Inr ''u-1'' \<Longrightarrow>
   wpa (connectForLeave E cluster0 [] m) Q (st_of pinned_kcp) =
   Q (Inr \<lparr>lc_via = leaveViaEndpoint, lc_cm = (\<lambda>_. None)\<rparr>) ((st_of pinned_kcp)\<lparr>s_tick := 3\<rparr>)"
  by (simp add: wpa_def endpoint_connection)

lemma pinned_st [simp]:
  "s_log (st_of k) = []" "s_kcp (st_of k) = k" "s_tick (st_of k) = 0" "\<not> frozen pinned_kcp"
  "distributionOf pinned_kcp = ''k0s''"
  by (simp_all add: st_of_def frozen_def pinned_kcp_def kcp0_def distributionOf_def mismatch_ann_def
      workload_uid_ann_def)

lemma leaving_fields [simp]:
  "m_addresses leaving = []" "m_addresses leaving_unregistered = []" "m_addresses leaving_requested = []"
  "registered leaving" "\<not> registered leaving_unregistered" "registered leaving_requested"
  "machineAtPreTerminate leaving" "machineAtPreTerminate leaving_unregistered"
  "m_name leaving = ''cp-a''" "m_name leaving_unregistered = ''cp-a''" "m_name leaving_requested = ''cp-a''"
  "m_node leaving = Some ''node-a''" "m_node leaving_requested = Some ''node-a''"
  "node_name leaving = ''node-a''" "node_name leaving_requested = ''node-a''"
  "hasEtcdLeaveHook leaving" "hasEtcdLeaveHook leaving_unregistered" "hasEtcdLeaveHook leaving_requested"
  "m_annotations leaving leave_requested_at = None"
  "m_annotations leaving_unregistered leave_requested_at = None"
  "m_annotations leaving_requested leave_requested_at = Some (format_rfc3339 0)"
  "m_annotations leaving_requested member_leave_requested_at = Some (format_rfc3339 0)"
  "m_cfg_name leaving_unregistered = []"
  by (simp_all add: leaving_requested_def leaving_unregistered_def leaving_def machine0_def no_machine_def
      registered_def node_name_def hasEtcdLeaveHook_def machineAtPreTerminate_def leave_keys)

lemma env0_fields [simp]:
  "e_recorder env0" "e_write env0 = (\<lambda>_. None)" "e_wl_write env0 = (\<lambda>_ _. None)"
  "e_client env0 = (\<lambda>_ _. None)" "e_uid env0 = (\<lambda>_ _. Inr ''u-1'')"
  "e_leave_cm env0 = (\<lambda>_ _. Inl NotFound)" "e_member env0 = (\<lambda>_ _ _. Inl NotFound)"
  "e_status env0 = (\<lambda>_. Inr [])" "e_label_errors env0 = (\<lambda>_. [])" "e_now env0 = now0"
  "e_config env0 = (\<lambda>_ _. Inl NotFound)"
  by (simp_all add: env0_def)


lemma leave_is_bounded_witness:
  "\<exists>r s'. reconcileMemberLeave env0 cluster0 [] leaving_requested (st_of pinned_kcp) = (r, s') \<and>
     (r = Inl IdentityChanged \<or> r = Inr True \<and> s_log s' \<noteq> [] \<and> last (s_log s') = HookRemoved ''cp-a'')"
proof -
  obtain r s' where run: "reconcileMemberLeave env0 cluster0 [] leaving_requested (st_of pinned_kcp) = (r, s')"
    by (cases "reconcileMemberLeave env0 cluster0 [] leaving_requested (st_of pinned_kcp)")
  have "r = Inl IdentityChanged \<or> r = Inr True \<and> s_log s' \<noteq> [] \<and> last (s_log s') = HookRemoved (m_name leaving_requested)"
  proof (rule leave_is_bounded [where t_req = 0 and t_del = 0, OF _ _ _ _ _ _ _ _ _ _ _ _ _ run])
    show "0 < int (days_before_year 10000) * 86400 * ns_per_s"
      "0 < int (days_before_year 10000) * 86400 * ns_per_s"
      by (simp_all add: days_before_year_def ns_per_s_def)
    show "e_now env0 > 0 + member_leave_timeout" "e_now env0 > 0 + member_leave_cap"
      by (simp_all add: now0_def bound_defs)
  qed simp_all
  then show ?thesis using run by auto
qed

lemma leave_writes_only_own_member_witness:
  "\<exists>node s1. leaveNodeName env0 leaving (st_of pinned_kcp) = (Inr node, s1) \<and>
     own_write env0 (st_of pinned_kcp) [] leaving node (LeaveWritten ''endpoint'' ''node-a'' ''leave-requested'')"
proof (rule leave_writes_only_own_member [OF prod.collapse [symmetric]])
  have "s_log (snd (reconcileMemberLeave env0 cluster0 [] leaving (st_of pinned_kcp))) =
      [LeaveWritten ''endpoint'' ''node-a'' ''leave-requested'',
       MachineAnnotated ''cp-a'' [(leave_requested_at, format_rfc3339 now0)]]"
    by (rule wpa_snd)
      (simp add: reconcileMemberLeave_def leave_pass_def leaveNodeName_def leave_first_request_def
        ensureLeaveRequested_def stampLeaveRequestedAt_def stampAnnotationOnce_def annotateOnce_def
        leaveViaEndpoint_def leave_requested_value_def wpa_simps)
  then show "LeaveWritten ''endpoint'' ''node-a'' ''leave-requested''
      \<in> set (new_effects (st_of pinned_kcp) (snd (reconcileMemberLeave env0 cluster0 [] leaving (st_of pinned_kcp))))"
    by simp
qed simp

lemma no_effect_before_pre_terminate_witness:
  "s_log (snd (reconcileMemberLeave env0 cluster0 [] machine0 (st_of pinned_kcp))) = s_log (st_of pinned_kcp)"
  using no_effect_before_pre_terminate [of machine0 "st_of pinned_kcp" env0 cluster0 "[]"]
  by (simp add: world machineAtPreTerminate_def distributionOf_def)

lemma absent_report_releases_hook_witness:
  "\<exists>r s'. reconcileMemberLeave env0 cluster0 [] leaving_requested (st_of pinned_kcp) = (r, s') \<and>
     new_effects (st_of pinned_kcp) s' = [HookRemoved ''cp-a'']"
proof -
  have c: "connectForLeave env0 cluster0 [] leaving_requested (st_of pinned_kcp) =
      (Inr \<lparr>lc_via = leaveViaEndpoint, lc_cm = (\<lambda>_. None)\<rparr>, (st_of pinned_kcp)\<lparr>s_tick := 3\<rparr>)"
    by (rule endpoint_connection) simp_all
  obtain r s' where run: "reconcileMemberLeave env0 cluster0 [] leaving_requested (st_of pinned_kcp) = (r, s')"
    by (cases "reconcileMemberLeave env0 cluster0 [] leaving_requested (st_of pinned_kcp)")
  have "r = Inr True \<and> new_effects (st_of pinned_kcp) s' = [HookRemoved (m_name leaving_requested)]"
    by (rule absent_report_releases_hook [OF _ _ _ _ _ c _ _ _ run, where node = "''node-a''"])
      (simp_all add: decode_status_def List.map_filter_def)
  then show ?thesis using run by simp
qed

lemma leave_stamps_written_once_witness:
  "m_annotations (fold apply_effect (new_effects (st_of pinned_kcp)
      (snd (reconcileMemberLeave env_reports cluster0 [] leaving_requested (st_of pinned_kcp)))) leaving_requested)
     leave_requested_at = Some (format_rfc3339 0)"
proof (rule leave_stamps_written_once)
  show "leave_run leaving_requested (fold apply_effect (new_effects (st_of pinned_kcp)
      (snd (reconcileMemberLeave env_reports cluster0 [] leaving_requested (st_of pinned_kcp)))) leaving_requested)"
    by (rule leave_run.pass [OF leave_run.start prod.collapse [symmetric]])
qed simp_all


section \<open>Orphan members\<close>

definition id_a :: string where "id_a = format_hex 10"

lemma id_a [simp]: "canonicalMemberID id_a = Some id_a"
proof -
  have "parse_uint_hex64 id_a = Some 10" unfolding id_a_def by (rule parse_format_hex64) simp
  then show ?thesis by (simp add: canonicalMemberID_def id_a_def format_hex_def)
qed

lemma orphan_record_roundtrip_witness:
  "parseOrphanLeave env0 (orphan_leave_string \<lparr>ol_name = ''node-x'', ol_member_id = id_a, ol_at = 0\<rparr>) =
     Some \<lparr>ol_name = ''node-x'', ol_member_id = id_a, ol_at = 0\<rparr>"
proof -
  let ?rec = "\<lparr>ol_name = ''node-x'', ol_member_id = id_a, ol_at = 0\<rparr>"
  have "parseOrphanLeave env0 (orphan_leave_string ?rec) = Some (?rec\<lparr>ol_at := trunc_s (ol_at ?rec)\<rparr>)"
  proof (rule orphan_record_roundtrip)
    show "n \<noteq> [] \<and> list_all (\<lambda>c. is_lower c \<or> is_digit c \<or> c = CHR ''-'' \<or> c = CHR ''.'') n"
      if "e_subdomain_errors env0 n = []" for n
      using that by (auto simp: env0_def split: if_splits)
    show "validEtcdMemberName env0 (ol_name ?rec)"
      by (simp add: validEtcdMemberName_def env0_def is_lower_def less_eq_char_def)
    show "ol_at ?rec < int (days_before_year 10000) * 86400 * ns_per_s"
      by (simp add: days_before_year_def ns_per_s_def)
  qed (simp_all add: now0_def duration_defs orphan_clock_skew_def)
  then show ?thesis by (simp add: trunc_s_def ns_per_s_def)
qed

definition recorded_kcp :: kcp where
  "recorded_kcp = pinned_kcp\<lparr>k_annotations := [workload_uid_ann \<mapsto> ''u-1'', orphan_leave_ann \<mapsto> ''x'']\<rparr>"

lemma recorded_removal_holds_witness:
  "k_annotations (s_kcp (snd (reconcileOrphanEtcdMembers env0 cluster0 [] 3 (st_of recorded_kcp)))) orphan_leave_ann = None"
proof -
  let ?run = "reconcileOrphanEtcdMembers env0 cluster0 [] 3 (st_of recorded_kcp)"
  have "fst ?run = Inr (None, False)"
  proof -
    have "parseOrphanLeave env0 ''x'' = None"
      by (simp add: parseOrphanLeave_def Kairos_Prelude.fields_def is_space_def)
    then have "wpa (reconcileOrphanEtcdMembers env0 cluster0 [] 3) (\<lambda>r _. r = Inr (None, False)) (st_of recorded_kcp)"
      by (simp add: reconcileOrphanEtcdMembers_def orphan_recorded_def clusterControlPlaneMachines_def
          recorded_kcp_def wpa_simps frozen_def orphan_done_def env0_def)
    then show ?thesis by (simp add: wpa_def case_prod_beta)
  qed
  then have "?run = (Inr (None, False), snd ?run)" by (metis prod.collapse)
  from recorded_removal_holds [OF _ this] show ?thesis by (simp add: recorded_kcp_def)
qed

definition member_named :: "string \<Rightarrow> etcd_member" where
  "member_named n = \<lparr>em_name = n, em_member_id = id_a, em_peer = [], em_leave = False,
     em_conds = [(''Joined'', ''True'')]\<rparr>"

definition machine_b :: machine where
  "machine_b = machine0\<lparr>m_name := ''cp-b'', m_node := Some ''node-b''\<rparr>"

lemma removal_leaves_member_per_machine_witness:
  "length [machine0, machine_b] \<le> length (map member_named [''node-a'', ''node-b'', ''node-x'']) - 1"
proof (rule removal_leaves_member_per_machine [where target = "member_named ''node-x''"])
  show "unmatchedMachines [machine0, machine_b] (map member_named [''node-a'', ''node-b'', ''node-x'']) = []"
    by (simp add: unmatchedMachines_def member_named_def machine0_def machine_b_def no_machine_def registered_def
        node_name_def)
  show "etcdMemberPeerIP (member_named ''node-x'') = [] \<or>
    etcdMemberPeerIP (member_named ''node-x'') \<notin> set (concat (map address_keys [machine0, machine_b]))"
    by (simp add: machine_b_def machine0_def no_machine_def address_keys_def address_ips_def List.map_filter_def)
qed (simp_all add: member_named_def machine0_def machine_b_def no_machine_def registered_def node_name_def)

definition env_orphan :: env where
  "env_orphan = env0\<lparr>e_machines := (\<lambda>_. Inr [machine0, machine_b]),
     e_status := (\<lambda>_. Inr [(''node-a'', []), (''node-b'', [])]), e_unmarshal := (\<lambda>_. Some healthy_report),
     e_members := (\<lambda>_ _. Inr (map member_named [''node-a'', ''node-b'', ''node-x'']))\<rparr>"

lemma machines_sorted: "sort_key m_name [machine0, machine_b] = [machine0, machine_b]"
proof -
  have "m_name machine0 \<le> m_name machine_b"
    by (simp add: machine0_def machine_b_def no_machine_def)
  then show ?thesis by simp
qed

lemma ab_fields [simp]:
  "m_addresses machine0 = []" "m_addresses machine_b = []" "address_ips machine0 = []" "address_ips machine_b = []"
  "registered machine0" "registered machine_b" "node_name machine0 = ''node-a''" "node_name machine_b = ''node-b''"
  "\<not> deleting machine0" "\<not> deleting machine_b" "m_cfg_name machine0 = []" "m_cfg_name machine_b = []"
  "m_version machine0 = ''v1.30.0''" "m_version machine_b = ''v1.30.0''"
  "m_name machine0 = ''cp-a''" "m_name machine_b = ''cp-b''"
  by (simp_all add: machine0_def machine_b_def no_machine_def registered_def node_name_def deleting_def
      address_ips_def List.map_filter_def)

lemma no_candidates_ab: "leaveCandidateIPs [machine0, machine_b] m ex = []"
  by (simp add: leaveCandidateIPs_def leave_candidates_def leave_peers_def reported_ips_def)

lemma member_fields [simp]:
  "em_name (member_named n) = n" "etcdMemberJoinedStatus (member_named n) = ''True''"
  "etcdMemberID (member_named n) = Some id_a" "etcdMemberPeerIP (member_named n) = []"
  "em_leave (member_named n) = False"
  by (simp_all add: member_named_def etcdMemberJoinedStatus_def etcdMemberID_def etcdMemberPeerIP_def
      split_host_def split_last_colon_def parse_ip_def)

lemma ab_blocked [simp]:
  "orphanCleanupBlocked pinned_kcp [machine0, machine_b] [machine0, machine_b] 2 = []"
  by (simp add: orphanCleanupBlocked_def wrap32_def pinned_kcp_def kcp0_def)

lemma ab_choice:
  "choose_orphan env_orphan [member_named ''node-x''] = Some (member_named ''node-x'', id_a)"
  by (simp add: choose_orphan_def validEtcdMemberName_def env_orphan_def env0_def is_lower_def less_eq_char_def)

lemma ab_joined:
  "joined_members (map member_named ns) = map member_named ns"
  by (simp add: joined_members_def not_joined_def)

lemma ab_unblocked:
  "wpa (orphanRemovalBlocked E [machine0, machine_b] (map member_named [''node-a'', ''node-b'', ''node-x''])
      (member_named ''node-x'') [(''node-a'', healthy_report), (''node-b'', healthy_report)] 2) Q s = Q (Inr False) s"
  by (simp add: orphanRemovalBlocked_def unmatchedMachines_def healthyVotingMembers_def orphan_quorum_def
      go_div_def healthy_report_def wpa_simps)

lemma ab_status:
  "wpa (readEtcdStatus env_orphan) Q s =
   Q (Inr [(''node-a'', healthy_report), (''node-b'', healthy_report)]) (s\<lparr>s_tick := Suc (s_tick s)\<rparr>)"
  by (simp add: readEtcdStatus_def wpa_simps env_orphan_def decode_status_def List.map_filter_def)

lemma ab_expected:
  "wpa (expectedEtcdMembers E [machine0, machine_b]) Q s =
   Q (Inr \<lparr>ex_names = [''cp-a'', ''node-a'', ''cp-b'', ''node-b''], ex_addrs = []\<rparr>) s"
  by (simp add: renderedNodeName_def renderedHostname_def wpa_simps address_keys_def to_lower_def lower_char_def
      less_eq_char_def)

lemma ab_connection:
  "s_kcp s = pinned_kcp \<Longrightarrow>
   wpa (connectForOrphans env_orphan cluster0 [machine0, machine_b]) Q s =
   Q (Inr \<lparr>lc_via = leaveViaEndpoint, lc_cm = (\<lambda>_. None)\<rparr>) (s\<lparr>s_tick := Suc (Suc (s_tick s))\<rparr>)"
  by (simp add: connectForOrphans_def connectVerified_def verifiedLeaveConn_def no_candidates_ab
      verifyPinnedWorkloadIdentity_def verifyWorkloadIdentity_def Let_def wpa_simps env_orphan_def ann_def)


definition env_refusing :: env where
  "env_refusing = env_orphan\<lparr>e_member := (\<lambda>_ _ n. Inr (member_named n)), e_wl_write := (\<lambda>_ _. Some Conflict)\<rparr>"

lemma take_back_is_not_capped_witness:
  "fst (progressOrphanLeave env_refusing cluster0 [machine0, machine_b] 2
     \<lparr>ol_name = ''node-a'', ol_member_id = id_a, ol_at = 0\<rparr> (st_of pinned_kcp)) = Inr (Some joiner_gate_requeue, True)"
proof -
  let ?c = "\<lparr>lc_via = leaveViaEndpoint, lc_cm = (\<lambda>_. None)\<rparr> :: leave_conn"
  let ?s1 = "(st_of pinned_kcp)\<lparr>s_tick := 2\<rparr>"
  have "wpa (connectForOrphans env_refusing cluster0 [machine0, machine_b]) (\<lambda>r s'. r = Inr ?c \<and> s' = ?s1) (st_of pinned_kcp)"
    by (simp add: connectForOrphans_def connectVerified_def verifiedLeaveConn_def no_candidates_ab
      verifyPinnedWorkloadIdentity_def verifyWorkloadIdentity_def Let_def wpa_simps env_refusing_def env_orphan_def ann_def)
  then have c: "connectForOrphans env_refusing cluster0 [machine0, machine_b] (st_of pinned_kcp) = (Inr ?c, ?s1)"
    by (simp add: wpa_def case_prod_beta prod_eq_iff)
  have "wpa (expectedEtcdMembers env_refusing [machine0, machine_b]) (\<lambda>r s'. r = Inr \<lparr>ex_names = [''cp-a'', ''node-a'', ''cp-b'', ''node-b''], ex_addrs = []\<rparr> \<and>
      s' = ?s1\<lparr>s_tick := Suc (s_tick ?s1)\<rparr>) (?s1\<lparr>s_tick := Suc (s_tick ?s1)\<rparr>)"
    by (simp only: ab_expected)
  then have ex: "expectedEtcdMembers env_refusing [machine0, machine_b] (?s1\<lparr>s_tick := Suc (s_tick ?s1)\<rparr>) =
      (Inr \<lparr>ex_names = [''cp-a'', ''node-a'', ''cp-b'', ''node-b''], ex_addrs = []\<rparr>, ?s1\<lparr>s_tick := Suc (s_tick ?s1)\<rparr>)"
    by (simp add: wpa_def case_prod_beta prod_eq_iff del: expectedEtcdMembers.simps)
  show ?thesis
    by (rule take_back_is_not_capped [OF c _ _ _ ex, where member = "member_named ''node-a''"])
      (simp_all add: env_refusing_def not_joined_def expected_has_def)
qed

end
