(* ===== verification/Machine_Names.thy ===== *)
theory Machine_Names
  imports Member_Leave "HOL-Library.Log_Nat"
begin

text \<open>
  What a control-plane Machine is called, in which order Machines are taken, and what of the
  machine template is carried onto Machines that already exist: \<open>machine_names.go\<close>,
  \<open>node_drain.go\<close>, \<open>machine_metadata.go\<close>.

  The order of the control-plane Machines is a class instance: \<open>machine_age\<close> is ordered by
  the comparator of \<open>sortMachinesOldestFirst\<close>, and that instance is the proof that the
  comparator is a linear order, which \<open>sort.SliceStable\<close> needs.
\<close>


section \<open>Names\<close>

definition machine_name_suffix_length :: nat where "machine_name_suffix_length = 5"

definition machine_name_prefix_max :: nat where
  "machine_name_prefix_max = 63 - 1 - machine_name_suffix_length"

definition machine_name_attempts :: nat where "machine_name_attempts = 5"

definition machine_name_from :: "string \<Rightarrow> string \<Rightarrow> string" where
  "machine_name_from kcpName sfx =
     (let pfx = replace_char CHR ''.'' CHR ''-'' kcpName;
          pfx = (if length pfx > machine_name_prefix_max
                    then trim_right CHR ''-'' (take machine_name_prefix_max pfx) else pfx)
      in pfx @ ''-'' @ sfx)"

text \<open>The random part is one draw of the random source.\<close>

definition newControlPlaneMachineName :: "env \<Rightarrow> string \<Rightarrow> string op" where
  "newControlPlaneMachineName E kcpName =
     bindA tick (\<lambda>n. ret (machine_name_from kcpName (e_suffix E n)))"

text \<open>The shapes Kubernetes gives names: a DNS-1123 label, and a subdomain, which is one or
  more labels joined by dots.\<close>

definition alnum :: "char \<Rightarrow> bool" where
  "alnum c \<longleftrightarrow> is_lower c \<or> is_digit c"

definition label_char :: "char \<Rightarrow> bool" where
  "label_char c \<longleftrightarrow> alnum c \<or> c = CHR ''-''"

definition dns_label :: "string \<Rightarrow> bool" where
  "dns_label s \<longleftrightarrow> s \<noteq> [] \<and> length s \<le> 63 \<and> list_all label_char s \<and> alnum (hd s) \<and> alnum (last s)"

definition dns_subdomain :: "string \<Rightarrow> bool" where
  "dns_subdomain s \<longleftrightarrow> s \<noteq> [] \<and> length s \<le> 253 \<and> list_all (\<lambda>c. label_char c \<or> c = CHR ''.'') s \<and>
     alnum (hd s) \<and> alnum (last s)"

lemma dash_not_alnum [simp]: "\<not> alnum CHR ''-''" "\<not> alnum CHR ''.''"
  by (simp_all add: alnum_def char_class_defs less_eq_char_def)

lemma set_replace_char:
  "list_all (\<lambda>c. P c \<or> c = a) s \<Longrightarrow> P b \<Longrightarrow> list_all P (replace_char a b s)"
  by (auto simp: replace_char_def list_all_iff)

lemma hd_replace_char: "s \<noteq> [] \<Longrightarrow> hd s \<noteq> a \<Longrightarrow> hd (replace_char a b s) = hd s"
  by (cases s) (auto simp: replace_char_def)

lemma trim_right_nonempty: "s \<noteq> [] \<Longrightarrow> hd s \<noteq> c \<Longrightarrow> trim_right c s \<noteq> [] \<and> hd (trim_right c s) = hd s"
proof -
  assume s: "s \<noteq> []" "hd s \<noteq> c"
  then have ne: "trim_right c s \<noteq> []"
    by (simp add: trim_right_def dropWhile_eq_Nil_conv) (metis hd_in_set)
  moreover obtain zs where "s = trim_right c s @ zs"
    using trim_right_prefix [of c s] by (auto simp: prefix_def)
  ultimately show ?thesis by (metis hd_append2)
qed

text \<open>
  Whatever the name of the control plane, the name of a new Machine is a DNS-1123 label
  of at most 63 characters (the shape a hostname must have), and it ends in a dash and the
  random suffix, so two Machines with different suffixes never share a name.
\<close>

theorem machine_name_is_label:
  assumes "dns_subdomain kcpName" "length sfx = 5" "list_all alnum sfx"
  shows "dns_label (machine_name_from kcpName sfx) \<and>
    (\<exists>pfx. machine_name_from kcpName sfx = pfx @ ''-'' @ sfx \<and> pfx \<noteq> []) \<and>
    (\<forall>other. length other = 5 \<longrightarrow>
       (machine_name_from kcpName other = machine_name_from kcpName sfx) = (other = sfx))"
proof -
  let ?p = "replace_char CHR ''.'' CHR ''-'' kcpName"
  define pfx where "pfx = (if length ?p > machine_name_prefix_max
      then trim_right CHR ''-'' (take machine_name_prefix_max ?p) else ?p)"
  have form: "machine_name_from kcpName x = pfx @ ''-'' @ x" for x
    by (simp add: machine_name_from_def pfx_def Let_def)
  have max: "machine_name_prefix_max = 57"
    by (simp add: machine_name_prefix_max_def machine_name_suffix_length_def)
  have k: "kcpName \<noteq> []" "alnum (hd kcpName)" "list_all (\<lambda>c. label_char c \<or> c = CHR ''.'') kcpName"
    using assms(1) by (auto simp: dns_subdomain_def)
  have "hd kcpName \<noteq> CHR ''.''" using k(2) by auto
  then have "hd ?p = hd kcpName" using k(1) by (rule hd_replace_char [rotated])
  moreover have "list_all label_char ?p"
    by (rule set_replace_char [OF k(3)]) (simp add: label_char_def)
  ultimately have p: "?p \<noteq> []" "alnum (hd ?p)" "list_all label_char ?p"
    using k by (auto simp: replace_char_def)
  have t: "take 57 ?p \<noteq> []" "hd (take 57 ?p) = hd ?p" using p(1) by (cases ?p; simp)+
  have dash: "hd ?p \<noteq> CHR ''-''" using p(2) by auto
  have cut: "trim_right CHR ''-'' (take 57 ?p) \<noteq> [] \<and> hd (trim_right CHR ''-'' (take 57 ?p)) = hd ?p"
    using trim_right_nonempty [of "take 57 ?p" "CHR ''-''"] t dash by simp
  have pre: "pfx \<noteq> []" "hd pfx = hd ?p" "length pfx \<le> 57" "list_all label_char pfx"
    using p t cut length_trim_right [of "CHR ''-''" "take 57 ?p"]
      set_trim_right [of "CHR ''-''" "take 57 ?p"] set_take_subset [of 57 ?p]
    by (auto simp: pfx_def max list_all_iff)
  have suf: "sfx \<noteq> []" using assms(2) by auto
  have "dns_label (pfx @ ''-'' @ sfx)"
    using pre p(2) assms(2,3) suf
    by (auto simp: dns_label_def label_char_def list_all_iff)
  with pre(1) show ?thesis by (auto simp: form)
qed


section \<open>The order of the Machines\<close>

text \<open>What \<open>sortMachinesOldestFirst\<close> compares: the creation time, then the name.\<close>

datatype machine_age = Age time string

instantiation machine_age :: linorder
begin

fun less_machine_age :: "machine_age \<Rightarrow> machine_age \<Rightarrow> bool" where
  "less_machine_age (Age ti ni) (Age tj nj) = (if ti \<noteq> tj then ti < tj else ni < nj)"

definition less_eq_machine_age :: "machine_age \<Rightarrow> machine_age \<Rightarrow> bool" where
  "less_eq_machine_age a b \<longleftrightarrow> a < b \<or> a = b"

instance
proof
  fix a b c :: machine_age
  show "(a < b) = (a \<le> b \<and> \<not> b \<le> a)"
    by (cases a; cases b) (auto simp: less_eq_machine_age_def)
  show "a \<le> a" by (simp add: less_eq_machine_age_def)
  show "a \<le> c" if "a \<le> b" "b \<le> c"
    using that by (cases a; cases b; cases c) (auto simp: less_eq_machine_age_def split: if_splits)
  show "a = b" if "a \<le> b" "b \<le> a"
    using that by (cases a; cases b) (auto simp: less_eq_machine_age_def split: if_splits)
  show "a \<le> b \<or> b \<le> a"
    by (cases a; cases b) (auto simp: less_eq_machine_age_def)
qed

end

definition age :: "machine \<Rightarrow> machine_age" where
  "age m = Age (m_created m) (m_name m)"

definition sortMachinesOldestFirst :: "machine list \<Rightarrow> machine list" where
  "sortMachinesOldestFirst ms = sort_key age ms"

lemma age_less: "age a < age b \<longleftrightarrow>
    m_created a < m_created b \<or> (m_created a = m_created b \<and> m_name a < m_name b)"
  by (auto simp: age_def)

lemma set_sorted [simp]: "set (sortMachinesOldestFirst ms) = set ms"
  by (simp add: sortMachinesOldestFirst_def)

lemma length_sorted [simp]: "length (sortMachinesOldestFirst ms) = length ms"
  by (simp add: sortMachinesOldestFirst_def)

text \<open>
  The Machines are taken in one order that does not depend on the order the API server
  listed them in, as long as no two share a name: it is the same for any two listings of the
  same Machines, and each Machine comes before those created after it, the name deciding
  within a second.
\<close>

theorem machine_order_is_canonical:
  assumes "mset ms = mset ms'" "distinct (map m_name ms)"
  shows "sortMachinesOldestFirst ms = sortMachinesOldestFirst ms' \<and>
    mset (sortMachinesOldestFirst ms) = mset ms \<and>
    sorted_wrt (\<lambda>a b. m_created a < m_created b \<or> (m_created a = m_created b \<and> m_name a < m_name b))
      (sortMachinesOldestFirst ms)"
proof -
  let ?s = "sortMachinesOldestFirst ms" and ?s' = "sortMachinesOldestFirst ms'"
  have inj: "inj_on age (set ms)"
    using assms(2) by (auto simp: distinct_map inj_on_def age_def)
  have sets: "set ?s = set ms" "set ?s' = set ms" using assms(1) by (auto dest: mset_eq_setD)
  have perm: "mset ?s = mset ms" "mset ?s' = mset ms"
    using assms(1) by (simp_all add: sortMachinesOldestFirst_def)
  have "distinct (map age ms)"
    using assms(2) inj by (simp add: distinct_map)
  then have dist: "distinct (map age ?s)" "distinct (map age ?s')"
    using perm by (metis mset_map mset_eq_imp_distinct_iff)+
  have sorts: "sorted (map age ?s)" "sorted (map age ?s')"
    by (simp_all add: sortMachinesOldestFirst_def)
  have "map age ?s = map age ?s'"
    using sorts dist sets by (intro sorted_distinct_set_unique) auto
  then have "?s = ?s'"
    using inj sets by (intro map_inj_on [of age ?s ?s']) auto
  moreover have "sorted_wrt (<) (map age ?s)"
    using sorts(1) dist(1) by (simp add: strict_sorted_iff)
  then have "sorted_wrt (\<lambda>a b. m_created a < m_created b \<or> (m_created a = m_created b \<and> m_name a < m_name b)) ?s"
    by (simp add: sorted_wrt_map age_less)
  moreover note perm(1)
  ultimately show ?thesis by simp
qed


section \<open>The drain deadline\<close>

text \<open>
  \<open>int64(d.Seconds())\<close>. \<open>Seconds\<close> is a \<open>float64\<close>: the whole seconds plus the rest, the rest
  and the sum each rounded to 53 significant bits. The conversion cuts towards zero, so the
  result is the whole seconds, except that a sum within half a unit in the last place of the
  next second rounds up to it. With \<open>r\<close> the rest in units of \<open>2^-53\<close>, that is when the gap
  \<open>2^53 - r\<close> is at most \<open>2^e\<close>, for \<open>2^e\<close> the largest power of two in the whole seconds (a
  tie goes to the whole second, whose significand is even).
\<close>

definition round_half_even :: "int \<Rightarrow> int \<Rightarrow> int" where
  "round_half_even a b =
     (let q = a div b; r = a mod b in
      if 2 * r < b \<or> (2 * r = b \<and> even q) then q else q + 1)"

definition whole_seconds :: "duration \<Rightarrow> int" where
  "whole_seconds d =
     (let s = d div ns_per_s; r = round_half_even (d mod ns_per_s * 2 ^ 53) ns_per_s in
      if 1 \<le> s \<and> 2 ^ 53 - r \<le> 2 ^ (floorlog 2 (nat s) - 1) then s + 1 else s)"

definition int64_seconds :: "duration \<Rightarrow> int" where
  "int64_seconds d = (if d < 0 then - whole_seconds (- d) else whole_seconds d)"

definition nodeDrainTimeoutSeconds :: "duration option \<Rightarrow> int option" where
  "nodeDrainTimeoutSeconds d =
     (case d of
        None \<Rightarrow> None
      | Some d \<Rightarrow>
          let s = int64_seconds d in
          Some (if s < 0 then 0 else if s > int32_max then int32_max else s))"

text \<open>Each Machine whose deadline differs is patched; the in-memory Machines take it on.\<close>

definition reconcileNodeDrainTimeout :: "env \<Rightarrow> machine list \<Rightarrow> machine list op" where
  "reconcileNodeDrainTimeout E ms =
     bindA get_kcp (\<lambda>k.
     let desired = nodeDrainTimeoutSeconds (k_drain k) in
     mapA (\<lambda>m. if m_drain m = desired then ret m
       else bindA (mgmt_write E (DrainPatched (m_name m) desired)) (\<lambda>_. ret (m\<lparr>m_drain := desired\<rparr>))) ms)"

lemma round_half_even_le: "0 < b \<Longrightarrow> round_half_even a b \<le> a div b + 1"
  by (simp add: round_half_even_def Let_def)

lemma whole_seconds_cases: "whole_seconds d = d div ns_per_s \<or> whole_seconds d = d div ns_per_s + 1"
  by (simp add: whole_seconds_def Let_def)

lemma whole_seconds_exact:
  assumes "0 \<le> d" "d < 2 ^ 24 * ns_per_s"
  shows "whole_seconds d = d div ns_per_s"
proof -
  let ?s = "d div ns_per_s" and ?r = "round_half_even (d mod ns_per_s * 2 ^ 53) ns_per_s"
  have s: "0 \<le> ?s" "?s < 2 ^ 24" using assms by (auto simp: ns_per_s_def)
  have "d mod ns_per_s \<le> 999999999" by (simp add: ns_per_s_def)
  then have "d mod ns_per_s * 2 ^ 53 div ns_per_s \<le> 999999999 * 2 ^ 53 div ns_per_s"
    by (intro zdiv_mono1) (simp_all add: ns_per_s_def)
  then have "?r \<le> 999999999 * 2 ^ 53 div ns_per_s + 1"
    using round_half_even_le [of ns_per_s "d mod ns_per_s * 2 ^ 53"] by (simp add: ns_per_s_def)
  then have gap: "2 ^ 53 - ?r \<ge> 9000000" by (simp add: ns_per_s_def)
  have "floorlog 2 (nat ?s) \<le> 24"
    using s by (intro floorlog_leI) (auto simp: nat_less_iff)
  then have "floorlog 2 (nat ?s) - 1 \<le> 23" by simp
  then have "(2 :: int) ^ (floorlog 2 (nat ?s) - 1) \<le> 2 ^ 23" by (intro power_increasing) auto
  with gap show ?thesis by (simp add: whole_seconds_def Let_def)
qed

text \<open>
  The drain deadline put on a Machine always lies in the range the API server accepts
  (\<open>int32\<close>, at least 0), is never lost or invented, and is the whole seconds of the timeout
  as long as that is below 194 days; a negative timeout reads as 0 and one beyond the range
  as its end, so no timeout wraps around into a short one.
\<close>

theorem drain_deadline_in_range:
  "nodeDrainTimeoutSeconds None = None \<and>
   (\<exists>n. nodeDrainTimeoutSeconds (Some d) = Some n \<and> 0 \<le> n \<and> n \<le> int32_max \<and>
     (d \<le> 0 \<longrightarrow> n = 0) \<and>
     (0 \<le> d \<and> d < 2 ^ 24 * ns_per_s \<longrightarrow> n = d div ns_per_s) \<and>
     (int32_max * ns_per_s \<le> d \<longrightarrow> n = int32_max))"
proof -
  have neg: "int64_seconds d \<le> 0" if "d \<le> 0"
  proof (cases "d = 0")
    case True
    then show ?thesis by (simp add: int64_seconds_def whole_seconds_def Let_def)
  next
    case False
    then have "0 \<le> (- d) div ns_per_s" using that by (intro pos_imp_zdiv_nonneg_iff [THEN iffD2]) (auto simp: ns_per_s_def)
    then show ?thesis using whole_seconds_cases [of "- d"] False that by (auto simp: int64_seconds_def)
  qed
  have small: "int64_seconds d = d div ns_per_s" if "0 \<le> d" "d < 2 ^ 24 * ns_per_s"
    using that whole_seconds_exact by (simp add: int64_seconds_def)
  have big: "int32_max \<le> int64_seconds d" if "int32_max * ns_per_s \<le> d"
  proof -
    have "int32_max \<le> d div ns_per_s"
      using zdiv_mono1 [OF that, of ns_per_s] by (simp add: ns_per_s_def)
    moreover have "0 \<le> d" using that by (simp add: ns_per_s_def int32_max_def)
    ultimately show ?thesis using whole_seconds_cases [of d] by (auto simp: int64_seconds_def)
  qed
  have le: "d div ns_per_s \<le> int32_max" if "d < 2 ^ 24 * ns_per_s"
    using that by (simp add: ns_per_s_def int32_max_def)
  have pos: "0 \<le> int32_max" by (simp add: int32_max_def)
  have nn: "0 \<le> d div ns_per_s" if "0 \<le> d" using that by (simp add: ns_per_s_def)
  define s where "s = int64_seconds d"
  define n where "n = (if s < 0 then 0 else if s > int32_max then int32_max else s)"
  have "nodeDrainTimeoutSeconds (Some d) = Some n"
    by (simp add: nodeDrainTimeoutSeconds_def Let_def n_def s_def)
  moreover have "0 \<le> n \<and> n \<le> int32_max" using pos by (simp add: n_def)
  moreover have "d \<le> 0 \<longrightarrow> n = 0"
  proof
    assume "d \<le> 0"
    then have "s \<le> 0" using neg by (simp add: s_def)
    then show "n = 0" using pos by (auto simp: n_def)
  qed
  moreover have "0 \<le> d \<and> d < 2 ^ 24 * ns_per_s \<longrightarrow> n = d div ns_per_s"
    using small le nn unfolding n_def s_def by (metis not_le)
  moreover have "int32_max * ns_per_s \<le> d \<longrightarrow> n = int32_max"
  proof
    assume "int32_max * ns_per_s \<le> d"
    then have "int32_max \<le> s" using big by (simp add: s_def)
    then show "n = int32_max" using pos by (auto simp: n_def)
  qed
  ultimately show ?thesis by (simp add: nodeDrainTimeoutSeconds_def)
qed



section \<open>Machine metadata\<close>

definition cluster_name_label :: string where "cluster_name_label = ''cluster.x-k8s.io/cluster-name''"

definition control_plane_label :: string where "control_plane_label = ''cluster.x-k8s.io/control-plane''"

lemma label_keys_differ [simp]:
  "cluster_name_label \<noteq> control_plane_label" "control_plane_label \<noteq> cluster_name_label"
  by (simp_all add: cluster_name_label_def control_plane_label_def)

text \<open>The labels and annotations of the template as lists of a Go map's entries; the two
  labels the controller selects Machines by replace the template's.\<close>

definition controlPlaneMachineLabels :: "kcp \<Rightarrow> string \<Rightarrow> (string \<times> string) list" where
  "controlPlaneMachineLabels k clusterName =
     filter (\<lambda>kv. fst kv \<notin> {cluster_name_label, control_plane_label}) (k_meta_labels k) @
     [(cluster_name_label, clusterName), (control_plane_label, [])]"

definition controlPlaneMachineAnnotations :: "kcp \<Rightarrow> (string \<times> string) list" where
  "controlPlaneMachineAnnotations k = k_meta_annotations k"

definition missing_in :: "(string \<rightharpoonup> string) \<Rightarrow> (string \<times> string) list \<Rightarrow> (string \<times> string) list" where
  "missing_in m kvs = filter (\<lambda>kv. m (fst kv) \<noteq> Some (snd kv)) kvs"

definition reconcileMachineMetadata :: "env \<Rightarrow> cluster \<Rightarrow> machine list \<Rightarrow> machine list op" where
  "reconcileMachineMetadata E cl ms =
     bindA get_kcp (\<lambda>k.
     let desiredLabels = controlPlaneMachineLabels k (c_name cl);
         desiredAnnotations = controlPlaneMachineAnnotations k
     in mapA (\<lambda>m.
       let ls = missing_in (m_labels m) desiredLabels;
           as = missing_in (m_annotations m) desiredAnnotations
       in if ls = [] \<and> as = [] then ret m
          else bindA (mgmt_write E (MetadataPatched (m_name m) ls as)) (\<lambda>_.
            ret (m\<lparr>m_labels := upd_all (m_labels m) ls, m_annotations := upd_all (m_annotations m) as\<rparr>))) ms)"

lemma upd_all_map_of: "distinct (map fst kvs) \<Longrightarrow> upd_all m kvs = m ++ map_of kvs"
proof (induction kvs arbitrary: m)
  case (Cons kv kvs)
  obtain k v where kv: "kv = (k, v)" by (cases kv)
  with Cons have "k \<notin> dom (map_of kvs)" by (auto simp: dom_map_of_conv_image_fst)
  with Cons kv show ?case by (auto simp: fun_eq_iff map_add_def split: option.splits)
qed (simp add: fun_eq_iff map_add_def)

lemma distinct_missing: "distinct (map fst kvs) \<Longrightarrow> distinct (map fst (missing_in m kvs))"
  unfolding missing_in_def by (induction kvs) auto

lemma upd_missing:
  assumes "distinct (map fst kvs)"
  shows "upd_all m (missing_in m kvs) = m ++ map_of kvs"
proof
  fix key
  have dist: "distinct (map fst (missing_in m kvs))" using assms by (rule distinct_missing)
  show "upd_all m (missing_in m kvs) key = (m ++ map_of kvs) key"
  proof (cases "map_of kvs key")
    case None
    then have "map_of (missing_in m kvs) key = None"
      by (auto simp: missing_in_def map_of_eq_None_iff)
    with None show ?thesis by (simp add: upd_all_map_of [OF dist] map_add_def)
  next
    case (Some v)
    then have "(key, v) \<in> set kvs" by (rule map_of_SomeD)
    then have "map_of (missing_in m kvs) key = (if m key = Some v then None else Some v)"
      using assms Some dist
      by (auto simp: missing_in_def map_of_eq_None_iff eq_key_imp_eq_value)
    with Some show ?thesis by (simp add: upd_all_map_of [OF dist] map_add_def)
  qed
qed


text \<open>
  Once the metadata of the Machines was reconciled, every Machine has every label and
  annotation the machine template asks for, the two labels the controller selects Machines
  by whatever the template says, and everything else it had: nothing is removed, so an
  etcd-leave hook or a stamp of the leave handshake survives.
\<close>

theorem metadata_merge_is_additive:
  assumes "reconcileMachineMetadata E cl ms s = (Inr ms', s')"
    and "distinct (map fst (k_meta_labels (s_kcp s)))" "distinct (map fst (k_meta_annotations (s_kcp s)))"
  shows "list_all2 (\<lambda>m m'. m' = m\<lparr>
      m_labels := m_labels m ++ map_of (k_meta_labels (s_kcp s)) ++
        [cluster_name_label \<mapsto> c_name cl, control_plane_label \<mapsto> []],
      m_annotations := m_annotations m ++ map_of (k_meta_annotations (s_kcp s))\<rparr> \<and>
      (hasEtcdLeaveHook m \<longrightarrow> hasEtcdLeaveHook m')) ms ms'"
proof -
  let ?ls = "controlPlaneMachineLabels (s_kcp s) (c_name cl)"
  have dl: "distinct (map fst ?ls)"
    using assms(2) by (auto simp: controlPlaneMachineLabels_def distinct_map_filter)
  have labels: "f ++ map_of ?ls = f ++ map_of (k_meta_labels (s_kcp s)) ++
      [cluster_name_label \<mapsto> c_name cl, control_plane_label \<mapsto> []]" for f :: "string \<rightharpoonup> string"
  proof
    fix key
    have "map_of (filter (\<lambda>kv. fst kv \<notin> {cluster_name_label, control_plane_label}) kvs) key =
        (if key \<in> {cluster_name_label, control_plane_label} then None else map_of kvs key)"
      for kvs :: "(string \<times> string) list"
      by (induction kvs) auto
    then show "(f ++ map_of ?ls) key = (f ++ map_of (k_meta_labels (s_kcp s)) ++
        [cluster_name_label \<mapsto> c_name cl, control_plane_label \<mapsto> []]) key"
      by (auto simp: controlPlaneMachineLabels_def map_add_def split: option.splits)
  qed
  have as: "distinct (map fst (controlPlaneMachineAnnotations (s_kcp s)))"
    using assms(3) by (simp add: controlPlaneMachineAnnotations_def)
  let ?as = "controlPlaneMachineAnnotations (s_kcp s)"
  define merged where "merged m = m\<lparr>m_labels := m_labels m ++ map_of ?ls,
      m_annotations := m_annotations m ++ map_of ?as\<rparr>" for m :: machine
  have same: "merged m = m" if "missing_in (m_labels m) ?ls = []" "missing_in (m_annotations m) ?as = []" for m :: machine
    using upd_missing [OF dl, of "m_labels m"] upd_missing [OF as, of "m_annotations m"] that
    by (cases m) (simp add: merged_def)
  have "list_all2 (\<lambda>m m'. m' = merged m) ms ms'"
  proof (rule mapA_post [OF assms(1) [unfolded reconcileMachineMetadata_def run_get_kcp Let_def]])
    fix m m' :: machine and s1 s2 :: st
    assume "(if missing_in (m_labels m) ?ls = [] \<and> missing_in (m_annotations m) ?as = [] then ret m
        else bindA (mgmt_write E (MetadataPatched (m_name m) (missing_in (m_labels m) ?ls)
               (missing_in (m_annotations m) ?as)))
          (\<lambda>_. ret (m\<lparr>m_labels := upd_all (m_labels m) (missing_in (m_labels m) ?ls),
             m_annotations := upd_all (m_annotations m) (missing_in (m_annotations m) ?as)\<rparr>))) s1 = (Inr m', s2)"
    then show "m' = merged m"
      using same [of m] by (auto simp: merged_def upd_missing dl as ret_def dest!: bindA_inv_Inr split: if_splits)
  qed
  moreover have "hasEtcdLeaveHook (merged m)" if "hasEtcdLeaveHook m" for m
    using that by (auto simp: merged_def hasEtcdLeaveHook_def map_add_def split: option.splits)
  ultimately have "list_all2 (\<lambda>m m'. m' = merged m \<and> (hasEtcdLeaveHook m \<longrightarrow> hasEtcdLeaveHook m')) ms ms'"
    by (auto elim!: list_all2_mono)
  then show ?thesis by (simp add: merged_def labels controlPlaneMachineAnnotations_def)
qed


section \<open>Guarantees\<close>

lemma upkeep_freeze [freeze_rules]:
  "guards freeze_ok (newControlPlaneMachineName E n)"
  "guards freeze_ok (reconcileNodeDrainTimeout E ms)"
  "guards freeze_ok (reconcileMachineMetadata E cl ms)"
  unfolding newControlPlaneMachineName_def reconcileNodeDrainTimeout_def reconcileMachineMetadata_def Let_def
  by (intro frz.flow frz.map_guards guards_intros freeze_rules mgmt_write_freeze; simp)+

lemma upkeep_quiet [quiet_rules]:
  "guards same_annotations (newControlPlaneMachineName E n)"
  "guards same_annotations (reconcileNodeDrainTimeout E ms)"
  "guards same_annotations (reconcileMachineMetadata E cl ms)"
  unfolding newControlPlaneMachineName_def reconcileNodeDrainTimeout_def reconcileMachineMetadata_def Let_def
  by (intro quiet.flow quiet.map_guards guards_intros quiet_rules)+

end
