(* ===== verification/Infra_Clone.thy ===== *)
theory Infra_Clone
  imports Machine_Names "HOL-Library.AList"
begin

text \<open>
  Cloning an infrastructure machine from its template: \<open>internal/infrastructure/clone.go\<close>.

  Templates are unstructured objects; \<open>json\<close> is their content, an object's fields a list
  without repeated keys. The helpers of \<open>unstructured\<close> the source calls are here too:
  \<open>NestedMap\<close> and \<open>NestedBool\<close> (found or not; the source ignores their error) and
  \<open>SetNestedField\<close>, which fails when a field on the way is not an object.
\<close>


section \<open>Unstructured content\<close>

fun as_map :: "json \<Rightarrow> (string \<times> json) list option" where
  "as_map (JObj kvs) = Some kvs"
| "as_map _ = None"

fun as_bool :: "json \<Rightarrow> bool option" where
  "as_bool (JBool b) = Some b"
| "as_bool _ = None"

fun as_string :: "json \<Rightarrow> string option" where
  "as_string (JStr s) = Some s"
| "as_string _ = None"

fun nested :: "string list \<Rightarrow> json \<Rightarrow> json option" where
  "nested [] j = Some j"
| "nested (f # fs) j = Option.bind (as_map j) (\<lambda>kvs. Option.bind (map_of kvs f) (nested fs))"

definition nested_map :: "string list \<Rightarrow> json \<Rightarrow> (string \<times> json) list option" where
  "nested_map fs j = Option.bind (nested fs j) as_map"

definition nested_bool :: "string list \<Rightarrow> json \<Rightarrow> bool option" where
  "nested_bool fs j = Option.bind (nested fs j) as_bool"

fun set_nested :: "string list \<Rightarrow> json \<Rightarrow> json \<Rightarrow> json option" where
  "set_nested [] v j = Some v"
| "set_nested (f # fs) v j =
     Option.bind (as_map j) (\<lambda>kvs.
     map_option (\<lambda>sub. JObj (AList.update f sub kvs))
       (set_nested fs v (case map_of kvs f of None \<Rightarrow> JObj [] | Some sub \<Rightarrow> sub)))"

text \<open>A change of one field's value, where the object has the field.\<close>

fun at_field :: "string \<Rightarrow> (json \<Rightarrow> json) \<Rightarrow> json \<Rightarrow> json" where
  "at_field k f (JObj kvs) = JObj (map (\<lambda>(x, v). (x, if x = k then f v else v)) kvs)"
| "at_field k f j = j"

fun filter_list :: "(json \<Rightarrow> bool) \<Rightarrow> json \<Rightarrow> json" where
  "filter_list P (JArr js) = JArr (filter P js)"
| "filter_list P j = j"

definition cut_suffix :: "string \<Rightarrow> string \<Rightarrow> string option" where
  "cut_suffix s sfx =
     (if sfx = drop (length s - length sfx) s then Some (take (length s - length sfx) s) else None)"


section \<open>Cloning\<close>

definition infra_group :: string where "infra_group = ''infrastructure.cluster.x-k8s.io''"

definition spec_path :: "string list" where "spec_path = [''spec'', ''template'', ''spec'']"

text \<open>What every clone starts as, and the copy of \<open>spec.template.spec\<close> when the template has one.\<close>

record clone_target =
  ct_name :: string
  ct_namespace :: string
  ct_labels :: "(string \<times> string) list"
  ct_annotations :: "(string \<times> string) list"

definition new_infra :: "string \<Rightarrow> string \<Rightarrow> string \<Rightarrow> clone_target \<Rightarrow> infra_object" where
  "new_infra grp version kind ct =
     \<lparr>io_group = grp, io_version = version, io_kind = kind, io_name = ct_name ct,
      io_namespace = ct_namespace ct, io_labels = ct_labels ct, io_annotations = ct_annotations ct,
      io_content = JObj []\<rparr>"

definition set_content :: "string list \<Rightarrow> json \<Rightarrow> infra_object \<Rightarrow> err + infra_object" where
  "set_content fs v io =
     (case set_nested fs v (io_content io) of
        None \<Rightarrow> Inl (Failed ''failed to set spec'')
      | Some c \<Rightarrow> Inr (io\<lparr>io_content := c\<rparr>))"

definition copy_spec :: "infra_template \<Rightarrow> infra_object \<Rightarrow> err + infra_object" where
  "copy_spec t io =
     (case nested_map spec_path (it_content t) of
        None \<Rightarrow> Inr io
      | Some spec \<Rightarrow> set_content [''spec''] (JObj spec) io)"

definition version_or :: "string \<Rightarrow> infra_template \<Rightarrow> string" where
  "version_or v t = (if it_version t = [] then v else it_version t)"

definition cloneDockerMachineTemplate :: "infra_template \<Rightarrow> clone_target \<Rightarrow> err + infra_object" where
  "cloneDockerMachineTemplate t ct = copy_spec t (new_infra infra_group ''v1beta1'' ''DockerMachine'' ct)"

definition cloneVSphereMachineTemplate :: "infra_template \<Rightarrow> clone_target \<Rightarrow> err + infra_object" where
  "cloneVSphereMachineTemplate t ct = copy_spec t (new_infra infra_group ''v1beta1'' ''VSphereMachine'' ct)"

definition cloneMetal3MachineTemplate :: "infra_template \<Rightarrow> clone_target \<Rightarrow> err + infra_object" where
  "cloneMetal3MachineTemplate t ct =
     copy_spec t (new_infra infra_group (version_or ''v1beta2'' t) ''Metal3Machine'' ct)"

definition cloneKairosFleetMachineTemplate :: "infra_template \<Rightarrow> clone_target \<Rightarrow> err + infra_object" where
  "cloneKairosFleetMachineTemplate t ct =
     copy_spec t (new_infra infra_group (version_or ''v1alpha1'' t) ''KairosFleetMachine'' ct)"

definition cloneGenericMachineTemplate :: "infra_template \<Rightarrow> clone_target \<Rightarrow> err + infra_object" where
  "cloneGenericMachineTemplate t ct =
     (case cut_suffix (it_kind t) ''Template'' of
        None \<Rightarrow> Inl (Failed ''cannot derive an infrastructure machine kind'')
      | Some kind \<Rightarrow>
          if kind = [] then Inl (Failed ''cannot derive an infrastructure machine kind'')
          else if it_version t = [] then Inl (Failed ''infrastructure template has no apiVersion'')
          else copy_spec t (new_infra (it_group t) (it_version t) kind ct))"

text \<open>
  KubeVirt: the bootstrap check of the template or \<open>none\<close>, and the virtual machine template
  without the cloud-init volumes and disk, which CAPK adds itself.
\<close>

definition bootstrap_check :: "infra_template \<Rightarrow> (string \<times> json) list" where
  "bootstrap_check t =
     (case nested_map (spec_path @ [''virtualMachineBootstrapCheck'']) (it_content t) of
        Some kvs \<Rightarrow> if kvs \<noteq> [] then kvs else [(''checkStrategy'', JStr ''none'')]
      | None \<Rightarrow> [(''checkStrategy'', JStr ''none'')])"

definition keep_volume :: "json \<Rightarrow> bool" where
  "keep_volume v = (case as_map v of None \<Rightarrow> True | Some kvs \<Rightarrow> map_of kvs ''cloudInitNoCloud'' = None)"

definition keep_disk :: "json \<Rightarrow> bool" where
  "keep_disk d = (nested [''name''] d \<noteq> Some (JStr ''cloudinitdisk''))"

definition filter_vm_spec :: "json \<Rightarrow> json" where
  "filter_vm_spec =
     at_field ''template'' (\<lambda>t.
       at_field ''domain'' (at_field ''devices'' (at_field ''disks'' (filter_list keep_disk)))
         (at_field ''volumes'' (filter_list keep_volume) t))"

definition vm_spec_path :: "string list" where
  "vm_spec_path = [''spec'', ''virtualMachineTemplate'', ''spec'']"

definition cloneKubevirtMachineTemplate :: "infra_template \<Rightarrow> clone_target \<Rightarrow> err + infra_object" where
  "cloneKubevirtMachineTemplate t ct =
     (case set_content [''spec'', ''virtualMachineBootstrapCheck''] (JObj (bootstrap_check t))
             (new_infra infra_group (version_or ''v1alpha1'' t) ''KubevirtMachine'' ct) of
        Inl e \<Rightarrow> Inl e
      | Inr io \<Rightarrow>
          (case nested_map (spec_path @ [''virtualMachineTemplate'', ''spec'']) (it_content t) of
             None \<Rightarrow> Inr io
           | Some vm \<Rightarrow>
               (case (case nested_bool [''running''] (JObj vm) of
                        None \<Rightarrow> Inr io
                      | Some b \<Rightarrow> set_content (vm_spec_path @ [''running'']) (JBool b) io) of
                  Inl e \<Rightarrow> Inl e
                | Inr io \<Rightarrow> set_content vm_spec_path (filter_vm_spec (JObj vm)) io)))"

definition clone_by_kind :: "string \<Rightarrow> infra_template \<Rightarrow> clone_target \<Rightarrow> err + infra_object" where
  "clone_by_kind kind =
     (if kind = ''DockerMachineTemplate'' then cloneDockerMachineTemplate
      else if kind = ''VSphereMachineTemplate'' then cloneVSphereMachineTemplate
      else if kind = ''KubevirtMachineTemplate'' \<or> kind = ''KubeVirtMachineTemplate''
        then cloneKubevirtMachineTemplate
      else if kind = ''Metal3MachineTemplate'' then cloneMetal3MachineTemplate
      else if kind = ''KairosFleetMachineTemplate'' then cloneKairosFleetMachineTemplate
      else cloneGenericMachineTemplate)"

text \<open>\<open>getTemplateObject\<close> reads the template the reference names; \<open>liftR\<close> returns a result
  of a pure step.\<close>

definition liftR :: "err + 'a \<Rightarrow> 'a op" where
  "liftR r = (case r of Inl e \<Rightarrow> throw e | Inr x \<Rightarrow> ret x)"

definition CloneInfrastructureMachine :: "env \<Rightarrow> string \<Rightarrow> string \<Rightarrow> clone_target \<Rightarrow> infra_object op" where
  "CloneInfrastructureMachine E kind name ct =
     bindA (read_api (\<lambda>n. e_infra_template E n kind name)) (\<lambda>t. liftR (clone_by_kind kind t ct))"


section \<open>Properties\<close>

lemma CloneInfrastructureMachine_silent [silent_rules]:
  "guards silent (CloneInfrastructureMachine E kind name ct)"
  unfolding CloneInfrastructureMachine_def liftR_def by (intro silent.flow guards_intros silent_rules)

lemma set_top: "set_nested [f] v (JObj kvs) = Some (JObj (AList.update f v kvs))"
  by simp

lemma nested_top [simp]: "nested [f] (JObj kvs) = map_of kvs f"
  by (cases "map_of kvs f") simp_all

lemma copy_spec_result:
  "io_content io = JObj [] \<Longrightarrow>
   copy_spec t io = Inr (io\<lparr>io_content :=
     (case nested_map spec_path (it_content t) of None \<Rightarrow> JObj [] | Some spec \<Rightarrow> JObj [(''spec'', JObj spec)])\<rparr>)"
  by (auto simp: copy_spec_def set_content_def split: option.splits)

text \<open>
  Outside KubeVirt, the clone has the kind of its template without the suffix
  \<open>Template\<close>, the name, namespace, labels and annotations asked for, and exactly the
  template's \<open>spec.template.spec\<close> as its spec; it fails only for a kind without the suffix or
  a template of an unnamed kind without a version.
\<close>

theorem clone_copies_spec:
  assumes "kind \<noteq> ''KubevirtMachineTemplate''" "kind \<noteq> ''KubeVirtMachineTemplate''" "it_kind t = kind"
  shows "case clone_by_kind kind t ct of
    Inl _ \<Rightarrow> cut_suffix kind ''Template'' \<in> {None, Some []} \<or> it_version t = []
  | Inr io \<Rightarrow> io_kind io @ ''Template'' = kind \<and> io_name io = ct_name ct \<and>
      io_namespace io = ct_namespace ct \<and> io_labels io = ct_labels ct \<and> io_annotations io = ct_annotations ct \<and>
      nested [''spec''] (io_content io) = map_option JObj (nested_map spec_path (it_content t))"
proof -
  have cut: "k @ ''Template'' = s" if "cut_suffix s ''Template'' = Some k" for s k
    using that append_take_drop_id [of "length s - length ''Template''" s]
    unfolding cut_suffix_def by (metis option.distinct(1) option.inject)
  have copied: "case copy_spec t (new_infra g v k ct) of
      Inl _ \<Rightarrow> cut_suffix kind ''Template'' \<in> {None, Some []} \<or> it_version t = []
    | Inr io \<Rightarrow> io_kind io @ ''Template'' = kind \<and> io_name io = ct_name ct \<and>
        io_namespace io = ct_namespace ct \<and> io_labels io = ct_labels ct \<and> io_annotations io = ct_annotations ct \<and>
        nested [''spec''] (io_content io) = map_option JObj (nested_map spec_path (it_content t))"
    if "k @ ''Template'' = kind" for g v k
    using that by (simp add: copy_spec_result new_infra_def split: option.splits)
  show ?thesis
    using assms copied cut [of kind]
    by (auto simp: clone_by_kind_def cloneDockerMachineTemplate_def cloneVSphereMachineTemplate_def
        cloneMetal3MachineTemplate_def cloneKairosFleetMachineTemplate_def cloneGenericMachineTemplate_def
        split: option.splits)
qed


lemma map_of_at: "map_of (map (\<lambda>(x, v). (x, if x = k then f v else v)) kvs) y =
    (if y = k then map_option f (map_of kvs y) else map_of kvs y)"
  by (induction kvs) auto

lemma at_field_map [simp]: "as_map (at_field k f j) =
    map_option (map (\<lambda>(x, v). (x, if x = k then f v else v))) (as_map j)"
  by (cases j) simp_all

lemma nested_at_other: "k \<noteq> k' \<Longrightarrow> nested (k' # fs) (at_field k f j) = nested (k' # fs) j"
  by (cases j) (auto simp: map_of_at)

lemma nested_at_lift:
  "(\<And>v. nested fs (f v) = map_option g (nested fs v)) \<Longrightarrow>
   nested (k # fs) (at_field k f j) = map_option g (nested (k # fs) j)"
  by (cases j) (auto simp: map_of_at split: Option.bind_splits)

lemma filter_vm_volumes:
  "nested [''template'', ''volumes''] (filter_vm_spec j) =
   map_option (filter_list keep_volume) (nested [''template'', ''volumes''] j)"
  unfolding filter_vm_spec_def
  by (intro nested_at_lift) (subst nested_at_other, simp, intro nested_at_lift, simp)

lemma filter_vm_disks:
  "nested [''template'', ''domain'', ''devices'', ''disks''] (filter_vm_spec j) =
   map_option (filter_list keep_disk) (nested [''template'', ''domain'', ''devices'', ''disks''] j)"
proof -
  have "nested [''domain'', ''devices'', ''disks'']
      (at_field ''domain'' (at_field ''devices'' (at_field ''disks'' (filter_list keep_disk))) (at_field ''volumes'' g t)) =
    map_option (filter_list keep_disk) (nested [''domain'', ''devices'', ''disks''] t)" for g t
    by (subst nested_at_lift [where g = "filter_list keep_disk"])
      (intro nested_at_lift, simp, subst nested_at_other, simp_all)
  then show ?thesis unfolding filter_vm_spec_def by (intro nested_at_lift)
qed

lemma filter_vm_other: "k \<noteq> ''template'' \<Longrightarrow> nested (k # fs) (filter_vm_spec j) = nested (k # fs) j"
  unfolding filter_vm_spec_def by (rule nested_at_other) simp

text \<open>
  Cloning a KubevirtMachine never fails; it carries the template's bootstrap check, or
  \<open>none\<close>, and the template's virtual machine spec with every volume and disk in order except
  the cloud-init ones, every other field untouched.
\<close>

theorem kubevirt_clone_drops_cloud_init:
  assumes "nested_map (spec_path @ [''virtualMachineTemplate'', ''spec'']) (it_content t) = Some vm"
  shows "\<exists>io vm'. cloneKubevirtMachineTemplate t ct = Inr io \<and> io_name io = ct_name ct \<and>
    nested [''spec'', ''virtualMachineBootstrapCheck''] (io_content io) = Some (JObj (bootstrap_check t)) \<and>
    nested vm_spec_path (io_content io) = Some vm' \<and>
    nested [''template'', ''volumes''] vm' =
      map_option (filter_list keep_volume) (nested [''template'', ''volumes''] (JObj vm)) \<and>
    nested [''template'', ''domain'', ''devices'', ''disks''] vm' =
      map_option (filter_list keep_disk) (nested [''template'', ''domain'', ''devices'', ''disks''] (JObj vm)) \<and>
    (\<forall>k fs. k \<noteq> ''template'' \<longrightarrow> nested (k # fs) vm' = nested (k # fs) (JObj vm))"
proof -
  let ?c = "JObj (bootstrap_check t)"
  have "\<exists>io. cloneKubevirtMachineTemplate t ct = Inr io \<and> io_name io = ct_name ct \<and>
    nested [''spec'', ''virtualMachineBootstrapCheck''] (io_content io) = Some ?c \<and>
    nested vm_spec_path (io_content io) = Some (filter_vm_spec (JObj vm))"
    unfolding cloneKubevirtMachineTemplate_def
    by (simp add: assms set_content_def new_infra_def vm_spec_path_def update_conv
        split: option.splits)
  then show ?thesis
    using filter_vm_volumes [of "JObj vm"] filter_vm_disks [of "JObj vm"] filter_vm_other [of _ _ "JObj vm"]
    by blast
qed

end
