(* ===== verification/Machine_Create.thy ===== *)
theory Machine_Create
  imports Infra_Clone
begin

text \<open>
  Creating and deleting a control-plane Machine: \<open>createControlPlaneMachine\<close> and what it
  calls (\<open>kairoscontrolplane_controller.go\<close>, \<open>machine_names.go\<close>, \<open>template_hostname.go\<close>,
  \<open>ha_tokens.go\<close>), and \<open>deleteControlPlaneMachine\<close>.

  An attempt creates three objects under one fresh name, the KairosConfig, the
  infrastructure Machine and the Machine, and deletes what it made when it fails. The result
  of an attempt is the error or the Machine; only \<open>NameTaken\<close> is tried again.
\<close>


section \<open>The hostname of the template\<close>

definition controlPlaneTemplateHostnameProblem :: "env \<Rightarrow> string op" where
  "controlPlaneTemplateHostnameProblem E =
     bindA get_kcp (\<lambda>k.
     if k_template k = [] then ret []
     else bindA (tryA (read_api (\<lambda>n. e_template E n (k_template k)))) (\<lambda>r.
       case r of
         Inl e \<Rightarrow> if e = Api NotFound then ret [] else throw e
       | Inr t \<Rightarrow>
           if kt_hostname t = [] \<or> NodeHostnameErrors (e_label_errors E) (kt_hostname t) = [] then ret []
           else ret (''KairosConfigTemplate '' @ k_template k @
             '' sets spec.template.spec.hostname to a value control-plane nodes cannot use ('' @
             join_str ''; '' (NodeHostnameErrors (e_label_errors E) (kt_hostname t)) @ '')'')))"

definition reportControlPlaneTemplateHostname :: "env \<Rightarrow> unit op" where
  "reportControlPlaneTemplateHostname E =
     bindA (tryA (controlPlaneTemplateHostnameProblem E)) (\<lambda>r.
     case r of
       Inl _ \<Rightarrow> ret ()
     | Inr problem \<Rightarrow> if problem = [] then ret () else event E Warning ''InvalidControlPlaneHostname'')"


section \<open>The objects of a control-plane member\<close>

definition joinTokenSecretName :: "string \<Rightarrow> string" where
  "joinTokenSecretName clusterName = clusterName @ ''-control-plane-join-token''"

definition join_token_key :: string where "join_token_key = ''token''"

definition role_single :: string where "role_single = ''single''"

text \<open>\<open>applyControlPlaneHASpec\<close>.\<close>

definition applyControlPlaneHASpec :: "kcp \<Rightarrow> cluster \<Rightarrow> string \<Rightarrow> new_config \<Rightarrow> new_config" where
  "applyControlPlaneHASpec k cl role nc =
     (let nc = nc\<lparr>nc_cp_role := role, nc_single_node := (role = role_single)\<rparr> in
      if role = role_single then nc
      else
        let ref = \<lparr>sr_name = joinTokenSecretName (c_name cl), sr_namespace = c_namespace cl,
                   sr_key = join_token_key\<rparr>;
            distribution = (if nc_distribution nc = [] then ''k0s'' else nc_distribution nc);
            nc = (if distribution = ''k3s'' then nc\<lparr>nc_k3s_token := Some ref\<rparr>
                  else nc\<lparr>nc_join_token := Some ref\<rparr>)
        in case k_vip k of
             None \<Rightarrow> nc
           | Some a \<Rightarrow> nc\<lparr>nc_vip := Some (a, k_vip_interface k, k_vip_mode k)\<rparr>)"

text \<open>The KairosConfig an attempt creates: the template's spec when there is a template, the
  three fields the control plane sets, the HA fields, the token annotation.\<close>

definition config_for :: "kcp \<Rightarrow> cluster \<Rightarrow> string \<Rightarrow> string \<Rightarrow> string \<Rightarrow> config_template option \<Rightarrow> new_config" where
  "config_for k cl name role tokenID tmpl =
     (let nc = \<lparr>nc_name = name, nc_role = ''control-plane'', nc_distribution = distributionOf k,
                nc_version = k_version k, nc_cp_role = [], nc_single_node = False,
                nc_k3s_token = Option.bind tmpl kt_k3s_token, nc_join_token = Option.bind tmpl kt_join_token,
                nc_vip = Option.bind tmpl kt_vip, nc_token_id = None, nc_template = tmpl\<rparr>;
          nc = applyControlPlaneHASpec k cl role nc
      in if tokenID \<noteq> [] then nc\<lparr>nc_token_id := Some tokenID\<rparr> else nc)"

definition bootstrap_api_group :: string where
  "bootstrap_api_group = ''bootstrap.cluster.x-k8s.io''"

definition machine_for :: "kcp \<Rightarrow> cluster \<Rightarrow> string \<Rightarrow> string \<Rightarrow> infra_object \<Rightarrow> machine" where
  "machine_for k cl name role infra =
     (let anns = map_of (controlPlaneMachineAnnotations k);
          anns = (if shouldStampEtcdLeaveHook k role then anns(etcd_leave_hook \<mapsto> []) else anns)
      in no_machine\<lparr>m_name := name, m_namespace := k_namespace k,
           m_labels := map_of (controlPlaneMachineLabels k (c_name cl)),
           m_annotations := anns,
           m_owners := [\<lparr>or_kind = kcp_kind, or_name = k_name k, or_uid = k_uid k, or_controller = True,
             or_api = kcp_api\<rparr>],
           m_version := k_version k,
           m_cfg_group := bootstrap_api_group, m_cfg_kind := ''KairosConfig'', m_cfg_name := name,
           m_infra_kind := io_kind infra, m_infra_name := io_name infra,
           m_drain := nodeDrainTimeoutSeconds (k_drain k)\<rparr>)"


section \<open>An attempt\<close>

text \<open>\<open>createdObjects\<close>: the kind and name of each object, in the order they were made.
  \<open>cleanup\<close> deletes them last first and returns the cause, or another error when a delete
  failed.\<close>

type_synonym created_objects = "(object_kind \<times> string) list"

fun delete_created :: "env \<Rightarrow> created_objects \<Rightarrow> bool op" where
  "delete_created E [] = ret True"
| "delete_created E ((kind, name) # objs) =
     bindA (tryA (mgmt_write E (ObjectDeleted kind name))) (\<lambda>r.
     bindA (delete_created E objs) (\<lambda>ok.
     ret (ok \<and> (case r of Inl e \<Rightarrow> e = Api NotFound | Inr _ \<Rightarrow> True))))"

definition cleanup :: "env \<Rightarrow> created_objects \<Rightarrow> err \<Rightarrow> err op" where
  "cleanup E created cause =
     bindA (delete_created E (rev created)) (\<lambda>ok.
     ret (if ok then cause else Failed ''cleanup failed''))"

definition name_taken :: "err \<Rightarrow> err" where
  "name_taken e = (if e = Api AlreadyExists then NameTaken else e)"

text \<open>A create whose AlreadyExists reads as \<open>errControlPlaneNameTaken\<close>.\<close>

definition create_object :: "env \<Rightarrow> created_object \<Rightarrow> unit op" where
  "create_object E ob =
     bindA (tryA (mgmt_write E (ObjectCreated ob))) (\<lambda>r.
     case r of Inl e \<Rightarrow> throw (name_taken e) | Inr _ \<Rightarrow> ret ())"

definition createInfrastructureMachine :: "env \<Rightarrow> cluster \<Rightarrow> string \<Rightarrow> infra_object op" where
  "createInfrastructureMachine E cl name =
     bindA get_kcp (\<lambda>k.
     let ns = (if k_infra_namespace k = [] then k_namespace k else k_infra_namespace k) in
     if ns \<noteq> k_namespace k then throw (Failed ''cross-namespace references are not allowed'')
     else
       bindA (CloneInfrastructureMachine E (k_infra_kind k) (k_infra_name k)
         \<lparr>ct_name = name, ct_namespace = k_namespace k,
          ct_labels = controlPlaneMachineLabels k (c_name cl),
          ct_annotations = controlPlaneMachineAnnotations k\<rparr>) (\<lambda>infra.
       bindA (create_object E (NewInfra infra)) (\<lambda>_. ret infra)))"

definition fail_clean :: "env \<Rightarrow> created_objects \<Rightarrow> 'a op \<Rightarrow> 'a op" where
  "fail_clean E created m =
     bindA (tryA m) (\<lambda>r.
     case r of
       Inr x \<Rightarrow> ret x
     | Inl e \<Rightarrow> bindA (cleanup E created e) throw)"

definition read_config_template :: "env \<Rightarrow> string \<Rightarrow> config_template option op" where
  "read_config_template E name =
     (if name = [] then ret None
      else bindA (read_api (\<lambda>n. e_template E n name)) (\<lambda>t. ret (Some t)))"

definition createControlPlaneMachineNamed :: "env \<Rightarrow> cluster \<Rightarrow> string \<Rightarrow> string \<Rightarrow> string \<Rightarrow> machine op" where
  "createControlPlaneMachineNamed E cl name role tokenID =
     bindA get_kcp (\<lambda>k.
     bindA (read_config_template E (k_template k)) (\<lambda>tmpl.
     bindA (create_object E (NewConfig (config_for k cl name role tokenID tmpl))) (\<lambda>_.
     bindA (fail_clean E [(KairosConfigObj, name)] (createInfrastructureMachine E cl name)) (\<lambda>infra.
     let m = machine_for k cl name role infra in
     bindA (fail_clean E [(KairosConfigObj, name), (InfraMachineObj, name)] (create_object E (NewMachine m))) (\<lambda>_.
     ret m)))))"


section \<open>Creating a Machine\<close>

text \<open>\<open>waitForMachineInCache\<close>: up to 63 reads, as many as the wait package makes
  (\<open>e_polls\<close>); it stops at the first answer that is not NotFound.\<close>

definition cache_wait_steps :: nat where "cache_wait_steps = 63"

fun poll_cache :: "env \<Rightarrow> string \<Rightarrow> nat \<Rightarrow> unit op" where
  "poll_cache E name 0 = throw (Failed ''the Machine was created but is not in the cache yet'')"
| "poll_cache E name (Suc n) =
     bindA (tryA (read_api (\<lambda>i. case e_cached E i name of None \<Rightarrow> Inr () | Some x \<Rightarrow> Inl x))) (\<lambda>r.
     case r of
       Inr _ \<Rightarrow> ret ()
     | Inl e \<Rightarrow> if e = Api NotFound then poll_cache E name n else throw e)"

definition waitForMachineInCache :: "env \<Rightarrow> string \<Rightarrow> unit op" where
  "waitForMachineInCache E name = poll_cache E name (min cache_wait_steps (e_polls E))"

text \<open>The retry loop. The first argument counts the attempts left.\<close>

fun create_attempts :: "nat \<Rightarrow> env \<Rightarrow> cluster \<Rightarrow> string \<Rightarrow> string \<Rightarrow> machine op" where
  "create_attempts 0 E cl role tokenID = throw NameTaken"
| "create_attempts (Suc n) E cl role tokenID =
     bindA get_kcp (\<lambda>k.
     bindA (newControlPlaneMachineName E (k_name k)) (\<lambda>name.
     bindA (tryA (createControlPlaneMachineNamed E cl name role tokenID)) (\<lambda>r.
     case r of
       Inr m \<Rightarrow> bindA (waitForMachineInCache E name) (\<lambda>_. ret m)
     | Inl e \<Rightarrow> if e \<noteq> NameTaken \<or> n = 0 then throw e else create_attempts n E cl role tokenID)))"

definition createControlPlaneMachine :: "env \<Rightarrow> cluster \<Rightarrow> string \<Rightarrow> string \<Rightarrow> machine op" where
  "createControlPlaneMachine E cl role tokenID =
     bindA refuse_if_frozen (\<lambda>_.
     bindA (controlPlaneTemplateHostnameProblem E) (\<lambda>problem.
     if problem \<noteq> [] then throw (Failed problem)
     else create_attempts machine_name_attempts E cl role tokenID))"

definition deleteControlPlaneMachine :: "env \<Rightarrow> machine \<Rightarrow> unit op" where
  "deleteControlPlaneMachine E target =
     bindA refuse_if_frozen (\<lambda>_. mgmt_write E (MachineDeleted (m_name target)))"



section \<open>What an attempt leaves behind\<close>

fun is_new_machine :: "effect \<Rightarrow> bool" where
  "is_new_machine (ObjectCreated (NewMachine _)) = True"
| "is_new_machine _ = False"

text \<open>Every object of the list was deleted, or the server said it was gone.\<close>

definition undone :: "env \<Rightarrow> created_objects \<Rightarrow> effect list \<Rightarrow> bool" where
  "undone E objs es \<longleftrightarrow>
     list_all (\<lambda>ob. ObjectDeleted (fst ob) (snd ob) \<in> set es \<or> (\<exists>n. e_write E n = Some NotFound)) objs"

text \<open>The objects a list of effects created, as \<open>cleanup\<close> names them.\<close>

fun created_in :: "effect list \<Rightarrow> created_objects" where
  "created_in [] = []"
| "created_in (ObjectCreated (NewConfig c) # es) = (KairosConfigObj, nc_name c) # created_in es"
| "created_in (ObjectCreated (NewInfra i) # es) = (InfraMachineObj, io_name i) # created_in es"
| "created_in (ObjectCreated (NewMachine m) # es) = (MachineObj, m_name m) # created_in es"
| "created_in (e # es) = created_in es"

lemma created_in_append [simp]: "created_in (xs @ ys) = created_in xs @ created_in ys"
  by (induction xs rule: created_in.induct) auto

text \<open>What an attempt with name \<open>name\<close> did, by its result.\<close>

definition attempt_post :: "env \<Rightarrow> cluster \<Rightarrow> string \<Rightarrow> string \<Rightarrow> string \<Rightarrow> machine trace_pred" where
  "attempt_post E cl name role tokenID k k' r es \<longleftrightarrow> k' = k \<and> (case r of
      Inr m \<Rightarrow> \<exists>tmpl infra. io_name infra = name \<and> m = machine_for k cl name role infra \<and>
        es = [ObjectCreated (NewConfig (config_for k cl name role tokenID tmpl)),
              ObjectCreated (NewInfra infra), ObjectCreated (NewMachine m)]
    | Inl e \<Rightarrow> filter is_new_machine es = [] \<and> (e = Failed ''cleanup failed'' \<or> undone E (created_in es) es))"

lemma traces_create:
  "traces (\<lambda>k k' r es. k' = k \<and> (case r of Inl _ \<Rightarrow> es = [] | Inr _ \<Rightarrow> es = [ObjectCreated ob])) (create_object E ob)"
  unfolding create_object_def traces_def by (auto simp: wpa_simps split: option.splits)

lemma traces_delete:
  "traces (\<lambda>k k' r es. k' = k \<and> (\<exists>ok. r = Inr ok \<and> filter is_new_machine es = [] \<and> created_in es = [] \<and>
      (ok \<longrightarrow> undone E objs es))) (delete_created E objs)"
proof (induction objs)
  case Nil
  show ?case unfolding delete_created.simps by (rule traces_ret) (auto simp: undone_def)
next
  case (Cons ob objs)
  obtain kind name where ob: "ob = (kind, name)" by (cases ob)
  show ?case
    unfolding ob delete_created.simps traces_def
    by (auto simp: wpa_simps undone_def list_all_iff intro!: traces_wpa [OF Cons.IH] split: option.splits)
qed

lemma set_content_name: "set_content fs v io = Inr io' \<Longrightarrow> io_name io' = io_name io"
  by (auto simp: set_content_def split: option.splits)

lemma copy_spec_name: "copy_spec t io = Inr io' \<Longrightarrow> io_name io' = io_name io"
  by (auto simp: copy_spec_def set_content_name split: option.splits)

lemma new_infra_name [simp]: "io_name (new_infra g v k ct) = ct_name ct"
  by (simp add: new_infra_def)

lemma kubevirt_name: "cloneKubevirtMachineTemplate t ct = Inr io \<Longrightarrow> io_name io = ct_name ct"
  unfolding cloneKubevirtMachineTemplate_def
  by (auto dest!: set_content_name split: sum.splits option.splits)

lemma generic_name: "cloneGenericMachineTemplate t ct = Inr io \<Longrightarrow> io_name io = ct_name ct"
  unfolding cloneGenericMachineTemplate_def
  by (auto dest!: copy_spec_name split: option.splits if_splits)

lemma clone_keeps_name: "clone_by_kind kind t ct = Inr io \<Longrightarrow> io_name io = ct_name ct"
  unfolding clone_by_kind_def cloneDockerMachineTemplate_def cloneVSphereMachineTemplate_def
    cloneMetal3MachineTemplate_def cloneKairosFleetMachineTemplate_def
  by (simp only: split: if_split_asm) (drule copy_spec_name kubevirt_name generic_name, simp)+

lemma traces_clone:
  "traces (\<lambda>k k' r es. k' = k \<and> es = [] \<and> (\<forall>io. r = Inr io \<longrightarrow> io_name io = ct_name ct))
    (CloneInfrastructureMachine E kind name ct)"
  unfolding CloneInfrastructureMachine_def liftR_def traces_def
  by (auto simp: wpa_simps clone_keeps_name split: sum.splits)

lemma traces_infra:
  "traces (\<lambda>k k' r es. k' = k \<and> (case r of Inl _ \<Rightarrow> es = [] | Inr io \<Rightarrow>
      es = [ObjectCreated (NewInfra io)] \<and> io_name io = name)) (createInfrastructureMachine E cl name)"
  unfolding createInfrastructureMachine_def traces_def Let_def
  by (auto simp: wpa_simps intro!: traces_wpa [OF traces_clone] traces_wpa [OF traces_create] split: sum.splits)

lemma traces_cleanup:
  "traces (\<lambda>k k' r es. k' = k \<and> filter is_new_machine es = [] \<and> created_in es = [] \<and>
      (\<exists>e. r = Inr e \<and> (e = Failed ''cleanup failed'' \<or> undone E objs es))) (cleanup E objs cause)"
  unfolding cleanup_def traces_def
  by (auto simp: wpa_simps undone_def intro!: traces_wpa [OF traces_delete [where objs = "rev objs"]])

lemma traces_fail_clean:
  assumes "traces (\<lambda>k k' r es. k' = k \<and> (case r of Inl _ \<Rightarrow> es = [] | Inr x \<Rightarrow> P x es)) m"
  shows "traces (\<lambda>k k' r es. k' = k \<and> (case r of
      Inl e \<Rightarrow> filter is_new_machine es = [] \<and> created_in es = [] \<and>
        (e = Failed ''cleanup failed'' \<or> undone E objs es)
    | Inr x \<Rightarrow> P x es)) (fail_clean E objs m)"
  unfolding fail_clean_def traces_def
  by (auto simp: wpa_simps intro!: traces_wpa [OF assms] traces_wpa [OF traces_cleanup] split: sum.splits)

lemma read_config_template_silent [silent_rules]: "guards silent (read_config_template E n)"
  unfolding read_config_template_def by (intro silent.flow guards_intros silent_rules)

lemma undone_later: "undone E objs es \<Longrightarrow> undone E objs (fs @ es)"
  by (auto simp: undone_def list_all_iff)

lemma traces_attempt:
  "traces (attempt_post E cl name role tokenID) (createControlPlaneMachineNamed E cl name role tokenID)"
proof -
  have cfg: "nc_name (config_for k cl name role tokenID tmpl) = name" for k tmpl
    by (simp add: config_for_def applyControlPlaneHASpec_def Let_def split: option.splits)
  have m: "m_name (machine_for k cl name role infra) = name" for k infra
    by (simp add: machine_for_def Let_def)
  show ?thesis
    unfolding createControlPlaneMachineNamed_def traces_def attempt_post_def Let_def
    by (auto simp: wpa_simps cfg m undone_def
        intro!: traces_wpa [OF silent_traces [OF read_config_template_silent]] traces_wpa [OF traces_create]
          traces_wpa [OF traces_fail_clean [OF traces_infra]] traces_wpa [OF traces_fail_clean [OF traces_create]]
        split: sum.splits)
qed


text \<open>
  C23: an attempt that fails creates no Machine, and every object it did create was deleted
  again or was already gone, unless it says that the cleanup itself failed.
\<close>

theorem failed_attempt_leaves_nothing:
  assumes "createControlPlaneMachineNamed E cl name role tokenID s = (Inl e, s')"
  shows "filter is_new_machine (new_effects s s') = [] \<and>
    (e = Failed ''cleanup failed'' \<or> undone E (created_in (new_effects s s')) (new_effects s s'))"
  using tracesD [OF traces_attempt assms] by (simp add: attempt_post_def)


section \<open>What creating a Machine does\<close>

text \<open>The effects end with the three objects of a member, and no other Machine was created.\<close>

definition creates_member :: "kcp \<Rightarrow> cluster \<Rightarrow> string \<Rightarrow> string \<Rightarrow> machine \<Rightarrow> effect list \<Rightarrow> bool" where
  "creates_member k cl role tokenID m es \<longleftrightarrow>
     (\<exists>tmpl infra pre. io_name infra = m_name m \<and> m = machine_for k cl (m_name m) role infra \<and>
        filter is_new_machine pre = [] \<and>
        es = pre @ [ObjectCreated (NewConfig (config_for k cl (m_name m) role tokenID tmpl)),
                    ObjectCreated (NewInfra infra), ObjectCreated (NewMachine m)])"

definition create_post :: "cluster \<Rightarrow> string \<Rightarrow> string \<Rightarrow> machine trace_pred" where
  "create_post cl role tokenID k k' r es \<longleftrightarrow> k' = k \<and> length (filter is_new_machine es) \<le> 1 \<and>
    (\<forall>m. r = Inr m \<longrightarrow> creates_member k cl role tokenID m es) \<and>
    (filter is_new_machine es \<noteq> [] \<longrightarrow> (\<exists>m. creates_member k cl role tokenID m es))"

lemma creates_extend:
  "filter is_new_machine fs = [] \<Longrightarrow> creates_member k cl role tokenID m es \<Longrightarrow>
   creates_member k cl role tokenID m (fs @ es)"
  unfolding creates_member_def by (metis append_assoc filter_append append_Nil)

lemma machine_for_name [simp]: "m_name (machine_for k cl name role infra) = name"
  by (simp add: machine_for_def Let_def)

lemma poll_silent [silent_rules]: "guards silent (poll_cache E name n)"
  by (induction n) (auto intro!: silent.flow guards_intros silent_rules)

lemma wait_silent [silent_rules]: "guards silent (waitForMachineInCache E name)"
  unfolding waitForMachineInCache_def by (rule poll_silent)

lemma problem_silent [silent_rules]: "guards silent (controlPlaneTemplateHostnameProblem E)"
  unfolding controlPlaneTemplateHostnameProblem_def by (intro silent.flow guards_intros silent_rules)

lemma name_silent [silent_rules]: "guards silent (newControlPlaneMachineName E n)"
  unfolding newControlPlaneMachineName_def by (intro silent.flow silent_rules)

lemma traces_attempt_creates:
  "traces (\<lambda>k k' r es. k' = k \<and> (case r of Inl _ \<Rightarrow> filter is_new_machine es = []
      | Inr m \<Rightarrow> length (filter is_new_machine es) = 1 \<and> creates_member k cl role tokenID m es))
    (createControlPlaneMachineNamed E cl name role tokenID)"
proof (rule traces_mono [OF traces_attempt])
  fix k k' es and r :: "err + machine"
  assume a: "attempt_post E cl name role tokenID k k' r es"
  show "k' = k \<and> (case r of Inl _ \<Rightarrow> filter is_new_machine es = []
      | Inr m \<Rightarrow> length (filter is_new_machine es) = 1 \<and> creates_member k cl role tokenID m es)"
  proof (cases r)
    case (Inr m)
    with a have "creates_member k cl role tokenID m es"
      unfolding attempt_post_def creates_member_def
      by (auto intro!: exI [of _ "[]"])
    with a Inr show ?thesis by (auto simp: attempt_post_def)
  qed (use a in \<open>simp add: attempt_post_def\<close>)
qed

lemma traces_attempts:
  "traces (create_post cl role tokenID) (create_attempts n E cl role tokenID)"
proof (induction n)
  case 0
  show ?case unfolding create_attempts.simps by (rule traces_throw) (simp add: create_post_def)
next
  case (Suc n)
  show ?case
    unfolding create_attempts.simps traces_def
    by (auto simp: wpa_simps create_post_def
        intro!: traces_wpa [OF silent_traces [OF name_silent]] traces_wpa [OF traces_attempt_creates]
          traces_wpa [OF silent_traces [OF wait_silent]] traces_wpa [OF Suc.IH]
          creates_extend split: sum.splits)
      (blast intro: creates_extend)+
qed


lemma traces_createControlPlaneMachine:
  "traces (\<lambda>k k' r es. create_post cl role tokenID k k' r es \<and> (frozen k \<longrightarrow> r = Inl IdentityChanged \<and> es = []))
    (createControlPlaneMachine E cl role tokenID)"
  unfolding createControlPlaneMachine_def traces_def
  by (auto simp: wpa_simps create_post_def
      intro!: traces_wpa [OF silent_traces [OF problem_silent]]
        traces_wpa [OF traces_attempts] split: sum.splits)

text \<open>
  C22: creating a control-plane Machine makes at most one, and none while the identity is
  frozen. When it succeeds the last three effects are a KairosConfig, an infrastructure
  Machine and a Machine of one name; the Machine is the one the code describes, carries the
  two labels the controller finds it by, and on k0s has the etcd-leave hook exactly when the
  role joins an etcd cluster, unless the template asks for the hook itself.
\<close>

theorem create_makes_one_member:
  assumes "createControlPlaneMachine E cl role tokenID s = (r, s')"
  shows "length (filter is_new_machine (new_effects s s')) \<le> 1 \<and>
    (frozen (s_kcp s) \<longrightarrow> r = Inl IdentityChanged \<and> new_effects s s' = []) \<and>
    (\<forall>m. r = Inr m \<longrightarrow> creates_member (s_kcp s) cl role tokenID m (new_effects s s') \<and>
      m_labels m cluster_name_label = Some (c_name cl) \<and> m_labels m control_plane_label = Some [] \<and>
      (distributionOf (s_kcp s) = ''k0s'' \<and> etcd_leave_hook \<notin> fst ` set (k_meta_annotations (s_kcp s)) \<longrightarrow>
        hasEtcdLeaveHook m = (role = role_init \<or> role = role_join)))"
proof -
  let ?es = "new_effects s s'" and ?k = "s_kcp s"
  have t: "create_post cl role tokenID ?k (s_kcp s') r ?es"
    "frozen ?k \<longrightarrow> r = Inl IdentityChanged \<and> ?es = []"
    using tracesD [OF traces_createControlPlaneMachine assms] by auto
  have "m_labels m cluster_name_label = Some (c_name cl) \<and> m_labels m control_plane_label = Some [] \<and>
      (distributionOf ?k = ''k0s'' \<and> etcd_leave_hook \<notin> fst ` set (k_meta_annotations ?k) \<longrightarrow>
        hasEtcdLeaveHook m = (role = role_init \<or> role = role_join))"
    if "creates_member ?k cl role tokenID m ?es" for m
  proof -
    obtain infra where m: "m = machine_for ?k cl (m_name m) role infra"
      using \<open>creates_member ?k cl role tokenID m ?es\<close> by (auto simp: creates_member_def)
    have "map_of (controlPlaneMachineLabels ?k (c_name cl)) cluster_name_label = Some (c_name cl)"
      "map_of (controlPlaneMachineLabels ?k (c_name cl)) control_plane_label = Some []"
      by (auto simp: controlPlaneMachineLabels_def map_add_def map_of_eq_None_iff split: option.splits
          dest!: map_of_SomeD)
    then show ?thesis
      by (subst (1 2 3) m) (auto simp: machine_for_def Let_def hasEtcdLeaveHook_def
          shouldStampEtcdLeaveHook_def controlPlaneMachineAnnotations_def map_of_eq_None_iff)
  qed
  with t show ?thesis by (auto simp: create_post_def)
qed


section \<open>Guarantees\<close>

text \<open>Creating deletes no Machine: a cleanup deletes a KairosConfig and an infrastructure Machine.\<close>

fun deletes_machine :: "effect \<Rightarrow> bool" where
  "deletes_machine (MachineDeleted _) = True"
| "deletes_machine _ = False"

lemma create_logs:
  assumes "\<And>ob. Q (ObjectCreated ob)" and "\<And>kind n. Q (ObjectDeleted kind n)"
  shows "guards (logs_only Q) (createControlPlaneMachine E cl role tokenID)"
proof -
  let ?R = "logs_only Q"
  have d: "guards ?R (delete_created E objs)" for objs
    by (induction objs rule: delete_created.induct) (auto intro!: logs.flow logs_writes assms)
  have f: "guards ?R (fail_clean E objs m)" if "guards ?R m" for objs and m :: "'a op"
    unfolding fail_clean_def cleanup_def by (intro logs.flow guards_intros that d)
  have c: "guards ?R (create_object E ob)" for ob
    unfolding create_object_def by (intro logs.flow guards_intros logs_writes assms)
  have a: "guards ?R (createControlPlaneMachineNamed E cl name role tokenID)" for name
    unfolding createControlPlaneMachineNamed_def createInfrastructureMachine_def Let_def
    by (intro logs.flow guards_intros c f logs_rules silent_rules [THEN silent_logs])
  have "guards ?R (create_attempts n E cl role tokenID)" for n
    by (induction n) (auto intro!: logs.flow guards_intros a logs_rules silent_rules [THEN silent_logs])
  then show ?thesis
    unfolding createControlPlaneMachine_def by (intro logs.flow guards_intros silent_rules [THEN silent_logs])
qed

lemma create_deletes_none:
  "guards (logs_only (\<lambda>e. \<not> deletes_machine e)) (createControlPlaneMachine E cl role tokenID)"
  by (rule create_logs) simp_all

lemmas create_reads = poll_silent wait_silent problem_silent name_silent read_config_template_silent
  CloneInfrastructureMachine_silent

lemmas create_reads_freeze [freeze_rules] = create_reads [THEN silent_freeze]
lemmas create_reads_quiet [quiet_rules] = create_reads [THEN silent_quiet]

lemma create_quiet [quiet_rules]:
  "guards same_annotations (create_object E ob)"
  "guards same_annotations (delete_created E objs)"
  "guards same_annotations (cleanup E objs e)"
  "guards same_annotations (createInfrastructureMachine E cl name)"
proof -
  show c: "guards same_annotations (create_object E ob)" for ob
    unfolding create_object_def by (intro quiet.flow guards_intros quiet_rules)
  show d: "guards same_annotations (delete_created E objs)" for objs
    by (induction objs rule: delete_created.induct)
      (auto intro!: quiet.flow guards_intros quiet_rules)
  show "guards same_annotations (cleanup E objs e)"
    unfolding cleanup_def by (intro quiet.flow d)
  show "guards same_annotations (createInfrastructureMachine E cl name)"
    unfolding createInfrastructureMachine_def Let_def
    by (intro quiet.flow guards_intros quiet_rules c)
qed

lemma fail_clean_quiet: "guards same_annotations m \<Longrightarrow> guards same_annotations (fail_clean E objs m)"
  unfolding fail_clean_def by (intro quiet.flow guards_intros quiet_rules)

lemma attempt_quiet [quiet_rules]:
  "guards same_annotations (createControlPlaneMachineNamed E cl name role tokenID)"
  unfolding createControlPlaneMachineNamed_def Let_def
  by (intro quiet.flow fail_clean_quiet quiet_rules)

lemma attempts_quiet [quiet_rules]: "guards same_annotations (create_attempts n E cl role tokenID)"
  by (induction n) (auto intro!: quiet.flow guards_intros quiet_rules)

lemma createControlPlaneMachine_quiet [quiet_rules]:
  "guards same_annotations (createControlPlaneMachine E cl role tokenID)"
  unfolding createControlPlaneMachine_def
  by (intro quiet.flow guards_intros quiet_rules)

lemma create_open [open_rules]:
  "guards_from unfrozen freeze_ok (create_object E ob)"
  "guards_from unfrozen freeze_ok (delete_created E objs)"
  "guards_from unfrozen freeze_ok (cleanup E objs e)"
  "guards_from unfrozen freeze_ok (createInfrastructureMachine E cl name)"
proof -
  show c: "guards_from unfrozen freeze_ok (create_object E ob)" for ob
    unfolding create_object_def
    by (intro frz.open_flow guards_intros quiet.flow quiet_rules mgmt_write_unfrozen) simp
  show d: "guards_from unfrozen freeze_ok (delete_created E objs)" for objs
    by (induction objs rule: delete_created.induct)
      (auto intro!: frz.open_flow quiet.flow guards_intros quiet_rules mgmt_write_unfrozen)
  show "guards_from unfrozen freeze_ok (cleanup E objs e)"
    unfolding cleanup_def by (intro frz.open_flow d quiet_rules)
  show "guards_from unfrozen freeze_ok (createInfrastructureMachine E cl name)"
    unfolding createInfrastructureMachine_def Let_def
    by (intro frz.open_flow guards_intros quiet_rules c
        freeze_rules [THEN guards_from_weaken])
qed

lemma fail_clean_open:
  "guards_from unfrozen freeze_ok m \<Longrightarrow> guards same_annotations m \<Longrightarrow>
   guards_from unfrozen freeze_ok (fail_clean E objs m)"
  unfolding fail_clean_def by (intro frz.open_flow guards_intros quiet.flow quiet_rules open_rules)

lemma attempt_open [open_rules]:
  "guards_from unfrozen freeze_ok (createControlPlaneMachineNamed E cl name role tokenID)"
  unfolding createControlPlaneMachineNamed_def Let_def
  by (intro frz.open_flow fail_clean_open fail_clean_quiet quiet_rules open_rules
      freeze_rules [THEN guards_from_weaken])

lemma attempts_open [open_rules]: "guards_from unfrozen freeze_ok (create_attempts n E cl role tokenID)"
  by (induction n)
    (auto intro!: frz.open_flow guards_intros quiet.flow quiet_rules open_rules
      freeze_rules [THEN guards_from_weaken])

lemma machine_changes_freeze [freeze_rules]:
  "guards freeze_ok (createControlPlaneMachine E cl role tokenID)"
  "guards freeze_ok (deleteControlPlaneMachine E target)"
proof -
  show "guards freeze_ok (createControlPlaneMachine E cl role tokenID)"
    unfolding createControlPlaneMachine_def
    by (rule frz.check_bind)
      (use refuse_opens in \<open>auto intro!: frz.open_flow guards_intros quiet_rules open_rules freeze_rules
        freeze_rules [THEN guards_from_weaken]\<close>)
  show "guards freeze_ok (deleteControlPlaneMachine E target)"
    unfolding deleteControlPlaneMachine_def
    by (rule frz.check_bind)
      (use refuse_opens in \<open>auto intro!: freeze_rules mgmt_write_unfrozen\<close>)
qed

lemma delete_quiet [quiet_rules]: "guards same_annotations (deleteControlPlaneMachine E target)"
  unfolding deleteControlPlaneMachine_def by (intro quiet.flow quiet_rules)

lemma report_freeze [freeze_rules]: "guards freeze_ok (reportControlPlaneTemplateHostname E)"
  unfolding reportControlPlaneTemplateHostname_def
  by (intro frz.flow guards_intros freeze_rules)

lemma report_quiet [quiet_rules]: "guards same_annotations (reportControlPlaneTemplateHostname E)"
  unfolding reportControlPlaneTemplateHostname_def
  by (intro quiet.flow guards_intros quiet_rules)

end
