(* ===== verification/Join_Tokens.thy ===== *)
theory Join_Tokens
  imports Machine_Create
begin

text \<open>
  The k0s controller-join tokens: \<open>ha_k0s_jointoken.go\<close>, and the bootstrap-token Secrets of
  \<open>internal/k0sjointoken\<close>.

  A token is minted for the joiner about to be created, stored in the one join-token Secret
  of the management cluster, extended while its joiner is pending and deleted once it is
  done. The workload cluster is reached through the endpoint. Encoding and decoding the
  token text (gzip, base64 and a kubeconfig) are the parameters \<open>e_encode\<close> and \<open>e_decode\<close>,
  reading the cluster CA from the workload kubeconfig is \<open>e_ca\<close>. The texts of log lines and
  of hold reasons that only name a failed request are shortened.
\<close>


section \<open>Bootstrap-token Secrets\<close>

definition join_api_port :: string where "join_api_port = ''9443''"

definition key_id :: string where "key_id = ''token-id''"
definition key_secret :: string where "key_secret = ''token-secret''"
definition key_expiration :: string where "key_expiration = ''expiration''"
definition key_description :: string where "key_description = ''description''"
definition key_controller_join :: string where "key_controller_join = ''usage-bootstrap-controller-join''"
definition key_legacy_join :: string where "key_legacy_join = ''usage-controller-join''"
definition key_authentication :: string where "key_authentication = ''usage-bootstrap-authentication''"
definition key_signing :: string where "key_signing = ''usage-bootstrap-signing''"
definition key_groups :: string where "key_groups = ''auth-extra-groups''"

lemmas key_defs = key_id_def key_secret_def key_expiration_def key_description_def key_controller_join_def
  key_legacy_join_def key_authentication_def key_signing_def key_groups_def

definition bootstrap_token_type :: string where
  "bootstrap_token_type = ''bootstrap.kubernetes.io/token''"

definition token_description :: string where
  "token_description = ''k0s controller-join token minted by cluster-api-provider-kairos''"

definition token_char :: "char \<Rightarrow> bool" where
  "token_char c \<longleftrightarrow> is_lower c \<or> is_digit c"

definition ValidID :: "string \<Rightarrow> bool" where
  "ValidID i \<longleftrightarrow> length i = 6 \<and> list_all token_char i"

definition NewSecret :: "bootstrap_token \<Rightarrow> time \<Rightarrow> token_secret" where
  "NewSecret tok expires =
     \<lparr>ts_type = bootstrap_token_type,
      ts_data = map_of [(key_id, bt_id tok), (key_secret, bt_secret tok),
        (key_expiration, format_rfc3339 expires), (key_description, token_description),
        (key_controller_join, ''true''), (key_legacy_join, ''true'')]\<rparr>"

definition IsControllerJoinOnly :: "token_secret \<Rightarrow> bool" where
  "IsControllerJoinOnly ts =
     (if ts_type ts \<noteq> bootstrap_token_type then False
      else if \<not> (ann (ts_data ts) key_controller_join = ''true'' \<or> ann (ts_data ts) key_legacy_join = ''true'')
      then False
      else if ann (ts_data ts) key_authentication = ''true'' \<or> ann (ts_data ts) key_signing = ''true'' then False
      else ann (ts_data ts) key_groups = [])"

definition Expiry :: "token_secret \<Rightarrow> time option" where
  "Expiry ts =
     (case ts_data ts key_expiration of
        None \<Rightarrow> None
      | Some raw \<Rightarrow> if raw = [] then None else parse_rfc3339 raw)"

text \<open>
  A Secret the controller mints passes its own test, carries the token's two halves and
  nothing that could authenticate to the apiserver, and its expiry reads back as the instant
  it was given, to the second.
\<close>

theorem minted_secret_is_join_only:
  assumes "0 \<le> expires" "expires < int (days_before_year 10000) * 86400 * ns_per_s"
  shows "IsControllerJoinOnly (NewSecret tok expires) \<and>
    Expiry (NewSecret tok expires) = Some (trunc_s expires) \<and>
    ts_data (NewSecret tok expires) key_id = Some (bt_id tok) \<and>
    ts_data (NewSecret tok expires) key_secret = Some (bt_secret tok) \<and>
    ts_data (NewSecret tok expires) key_authentication = None \<and>
    ts_data (NewSecret tok expires) key_signing = None \<and>
    ts_data (NewSecret tok expires) key_groups = None"
proof -
  have ne: "format_rfc3339 expires \<noteq> []"
    by (simp add: format_rfc3339_def Let_def pad4_def split: prod.splits)
  show ?thesis
    using parse_format_rfc3339 [OF assms] ne
    by (simp add: IsControllerJoinOnly_def NewSecret_def Expiry_def ann_def key_defs)
qed


section \<open>Join servers\<close>

definition k0sJoinServerURL :: "ip \<Rightarrow> string" where
  "k0sJoinServerURL a = ''https://'' @ join_host_port (ip_to_string a) join_api_port"

text \<open>
  \<open>url.Parse\<close> as far as a join URL needs it: the authority of an \<open>https://\<close> URL, \<open>None\<close> for
  a control character, a bad escape in path, fragment or user name, or anything that is not
  \<open>https:\<close> followed by two slashes.
\<close>

fun valid_escapes :: "string \<Rightarrow> bool" where
  "valid_escapes [] = True"
| "valid_escapes (c # s) =
     (if c \<noteq> CHR ''%'' then valid_escapes s
      else (case s of
              a # b # s' \<Rightarrow> hex_val a \<noteq> None \<and> hex_val b \<noteq> None \<and> valid_escapes s'
            | _ \<Rightarrow> False))"

definition control_char :: "char \<Rightarrow> bool" where
  "control_char c \<longleftrightarrow> of_char c < (32 :: nat) \<or> of_char c = (127 :: nat)"

definition before_char :: "char \<Rightarrow> string \<Rightarrow> string" where
  "before_char c s = takeWhile (\<lambda>d. d \<noteq> c) s"

definition from_char :: "char \<Rightarrow> string \<Rightarrow> string" where
  "from_char c s = dropWhile (\<lambda>d. d \<noteq> c) s"

definition userinfo_char :: "char \<Rightarrow> bool" where
  "userinfo_char c \<longleftrightarrow> is_lower c \<or> is_upper c \<or> is_digit c \<or> c \<in> set ''-._:~!$&'()*+,;=%''"

definition url_authority :: "string \<Rightarrow> string option" where
  "url_authority s =
     (let u = before_char CHR ''#'' s; frag = from_char CHR ''#'' s;
          rest = before_char CHR ''?'' (drop 6 u);
          auth = before_char CHR ''/'' (drop 2 rest); path = from_char CHR ''/'' (drop 2 rest)
      in if list_ex control_char u \<or> \<not> valid_escapes frag then None
         else if to_lower (take 6 u) \<noteq> ''https:'' \<or> take 2 rest \<noteq> ''//'' then None
         else if \<not> valid_escapes path then None
         else Some auth)"

definition url_host_port :: "string \<Rightarrow> string option" where
  "url_host_port auth =
     (if CHR ''@'' \<notin> set auth then Some auth
      else let host = rev (before_char CHR ''@'' (rev auth));
               user = take (length auth - length host - 1) auth
           in if list_all userinfo_char user \<and> valid_escapes user then Some host else None)"

definition url_ip_port :: "string \<Rightarrow> (ip \<times> string) option" where
  "url_ip_port hp =
     (if CHR ''['' \<in> set hp then
        (if hd hp \<noteq> CHR ''['' \<or> CHR '']'' \<notin> set hp then None
         else let port = rev (before_char CHR '']'' (rev hp));
                  host = tl (take (length hp - length port - 1) hp)
              in if ip_family host \<noteq> Some (CHR '':'') \<or> port = [] \<or> hd port \<noteq> CHR '':'' then None
                 else map_option (\<lambda>a. (a, tl port)) (parse_ip host))
      else if count_list hp (CHR '':'') \<noteq> 1 then None
      else map_option (\<lambda>a. (a, tl (from_char CHR '':'' hp))) (parse_ip (before_char CHR '':'' hp)))"

definition normalizeK0sJoinServer :: "string \<Rightarrow> string option" where
  "normalizeK0sJoinServer server =
     Option.bind (url_authority server) (\<lambda>auth.
     Option.bind (url_host_port auth) (\<lambda>hp.
     Option.bind (url_ip_port hp) (\<lambda>(a, port).
     if port = join_api_port then Some (k0sJoinServerURL a) else None)))"

record k0s_join_servers =
  ks_urls :: "string list"
  ks_unmatched :: nat

text \<open>The addresses of the ready endpoints, in order, the first of each key.\<close>

definition usable_ip :: "ip \<Rightarrow> bool" where
  "usable_ip a \<longleftrightarrow> \<not> is_loopback a \<and> \<not> is_unspecified a \<and> \<not> is_multicast a"

definition endpoint_ips :: "endpoint \<Rightarrow> ip list" where
  "endpoint_ips ep =
     (if ep_ready ep = Some False \<or> ep_terminating ep = Some True then []
      else filter usable_ip (List.map_filter parse_ip (ep_addresses ep)))"

definition servers_of_slice :: "machine list \<Rightarrow> endpoint_slice \<Rightarrow> k0s_join_servers" where
  "servers_of_slice ms sl =
     (if sl_type sl \<noteq> ''IPv4'' \<and> sl_type sl \<noteq> ''IPv6'' then \<lparr>ks_urls = [], ks_unmatched = 0\<rparr>
      else let as = first_of_key [] (concat (map endpoint_ips (sl_endpoints sl)));
               ours = filter (\<lambda>a. ownMemberAddresses ms (ip_to_string a)) as
           in \<lparr>ks_urls = map k0sJoinServerURL (sort_key (\<lambda>a. a) ours),
               ks_unmatched = length as - length ours\<rparr>)"

definition liveK0sJoinServers :: "env \<Rightarrow> machine list \<Rightarrow> k0s_join_servers op" where
  "liveK0sJoinServers E ms =
     bindA (tryA (read_api (\<lambda>n. e_slice E n leaveViaEndpoint))) (\<lambda>r.
     case r of
       Inl e \<Rightarrow> if e = Api NotFound then ret \<lparr>ks_urls = [], ks_unmatched = 0\<rparr> else throw e
     | Inr sl \<Rightarrow> ret (servers_of_slice ms sl))"


section \<open>Joiners\<close>

definition token_id_ann :: string where
  "token_id_ann = ''controlplane.cluster.x-k8s.io/k0s-join-token-id''"

definition token_removed_ann :: string where
  "token_removed_ann = ''controlplane.cluster.x-k8s.io/k0s-join-token-removed-at''"

definition join_token_ttl :: duration where "join_token_ttl = hours 1"
definition join_token_renew_within :: duration where "join_token_renew_within = minutes 30"
definition join_token_extend_cap :: duration where "join_token_extend_cap = hours 24"
definition join_token_recheck :: duration where "join_token_recheck = minutes 5"

definition k0sMemberJoined :: "machine \<Rightarrow> (string \<times> etcd_status) list \<Rightarrow> bool" where
  "k0sMemberJoined m status \<longleftrightarrow>
     (if \<not> registered m then False
      else case map_of status (node_name m) of None \<Rightarrow> False | Some es \<Rightarrow> es_healthy es \<and> es_voting es)"

record k0s_join_member =
  jm_machine :: machine
  jm_config :: kairos_config
  jm_token_id :: string
  jm_joined :: bool
  jm_deleting :: bool

definition pending :: "k0s_join_member \<Rightarrow> bool" where
  "pending m \<longleftrightarrow> \<not> jm_deleting m \<and> \<not> jm_joined m"

definition tokenRemoved :: "k0s_join_member \<Rightarrow> bool" where
  "tokenRemoved m \<longleftrightarrow> kc_annotations (jm_config m) token_removed_ann \<noteq> None"

fun k0sJoinMembers :: "env \<Rightarrow> (string \<times> etcd_status) list \<Rightarrow> machine list \<Rightarrow> k0s_join_member list op" where
  "k0sJoinMembers E status [] = ret []"
| "k0sJoinMembers E status (m # ms) =
     (if m_cfg_kind m \<noteq> ''KairosConfig'' \<or> m_cfg_name m = [] then k0sJoinMembers E status ms
      else bindA (tryA (read_api (\<lambda>n. e_config E n (m_cfg_name m)))) (\<lambda>r.
        case r of
          Inl e \<Rightarrow> if e = Api NotFound then k0sJoinMembers E status ms else throw e
        | Inr kc \<Rightarrow>
            if kc_role kc \<noteq> role_join then k0sJoinMembers E status ms
            else bindA (k0sJoinMembers E status ms) (\<lambda>rest.
              ret (\<lparr>jm_machine = m, jm_config = kc, jm_token_id = ann (kc_annotations kc) token_id_ann,
                    jm_joined = k0sMemberJoined m status, jm_deleting = deleting m\<rparr> # rest))))"



section \<open>The stored token\<close>

record stored_token =
  sk_annotated :: string
  sk_empty :: bool
  sk_decoded :: "join_token option"

definition inspectStoredK0sJoinToken :: "env \<Rightarrow> join_secret \<Rightarrow> stored_token" where
  "inspectStoredK0sJoinToken E js =
     (let annotated = (case js_annotation js of None \<Rightarrow> [] | Some a \<Rightarrow> a);
          raw = (case js_data js of None \<Rightarrow> [] | Some d \<Rightarrow> d)
      in if raw = [] then \<lparr>sk_annotated = annotated, sk_empty = True, sk_decoded = None\<rparr>
         else \<lparr>sk_annotated = annotated, sk_empty = False, sk_decoded = e_decode E raw\<rparr>)"

definition token_id :: "join_token \<Rightarrow> string" where
  "token_id d = bt_id (jt_token d)"

definition supersededIDs :: "stored_token \<Rightarrow> string list" where
  "supersededIDs st =
     (if sk_annotated st \<noteq> [] then [sk_annotated st] else []) @
     (case sk_decoded st of
        None \<Rightarrow> []
      | Some d \<Rightarrow> if token_id d \<noteq> sk_annotated st then [token_id d] else [])"

definition read_join_secret :: "env \<Rightarrow> join_secret op" where
  "read_join_secret E = read_api (e_join_secret E)"

definition workloadClusterCA :: "env \<Rightarrow> string op" where
  "workloadClusterCA E =
     bindA (read_api (e_ca E)) (\<lambda>ca.
     if ca = [] then throw (Failed ''workload kubeconfig carries no cluster CA data'') else ret ca)"

definition read_token :: "env \<Rightarrow> string \<Rightarrow> token_secret op" where
  "read_token E i = read_api (\<lambda>n. e_token E n leaveViaEndpoint i)"

text \<open>\<open>checkIssuedK0sJoinToken\<close>: why the stored token must be replaced, or nothing.\<close>

definition check_token :: "env \<Rightarrow> join_token \<Rightarrow> string \<Rightarrow> string list \<Rightarrow> token_secret \<Rightarrow> string" where
  "check_token E stored ca live ts =
     (if \<not> IsControllerJoinOnly ts then ''the workload token Secret is not a controller-join-only bootstrap token''
      else if ann (ts_data ts) key_secret \<noteq> bt_secret (jt_token stored)
      then ''the workload token Secret does not match the stored token''
      else case Expiry ts of
        None \<Rightarrow> ''the issued token has no valid expiration''
      | Some expires \<Rightarrow>
          if expires - e_now E < join_token_renew_within then ''the issued token expires within 30m0s''
          else if (case normalizeK0sJoinServer (jt_server stored) of None \<Rightarrow> True | Some u \<Rightarrow> u \<notin> set live)
          then ''the token's server is no longer a live control-plane member''
          else if jt_ca stored \<noteq> ca then ''the token's CA no longer matches the cluster CA''
          else [])"

definition checkIssuedK0sJoinToken :: "env \<Rightarrow> join_token \<Rightarrow> string \<Rightarrow> string list \<Rightarrow> string op" where
  "checkIssuedK0sJoinToken E stored ca live =
     bindA (tryA (read_token E (token_id stored))) (\<lambda>r.
     case r of
       Inl e \<Rightarrow> if e = Api NotFound then ret ''the issued token no longer exists in the workload cluster'' else throw e
     | Inr ts \<Rightarrow> ret (check_token E stored ca live ts))"


section \<open>Minting and deleting\<close>

text \<open>\<open>deleteK0sJoinTokenSecretBestEffort\<close>, \<open>deleteK0sJoinToken\<close>: whether nothing is left to do.\<close>

definition deleteK0sJoinTokenSecretBestEffort :: "env \<Rightarrow> string \<Rightarrow> bool op" where
  "deleteK0sJoinTokenSecretBestEffort E i =
     bindA (tryA (workload_write_via E leaveViaEndpoint (TokenSecretDeleted leaveViaEndpoint i))) (\<lambda>r.
     ret (case r of Inl e \<Rightarrow> e = Api NotFound | Inr _ \<Rightarrow> True))"

definition deleteK0sJoinToken :: "env \<Rightarrow> string \<Rightarrow> bool op" where
  "deleteK0sJoinToken E i =
     (if \<not> ValidID i then ret True
      else bindA (tryA (read_token E i)) (\<lambda>r.
        case r of
          Inl e \<Rightarrow> ret (e = Api NotFound)
        | Inr ts \<Rightarrow>
            if \<not> IsControllerJoinOnly ts then ret True
            else deleteK0sJoinTokenSecretBestEffort E i))"

fun delete_superseded :: "env \<Rightarrow> string \<Rightarrow> string list \<Rightarrow> unit op" where
  "delete_superseded E i [] = ret ()"
| "delete_superseded E i (old # olds) =
     bindA (if old \<noteq> i then bindA (deleteK0sJoinToken E old) (\<lambda>_. ret ()) else ret ()) (\<lambda>_.
     delete_superseded E i olds)"

definition mintK0sControllerJoinToken :: "env \<Rightarrow> string \<Rightarrow> string \<Rightarrow> string op" where
  "mintK0sControllerJoinToken E ca server =
     bindA tick (\<lambda>n. case e_new_token E n of
       None \<Rightarrow> throw (Failed ''generate bootstrap token'')
     | Some tok \<Rightarrow>
         bindA (workload_write_via E leaveViaEndpoint
           (TokenSecretCreated leaveViaEndpoint (bt_id tok) (NewSecret tok (e_now E + join_token_ttl)))) (\<lambda>_.
         case e_encode E server ca tok of
           None \<Rightarrow> bindA (deleteK0sJoinTokenSecretBestEffort E (bt_id tok)) (\<lambda>_.
             throw (Failed ''encode k0s join token''))
         | Some encoded \<Rightarrow>
             bindA (tryA (mgmt_write E (JoinSecretPatched (Some (bt_id tok))))) (\<lambda>r.
             case r of
               Inl e \<Rightarrow> bindA (deleteK0sJoinTokenSecretBestEffort E (bt_id tok)) (\<lambda>_. throw e)
             | Inr _ \<Rightarrow>
                 bindA (event E Normal ''K0sJoinTokenMinted'') (\<lambda>_. ret (bt_id tok)))))"


section \<open>Issuing a token for the next joiner\<close>

text \<open>The answer is the ID, empty to hold the joiner, and why.\<close>

type_synonym token_answer = "string \<times> string"

definition hold_joiner :: "string \<Rightarrow> token_answer op" where
  "hold_joiner why = ret ([], why)"

text \<open>After the mint the identity is verified again; a change deletes the token.\<close>

definition settle_token :: "env \<Rightarrow> stored_token \<Rightarrow> string \<Rightarrow> token_answer op" where
  "settle_token E stored i =
     bindA (tryA (verifyWorkloadIdentity E leaveViaEndpoint)) (\<lambda>v.
     case v of
       Inl e \<Rightarrow>
         if e = IdentityChanged then bindA (deleteK0sJoinToken E i) (\<lambda>_. throw IdentityChanged)
         else hold_joiner ''cannot re-verify the workload cluster identity after issuing a k0s join token''
     | Inr _ \<Rightarrow> bindA (delete_superseded E i (supersededIDs stored)) (\<lambda>_. ret (i, [])))"

definition mint_for :: "env \<Rightarrow> stored_token \<Rightarrow> string \<Rightarrow> string \<Rightarrow> token_answer op" where
  "mint_for E stored ca server =
     bindA (tryA (mintK0sControllerJoinToken E ca server)) (\<lambda>r.
     case r of
       Inl e \<Rightarrow>
         if e = Api Conflict
         then hold_joiner ''the join-token Secret changed while a new token was being stored; retrying''
         else hold_joiner ''issuing a k0s join token failed''
     | Inr i \<Rightarrow> settle_token E stored i)"

text \<open>Why the stored token cannot be reused, as far as the Secret and the Machines tell:
  \<open>None\<close> when it is worth asking the workload cluster.\<close>

definition replace_reason :: "stored_token \<Rightarrow> (string \<rightharpoonup> string) \<Rightarrow> string option" where
  "replace_reason stored boundTo =
     (if sk_empty stored then Some ''no token stored''
      else case sk_decoded stored of
        None \<Rightarrow> Some ''the stored value is not a k0s controller join token''
      | Some d \<Rightarrow>
          if sk_annotated stored = [] then Some ''the stored token was minted by the init node''
          else if token_id d \<noteq> sk_annotated stored then Some ''the stored token does not match its ID annotation''
          else if ann boundTo (sk_annotated stored) \<noteq> []
          then Some (''the stored token was issued to control-plane Machine '' @ ann boundTo (sk_annotated stored))
          else None)"

definition choose_token :: "env \<Rightarrow> stored_token \<Rightarrow> (string \<rightharpoonup> string) \<Rightarrow> string \<Rightarrow> string list \<Rightarrow> token_answer op" where
  "choose_token E stored boundTo ca live =
     (case replace_reason stored boundTo of
        Some _ \<Rightarrow> mint_for E stored ca (hd live)
      | None \<Rightarrow>
          (case sk_decoded stored of
             None \<Rightarrow> mint_for E stored ca (hd live)
           | Some d \<Rightarrow>
               bindA (tryA (checkIssuedK0sJoinToken E d ca live)) (\<lambda>r.
               case r of
                 Inl _ \<Rightarrow> hold_joiner ''cannot read the issued k0s join token from the workload cluster''
               | Inr why \<Rightarrow>
                   if why = [] then ret (sk_annotated stored, [])
                   else mint_for E stored ca (hd live))))"

text \<open>\<open>boundTo\<close> as the loop over the members leaves it.\<close>

definition bound_to :: "k0s_join_member list \<Rightarrow> (string \<rightharpoonup> string)" where
  "bound_to members =
     upd_all (\<lambda>_. None) (map (\<lambda>m. (jm_token_id m, m_name (jm_machine m)))
       (filter (\<lambda>m. jm_token_id m \<noteq> []) members))"

definition issue_token :: "env \<Rightarrow> machine list \<Rightarrow> k0s_join_member list \<Rightarrow> join_secret \<Rightarrow> token_answer op" where
  "issue_token E ms members secret =
     bindA (tryA (workloadClusterCA E)) (\<lambda>c.
     case c of
       Inl _ \<Rightarrow> hold_joiner ''cannot read the cluster CA for the k0s join token''
     | Inr ca \<Rightarrow>
     bindA (tryA (build_client E leaveViaEndpoint)) (\<lambda>w.
     case w of
       Inl _ \<Rightarrow> hold_joiner ''cannot reach the workload cluster to issue a k0s join token''
     | Inr _ \<Rightarrow>
     bindA (tryA (verifyWorkloadIdentity E leaveViaEndpoint)) (\<lambda>v.
     case v of
       Inl e \<Rightarrow>
         if e = IdentityChanged then throw IdentityChanged
         else hold_joiner ''cannot verify the workload cluster identity before issuing a k0s join token''
     | Inr _ \<Rightarrow>
     bindA (tryA (liveK0sJoinServers E ms)) (\<lambda>l.
     case l of
       Inl _ \<Rightarrow> hold_joiner ''cannot list live control-plane members''
     | Inr servers \<Rightarrow>
         if ks_urls servers = [] then
           bindA (event E Warning ''K0sJoinTokenNoLiveMember'') (\<lambda>_.
           hold_joiner ''no live control-plane member to issue a k0s join token for'')
         else choose_token E (inspectStoredK0sJoinToken E secret) (bound_to members) ca (ks_urls servers)))))"

definition ensureK0sControllerJoinToken :: "env \<Rightarrow> machine list \<Rightarrow> token_answer op" where
  "ensureK0sControllerJoinToken E ms =
     bindA refuse_if_frozen (\<lambda>_.
     bindA (readEtcdStatus E) (\<lambda>status.
     bindA (k0sJoinMembers E status ms) (\<lambda>members.
     case find pending members of
       Some m \<Rightarrow> hold_joiner (''joiner '' @ m_name (jm_machine m) @ '' has not finished joining'')
     | None \<Rightarrow>
         bindA (tryA (read_join_secret E)) (\<lambda>r.
         case r of
           Inl e \<Rightarrow>
             if e = Api NotFound then hold_joiner ''join-token Secret is not visible yet'' else throw e
         | Inr secret \<Rightarrow> issue_token E ms members secret))))"



section \<open>The lifetime of the issued tokens\<close>

text \<open>\<open>pending[id]\<close>: the Machines of the pending joiners with that token, in order.\<close>

definition pending_ids :: "k0s_join_member list \<Rightarrow> string list" where
  "pending_ids members =
     remdups (map jm_token_id (filter (\<lambda>m. pending m \<and> jm_token_id m \<noteq> []) members))"

definition pending_machines :: "k0s_join_member list \<Rightarrow> string \<Rightarrow> machine list" where
  "pending_machines members i = map jm_machine (filter (\<lambda>m. pending m \<and> jm_token_id m = i) members)"

definition done_members :: "k0s_join_member list \<Rightarrow> k0s_join_member list" where
  "done_members members = filter (\<lambda>m. \<not> pending m \<and> jm_token_id m \<noteq> [] \<and> \<not> tokenRemoved m) members"

definition legacy_members :: "k0s_join_member list \<Rightarrow> k0s_join_member list" where
  "legacy_members members = filter (\<lambda>m. pending m \<and> jm_token_id m = []) members"

definition warn_each :: "env \<Rightarrow> string \<Rightarrow> 'a list \<Rightarrow> unit op" where
  "warn_each E reason xs = bindA (mapA (\<lambda>_. event E Warning reason) xs) (\<lambda>_. ret ())"

text \<open>\<open>removeK0sJoinToken\<close>.\<close>

definition clear_join_secret :: "env \<Rightarrow> string \<Rightarrow> bool op" where
  "clear_join_secret E i =
     bindA (tryA (read_join_secret E)) (\<lambda>r.
     case r of
       Inl e \<Rightarrow> ret (e = Api NotFound)
     | Inr js \<Rightarrow>
         if js_annotation js = Some i \<or> (js_annotation js = None \<and> i = []) then
           bindA (tryA (mgmt_write E (JoinSecretPatched None))) (\<lambda>w.
           ret (case w of Inl _ \<Rightarrow> False | Inr _ \<Rightarrow> True))
         else ret True)"

definition removeK0sJoinToken :: "env \<Rightarrow> k0s_join_member \<Rightarrow> unit op" where
  "removeK0sJoinToken E m =
     bindA (deleteK0sJoinToken E (jm_token_id m)) (\<lambda>gone.
     if \<not> gone then ret ()
     else bindA (clear_join_secret E (jm_token_id m)) (\<lambda>cleared.
       if \<not> cleared then ret ()
       else bindA (tryA (mgmt_write E (ConfigAnnotated (kc_name (jm_config m))))) (\<lambda>_. ret ())))"

text \<open>The newest of the joiners' creation times, from Go's zero time on.\<close>

definition zero_time :: time where
  "zero_time = int (days_before_year 1) * 86400 * ns_per_s"

definition newest_created :: "machine list \<Rightarrow> time" where
  "newest_created ms = fold (\<lambda>m t. if m_created m > t then m_created m else t) ms zero_time"

definition extendK0sJoinToken :: "env \<Rightarrow> string \<Rightarrow> machine list \<Rightarrow> unit op" where
  "extendK0sJoinToken E i joiners =
     (if \<not> ValidID i then ret ()
      else bindA (tryA (read_token E i)) (\<lambda>r.
        case r of
          Inl e \<Rightarrow> if e = Api NotFound then warn_each E ''K0sJoinTokenMissing'' joiners else ret ()
        | Inr ts \<Rightarrow>
            if \<not> IsControllerJoinOnly ts then ret ()
            else if e_now E - newest_created joiners \<ge> join_token_extend_cap
            then warn_each E ''K0sJoinTokenExtensionCapped'' joiners
            else case Expiry ts of
              None \<Rightarrow> ret ()
            | Some expires \<Rightarrow>
                if expires - e_now E \<ge> join_token_renew_within then ret ()
                else bindA (tryA (workload_write_via E leaveViaEndpoint (TokenSecretExtended leaveViaEndpoint i
                       (format_rfc3339 (e_now E + join_token_ttl))))) (\<lambda>_. ret ())))"

text \<open>The stored server, when the stored token is the annotated one.\<close>

definition stored_server :: "env \<Rightarrow> (string \<times> string) op" where
  "stored_server E =
     bindA (tryA (read_join_secret E)) (\<lambda>r.
     ret (case r of
       Inl _ \<Rightarrow> ([], [])
     | Inr js \<Rightarrow>
         (case sk_decoded (inspectStoredK0sJoinToken E js) of
            None \<Rightarrow> ([], [])
          | Some d \<Rightarrow>
              if sk_annotated (inspectStoredK0sJoinToken E js) \<noteq> token_id d then ([], [])
              else (token_id d, case normalizeK0sJoinServer (jt_server d) of None \<Rightarrow> [] | Some u \<Rightarrow> u))))"

definition maintain_pending :: "env \<Rightarrow> machine list \<Rightarrow> k0s_join_member list \<Rightarrow> bool op" where
  "maintain_pending E ms members =
     bindA (stored_server E) (\<lambda>(storedID, storedServer).
     bindA (tryA (liveK0sJoinServers E ms)) (\<lambda>l.
     bindA (mapA (\<lambda>i.
       bindA (extendK0sJoinToken E i (pending_machines members i)) (\<lambda>_.
       case l of
         Inl _ \<Rightarrow> ret ()
       | Inr servers \<Rightarrow>
           if i = storedID \<and> storedServer \<noteq> [] \<and> storedServer \<notin> set (ks_urls servers)
           then warn_each E ''K0sJoinTokenServerUnavailable'' (pending_machines members i)
           else ret ())) (sort_key (\<lambda>i. i) (pending_ids members))) (\<lambda>_.
     ret True)))"

text \<open>The part that needs the workload cluster: only in the pinned one.\<close>

definition maintain_verified :: "env \<Rightarrow> machine list \<Rightarrow> k0s_join_member list \<Rightarrow> bool op" where
  "maintain_verified E ms members =
     bindA (tryA (verifyWorkloadIdentity E leaveViaEndpoint)) (\<lambda>v.
     case v of
       Inl _ \<Rightarrow> ret (pending_ids members \<noteq> [])
     | Inr _ \<Rightarrow>
         bindA (mapA (removeK0sJoinToken E)
           (filter (\<lambda>m. jm_token_id m \<notin> set (pending_ids members)) (done_members members))) (\<lambda>_.
         if pending_ids members = [] then ret False
         else maintain_pending E ms members))"

definition maintain_tokens :: "env \<Rightarrow> machine list \<Rightarrow> k0s_join_member list \<Rightarrow> bool op" where
  "maintain_tokens E ms members =
     bindA (warn_each E ''K0sJoinTokenLegacy'' (legacy_members members)) (\<lambda>_.
     if pending_ids members = [] \<and> done_members members = [] then ret False
     else
       bindA (tryA (build_client E leaveViaEndpoint)) (\<lambda>w.
       case w of
         Inl _ \<Rightarrow> ret (pending_ids members \<noteq> [])
       | Inr _ \<Rightarrow> maintain_verified E ms members))"

definition reconcileK0sJoinTokenLifetime :: "env \<Rightarrow> machine list \<Rightarrow> bool op" where
  "reconcileK0sJoinTokenLifetime E ms =
     bindA get_kcp (\<lambda>k.
     if workloadIdentityFrozen k \<noteq> None then ret False
     else
       bindA (tryA (readEtcdStatus E)) (\<lambda>st.
       case st of
         Inl _ \<Rightarrow> ret True
       | Inr status \<Rightarrow>
           bindA (tryA (k0sJoinMembers E status ms)) (\<lambda>jm.
           case jm of
             Inl _ \<Rightarrow> ret True
           | Inr members \<Rightarrow> maintain_tokens E ms members)))"


section \<open>Guarantees\<close>

lemma members_silent [silent_rules]: "guards silent (k0sJoinMembers E status ms)"
  by (induction ms) (auto intro!: silent.flow guards_intros silent_rules)

lemma token_reads_silent [silent_rules]:
  "guards silent (liveK0sJoinServers E ms)" "guards silent (read_join_secret E)"
  "guards silent (workloadClusterCA E)" "guards silent (read_token E i)"
  "guards silent (checkIssuedK0sJoinToken E d ca live)" "guards silent (stored_server E)"
  "guards silent (hold_joiner why)"
  unfolding liveK0sJoinServers_def read_join_secret_def workloadClusterCA_def read_token_def
    checkIssuedK0sJoinToken_def stored_server_def hold_joiner_def
  by (intro silent.flow guards_intros silent_rules)+

lemmas token_reads = members_silent token_reads_silent readEtcdStatus_silent
lemmas token_reads_freeze [freeze_rules] = token_reads [THEN silent_freeze]
lemmas token_reads_quiet [quiet_rules] = token_reads [THEN silent_quiet]

lemma workload_delete_freeze: "guards freeze_ok (workload_write_via E via (TokenSecretDeleted via i))"
  unfolding guards_wpa wpa_simps
  by (auto intro: nothing_logged_ok log_plain_ok [where e = "TokenSecretDeleted via i"] split: option.splits)

lemma warn_freeze [freeze_rules]: "guards freeze_ok (warn_each E reason xs)"
  unfolding warn_each_def by (intro frz.flow frz.map_guards freeze_rules)

lemma warn_quiet [quiet_rules]: "guards same_annotations (warn_each E reason xs)"
  unfolding warn_each_def by (intro quiet.flow quiet.map_guards quiet_rules)

lemma token_deletes_freeze [freeze_rules]:
  "guards freeze_ok (deleteK0sJoinTokenSecretBestEffort E i)"
  "guards freeze_ok (deleteK0sJoinToken E i)"
  "guards freeze_ok (delete_superseded E i olds)"
  "guards freeze_ok (clear_join_secret E i)"
  "guards freeze_ok (removeK0sJoinToken E m)"
proof -
  show b: "guards freeze_ok (deleteK0sJoinTokenSecretBestEffort E i)" for i
    unfolding deleteK0sJoinTokenSecretBestEffort_def by (intro frz.flow workload_delete_freeze)
  show d: "guards freeze_ok (deleteK0sJoinToken E i)" for i
    unfolding deleteK0sJoinToken_def by (intro frz.flow guards_intros freeze_rules b)
  show "guards freeze_ok (delete_superseded E i olds)"
    by (induction olds) (auto intro!: frz.flow guards_intros d)
  show c: "guards freeze_ok (clear_join_secret E i)" for i
    unfolding clear_join_secret_def by (intro frz.flow guards_intros freeze_rules mgmt_write_freeze) simp_all
  show "guards freeze_ok (removeK0sJoinToken E m)"
    unfolding removeK0sJoinToken_def by (intro frz.flow guards_intros d c mgmt_write_freeze) simp_all
qed

lemma token_writes_quiet [quiet_rules]:
  "guards same_annotations (deleteK0sJoinTokenSecretBestEffort E i)"
  "guards same_annotations (deleteK0sJoinToken E i)"
  "guards same_annotations (delete_superseded E i olds)"
  "guards same_annotations (clear_join_secret E i)"
  "guards same_annotations (removeK0sJoinToken E m)"
  "guards same_annotations (mintK0sControllerJoinToken E ca server)"
  "guards same_annotations (extendK0sJoinToken E i joiners)"
proof -
  show b: "guards same_annotations (deleteK0sJoinTokenSecretBestEffort E i)" for i
    unfolding deleteK0sJoinTokenSecretBestEffort_def by (intro quiet.flow quiet_rules)
  show d: "guards same_annotations (deleteK0sJoinToken E i)" for i
    unfolding deleteK0sJoinToken_def by (intro quiet.flow guards_intros quiet_rules b)
  show "guards same_annotations (delete_superseded E i olds)"
    by (induction olds) (auto intro!: quiet.flow guards_intros d)
  show c: "guards same_annotations (clear_join_secret E i)" for i
    unfolding clear_join_secret_def by (intro quiet.flow guards_intros quiet_rules)
  show "guards same_annotations (removeK0sJoinToken E m)"
    unfolding removeK0sJoinToken_def by (intro quiet.flow guards_intros d c quiet_rules)
  show "guards same_annotations (mintK0sControllerJoinToken E ca server)"
    unfolding mintK0sControllerJoinToken_def by (intro quiet.flow guards_intros quiet_rules b)
  show "guards same_annotations (extendK0sJoinToken E i joiners)"
    unfolding extendK0sJoinToken_def by (intro quiet.flow guards_intros quiet_rules)
qed

lemma token_writes_open [open_rules]:
  "guards_from unfrozen freeze_ok (mintK0sControllerJoinToken E ca server)"
  "guards_from unfrozen freeze_ok (extendK0sJoinToken E i joiners)"
proof -
  show "guards_from unfrozen freeze_ok (mintK0sControllerJoinToken E ca server)"
    unfolding mintK0sControllerJoinToken_def
    by (intro frz.open_flow guards_intros quiet.flow quiet_rules workload_write_unfrozen mgmt_write_unfrozen
        freeze_rules [THEN guards_from_weaken]) simp_all
  show "guards_from unfrozen freeze_ok (extendK0sJoinToken E i joiners)"
    unfolding extendK0sJoinToken_def
    by (intro frz.open_flow guards_intros quiet.flow quiet_rules workload_write_unfrozen
        freeze_rules [THEN guards_from_weaken]) simp_all
qed

lemma settle_freeze [freeze_rules]: "guards freeze_ok (settle_token E stored i)"
  unfolding settle_token_def by (intro frz.flow guards_intros freeze_rules)

lemma choose_open [open_rules]:
  "guards_from unfrozen freeze_ok (mint_for E stored ca server)"
  "guards_from unfrozen freeze_ok (choose_token E stored boundTo ca live)"
  unfolding mint_for_def choose_token_def
  by (intro frz.open_flow guards_intros quiet.flow quiet_rules open_rules freeze_rules [THEN guards_from_weaken])+

lemma issue_freeze [freeze_rules]: "guards freeze_ok (issue_token E ms members secret)"
  unfolding issue_token_def
  by (rule frz.bind_guards [OF frz.try_guards], rule freeze_rules, rule guards_sum, rule freeze_rules,
      rule frz.bind_guards [OF frz.try_guards], rule freeze_rules, rule guards_sum, rule freeze_rules,
      rule frz.check_try, rule freeze_rules, erule verify_opens; simp only: sum.case)
    (intro frz.open_flow guards_intros quiet.flow quiet_rules open_rules frz.throw_guards freeze_rules
      freeze_rules [THEN guards_from_weaken])+

lemma ensureToken_freeze [freeze_rules]: "guards freeze_ok (ensureK0sControllerJoinToken E ms)"
  unfolding ensureK0sControllerJoinToken_def by (intro frz.flow guards_intros freeze_rules)

lemma open_map:
  assumes "\<And>x. guards_from unfrozen freeze_ok (f x)" "\<And>x. guards same_annotations (f x)"
  shows "guards_from unfrozen freeze_ok (mapA f xs)"
  by (induction xs) (auto intro!: frz.open_flow quiet.map_guards assms)

lemma maintain_open [open_rules]: "guards_from unfrozen freeze_ok (maintain_pending E ms members)"
  unfolding maintain_pending_def
  by (intro frz.open_flow open_map guards_intros quiet.flow quiet.map_guards quiet_rules open_rules
      freeze_rules [THEN guards_from_weaken])

lemma maintain_freeze [freeze_rules]: "guards freeze_ok (maintain_verified E ms members)"
  unfolding maintain_verified_def
  by (rule frz.check_try, rule freeze_rules, erule verify_opens; simp only: sum.case)
    (intro frz.open_flow guards_intros quiet.flow quiet.map_guards quiet_rules open_rules frz.ret_guards
      frz.map_guards freeze_rules frz.map_guards [THEN guards_from_weaken])+

lemma lifetime_freeze [freeze_rules]: "guards freeze_ok (reconcileK0sJoinTokenLifetime E ms)"
  unfolding reconcileK0sJoinTokenLifetime_def maintain_tokens_def
  by (intro frz.flow guards_intros freeze_rules)

end
