(* ===== verification/Join_Token_Safety.thy ===== *)
theory Join_Token_Safety
  imports Join_Tokens
begin

text \<open>
  What the join-token operations of \<open>Join_Tokens\<close> may do: the effects of the lifetime step,
  and which token the next joiner is given.
\<close>


section \<open>What a token may do\<close>

lemma freeze_grows: "guards freeze_ok m \<Longrightarrow> traces (\<lambda>_ _ _ _. True) m"
  unfolding guards_wpa traces_def freeze_ok_def by (blast intro: wpa_weaken)

lemma members_read:
  assumes "k0sJoinMembers E status ms s = (Inr members, s')" "m \<in> set members"
  shows "jm_machine m \<in> set ms \<and> jm_deleting m = deleting (jm_machine m) \<and>
    jm_joined m = k0sMemberJoined (jm_machine m) status"
  using assms
proof (induction ms arbitrary: members s)
  case (Cons x ms)
  show ?case
  proof (cases "m_cfg_kind x \<noteq> ''KairosConfig'' \<or> m_cfg_name x = []")
    case True
    with Cons show ?thesis by auto
  next
    case False
    from Cons.prems(1) False obtain r s1 where r:
      "tryA (read_api (\<lambda>n. e_config E n (m_cfg_name x))) s = (Inr r, s1)"
      "(case r of
          Inl e \<Rightarrow> if e = Api NotFound then k0sJoinMembers E status ms else throw e
        | Inr kc \<Rightarrow>
            if kc_role kc \<noteq> role_join then k0sJoinMembers E status ms
            else bindA (k0sJoinMembers E status ms) (\<lambda>rest.
              ret (\<lparr>jm_machine = x, jm_config = kc, jm_token_id = ann (kc_annotations kc) token_id_ann,
                    jm_joined = k0sMemberJoined x status, jm_deleting = deleting x\<rparr> # rest))) s1 = (Inr members, s')"
      by (auto dest!: bindA_inv_Inr)
    then show ?thesis
      using Cons.IH Cons.prems(2)
      by (fastforce simp: ret_def throw_def dest!: bindA_inv_Inr split: sum.splits if_splits)
  qed
qed (simp add: ret_def)

text \<open>An effect the lifetime step may have on a token.\<close>

definition join_only_read :: "env \<Rightarrow> string \<Rightarrow> token_secret \<Rightarrow> bool" where
  "join_only_read E i ts \<longleftrightarrow> ValidID i \<and> IsControllerJoinOnly ts \<and>
     (\<exists>n. e_token E n leaveViaEndpoint i = Inr ts)"

fun lifetime_effect :: "env \<Rightarrow> machine list \<Rightarrow> effect \<Rightarrow> bool" where
  "lifetime_effect E ms (TokenSecretExtended via i stamp) =
     (stamp = format_rfc3339 (e_now E + join_token_ttl) \<and>
      (\<exists>ts x. join_only_read E i ts \<and> Expiry ts = Some x \<and> x - e_now E < join_token_renew_within) \<and>
      (\<exists>joiners. set joiners \<subseteq> {m \<in> set ms. \<not> deleting m} \<and> e_now E - newest_created joiners < join_token_extend_cap))"
| "lifetime_effect E ms (TokenSecretDeleted via i) = (\<exists>ts. join_only_read E i ts)"
| "lifetime_effect E ms (JoinSecretPatched x) = (x = None)"
| "lifetime_effect E ms (KcpPatched kvs rm) = True"
| "lifetime_effect E ms (ConfigAnnotated n) = True"
| "lifetime_effect E ms (Event t reason) = True"
| "lifetime_effect E ms _ = False"

lemma freeze_lifetime: "freeze_effect e \<Longrightarrow> lifetime_effect E ms e"
  by (cases e) (auto simp: freeze_effect_def)

lemmas token_reads_logs = token_reads [THEN silent_logs]

lemma warn_logs: "Q (Event Warning reason) \<Longrightarrow> guards (logs_only Q) (warn_each E reason xs)"
  unfolding warn_each_def by (intro logs.flow logs.map_guards logs_writes)

lemma extend_logs:
  assumes "set joiners \<subseteq> {m \<in> set ms. \<not> deleting m}"
  shows "guards (logs_only (lifetime_effect E ms)) (extendK0sJoinToken E i joiners)"
proof -
  let ?Q = "lifetime_effect E ms"
  have extend: "guards (logs_only ?Q)
     (if \<not> IsControllerJoinOnly ts then ret ()
      else if e_now E - newest_created joiners \<ge> join_token_extend_cap
      then warn_each E ''K0sJoinTokenExtensionCapped'' joiners
      else case Expiry ts of
        None \<Rightarrow> ret ()
      | Some expires \<Rightarrow>
          if expires - e_now E \<ge> join_token_renew_within then ret ()
          else bindA (tryA (workload_write_via E leaveViaEndpoint (TokenSecretExtended leaveViaEndpoint i
                 (format_rfc3339 (e_now E + join_token_ttl))))) (\<lambda>_. ret ()))"
    if "ValidID i" "e_token E n leaveViaEndpoint i = Inr ts" for n ts
  proof (intro guards_known logs.flow warn_logs logs_writes)
    fix expires
    assume h: "\<not> \<not> IsControllerJoinOnly ts" "\<not> join_token_extend_cap \<le> e_now E - newest_created joiners"
      "Expiry ts = Some expires" "\<not> join_token_renew_within \<le> expires - e_now E"
    then show "?Q (TokenSecretExtended leaveViaEndpoint i (format_rfc3339 (e_now E + join_token_ttl)))"
      using that assms by (auto simp: join_only_read_def not_le intro!: exI [of _ joiners])
  qed simp
  show ?thesis
    unfolding extendK0sJoinToken_def read_token_def
    by (intro guards_if_known logs.ret_guards read_logs; simp only: sum.case)
      (intro guards_intros warn_logs logs.ret_guards extend; simp)+
qed

lemma delete_logs:
  "guards (logs_only (lifetime_effect E ms)) (deleteK0sJoinToken E i)"
proof -
  have delete: "guards (logs_only (lifetime_effect E ms))
      (if \<not> IsControllerJoinOnly ts then ret True else deleteK0sJoinTokenSecretBestEffort E i)"
    if "ValidID i" "e_token E n leaveViaEndpoint i = Inr ts" for n ts
    unfolding deleteK0sJoinTokenSecretBestEffort_def
    using that by (intro guards_known logs.flow logs_writes) (auto simp: join_only_read_def intro!: exI [of _ ts])
  show ?thesis
    unfolding deleteK0sJoinToken_def read_token_def
    by (intro guards_if_known logs.ret_guards read_logs; simp only: sum.case)
      (intro logs.ret_guards delete; simp)+
qed

lemma remove_logs: "guards (logs_only (lifetime_effect E ms)) (removeK0sJoinToken E m)"
  unfolding removeK0sJoinToken_def clear_join_secret_def
  by (intro logs.flow guards_intros delete_logs logs_writes token_reads_logs; simp)

lemma maintain_logs:
  assumes "\<And>m. m \<in> set members \<Longrightarrow> jm_machine m \<in> set ms \<and> jm_deleting m = deleting (jm_machine m)"
  shows "guards (logs_only (lifetime_effect E ms)) (maintain_tokens E ms members)"
proof -
  have joiners: "set (pending_machines members i) \<subseteq> {m \<in> set ms. \<not> deleting m}" for i
    using assms by (auto simp: pending_machines_def pending_def)
  have "guards (logs_only (lifetime_effect E ms)) (maintain_pending E ms members)"
    unfolding maintain_pending_def
    by (intro logs.flow logs.map_guards guards_intros extend_logs joiners token_reads_logs warn_logs) simp_all
  then have "guards (logs_only (lifetime_effect E ms)) (maintain_verified E ms members)"
    unfolding maintain_verified_def
    by (intro logs.flow logs.map_guards guards_intros identity_logs(2) freeze_lifetime remove_logs)
  then show ?thesis
    unfolding maintain_tokens_def build_client_def
    by (intro logs.flow guards_intros logs_rules warn_logs) simp_all
qed

lemma lifetime_logs: "guards (logs_only (lifetime_effect E ms)) (reconcileK0sJoinTokenLifetime E ms)"
proof -
  have maintained: "guards (logs_only (lifetime_effect E ms))
      (case r of Inl _ \<Rightarrow> ret True | Inr members \<Rightarrow> maintain_tokens E ms members)"
    if "k0sJoinMembers E status ms s = (r, s')" for r status and s s' :: st
  proof (cases r)
    case (Inr members)
    then show ?thesis
      using members_read [of E status ms s members s'] that by (auto intro!: maintain_logs)
  qed (simp add: logs.ret_guards)
  show ?thesis
    unfolding reconcileK0sJoinTokenLifetime_def
    by (intro logs.bind_guards guards_if logs.try_guards logs.ret_guards guards_sum
        logs_rules token_reads_logs logs.try_result maintained)
qed

text \<open>
  Keeping the join tokens alive only ever extends or deletes a Secret that was read back
  as a controller-join-only bootstrap token. A token is extended by one hour at a time, when
  less than 30 minutes are left, and only while the newest of the Machines waiting with it is
  less than 24 hours old, so no token outlives its joiner's creation by more than 25 hours.
\<close>

theorem token_extensions_are_bounded:
  assumes "reconcileK0sJoinTokenLifetime E ms s = (r, s')" "e \<in> set (new_effects s s')"
  shows "lifetime_effect E ms e"
  using guardsD [OF lifetime_logs assms(1)] assms(2) by (rule logs_onlyD)



section \<open>The token of the next joiner\<close>

text \<open>A new token: its Secret was created in the workload cluster with the full lifetime, and
  its ID was recorded in the management cluster.\<close>

definition minted :: "env \<Rightarrow> string \<Rightarrow> effect list \<Rightarrow> bool" where
  "minted E i es \<longleftrightarrow>
     (\<exists>tok. bt_id tok = i \<and>
        TokenSecretCreated leaveViaEndpoint i (NewSecret tok (e_now E + join_token_ttl)) \<in> set es) \<and>
     JoinSecretPatched (Some i) \<in> set es"

text \<open>The stored token as it is: it is the annotated one, no joiner was given it, and the workload
  cluster still holds it with at least half an hour to live and a live server.\<close>

definition reusable :: "env \<Rightarrow> k0s_join_member list \<Rightarrow> join_secret \<Rightarrow> string \<Rightarrow> string list \<Rightarrow> string \<Rightarrow> bool" where
  "reusable E members secret ca live i \<longleftrightarrow>
     (\<exists>d ts x n. js_annotation secret = Some i \<and> Option.bind (js_data secret) (e_decode E) = Some d \<and>
        token_id d = i \<and> (\<forall>m\<in>set members. jm_token_id m \<noteq> i) \<and>
        e_token E n leaveViaEndpoint i = Inr ts \<and> IsControllerJoinOnly ts \<and>
        ann (ts_data ts) key_secret = bt_secret (jt_token d) \<and>
        Expiry ts = Some x \<and> e_now E + join_token_renew_within \<le> x \<and>
        (\<exists>u. normalizeK0sJoinServer (jt_server d) = Some u \<and> u \<in> set live) \<and> jt_ca d = ca)"

lemma traces_settle:
  "traces (\<lambda>k k' r es. \<forall>j why. r = Inr (j, why) \<longrightarrow> j = [] \<or> j = i) (settle_token E stored i)"
proof -
  have v: "traces (\<lambda>_ _ _ _. True) (verifyWorkloadIdentity E via)" for via
    by (rule freeze_grows [OF verify_freeze(1)])
  have d: "traces (\<lambda>_ _ _ _. True) (deleteK0sJoinToken E i)" for i
    by (rule freeze_grows [OF token_deletes_freeze(2)])
  have ds: "traces (\<lambda>_ _ _ _. True) (delete_superseded E i olds)" for olds
    by (rule freeze_grows [OF token_deletes_freeze(3)])
  show ?thesis
    unfolding settle_token_def hold_joiner_def traces_def
    by (auto simp: wpa_simps intro!: traces_wpa [OF v] traces_wpa [OF d] traces_wpa [OF ds] split: sum.splits)
qed

lemma traces_mint:
  "traces (\<lambda>k k' r es. \<forall>i. r = Inr i \<longrightarrow> minted E i es) (mintK0sControllerJoinToken E ca server)"
proof -
  have d: "traces (\<lambda>_ _ _ _. True) (deleteK0sJoinTokenSecretBestEffort E i)" for i
    by (rule freeze_grows [OF token_deletes_freeze(1)])
  show ?thesis
    unfolding mintK0sControllerJoinToken_def traces_def
    by (auto simp: wpa_simps minted_def intro!: traces_wpa [OF d] split: option.splits sum.splits)
qed

lemma minted_more: "minted E i es \<Longrightarrow> minted E i (es @ fs)"
  by (auto simp: minted_def)

lemma traces_mint_for:
  "traces (\<lambda>k k' r es. \<forall>i why. r = Inr (i, why) \<longrightarrow> i = [] \<or> minted E i es) (mint_for E stored ca server)"
  unfolding mint_for_def hold_joiner_def traces_def
  by (auto simp: wpa_simps minted_more intro!: traces_wpa [OF traces_mint] traces_wpa [OF traces_settle]
      split: sum.splits)

lemma upd_all_in: "k \<in> fst ` set kvs \<Longrightarrow> \<exists>v. upd_all m kvs k = Some v \<and> (k, v) \<in> set kvs"
proof (induction kvs arbitrary: m)
  case (Cons kv kvs)
  obtain x v where kv: "kv = (x, v)" by (cases kv)
  show ?case
  proof (cases "k \<in> fst ` set kvs")
    case True
    from Cons.IH [OF this, of "m(x \<mapsto> v)"] obtain w where
      w: "upd_all (m(x \<mapsto> v)) kvs k = Some w" "(k, w) \<in> set kvs" by blast
    from w(1) have "upd_all m (kv # kvs) k = Some w" unfolding kv upd_all_simps .
    with w(2) show ?thesis by (auto simp del: upd_all_simps)
  next
    case False
    with Cons.prems have "k = x" by (simp add: kv)
    with False show ?thesis by (simp add: kv)
  qed
qed simp

lemma bound_to_name:
  assumes "ann (bound_to members) i = []" "i \<noteq> []" "\<forall>m\<in>set members. m_name (jm_machine m) \<noteq> []"
  shows "\<forall>m\<in>set members. jm_token_id m \<noteq> i"
proof (rule ccontr)
  assume "\<not> ?thesis"
  then have "i \<in> fst ` set (map (\<lambda>m. (jm_token_id m, m_name (jm_machine m)))
      (filter (\<lambda>m. jm_token_id m \<noteq> []) members))" using assms(2) by (auto simp: image_iff)
  from upd_all_in [OF this, of "\<lambda>_. None"] assms(1,3) show False by (auto simp: bound_to_def ann_def)
qed

definition answer_ok :: "env \<Rightarrow> k0s_join_member list \<Rightarrow> join_secret \<Rightarrow> string \<Rightarrow> string list \<Rightarrow>
    err + token_answer \<Rightarrow> effect list \<Rightarrow> bool" where
  "answer_ok E members secret ca live r es \<longleftrightarrow>
     (\<forall>i why. r = Inr (i, why) \<longrightarrow> i = [] \<or> minted E i es \<or> (es = [] \<and> reusable E members secret ca live i))"

lemma traces_choose:
  assumes "\<forall>m\<in>set members. m_name (jm_machine m) \<noteq> []"
  shows "traces (\<lambda>k k' r es. answer_ok E members secret ca live r es)
    (choose_token E (inspectStoredK0sJoinToken E secret) (bound_to members) ca live)"
proof -
  let ?st = "inspectStoredK0sJoinToken E secret"
  have mint: "traces (\<lambda>k k' r es. answer_ok E members secret ca live r es) (mint_for E ?st ca (hd live))"
    by (rule traces_mono [OF traces_mint_for]) (auto simp: answer_ok_def)
  show ?thesis
  proof (cases "replace_reason ?st (bound_to members)")
    case (Some why)
    with mint show ?thesis by (simp add: choose_token_def)
  next
    case None
    then obtain d where d: "sk_decoded ?st = Some d" "token_id d = sk_annotated ?st" "sk_annotated ?st \<noteq> []"
      "ann (bound_to members) (sk_annotated ?st) = []"
      by (auto simp: replace_reason_def split: if_splits option.splits)
    have free: "\<forall>m\<in>set members. jm_token_id m \<noteq> sk_annotated ?st"
      by (rule bound_to_name [OF d(4,3) assms])
    have js: "js_annotation secret = Some (sk_annotated ?st)" "Option.bind (js_data secret) (e_decode E) = Some d"
      using d(1,3) by (auto simp: inspectStoredK0sJoinToken_def Let_def split: option.splits if_splits)
    have reuse: "reusable E members secret ca live (sk_annotated ?st)"
      if "e_token E n leaveViaEndpoint (token_id d) = Inr ts" "check_token E d ca live ts = []" for n ts
      unfolding reusable_def
      using that free js d
      by (intro exI [of _ d] exI [of _ ts])
        (auto simp: check_token_def split: if_splits option.splits)
    show ?thesis
      unfolding choose_token_def None option.case d(1) checkIssuedK0sJoinToken_def read_token_def hold_joiner_def
        traces_def
      by (auto simp: wpa_simps intro: reuse intro!: traces_wpa [OF mint] split: sum.splits)
        (auto simp: answer_ok_def intro: reuse)
  qed
qed


lemma members_read_all:
  assumes "\<forall>m\<in>set ms. m_name m \<noteq> []" "k0sJoinMembers E status ms s = (Inr members, s')"
  shows "\<forall>m\<in>set members. m_name (jm_machine m) \<noteq> []"
  using members_read [OF assms(2)] assms(1) by blast


end
