(* ===== verification/HA_Secrets.thy ===== *)
theory HA_Secrets
  imports Join_Token_Safety
begin

text \<open>
  The two per-cluster Secrets of an HA control plane: the join-token Secret
  (\<open>ha_tokens.go\<close>) and the etcd-status Secret (\<open>ensureEtcdStatusSecret\<close>, \<open>ha_etcd.go\<close>).

  A Secret of that name that the expected owner does not control is refused, never adopted.
  \<open>controllerutil.CreateOrUpdate\<close> reads the Secret again, and writes it only when the
  mutation changed something: \<open>js_settled\<close> says that the labels and the owner reference
  already are what the mutation sets. Setting the controller reference fails when another
  controller owns the Secret by then.
\<close>

definition etcdStatusSecretName :: "string \<Rightarrow> string" where
  "etcdStatusSecretName clusterName = clusterName @ ''-etcd-status''"

definition refuseUnownedHASecret :: "(nat \<Rightarrow> apierr + join_secret) \<Rightarrow> string \<Rightarrow> unit op" where
  "refuseUnownedHASecret get_secret ownerUID =
     bindA (tryA (read_api get_secret)) (\<lambda>r.
     case r of
       Inl e \<Rightarrow> if e = Api NotFound then ret () else throw e
     | Inr js \<Rightarrow>
         if js_owner js \<noteq> Some ownerUID
         then throw (Failed ''HA secret already exists but is not controlled by the expected owner'')
         else ret ())"

text \<open>The k3s server token: drawn when the Secret holds none.\<close>

definition generateJoinToken :: "env \<Rightarrow> unit op" where
  "generateJoinToken E =
     bindA tick (\<lambda>n. case e_random E n of None \<Rightarrow> throw (Failed ''generate join token'') | Some _ \<Rightarrow> ret ())"

definition no_secret :: join_secret where
  "no_secret = \<lparr>js_annotation = None, js_data = None, js_owner = None, js_settled = False\<rparr>"

definition create_or_update :: "env \<Rightarrow> (nat \<Rightarrow> apierr + join_secret) \<Rightarrow> string \<Rightarrow> string \<Rightarrow> bool \<Rightarrow> unit op" where
  "create_or_update E get_secret name ownerUID wants_token =
     bindA (tryA (read_api get_secret)) (\<lambda>r.
     if (case r of Inl e \<Rightarrow> e \<noteq> Api NotFound | Inr _ \<Rightarrow> False)
     then (case r of Inl e \<Rightarrow> throw e | Inr _ \<Rightarrow> ret ())
     else
       let js = (case r of Inl _ \<Rightarrow> no_secret | Inr js \<Rightarrow> js);
           fresh = wants_token \<and> (case js_data js of None \<Rightarrow> True | Some d \<Rightarrow> d = [])
       in bindA (if fresh then generateJoinToken E else ret ()) (\<lambda>_.
          if (case js_owner js of None \<Rightarrow> False | Some u \<Rightarrow> u \<noteq> ownerUID)
          then throw (Failed ''the Secret is owned by another controller'')
          else if js_settled js \<and> \<not> fresh then ret ()
          else mgmt_write E (SecretEnsured name fresh)))"

definition ensureJoinTokenSecret :: "env \<Rightarrow> cluster \<Rightarrow> unit op" where
  "ensureJoinTokenSecret E cl =
     bindA get_kcp (\<lambda>k.
     let distribution = (if k_distribution k = [] then ''k0s'' else k_distribution k) in
     bindA (refuseUnownedHASecret (e_join_secret E) (k_uid k)) (\<lambda>_.
     create_or_update E (e_join_secret E) (joinTokenSecretName (c_name cl)) (k_uid k) (distribution = ''k3s'')))"

definition ensureEtcdStatusSecret :: "env \<Rightarrow> cluster \<Rightarrow> unit op" where
  "ensureEtcdStatusSecret E cl =
     bindA (refuseUnownedHASecret (e_status_secret E) (c_uid cl)) (\<lambda>_.
     create_or_update E (e_status_secret E) (etcdStatusSecretName (c_name cl)) (c_uid cl) False)"

lemma secrets_freeze [freeze_rules]:
  "guards freeze_ok (ensureJoinTokenSecret E cl)" "guards freeze_ok (ensureEtcdStatusSecret E cl)"
  unfolding ensureJoinTokenSecret_def ensureEtcdStatusSecret_def create_or_update_def
    refuseUnownedHASecret_def generateJoinToken_def Let_def
  by (intro frz.flow guards_intros freeze_rules mgmt_write_freeze; simp)+

lemma secrets_quiet [quiet_rules]:
  "guards same_annotations (ensureJoinTokenSecret E cl)" "guards same_annotations (ensureEtcdStatusSecret E cl)"
  unfolding ensureJoinTokenSecret_def ensureEtcdStatusSecret_def create_or_update_def
    refuseUnownedHASecret_def generateJoinToken_def Let_def
  by (intro quiet.flow guards_intros quiet_rules)+

text \<open>
  An existing join-token Secret of another owner is refused before anything is written;
  and the shared k3s token is generated only when the Secret is absent or holds no token, so
  the token of a running cluster is never replaced.
\<close>

theorem join_secret_is_never_hijacked:
  assumes "ensureJoinTokenSecret E cl s = (r, s')"
  shows "(\<forall>js. e_join_secret E (s_tick s) = Inr js \<and> js_owner js \<noteq> Some (k_uid (s_kcp s)) \<longrightarrow>
      (\<exists>msg. r = Inl (Failed msg)) \<and> new_effects s s' = []) \<and>
    (\<forall>name. SecretEnsured name True \<in> set (new_effects s s') \<longrightarrow>
      k_distribution (s_kcp s) = ''k3s'' \<and>
      (\<exists>n. e_join_secret E n = Inl NotFound \<or>
        (\<exists>js. e_join_secret E n = Inr js \<and> js_data js \<in> {None, Some []})))"
proof -
  have "wpa (ensureJoinTokenSecret E cl) (\<lambda>r s'.
     (\<forall>js. e_join_secret E (s_tick s) = Inr js \<and> js_owner js \<noteq> Some (k_uid (s_kcp s)) \<longrightarrow>
      (\<exists>msg. r = Inl (Failed msg)) \<and> new_effects s s' = []) \<and>
    (\<forall>name. SecretEnsured name True \<in> set (new_effects s s') \<longrightarrow>
      k_distribution (s_kcp s) = ''k3s'' \<and>
      (\<exists>n. e_join_secret E n = Inl NotFound \<or>
        (\<exists>js. e_join_secret E n = Inr js \<and> js_data js \<in> {None, Some []})))) s"
    unfolding ensureJoinTokenSecret_def refuseUnownedHASecret_def create_or_update_def generateJoinToken_def
      Let_def no_secret_def
    by (auto simp: wpa_simps split: sum.splits option.splits if_splits)
  from wpa_result [OF assms this] show ?thesis .
qed

end
