(* ===== verification/Machine_Examples.thy ===== *)
theory Machine_Examples
  imports Worked_Examples HA_Secrets
begin

text \<open>
  Concrete instances of the theorems on creating Machines, their metadata, the join tokens
  and the HA Secrets: each theorem that has assumptions, applied where they hold.
\<close>


section \<open>Names, order, deadline, metadata\<close>

lemma machine_name_is_label_witness: "dns_label (machine_name_from ''my.cluster'' ''x7k2p'')"
proof -
  have s: "dns_subdomain ''my.cluster''"
    by (simp add: dns_subdomain_def alnum_def label_char_def is_lower_def is_digit_def)
  have a: "list_all alnum ''x7k2p''" by (simp add: alnum_def is_lower_def is_digit_def)
  from machine_name_is_label [OF s _ a] show ?thesis by simp
qed

lemma machine_order_is_canonical_witness:
  "sortMachinesOldestFirst [machine0\<lparr>m_name := ''cp-b''\<rparr>, machine0] =
   sortMachinesOldestFirst [machine0, machine0\<lparr>m_name := ''cp-b''\<rparr>]"
proof -
  have "mset [machine0\<lparr>m_name := ''cp-b''\<rparr>, machine0] = mset [machine0, machine0\<lparr>m_name := ''cp-b''\<rparr>]"
    by (simp add: add_mset_commute)
  moreover have "distinct (map m_name [machine0\<lparr>m_name := ''cp-b''\<rparr>, machine0])"
    by (simp add: machine0_def)
  ultimately show ?thesis using machine_order_is_canonical by blast
qed

lemma drain_deadline_in_range_witness:
  "nodeDrainTimeoutSeconds (Some (minutes 2)) = Some 120 \<and> nodeDrainTimeoutSeconds (Some (- 1)) = Some 0"
  using drain_deadline_in_range [of "minutes 2"] drain_deadline_in_range [of "- 1"]
  by (auto simp: minutes_def seconds_def ns_per_s_def)

definition labelled_kcp :: kcp where
  "labelled_kcp = kcp0\<lparr>k_meta_labels := [(''team'', ''a'')], k_meta_annotations := [(''note'', ''n'')]\<rparr>"

lemma metadata_merge_is_additive_witness:
  "list_all2 (\<lambda>m m'. m' = m\<lparr>
      m_labels := m_labels m ++ map_of [(''team'', ''a'')] ++
        [cluster_name_label \<mapsto> ''c'', control_plane_label \<mapsto> []],
      m_annotations := m_annotations m ++ map_of [(''note'', ''n'')]\<rparr> \<and>
      (hasEtcdLeaveHook m \<longrightarrow> hasEtcdLeaveHook m'))
    [machine0] (projr (fst (reconcileMachineMetadata env0 cluster0 [machine0] (st_of labelled_kcp))))"
proof -
  have run: "case fst (reconcileMachineMetadata env0 cluster0 [machine0] (st_of labelled_kcp)) of
      Inr ms \<Rightarrow> True | Inl _ \<Rightarrow> False"
    by code_simp
  then obtain ms where ms: "fst (reconcileMachineMetadata env0 cluster0 [machine0] (st_of labelled_kcp)) = Inr ms"
    by (auto split: sum.splits)
  then have "reconcileMachineMetadata env0 cluster0 [machine0] (st_of labelled_kcp) =
      (Inr ms, snd (reconcileMachineMetadata env0 cluster0 [machine0] (st_of labelled_kcp)))"
    by (metis prod.collapse)
  from metadata_merge_is_additive [OF this] show ?thesis
    unfolding ms by (simp add: st_of_def labelled_kcp_def cluster0_def)
qed


section \<open>Cloning and creating\<close>

definition vsphere_template :: infra_template where
  "vsphere_template = \<lparr>it_group = infra_group, it_version = ''v1beta1'', it_kind = ''VSphereMachineTemplate'',
     it_name = ''vt'', it_content = JObj [(''spec'', JObj [(''template'', JObj [(''spec'', JObj [(''numCPUs'', JNum 4)])])])]\<rparr>"

definition target0 :: clone_target where
  "target0 = \<lparr>ct_name = ''cp-a'', ct_namespace = ''default'', ct_labels = [], ct_annotations = []\<rparr>"

lemma clone_copies_spec_witness:
  "\<exists>io. clone_by_kind ''VSphereMachineTemplate'' vsphere_template target0 = Inr io \<and>
    io_kind io @ ''Template'' = ''VSphereMachineTemplate'' \<and>
    nested [''spec''] (io_content io) = Some (JObj [(''numCPUs'', JNum 4)])"
proof -
  have "cut_suffix ''VSphereMachineTemplate'' ''Template'' = Some ''VSphereMachine''" by code_simp
  moreover have "nested_map spec_path (it_content vsphere_template) = Some [(''numCPUs'', JNum 4)]" by code_simp
  ultimately show ?thesis
    using clone_copies_spec [of "''VSphereMachineTemplate''" vsphere_template target0]
    by (auto simp: vsphere_template_def split: sum.splits)
qed

definition kubevirt_template :: infra_template where
  "kubevirt_template = vsphere_template\<lparr>it_kind := ''KubevirtMachineTemplate'',
     it_content := JObj [(''spec'', JObj [(''template'', JObj [(''spec'', JObj [(''virtualMachineTemplate'',
       JObj [(''spec'', JObj [(''running'', JBool True), (''template'', JObj [(''volumes'',
         JArr [JObj [(''cloudInitNoCloud'', JNull)], JObj [(''dataVolume'', JNull)]])])])])])])])]\<rparr>"

lemma kubevirt_clone_drops_cloud_init_witness:
  "\<exists>io vm'. cloneKubevirtMachineTemplate kubevirt_template target0 = Inr io \<and>
    nested vm_spec_path (io_content io) = Some vm' \<and>
    nested [''template'', ''volumes''] vm' = Some (JArr [JObj [(''dataVolume'', JNull)]])"
proof -
  let ?vm = "[(''running'', JBool True), (''template'', JObj [(''volumes'',
         JArr [JObj [(''cloudInitNoCloud'', JNull)], JObj [(''dataVolume'', JNull)]])])]"
  have "nested_map (spec_path @ [''virtualMachineTemplate'', ''spec'']) (it_content kubevirt_template) = Some ?vm"
    by code_simp
  from kubevirt_clone_drops_cloud_init [OF this, of target0]
  show ?thesis by (auto simp: keep_volume_def)
qed

definition create_env :: env where
  "create_env = env0\<lparr>e_template := (\<lambda>_ _. Inr \<lparr>kt_distribution = [], kt_hostname = [], kt_k3s_token = None,
     kt_join_token = None, kt_vip = None\<rparr>), e_infra_template := (\<lambda>_ _ _. Inr vsphere_template)\<rparr>"

text \<open>The infrastructure Machine's name is taken: the KairosConfig is deleted again.\<close>

definition taken_env :: env where
  "taken_env = create_env\<lparr>e_infra_template := (\<lambda>_ _ _. Inl NotFound)\<rparr>"

lemma failed_attempt_leaves_nothing_witness:
  "filter is_new_machine (new_effects (st_of pinned_kcp)
     (snd (createControlPlaneMachineNamed taken_env cluster0 ''cp-a'' role_join [] (st_of pinned_kcp)))) = []"
proof -
  have "case fst (createControlPlaneMachineNamed taken_env cluster0 ''cp-a'' role_join [] (st_of pinned_kcp)) of
      Inl e \<Rightarrow> True | Inr _ \<Rightarrow> False"
    by code_simp
  then obtain e where "fst (createControlPlaneMachineNamed taken_env cluster0 ''cp-a'' role_join [] (st_of pinned_kcp)) = Inl e"
    by (auto split: sum.splits)
  then have "createControlPlaneMachineNamed taken_env cluster0 ''cp-a'' role_join [] (st_of pinned_kcp) =
      (Inl e, snd (createControlPlaneMachineNamed taken_env cluster0 ''cp-a'' role_join [] (st_of pinned_kcp)))"
    by (metis prod.collapse)
  from failed_attempt_leaves_nothing [OF this] show ?thesis by blast
qed

lemma create_makes_one_member_witness:
  "\<exists>m. fst (createControlPlaneMachine create_env cluster0 role_join ''abc123'' (st_of pinned_kcp)) = Inr m \<and>
    hasEtcdLeaveHook m \<and> m_labels m cluster_name_label = Some ''c''"
proof -
  let ?run = "createControlPlaneMachine create_env cluster0 role_join ''abc123'' (st_of pinned_kcp)"
  have "case fst ?run of Inr m \<Rightarrow> True | Inl _ \<Rightarrow> False" by code_simp
  then obtain m where m: "fst ?run = Inr m" by (auto split: sum.splits)
  have "distributionOf (s_kcp (st_of pinned_kcp)) = ''k0s''" "k_meta_annotations (s_kcp (st_of pinned_kcp)) = []"
    by (simp_all add: distributionOf_def st_of_def pinned_kcp_def kcp0_def)
  with m create_makes_one_member [OF prod.collapse [symmetric], where E = create_env and cl = cluster0
      and role = role_join and tokenID = "''abc123''" and s = "st_of pinned_kcp"]
  show ?thesis by (auto simp: cluster0_def)
qed


section \<open>Join tokens and Secrets\<close>

definition token0 :: bootstrap_token where
  "token0 = \<lparr>bt_id = ''abc123'', bt_secret = ''0123456789abcdef''\<rparr>"

lemma minted_secret_is_join_only_witness:
  "IsControllerJoinOnly (NewSecret token0 (now0 + join_token_ttl)) \<and>
   Expiry (NewSecret token0 (now0 + join_token_ttl)) = Some (hours 49)"
proof -
  have e: "now0 + join_token_ttl = hours 49"
    by (simp add: now0_def join_token_ttl_def hours_def minutes_def seconds_def)
  have t: "trunc_s (hours 49) = hours 49" by (simp add: trunc_s_def hours_def minutes_def seconds_def ns_per_s_def)
  have b: "0 \<le> hours 49" "hours 49 < int (days_before_year 10000) * 86400 * ns_per_s"
    by (simp_all add: hours_def minutes_def seconds_def ns_per_s_def days_before_year_def)
  from minted_secret_is_join_only [OF b, of token0] show ?thesis by (simp add: e t)
qed

text \<open>The stored token is \<open>token0\<close>, and the workload cluster holds it with an hour to live. The
  only Machine is a joiner that was given it and is being deleted.\<close>

definition join_secret0 :: join_secret where
  "join_secret0 = \<lparr>js_annotation = Some ''abc123'', js_data = Some ''encoded'', js_owner = Some ''k-1'', js_settled = True\<rparr>"

definition member0 :: machine where
  "member0 = machine0\<lparr>m_addresses := [''10.0.0.5'']\<rparr>"

definition leaving0 :: machine where
  "leaving0 = machine0\<lparr>m_cfg_kind := ''KairosConfig'', m_cfg_name := ''cp-a'', m_deletion := Some now0\<rparr>"

definition token_env :: env where
  "token_env = env0\<lparr>e_config := (\<lambda>_ n. Inr \<lparr>kc_name = n, kc_role = role_join, kc_hostname = [],
       kc_annotations = [token_id_ann \<mapsto> ''abc123'']\<rparr>),
     e_token := (\<lambda>_ _ _. Inr \<lparr>ts_type = bootstrap_token_type, ts_data =
       [key_controller_join \<mapsto> ''true'', key_secret \<mapsto> ''0123456789abcdef'',
        key_expiration \<mapsto> ''0000-01-03T01:00:00Z'']\<rparr>),
     e_join_secret := (\<lambda>_. Inr join_secret0),
     e_decode := (\<lambda>_. Some \<lparr>jt_server = ''https://10.0.0.5:9443'', jt_ca = ''ca'', jt_token = token0\<rparr>),
     e_slice := (\<lambda>_ _. Inr \<lparr>sl_type = ''IPv4'', sl_endpoints =
       [\<lparr>ep_ready = Some True, ep_terminating = None, ep_addresses = [''10.0.0.5'']\<rparr>]\<rparr>)\<rparr>"

lemma token_extensions_are_bounded_witness:
  "\<exists>ts. IsControllerJoinOnly ts \<and> (\<exists>n. e_token token_env n leaveViaEndpoint ''abc123'' = Inr ts)"
proof -
  let ?run = "reconcileK0sJoinTokenLifetime token_env [leaving0] (st_of pinned_kcp)"
  have "list_ex (\<lambda>e. case e of TokenSecretDeleted via i \<Rightarrow> via = leaveViaEndpoint \<and> i = ''abc123'' | _ \<Rightarrow> False)
      (new_effects (st_of pinned_kcp) (snd ?run))"
    by code_simp
  then obtain e where "e \<in> set (new_effects (st_of pinned_kcp) (snd ?run))"
    "case e of TokenSecretDeleted via i \<Rightarrow> via = leaveViaEndpoint \<and> i = ''abc123'' | _ \<Rightarrow> False"
    unfolding list_ex_iff by blast
  then have "TokenSecretDeleted leaveViaEndpoint ''abc123'' \<in> set (new_effects (st_of pinned_kcp) (snd ?run))"
    by (cases e rule: effect.exhaust) simp_all
  from token_extensions_are_bounded [OF prod.collapse [symmetric] this] show ?thesis
    by (auto simp: join_only_read_def)
qed


lemma join_secret_is_never_hijacked_witness:
  "\<exists>msg. fst (ensureJoinTokenSecret (env0\<lparr>e_join_secret := (\<lambda>_. Inr (join_secret0\<lparr>js_owner := Some ''other''\<rparr>))\<rparr>)
      cluster0 (st_of pinned_kcp)) = Inl (Failed msg)"
  using join_secret_is_never_hijacked [OF prod.collapse [symmetric],
      where E = "env0\<lparr>e_join_secret := (\<lambda>_. Inr (join_secret0\<lparr>js_owner := Some ''other''\<rparr>))\<rparr>"
        and cl = cluster0 and s = "st_of pinned_kcp"]
  by (auto simp: join_secret0_def st_of_def pinned_kcp_def kcp0_def)

end
