(* ===== verification/Rollout.thy ===== *)
theory Rollout
  imports HA_Secrets Etcd_Orphans
begin

text \<open>
  Adding and removing one control-plane member: the joiner gate (\<open>initMachineJoinable\<close>,
  \<open>admitJoiner\<close>), the two steps that create or delete a Machine
  (\<open>kairoscontrolplane_controller.go\<close>), and the rollout that replaces outdated Machines with
  them (\<open>rollout.go\<close>). A step returns when to come back: \<open>None\<close> is the empty \<open>ctrl.Result\<close>.
\<close>


section \<open>Which role a new Machine has\<close>

definition controlPlaneRoleForNewMachine :: "int \<Rightarrow> machine list \<Rightarrow> string" where
  "controlPlaneRoleForNewMachine desired existing =
     (if desired \<le> 1 then role_single
      else if existing = [] then role_init
      else role_join)"

lemma roles_differ [simp]:
  "role_single \<noteq> role_init" "role_single \<noteq> role_join" "role_init \<noteq> role_join"
  "role_init \<noteq> role_single" "role_join \<noteq> role_single" "role_join \<noteq> role_init"
  by (simp_all add: role_single_def role_init_def role_join_def)

lemma role_cases:
  "controlPlaneRoleForNewMachine desired ms = role_single \<longleftrightarrow> desired \<le> 1"
  "controlPlaneRoleForNewMachine desired ms = role_init \<longleftrightarrow> 1 < desired \<and> ms = []"
  "controlPlaneRoleForNewMachine desired ms = role_join \<longleftrightarrow> 1 < desired \<and> ms \<noteq> []"
  by (auto simp: controlPlaneRoleForNewMachine_def)


section \<open>The joiner gate\<close>

text \<open>The report of one member: k0s requires a healthy voting one, k3s only that there is no
  unhealthy one.\<close>

definition report_allows :: "string \<Rightarrow> etcd_status option \<Rightarrow> bool" where
  "report_allows distribution report =
     (case report of
        None \<Rightarrow> distribution \<noteq> ''k0s''
      | Some es \<Rightarrow> es_healthy es \<and> es_voting es)"

fun joiners_joined :: "string \<Rightarrow> (string \<times> etcd_status) list \<Rightarrow> machine list \<Rightarrow> bool \<times> string" where
  "joiners_joined distribution status [] = (True, [])"
| "joiners_joined distribution status (m # ms) =
     (if deleting m then joiners_joined distribution status ms
      else if \<not> registered m then (False, ''joiner '' @ m_name m @ '' has not registered a Node yet'')
      else if \<not> report_allows distribution (map_of status (node_name m))
      then (False, ''joiner '' @ m_name m @
        (if distribution = ''k0s'' then '' has not yet reported a healthy voting etcd member''
         else '' reported an unhealthy etcd member''))
      else joiners_joined distribution status ms)"

definition initMachineJoinable :: "env \<Rightarrow> machine list \<Rightarrow> (bool \<times> string) op" where
  "initMachineJoinable E ms =
     (case ms of
        [] \<Rightarrow> ret (False, ''init machine not created yet'')
      | init # joiners \<Rightarrow>
          if \<not> registered init then ret (False, ''init machine has no NodeRef yet'')
          else bindA get_kcp (\<lambda>k.
            if \<not> is_true k kubeconfig_ready
            then ret (False, ''kubeconfig not yet observed (KubeconfigReady not True)'')
            else
              let distribution = (if k_distribution k = [] then ''k0s'' else k_distribution k) in
              bindA (readEtcdStatus E) (\<lambda>status.
              if \<not> report_allows distribution (map_of status (node_name init))
              then ret (False, if distribution = ''k0s''
                then ''init node has not yet reported a healthy voting etcd member''
                else ''init node reported an unhealthy etcd member'')
              else ret (joiners_joined distribution status joiners))))"

record join_admission =
  ja_admitted :: bool
  ja_reason :: string
  ja_token :: string

definition held_back :: "string \<Rightarrow> join_admission" where
  "held_back reason = \<lparr>ja_admitted = False, ja_reason = reason, ja_token = []\<rparr>"

definition admitted_with :: "string \<Rightarrow> join_admission" where
  "admitted_with token = \<lparr>ja_admitted = True, ja_reason = [], ja_token = token\<rparr>"

lemma admission_simps [simp]:
  "\<not> ja_admitted (held_back why)" "ja_admitted (admitted_with t)" "ja_token (admitted_with t) = t"
  by (simp_all add: held_back_def admitted_with_def)

definition admitJoiner :: "env \<Rightarrow> machine list \<Rightarrow> join_admission op" where
  "admitJoiner E ms =
     bindA (initMachineJoinable E ms) (\<lambda>(joinable, reason).
     if \<not> joinable then ret (held_back reason)
     else bindA get_kcp (\<lambda>k.
       if distributionOf k \<noteq> ''k0s'' then
         bindA (tryA (verifyIdentityViaEndpoint E)) (\<lambda>v.
         case v of
           Inl e \<Rightarrow>
             if e = IdentityChanged then throw IdentityChanged
             else ret (held_back ''the workload cluster identity could not be verified'')
         | Inr _ \<Rightarrow> ret (admitted_with []))
       else
         bindA (ensureK0sControllerJoinToken E ms) (\<lambda>(token, reason).
         if token = [] then ret (held_back reason) else ret (admitted_with token))))"


section \<open>One member more, one member less\<close>

text \<open>A role that is not a join needs no admission. A freeze found on the way is an answer, not
  an error.\<close>

definition admission_for :: "env \<Rightarrow> machine list \<Rightarrow> string \<Rightarrow> join_admission op" where
  "admission_for E ms role =
     (if role = role_join then admitJoiner E ms else ret (admitted_with []))"

definition come_back :: "duration \<Rightarrow> (err + 'a) \<Rightarrow> ('a \<Rightarrow> duration option op) \<Rightarrow> duration option op" where
  "come_back d r go =
     (case r of
        Inl e \<Rightarrow> if e = IdentityChanged then ret (Some d) else throw e
      | Inr x \<Rightarrow> go x)"

definition add_member :: "env \<Rightarrow> cluster \<Rightarrow> machine list \<Rightarrow> int \<Rightarrow> duration option op" where
  "add_member E cl ms desired =
     (let role = controlPlaneRoleForNewMachine desired ms in
      bindA (tryA (admission_for E ms role)) (\<lambda>a.
      come_back frozen_requeue a (\<lambda>adm.
        if \<not> ja_admitted adm then ret (Some joiner_gate_requeue)
        else bindA (tryA (createControlPlaneMachine E cl role (ja_token adm))) (\<lambda>c.
          come_back frozen_requeue c (\<lambda>_. ret None)))))"

definition remove_member :: "env \<Rightarrow> machine \<Rightarrow> duration option op" where
  "remove_member E target =
     bindA (canRemoveMember E target) (\<lambda>(ok, reason).
     if \<not> ok then ret (Some joiner_gate_requeue)
     else bindA (identityPreflight E) (\<lambda>held.
       case held of
         Some d \<Rightarrow> ret (Some d)
       | None \<Rightarrow>
           bindA (warnIfK3sEtcdLimitation E target) (\<lambda>_.
           bindA (tryA (deleteControlPlaneMachine E target)) (\<lambda>d.
           come_back frozen_requeue d (\<lambda>_. ret None)))))"


section \<open>The rollout\<close>

definition machines_up_to_date :: string where "machines_up_to_date = ''MachinesUpToDate''"

definition machineMatchesVersion :: "machine \<Rightarrow> string \<Rightarrow> bool" where
  "machineMatchesVersion m desiredVersion =
     (if m_version m = [] then False else m_version m = desiredVersion)"

record rollout_plan =
  rp_desired :: int
  rp_max_surge :: int
  rp_outdated :: "machine list"
  rp_updated :: int
  rp_updated_joined :: int

definition plan_rollout :: "kcp \<Rightarrow> int \<Rightarrow> machine list \<Rightarrow> rollout_plan" where
  "plan_rollout k desired ms =
     (let updated = filter (\<lambda>m. machineMatchesVersion m (k_version k)) ms in
      \<lparr>rp_desired = desired, rp_max_surge = (case k_max_surge k of None \<Rightarrow> 1 | Some n \<Rightarrow> n),
       rp_outdated = filter (\<lambda>m. \<not> machineMatchesVersion m (k_version k)) ms,
       rp_updated = wrap32 (int (length updated)),
       rp_updated_joined = wrap32 (int (length (filter registered updated)))\<rparr>)"

definition reconcileRollout :: "env \<Rightarrow> cluster \<Rightarrow> machine list \<Rightarrow> rollout_plan \<Rightarrow> duration option op" where
  "reconcileRollout E cl ms plan =
     (let currentReplicas = wrap32 (int (length ms)) in
      if rp_desired plan \<le> 1 then
        bindA (mark_false machines_up_to_date ''SingleNodeRolloutUnsupported'' SevWarning) (\<lambda>_. ret None)
      else
        bindA (mark_false machines_up_to_date ''RollingOut'' SevInfo) (\<lambda>_.
        if list_ex deleting ms then ret (Some joiner_gate_requeue)
        else if currentReplicas < wrap32 (rp_desired plan + rp_max_surge plan)
        then add_member E cl ms (rp_desired plan)
        else if rp_desired plan < currentReplicas \<and> rp_updated_joined plan = rp_updated plan
        then (case rp_outdated plan of
                [] \<Rightarrow> throw (Failed ''index out of range'')
              | target # _ \<Rightarrow> remove_member E target)
        else ret (Some joiner_gate_requeue)))"

end
