(* ===== verification/Reconcile_Machines.thy ===== *)
theory Reconcile_Machines
  imports Rollout
begin

text \<open>
  \<open>reconcileMachines\<close> (\<open>kairoscontrolplane_controller.go\<close>): one pass over the control-plane
  Machines, from the listing to the single membership change it may end in. Every return of
  the Go function is a branch; the deferred function that brings the pass back while a k0s
  joiner is pending is \<open>deferred_requeue\<close>.
\<close>


section \<open>The pass\<close>

text \<open>\<open>metav1.GetControllerOf\<close> and \<open>getControlPlaneMachines\<close>; \<open>e_machines\<close> answers the List
  with the label selector.\<close>

definition controller_of :: "machine \<Rightarrow> owner_ref option" where
  "controller_of m = find or_controller (m_owners m)"

definition owned_by_kcp_name :: "kcp \<Rightarrow> machine \<Rightarrow> bool" where
  "owned_by_kcp_name k m =
     (case controller_of m of
        None \<Rightarrow> False
      | Some r \<Rightarrow> or_kind r = kcp_kind \<and> or_name r = k_name k)"

definition getControlPlaneMachines :: "env \<Rightarrow> machine list op" where
  "getControlPlaneMachines E =
     bindA get_kcp (\<lambda>k.
     bindA (read_api (e_machines E)) (\<lambda>ms. ret (filter (owned_by_kcp_name k) ms)))"

text \<open>The sweep over the leaving Machines: a result ends the pass.\<close>

definition sweep_leaves :: "env \<Rightarrow> cluster \<Rightarrow> machine list \<Rightarrow> duration option op" where
  "sweep_leaves E cl ms =
     forA ms (\<lambda>m.
       if \<not> deleting m \<or> \<not> hasEtcdLeaveHook m then ret None
       else bindA (tryA (reconcileMemberLeave E cl ms m)) (\<lambda>r.
         case r of
           Inl e \<Rightarrow> if e = IdentityChanged then ret (Some frozen_requeue) else throw e
         | Inr done \<Rightarrow> ret (if done then None else Some joiner_gate_requeue)))"

text \<open>The HA block: the two Secrets and the join tokens. It says whether a joiner is pending.\<close>

definition ensure_ha :: "env \<Rightarrow> cluster \<Rightarrow> machine list \<Rightarrow> int \<Rightarrow> bool op" where
  "ensure_ha E cl ms desired =
     (if desired \<le> 1 then ret False
      else
        bindA (ensureJoinTokenSecret E cl) (\<lambda>_.
        bindA (ensureEtcdStatusSecret E cl) (\<lambda>_.
        bindA get_kcp (\<lambda>k.
        if distributionOf k = ''k0s'' \<and> is_true k kubeconfig_ready
        then reconcileK0sJoinTokenLifetime E ms
        else ret False))))"

definition selectMachineForDeletion :: "machine list \<Rightarrow> machine list \<Rightarrow> machine option" where
  "selectMachineForDeletion ms outdated =
     (if outdated \<noteq> [] then Some (hd outdated)
      else if ms = [] then None
      else Some (last ms))"

text \<open>The rollout while any Machine is outdated, otherwise the scale up or down.\<close>

definition scale_or_roll :: "env \<Rightarrow> cluster \<Rightarrow> machine list \<Rightarrow> int \<Rightarrow> duration option op" where
  "scale_or_roll E cl ms desired =
     bindA get_kcp (\<lambda>k.
     let plan = plan_rollout k desired ms; currentReplicas = wrap32 (int (length ms)) in
     if rp_outdated plan \<noteq> [] then reconcileRollout E cl ms plan
     else bindA (mark_true machines_up_to_date) (\<lambda>_.
       if currentReplicas < desired then add_member E cl ms desired
       else if desired < currentReplicas then
         (case selectMachineForDeletion ms (rp_outdated plan) of
            None \<Rightarrow> ret None
          | Some target \<Rightarrow> remove_member E target)
       else ret None))"

definition orphans_then_scale :: "env \<Rightarrow> cluster \<Rightarrow> machine list \<Rightarrow> int \<Rightarrow> duration option op" where
  "orphans_then_scale E cl ms desired =
     bindA (tryA (reconcileOrphanEtcdMembers E cl ms desired)) (\<lambda>r.
     come_back frozen_requeue r (\<lambda>(res, hold).
       if hold then ret res else scale_or_roll E cl ms desired))"

definition deferred_requeue :: "bool \<Rightarrow> duration option \<Rightarrow> duration option" where
  "deferred_requeue waiting res =
     (if \<not> waiting then res
      else case res of
        None \<Rightarrow> Some join_token_recheck
      | Some d \<Rightarrow> if d = 0 \<or> join_token_recheck < d then Some join_token_recheck else res)"

text \<open>After the sweep: the HA block, the freeze it may have found, and the membership change.\<close>

definition change_membership :: "env \<Rightarrow> cluster \<Rightarrow> machine list \<Rightarrow> int \<Rightarrow> duration option op" where
  "change_membership E cl ms desired =
     bindA (ensure_ha E cl ms desired) (\<lambda>waiting.
     bindA get_kcp (\<lambda>k.
     bindA (if 1 < desired \<and> workloadIdentityFrozen k \<noteq> None then ret (Some frozen_requeue)
            else orphans_then_scale E cl ms desired) (\<lambda>res.
     ret (deferred_requeue waiting res))))"

definition reconcile_listed :: "env \<Rightarrow> cluster \<Rightarrow> machine list \<Rightarrow> int \<Rightarrow> duration option op" where
  "reconcile_listed E cl ms desired =
     bindA (reconcileWorkloadIdentity E cl ms desired) (\<lambda>identity.
     if g_frozen identity then ret (Some frozen_requeue)
     else if g_hold identity \<noteq> [] then ret (Some joiner_gate_requeue)
     else bindA (sweep_leaves E cl ms) (\<lambda>swept.
       case swept of
         Some d \<Rightarrow> ret (Some d)
       | None \<Rightarrow> change_membership E cl ms desired))"

definition reconcileMachines :: "env \<Rightarrow> cluster \<Rightarrow> duration option op" where
  "reconcileMachines E cl =
     bindA get_kcp (\<lambda>k.
     let desired = desired_replicas k in
     bindA (getControlPlaneMachines E) (\<lambda>listed.
     bindA (reportControlPlaneTemplateHostname E) (\<lambda>_.
     bindA (reconcileNodeDrainTimeout E (sortMachinesOldestFirst listed)) (\<lambda>ms.
     bindA (reconcileMachineMetadata E cl ms) (\<lambda>ms.
     reconcile_listed E cl ms desired)))))"


section \<open>No membership change under a freeze\<close>

lemma joinable_silent [silent_rules]: "guards silent (initMachineJoinable E ms)"
  unfolding initMachineJoinable_def Let_def by (intro silent.flow guards_intros silent_rules)

lemma machines_listed_silent [silent_rules]: "guards silent (getControlPlaneMachines E)"
  unfolding getControlPlaneMachines_def by (intro silent.flow guards_intros silent_rules)

lemmas gate_freeze [freeze_rules] = joinable_silent [THEN silent_freeze] machines_listed_silent [THEN silent_freeze]

lemma member_steps_freeze [freeze_rules]:
  "guards freeze_ok (admitJoiner E ms)" "guards freeze_ok (add_member E cl ms desired)"
  "guards freeze_ok (remove_member E target)" "guards freeze_ok (reconcileRollout E cl ms plan)"
  unfolding reconcileRollout_def add_member_def remove_member_def admission_for_def admitJoiner_def
    come_back_def Let_def
  by (intro frz.flow guards_intros freeze_rules canRemove_silent [THEN silent_freeze])+

lemma scale_freeze [freeze_rules]: "guards freeze_ok (scale_or_roll E cl ms desired)"
  unfolding scale_or_roll_def Let_def by (intro frz.flow guards_intros freeze_rules)

lemma sweep_freeze [freeze_rules]: "guards freeze_ok (sweep_leaves E cl ms)"
  unfolding sweep_leaves_def by (intro frz.for_guards frz.flow guards_intros freeze_rules)

lemma ensure_ha_freeze [freeze_rules]: "guards freeze_ok (ensure_ha E cl ms desired)"
  unfolding ensure_ha_def by (intro frz.flow guards_intros freeze_rules)

lemma change_freeze [freeze_rules]: "guards freeze_ok (change_membership E cl ms desired)"
  unfolding change_membership_def orphans_then_scale_def come_back_def
  by (intro frz.flow guards_intros freeze_rules)

lemma reconcileMachines_freeze [freeze_rules]: "guards freeze_ok (reconcileMachines E cl)"
  unfolding reconcileMachines_def reconcile_listed_def Let_def
  by (intro frz.flow guards_intros freeze_rules)

text \<open>
  C3: in a whole pass over the Machines no membership change takes place while the identity
  is frozen: at no point of its effects is a Machine created or deleted, an etcd-leave hook
  removed, a leave requested or a join token minted while a freeze is in place, also when the
  freeze was found in the middle of the pass; and a pass that starts and stays frozen has none.
\<close>

theorem pass_respects_freeze:
  assumes "reconcileMachines E cl s = (r, s')"
  shows "safe_log (frozen (s_kcp s)) (new_effects s s') \<and>
    frozen (s_kcp s') = foldl freeze_step (frozen (s_kcp s)) (new_effects s s') \<and>
    (\<forall>es e fs. new_effects s s' = es @ e # fs \<and> foldl freeze_step (frozen (s_kcp s)) es \<longrightarrow>
       \<not> membership_effect e)"
proof -
  have "freeze_ok s s'" by (rule guardsD [OF reconcileMachines_freeze assms])
  then show ?thesis by (auto simp: freeze_ok_def safe_log_append)
qed

end
