(* ===== verification/Pass_Frame.thy ===== *)
theory Pass_Frame
  imports Reconcile_Machines
begin

text \<open>
  What the steps of a pass before its last one leave alone: they create and delete no Machine,
  and they change the KairosControlPlane in nothing but its annotations and status. Only
  \<open>add_member\<close> and \<open>remove_member\<close> change the set of Machines.
\<close>

definition machine_change :: "effect \<Rightarrow> bool" where
  "machine_change e \<longleftrightarrow> is_new_machine e \<or> deletes_machine e"

text \<open>The status of the object is written by \<open>Reconcile\<close> itself only, after all of these.\<close>

fun status_write :: "effect \<Rightarrow> bool" where
  "status_write (StatusUpdated _) = True"
| "status_write _ = False"

definition quiet_effect :: "effect \<Rightarrow> bool" where
  "quiet_effect e \<longleftrightarrow> \<not> machine_change e \<and> \<not> status_write e"

text \<open>The specification part of the object: everything but annotations and status.\<close>

definition spec_of :: "kcp \<Rightarrow> kcp" where
  "spec_of k = k\<lparr>k_annotations := (\<lambda>_. None), k_status := \<lparr>ks_initialized = False, ks_cp_initialized = None,
     ks_replicas = 0, ks_ready = 0, ks_updated = 0, ks_unavailable = 0, ks_available = 0, ks_version = [],
     ks_failure = [], ks_observed = 0, ks_conds = (\<lambda>_. None), ks_last_push = None,
     ks_selector = []\<rparr>\<rparr>"

definition still :: "st \<Rightarrow> st \<Rightarrow> bool" where
  "still s s' \<longleftrightarrow> logs_only quiet_effect s s' \<and> spec_of (s_kcp s') = spec_of (s_kcp s)"

interpretation still: guarantee still
  by unfold_locales (auto simp: still_def intro: logs.R_refl logs.R_trans)

named_theorems still_rules \<open>operations that change no Machine set and no spec\<close>

lemma change_simps [simp]:
  "machine_change (MachineDeleted n)" "machine_change (ObjectCreated (NewMachine m))"
  "\<not> machine_change (KcpPatched kvs rm)" "\<not> machine_change (Event t r)"
  "\<not> machine_change (HookRemoved n)" "\<not> machine_change (MachineAnnotated n kvs)"
  "\<not> machine_change (DrainPatched n d)" "\<not> machine_change (MetadataPatched n l a)"
  "\<not> machine_change (ObjectCreated (NewConfig c))" "\<not> machine_change (ObjectCreated (NewInfra i))"
  "\<not> machine_change (ObjectDeleted kd n)"
  "\<not> machine_change (LeaveWritten u v w)" "\<not> machine_change (SpecLeaveSet u v f)"
  "\<not> machine_change (TokenSecretCreated u v t')" "\<not> machine_change (TokenSecretExtended u v w)"
  "\<not> machine_change (TokenSecretDeleted u v)" "\<not> machine_change (JoinSecretPatched x)"
  "\<not> machine_change (ConfigAnnotated n)" "\<not> machine_change (SecretEnsured n b')"
  "\<not> machine_change (ContractWritten b' c')" "\<not> machine_change (ContractEmptied c')"
  "\<not> machine_change (StagingCreated c')" "\<not> machine_change (StagingRepaired c')"
  "\<not> machine_change (TemplateOwned u v os)" "\<not> machine_change (ServiceEnsured n)"
  "\<not> machine_change (EndpointsEnsured n ips)" "\<not> machine_change (DistributionSet n)"
  "\<not> machine_change (LabelSet n)" "\<not> machine_change (ClusterTouched n)"
  "\<not> machine_change FinalizerAdded" "\<not> machine_change FinalizerRemoved"
  "\<not> machine_change (StatusUpdated ks)" "\<not> machine_change (StatusPatched ks)"
  by (simp_all add: machine_change_def)

declare quiet_effect_def [simp]

lemma spec_of_simps [simp]:
  "spec_of (k\<lparr>k_annotations := a\<rparr>) = spec_of k" "spec_of (set_cond t c k) = spec_of k"
  by (simp_all add: spec_of_def set_cond_def)

lemma spec_ofD:
  assumes "spec_of k' = spec_of k"
  shows "k_name k' = k_name k" "k_replicas k' = k_replicas k" "k_version k' = k_version k"
    "k_distribution k' = k_distribution k" "k_max_surge k' = k_max_surge k" "k_deletion k' = k_deletion k"
    "k_namespace k' = k_namespace k" "k_generation k' = k_generation k"
  using assms by (cases k; cases k'; simp add: spec_of_def)+

lemma silent_still: "guards silent m \<Longrightarrow> guards still m"
  by (simp add: guards_def silent_def still_def logs_same)

lemma still_writes [still_rules]:
  "quiet_effect e \<Longrightarrow> guards still (mgmt_write E e)"
  "quiet_effect e \<Longrightarrow> guards still (workload_write_via E via e)"
  "guards still (patchKCPAnnotations E kvs rm)" "guards still (event E et reason)"
  "guards still (mark_true t)" "guards still (mark_false t r v)"
  "quiet_effect e \<Longrightarrow> guards still (log_effect e)"
  unfolding guards_wpa wpa_simps still_def
  by (auto intro: logs_same logs_grow [where es = "[e]"] logs_grow [where es = "[KcpPatched kvs rm]"]
      logs_grow [where es = "[Event et reason]"] split: option.splits)

lemma still_mod: "(\<And>s. s_log (f s) = s_log s \<and> s_kcp (f s) = s_kcp s) \<Longrightarrow> guards still (modA f)"
  unfolding guards_wpa wpa_simps still_def by (simp add: logs_same)

lemmas still_reads [still_rules] = silent_rules [THEN silent_still]


section \<open>The steps\<close>

lemma clocks_still [still_rules]:
  "guards still (markIdentityChecked E)" "guards still forgetIdentityCheck"
  "guards still (markOrphanChecked E)" "guards still forgetOrphanCheck"
  unfolding markIdentityChecked_def forgetIdentityCheck_def markOrphanChecked_def forgetOrphanCheck_def
  by (intro still.flow guards_intros still_mod; simp)+

lemma identity_still [still_rules]:
  "guards still (tripIdentityFreeze E uid via pin)"
  "guards still (verifyWorkloadIdentity E via)" "guards still (verifyPinnedWorkloadIdentity E via)"
  "guards still (verifyIdentityViaEndpoint E)" "guards still (identityPreflight E)"
  "guards still (reconcileWorkloadIdentity E cl ms desired)"
  unfolding tripIdentityFreeze_def verifyWorkloadIdentity_def verifyPinnedWorkloadIdentity_def
    verifyIdentityViaEndpoint_def identityPreflight_def reconcileWorkloadIdentity_def
    identityStep_def conflict_or_def recheckIdentity_def recheckAnswers_def pinWorkloadIdentity_def
    pinAnswers_def recordPin_def frozenGate_def trip_gate_def clearRepinnedIdentityFreeze_def Let_def
  by (intro still.flow guards_intros still_rules)+

lemma connect_still [still_rules]:
  "guards still (connectForLeave E cl ms target)" "guards still (connectForOrphans E cl ms)"
proof -
  have conn: "guards still (connectVerified E cl ms t readCM)" for t readCM
    unfolding connectVerified_def verifiedLeaveConn_def readLeaveThrough_def
    by (intro still.flow still.for_guards guards_intros still_rules)
  show "guards still (connectForLeave E cl ms target)" "guards still (connectForOrphans E cl ms)"
    unfolding connectForLeave_def connectForOrphans_def by (rule conn)+
qed

lemma leave_still [still_rules]: "guards still (reconcileMemberLeave E cl ms target)"
  unfolding reconcileMemberLeave_def leave_pass_def leave_first_request_def leave_requested_pass_def
    leave_waiting_def delegateMemberLeave_def delegate_member_def delegate_set_leave_def delegate_outcome_def
    set_spec_leave_def delegate_wait_def abandonMemberLeave_def ensureLeaveRequested_def
    removeEtcdLeaveHook_def stampLeaveRequestedAt_def stampAnnotationOnce_def annotateOnce_def
    leaveUnreachable_def inspectUnregisteredLeave_def inspect_member_def Let_def
  by (intro still.flow guards_intros still_rules; simp)+

lemma orphans_still [still_rules]: "guards still (reconcileOrphanEtcdMembers E cl ms desired)"
  unfolding reconcileOrphanEtcdMembers_def orphan_recorded_def orphan_search_def removeOneOrphan_def
    remove_listed_orphan_def start_orphan_removal_def progressOrphanLeave_def follow_orphan_member_def
    take_back_orphan_def request_recorded_orphan_def finish_orphan_def orphan_timed_out_def
    orphanRemovalBlocked_def setEtcdMemberLeave_def orphanCheckDue_def Let_def
  by (intro still.flow guards_intros still_rules; simp)+

lemma tokens_still [still_rules]:
  "guards still (ensureK0sControllerJoinToken E ms)" "guards still (reconcileK0sJoinTokenLifetime E ms)"
proof -
  have best: "guards still (deleteK0sJoinTokenSecretBestEffort E i)" for i
    unfolding deleteK0sJoinTokenSecretBestEffort_def by (intro still.flow guards_intros still_rules) simp
  have del: "guards still (deleteK0sJoinToken E i)" for i
    unfolding deleteK0sJoinToken_def by (intro still.flow guards_intros still_rules best)
  have sup: "guards still (delete_superseded E i olds)" for i olds
    by (induction olds) (auto intro!: still.flow guards_intros del)
  have warn: "guards still (warn_each E reason xs)" for reason and xs :: "'a list"
    unfolding warn_each_def by (intro still.flow still.map_guards still_rules)
  show "guards still (ensureK0sControllerJoinToken E ms)"
    unfolding ensureK0sControllerJoinToken_def issue_token_def choose_token_def mint_for_def settle_token_def
      mintK0sControllerJoinToken_def hold_joiner_def
    by (intro still.flow guards_intros still_rules best del sup; simp)
  show "guards still (reconcileK0sJoinTokenLifetime E ms)"
    unfolding reconcileK0sJoinTokenLifetime_def maintain_tokens_def maintain_verified_def maintain_pending_def
      removeK0sJoinToken_def clear_join_secret_def extendK0sJoinToken_def warn_each_def
    by (intro still.flow still.map_guards guards_intros still_rules del; simp)
qed

lemma upkeep_still [still_rules]:
  "guards still (ensureJoinTokenSecret E cl)" "guards still (ensureEtcdStatusSecret E cl)"
  "guards still (reportControlPlaneTemplateHostname E)" "guards still (reconcileNodeDrainTimeout E ms)"
  "guards still (reconcileMachineMetadata E cl ms)" "guards still (warnIfK3sEtcdLimitation E target)"
  unfolding ensureJoinTokenSecret_def ensureEtcdStatusSecret_def create_or_update_def
    refuseUnownedHASecret_def generateJoinToken_def reportControlPlaneTemplateHostname_def
    reconcileNodeDrainTimeout_def reconcileMachineMetadata_def warnIfK3sEtcdLimitation_def Let_def
  by (intro still.flow still.map_guards guards_intros still_rules; simp)+

lemma gate_still [still_rules]:
  "guards still (admitJoiner E ms)" "guards still (admission_for E ms role)"
  "guards still (ensure_ha E cl ms desired)" "guards still (sweep_leaves E cl ms)"
  unfolding admission_for_def admitJoiner_def ensure_ha_def sweep_leaves_def
  by (intro still.flow still.for_guards guards_intros still_rules)+

end
