(* ===== verification/Membership_Change.thy ===== *)
theory Membership_Change
  imports Pass_Frame
begin

text \<open>
  What a whole pass of \<open>reconcileMachines\<close> may change: at most one Machine is created or
  deleted, as the last effect, and only under the conditions below.
\<close>


section \<open>The conditions\<close>

text \<open>A reading of the etcd-status Secret; a missing one reads as no reports.\<close>

definition status_read :: "env \<Rightarrow> (string \<times> etcd_status) list \<Rightarrow> bool" where
  "status_read E status \<longleftrightarrow>
     (\<exists>n kvs. e_status E n = Inr kvs \<and> status = decode_status E kvs) \<or>
     (\<exists>n. e_status E n = Inl NotFound \<and> status = [])"

definition member_joined :: "kcp \<Rightarrow> (string \<times> etcd_status) list \<Rightarrow> machine \<Rightarrow> bool" where
  "member_joined k status m \<longleftrightarrow>
     registered m \<and> report_allows (distributionOf k) (map_of status (node_name m))"

text \<open>Every Machine joined, the oldest even when it is being deleted.\<close>

definition all_joined :: "env \<Rightarrow> kcp \<Rightarrow> machine list \<Rightarrow> bool" where
  "all_joined E k ms \<longleftrightarrow> ms \<noteq> [] \<and>
     (\<exists>status. status_read E status \<and> member_joined k status (hd ms) \<and>
        (\<forall>m\<in>set ms. \<not> deleting m \<longrightarrow> member_joined k status m))"

definition outdated :: "kcp \<Rightarrow> machine list \<Rightarrow> machine list" where
  "outdated k ms = filter (\<lambda>m. \<not> machineMatchesVersion m (k_version k)) ms"

definition max_surge :: "kcp \<Rightarrow> int" where
  "max_surge k = (case k_max_surge k of None \<Rightarrow> 1 | Some n \<Rightarrow> n)"

definition add_room :: "kcp \<Rightarrow> machine list \<Rightarrow> bool" where
  "add_room k ms \<longleftrightarrow>
     (if outdated k ms = [] then int (length ms) < desired_replicas k
      else 1 < desired_replicas k \<and> list_all (\<lambda>m. \<not> deleting m) ms \<and>
        int (length ms) < wrap32 (desired_replicas k + max_surge k))"

definition add_allowed :: "env \<Rightarrow> kcp \<Rightarrow> machine list \<Rightarrow> bool" where
  "add_allowed E k ms \<longleftrightarrow> add_room k ms \<and>
     (1 < desired_replicas k \<and> ms \<noteq> [] \<longrightarrow> all_joined E k ms)"

definition remove_room :: "kcp \<Rightarrow> machine list \<Rightarrow> machine \<Rightarrow> bool" where
  "remove_room k ms m \<longleftrightarrow>
     desired_replicas k < int (length ms) \<and>
     (if outdated k ms = [] then m = last ms
      else m = hd (outdated k ms) \<and> 1 < desired_replicas k \<and> list_all (\<lambda>m. \<not> deleting m) ms \<and>
        (\<forall>m\<in>set ms. machineMatchesVersion m (k_version k) \<longrightarrow> registered m))"

definition quorum_stays :: "env \<Rightarrow> kcp \<Rightarrow> machine \<Rightarrow> bool" where
  "quorum_stays E k m \<longleftrightarrow>
     (k_deletion k = None \<and> 1 < desired_replicas k \<and> registered m \<and> m_phase m = machine_running \<longrightarrow>
        (\<exists>status. status_read E status \<and> fst (removal_keeps_quorum (desired_replicas k) status (node_name m))))"

definition remove_allowed :: "env \<Rightarrow> kcp \<Rightarrow> machine list \<Rightarrow> machine \<Rightarrow> bool" where
  "remove_allowed E k ms m \<longleftrightarrow> remove_room k ms m \<and> quorum_stays E k m"

text \<open>The effects of a pass: no Machine change, a new member, or one Machine less.\<close>

definition pass_change :: "env \<Rightarrow> cluster \<Rightarrow> kcp \<Rightarrow> machine list \<Rightarrow> effect list \<Rightarrow> bool" where
  "pass_change E cl k ms es \<longleftrightarrow>
     filter machine_change es = [] \<or>
     (\<exists>m token. filter machine_change es = [ObjectCreated (NewMachine m)] \<and>
        creates_member k cl (controlPlaneRoleForNewMachine (desired_replicas k) ms) token m es \<and>
        add_allowed E k ms) \<or>
     (\<exists>m\<in>set ms. \<exists>pre. es = pre @ [MachineDeleted (m_name m)] \<and> filter machine_change pre = [] \<and>
        remove_allowed E k ms m)"


section \<open>Only the specification matters\<close>

lemma spec_of_eq:
  assumes "spec_of k' = spec_of k"
  obtains a st where "k' = k\<lparr>k_annotations := a, k_status := st\<rparr>"
  using assms by (cases k; cases k') (auto simp: spec_of_def)

lemma creates_member_spec:
  assumes "spec_of k' = spec_of k"
  shows "creates_member k' cl role tok m es = creates_member k cl role tok m es"
proof -
  obtain a st where k': "k' = k\<lparr>k_annotations := a, k_status := st\<rparr>"
    using assms by (rule spec_of_eq)
  have "config_for k' cl n role tok tmpl = config_for k cl n role tok tmpl"
    "machine_for k' cl n role infra = machine_for k cl n role infra" for n tmpl infra
    by (simp_all add: k' config_for_def machine_for_def distributionOf_def Let_def
        applyControlPlaneHASpec_def shouldStampEtcdLeaveHook_def controlPlaneMachineLabels_def
        controlPlaneMachineAnnotations_def cong: option.case_cong)
  then show ?thesis by (simp add: creates_member_def)
qed

lemma pass_change_spec:
  assumes "spec_of k' = spec_of k"
  shows "pass_change E cl k' ms es = pass_change E cl k ms es"
  using creates_member_spec [OF assms] spec_ofD [OF assms]
  by (simp add: pass_change_def add_allowed_def add_room_def remove_allowed_def remove_room_def quorum_stays_def outdated_def max_surge_def
      all_joined_def member_joined_def distributionOf_def desired_replicas_def)

lemma machine_change_filter: "filter machine_change es = [] \<Longrightarrow> filter is_new_machine es = []"
  by (auto simp: filter_empty_conv machine_change_def)

lemma pass_change_after:
  assumes "filter machine_change pre = []" "pass_change E cl k ms es"
  shows "pass_change E cl k ms (pre @ es)"
proof -
  from assms(2) consider "filter machine_change es = []"
    | m token where "filter machine_change es = [ObjectCreated (NewMachine m)]"
      "creates_member k cl (controlPlaneRoleForNewMachine (desired_replicas k) ms) token m es" "add_allowed E k ms"
    | m pre' where "m \<in> set ms" "es = pre' @ [MachineDeleted (m_name m)]" "filter machine_change pre' = []"
      "remove_allowed E k ms m"
    unfolding pass_change_def by blast
  then show ?thesis
  proof cases
    case 2
    then show ?thesis
      using assms(1) creates_extend [OF machine_change_filter [OF assms(1)] 2(2)]
      by (auto simp: pass_change_def)
  next
    case 3
    then have "pre @ es = (pre @ pre') @ [MachineDeleted (m_name m)]" "filter machine_change (pre @ pre') = []"
      using assms(1) by simp_all
    with 3 show ?thesis unfolding pass_change_def by blast
  qed (simp add: pass_change_def assms(1))
qed


section \<open>The steps that change the set of Machines\<close>

definition pass_ok :: "env \<Rightarrow> cluster \<Rightarrow> machine list \<Rightarrow> st \<Rightarrow> st \<Rightarrow> bool" where
  "pass_ok E cl ms s s' \<longleftrightarrow> (\<exists>es. s_log s' = s_log s @ es \<and> pass_change E cl (s_kcp s) ms es)"

lemma still_log:
  assumes "still s s'"
  obtains es where "s_log s' = s_log s @ es" "filter machine_change es = []" "spec_of (s_kcp s') = spec_of (s_kcp s)"
  using assms by (auto simp: still_def logs_only_def list_all_iff filter_empty_conv quiet_effect_def)

lemma pass_ok_still: "still s s' \<Longrightarrow> pass_ok E cl ms s s'"
  by (erule still_log) (auto simp: pass_ok_def pass_change_def)

lemma pass_ok_after:
  assumes "still s s1" "pass_ok E cl ms s1 s'"
  shows "pass_ok E cl ms s s'"
proof -
  obtain pre where pre: "s_log s1 = s_log s @ pre" "filter machine_change pre = []"
    "spec_of (s_kcp s1) = spec_of (s_kcp s)" using assms(1) by (rule still_log)
  obtain es where es: "s_log s' = s_log s1 @ es" "pass_change E cl (s_kcp s1) ms es"
    using assms(2) by (auto simp: pass_ok_def)
  have "pass_change E cl (s_kcp s) ms (pre @ es)"
    using es(2) pass_change_after [OF pre(2)] by (simp only: pass_change_spec [OF pre(3)])
  with pre(1) es(1) show ?thesis by (auto simp: pass_ok_def)
qed

lemma pass_ok_log: "pass_ok E cl ms s s1 \<Longrightarrow> s_log s' = s_log s1 \<Longrightarrow> pass_ok E cl ms s s'"
  by (simp add: pass_ok_def)

lemma wpa_still:
  "guards still m \<Longrightarrow> (\<And>r s'. m s = (r, s') \<Longrightarrow> still s s' \<Longrightarrow> Q r s') \<Longrightarrow> wpa m Q s"
  unfolding guards_def wpa_def by (cases "m s") (metis (lifting) case_prod_conv snd_conv)

lemma joiners_joined_all:
  "fst (joiners_joined distribution status ms) \<Longrightarrow> m \<in> set ms \<Longrightarrow> \<not> deleting m \<Longrightarrow>
   registered m \<and> report_allows distribution (map_of status (node_name m))"
  by (induction ms) (auto split: if_splits)

lemma status_was_read:
  "wpa (readEtcdStatus E) (\<lambda>r s'. s_kcp s' = s_kcp s \<and> (\<forall>status. r = Inr status \<longrightarrow> status_read E status)) s"
  unfolding readEtcdStatus_def by (auto simp: wpa_simps status_read_def split: sum.splits)

lemma joinable_joined:
  "wpa (initMachineJoinable E ms) (\<lambda>r s'. s_kcp s' = s_kcp s \<and>
     (\<forall>why. r = Inr (True, why) \<longrightarrow> all_joined E (s_kcp s) ms)) s"
proof (cases ms)
  case (Cons m rest)
  have all: "all_joined E k ms"
    if "status_read E status" "registered m" "report_allows (distributionOf k) (map_of status (node_name m))"
      "fst (joiners_joined (distributionOf k) status rest)" for k status
    using that joiners_joined_all [OF that(4)] unfolding all_joined_def Cons
    by (intro conjI exI [of _ status]) (auto simp: member_joined_def)
  show ?thesis
    unfolding initMachineJoinable_def Let_def distributionOf_def [symmetric]
    by (simp add: Cons wpa_simps)
      (auto simp: Cons [symmetric] wpa_simps intro!: wpa_weaken [OF status_was_read] all split: sum.splits)
qed (simp add: initMachineJoinable_def wpa_simps)

lemma admission_joined:
  "wpa (admission_for E ms role) (\<lambda>r s'. still s s' \<and>
     (\<forall>adm. r = Inr adm \<longrightarrow> ja_admitted adm \<longrightarrow> role = role_join \<longrightarrow> all_joined E (s_kcp s) ms)) s"
proof -
  have "wpa (admission_for E ms role) (\<lambda>r s'.
     \<forall>adm. r = Inr adm \<longrightarrow> ja_admitted adm \<longrightarrow> role = role_join \<longrightarrow> all_joined E (s_kcp s) ms) s"
    unfolding admission_for_def admitJoiner_def
    by (auto simp: wpa_simps intro!: wpa_weaken [OF joinable_joined] split: sum.splits)
      (auto simp: wpa_def split: prod.splits)
  with guardsD [OF gate_still(2)] show ?thesis by (auto simp: wpa_def split: prod.splits)
qed

lemma create_changes:
  "wpa (createControlPlaneMachine E cl role tok) (\<lambda>r s'. \<exists>es. s_log s' = s_log s @ es \<and>
     (filter machine_change es = [] \<or>
      (\<exists>m. filter machine_change es = [ObjectCreated (NewMachine m)] \<and>
        creates_member (s_kcp s) cl role tok m es))) s"
proof -
  obtain r s' where run: "createControlPlaneMachine E cl role tok s = (r, s')" by (cases "createControlPlaneMachine E cl role tok s")
  obtain es where es: "s_log s' = s_log s @ es" "list_all (\<lambda>e. \<not> deletes_machine e) es"
    using guardsD [OF create_deletes_none run] by (auto simp: logs_only_def)
  then have new: "new_effects s s' = es" by simp
  have same: "filter machine_change es = filter is_new_machine es"
    using es(2) by (induction es) (auto simp: machine_change_def)
  have post: "create_post cl role tok (s_kcp s) (s_kcp s') r es"
    using tracesD [OF traces_createControlPlaneMachine run] new by simp
  have "filter machine_change es = [ObjectCreated (NewMachine m)]" if "creates_member (s_kcp s) cl role tok m es" for m
    using that by (auto simp: same creates_member_def)
  with post same es(1) show ?thesis by (auto simp: wpa_def run create_post_def)
qed

lemma add_member_ok:
  assumes "desired = desired_replicas (s_kcp s)" "add_room (s_kcp s) ms"
  shows "wpa (add_member E cl ms desired) (\<lambda>r s'. pass_ok E cl ms s s') s"
proof -
  let ?role = "controlPlaneRoleForNewMachine desired ms"
  have create: "wpa (createControlPlaneMachine E cl ?role tok) (\<lambda>r s'. pass_ok E cl ms s s') s1"
    if "still s s1" "?role = role_join \<longrightarrow> all_joined E (s_kcp s) ms" for s1 tok
  proof (rule wpa_weaken [OF create_changes])
    fix r and s2 :: st
    assume "\<exists>es. s_log s2 = s_log s1 @ es \<and> (filter machine_change es = [] \<or>
      (\<exists>m. filter machine_change es = [ObjectCreated (NewMachine m)] \<and>
        creates_member (s_kcp s1) cl ?role tok m es))"
    then obtain es where es: "s_log s2 = s_log s1 @ es" "filter machine_change es = [] \<or>
      (\<exists>m. filter machine_change es = [ObjectCreated (NewMachine m)] \<and>
        creates_member (s_kcp s1) cl ?role tok m es)" by blast
    have spec: "spec_of (s_kcp s1) = spec_of (s_kcp s)" using that(1) by (simp add: still_def)
    have "add_allowed E (s_kcp s) ms"
      using assms that(2) by (auto simp: add_allowed_def role_cases)
    then have "pass_change E cl (s_kcp s) ms es"
      using es(2) unfolding creates_member_spec [OF spec] assms(1) pass_change_def by blast
    then have "pass_ok E cl ms s1 s2"
      using es(1) by (auto simp: pass_ok_def pass_change_spec [OF spec])
    then show "pass_ok E cl ms s s2" by (rule pass_ok_after [OF that(1)])
  qed
  show ?thesis
    unfolding add_member_def Let_def come_back_def
    by (auto simp: wpa_simps intro!: wpa_weaken [OF admission_joined] wpa_weaken [OF create]
        intro: pass_ok_still split: sum.splits)
qed

lemma canRemove_keeps_quorum:
  "wpa (canRemoveMember E target) (\<lambda>r s'. still s s' \<and>
     (\<forall>why. r = Inr (True, why) \<longrightarrow> quorum_stays E (s_kcp s) target)) s"
proof -
  have "wpa (canRemoveMember E target) (\<lambda>r s'.
     \<forall>why. r = Inr (True, why) \<longrightarrow> quorum_stays E (s_kcp s) target) s"
    unfolding canRemoveMember_def
    by (simp add: wpa_simps quorum_stays_def)
      (auto simp: wpa_simps intro!: wpa_weaken [OF status_was_read] split: sum.splits)
  with guardsD [OF canRemove_silent [THEN silent_still]] show ?thesis
    by (auto simp: wpa_def split: prod.splits)
qed

lemma delete_changes:
  "wpa (deleteControlPlaneMachine E target) (\<lambda>r s'. s_log s' = s_log s \<or>
     s_log s' = s_log s @ [MachineDeleted (m_name target)]) s"
  unfolding deleteControlPlaneMachine_def refuse_if_frozen_def
  by (auto simp: wpa_simps split: option.splits)

lemma remove_member_ok:
  assumes "remove_room (s_kcp s) ms target" "target \<in> set ms"
  shows "wpa (remove_member E target) (\<lambda>r s'. pass_ok E cl ms s s') s"
proof -
  have delete: "wpa (deleteControlPlaneMachine E target) (\<lambda>r s'. pass_ok E cl ms s s') s1"
    if "still s s1" "quorum_stays E (s_kcp s) target" for s1
  proof (rule wpa_weaken [OF delete_changes])
    fix r and s2 :: st
    assume log: "s_log s2 = s_log s1 \<or> s_log s2 = s_log s1 @ [MachineDeleted (m_name target)]"
    have spec: "spec_of (s_kcp s1) = spec_of (s_kcp s)" using that(1) by (simp add: still_def)
    have "pass_change E cl (s_kcp s) ms [MachineDeleted (m_name target)]" "pass_change E cl (s_kcp s) ms []"
      using assms that(2) by (auto simp: pass_change_def remove_allowed_def)
    then have "pass_ok E cl ms s1 s2"
      using log by (auto simp: pass_ok_def pass_change_spec [OF spec])
    then show "pass_ok E cl ms s s2" by (rule pass_ok_after [OF that(1)])
  qed
  show ?thesis
    unfolding remove_member_def come_back_def
    by (auto simp: wpa_simps intro!: wpa_weaken [OF canRemove_keeps_quorum] wpa_still [OF identity_still(5)]
          wpa_still [OF upkeep_still(6)] wpa_weaken [OF delete] intro: pass_ok_still still.R_trans
        split: sum.splits option.splits prod.splits)
qed

text \<open>The number of Machines fits in an \<open>int32\<close>.\<close>

definition few :: "machine list \<Rightarrow> bool" where
  "few ms \<longleftrightarrow> int (length ms) \<le> int32_max"

lemma few_wrap: "few ms \<Longrightarrow> wrap32 (int (length ms)) = int (length ms)"
  by (simp add: few_def wrap32_id)

lemma few_filter: "few ms \<Longrightarrow> few (filter P ms)"
  using length_filter_le [of P ms] unfolding few_def by linarith

lemma plan_facts:
  assumes "few ms"
  shows "rp_outdated (plan_rollout k desired ms) = outdated k ms"
    "rp_desired (plan_rollout k desired ms) = desired"
    "rp_max_surge (plan_rollout k desired ms) = max_surge k"
    "(rp_updated_joined (plan_rollout k desired ms) = rp_updated (plan_rollout k desired ms)) =
      (\<forall>m\<in>set ms. machineMatchesVersion m (k_version k) \<longrightarrow> registered m)"
proof -
  let ?u = "filter (\<lambda>m. machineMatchesVersion m (k_version k)) ms"
  have "length (filter registered ?u) = length ?u \<longleftrightarrow> (\<forall>m\<in>set ?u. registered m)"
    by (metis filter_True length_filter_less less_irrefl)
  then show "(rp_updated_joined (plan_rollout k desired ms) = rp_updated (plan_rollout k desired ms)) =
      (\<forall>m\<in>set ms. machineMatchesVersion m (k_version k) \<longrightarrow> registered m)"
    using few_wrap [OF few_filter [OF assms]] few_wrap [OF few_filter [OF few_filter [OF assms]]]
    by (auto simp: plan_rollout_def Let_def simp del: filter_filter)
qed (simp_all add: plan_rollout_def Let_def outdated_def max_surge_def)

lemma ok_after_still:
  assumes "guards still m" "\<And>x s1. still s s1 \<Longrightarrow> wpa (f x) (\<lambda>_ s'. pass_ok E cl ms s1 s') s1"
  shows "wpa (bindA m f) (\<lambda>_ s'. pass_ok E cl ms s s') s"
  unfolding wpa_bind
proof (rule wpa_still [OF assms(1)])
  fix r s1 assume s1: "still s s1"
  show "case r of Inl e \<Rightarrow> pass_ok E cl ms s s1 | Inr x \<Rightarrow> wpa (f x) (\<lambda>_ s'. pass_ok E cl ms s s') s1"
    using s1 by (auto simp: pass_ok_still intro: wpa_weaken [OF assms(2)] pass_ok_after split: sum.split)
qed

lemma still_spec:
  assumes "still s s'"
  shows "desired_replicas (s_kcp s') = desired_replicas (s_kcp s)" "max_surge (s_kcp s') = max_surge (s_kcp s)"
    "outdated (s_kcp s') ms = outdated (s_kcp s) ms"
    "add_room (s_kcp s') ms = add_room (s_kcp s) ms" "remove_room (s_kcp s') ms = remove_room (s_kcp s) ms"
proof -
  have "spec_of (s_kcp s') = spec_of (s_kcp s)" using assms by (simp add: still_def)
  then obtain a st where k: "s_kcp s' = (s_kcp s)\<lparr>k_annotations := a, k_status := st\<rparr>" by (rule spec_of_eq)
  show d: "desired_replicas (s_kcp s') = desired_replicas (s_kcp s)"
    and sg: "max_surge (s_kcp s') = max_surge (s_kcp s)"
    and o: "outdated (s_kcp s') ms = outdated (s_kcp s) ms"
    by (simp_all add: k desired_replicas_def max_surge_def outdated_def)
  show "add_room (s_kcp s') ms = add_room (s_kcp s) ms" by (simp add: add_room_def d sg o)
  show "remove_room (s_kcp s') ms = remove_room (s_kcp s) ms"
    by (simp add: remove_room_def d sg o fun_eq_iff) (simp add: k)
qed

lemma nothing_ok: "pass_ok E cl ms s s"
  by (rule pass_ok_still [OF still.R_refl])

lemma hd_outdated_in: "outdated k ms \<noteq> [] \<Longrightarrow> hd (outdated k ms) \<in> set ms"
  using hd_in_set [of "outdated k ms"] unfolding outdated_def by auto

lemma rollout_ok:
  assumes desired: "desired = desired_replicas (s_kcp s)" and few: "few ms"
    and out: "outdated (s_kcp s) ms \<noteq> []"
  shows "wpa (reconcileRollout E cl ms (plan_rollout (s_kcp s) desired ms)) (\<lambda>_ s'. pass_ok E cl ms s s') s"
proof -
  let ?k = "s_kcp s"
  have add: "wpa (add_member E cl ms desired) (\<lambda>_ s'. pass_ok E cl ms s1 s') s1"
    if "still s s1" "1 < desired" "list_all (\<lambda>m. \<not> deleting m) ms" "int (length ms) < wrap32 (desired + max_surge ?k)" for s1
    using that out desired
    by (intro add_member_ok) (simp_all add: still_spec add_room_def)
  have remove: "wpa (remove_member E (hd (outdated ?k ms))) (\<lambda>_ s'. pass_ok E cl ms s1 s') s1"
    if "still s s1" "1 < desired" "list_all (\<lambda>m. \<not> deleting m) ms" "desired < int (length ms)"
      "\<forall>m\<in>set ms. machineMatchesVersion m (k_version ?k) \<longrightarrow> registered m" for s1
    using that out desired
    by (intro remove_member_ok) (simp_all add: still_spec remove_room_def hd_outdated_in)
  have none: "list_ex deleting ms \<longleftrightarrow> \<not> list_all (\<lambda>m. \<not> deleting m) ms"
    by (auto simp: list_ex_iff list_all_iff)
  obtain m rest where out': "outdated ?k ms = m # rest" using out by (cases "outdated ?k ms") auto
  show ?thesis
    unfolding reconcileRollout_def Let_def plan_facts [OF few] few_wrap [OF few] none out'
    using remove [unfolded out' list.sel]
    by (auto intro!: ok_after_still still_rules add simp: wpa_ret nothing_ok)
qed

lemma scale_ok:
  assumes desired: "desired = desired_replicas (s_kcp s)" and few: "few ms"
  shows "wpa (scale_or_roll E cl ms desired) (\<lambda>_ s'. pass_ok E cl ms s s') s"
proof -
  let ?k = "s_kcp s"
  have add: "wpa (add_member E cl ms desired) (\<lambda>_ s'. pass_ok E cl ms s1 s') s1"
    if "still s s1" "outdated ?k ms = []" "int (length ms) < desired" for s1
    using that desired by (intro add_member_ok) (simp_all add: still_spec add_room_def)
  have remove: "wpa (remove_member E (last ms)) (\<lambda>_ s'. pass_ok E cl ms s1 s') s1"
    if "still s s1" "outdated ?k ms = []" "desired < int (length ms)" "ms \<noteq> []" for s1
    using that desired by (intro remove_member_ok) (simp_all add: still_spec remove_room_def)
  have roll: "wpa (reconcileRollout E cl ms (plan_rollout ?k desired ms)) (\<lambda>_ s'. pass_ok E cl ms s s') s"
    if "outdated ?k ms \<noteq> []"
    using rollout_ok [OF desired few that] .
  have calm: "wpa (bindA (mark_true machines_up_to_date) (\<lambda>_.
       if int (length ms) < desired then add_member E cl ms desired
       else if desired < int (length ms) then
         (case selectMachineForDeletion ms (outdated ?k ms) of
            None \<Rightarrow> ret None
          | Some target \<Rightarrow> remove_member E target)
       else ret None)) (\<lambda>_ s'. pass_ok E cl ms s s') s"
    if "outdated ?k ms = []"
    using that
    by (intro ok_after_still still_rules)
      (simp add: selectMachineForDeletion_def wpa_ret nothing_ok add remove)
  show ?thesis
    unfolding scale_or_roll_def wpa_bind [of get_kcp] wpa_get_kcp Let_def plan_facts [OF few] few_wrap [OF few]
      sum.case
    using roll calm by (cases "outdated ?k ms = []") (simp_all only: simp_thms if_True if_False)
qed


section \<open>The whole pass\<close>

lemma change_ok:
  assumes "desired = desired_replicas (s_kcp s)" "few ms"
  shows "wpa (change_membership E cl ms desired) (\<lambda>_ s'. pass_ok E cl ms s s') s"
proof -
  have scale: "wpa (orphans_then_scale E cl ms desired) (\<lambda>_ s'. pass_ok E cl ms s1 s') s1" if "still s s1" for s1
    unfolding orphans_then_scale_def come_back_def
    by (rule ok_after_still, intro still.try_guards still_rules)
      (use that assms in \<open>auto simp: wpa_simps nothing_ok still_spec intro!: scale_ok split: sum.split\<close>)
  show ?thesis
    unfolding change_membership_def
    by (rule ok_after_still, intro still_rules)
      (auto simp: wpa_simps nothing_ok intro!: wpa_weaken [OF scale] split: sum.split)
qed

lemma listed_ok:
  assumes "desired = desired_replicas (s_kcp s)" "few ms"
  shows "wpa (reconcile_listed E cl ms desired) (\<lambda>_ s'. pass_ok E cl ms s s') s"
proof -
  have change: "wpa (change_membership E cl ms desired) (\<lambda>_ s'. pass_ok E cl ms s1 s') s1" if "still s s1" for s1
    using that assms by (intro change_ok) (simp_all add: still_spec)
  have sweep: "wpa (bindA (sweep_leaves E cl ms) (\<lambda>swept.
       case swept of Some d \<Rightarrow> ret (Some d) | None \<Rightarrow> change_membership E cl ms desired))
     (\<lambda>_ s'. pass_ok E cl ms s1 s') s1" if "still s s1" for s1
    using that still.R_trans
    by (intro ok_after_still still_rules) (auto simp: wpa_ret nothing_ok intro!: change split: option.split)
  show ?thesis
    unfolding reconcile_listed_def
    by (intro ok_after_still still_rules) (simp add: wpa_ret nothing_ok sweep)
qed

text \<open>The Machines after the upkeep: those listed and owned, in order, apart from the labels,
  annotations and drain deadline the upkeep set.\<close>

definition same_machine :: "machine \<Rightarrow> machine \<Rightarrow> bool" where
  "same_machine a b \<longleftrightarrow>
     b = a\<lparr>m_labels := m_labels b, m_annotations := m_annotations b, m_drain := m_drain b\<rparr>"

definition pass_machines :: "env \<Rightarrow> kcp \<Rightarrow> machine list \<Rightarrow> bool" where
  "pass_machines E k ms \<longleftrightarrow>
     (\<exists>n listed. e_machines E n = Inr listed \<and>
        list_all2 same_machine (sortMachinesOldestFirst (filter (owned_by_kcp_name k) listed)) ms)"

lemma pass_machines_few:
  assumes "pass_machines E k ms" "\<And>n listed. e_machines E n = Inr listed \<Longrightarrow> int (length listed) \<le> int32_max"
  shows "few ms"
proof -
  obtain n listed where l: "e_machines E n = Inr listed"
    "list_all2 same_machine (sortMachinesOldestFirst (filter (owned_by_kcp_name k) listed)) ms"
    using assms(1) by (auto simp: pass_machines_def)
  have "length ms = length (filter (owned_by_kcp_name k) listed)" using list_all2_lengthD [OF l(2)] by simp
  then have "length ms \<le> length listed" by (metis length_filter_le)
  with assms(2) [OF l(1)] show ?thesis unfolding few_def by linarith
qed

lemma drain_same:
  assumes "reconcileNodeDrainTimeout E ms s = (Inr ms', s')"
  shows "list_all2 same_machine ms ms'"
proof -
  have "mapA (\<lambda>m. if m_drain m = nodeDrainTimeoutSeconds (k_drain (s_kcp s)) then ret m
       else bindA (mgmt_write E (DrainPatched (m_name m) (nodeDrainTimeoutSeconds (k_drain (s_kcp s)))))
         (\<lambda>_. ret (m\<lparr>m_drain := nodeDrainTimeoutSeconds (k_drain (s_kcp s))\<rparr>))) ms s = (Inr ms', s')"
    using assms by (simp add: reconcileNodeDrainTimeout_def Let_def bindA_def get_kcp_def getsA_def)
  then show ?thesis
    by (rule mapA_post)
      (auto simp: same_machine_def ret_def dest!: bindA_inv_Inr split: if_splits)
qed

lemma metadata_same:
  assumes "reconcileMachineMetadata E cl ms s = (Inr ms', s')"
  shows "list_all2 same_machine ms ms'"
proof -
  let ?l = "controlPlaneMachineLabels (s_kcp s) (c_name cl)" and ?a = "controlPlaneMachineAnnotations (s_kcp s)"
  have "mapA (\<lambda>m. if missing_in (m_labels m) ?l = [] \<and> missing_in (m_annotations m) ?a = [] then ret m
       else bindA (mgmt_write E (MetadataPatched (m_name m) (missing_in (m_labels m) ?l) (missing_in (m_annotations m) ?a)))
         (\<lambda>_. ret (m\<lparr>m_labels := upd_all (m_labels m) (missing_in (m_labels m) ?l),
            m_annotations := upd_all (m_annotations m) (missing_in (m_annotations m) ?a)\<rparr>))) ms s = (Inr ms', s')"
    using assms by (simp add: reconcileMachineMetadata_def Let_def bindA_def get_kcp_def getsA_def)
  then show ?thesis
    by (rule mapA_post)
      (auto simp: same_machine_def ret_def dest!: bindA_inv_Inr split: if_splits)
qed

lemma same_machine_trans: "same_machine a b \<Longrightarrow> same_machine b c \<Longrightarrow> same_machine a c"
  by (cases a; cases b; cases c) (simp add: same_machine_def)

text \<open>What a pass leaves, early returns and errors included.\<close>

definition pass_fine :: "env \<Rightarrow> cluster \<Rightarrow> st \<Rightarrow> st \<Rightarrow> bool" where
  "pass_fine E cl s s' \<longleftrightarrow> (\<exists>es. s_log s' = s_log s @ es \<and> (filter machine_change es = [] \<or>
     (\<exists>ms. pass_machines E (s_kcp s) ms \<and> pass_change E cl (s_kcp s) ms es)))"

lemma machines_pass_fine:
  assumes "\<And>n listed. e_machines E n = Inr listed \<Longrightarrow> int (length listed) \<le> int32_max"
  shows "wpa (reconcileMachines E cl) (\<lambda>_. pass_fine E cl s) s"
proof -
  define fine where "fine \<equiv> pass_fine E cl s"
  have still_fine: "fine s1" if "still s s1" for s1
    using that by (auto simp: fine_def pass_fine_def elim!: still_log)
  have ok_fine: "fine s2" if "still s s1" "pass_ok E cl ms s1 s2" "pass_machines E (s_kcp s) ms" for s1 s2 ms
    using pass_ok_after [OF that(1,2)] that(3) by (auto simp: fine_def pass_fine_def pass_ok_def)
  have step: "wpa (bindA m f) (\<lambda>_. fine) s1"
    if "guards still m" "still s s1" "\<And>x s2. m s1 = (Inr x, s2) \<Longrightarrow> still s s2 \<Longrightarrow> wpa (f x) (\<lambda>_. fine) s2"
    for m :: "'a op" and f :: "'a \<Rightarrow> 'b op" and s1
    unfolding wpa_bind
  proof (rule wpa_still [OF that(1)])
    fix r s2 assume run: "m s1 = (r, s2)" and "still s1 s2"
    then have "still s s2" using that(2) still.R_trans by blast
    show "case r of Inl e \<Rightarrow> fine s2 | Inr x \<Rightarrow> wpa (f x) (\<lambda>_. fine) s2"
    proof (cases r)
      case (Inl e)
      show ?thesis unfolding Inl sum.case by (rule still_fine) fact
    next
      case (Inr x)
      show ?thesis unfolding Inr sum.case by (rule that(3) [OF _ \<open>still s s2\<close>]) (use run Inr in simp)
    qed
  qed
  let ?get = "getControlPlaneMachines E" and ?desired = "desired_replicas (s_kcp s)"
  have get: "wpa ?get (\<lambda>r s1. still s s1 \<and> (\<forall>l. r = Inr l \<longrightarrow> (\<exists>n listed. e_machines E n = Inr listed \<and>
      l = filter (owned_by_kcp_name (s_kcp s)) listed))) s"
    unfolding getControlPlaneMachines_def
    by (auto simp: wpa_simps still_def logs_same split: sum.split)
  have listed: "wpa (reconcile_listed E cl ms ?desired) (\<lambda>_. fine) s1"
    if "still s s1" "pass_machines E (s_kcp s) ms" for s1 ms
  proof -
    have "few ms" by (rule pass_machines_few [OF that(2) assms])
    then have "wpa (reconcile_listed E cl ms ?desired) (\<lambda>_ s'. pass_ok E cl ms s1 s') s1"
      using that(1) by (intro listed_ok) (simp_all add: still_spec)
    then show ?thesis by (rule wpa_weaken) (rule ok_fine [OF that(1) _ that(2)])
  qed
  have "wpa (reconcileMachines E cl) (\<lambda>_. fine) s"
    unfolding reconcileMachines_def Let_def wpa_bind [of get_kcp] wpa_get_kcp sum.case wpa_bind [of ?get]
  proof (rule wpa_weaken [OF get])
    fix r1 s1
    assume 1: "still s s1 \<and> (\<forall>l. r1 = Inr l \<longrightarrow> (\<exists>n listed. e_machines E n = Inr listed \<and>
      l = filter (owned_by_kcp_name (s_kcp s)) listed))"
    show "case r1 of Inl e \<Rightarrow> fine s1
      | Inr listed \<Rightarrow> wpa (bindA (reportControlPlaneTemplateHostname E) (\<lambda>_.
          bindA (reconcileNodeDrainTimeout E (sortMachinesOldestFirst listed)) (\<lambda>ms.
          bindA (reconcileMachineMetadata E cl ms) (\<lambda>ms. reconcile_listed E cl ms ?desired)))) (\<lambda>_. fine) s1"
    proof (cases r1)
      case (Inr l)
      then have l: "\<exists>n listed. e_machines E n = Inr listed \<and> l = filter (owned_by_kcp_name (s_kcp s)) listed"
        using 1 by blast
      have "wpa (bindA (reportControlPlaneTemplateHostname E) (\<lambda>_.
          bindA (reconcileNodeDrainTimeout E (sortMachinesOldestFirst l)) (\<lambda>ms.
          bindA (reconcileMachineMetadata E cl ms) (\<lambda>ms. reconcile_listed E cl ms ?desired)))) (\<lambda>_. fine) s1"
      proof (intro step [OF upkeep_still(3)] step [OF upkeep_still(4)] step [OF upkeep_still(5)] listed)
        show "still s s1" using 1 by blast
        fix ms1 ms2 and s2 s3 s4 :: st
        assume d: "reconcileNodeDrainTimeout E (sortMachinesOldestFirst l) s2 = (Inr ms1, s3)"
          and m: "reconcileMachineMetadata E cl ms1 s3 = (Inr ms2, s4)"
        have "list_all2 same_machine (sortMachinesOldestFirst l) ms2"
          by (rule list_all2_trans [OF same_machine_trans drain_same [OF d] metadata_same [OF m]])
        then show "pass_machines E (s_kcp s) ms2" using l by (auto simp: pass_machines_def)
      qed
      with Inr show ?thesis by simp
    qed (use 1 still_fine in auto)
  qed
  then show ?thesis unfolding fine_def .
qed

text \<open>
  C1: a whole pass over the Machines creates or deletes at most one Machine, and never both;
  the change is the last thing the pass does. A Machine is created only when there are fewer
  than desired, or, while some are outdated, when none is being deleted and the surge allows
  one more; unless it is the first, every Machine of the control plane must have joined. A
  Machine is deleted only when there are more than desired: while some are outdated the
  oldest outdated one, when none is being deleted and every updated one has registered;
  otherwise the newest one. A single-node control plane is never rolled out, and the deletion of a
  live member keeps a quorum of the reports that were read. The Machines are those the API server listed
  and the control plane owns, oldest first.
\<close>

theorem pass_changes_one_machine:
  assumes "reconcileMachines E cl s = (r, s')"
    and "\<And>n listed. e_machines E n = Inr listed \<Longrightarrow> int (length listed) \<le> int32_max"
  shows "length (filter machine_change (new_effects s s')) \<le> 1 \<and>
    (filter machine_change (new_effects s s') \<noteq> [] \<longrightarrow>
      (\<exists>ms. pass_machines E (s_kcp s) ms \<and> pass_change E cl (s_kcp s) ms (new_effects s s')))"
proof -
  have "pass_fine E cl s s'" by (rule wpa_result [OF assms(1) machines_pass_fine]) (rule assms(2))
  then obtain es where es: "s_log s' = s_log s @ es" "filter machine_change es = [] \<or>
     (\<exists>ms. pass_machines E (s_kcp s) ms \<and> pass_change E cl (s_kcp s) ms es)" by (auto simp: pass_fine_def)
  then have "length (filter machine_change es) \<le> 1" by (auto simp: pass_change_def)
  with es show ?thesis by auto
qed

end
