(* ===== verification/Rollout_Runs.thy ===== *)
theory Rollout_Runs
  imports Membership_Change
begin

text \<open>
  A rollout as a run: passes of the controller in any environment, interleaved with what
  happens to the Machines meanwhile. The set of Machines a pass sees is the current one, in
  any order (\<open>waitForMachineInCache\<close> keeps a pass from missing the Machine the last one
  created), and the API server refuses a second Machine of one name.
\<close>

text \<open>What the effects of a pass do to the Machines. A deleted Machine stays, being deleted,
  until its finalizers are done.\<close>

fun apply_effect :: "time \<Rightarrow> effect \<Rightarrow> machine list \<Rightarrow> machine list" where
  "apply_effect now (ObjectCreated (NewMachine m)) ms = ms @ [m]"
| "apply_effect now (MachineDeleted n) ms =
     map (\<lambda>m. if m_name m = n \<and> \<not> deleting m then m\<lparr>m_deletion := Some now\<rparr> else m) ms"
| "apply_effect now e ms = ms"

definition apply_effects :: "time \<Rightarrow> effect list \<Rightarrow> machine list \<Rightarrow> machine list" where
  "apply_effects now es ms = fold (apply_effect now) es ms"

text \<open>One step while some Machine is outdated: a pass, a Machine that registers its Node, a
  deleted Machine that is gone, or another order of the listing.\<close>

inductive rollout_step :: "kcp \<Rightarrow> cluster \<Rightarrow> machine list \<Rightarrow> machine list \<Rightarrow> bool" for k cl where
  pass: "outdated k ms \<noteq> [] \<Longrightarrow> spec_of (s_kcp s) = spec_of k \<Longrightarrow>
    scale_or_roll E cl ms (desired_replicas k) s = (r, s') \<Longrightarrow>
    ms' = apply_effects (e_now E) (new_effects s s') ms \<Longrightarrow> distinct (map m_name ms') \<Longrightarrow>
    rollout_step k cl ms ms'"
| registers: "ms = xs @ m # ys \<Longrightarrow> rollout_step k cl ms (xs @ m\<lparr>m_node := Some n\<rparr> # ys)"
| gone: "ms = xs @ m # ys \<Longrightarrow> deleting m \<Longrightarrow> rollout_step k cl ms (xs @ ys)"
| order: "mset ms' = mset ms \<Longrightarrow> rollout_step k cl ms ms'"

abbreviation rollout_run :: "kcp \<Rightarrow> cluster \<Rightarrow> machine list \<Rightarrow> machine list \<Rightarrow> bool" where
  "rollout_run k cl \<equiv> (rollout_step k cl)\<^sup>*\<^sup>*"

text \<open>Changes in progress: a Machine that has not registered yet, or is being deleted; and the
  members that serve.\<close>

definition in_progress :: "machine list \<Rightarrow> machine list" where
  "in_progress ms = filter (\<lambda>m. \<not> registered m \<or> deleting m) ms"

definition serving :: "machine list \<Rightarrow> machine list" where
  "serving ms = filter (\<lambda>m. registered m \<and> \<not> deleting m) ms"

definition settled :: "kcp \<Rightarrow> machine list \<Rightarrow> bool" where
  "settled k ms \<longleftrightarrow> 1 < desired_replicas k \<and> distinct (map m_name ms) \<and>
     length (in_progress ms) \<le> 1 \<and> desired_replicas k \<le> int (length (serving ms)) \<and>
     (\<forall>m\<in>set ms. \<not> machineMatchesVersion m (k_version k) \<longrightarrow> registered m) \<and>
     few ms"


section \<open>The invariant\<close>

lemma apply_nothing: "\<not> machine_change e \<Longrightarrow> apply_effect now e ms = ms"
  by (cases "(now, e, ms)" rule: apply_effect.cases) simp_all

lemma apply_filter: "apply_effects now es ms = apply_effects now (filter machine_change es) ms"
  unfolding apply_effects_def by (induction es arbitrary: ms) (simp_all add: apply_nothing)

lemma one_marked:
  assumes "distinct (map m_name ms)" "m \<in> set ms" "\<And>x. x \<in> set ms \<Longrightarrow> P x" "\<not> P (f m)"
  shows "length (filter P (map (\<lambda>x. if m_name x = m_name m then f x else x) ms)) = length ms - 1"
    "length (filter (\<lambda>x. \<not> P x) (map (\<lambda>x. if m_name x = m_name m then f x else x) ms)) = 1"
proof -
  obtain xs ys where ms: "ms = xs @ m # ys" using split_list [OF assms(2)] by blast
  have same: "map (\<lambda>x. if m_name x = m_name m then f x else x) zs = zs" if "m_name m \<notin> m_name ` set zs" for zs
    using that by (induction zs) auto
  have "m_name m \<notin> m_name ` set xs" "m_name m \<notin> m_name ` set ys" using assms(1) ms by auto
  moreover have "filter P xs = xs" "filter P ys = ys" "filter (\<lambda>x. \<not> P x) xs = []" "filter (\<lambda>x. \<not> P x) ys = []"
    using assms(3) ms by (auto simp: filter_id_conv filter_empty_conv)
  ultimately show "length (filter P (map (\<lambda>x. if m_name x = m_name m then f x else x) ms)) = length ms - 1"
    "length (filter (\<lambda>x. \<not> P x) (map (\<lambda>x. if m_name x = m_name m then f x else x) ms)) = 1"
    using assms(4) by (simp_all add: ms same)
qed

lemma settled_mset: "mset ms' = mset ms \<Longrightarrow> settled k ms' = settled k ms"
proof -
  assume m: "mset ms' = mset ms"
  have len: "length (filter P ms') = length (filter P ms)" for P
    by (metis m mset_filter size_mset)
  have "mset (map m_name ms') = mset (map m_name ms)" by (simp add: m)
  then have "distinct (map m_name ms') = distinct (map m_name ms)" by (rule mset_eq_imp_distinct_iff)
  with mset_eq_length [OF m] mset_eq_setD [OF m] show ?thesis by (simp add: settled_def in_progress_def serving_def few_def len)
qed

lemma pass_settled:
  assumes "settled k ms" "outdated k ms \<noteq> []" "pass_change E cl k ms es" "k_version k \<noteq> []"
    and names: "distinct (map m_name (apply_effects now es ms))"
  shows "settled k (apply_effects now es ms)"
proof -
  have no_progress: "in_progress ms = []"
    if "list_all (\<lambda>m. \<not> deleting m) ms" "\<forall>m\<in>set ms. \<not> deleting m \<longrightarrow> registered m"
    using that by (auto simp: in_progress_def filter_empty_conv list_all_iff)
  have ne: "ms \<noteq> []" using assms(2) by (auto simp: outdated_def)
  from assms(3) consider "filter machine_change es = []"
    | m token where "filter machine_change es = [ObjectCreated (NewMachine m)]"
      "creates_member k cl (controlPlaneRoleForNewMachine (desired_replicas k) ms) token m es" "add_allowed E k ms"
    | m pre where "m \<in> set ms" "es = pre @ [MachineDeleted (m_name m)]" "filter machine_change pre = []"
      "remove_allowed E k ms m"
    unfolding pass_change_def by blast
  then show ?thesis
  proof cases
    case 1
    then show ?thesis using assms(1) by (subst apply_filter) (simp add: apply_effects_def)
  next
    case 2
    then have new: "apply_effects now es ms = ms @ [m]" by (subst apply_filter) (simp add: apply_effects_def)
    obtain infra where m: "m = machine_for k cl (m_name m) (controlPlaneRoleForNewMachine (desired_replicas k) ms) infra"
      using 2(2) by (auto simp: creates_member_def)
    have "m_node m = None" "m_deletion m = None" "m_version m = k_version k"
      by (subst m, simp add: machine_for_def Let_def no_machine_def)+
    then have m_new: "\<not> registered m" "\<not> deleting m" "machineMatchesVersion m (k_version k)"
      using assms(4) by (simp_all add: registered_def deleting_def machineMatchesVersion_def)
    have room: "list_all (\<lambda>m. \<not> deleting m) ms" "int (length ms) < wrap32 (desired_replicas k + max_surge k)"
      "1 < desired_replicas k"
      using 2(3) assms(2) by (simp_all add: add_allowed_def add_room_def)
    then have "all_joined E k ms" using 2(3) ne by (simp add: add_allowed_def)
    then have "in_progress ms = []" using room(1) by (intro no_progress) (auto simp: all_joined_def member_joined_def)
    moreover have "few (ms @ [m])" using room(2) wrap32_range [of "desired_replicas k + max_surge k"] by (simp add: few_def)
    ultimately show ?thesis
      using assms(1) m_new names unfolding new
      by (simp add: settled_def in_progress_def serving_def)
  next
    case 3
    let ?f = "\<lambda>x. if deleting x then x else x\<lparr>m_deletion := Some now\<rparr>" and ?P = "\<lambda>m. registered m \<and> \<not> deleting m"
    have new: "apply_effects now es ms = map (\<lambda>x. if m_name x = m_name m then ?f x else x) ms"
      by (subst apply_filter) (auto simp: 3(2,3) apply_effects_def)
    have room: "list_all (\<lambda>m. \<not> deleting m) ms" "desired_replicas k < int (length ms)"
      "\<forall>m\<in>set ms. machineMatchesVersion m (k_version k) \<longrightarrow> registered m"
      using 3(4) assms(2) by (simp_all add: remove_allowed_def remove_room_def)
    have ok: "?P x" if "x \<in> set ms" for x
      using that room(1,3) assms(1) by (auto simp: settled_def list_all_iff)
    have gone: "\<not> ?P (?f m)" by (simp add: deleting_def)
    have names0: "distinct (map m_name ms)" using assms(1) by (simp add: settled_def)
    note counts = one_marked [where P = ?P and f = ?f and m = m, OF names0 3(1) ok gone]
    have "length (in_progress (apply_effects now es ms)) = 1"
      "length (serving (apply_effects now es ms)) = length ms - 1"
      using counts by (simp_all add: new in_progress_def serving_def)
    moreover have "\<forall>x\<in>set (apply_effects now es ms). registered x"
      using ok unfolding new by (auto simp: registered_def split: if_splits)
    moreover have "few (apply_effects now es ms)" using assms(1) by (simp add: new settled_def few_def)
    moreover have "desired_replicas k \<le> int (length ms - 1)" using room(2) by linarith
    moreover have "1 < desired_replicas k" using assms(1) by (simp add: settled_def)
    ultimately show ?thesis
      using names unfolding settled_def by simp
  qed
qed

lemma settled_step:
  assumes "rollout_step k cl ms ms'" "settled k ms" "k_version k \<noteq> []"
  shows "settled k ms'"
  using assms(1)
proof cases
  case (pass s E r s')
  have "wpa (scale_or_roll E cl ms (desired_replicas k)) (\<lambda>_ s'. pass_ok E cl ms s s') s"
    using assms(2) by (intro scale_ok) (simp_all add: settled_def desired_replicas_def spec_ofD(2) [OF pass(2)])
  from wpa_result [OF pass(3) this] have "pass_change E cl k ms (new_effects s s')"
    by (auto simp: pass_ok_def pass_change_spec [OF pass(2)])
  from pass_settled [OF assms(2) pass(1) this assms(3)] pass(4,5) show ?thesis by simp
next
  case (registers xs m ys n)
  have "length (in_progress ms') \<le> length (in_progress ms)" "length (serving ms) \<le> length (serving ms')"
    by (auto simp: registers in_progress_def serving_def registered_def deleting_def)
  with assms(2) show ?thesis
    by (auto simp: registers settled_def few_def registered_def machineMatchesVersion_def)
next
  case (gone xs m ys)
  then show ?thesis
    using assms(2) by (auto simp: settled_def in_progress_def serving_def few_def split: if_splits)
next
  case order
  then show ?thesis using assms(2) settled_mset by blast
qed

text \<open>
  C2: in a rollout that starts with all desired members serving, one membership change at a
  time is in progress, whatever the order of passes, registrations, and deletions that finish, and
  in every environment: never is a Machine being deleted while another has not registered, never are two
  Machines being deleted, nor two booting; and at least as many members as desired serve
  throughout, provided the version is not edited again on the way.
\<close>

theorem rollout_keeps_desired_members:
  assumes "rollout_run k cl ms0 ms"
    and "1 < desired_replicas k" "k_version k \<noteq> []"
    and "distinct (map m_name ms0)" "list_all (\<lambda>m. registered m \<and> \<not> deleting m) ms0"
    and "desired_replicas k \<le> int (length ms0)" "int (length ms0) \<le> int32_max"
  shows "length (in_progress ms) \<le> 1 \<and> desired_replicas k \<le> int (length (serving ms))"
proof -
  have ok: "filter (\<lambda>m. registered m \<and> \<not> deleting m) ms0 = ms0" "filter (\<lambda>m. \<not> registered m \<or> deleting m) ms0 = []"
    using assms(5) by (auto simp: list_all_iff filter_id_conv filter_empty_conv)
  have "settled k ms0"
    using assms ok by (auto simp: settled_def in_progress_def serving_def few_def list_all_iff)
  with assms(1) have "settled k ms"
    by (induction rule: rtranclp_induct) (auto intro: settled_step [OF _ _ assms(3)])
  then show ?thesis by (simp add: settled_def)
qed

section \<open>Where a rollout stops or overlaps\<close>

text \<open>
  With exactly the desired members and no room to surge (a \<open>maxSurge\<close> of 0, or one so
  large that the \<open>int32\<close> sum wraps around), a rollout makes no progress at all: whatever the
  environment, every pass has no effect and asks to come back.
\<close>

theorem rollout_without_surge_stalls:
  assumes "outdated (s_kcp s) ms \<noteq> []" "desired = desired_replicas (s_kcp s)" "1 < desired"
    and "int (length ms) = desired" "desired \<le> int32_max"
    and "wrap32 (desired + max_surge (s_kcp s)) \<le> desired"
  shows "scale_or_roll E cl ms desired s =
    (Inr (Some joiner_gate_requeue),
     s\<lparr>s_kcp := set_cond machines_up_to_date (cond_false ''RollingOut'' SevInfo) (s_kcp s)\<rparr>)"
proof -
  have few: "few ms" using assms(4,5) by (simp add: few_def)
  have "wrap32 desired = desired" using assms(3,5) by (intro wrap32_id) simp_all
  then show ?thesis
    using assms
    by (simp add: scale_or_roll_def bindA_def get_kcp_def getsA_def Let_def plan_facts [OF few] few_wrap [OF few]
        reconcileRollout_def mark_false_def modA_def ret_def)
qed

end
