(* ===== verification/Reconcile_Examples.thy ===== *)
theory Reconcile_Examples
  imports Machine_Examples Rollout_Runs
begin

text \<open>
  Concrete passes of \<open>reconcileMachines\<close>: the theorems on the pass and on rollouts applied
  where their assumptions hold, and a rollout whose version is edited on the way.
\<close>

definition first_env :: env where
  "first_env = create_env\<lparr>e_machines := (\<lambda>_. Inr [])\<rparr>"

lemma first_lists: "e_machines first_env n = Inr listed \<Longrightarrow> int (length listed) \<le> int32_max"
  by (simp add: first_env_def int32_max_def)

text \<open>A control plane with no Machine yet: the pass creates one, and nothing else changes.\<close>

lemma first_pass_creates:
  "filter machine_change (new_effects (st_of pinned_kcp) (snd (reconcileMachines first_env cluster0 (st_of pinned_kcp)))) \<noteq> []"
  by code_simp

lemma pass_changes_one_machine_witness:
  "\<exists>ms. pass_machines first_env (s_kcp (st_of pinned_kcp)) ms \<and>
     pass_change first_env cluster0 (s_kcp (st_of pinned_kcp)) ms
       (new_effects (st_of pinned_kcp) (snd (reconcileMachines first_env cluster0 (st_of pinned_kcp))))"
proof -
  have "length (filter machine_change (new_effects (st_of pinned_kcp)
      (snd (reconcileMachines first_env cluster0 (st_of pinned_kcp))))) \<le> 1 \<and>
    (filter machine_change (new_effects (st_of pinned_kcp)
      (snd (reconcileMachines first_env cluster0 (st_of pinned_kcp)))) \<noteq> [] \<longrightarrow>
      (\<exists>ms. pass_machines first_env (s_kcp (st_of pinned_kcp)) ms \<and>
        pass_change first_env cluster0 (s_kcp (st_of pinned_kcp)) ms
          (new_effects (st_of pinned_kcp) (snd (reconcileMachines first_env cluster0 (st_of pinned_kcp))))))"
    by (rule pass_changes_one_machine [OF prod.collapse [symmetric]]) (rule first_lists)
  with first_pass_creates show ?thesis by blast
qed

lemma pass_respects_freeze_witness:
  "safe_log (frozen (s_kcp (st_of pinned_kcp)))
     (new_effects (st_of pinned_kcp) (snd (reconcileMachines first_env cluster0 (st_of pinned_kcp))))"
  using pass_respects_freeze [OF prod.collapse [symmetric]] by blast


section \<open>Rollouts\<close>

definition rolling_kcp :: kcp where
  "rolling_kcp = pinned_kcp\<lparr>k_distribution := ''k3s'', k_version := ''v1.31.0'',
     k_status := kstatus0\<lparr>ks_conds := [kubeconfig_ready \<mapsto> cond_true]\<rparr>\<rparr>"

definition old_members :: "machine list" where
  "old_members = [machine0, machine0\<lparr>m_name := ''cp-b'', m_node := Some ''node-b''\<rparr>,
     machine0\<lparr>m_name := ''cp-c'', m_node := Some ''node-c''\<rparr>]"

definition surged :: "machine list" where
  "surged = apply_effects (e_now create_env)
     (new_effects (st_of rolling_kcp) (snd (scale_or_roll create_env cluster0 old_members 3 (st_of rolling_kcp)))) old_members"

lemma surged_names: "length surged = 4 \<and> distinct (map m_name surged)"
  by code_simp

lemma rollout_keeps_desired_members_witness:
  "length (in_progress surged) \<le> 1 \<and> desired_replicas rolling_kcp \<le> int (length (serving surged))"
proof -
  have kcp: "s_kcp (st_of rolling_kcp) = rolling_kcp" by (simp add: st_of_def)
  have desired: "desired_replicas rolling_kcp = 3"
    by (simp add: desired_replicas_def rolling_kcp_def pinned_kcp_def kcp0_def)
  have out: "outdated rolling_kcp old_members \<noteq> []"
    by (simp add: outdated_def old_members_def machineMatchesVersion_def machine0_def rolling_kcp_def)
  have "rollout_step rolling_kcp cluster0 old_members surged"
  proof (rule rollout_step.pass [OF out])
    show "spec_of (s_kcp (st_of rolling_kcp)) = spec_of rolling_kcp" by (simp add: kcp)
    show "scale_or_roll create_env cluster0 old_members (desired_replicas rolling_kcp) (st_of rolling_kcp) =
        (fst (scale_or_roll create_env cluster0 old_members 3 (st_of rolling_kcp)),
         snd (scale_or_roll create_env cluster0 old_members 3 (st_of rolling_kcp)))"
      by (simp add: desired)
    show "surged = apply_effects (e_now create_env) (new_effects (st_of rolling_kcp)
        (snd (scale_or_roll create_env cluster0 old_members 3 (st_of rolling_kcp)))) old_members"
      by (rule surged_def)
    show "distinct (map m_name surged)" using surged_names by blast
  qed
  then have run: "rollout_run rolling_kcp cluster0 old_members surged" by blast
  have version: "k_version rolling_kcp \<noteq> []" by (simp add: rolling_kcp_def)
  have start: "distinct (map m_name old_members)" "list_all (\<lambda>m. registered m \<and> \<not> deleting m) old_members"
    "desired_replicas rolling_kcp \<le> int (length old_members)" "int (length old_members) \<le> int32_max"
    "1 < desired_replicas rolling_kcp"
    by (simp_all add: old_members_def machine0_def registered_def deleting_def no_machine_def desired int32_max_def)
  show ?thesis
    by (rule rollout_keeps_desired_members [OF run start(5) version start(1-4)])
qed

lemma rollout_without_surge_stalls_witness:
  "s_log (snd (scale_or_roll create_env cluster0 old_members 3 (st_of (rolling_kcp\<lparr>k_max_surge := Some 0\<rparr>)))) = []"
proof -
  let ?s = "st_of (rolling_kcp\<lparr>k_max_surge := Some 0\<rparr>)"
  have k: "s_kcp ?s = rolling_kcp\<lparr>k_max_surge := Some 0\<rparr>" by (simp add: st_of_def)
  have "scale_or_roll create_env cluster0 old_members 3 ?s =
    (Inr (Some joiner_gate_requeue),
     ?s\<lparr>s_kcp := set_cond machines_up_to_date (cond_false ''RollingOut'' SevInfo) (s_kcp ?s)\<rparr>)"
    by (rule rollout_without_surge_stalls)
      (simp_all add: k outdated_def old_members_def machineMatchesVersion_def machine0_def rolling_kcp_def
        desired_replicas_def pinned_kcp_def kcp0_def max_surge_def wrap32_def int32_max_def)
  then show ?thesis by (simp add: st_of_def)
qed

text \<open>The version is edited again while the surge Machine of the first edit still boots: it is
  outdated itself then, no Machine is up to date, and the next pass deletes the oldest member
  although a member has not joined yet.\<close>

definition edited_kcp :: kcp where
  "edited_kcp = rolling_kcp\<lparr>k_version := ''v1.32.0''\<rparr>"

definition booting :: machine where
  "booting = machine0\<lparr>m_name := ''cp-d'', m_node := None, m_version := ''v1.31.0'', m_phase := ''Provisioned''\<rparr>"

definition voters :: env where
  "voters = create_env\<lparr>e_status := (\<lambda>_. Inr [(''node-a'', ''r''), (''node-b'', ''r''), (''node-c'', ''r'')]),
     e_unmarshal := (\<lambda>r. Some \<lparr>es_name = r, es_healthy = True, es_voting = True, es_members = 3, es_reported_at = []\<rparr>)\<rparr>"

lemma version_edit_overlaps_changes:
  "\<not> registered booting"
  "case s_log (snd (scale_or_roll voters cluster0 (old_members @ [booting]) 3 (st_of edited_kcp))) of
     [Event Warning _, MachineDeleted n] \<Rightarrow> n = ''cp-a'' | _ \<Rightarrow> False"
  by code_simp+

end
