(* ===== verification/Kubeconfig_Publish.thy ===== *)
theory Kubeconfig_Publish
  imports Pass_Frame Sanitize_Safety
begin

text \<open>
  The kubeconfig publish path: \<open>kubeconfig_publish.go\<close>, and the endpoint of the control plane's
  LoadBalancer Service (\<open>controlPlaneLBEndpoint\<close>, \<open>kairoscontrolplane_controller.go\<close>).

  A node pushes its kubeconfig to a staging Secret the controller owns; what passes the
  sanitizer and matches the pinned CA is published in the contract Secret
  \<open><cluster>-kubeconfig\<close>, which Cluster API reads. What fails in the contract Secret is
  emptied in place. Each operation that changes a Secret in memory returns it.

  Setting owner references (\<open>controllerutil.SetControllerReference\<close>) follows its
  documentation: it fails when another object controls the Secret, and otherwise replaces the
  reference to the same object or adds one. The texts of conditions, events and errors are
  not modelled.
\<close>


section \<open>Owner references\<close>

definition controller_ref :: "owner_ref list \<Rightarrow> owner_ref option" where
  "controller_ref os = find or_controller os"

definition is_controlled_by :: "owner_ref list \<Rightarrow> kcp \<Rightarrow> bool" where
  "is_controlled_by os k = (case controller_ref os of None \<Rightarrow> False | Some r \<Rightarrow> or_uid r = k_uid k)"

definition kcp_ref :: "kcp \<Rightarrow> owner_ref" where
  "kcp_ref k = \<lparr>or_kind = kcp_kind, or_name = k_name k, or_uid = k_uid k, or_controller = True, or_api = kcp_api\<rparr>"

definition same_object :: "owner_ref \<Rightarrow> owner_ref \<Rightarrow> bool" where
  "same_object a b \<longleftrightarrow> or_kind a = or_kind b \<and> or_name a = or_name b \<and>
     takeWhile (\<lambda>c. c \<noteq> CHR ''/'') (or_api a) = takeWhile (\<lambda>c. c \<noteq> CHR ''/'') (or_api b)"

fun upsert_owner :: "owner_ref \<Rightarrow> owner_ref list \<Rightarrow> owner_ref list" where
  "upsert_owner r [] = [r]"
| "upsert_owner r (x # xs) = (if same_object x r then r # xs else x # upsert_owner r xs)"

definition SetControllerReference :: "kcp \<Rightarrow> owner_ref list \<Rightarrow> owner_ref list option" where
  "SetControllerReference k os = (case controller_ref os of
     Some r \<Rightarrow> if same_object r (kcp_ref k) then Some (upsert_owner (kcp_ref k) os) else None
   | None \<Rightarrow> Some (upsert_owner (kcp_ref k) os))"


section \<open>The expected server\<close>

definition isKubevirtControlPlane :: "kcp \<Rightarrow> bool" where
  "isKubevirtControlPlane k \<longleftrightarrow>
     k_infra_kind k = ''KubevirtMachineTemplate'' \<or> k_infra_kind k = ''KubeVirtMachineTemplate''"

definition itoa :: "int \<Rightarrow> string" where
  "itoa i = (if i < 0 then CHR ''-'' # format_dec (nat (- i)) else format_dec (nat i))"

text \<open>\<open>net.JoinHostPort\<close>.\<close>

definition join_host_port :: "string \<Rightarrow> string \<Rightarrow> string" where
  "join_host_port host port =
     (if CHR '':'' \<in> set host then CHR ''['' # host @ '']:'' @ port else host @ CHR '':'' # port)"

definition lb_host :: "lb_service \<Rightarrow> string" where
  "lb_host s =
     (let host = (case lb_ingress s of
            [] \<Rightarrow> []
          | (ip, name) # _ \<Rightarrow> if ip \<noteq> [] then ip else if name \<noteq> [] then name else [])
      in if host = [] then (case lb_external s of [] \<Rightarrow> [] | e # _ \<Rightarrow> e) else host)"

definition lb_port :: "lb_service \<Rightarrow> int" where
  "lb_port s = (case find (\<lambda>p. p \<noteq> 0) (lb_ports s) of None \<Rightarrow> 6443 | Some p \<Rightarrow> p)"

definition controlPlaneLBEndpoint :: "env \<Rightarrow> (string \<times> int) op" where
  "controlPlaneLBEndpoint E = bindA (read_api (e_service E)) (\<lambda>s. ret (lb_host s, lb_port s))"

definition server_url :: "string \<Rightarrow> int \<Rightarrow> string" where
  "server_url host port = ''https://'' @ join_host_port host (itoa port)"

definition resolveExpectedServer :: "env \<Rightarrow> kcp \<Rightarrow> cluster \<Rightarrow> string option op" where
  "resolveExpectedServer E k cl =
     (if isKubevirtControlPlane k
      then bindA (tryA (controlPlaneLBEndpoint E)) (\<lambda>r. case r of
             Inl e \<Rightarrow> if e = Api NotFound then ret None else throw e
           | Inr (host, port) \<Rightarrow>
               if host = [] \<or> port = 0 then ret None else ret (Some (server_url host port)))
      else if c_endpoint_host cl = [] then ret None
      else ret (Some (server_url (c_endpoint_host cl)
             (if c_endpoint_port cl = 0 then 6443 else c_endpoint_port cl))))"


section \<open>Names, sources, the pin\<close>

definition contractKubeconfigSecretName :: "string \<Rightarrow> string" where
  "contractKubeconfigSecretName clusterName = clusterName @ ''-kubeconfig''"

definition stagingKubeconfigSecretName :: "string \<Rightarrow> string" where
  "stagingKubeconfigSecretName clusterName = clusterName @ ''-kubeconfig-push''"

definition ca_pin_ann :: string where
  "ca_pin_ann = ''controlplane.cluster.x-k8s.io/kubeconfig-ca-pin''"

definition ca_repin_ann :: string where
  "ca_repin_ann = ''controlplane.cluster.x-k8s.io/kubeconfig-repin''"

definition source_ann :: string where
  "source_ann = ''controllers.cluster.x-k8s.io/kubeconfig-source''"

definition source_node_push :: string where "source_node_push = ''node-push''"
definition source_adopted :: string where "source_adopted = ''adopted''"
definition source_ssh :: string where "source_ssh = ''ssh-fallback''"

definition effectiveCAPin :: "kcp \<Rightarrow> string" where
  "effectiveCAPin k = ann (k_annotations k) ca_pin_ann"

definition contractSource :: "ksecret \<Rightarrow> string" where
  "contractSource c = ann (sec_annotations c) source_ann"

definition stagingSource :: "ksecret \<Rightarrow> string" where
  "stagingSource s = (let src = ann (sec_annotations s) source_ann in
     if src \<noteq> [] then src else source_node_push)"

definition adoptionSource :: "ksecret \<Rightarrow> string" where
  "adoptionSource c = (if contractSource c = source_ssh then source_ssh else source_adopted)"

definition secret_bytes :: "ksecret \<Rightarrow> string" where
  "secret_bytes c = (case sec_value c of None \<Rightarrow> [] | Some v \<Rightarrow> v)"

definition clusterControlPlaneRefMatches :: "cluster \<Rightarrow> kcp \<Rightarrow> bool" where
  "clusterControlPlaneRefMatches cl k = (case c_ref cl of
     None \<Rightarrow> False
   | Some (apiGroup, kind, name) \<Rightarrow>
       kind = kcp_kind \<and> name = k_name k \<and> (apiGroup = [] \<or> apiGroup = kcp_group))"

definition contractAdoptable :: "ksecret \<Rightarrow> cluster \<Rightarrow> bool" where
  "contractAdoptable c cl \<longleftrightarrow> controller_ref (sec_owners c) = None \<and> c_created cl \<le> sec_created c \<and>
     sec_labels c cluster_name_label = Some (c_name cl)"

text \<open>\<open>r.Patch(ctx, kcp, client.MergeFrom(base))\<close> of annotations: the object in memory has
  them before the request, and takes the server's answer after it, whose status is the one
  stored, not the one this pass has computed.\<close>

definition patch_in_place :: "env \<Rightarrow> (string \<times> string) list \<Rightarrow> string list \<Rightarrow> unit op" where
  "patch_in_place E set_kvs remove =
     bindA (modA (\<lambda>s. s\<lparr>s_kcp := (s_kcp s)\<lparr>k_annotations :=
       del_all (upd_all (k_annotations (s_kcp s)) set_kvs) remove\<rparr>\<rparr>)) (\<lambda>_.
     bindA (mgmt_write E (KcpPatched set_kvs remove)) (\<lambda>_.
     bindA tick (\<lambda>n. modA (\<lambda>s. s\<lparr>s_kcp := (s_kcp s)\<lparr>k_status := e_stored E n\<rparr>\<rparr>))))"

definition consumeRepinAnnotation :: "env \<Rightarrow> unit op" where
  "consumeRepinAnnotation E = bindA get_kcp (\<lambda>k.
     if ann (k_annotations k) ca_repin_ann \<noteq> ''true'' then ret ()
     else patch_in_place E [] [ca_repin_ann, ca_pin_ann])"

definition setCAPinAnnotation :: "env \<Rightarrow> string \<Rightarrow> unit op" where
  "setCAPinAnnotation E pin = patch_in_place E [(ca_pin_ann, pin)] []"


section \<open>The condition\<close>

definition markKubeconfigFalse :: "string \<Rightarrow> unit op" where
  "markKubeconfigFalse reason = mark_false kubeconfig_ready reason SevWarning"

definition sshFallbackOwnsKubeconfigCondition :: "kcp \<Rightarrow> bool" where
  "sshFallbackOwnsKubeconfigCondition k = (case ks_conds (k_status k) kubeconfig_ready of
     None \<Rightarrow> False
   | Some c \<Rightarrow> cd_reason c \<in> {''SSHFallbackDialing'', ''SSHFallbackFailed'', ''SSHFallbackMisconfigured''})"

definition kubeconfigReadyTimeout :: duration where
  "kubeconfigReadyTimeout = minutes 10"

definition set_last_push :: "time option \<Rightarrow> unit op" where
  "set_last_push t = modA (\<lambda>s. s\<lparr>s_kcp := (s_kcp s)\<lparr>k_status := (k_status (s_kcp s))\<lparr>ks_last_push := t\<rparr>\<rparr>\<rparr>)"

definition markWaitingForNodePush :: "env \<Rightarrow> bool op" where
  "markWaitingForNodePush E =
     bindA get_kcp (\<lambda>k0.
     bindA (if ks_last_push (k_status k0) = None then set_last_push (Some (e_now E)) else ret ()) (\<lambda>_.
     bindA get_kcp (\<lambda>k.
     if sshFallbackOwnsKubeconfigCondition k then ret False
     else
       bindA (mark_false kubeconfig_ready ''WaitingForNodePush''
         (case ks_last_push (k_status k) of
            Some t \<Rightarrow> if kubeconfigReadyTimeout < e_now E - t then SevWarning else SevInfo
          | None \<Rightarrow> SevInfo)) (\<lambda>_.
       ret False))))"

definition markKubeconfigReadyOrExpired :: "env \<Rightarrow> ksecret \<Rightarrow> string \<Rightarrow> bool op" where
  "markKubeconfigReadyOrExpired E contract sanitized =
     (case CheckClientCertificateExpiry (e_lib E) sanitized (e_now E) of
        Some Expired \<Rightarrow> bindA (markKubeconfigFalse ''KubeconfigCertificateExpired'') (\<lambda>_. ret False)
      | Some _ \<Rightarrow> bindA (markKubeconfigFalse ''NodePushRejected'') (\<lambda>_. ret False)
      | None \<Rightarrow>
          bindA (set_last_push None) (\<lambda>_.
          bindA (modA (\<lambda>s. s\<lparr>s_kcp := set_cond kubeconfig_ready
            \<lparr>cd_status = True, cd_reason = (if contractSource contract = source_ssh
               then ''KubeconfigReadyViaSSHFallback'' else ''KubeconfigReady''),
             cd_severity = SevNone\<rparr> (s_kcp s)\<rparr>)) (\<lambda>_.
          ret True)))"


section \<open>Writing the contract Secret\<close>

definition without_foreign :: "kcp \<Rightarrow> owner_ref list \<Rightarrow> owner_ref list" where
  "without_foreign k os = (case controller_ref os of
     Some r \<Rightarrow> if or_uid r \<noteq> k_uid k then filter (\<lambda>r. \<not> or_controller r) os else os
   | None \<Rightarrow> os)"

definition secret_type :: string where "secret_type = ''cluster.x-k8s.io/secret''"

definition filled :: "cluster \<Rightarrow> ksecret \<Rightarrow> string \<Rightarrow> string \<Rightarrow> ksecret" where
  "filled cl contract sanitized source = contract\<lparr>
     sec_labels := (sec_labels contract)(cluster_name_label \<mapsto> c_name cl),
     sec_annotations := (if source \<noteq> [] then (sec_annotations contract)(source_ann \<mapsto> source)
       else sec_annotations contract),
     sec_type := secret_type,
     sec_value := Some sanitized\<rparr>"

definition writeContract :: "env \<Rightarrow> cluster \<Rightarrow> ksecret \<Rightarrow> string \<Rightarrow> string \<Rightarrow> bool \<Rightarrow> ksecret op" where
  "writeContract E cl contract sanitized source upd = bindA get_kcp (\<lambda>k.
     if \<not> clusterControlPlaneRefMatches cl k
     then bindA (markKubeconfigFalse ''KubeconfigSecretNotOwned'') (\<lambda>_. ret contract)
     else case SetControllerReference k (without_foreign k (sec_owners contract)) of
       None \<Rightarrow> throw (Failed ''set controller reference on contract kubeconfig secret'')
     | Some owners \<Rightarrow>
         let c = (filled cl contract sanitized source)\<lparr>sec_owners := owners\<rparr>
         in bindA (mgmt_write E (ContractWritten upd c)) (\<lambda>_. ret c))"

definition neutralizeContract :: "env \<Rightarrow> cluster \<Rightarrow> ksecret \<Rightarrow> string \<Rightarrow> ksecret op" where
  "neutralizeContract E cl contract reason = bindA get_kcp (\<lambda>k.
     if \<not> clusterControlPlaneRefMatches cl k
     then bindA (markKubeconfigFalse ''KubeconfigSecretNotOwned'') (\<lambda>_. ret contract)
     else if secret_bytes contract = []
     then bindA (markKubeconfigFalse reason) (\<lambda>_. ret contract)
     else
       let c = contract\<lparr>sec_value := Some []\<rparr>
       in bindA (mgmt_write E (ContractEmptied c)) (\<lambda>_.
          bindA (event E Warning reason) (\<lambda>_.
          bindA (markKubeconfigFalse reason) (\<lambda>_. ret c))))"


text \<open>Both paths to the contract Secret end in this: pin the CA when none is pinned, write, and
  report.\<close>

definition accept_candidate :: "env \<Rightarrow> string \<Rightarrow> string \<Rightarrow> ksecret op \<Rightarrow> string \<Rightarrow> bool op" where
  "accept_candidate E pin candPin write sanitized =
     bindA (if pin = [] then setCAPinAnnotation E candPin else ret ()) (\<lambda>_.
     bindA write (\<lambda>c. markKubeconfigReadyOrExpired E c sanitized))"


section \<open>Publishing from staging\<close>

text \<open>The object a failed Get leaves: everything unset but the name.\<close>

definition empty_secret :: "string \<Rightarrow> ksecret" where
  "empty_secret name = \<lparr>sec_name = name, sec_type = [], sec_created = 0, sec_labels = (\<lambda>_. None),
     sec_annotations = (\<lambda>_. None), sec_owners = [], sec_finalizers = [], sec_immutable = False,
     sec_value = None\<rparr>"

text \<open>The result is \<open>(published, ready)\<close>.\<close>

definition publishFromStaging :: "env \<Rightarrow> cluster \<Rightarrow> ksecret \<Rightarrow> bool \<Rightarrow> string \<Rightarrow> (bool \<times> bool) op" where
  "publishFromStaging E cl contract contractExists server =
     bindA (tryA (read_api (\<lambda>n. e_secret E n (stagingKubeconfigSecretName (c_name cl))))) (\<lambda>r.
     case r of
       Inl e \<Rightarrow> if e = Api NotFound then ret (False, False) else throw e
     | Inr staging \<Rightarrow> bindA get_kcp (\<lambda>k.
         if \<not> is_controlled_by (sec_owners staging) k then ret (False, False)
         else if secret_bytes staging = [] then ret (False, False)
         else case Sanitize (e_lib E) (secret_bytes staging) (c_name cl) server of
           Inl _ \<Rightarrow> bindA (markKubeconfigFalse ''NodePushRejected'') (\<lambda>_. ret (True, False))
         | Inr sanitized \<Rightarrow>
             case caFingerprint (e_lib E) sanitized of
               None \<Rightarrow> throw (Failed ''caFingerprint'')
             | Some candPin \<Rightarrow>
                 let pin = effectiveCAPin k
                 in if pin \<noteq> [] \<and> pin \<noteq> candPin
                    then bindA (markKubeconfigFalse ''NodePushCAMismatch'') (\<lambda>_. ret (True, False))
                    else
                      bindA (accept_candidate E pin candPin
                        (writeContract E cl
                          (if contractExists then contract
                           else contract\<lparr>sec_name := contractKubeconfigSecretName (c_name cl)\<rparr>)
                          sanitized (stagingSource staging) contractExists)
                        sanitized) (\<lambda>ready.
                      ret (True, ready))))"

text \<open>What both callers do after emptying the contract Secret.\<close>

definition recover_from_staging :: "env \<Rightarrow> cluster \<Rightarrow> ksecret \<Rightarrow> string \<Rightarrow> bool op" where
  "recover_from_staging E cl contract server =
     bindA (publishFromStaging E cl contract True server) (\<lambda>(published, ready).
     if published then ret ready else ret False)"


section \<open>The contract Secret that is there\<close>

definition handleContractRejection :: "env \<Rightarrow> cluster \<Rightarrow> ksecret \<Rightarrow> string \<Rightarrow> sanitize_error \<Rightarrow> bool op" where
  "handleContractRejection E cl contract server rejErr =
     (if neutralizesContent rejErr
      then bindA (neutralizeContract E cl contract ''WaitingForNodePush'') (\<lambda>c.
           recover_from_staging E cl c server)
      else bindA (markKubeconfigFalse ''NodePushRejected'') (\<lambda>_. ret False))"

definition reconcileContractKubeconfig :: "env \<Rightarrow> cluster \<Rightarrow> ksecret \<Rightarrow> string \<Rightarrow> bool op" where
  "reconcileContractKubeconfig E cl contract server = bindA get_kcp (\<lambda>k.
     let contractValue = secret_bytes contract;
         ownedByKCP = is_controlled_by (sec_owners contract) k;
         adoptable = (\<not> ownedByKCP \<and> contractAdoptable contract cl)
     in
     if \<not> ownedByKCP \<and> \<not> adoptable then
       (if clusterControlPlaneRefMatches cl k
        then bindA (neutralizeContract E cl contract ''WaitingForNodePush'') (\<lambda>c.
             recover_from_staging E cl c server)
        else bindA (markKubeconfigFalse ''KubeconfigSecretNotOwned'') (\<lambda>_. ret False))
     else case Sanitize (e_lib E) contractValue (c_name cl) server of
       Inl rejErr \<Rightarrow> handleContractRejection E cl contract server rejErr
     | Inr sanitized \<Rightarrow>
         case caFingerprint (e_lib E) sanitized of
           None \<Rightarrow> throw (Failed ''caFingerprint'')
         | Some candPin \<Rightarrow>
             let pin = effectiveCAPin k
             in if pin \<noteq> [] \<and> pin \<noteq> candPin
                then bindA (neutralizeContract E cl contract ''NodePushCAMismatch'') (\<lambda>_. ret False)
                else
                  accept_candidate E pin candPin
                    (if \<not> ownedByKCP
                     then writeContract E cl contract sanitized (adoptionSource contract) True
                     else if contractValue \<noteq> sanitized
                     then writeContract E cl contract sanitized (contractSource contract) True
                     else ret contract)
                    sanitized)"


section \<open>The staging Secret\<close>

definition staging_type_label :: string where
  "staging_type_label = ''controlplane.cluster.x-k8s.io/secret-type''"

definition staging_type_value :: string where "staging_type_value = ''kubeconfig-push''"

definition new_staging :: "kcp \<Rightarrow> cluster \<Rightarrow> ksecret" where
  "new_staging k cl = (empty_secret (stagingKubeconfigSecretName (c_name cl)))\<lparr>
     sec_labels := [cluster_name_label \<mapsto> c_name cl, staging_type_label \<mapsto> staging_type_value],
     sec_type := ''Opaque'', sec_owners := [kcp_ref k]\<rparr>"

text \<open>The repaired Secret.\<close>

definition repaired_staging :: "kcp \<Rightarrow> cluster \<Rightarrow> ksecret \<Rightarrow> ksecret" where
  "repaired_staging k cl s = s\<lparr>
     sec_finalizers := [],
     sec_owners := (if length (sec_owners s) \<noteq> 1 then [kcp_ref k] else sec_owners s),
     sec_labels := (sec_labels s)(cluster_name_label \<mapsto> c_name cl, staging_type_label \<mapsto> staging_type_value)\<rparr>"

definition staging_tampered :: "cluster \<Rightarrow> ksecret \<Rightarrow> bool" where
  "staging_tampered cl s \<longleftrightarrow> sec_finalizers s \<noteq> [] \<or> length (sec_owners s) \<noteq> 1 \<or>
     sec_labels s cluster_name_label \<noteq> Some (c_name cl) \<or>
     sec_labels s staging_type_label \<noteq> Some staging_type_value"

definition ensureStagingKubeconfigSecret :: "env \<Rightarrow> cluster \<Rightarrow> unit op" where
  "ensureStagingKubeconfigSecret E cl = bindA get_kcp (\<lambda>k.
     bindA (tryA (read_api (\<lambda>n. e_secret E n (stagingKubeconfigSecretName (c_name cl))))) (\<lambda>r.
     case r of
       Inl e \<Rightarrow>
         if e = Api NotFound
         then bindA (tryA (mgmt_write E (StagingCreated (new_staging k cl)))) (\<lambda>w. case w of
                Inl e' \<Rightarrow> if e' = Api AlreadyExists then ret () else throw e'
              | Inr _ \<Rightarrow> ret ())
         else throw e
     | Inr s \<Rightarrow>
         if \<not> is_controlled_by (sec_owners s) k then event E Warning ''StagingKubeconfigNotOwned''
         else if sec_immutable s then event E Warning ''StagingKubeconfigImmutable''
         else if staging_tampered cl s then mgmt_write E (StagingRepaired (repaired_staging k cl s))
         else ret ()))"


section \<open>The publish step\<close>

text \<open>\<open>reconcileKubeconfig\<close>, once the server has been resolved.\<close>

definition publish_or_wait :: "env \<Rightarrow> cluster \<Rightarrow> ksecret \<Rightarrow> bool \<Rightarrow> string \<Rightarrow> bool op" where
  "publish_or_wait E cl contract contractExists server =
     bindA (publishFromStaging E cl contract contractExists server) (\<lambda>(published, ready).
     if published then ret ready else markWaitingForNodePush E)"

definition with_server :: "env \<Rightarrow> cluster \<Rightarrow> string option \<Rightarrow> bool op" where
  "with_server E cl expected = (case expected of
       None \<Rightarrow> markWaitingForNodePush E
     | Some server \<Rightarrow>
         bindA (tryA (read_api (\<lambda>n. e_secret E n (contractKubeconfigSecretName (c_name cl))))) (\<lambda>r.
         case r of
           Inr contract \<Rightarrow>
             if secret_bytes contract \<noteq> [] then reconcileContractKubeconfig E cl contract server
             else publish_or_wait E cl contract True server
         | Inl e \<Rightarrow>
             if e \<noteq> Api NotFound then throw e
             else publish_or_wait E cl (empty_secret []) False server))"

definition reconcileKubeconfig :: "env \<Rightarrow> cluster \<Rightarrow> bool op" where
  "reconcileKubeconfig E cl =
     bindA (consumeRepinAnnotation E) (\<lambda>_.
     bindA (tryA (ensureStagingKubeconfigSecret E cl)) (\<lambda>_.
     bindA get_kcp (\<lambda>k.
     bindA (resolveExpectedServer E k cl) (with_server E cl))))"


section \<open>The kubeconfig the controller connects with\<close>

definition controlPlaneForCluster :: "env \<Rightarrow> cluster \<Rightarrow> kcp op" where
  "controlPlaneForCluster E cl = (case c_ref cl of
     None \<Rightarrow> throw (Failed ''cluster does not reference a KairosControlPlane'')
   | Some (apiGroup, kind, name) \<Rightarrow>
       if kind \<noteq> kcp_kind \<or> (apiGroup \<noteq> [] \<and> apiGroup \<noteq> kcp_group)
       then throw (Failed ''cluster does not reference a KairosControlPlane'')
       else read_api (\<lambda>n. e_kcp E n name))"

definition trustedWorkloadKubeconfig :: "env \<Rightarrow> cluster \<Rightarrow> string op" where
  "trustedWorkloadKubeconfig E cl =
     bindA (controlPlaneForCluster E cl) (\<lambda>k.
     bindA (resolveExpectedServer E k cl) (\<lambda>expected. case expected of
       None \<Rightarrow> throw (Failed ''the control-plane endpoint is not known yet'')
     | Some server \<Rightarrow>
         bindA (read_api (\<lambda>n. e_secret E n (contractKubeconfigSecretName (c_name cl)))) (\<lambda>contract.
         if secret_bytes contract = [] then throw (Failed ''no non-empty value key'')
         else case Sanitize (e_lib E) (secret_bytes contract) (c_name cl) server of
           Inl _ \<Rightarrow> throw (Failed ''failed sanitization'')
         | Inr sanitized \<Rightarrow>
             if effectiveCAPin k = [] then throw (Failed ''no CA is pinned yet'')
             else case caFingerprint (e_lib E) sanitized of
               None \<Rightarrow> throw (Failed ''caFingerprint'')
             | Some got \<Rightarrow>
                 if got \<noteq> effectiveCAPin k then throw (Failed ''CA does not match the pin'')
                 else ret sanitized)))"

end
