(* ===== verification/Publish_Safety.thy ===== *)
theory Publish_Safety
  imports Kubeconfig_Publish
begin

text \<open>
  What the publish path writes, when it reports the kubeconfig ready, and which kubeconfig
  the controller connects with.
\<close>


section \<open>Owner references\<close>

lemma upsert_controls:
  assumes "controller_ref os = None \<or> (\<exists>r. controller_ref os = Some r \<and> same_object r q)" "or_controller q"
  shows "controller_ref (upsert_owner q os) = Some q"
  using assms by (induction os) (auto simp: controller_ref_def split: if_splits)

lemma without_foreign_controller:
  "controller_ref (without_foreign k os) = None \<or>
   (\<exists>r. controller_ref (without_foreign k os) = Some r \<and> or_uid r = k_uid k)"
proof (cases "controller_ref os")
  case (Some r)
  have "controller_ref (filter (\<lambda>r. \<not> or_controller r) os) = None"
    by (auto simp: controller_ref_def find_None_iff)
  with Some show ?thesis by (simp add: without_foreign_def)
qed (simp add: without_foreign_def)

lemma controller_set:
  assumes "SetControllerReference k os = Some os'"
  shows "controller_ref os' = Some (kcp_ref k)" "is_controlled_by os' k"
proof -
  show "controller_ref os' = Some (kcp_ref k)"
    using assms upsert_controls [of os "kcp_ref k"]
    by (auto simp: SetControllerReference_def kcp_ref_def split: option.splits if_splits)
  then show "is_controlled_by os' k" by (simp add: is_controlled_by_def kcp_ref_def)
qed


section \<open>What is written\<close>

text \<open>What the contract Secret may hold: output of the sanitizer for the cluster and server,
  whose CA is the pinned one.\<close>

definition canonical :: "env \<Rightarrow> cluster \<Rightarrow> string \<Rightarrow> kcp \<Rightarrow> string \<Rightarrow> bool" where
  "canonical E cl server k out \<longleftrightarrow> s5_output (e_lib E) (c_name cl) server out \<and>
     caFingerprint (e_lib E) out = Some (effectiveCAPin k)"

definition ca_pin_kept :: "kcp \<Rightarrow> kcp \<Rightarrow> bool" where
  "ca_pin_kept k k' \<longleftrightarrow> effectiveCAPin k = [] \<or> effectiveCAPin k' = effectiveCAPin k"

definition writes_canonical :: "env \<Rightarrow> cluster \<Rightarrow> string \<Rightarrow> kcp \<Rightarrow> kcp \<Rightarrow> effect list \<Rightarrow> bool" where
  "writes_canonical E cl server k k' es \<longleftrightarrow> spec_of k' = spec_of k \<and> ca_pin_kept k k' \<and>
     (\<forall>u c. ContractWritten u c \<in> set es \<longrightarrow> clusterControlPlaneRefMatches cl k \<and>
        is_controlled_by (sec_owners c) k \<and> canonical E cl server k' (secret_bytes c))"

definition unexpired :: "env \<Rightarrow> string \<Rightarrow> bool" where
  "unexpired E out \<longleftrightarrow> CheckClientCertificateExpiry (e_lib E) out (e_now E) = None"

lemma spec_of_more [simp]:
  "spec_of (k\<lparr>k_status := x\<rparr>) = spec_of k"
  by (simp add: spec_of_def)

lemma pin_simps [simp]:
  "effectiveCAPin (k\<lparr>k_status := x\<rparr>) = effectiveCAPin k"
  "effectiveCAPin (set_cond t c k) = effectiveCAPin k"
  "effectiveCAPin (k\<lparr>k_annotations := a\<rparr>) = ann a ca_pin_ann"
  by (simp_all add: effectiveCAPin_def)

lemma ann_upd [simp]: "ann (m(x \<mapsto> v)) x = v"
  by (simp add: ann_def)

lemma matches_frame [simp]:
  "clusterControlPlaneRefMatches cl (k\<lparr>k_status := x\<rparr>) = clusterControlPlaneRefMatches cl k"
  "clusterControlPlaneRefMatches cl (k\<lparr>k_annotations := a\<rparr>) = clusterControlPlaneRefMatches cl k"
  "clusterControlPlaneRefMatches cl (set_cond t c k) = clusterControlPlaneRefMatches cl k"
  by (auto simp: clusterControlPlaneRefMatches_def split: option.splits)

lemma controlled_frame [simp]:
  "is_controlled_by os (k\<lparr>k_status := x\<rparr>) = is_controlled_by os k"
  "is_controlled_by os (k\<lparr>k_annotations := a\<rparr>) = is_controlled_by os k"
  "is_controlled_by os (set_cond t c k) = is_controlled_by os k"
  by (auto simp: is_controlled_by_def set_cond_def split: option.splits)

lemma secret_bytes_simps [simp]:
  "secret_bytes (c\<lparr>sec_owners := x\<rparr>) = secret_bytes c"
  "secret_bytes (filled cl c out src) = out"
  "secret_bytes (c\<lparr>sec_value := Some v\<rparr>) = v"
  by (simp_all add: secret_bytes_def filled_def)

lemma mark_ready_trace:
  "traces (\<lambda>k k' r es. es = [] \<and> spec_of k' = spec_of k \<and> effectiveCAPin k' = effectiveCAPin k \<and>
     (\<exists>b. r = Inr b \<and> (b \<longrightarrow> unexpired E out \<and> is_true k' kubeconfig_ready)))
    (markKubeconfigReadyOrExpired E c out)"
  unfolding traces_def markKubeconfigReadyOrExpired_def markKubeconfigFalse_def set_last_push_def
  by (auto simp: wpa_simps unexpired_def split: option.splits rejection.splits)

lemma write_trace:
  "traces (\<lambda>k k' r es. spec_of k' = spec_of k \<and> effectiveCAPin k' = effectiveCAPin k \<and>
     (case r of Inl _ \<Rightarrow> es = []
      | Inr c' \<Rightarrow>
        if clusterControlPlaneRefMatches cl k
        then es = [ContractWritten u c'] \<and> secret_bytes c' = out \<and> is_controlled_by (sec_owners c') k
        else es = [] \<and> c' = c))
    (writeContract E cl c out src u)"
  unfolding traces_def writeContract_def markKubeconfigFalse_def
  by (auto simp: wpa_simps Let_def dest: controller_set split: option.splits)

lemma neutralize_trace:
  "traces (\<lambda>k k' r es. spec_of k' = spec_of k \<and> effectiveCAPin k' = effectiveCAPin k \<and>
     (\<forall>u c'. ContractWritten u c' \<notin> set es) \<and>
     (case r of Inl _ \<Rightarrow> es = []
      | Inr c' \<Rightarrow> if clusterControlPlaneRefMatches cl k
          then secret_bytes c' = [] \<and> (secret_bytes c \<noteq> [] \<longrightarrow> ContractEmptied c' \<in> set es)
          else es = [] \<and> c' = c))
    (neutralizeContract E cl c reason)"
  unfolding traces_def neutralizeContract_def markKubeconfigFalse_def
  by (auto simp: wpa_simps Let_def split: option.splits)

lemma set_pin_trace:
  "traces (\<lambda>k k' r es. spec_of k' = spec_of k \<and> effectiveCAPin k' = pin \<and>
     (\<forall>u c'. ContractWritten u c' \<notin> set es)) (setCAPinAnnotation E pin)"
  unfolding traces_def setCAPinAnnotation_def patch_in_place_def
  by (auto simp: wpa_simps split: option.splits)


text \<open>The part of both paths once a candidate has passed the sanitizer and the pin check:
  pin it when nothing is pinned, write it, report.\<close>

definition accepts :: "env \<Rightarrow> cluster \<Rightarrow> string \<Rightarrow> kcp \<Rightarrow> string \<Rightarrow> string \<Rightarrow> bool" where
  "accepts E cl server k out fp \<longleftrightarrow> s5_output (e_lib E) (c_name cl) server out \<and>
     caFingerprint (e_lib E) out = Some fp \<and> (effectiveCAPin k = [] \<or> effectiveCAPin k = fp)"

lemma uid_spec: "spec_of k' = spec_of k \<Longrightarrow> k_uid k' = k_uid k"
  by (cases k; cases k'; simp add: spec_of_def)

lemma spec_views:
  assumes "spec_of k' = spec_of k"
  shows "clusterControlPlaneRefMatches cl k' = clusterControlPlaneRefMatches cl k"
    and "is_controlled_by os k' = is_controlled_by os k"
proof -
  have name: "k_name k' = k_name k" and uid: "k_uid k' = k_uid k"
    by (rule spec_ofD(1) [OF assms], rule uid_spec [OF assms])
  show "clusterControlPlaneRefMatches cl k' = clusterControlPlaneRefMatches cl k"
    unfolding clusterControlPlaneRefMatches_def name ..
  show "is_controlled_by os k' = is_controlled_by os k"
    unfolding is_controlled_by_def uid ..
qed

lemma maybe_pin_trace:
  "traces (\<lambda>k k' r es. spec_of k' = spec_of k \<and> (\<forall>u c'. ContractWritten u c' \<notin> set es) \<and>
      effectiveCAPin k' = (if pin = [] then fp else effectiveCAPin k))
    (if pin = [] then setCAPinAnnotation E fp else ret ())"
  by (auto intro!: traces_ret intro: traces_mono [OF set_pin_trace])

text \<open>The result of a step that ends in a write and a report: ready only with a canonical,
  unexpired contract in place.\<close>

definition ready_means :: "env \<Rightarrow> cluster \<Rightarrow> string \<Rightarrow> kcp \<Rightarrow> kcp \<Rightarrow> effect list \<Rightarrow> string option \<Rightarrow> bool" where
  "ready_means E cl server k k' es held \<longleftrightarrow> is_true k' kubeconfig_ready \<and>
     (clusterControlPlaneRefMatches cl k \<longrightarrow> (\<exists>out. canonical E cl server k' out \<and> unexpired E out \<and>
        (held = Some out \<or> (\<exists>u c. ContractWritten u c \<in> set es \<and> secret_bytes c = out))))"

text \<open>A write of \<open>out\<close>, or none when \<open>out\<close> is what is held already.\<close>

definition writes_only :: "cluster \<Rightarrow> string \<Rightarrow> string option \<Rightarrow> ksecret trace_pred" where
  "writes_only cl out held k k' r es \<longleftrightarrow> spec_of k' = spec_of k \<and> effectiveCAPin k' = effectiveCAPin k \<and>
     (\<forall>u c. ContractWritten u c \<in> set es \<longrightarrow> clusterControlPlaneRefMatches cl k \<and>
        is_controlled_by (sec_owners c) k \<and> secret_bytes c = out) \<and>
     (\<forall>c. r = Inr c \<longrightarrow> clusterControlPlaneRefMatches cl k \<longrightarrow>
        held = Some out \<or> (\<exists>u c. ContractWritten u c \<in> set es))"

lemma write_only: "traces (writes_only cl out held) (writeContract E cl c out src u)"
  by (rule traces_mono [OF write_trace])
    (auto simp: writes_only_def split: sum.splits if_splits)

lemma no_write_only: "traces (writes_only cl out (Some out)) (ret c)"
  by (rule traces_ret) (simp add: writes_only_def)

lemma accept_trace:
  assumes "traces (writes_only cl out held) w"
  shows "traces (\<lambda>k k' r es. accepts E cl server k out fp \<longrightarrow> pin = effectiveCAPin k \<longrightarrow>
      writes_canonical E cl server k k' es \<and> (r = Inr True \<longrightarrow> ready_means E cl server k k' es held))
    (accept_candidate E pin fp w out)"
proof -
  define P1 :: "ksecret trace_pred" where "P1 \<equiv> writes_only cl out held"
  define P2 :: "bool trace_pred" where "P2 \<equiv> \<lambda>k k' r es. spec_of k' = spec_of k \<and>
    effectiveCAPin k' = effectiveCAPin k \<and>
    (\<forall>u c. ContractWritten u c \<in> set es \<longrightarrow> clusterControlPlaneRefMatches cl k \<and>
        is_controlled_by (sec_owners c) k \<and> secret_bytes c = out) \<and>
    (r = Inr True \<longrightarrow> unexpired E out \<and> is_true k' kubeconfig_ready \<and>
       (clusterControlPlaneRefMatches cl k \<longrightarrow> held = Some out \<or> (\<exists>u c. ContractWritten u c \<in> set es)))"
  have "traces P2 (bindA w (\<lambda>c. markKubeconfigReadyOrExpired E c out))"
    by (rule traces_bind [OF assms mark_ready_trace]) (auto simp: P2_def writes_only_def)
  then show ?thesis
    unfolding accept_candidate_def
    by (rule traces_bind [OF maybe_pin_trace])
      (auto simp: P2_def accepts_def writes_canonical_def ca_pin_kept_def canonical_def ready_means_def
        dest: spec_views)
qed


lemma sanitized_form: "Sanitize L raw n server = Inr out \<Longrightarrow> s5_output L n server out"
  using sanitize_accepted by blast

lemma writes_nothing [simp]:
  "writes_canonical E cl server k k []" "writes_canonical E cl server k (set_cond t c k) []"
  by (simp_all add: writes_canonical_def ca_pin_kept_def)

lemma publish_trace:
  "traces (\<lambda>k k' r es. writes_canonical E cl server k k' es \<and>
     (r = Inr (True, True) \<longrightarrow> ready_means E cl server k k' es held))
    (publishFromStaging E cl contract ex server)"
  unfolding traces_def publishFromStaging_def Let_def markKubeconfigFalse_def
  by (auto simp: wpa_simps accepts_def split: sum.splits option.splits
      intro!: traces_wpa [OF accept_trace [OF write_only]] dest: sanitized_form)

text \<open>A step that ends in whether the kubeconfig is ready, and a step that writes no contract.\<close>

definition publishes :: "env \<Rightarrow> cluster \<Rightarrow> string \<Rightarrow> string option \<Rightarrow> bool trace_pred" where
  "publishes E cl server held k k' r es \<longleftrightarrow> writes_canonical E cl server k k' es \<and>
     (r = Inr True \<longrightarrow> ready_means E cl server k k' es held)"

definition writes_none :: "'a trace_pred" where
  "writes_none k k' r es \<longleftrightarrow> spec_of k' = spec_of k \<and> effectiveCAPin k' = effectiveCAPin k \<and>
     (\<forall>u c. ContractWritten u c \<notin> set es)"

lemma none_then:
  assumes "traces writes_none m" "\<And>x. traces (publishes E cl server held) (f x)"
  shows "traces (publishes E cl server held) (bindA m f)"
proof (rule traces_bind [OF assms])
  show "publishes E cl server held k k' (Inl e) es" if "writes_none k k' (Inl e :: err + 'b) es" for k k' e es
    using that by (simp add: publishes_def writes_none_def writes_canonical_def ca_pin_kept_def)
  show "publishes E cl server held k k'' r (es @ fs)"
    if m: "writes_none k k' (Inr x :: err + 'b) es" and f: "publishes E cl server held k' k'' r fs" for k k' k'' x r es fs
  proof -
    from m have k: "spec_of k' = spec_of k" by (simp add: writes_none_def)
    from m f spec_views [OF k] show ?thesis
      by (auto simp: publishes_def writes_none_def writes_canonical_def ca_pin_kept_def ready_means_def)
  qed
qed

lemma neutralize_none: "traces writes_none (neutralizeContract E cl c reason)"
  by (rule traces_mono [OF neutralize_trace]) (simp add: writes_none_def)

lemma mark_none: "traces writes_none (markKubeconfigFalse reason)"
  unfolding traces_def markKubeconfigFalse_def by (simp add: wpa_simps writes_none_def)

lemma publishes_not_ready: "traces (publishes E cl server held) (ret False)" "traces (publishes E cl server held) (throw e)"
  by (auto intro!: traces_ret traces_throw simp: publishes_def)

lemma recover_trace: "traces (publishes E cl server held) (recover_from_staging E cl contract server)"
  unfolding traces_def recover_from_staging_def publishes_def
  by (auto simp: wpa_simps split: sum.splits intro!: traces_wpa [OF publish_trace])

text \<open>What is known when the object in memory was \<open>k0\<close>.\<close>

definition at_kcp :: "kcp \<Rightarrow> 'a trace_pred \<Rightarrow> 'a trace_pred" where
  "at_kcp k0 P k k' r es \<longleftrightarrow> (k = k0 \<longrightarrow> P k k' r es)"

lemma with_kcp:
  assumes "\<And>k0. traces (at_kcp k0 P) (f k0)"
  shows "traces P (bindA get_kcp f)"
proof -
  have "wpa (f (s_kcp s)) (\<lambda>r s'. \<exists>es. s_log s' = s_log s @ es \<and> P (s_kcp s) (s_kcp s') r es) s" for s
    using assms [of "s_kcp s"] unfolding traces_def at_kcp_def
    by (drule_tac spec [of _ s]) (erule wpa_weaken, blast)
  then show ?thesis by (simp add: traces_def wpa_simps)
qed

lemma any_kcp: "traces P m \<Longrightarrow> traces (at_kcp k0 P) m"
  by (erule traces_mono) (unfold at_kcp_def, blast)

lemma accept_publishes:
  "traces (writes_only cl out held) w \<Longrightarrow> accepts E cl server k0 out fp \<Longrightarrow>
   effectiveCAPin k0 = pin \<Longrightarrow>
   traces (at_kcp k0 (publishes E cl server held)) (accept_candidate E pin fp w out)"
  by (rule traces_mono [OF accept_trace]) (auto simp: publishes_def at_kcp_def)

lemma contract_trace:
  "traces (publishes E cl server (Some (secret_bytes contract))) (reconcileContractKubeconfig E cl contract server)"
proof -
  have marks: "traces (publishes E cl server held) (bindA (markKubeconfigFalse reason) (\<lambda>_. ret False))"
    "traces (publishes E cl server held) (bindA (neutralizeContract E cl c reason) (\<lambda>_. ret False))"
    "traces (publishes E cl server held) (bindA (neutralizeContract E cl c reason)
       (\<lambda>c. recover_from_staging E cl c server))" for reason held c
    by (intro none_then mark_none neutralize_none publishes_not_ready recover_trace)+
  have reject: "traces (publishes E cl server held) (handleContractRejection E cl contract server e)" for e held
    unfolding handleContractRejection_def by (simp add: marks)
  show ?thesis
    unfolding reconcileContractKubeconfig_def Let_def
    by (intro with_kcp) (auto intro!: marks [THEN any_kcp] reject [THEN any_kcp]
        publishes_not_ready [THEN any_kcp] accept_publishes write_only no_write_only dest: sanitized_form simp: accepts_def split: sum.splits option.splits)
qed



section \<open>The publish step\<close>

text \<open>The server the controller resolves itself.\<close>

definition expected_server :: "env \<Rightarrow> kcp \<Rightarrow> cluster \<Rightarrow> string \<Rightarrow> bool" where
  "expected_server E k cl server \<longleftrightarrow>
     (if isKubevirtControlPlane k
      then \<exists>n lb. e_service E n = Inr lb \<and> lb_host lb \<noteq> [] \<and> server = server_url (lb_host lb) (lb_port lb)
      else c_endpoint_host cl \<noteq> [] \<and> server = server_url (c_endpoint_host cl)
        (if c_endpoint_port cl = 0 then 6443 else c_endpoint_port cl))"

lemma resolve_trace:
  "traces (\<lambda>k k' r es. k' = k \<and> es = [] \<and> (\<forall>server. r = Inr (Some server) \<longrightarrow> expected_server E k0 cl server))
    (resolveExpectedServer E k0 cl)"
  unfolding traces_def resolveExpectedServer_def controlPlaneLBEndpoint_def
  by (auto simp: wpa_simps expected_server_def split: sum.splits)

lemma waiting_trace:
  "traces (\<lambda>k k' r es. es = [] \<and> spec_of k' = spec_of k \<and> effectiveCAPin k' = effectiveCAPin k \<and> r = Inr False)
    (markWaitingForNodePush E)"
  unfolding traces_def markWaitingForNodePush_def set_last_push_def
  by (auto simp: wpa_simps split: option.splits)

lemma staging_trace: "traces writes_none (ensureStagingKubeconfigSecret E cl)"
  unfolding traces_def ensureStagingKubeconfigSecret_def
  by (auto simp: wpa_simps writes_none_def split: sum.splits option.splits)

lemma consume_trace:
  "traces (\<lambda>k k' r es. spec_of k' = spec_of k \<and> (\<forall>u c. ContractWritten u c \<notin> set es) \<and>
     (ann (k_annotations k) ca_repin_ann \<noteq> ''true'' \<longrightarrow> effectiveCAPin k' = effectiveCAPin k)) (consumeRepinAnnotation E)"
  unfolding traces_def consumeRepinAnnotation_def patch_in_place_def
  by (auto simp: wpa_simps split: option.splits)

definition contract_held :: "env \<Rightarrow> cluster \<Rightarrow> string \<Rightarrow> bool" where
  "contract_held E cl out \<longleftrightarrow>
     (\<exists>n c. e_secret E n (contractKubeconfigSecretName (c_name cl)) = Inr c \<and> secret_bytes c = out)"

definition published :: "env \<Rightarrow> cluster \<Rightarrow> bool trace_pred" where
  "published E cl k k' r es \<longleftrightarrow> spec_of k' = spec_of k \<and>
     (\<forall>u c. ContractWritten u c \<in> set es \<longrightarrow> clusterControlPlaneRefMatches cl k \<and>
        is_controlled_by (sec_owners c) k \<and>
        (\<exists>server. expected_server E k cl server \<and> canonical E cl server k' (secret_bytes c))) \<and>
     (r = Inr True \<longrightarrow> is_true k' kubeconfig_ready \<and>
        (clusterControlPlaneRefMatches cl k \<longrightarrow> (\<exists>server out. expected_server E k cl server \<and>
           canonical E cl server k' out \<and> unexpired E out \<and>
           (contract_held E cl out \<or> (\<exists>u c. ContractWritten u c \<in> set es \<and> secret_bytes c = out)))))"

lemma publishes_published:
  assumes "publishes E cl server held k k' r es" "expected_server E k cl server"
    and "\<And>out. held = Some out \<Longrightarrow> contract_held E cl out"
  shows "published E cl k k' r es \<and> ca_pin_kept k k'"
  using assms unfolding publishes_def published_def writes_canonical_def ready_means_def by blast

lemma infra_spec: "spec_of k' = spec_of k \<Longrightarrow> k_infra_kind k' = k_infra_kind k"
  by (cases k; cases k'; simp add: spec_of_def)

lemma expected_spec:
  assumes "spec_of k' = spec_of k"
  shows "expected_server E k' cl server = expected_server E k cl server"
proof -
  have "k_infra_kind k' = k_infra_kind k" by (rule infra_spec [OF assms])
  then show ?thesis unfolding expected_server_def isKubevirtControlPlane_def by simp
qed

lemma canonical_then:
  assumes "writes_canonical E cl server k k1 es" "spec_of k2 = spec_of k1" "effectiveCAPin k2 = effectiveCAPin k1"
  shows "writes_canonical E cl server k k2 es"
  using assms by (simp add: writes_canonical_def ca_pin_kept_def canonical_def)

lemma publish_or_wait_trace: "traces (publishes E cl server None) (publish_or_wait E cl c ex server)"
  unfolding traces_def publish_or_wait_def
  by (auto simp: wpa_simps publishes_def split: sum.splits
      intro!: traces_wpa [OF publish_trace [where held = None]] traces_wpa [OF waiting_trace]
      intro: canonical_then)

lemma wait_published:
  "traces (\<lambda>k k' r es. published E cl k k' r es \<and> ca_pin_kept k k') (markWaitingForNodePush E)"
  by (rule traces_mono [OF waiting_trace]) (auto simp: published_def ca_pin_kept_def)

lemma with_server_trace:
  assumes "\<And>server. expected = Some server \<Longrightarrow> expected_server E k0 cl server"
  shows "traces (\<lambda>k k' r es. spec_of k = spec_of k0 \<longrightarrow> published E cl k k' r es \<and> ca_pin_kept k k')
    (with_server E cl expected)"
proof (cases expected)
  case None
  then show ?thesis
    by (simp add: with_server_def) (rule traces_mono [OF wait_published], blast)
next
  case (Some server)
  have lift: "traces (\<lambda>k k' r es. spec_of k = spec_of k0 \<longrightarrow> published E cl k k' r es \<and> ca_pin_kept k k') m"
    if "traces (publishes E cl server held) m" "\<And>out. held = Some out \<Longrightarrow> contract_held E cl out" for m held
    using that(1)
  proof (rule traces_mono, intro impI)
    fix k k' r es assume p: "publishes E cl server held k k' r es" and k: "spec_of k = spec_of k0"
    from expected_spec [OF k] assms [OF Some] have "expected_server E k cl server" by simp
    from publishes_published [OF p this that(2)] show "published E cl k k' r es \<and> ca_pin_kept k k'" .
  qed
  have held: "contract_held E cl (secret_bytes c)"
    if "e_secret E n (contractKubeconfigSecretName (c_name cl)) = Inr c" for n c
    using that by (auto simp: contract_held_def)
  have none: "published E cl k k (Inl e) [] \<and> ca_pin_kept k k" for k e
    by (simp add: published_def ca_pin_kept_def)
  show ?thesis
    unfolding with_server_def traces_def
    using Some
    by (auto simp: wpa_simps none split: sum.splits dest: held
      intro!: traces_wpa [OF lift [OF contract_trace]] traces_wpa [OF lift [OF publish_or_wait_trace]])
qed

lemma known_server_trace:
  "traces (\<lambda>k k' r es. published E cl k k' r es \<and> ca_pin_kept k k')
    (bindA get_kcp (\<lambda>k. bindA (resolveExpectedServer E k cl) (with_server E cl)))"
proof (rule with_kcp)
  fix k0
  show "traces (at_kcp k0 (\<lambda>k k' r es. published E cl k k' r es \<and> ca_pin_kept k k'))
      (bindA (resolveExpectedServer E k0 cl) (with_server E cl))"
  proof (rule traces_bind_given [OF resolve_trace with_server_trace])
  qed (auto simp: at_kcp_def published_def ca_pin_kept_def)
qed

lemma published_after:
  assumes "spec_of k1 = spec_of k" "\<forall>u c. ContractWritten u c \<notin> set es" "published E cl k1 k' r fs"
  shows "published E cl k k' r (es @ fs)"
  using assms(2,3) spec_views [OF assms(1)] expected_spec [OF assms(1)] assms(1)
  by (auto simp: published_def)

lemma reconcile_kubeconfig_trace:
  "traces (\<lambda>k k' r es. published E cl k k' r es \<and>
     (ann (k_annotations k) ca_repin_ann \<noteq> ''true'' \<longrightarrow> ca_pin_kept k k')) (reconcileKubeconfig E cl)"
proof -
  define T :: "bool trace_pred" where "T \<equiv> \<lambda>k k' r es. published E cl k k' r es \<and> ca_pin_kept k k'"
  have none: "published E cl k k' (Inl e) es"
    if "spec_of k' = spec_of k" "\<forall>u c. ContractWritten u c \<notin> set es" for k k' e es
    using that by (simp add: published_def)
  have tail: "traces T (bindA (tryA (ensureStagingKubeconfigSecret E cl)) (\<lambda>_.
      bindA get_kcp (\<lambda>k. bindA (resolveExpectedServer E k cl) (with_server E cl))))"
  proof (rule traces_bind [where P = writes_none, OF traces_try known_server_trace])
    show "traces (\<lambda>k k' r. writes_none k k' (Inr r :: err + (err + unit))) (ensureStagingKubeconfigSecret E cl)"
      by (rule traces_mono [OF staging_trace]) (simp add: writes_none_def)
  qed (auto simp: T_def writes_none_def ca_pin_kept_def intro: none published_after)
  show ?thesis
    unfolding reconcileKubeconfig_def
    by (rule traces_bind [OF consume_trace tail])
      (auto simp: T_def ca_pin_kept_def intro: none published_after)
qed


section \<open>The properties\<close>

text \<open>
  C31: whatever a node pushed, and whatever was in the contract Secret, what the publish path
  writes there is sanitizer output for this cluster with the server the controller resolved
  itself and a CA whose fingerprint is the pinned one; it is written only when the Cluster
  names this control plane, and the control plane is then the Secret's controller.
\<close>

theorem contract_holds_canonical:
  assumes "reconcileKubeconfig E cl s = (r, s')" "ContractWritten u c \<in> set (new_effects s s')"
  shows "clusterControlPlaneRefMatches cl (s_kcp s) \<and> is_controlled_by (sec_owners c) (s_kcp s) \<and>
    (\<exists>server. expected_server E (s_kcp s) cl server \<and> canonical E cl server (s_kcp s') (secret_bytes c))"
  using tracesD [OF reconcile_kubeconfig_trace assms(1)] assms(2) by (simp add: published_def)

text \<open>
  C32: the kubeconfig is reported ready only with a contract Secret, written now or found,
  that is sanitizer output for the resolved server with the pinned CA and a client certificate
  within its validity, provided the Cluster names this control plane.
\<close>

theorem ready_kubeconfig_usable:
  assumes "reconcileKubeconfig E cl s = (Inr True, s')" "clusterControlPlaneRefMatches cl (s_kcp s)"
  shows "is_true (s_kcp s') kubeconfig_ready \<and> (\<exists>server out. expected_server E (s_kcp s) cl server \<and>
    canonical E cl server (s_kcp s') out \<and> unexpired E out \<and>
    (contract_held E cl out \<or> (\<exists>u c. ContractWritten u c \<in> set (new_effects s s') \<and> secret_bytes c = out)))"
  using tracesD [OF reconcile_kubeconfig_trace assms(1)] assms(2) by (simp add: published_def)

text \<open>
  A pinned CA stays pinned, whatever the nodes push, unless the operator asks for a
  re-pin.
\<close>

theorem ca_pin_stays:
  assumes "reconcileKubeconfig E cl s = (r, s')" "effectiveCAPin (s_kcp s) \<noteq> []"
    and "ann (k_annotations (s_kcp s)) ca_repin_ann \<noteq> ''true''"
  shows "effectiveCAPin (s_kcp s') = effectiveCAPin (s_kcp s)"
  using tracesD [OF reconcile_kubeconfig_trace assms(1)] assms(2,3) by (simp add: ca_pin_kept_def)

lemma emptied_trace:
  assumes "secret_bytes c \<noteq> []"
  shows "traces (\<lambda>k k' r es. clusterControlPlaneRefMatches cl k \<longrightarrow> (\<forall>b. r = Inr b \<longrightarrow>
      (\<exists>c'. ContractEmptied c' \<in> set es \<and> secret_bytes c' = [])))
    (bindA (neutralizeContract E cl c reason) (\<lambda>c. recover_from_staging E cl c server))"
  by (rule traces_bind [OF neutralize_trace recover_trace]) (use assms in auto)

text \<open>
  Content the sanitizer finds unsafe, oversized or unreadable does not stay in a contract
  Secret of this control plane: the pass empties it, unless a request fails. Every other
  rejection leaves the Secret as it is and writes nothing.
\<close>

theorem rejected_contract_handled:
  assumes "reconcileContractKubeconfig E cl contract server s = (Inr b, s')"
    and "clusterControlPlaneRefMatches cl (s_kcp s)" "secret_bytes contract \<noteq> []"
    and "Sanitize (e_lib E) (secret_bytes contract) (c_name cl) server = Inl e"
  shows "if neutralizesContent e \<or> \<not> (is_controlled_by (sec_owners contract) (s_kcp s) \<or> contractAdoptable contract cl)
    then \<exists>c. ContractEmptied c \<in> set (new_effects s s') \<and> secret_bytes c = []
    else new_effects s s' = [] \<and> \<not> b"
proof -
  let ?owned = "is_controlled_by (sec_owners contract) (s_kcp s) \<or> contractAdoptable contract cl"
  show ?thesis
  proof (cases "neutralizesContent e \<or> \<not> ?owned")
    case True
    obtain reason where "bindA (neutralizeContract E cl contract reason) (\<lambda>c. recover_from_staging E cl c server) s = (Inr b, s')"
      using assms(1,2,4) True
      by (auto simp: reconcileContractKubeconfig_def handleContractRejection_def bindA_def get_kcp_def
          getsA_def Let_def split: if_splits)
    from tracesD [OF emptied_trace [OF assms(3)] this] assms(2) True show ?thesis by simp
  next
    case False
    then have "s' = snd (markKubeconfigFalse ''NodePushRejected'' s)" "\<not> b"
      using assms(1,4)
      by (auto simp: reconcileContractKubeconfig_def handleContractRejection_def bindA_def get_kcp_def
          getsA_def Let_def markKubeconfigFalse_def mark_false_def modA_def ret_def split: if_splits)
    with False show ?thesis by (simp add: markKubeconfigFalse_def mark_false_def modA_def)
  qed
qed


end
