(* ===== verification/Publish_Examples.thy ===== *)
theory Publish_Examples
  imports Worked_Examples Publish_Safety
begin

text \<open>
  Concrete passes of the publish path: the theorems of \<open>Publish_Safety\<close> applied where their
  assumptions hold, and three behaviours the source does not mean to have.
\<close>

definition legacy_contract :: ksecret where
  "legacy_contract = (empty_secret ''c-kubeconfig'')\<lparr>
     sec_labels := [cluster_name_label \<mapsto> ''c''], sec_value := Some toy_raw\<rparr>"

definition canonical_text :: string where
  "canonical_text = ''c|https://10.0.0.100:6443|<C1><L2>|||t0ken''"

definition legacy_env :: env where
  "legacy_env = env0\<lparr>e_secret := (\<lambda>_ name.
     if name = ''c-kubeconfig'' then Inr legacy_contract else Inl NotFound)\<rparr>"

definition pinned_ca_kcp :: kcp where
  "pinned_ca_kcp = kcp0\<lparr>k_annotations := [ca_pin_ann \<mapsto> ''C1L2'']\<rparr>"

definition writes_text :: "string \<Rightarrow> effect \<Rightarrow> bool" where
  "writes_text t e = (case e of ContractWritten u c \<Rightarrow> secret_bytes c = t | _ \<Rightarrow> False)"

definition ok_true :: "err + bool \<Rightarrow> bool" where
  "ok_true r = (case r of Inr b \<Rightarrow> b | Inl _ \<Rightarrow> False)"

lemma ok_trueD: "ok_true r \<Longrightarrow> r = Inr True"
  by (auto simp: ok_true_def split: sum.splits)

text \<open>The parts the passes below evaluate.\<close>

definition server0 :: string where "server0 = ''https://10.0.0.100:6443''"

lemma server0: "server_url ''10.0.0.100'' 6443 = server0"
proof -
  have "hex_char 6 = CHR ''6''" "hex_char 4 = CHR ''4''" "hex_char 3 = CHR ''3''" by code_simp+
  then show ?thesis
    by (simp add: server_url_def join_host_port_def itoa_def format_dec_def server0_def format_base.simps)
qed

lemma toy_sanitized:
  "Sanitize toy_lib toy_raw ''c'' server0 = Inr canonical_text"
  by code_simp

lemma toy_sanitized2:
  "Sanitize toy_lib canonical_text ''c'' server0 = Inr canonical_text"
  by code_simp

lemma toy_fingerprint: "caFingerprint toy_lib canonical_text = Some ''C1L2''"
  by code_simp

lemma toy_unexpired: "CheckClientCertificateExpiry toy_lib canonical_text now0 = None"
  by code_simp

lemmas step_defs = bindA_def tryA_def ret_def throw_def getsA_def modA_def get_kcp_def read_api_def
  tick_def mgmt_write_def log_effect_def event_def mark_false_def mark_true_def

lemma resolved: "resolveExpectedServer E kcp0 cluster0 s = (Inr (Some server0), s)"
  by (simp add: resolveExpectedServer_def isKubevirtControlPlane_def kcp0_def cluster0_def server0 ret_def)

definition lonely_cluster :: cluster where
  "lonely_cluster = cluster0\<lparr>c_ref := None\<rparr>"

lemma contract_of_legacy [simp]:
  "secret_bytes legacy_contract = toy_raw" "sec_owners legacy_contract = []"
  "sec_labels legacy_contract = [cluster_name_label \<mapsto> ''c'']" "sec_created legacy_contract = 0"
  by (simp_all add: legacy_contract_def empty_secret_def secret_bytes_def)

lemma env_views [simp]:
  "e_lib legacy_env = toy_lib" "e_now legacy_env = now0" "e_write legacy_env n = None"
  "e_stored legacy_env n = kstatus0" "e_recorder legacy_env"
  by (simp_all add: legacy_env_def env0_def)

lemma toy_raw_there [simp]: "toy_raw \<noteq> []" "canonical_text \<noteq> []"
  by (simp_all add: toy_raw_def canonical_text_def)

lemmas pass_defs = step_defs Let_def accept_candidate_def writeContract_def
  markKubeconfigReadyOrExpired_def set_last_push_def toy_sanitized toy_fingerprint toy_unexpired
  is_controlled_by_def controller_ref_def contractAdoptable_def
  effectiveCAPin_def ann_def st_of_def clusterControlPlaneRefMatches_def kcp_kind_def kcp_group_def
  SetControllerReference_def without_foreign_def neutralizeContract_def handleContractRejection_def
  recover_from_staging_def publishFromStaging_def markKubeconfigFalse_def

lemma cluster_views [simp]:
  "c_name cluster0 = ''c''" "c_created cluster0 = 0"
  "c_ref cluster0 = Some (''controlplane.cluster.x-k8s.io'', ''KairosControlPlane'', ''cp'')"
  "c_name lonely_cluster = ''c''" "c_created lonely_cluster = 0" "c_ref lonely_cluster = None"
  by (simp_all add: cluster0_def lonely_cluster_def)

lemma kcp_views [simp]:
  "k_name pinned_ca_kcp = ''cp''" "k_annotations pinned_ca_kcp = [ca_pin_ann \<mapsto> ''C1L2'']"
  "k_infra_kind pinned_ca_kcp = ''VSphereMachineTemplate''"
  by (simp_all add: pinned_ca_kcp_def kcp0_def)

lemma names_of_c [simp]:
  "contractKubeconfigSecretName ''c'' = ''c-kubeconfig''" "stagingKubeconfigSecretName ''c'' = ''c-kubeconfig-push''"
  by (simp_all add: contractKubeconfigSecretName_def stagingKubeconfigSecretName_def)

lemma secrets_of_env [simp]:
  "e_secret legacy_env n ''c-kubeconfig'' = Inr legacy_contract"
  "e_secret legacy_env n ''c-kubeconfig-push'' = Inl NotFound"
  by (simp_all add: legacy_env_def)

text \<open>Adoption of a Secret a node wrote: it passes the sanitizer, its CA is the pinned one, and
  it is written in canonical form.\<close>

lemma legacy_run:
  "\<exists>s' c d. reconcileKubeconfig legacy_env cluster0 (st_of pinned_ca_kcp) = (Inr True, s') \<and>
     s_log s' = [StagingCreated d, ContractWritten True c]"
  by (simp add: pass_defs reconcileKubeconfig_def consumeRepinAnnotation_def ca_repin_ann_def ca_pin_ann_def
      ensureStagingKubeconfigSecret_def resolveExpectedServer_def isKubevirtControlPlane_def with_server_def
      reconcileContractKubeconfig_def cluster0_def server0)

lemma legacy_ref: "clusterControlPlaneRefMatches cluster0 (s_kcp (st_of pinned_ca_kcp))"
  by (simp add: st_of_def clusterControlPlaneRefMatches_def kcp_kind_def kcp_group_def)

lemma contract_holds_canonical_witness:
  "\<exists>c s' server. reconcileKubeconfig legacy_env cluster0 (st_of pinned_ca_kcp) = (Inr True, s') \<and>
     ContractWritten True c \<in> set (s_log s') \<and> canonical legacy_env cluster0 server (s_kcp s') (secret_bytes c)"
proof -
  obtain s' c d where run: "reconcileKubeconfig legacy_env cluster0 (st_of pinned_ca_kcp) = (Inr True, s')"
    and log: "s_log s' = [StagingCreated d, ContractWritten True c]"
    using legacy_run by blast
  have "ContractWritten True c \<in> set (new_effects (st_of pinned_ca_kcp) s')"
    by (simp add: log st_of_def)
  from contract_holds_canonical [OF run this] run log show ?thesis by auto
qed

lemma ready_kubeconfig_usable_witness:
  "\<exists>s'. reconcileKubeconfig legacy_env cluster0 (st_of pinned_ca_kcp) = (Inr True, s') \<and>
     is_true (s_kcp s') kubeconfig_ready"
proof -
  obtain s' where run: "reconcileKubeconfig legacy_env cluster0 (st_of pinned_ca_kcp) = (Inr True, s')"
    using legacy_run by blast
  from ready_kubeconfig_usable [OF run legacy_ref] run show ?thesis by blast
qed

lemma ca_pin_stays_witness:
  "effectiveCAPin (s_kcp (snd (reconcileKubeconfig legacy_env cluster0 (st_of pinned_ca_kcp)))) = ''C1L2''"
  using ca_pin_stays [OF prod.collapse [symmetric], where E = legacy_env and cl = cluster0 and s = "st_of pinned_ca_kcp"]
  by (simp add: st_of_def effectiveCAPin_def ann_def ca_repin_ann_def ca_pin_ann_def)

text \<open>A Secret whose content does not decode is emptied.\<close>

definition garbage :: ksecret where
  "garbage = legacy_contract\<lparr>sec_value := Some ''garbage''\<rparr>"

lemma garbage_views [simp]:
  "secret_bytes garbage = ''garbage''" "sec_owners garbage = []"
  "sec_labels garbage = [cluster_name_label \<mapsto> ''c'']" "sec_created garbage = 0"
  by (simp_all add: garbage_def secret_bytes_def)

lemma garbage_rejected: "Sanitize toy_lib ''garbage'' ''c'' server0 = Inl (Rejected Unparseable)"
  by code_simp

lemma rejected_contract_handled_witness:
  "\<exists>s' c. reconcileContractKubeconfig legacy_env cluster0 garbage server0 (st_of pinned_ca_kcp) = (Inr False, s') \<and>
     ContractEmptied c \<in> set (s_log s') \<and> secret_bytes c = []"
proof -
  obtain s' where run: "reconcileContractKubeconfig legacy_env cluster0 garbage server0 (st_of pinned_ca_kcp) = (Inr False, s')"
    by (simp add: pass_defs reconcileContractKubeconfig_def garbage_rejected)
  from rejected_contract_handled [OF run legacy_ref, of "Rejected Unparseable"] run garbage_rejected
  show ?thesis by (auto simp: st_of_def)
qed

definition trust_env :: env where
  "trust_env = legacy_env\<lparr>e_kcp := (\<lambda>_ _. Inr pinned_ca_kcp)\<rparr>"

lemma trust_views [simp]:
  "e_lib trust_env = toy_lib" "e_kcp trust_env n name = Inr pinned_ca_kcp"
  "e_secret trust_env n ''c-kubeconfig'' = Inr legacy_contract"
  by (simp_all add: trust_env_def)



section \<open>Unintended behaviour\<close>

text \<open>A refused write is reported as ready: with a Cluster that does not name the control plane,
  \<open>writeContract\<close> marks the condition false and returns no error, and its caller goes on to
  mark it true. Nothing has been written; the Secret still holds what the node put there.\<close>

lemma refused_write_reports_ready:
  "\<exists>s'. reconcileContractKubeconfig legacy_env lonely_cluster legacy_contract server0 (st_of pinned_ca_kcp) = (Inr True, s') \<and>
     s_log s' = [] \<and> is_true (s_kcp s') kubeconfig_ready \<and> secret_bytes legacy_contract \<noteq> canonical_text"
  by (simp add: pass_defs reconcileContractKubeconfig_def ca_pin_ann_def is_true_def set_cond_def)
    (simp add: toy_raw_def canonical_text_def)

text \<open>An exec plugin stays: a user entry without credentials whose name comes first hides it, so
  the content is taken for merely misshapen and left in place.\<close>

definition exec_contract :: ksecret where
  "exec_contract = legacy_contract\<lparr>sec_value := Some ''masked''\<rparr>"

lemma masked_exec_stays:
  "\<exists>s'. reconcileContractKubeconfig legacy_env cluster0 exec_contract server0 (st_of pinned_ca_kcp) = (Inr False, s') \<and>
     s_log s' = []"
proof -
  have "Sanitize toy_lib ''masked'' ''c'' server0 = Inl (Rejected Credentials)" by code_simp
  then show ?thesis
    by (simp add: pass_defs reconcileContractKubeconfig_def exec_contract_def secret_bytes_def)
qed

text \<open>Pinning the CA replaces the status this pass has computed by the stored one.\<close>

lemma first_pin_drops_status:
  "setCAPinAnnotation E pin s = (Inr (), s') \<Longrightarrow> \<exists>n. k_status (s_kcp s') = e_stored E n"
  by (auto simp: setCAPinAnnotation_def patch_in_place_def step_defs split: option.splits)

end
