(* ===== verification/Teardown.thy ===== *)
theory Teardown
  imports Reconcile_Machines
begin

text \<open>
  Deleting a whole control plane: \<open>cleanup.go\<close> and \<open>reconcileDelete\<close>
  (\<open>kairoscontrolplane_controller.go\<close>).

  The etcd-leave hooks come off first, since nothing drives the handshake any more; then the
  Machines are deleted, and the finalizer stays until none is left. \<open>e_cluster_machines\<close>
  answers the List of the Machines with a cluster's label. The result of \<open>reconcileDelete\<close> is
  when to come back, whether the deferred patch is skipped, and the error.
\<close>


section \<open>The functions\<close>

definition ownedByKCP :: "machine \<Rightarrow> string \<Rightarrow> bool" where
  "ownedByKCP m uid \<longleftrightarrow> list_ex (\<lambda>r. or_controller r \<and> or_kind r = kcp_kind \<and> or_uid r = uid) (m_owners m)"

text \<open>The cluster name of the KairosControlPlane's label, when there is one.\<close>

definition cluster_label :: "kcp \<Rightarrow> string option" where
  "cluster_label k = (case k_labels k cluster_name_label of
     None \<Rightarrow> None
   | Some n \<Rightarrow> if n = [] then None else Some n)"

fun drain_loop :: "env \<Rightarrow> string \<Rightarrow> machine list \<Rightarrow> nat \<Rightarrow> nat op" where
  "drain_loop E uid [] remaining = ret remaining"
| "drain_loop E uid (m # ms) remaining =
     (if \<not> ownedByKCP m uid then drain_loop E uid ms remaining
      else if deleting m then drain_loop E uid ms (Suc remaining)
      else bindA (tryA (mgmt_write E (MachineDeleted (m_name m)))) (\<lambda>r. case r of
          Inl e \<Rightarrow> if e = Api NotFound then drain_loop E uid ms remaining else throw e
        | Inr _ \<Rightarrow> drain_loop E uid ms (Suc remaining)))"

definition drainOwnedMachines :: "env \<Rightarrow> nat op" where
  "drainOwnedMachines E = bindA get_kcp (\<lambda>k. case cluster_label k of
     None \<Rightarrow> ret 0
   | Some cn \<Rightarrow>
       bindA (read_api (\<lambda>n. e_cluster_machines E n cn)) (\<lambda>ms. drain_loop E (k_uid k) ms 0))"

fun strip_loop :: "env \<Rightarrow> string \<Rightarrow> machine list \<Rightarrow> unit op" where
  "strip_loop E uid [] = ret ()"
| "strip_loop E uid (m # ms) =
     (if \<not> ownedByKCP m uid then strip_loop E uid ms
      else if \<not> hasEtcdLeaveHook m then strip_loop E uid ms
      else bindA (tryA (mgmt_write E (HookRemoved (m_name m)))) (\<lambda>r. case r of
          Inl e \<Rightarrow> if e = Api NotFound then strip_loop E uid ms else throw e
        | Inr _ \<Rightarrow> strip_loop E uid ms))"

definition stripEtcdLeaveHooks :: "env \<Rightarrow> unit op" where
  "stripEtcdLeaveHooks E = bindA get_kcp (\<lambda>k. case cluster_label k of
     None \<Rightarrow> ret ()
   | Some cn \<Rightarrow>
       bindA (read_api (\<lambda>n. e_cluster_machines E n cn)) (\<lambda>ms. strip_loop E (k_uid k) ms))"

definition delete_requeue :: duration where "delete_requeue = seconds 10"

type_synonym delete_result = "duration option \<times> bool \<times> err option"

definition reconcileDelete :: "env \<Rightarrow> delete_result op" where
  "reconcileDelete E =
     bindA (tryA (stripEtcdLeaveHooks E)) (\<lambda>r. case r of
       Inl e \<Rightarrow> ret (None, False, Some e)
     | Inr _ \<Rightarrow>
         bindA (tryA (drainOwnedMachines E)) (\<lambda>r. case r of
           Inl e \<Rightarrow> ret (None, False, Some e)
         | Inr remaining \<Rightarrow>
             if 0 < remaining then ret (Some delete_requeue, False, None)
             else
               bindA (modA (\<lambda>s. s\<lparr>s_kcp := (s_kcp s)\<lparr>k_finalizer := False\<rparr>\<rparr>)) (\<lambda>_.
               bindA forgetIdentityCheck (\<lambda>_.
               bindA (tryA (mgmt_write E FinalizerRemoved)) (\<lambda>r. case r of
                 Inl e \<Rightarrow> if e = Api NotFound then ret (None, True, None) else ret (None, True, Some e)
               | Inr _ \<Rightarrow> ret (None, True, None))))))"


section \<open>What it touches\<close>

definition cluster_machine :: "env \<Rightarrow> kcp \<Rightarrow> machine \<Rightarrow> bool" where
  "cluster_machine E k m \<longleftrightarrow> ownedByKCP m (k_uid k) \<and>
     (\<exists>i cn ms. cluster_label k = Some cn \<and> e_cluster_machines E i cn = Inr ms \<and> m \<in> set ms)"

definition teardown_effect :: "env \<Rightarrow> kcp \<Rightarrow> effect \<Rightarrow> bool" where
  "teardown_effect E k e = (case e of
     HookRemoved n \<Rightarrow> \<exists>m. cluster_machine E k m \<and> hasEtcdLeaveHook m \<and> m_name m = n
   | MachineDeleted n \<Rightarrow> \<exists>m. cluster_machine E k m \<and> \<not> deleting m \<and> m_name m = n
   | FinalizerRemoved \<Rightarrow> cluster_label k = None \<or>
       (\<exists>i cn ms. cluster_label k = Some cn \<and> e_cluster_machines E i cn = Inr ms \<and>
          (\<forall>m\<in>set ms. ownedByKCP m (k_uid k) \<longrightarrow> \<not> deleting m \<and> (\<exists>j. e_write E j = Some NotFound)))
   | _ \<Rightarrow> False)"

lemma strip_loop_trace:
  "traces (\<lambda>k k' r es. k' = k \<and>
     (\<forall>e\<in>set es. \<exists>m\<in>set ms. ownedByKCP m uid \<and> hasEtcdLeaveHook m \<and> e = HookRemoved (m_name m)))
   (strip_loop E uid ms)"
proof (induction ms)
  case Nil
  show ?case by (auto intro: traces_ret)
next
  case (Cons m ms)
  then show ?case
    unfolding traces_def
    by (auto simp: wpa_simps split: option.splits intro!: traces_wpa [OF Cons.IH])
qed

lemma drain_loop_trace:
  "traces (\<lambda>k k' r es. k' = k \<and>
     (\<forall>e\<in>set es. \<exists>m\<in>set ms. ownedByKCP m uid \<and> \<not> deleting m \<and> e = MachineDeleted (m_name m)) \<and>
     (\<forall>c. r = Inr c \<longrightarrow> n \<le> c \<and> (c = n \<longrightarrow>
        (\<forall>m\<in>set ms. ownedByKCP m uid \<longrightarrow> \<not> deleting m \<and> (\<exists>j. e_write E j = Some NotFound)))))
   (drain_loop E uid ms n)"
proof (induction ms arbitrary: n)
  case Nil
  show ?case by (auto intro: traces_ret)
next
  case (Cons m ms)
  then show ?case
    unfolding traces_def
    by (auto simp: wpa_simps split: option.splits intro!: traces_wpa [OF Cons.IH])
qed

lemma strip_trace:
  "traces (\<lambda>k k' r es. k' = k \<and> list_all (teardown_effect E k) es) (stripEtcdLeaveHooks E)"
  unfolding traces_def stripEtcdLeaveHooks_def
  by (auto simp: wpa_simps list_all_iff split: option.splits sum.splits intro!: traces_wpa [OF strip_loop_trace])
    (force simp: teardown_effect_def cluster_machine_def)

lemma drain_trace:
  "traces (\<lambda>k k' r es. k' = k \<and> list_all (teardown_effect E k) es \<and>
     (r = Inr 0 \<longrightarrow> teardown_effect E k FinalizerRemoved)) (drainOwnedMachines E)"
proof -
  have loop: "k' = k \<and> list_all (teardown_effect E k) es \<and>
      (r = Inr 0 \<longrightarrow> teardown_effect E k FinalizerRemoved)"
    if "k' = k" and lab: "cluster_label k = Some cn" and list: "e_cluster_machines E i cn = Inr ms"
      and es: "\<forall>e\<in>set es. \<exists>m\<in>set ms. ownedByKCP m (k_uid k) \<and> \<not> deleting m \<and> e = MachineDeleted (m_name m)"
      and none: "\<forall>c. r = Inr c \<longrightarrow> 0 \<le> c \<and> (c = 0 \<longrightarrow>
        (\<forall>m\<in>set ms. ownedByKCP m (k_uid k) \<longrightarrow> \<not> deleting m \<and> (\<exists>j. e_write E j = Some NotFound)))"
    for k k' r es cn i ms
  proof -
    have "teardown_effect E k e" if mem: "e \<in> set es" for e
    proof -
      obtain m where m: "m \<in> set ms" "ownedByKCP m (k_uid k)" "\<not> deleting m" "e = MachineDeleted (m_name m)"
        using bspec [OF es mem] by blast
      then have "cluster_machine E k m" unfolding cluster_machine_def using lab list by blast
      then show ?thesis unfolding m(4) teardown_effect_def effect.case using m(3) by blast
    qed
    moreover have "teardown_effect E k FinalizerRemoved" if "r = Inr 0"
      unfolding teardown_effect_def effect.case using none that lab list by blast
    ultimately show ?thesis using \<open>k' = k\<close> by (simp add: list_all_iff)
  qed
  show ?thesis
    unfolding traces_def drainOwnedMachines_def
  proof (auto simp: wpa_simps split: option.splits sum.splits, goal_cases)
    case (1 s)
    then show ?case by (simp add: teardown_effect_def)
  next
    case (2 s cn ms)
    show ?case
    proof (rule traces_wpa [OF drain_loop_trace [where n = 0]], goal_cases)
      case (1 r s' es)
      then show ?case
        using loop [OF _ 2(2) 2(1), of "s_kcp s'" es r] by (intro exI [of _ es]) simp
    qed
  qed
qed


lemma teardown_trace:
  "traces (\<lambda>k k' r es. \<not> isl r \<and> list_all (teardown_effect E k) es) (reconcileDelete E)"
  unfolding traces_def reconcileDelete_def
  by (auto simp: wpa_simps forgetIdentityCheck_def split: option.splits sum.splits
      intro!: traces_wpa [OF strip_trace] traces_wpa [OF drain_trace])

text \<open>
  C17: Deleting a control plane touches its own cluster's Machines only. Whatever the API server
  answers, each effect of \<open>reconcileDelete\<close> is the removal of the etcd-leave hook of a Machine
  that the List of the labelled cluster returned, that this KairosControlPlane controls by UID
  and that carries the hook, the deletion of such a Machine not yet being deleted, or the
  removal of the finalizer, and that last only when the control plane has no cluster label, or
  when no Machine it owns is left in the list (each one listed was answered with NotFound).
\<close>

theorem teardown_safe:
  assumes "reconcileDelete E s = (r, s')" and "e \<in> set (new_effects s s')"
  shows "teardown_effect E (s_kcp s) e"
  using tracesD [OF teardown_trace assms(1)] assms(2) by (simp add: list_all_iff)


section \<open>A pass against a healthy API server\<close>

definition owned_in :: "kcp \<Rightarrow> machine list \<Rightarrow> machine list" where
  "owned_in k = filter (\<lambda>m. ownedByKCP m (k_uid k))"

definition strip_effects :: "kcp \<Rightarrow> machine list \<Rightarrow> effect list" where
  "strip_effects k ms = map (\<lambda>m. HookRemoved (m_name m)) (filter hasEtcdLeaveHook (owned_in k ms))"

definition drain_effects :: "kcp \<Rightarrow> machine list \<Rightarrow> effect list" where
  "drain_effects k ms = map (\<lambda>m. MachineDeleted (m_name m)) (filter (Not \<circ> deleting) (owned_in k ms))"

text \<open>The API server answers every List with the Machines \<open>ms\<close> and accepts every write.\<close>

definition serves :: "env \<Rightarrow> kcp \<Rightarrow> machine list \<Rightarrow> bool" where
  "serves E k ms \<longleftrightarrow> (\<forall>i. e_write E i = None) \<and>
     (\<exists>cn. cluster_label k = Some cn \<and> (\<forall>i. e_cluster_machines E i cn = Inr ms))"

lemma strip_loop_runs:
  assumes "\<And>i. e_write E i = None"
  shows "traces (\<lambda>k k' r es. k' = k \<and> r = Inr () \<and>
     (k_uid k = uid \<longrightarrow> es = strip_effects k ms)) (strip_loop E uid ms)"
proof (induction ms)
  case Nil
  show ?case by (auto intro: traces_ret simp: strip_effects_def owned_in_def)
next
  case (Cons m ms)
  then show ?case
    unfolding traces_def
    by (auto simp: wpa_simps assms strip_effects_def owned_in_def intro!: traces_wpa [OF Cons.IH])
qed

lemma drain_loop_runs:
  assumes "\<And>i. e_write E i = None"
  shows "traces (\<lambda>k k' r es. k' = k \<and>
     (k_uid k = uid \<longrightarrow> r = Inr (n + length (owned_in k ms)) \<and> es = drain_effects k ms))
   (drain_loop E uid ms n)"
proof (induction ms arbitrary: n)
  case Nil
  show ?case by (auto intro: traces_ret simp: drain_effects_def owned_in_def)
next
  case (Cons m ms)
  then show ?case
    unfolding traces_def
    by (auto simp: wpa_simps assms drain_effects_def owned_in_def intro!: traces_wpa [OF Cons.IH])
qed

lemma strip_runs:
  "wpa (stripEtcdLeaveHooks E) (\<lambda>r s'. r = Inr () \<and> s_kcp s' = s_kcp s \<and>
     s_log s' = s_log s @ strip_effects (s_kcp s) ms) s"
  if "serves E (s_kcp s) ms"
  using that unfolding stripEtcdLeaveHooks_def serves_def
  by (auto simp: wpa_simps intro!: traces_wpa [OF strip_loop_runs])

lemma drain_runs:
  "wpa (drainOwnedMachines E) (\<lambda>r s'. r = Inr (length (owned_in (s_kcp s) ms)) \<and> s_kcp s' = s_kcp s \<and>
     s_log s' = s_log s @ drain_effects (s_kcp s) ms) s"
  if "serves E (s_kcp s) ms"
  using that unfolding drainOwnedMachines_def serves_def
  by (auto simp: wpa_simps intro!: traces_wpa [OF drain_loop_runs])


lemma teardown_runs:
  assumes "serves E (s_kcp s) ms"
  shows "wpa (reconcileDelete E) (\<lambda>r s'.
      r = Inr (if owned_in (s_kcp s) ms = [] then (None, True, None) else (Some (seconds 10), False, None)) \<and>
      s_log s' = s_log s @ strip_effects (s_kcp s) ms @ drain_effects (s_kcp s) ms @
        (if owned_in (s_kcp s) ms = [] then [FinalizerRemoved] else []) \<and>
      (owned_in (s_kcp s) ms = [] \<longrightarrow> s_identity_checked s' = None)) s"
proof -
  have strip: "serves E (s_kcp s) ms \<Longrightarrow> wpa (stripEtcdLeaveHooks E) Q s"
    if "\<And>s'. s_kcp s' = s_kcp s \<Longrightarrow> s_log s' = s_log s @ strip_effects (s_kcp s) ms \<Longrightarrow> Q (Inr ()) s'"
    for Q and s :: st
    by (rule wpa_weaken [OF strip_runs]) (use that in auto)
  have drain: "serves E (s_kcp s) ms \<Longrightarrow> wpa (drainOwnedMachines E) Q s"
    if "\<And>s'. s_kcp s' = s_kcp s \<Longrightarrow> s_log s' = s_log s @ drain_effects (s_kcp s) ms \<Longrightarrow>
      Q (Inr (length (owned_in (s_kcp s) ms))) s'"
    for Q and s :: st
    by (rule wpa_weaken [OF drain_runs]) (use that in auto)
  have writes: "e_write E i = None" for i using assms by (simp add: serves_def)
  show ?thesis
    unfolding reconcileDelete_def
    by (auto simp: wpa_simps assms writes forgetIdentityCheck_def delete_requeue_def intro!: strip drain)
qed

lemma teardown_result:
  assumes "serves E (s_kcp s) ms" and "reconcileDelete E s = (r, s')"
  shows "r = Inr (if owned_in (s_kcp s) ms = [] then (None, True, None) else (Some (seconds 10), False, None))"
    and "new_effects s s' = strip_effects (s_kcp s) ms @ drain_effects (s_kcp s) ms @
      (if owned_in (s_kcp s) ms = [] then [FinalizerRemoved] else [])"
    and "owned_in (s_kcp s) ms = [] \<longrightarrow> s_identity_checked s' = None"
  using wpa_result [OF assms(2) teardown_runs [OF assms(1)]] by simp_all

text \<open>
  What a pass over a Cluster being deleted does. When the API server answers every List with
  \<open>ms\<close> and accepts every write, \<open>reconcileDelete\<close> removes the hook of every owned Machine that
  has it, and only then deletes every owned Machine not already being deleted, in the order of
  the list; it ends with the requeue while any Machine is owned, deleted or not, and with the
  finalizer removed, the identity check forgotten and the deferred patch skipped when none is.
\<close>

theorem teardown_pass:
  assumes "serves E (s_kcp s) ms" and "reconcileDelete E s = (r, s')"
  shows "r = Inr (if owned_in (s_kcp s) ms = [] then (None, True, None) else (Some (seconds 10), False, None)) \<and>
    new_effects s s' = strip_effects (s_kcp s) ms @ drain_effects (s_kcp s) ms @
      (if owned_in (s_kcp s) ms = [] then [FinalizerRemoved] else []) \<and>
    (owned_in (s_kcp s) ms = [] \<longrightarrow> s_identity_checked s' = None)"
  using teardown_result [OF assms] by blast


section \<open>The Machines the API server holds\<close>

text \<open>What the API server does with the two kinds of write: a hook taken off disappears from the
  annotations, a deleted Machine keeps existing with a deletion timestamp (its finalizers hold
  it) until the Machine controller of Cluster API has reaped it, which waits for the hook.\<close>

definition unhook :: "machine \<Rightarrow> machine" where
  "unhook m = m\<lparr>m_annotations := (m_annotations m)(etcd_leave_hook := None)\<rparr>"

definition mark_deleted :: "time \<Rightarrow> machine \<Rightarrow> machine" where
  "mark_deleted now m = (if deleting m then m else m\<lparr>m_deletion := Some now\<rparr>)"

definition at_name :: "string \<Rightarrow> (machine \<Rightarrow> machine) \<Rightarrow> machine list \<Rightarrow> machine list" where
  "at_name n f = map (\<lambda>m. if m_name m = n then f m else m)"

fun apply_write :: "time \<Rightarrow> effect \<Rightarrow> machine list \<Rightarrow> machine list" where
  "apply_write now (HookRemoved n) ms = at_name n unhook ms"
| "apply_write now (MachineDeleted n) ms = at_name n (mark_deleted now) ms"
| "apply_write now _ ms = ms"

definition teardown_spec :: "time \<Rightarrow> kcp \<Rightarrow> machine list \<Rightarrow> machine list" where
  "teardown_spec now k =
     map (\<lambda>m. if ownedByKCP m (k_uid k) then mark_deleted now (unhook m) else m)"

definition reap :: "machine list \<Rightarrow> machine list" where
  "reap = filter (\<lambda>m. \<not> (deleting m \<and> \<not> hasEtcdLeaveHook m))"

lemma unhook_same [simp]:
  "m_name (unhook m) = m_name m" "deleting (unhook m) = deleting m" "\<not> hasEtcdLeaveHook (unhook m)"
  "ownedByKCP (unhook m) uid = ownedByKCP m uid"
  and mark_deleted_same [simp]:
  "m_name (mark_deleted now m) = m_name m" "deleting (mark_deleted now m)"
  "hasEtcdLeaveHook (mark_deleted now m) = hasEtcdLeaveHook m"
  "ownedByKCP (mark_deleted now m) uid = ownedByKCP m uid"
  by (simp_all add: unhook_def mark_deleted_def deleting_def hasEtcdLeaveHook_def ownedByKCP_def)

lemma unhook_id: "\<not> hasEtcdLeaveHook m \<Longrightarrow> unhook m = m"
  by (cases m) (simp add: unhook_def hasEtcdLeaveHook_def fun_upd_idem)

lemma mark_deleted_id: "deleting m \<Longrightarrow> mark_deleted now m = m"
  by (simp add: mark_deleted_def)

text \<open>A write per Machine that satisfies \<open>P\<close> changes exactly those, since names are distinct.\<close>

lemma foldl_at_name:
  assumes "\<And>m. m_name (f m) = m_name m" and "distinct (map m_name ms)"
    and "\<And>n xs. apply_write now (ef n) xs = at_name n f xs"
  shows "foldl (\<lambda>x e. apply_write now e x) ms (map (\<lambda>m. ef (m_name m)) (filter P ms)) =
    map (\<lambda>m. if P m then f m else m) ms"
proof -
  have names: "at_name n f xs = xs" if "n \<notin> m_name ` set xs" for n and xs :: "machine list"
    using that by (induction xs) (auto simp: at_name_def)
  have "foldl (\<lambda>x e. apply_write now e x) (done @ ms) (map (\<lambda>m. ef (m_name m)) (filter P ms)) =
      done @ map (\<lambda>m. if P m then f m else m) ms"
    if "distinct (map m_name (done @ ms))" for "done"
    using that
  proof (induction ms arbitrary: "done")
    case Nil
    then show ?case by simp
  next
    case (Cons m ms)
    have at: "at_name (m_name m) f (done @ m # ms) = done @ f m # ms"
      using Cons.prems names [of "m_name m" "done"] names [of "m_name m" ms] by (auto simp: at_name_def)
    show ?case
    proof (cases "P m")
      case True
      have "distinct (map m_name ((done @ [f m]) @ ms))" using Cons.prems assms(1) by auto
      from Cons.IH [OF this] True at show ?thesis by (simp add: assms(3))
    next
      case False
      with Cons.IH [of "done @ [m]"] Cons.prems show ?thesis by simp
    qed
  qed
  from this [of "[]"] assms(2) show ?thesis by simp
qed

abbreviation apply_writes :: "time \<Rightarrow> effect list \<Rightarrow> machine list \<Rightarrow> machine list" where
  "apply_writes now es ms \<equiv> foldl (\<lambda>x e. apply_write now e x) ms es"

lemma writes_meet_spec:
  assumes "distinct (map m_name ms)"
  shows "apply_writes now (strip_effects k ms @ drain_effects k ms) ms = teardown_spec now k ms"
proof -
  let ?own = "\<lambda>m. ownedByKCP m (k_uid k)"
  have strip: "apply_writes now (strip_effects k ms) ms =
      map (\<lambda>m. if ?own m \<and> hasEtcdLeaveHook m then unhook m else m) ms"
    using foldl_at_name [of unhook ms now HookRemoved "\<lambda>m. ?own m \<and> hasEtcdLeaveHook m"] assms
    by (simp add: strip_effects_def owned_in_def conj_commute)
  also have "\<dots> = map (\<lambda>m. if ?own m then unhook m else m) ms"
    by (simp add: unhook_id)
  finally have strip: "apply_writes now (strip_effects k ms) ms = map (\<lambda>m. if ?own m then unhook m else m) ms" .
  let ?ms = "map (\<lambda>m. if ?own m then unhook m else m) ms"
  have drain: "drain_effects k ms = drain_effects k ?ms"
    unfolding drain_effects_def owned_in_def by (induction ms) auto
  have names: "distinct (map m_name ?ms)" using assms by (simp add: comp_def if_distrib cong: if_cong)
  have "apply_writes now (drain_effects k ?ms) ?ms =
      map (\<lambda>m. if ?own m \<and> \<not> deleting m then mark_deleted now m else m) ?ms"
    using foldl_at_name [of "mark_deleted now" ?ms now MachineDeleted "\<lambda>m. ?own m \<and> \<not> deleting m"] names
    by (simp add: drain_effects_def owned_in_def conj_commute comp_def)
  also have "\<dots> = teardown_spec now k ms"
    by (auto simp: teardown_spec_def mark_deleted_id)
  finally show ?thesis using strip drain by simp
qed

text \<open>
  C18: A pass of \<open>reconcileDelete\<close> implements its specification. Against an API server that
  answers with \<open>ms\<close>, names distinct, and accepts every write, the writes of the pass, applied
  to \<open>ms\<close> in their order, give \<open>teardown_spec\<close>: every Machine the control plane owns is being
  deleted and carries no etcd-leave hook, and every other Machine is untouched.
\<close>

theorem teardown_refines:
  assumes "serves E (s_kcp s) ms" and "distinct (map m_name ms)"
    and "reconcileDelete E s = (r, s')"
  shows "apply_writes now (new_effects s s') ms = teardown_spec now (s_kcp s) ms"
  using teardown_result(2) [OF assms(1,3)] writes_meet_spec [OF assms(2), of now "s_kcp s"] by simp


text \<open>
  C19: Deleting a control plane ends. Take a pass against an API server that holds \<open>ms\<close>, names
  distinct, and accepts every write; let the Machine controller reap the Machines that are
  being deleted and carry no hook. Then a pass over what is left removes the finalizer, writes
  nothing to any Machine and does not ask to come back. No Machine the control plane owns can
  hold its own deletion up, one paused at its etcd-leave hook included.
\<close>

theorem teardown_completes:
  assumes "serves E (s_kcp s) ms" and "distinct (map m_name ms)" and "reconcileDelete E s = (r, s')"
    and "serves E2 (s_kcp t) (reap (apply_writes now (new_effects s s') ms))"
    and "k_uid (s_kcp t) = k_uid (s_kcp s)" and "reconcileDelete E2 t = (r2, t')"
  shows "r2 = Inr (None, True, None) \<and> new_effects t t' = [FinalizerRemoved]"
proof -
  have spec: "apply_writes now (new_effects s s') ms = teardown_spec now (s_kcp s) ms"
    using teardown_result(2) [OF assms(1,3)] writes_meet_spec [OF assms(2), of now "s_kcp s"] by simp
  have none: "owned_in (s_kcp t) (reap (apply_writes now (new_effects s s') ms)) = []"
    unfolding spec owned_in_def reap_def teardown_spec_def assms(5) filter_empty_conv by auto
  show ?thesis
    using teardown_result(1,2) [OF assms(4,6)] none
    by (simp add: strip_effects_def drain_effects_def)
qed

end
