(* ===== verification/Control_Plane_Status.thy ===== *)
theory Control_Plane_Status
  imports Reconcile_Machines Kubeconfig_Publish
begin

text \<open>
  What a pass reports: \<open>updateStatus\<close>, \<open>setHAConditions\<close> and the Ready and Available
  conditions \<open>Reconcile\<close> derives from the status (\<open>kairoscontrolplane_controller.go\<close>).

  The counters of the source are \<open>int32\<close>, so every count goes through \<open>wrap32\<close>; the lemmas
  say when the conversion changes nothing.
\<close>

section \<open>The replica counts\<close>

definition available_machine :: "machine \<Rightarrow> bool" where
  "available_machine m \<longleftrightarrow> registered m \<and> m_phase m = machine_running \<and> \<not> deleting m"

definition updated_machine :: "kcp \<Rightarrow> machine \<Rightarrow> bool" where
  "updated_machine k m \<longleftrightarrow> m_version m \<noteq> [] \<and> m_version m = k_version k"

fun count_machines :: "(machine \<Rightarrow> bool) \<Rightarrow> machine list \<Rightarrow> int" where
  "count_machines P [] = 0"
| "count_machines P (m # ms) = wrap32 ((if P m then 1 else 0) + count_machines P ms)"

definition unavailable_of :: "int \<Rightarrow> int \<Rightarrow> int" where
  "unavailable_of desired available = (let n = wrap32 (desired - available) in if n < 0 then 0 else n)"

definition selector_text :: "string \<Rightarrow> string" where
  "selector_text cluster =
     ''cluster.x-k8s.io/cluster-name='' @ cluster @ '',cluster.x-k8s.io/control-plane=''"

definition count_status :: "cluster \<Rightarrow> machine list \<Rightarrow> kcp \<Rightarrow> kcp" where
  "count_status cl ms k =
     (let ready = count_machines registered ms; available = count_machines available_machine ms in
      k\<lparr>k_status := (k_status k)\<lparr>
        ks_replicas := wrap32 (int (length ms)),
        ks_ready := ready,
        ks_updated := count_machines (updated_machine k) ms,
        ks_unavailable := unavailable_of (desired_replicas k) available,
        ks_available := available,
        ks_version := (if 0 < ready then k_version k else ks_version (k_status k)),
        ks_selector := selector_text (c_name cl)\<rparr>\<rparr>)"

text \<open>A kubeconfig was published: the contract Secret can be read and holds a value.\<close>

definition contract_filled :: "apierr + ksecret \<Rightarrow> bool" where
  "contract_filled r = (case r of Inl _ \<Rightarrow> False | Inr c \<Rightarrow> secret_bytes c \<noteq> [])"

definition mark_initialized :: "unit op" where
  "mark_initialized = modA (\<lambda>s. s\<lparr>s_kcp := (s_kcp s)\<lparr>k_status := (k_status (s_kcp s))\<lparr>ks_initialized := True\<rparr>\<rparr>\<rparr>)"

definition initialize_status :: "env \<Rightarrow> cluster \<Rightarrow> unit op" where
  "initialize_status E cl =
     bindA get_kcp (\<lambda>k.
     if ks_initialized (k_status k) then ret ()
     else if 0 < ks_ready (k_status k) then mark_initialized
     else if ks_ready (k_status k) = 0 then
       bindA (tryA (read_api (\<lambda>n. e_secret E n (contractKubeconfigSecretName (c_name cl))))) (\<lambda>r.
         case r of
           Inl _ \<Rightarrow> ret ()
         | Inr c \<Rightarrow> if secret_bytes c \<noteq> [] then mark_initialized else ret ())
     else ret ())"

definition mirror_initialized :: "kcp \<Rightarrow> kcp" where
  "mirror_initialized k = k\<lparr>k_status := (k_status k)\<lparr>
     ks_cp_initialized := Some (ks_initialized (k_status k))\<rparr>\<rparr>"

definition updateStatus :: "env \<Rightarrow> cluster \<Rightarrow> unit op" where
  "updateStatus E cl =
     bindA (getControlPlaneMachines E) (\<lambda>ms.
     bindA (modA (\<lambda>s. s\<lparr>s_kcp := count_status cl ms (s_kcp s)\<rparr>)) (\<lambda>_.
     bindA (initialize_status E cl) (\<lambda>_.
     modA (\<lambda>s. s\<lparr>s_kcp := mirror_initialized (s_kcp s)\<rparr>))))"


section \<open>Conditions\<close>

definition joined_cond :: string where "joined_cond = ''ControlPlaneJoined''"

definition ready_conditions :: "bool \<Rightarrow> kcp \<Rightarrow> kcp" where
  "ready_conditions endpointReady k =
     (if ks_initialized (k_status k) then
        let k = set_cond available_cond cond_true (set_cond ready_cond cond_true k) in
        if 0 < ks_ready (k_status k) then set_cond ready_cond cond_true k
        else set_cond ready_cond (cond_false ''WaitingForMachinesReady'' SevInfo) k
      else if \<not> endpointReady then
        let c = cond_false ''WaitingForInfrastructureControlPlaneEndpoint'' SevInfo in
        set_cond available_cond c (set_cond ready_cond c k)
      else
        let c = cond_false ''WaitingForMachines'' SevInfo in
        set_cond available_cond c (set_cond ready_cond c k))"

definition etcd_condition :: "int \<Rightarrow> int \<Rightarrow> cond" where
  "etcd_condition desired voting =
     (let quorum = go_div desired 2 + 1 in
      if desired \<le> voting then cond_true
      else if quorum < voting then cond_false ''EtcdQuorumDegraded'' SevInfo
      else cond_false ''EtcdQuorumAtRisk'' SevWarning)"

definition joined_condition :: "kcp \<Rightarrow> cond" where
  "joined_condition k =
     (if desired_replicas k \<le> ks_ready (k_status k) then cond_true
      else cond_false ''ControlPlaneJoining'' SevInfo)"

definition lacks_endpoint :: "kcp \<Rightarrow> bool \<Rightarrow> bool" where
  "lacks_endpoint k endpointReady \<longleftrightarrow>
     \<not> isKubevirtControlPlane k \<and> k_vip k = None \<and> \<not> endpointReady"

definition setHAConditions :: "env \<Rightarrow> bool \<Rightarrow> unit op" where
  "setHAConditions E endpointReady =
     bindA get_kcp (\<lambda>k.
     if desired_replicas k \<le> 1 then ret ()
     else
       bindA (modA (\<lambda>s. s\<lparr>s_kcp := set_cond joined_cond (joined_condition k) (s_kcp s)\<rparr>)) (\<lambda>_.
       bindA (if lacks_endpoint k endpointReady
              then mark_false available_cond ''WaitingForVIPOrExternalEndpoint'' SevWarning
              else ret ()) (\<lambda>_.
       bindA (tryA (readEtcdStatus E)) (\<lambda>r. case r of
         Inl _ \<Rightarrow> ret ()
       | Inr status \<Rightarrow> modA (\<lambda>s. s\<lparr>s_kcp := set_cond etcd_healthy_cond
           (etcd_condition (desired_replicas k) (wrap32 (etcdVotingHealthyCount status))) (s_kcp s)\<rparr>)))))"


section \<open>The counts are those of the list\<close>

lemma count_machines_length:
  "int (length ms) \<le> int32_max \<Longrightarrow> count_machines P ms = int (length (filter P ms))"
proof (induction ms)
  case Nil
  show ?case by simp
next
  case (Cons m ms)
  have "int (length (filter P (m # ms))) \<le> int32_max"
    using Cons.prems length_filter_le [of P "m # ms"] by linarith
  with Cons show ?case by (auto simp: wrap32_id)
qed

lemma filter_length_mono: "(\<And>x. P x \<Longrightarrow> Q x) \<Longrightarrow> length (filter P xs) \<le> length (filter Q xs)"
  by (induction xs) auto

lemma unavailable_of_max:
  "0 \<le> desired \<Longrightarrow> desired \<le> int32_max \<Longrightarrow> 0 \<le> available \<Longrightarrow> available \<le> int32_max \<Longrightarrow>
   unavailable_of desired available = max 0 (desired - available)"
  using wrap32_id [of "desired - available"]
  by (auto simp: unavailable_of_def int32_max_def Let_def)

definition status_ok :: "int \<Rightarrow> kstatus \<Rightarrow> bool" where
  "status_ok desired st \<longleftrightarrow>
     0 \<le> ks_available st \<and> ks_available st \<le> ks_ready st \<and> ks_ready st \<le> ks_replicas st \<and>
     0 \<le> ks_updated st \<and> ks_updated st \<le> ks_replicas st \<and>
     ks_unavailable st = max 0 (desired - ks_available st) \<and>
     ks_cp_initialized st = Some (ks_initialized st) \<and> (0 < ks_ready st \<longrightarrow> ks_initialized st)"

lemma count_status_ok:
  fixes k :: kcp
  assumes "int (length ms) \<le> int32_max" and "0 \<le> desired_replicas k" and "desired_replicas k \<le> int32_max"
    and "I = (ks_initialized (k_status k) \<or> 0 < ks_ready (k_status (count_status cl ms k)) \<or> published)"
  shows "status_ok (desired_replicas k)
    ((k_status (count_status cl ms k))\<lparr>ks_initialized := I, ks_cp_initialized := Some I\<rparr>)"
proof -
  let ?len = "\<lambda>P. int (length (filter P ms))"
  have "?len available_machine \<le> ?len registered"
    using filter_length_mono [of available_machine registered ms] by (simp add: available_machine_def)
  moreover have le: "?len P \<le> int (length ms)" for P by simp
  moreover have "0 \<le> ?len available_machine" "?len available_machine \<le> int32_max"
    using le [of available_machine] assms(1) by linarith+
  ultimately show ?thesis
    using assms unavailable_of_max [OF assms(2,3), of "?len available_machine"]
    by (simp add: status_ok_def count_status_def Let_def count_machines_length wrap32_id)
qed

definition initialized_after :: "env \<Rightarrow> cluster \<Rightarrow> nat \<Rightarrow> kcp \<Rightarrow> bool" where
  "initialized_after E cl n k \<longleftrightarrow> ks_initialized (k_status k) \<or> 0 < ks_ready (k_status k) \<or>
     (ks_ready (k_status k) = 0 \<and> contract_filled (e_secret E n (contractKubeconfigSecretName (c_name cl))))"

lemma initialized_kept [simp]: "ks_initialized (k_status (count_status cl ms k)) = ks_initialized (k_status k)"
  by (simp add: count_status_def Let_def)

lemma initialize_status_wpa:
  "wpa (initialize_status E cl) (\<lambda>r s'. r = Inr () \<and> s_log s' = s_log s \<and> s_kcp s' =
     (s_kcp s)\<lparr>k_status := (k_status (s_kcp s))\<lparr>
       ks_initialized := initialized_after E cl (s_tick s) (s_kcp s)\<rparr>\<rparr>) s"
  unfolding initialize_status_def mark_initialized_def initialized_after_def contract_filled_def
  by (cases "s_kcp s", cases "k_status (s_kcp s)") (auto simp: wpa_simps split: sum.splits)

text \<open>The control plane as \<open>updateStatus\<close> leaves it, from the Machines listed and the answer of
  request \<open>n\<close> for the contract Secret.\<close>

definition reported :: "env \<Rightarrow> cluster \<Rightarrow> nat \<Rightarrow> machine list \<Rightarrow> kcp \<Rightarrow> kcp" where
  "reported E cl n ms k =
     (let k' = count_status cl (filter (owned_by_kcp_name k) ms) k; I = initialized_after E cl n k' in
      k'\<lparr>k_status := (k_status k')\<lparr>ks_initialized := I, ks_cp_initialized := Some I\<rparr>\<rparr>)"

lemma updateStatus_wpa:
  "wpa (updateStatus E cl) (\<lambda>r s'. s_log s' = s_log s \<and> (case r of
     Inl _ \<Rightarrow> s_kcp s' = s_kcp s
   | Inr _ \<Rightarrow> \<exists>i ms n. e_machines E i = Inr ms \<and> s_kcp s' = reported E cl n ms (s_kcp s))) s"
proof -
  have mirror: "mirror_initialized (k\<lparr>k_status := (k_status k)\<lparr>ks_initialized := I\<rparr>\<rparr>) =
      k\<lparr>k_status := (k_status k)\<lparr>ks_initialized := I, ks_cp_initialized := Some I\<rparr>\<rparr>" for k :: kcp and I
    by (simp add: mirror_initialized_def)
  show ?thesis
    unfolding updateStatus_def getControlPlaneMachines_def reported_def
    by (auto simp: wpa_simps mirror Let_def split: sum.splits
        intro!: wpa_weaken [OF initialize_status_wpa])
      (intro exI conjI, assumption, rule refl)
qed

lemma reported_ok:
  assumes "int (length ms) \<le> int32_max" "0 \<le> desired_replicas k" "desired_replicas k \<le> int32_max"
  shows "status_ok (desired_replicas k) (k_status (reported E cl n ms k))"
proof -
  have "int (length (filter (owned_by_kcp_name k) ms)) \<le> int32_max"
    using assms(1) length_filter_le [of "owned_by_kcp_name k" ms] by linarith
  from count_status_ok [OF this assms(2,3)] show ?thesis
    unfolding reported_def Let_def by (simp add: initialized_after_def)
qed



text \<open>
  The flag \<open>status.initialized\<close> latches, and only for a reason: it is never taken back, it is True as
  soon as one Machine is ready, and it becomes True without a ready Machine only when some read
  of the contract Secret found a value in it.
\<close>

theorem initialized_latches:
  assumes "updateStatus E cl s = (Inr (), s')"
  shows "(ks_initialized (k_status (s_kcp s)) \<or> 0 < ks_ready (k_status (s_kcp s')) \<longrightarrow>
      ks_initialized (k_status (s_kcp s'))) \<and>
    (ks_initialized (k_status (s_kcp s')) \<and> \<not> ks_initialized (k_status (s_kcp s)) \<longrightarrow>
      0 < ks_ready (k_status (s_kcp s')) \<or>
      (\<exists>n c. e_secret E n (contractKubeconfigSecretName (c_name cl)) = Inr c \<and> secret_bytes c \<noteq> []))"
proof -
  obtain i ms n where s': "s_kcp s' = reported E cl n ms (s_kcp s)"
    using wpa_result [OF assms(1) updateStatus_wpa] by auto
  have init: "ks_initialized (k_status (s_kcp s')) \<longleftrightarrow> ks_initialized (k_status (s_kcp s)) \<or>
      0 < ks_ready (k_status (s_kcp s')) \<or>
      (ks_ready (k_status (s_kcp s')) = 0 \<and>
        contract_filled (e_secret E n (contractKubeconfigSecretName (c_name cl))))"
    unfolding s' reported_def Let_def by (simp add: initialized_after_def)
  have "\<exists>c. r = Inr c \<and> secret_bytes c \<noteq> []" if "contract_filled r" for r
    using that by (auto simp: contract_filled_def split: sum.splits)
  with init show ?thesis by blast
qed

text \<open>
  The etcd condition and the removal guard agree. Of a highly available control plane with
  \<open>N\<close> desired replicas and a report in which \<open>v < N\<close> members are healthy and voting,
  \<open>setHAConditions\<close> says \<open>EtcdQuorumAtRisk\<close> exactly when \<open>canRemoveMember\<close>'s decision refuses to
  give up any healthy voting member, and \<open>EtcdQuorumDegraded\<close> exactly when it would give one up.
\<close>

theorem at_risk_iff_no_removal:
  assumes "map_of status target = Some es" and "es_healthy es" and "es_voting es"
    and "etcdVotingHealthyCount status < desired"
  shows "etcd_condition desired (etcdVotingHealthyCount status) =
    (if fst (removal_keeps_quorum desired status target)
     then cond_false ''EtcdQuorumDegraded'' SevInfo
     else cond_false ''EtcdQuorumAtRisk'' SevWarning)"
  using assms by (auto simp: etcd_condition_def removal_keeps_quorum_def Let_def)

text \<open>
  What the conditions claim holds of the status. Ready is True exactly when the control
  plane is initialized and a Machine is ready; Available exactly when it is initialized; and
  when it is not, both name the same reason, the missing endpoint before the missing Machines.
\<close>

theorem ready_means_ready:
  "(is_true (ready_conditions ep k) ready_cond \<longleftrightarrow> ks_initialized (k_status k) \<and> 0 < ks_ready (k_status k)) \<and>
   (is_true (ready_conditions ep k) available_cond \<longleftrightarrow> ks_initialized (k_status k))"
  by (simp_all add: ready_conditions_def Let_def is_true_def set_cond_def cond_true_def cond_false_def
      ready_cond_def available_cond_def)

end
