(* ===== verification/Load_Balancer.thy ===== *)
theory Load_Balancer
  imports Control_Plane_Status Infra_Clone
begin

text \<open>
  The addresses of a Machine's infrastructure object (\<open>infra_lookup.go\<close>) and the load balancer
  of a KubeVirt control plane (\<open>reconcileControlPlaneLB\<close> in
  \<open>kairoscontrolplane_controller.go\<close>).

  \<open>e_infra_obj\<close> answers for an infrastructure object by kind and name (through its contract
  reference, and for a VSphereVM by its key), \<open>e_vmi\<close> for a VirtualMachineInstance.
  \<open>e_owners\<close> gives the owners of the Service and the Endpoints \<open>CreateOrUpdate\<close> finds, and
  \<open>e_settled\<close> says that its mutation changed nothing.
\<close>


section \<open>Addresses\<close>

definition nested_slice :: "string list \<Rightarrow> json \<Rightarrow> json list option" where
  "nested_slice fs j = (case nested fs j of Some (JArr xs) \<Rightarrow> Some xs | _ \<Rightarrow> None)"

definition string_field :: "json \<Rightarrow> string \<Rightarrow> string" where
  "string_field j f = (case nested [f] j of Some (JStr x) \<Rightarrow> x | _ \<Rightarrow> [])"

text \<open>The loop over \<open>status.addresses\<close>: the last InternalIP, the last ExternalIP and the first
  other address.\<close>

type_synonym found_ips = "string \<times> string \<times> string"

fun note_address :: "json \<Rightarrow> found_ips \<Rightarrow> found_ips" where
  "note_address a (internal, external, any) =
     (let ip = string_field a ''address''; t = string_field a ''type'' in
      if ip = [] then (internal, external, any)
      else if t = ''InternalIP'' then (ip, external, any)
      else if t = ''ExternalIP'' then (internal, ip, any)
      else (internal, external, if any = [] then ip else any))"

fun first_network_ip :: "json list \<Rightarrow> string" where
  "first_network_ip [] = []"
| "first_network_ip (n # ns) = (case nested_slice [''ipAddrs''] n of
     Some (JStr (c # cs) # _) \<Rightarrow> c # cs
   | _ \<Rightarrow> first_network_ip ns)"

definition vm_ip :: "json \<Rightarrow> string" where
  "vm_ip j = (case nested [''status'', ''vmIp''] j of Some (JStr x) \<Rightarrow> x | _ \<Rightarrow> [])"

definition address_ip :: "json \<Rightarrow> string" where
  "address_ip j = (case nested_slice [''status'', ''addresses''] j of
     None \<Rightarrow> []
   | Some as \<Rightarrow> (case fold note_address as ([], [], []) of (internal, external, any) \<Rightarrow>
       if internal \<noteq> [] then internal else if external \<noteq> [] then external else any))"

definition network_ip :: "json \<Rightarrow> string" where
  "network_ip j = (case nested_slice [''status'', ''network''] j of
     None \<Rightarrow> []
   | Some ns \<Rightarrow> first_network_ip ns)"

definition extractIPFromUnstructured :: "json \<Rightarrow> string" where
  "extractIPFromUnstructured j =
     (if address_ip j \<noteq> [] then address_ip j
      else if network_ip j \<noteq> [] then network_ip j
      else vm_ip j)"

fun first_interface_ip :: "json list \<Rightarrow> string option" where
  "first_interface_ip [] = None"
| "first_interface_ip (i # is) =
     (if string_field i ''ipAddress'' \<noteq> [] then Some (string_field i ''ipAddress'')
      else first_interface_ip is)"

definition getKubevirtVMIIP :: "env \<Rightarrow> machine \<Rightarrow> string op" where
  "getKubevirtVMIIP E m =
     bindA (read_api (\<lambda>n. e_vmi E n (m_infra_name m))) (\<lambda>vmi.
     case nested_slice [''status'', ''interfaces''] vmi of
       None \<Rightarrow> throw (Failed ''VMI interfaces not found'')
     | Some is \<Rightarrow> (case first_interface_ip is of
         None \<Rightarrow> throw (Failed ''no IP address found in VMI status.interfaces'')
       | Some ip \<Rightarrow> ret ip))"

definition isKubevirtMachine :: "machine \<Rightarrow> bool" where
  "isKubevirtMachine m \<longleftrightarrow> m_infra_kind m = ''KubevirtMachine'' \<or> m_infra_kind m = ''KubeVirtMachine''"

definition infra_ip :: "env \<Rightarrow> machine \<Rightarrow> string \<Rightarrow> string op" where
  "infra_ip E m kind =
     bindA (read_api (\<lambda>n. e_infra_obj E n kind (m_infra_name m))) (\<lambda>j. ret (extractIPFromUnstructured j))"

definition no_ip :: "string \<Rightarrow> err" where
  "no_ip place = Failed (''no IP address found in '' @ place)"

definition getNodeIP :: "env \<Rightarrow> machine \<Rightarrow> string op" where
  "getNodeIP E m =
     (let kind = m_infra_kind m in
      if kind = ''VSphereMachine'' then
        bindA (infra_ip E m kind) (\<lambda>ip.
        if ip \<noteq> [] then ret ip
        else bindA (infra_ip E m ''VSphereVM'') (\<lambda>ip.
          if ip \<noteq> [] then ret ip else throw (no_ip ''VSphereMachine or VSphereVM status'')))
      else if isKubevirtMachine m then
        bindA (infra_ip E m kind) (\<lambda>ip.
        if ip \<noteq> [] then ret ip
        else bindA (tryA (getKubevirtVMIIP E m)) (\<lambda>r. case r of
            Inr ip \<Rightarrow> if ip \<noteq> [] then ret ip else throw (no_ip ''KubevirtMachine status'')
          | Inl _ \<Rightarrow> throw (no_ip ''KubevirtMachine status'')))
      else if kind = ''DockerMachine'' \<or> kind = ''Metal3Machine'' then
        bindA (infra_ip E m kind) (\<lambda>ip. if ip \<noteq> [] then ret ip else throw (no_ip kind))
      else if kind = ''KairosFleetMachine'' then ret []
      else infra_ip E m kind)"


section \<open>The load balancer\<close>

definition controlPlaneLBServiceName :: "string \<Rightarrow> string" where
  "controlPlaneLBServiceName cluster = cluster @ ''-control-plane-lb''"

text \<open>\<open>controllerutil.CreateOrUpdate\<close> of an object the control plane has to control.\<close>

definition ensure_controlled :: "env \<Rightarrow> string \<Rightarrow> string \<Rightarrow> effect \<Rightarrow> unit op" where
  "ensure_controlled E kind name ef =
     bindA get_kcp (\<lambda>k.
     bindA (tryA (read_api (\<lambda>n. e_owners E n kind name))) (\<lambda>r. case r of
       Inl e \<Rightarrow> if e = Api NotFound then mgmt_write E ef else throw e
     | Inr os \<Rightarrow> (case SetControllerReference k os of
         None \<Rightarrow> throw (Failed ''already owned by another controller'')
       | Some _ \<Rightarrow> bindA tick (\<lambda>n. if e_settled E n then ret () else mgmt_write E ef))))"

definition ensureControlPlaneLBService :: "env \<Rightarrow> cluster \<Rightarrow> string op" where
  "ensureControlPlaneLBService E cl =
     (let name = controlPlaneLBServiceName (c_name cl) in
      bindA (ensure_controlled E ''Service'' name (ServiceEnsured name)) (\<lambda>_. ret name))"

fun collect_ips :: "env \<Rightarrow> machine list \<Rightarrow> string list op" where
  "collect_ips E [] = ret []"
| "collect_ips E (m # ms) =
     (if \<not> isKubevirtMachine m then collect_ips E ms
      else bindA (tryA (getKubevirtVMIIP E m)) (\<lambda>r. case r of
          Inl _ \<Rightarrow> collect_ips E ms
        | Inr ip \<Rightarrow> if ip = [] then collect_ips E ms
            else bindA (collect_ips E ms) (\<lambda>ips. ret (ip # ips))))"

definition ensureControlPlaneLBEndpoints :: "env \<Rightarrow> cluster \<Rightarrow> string \<Rightarrow> unit op" where
  "ensureControlPlaneLBEndpoints E cl name =
     bindA (getControlPlaneMachines E) (\<lambda>ms.
     bindA (collect_ips E ms) (\<lambda>ips.
     ensure_controlled E ''Endpoints'' name (EndpointsEnsured name ips)))"

definition reconcileControlPlaneLB :: "env \<Rightarrow> cluster \<Rightarrow> unit op" where
  "reconcileControlPlaneLB E cl =
     bindA (ensureControlPlaneLBService E cl) (ensureControlPlaneLBEndpoints E cl)"


section \<open>Which address is chosen\<close>

text \<open>The non-empty addresses of a type, and those of every other type, in the order listed.\<close>

definition typed_ips :: "string \<Rightarrow> json list \<Rightarrow> string list" where
  "typed_ips t as = map (\<lambda>a. string_field a ''address'')
     (filter (\<lambda>a. string_field a ''address'' \<noteq> [] \<and> string_field a ''type'' = t) as)"

definition other_ips :: "json list \<Rightarrow> string list" where
  "other_ips as = map (\<lambda>a. string_field a ''address'')
     (filter (\<lambda>a. string_field a ''address'' \<noteq> [] \<and>
        string_field a ''type'' \<noteq> ''InternalIP'' \<and> string_field a ''type'' \<noteq> ''ExternalIP'') as)"

lemma note_address_fold:
  "fold note_address as (i, e, a) =
     (last (i # typed_ips ''InternalIP'' as), last (e # typed_ips ''ExternalIP'' as),
      if a \<noteq> [] then a else hd (other_ips as @ [[]]))"
  by (induction as arbitrary: i e a) (auto simp: typed_ips_def other_ips_def Let_def)

text \<open>
  Which address of an infrastructure object is used. When \<open>status.addresses\<close> lists a
  non-empty InternalIP, \<open>extractIPFromUnstructured\<close> returns the last of them, whatever else the
  object says; else the last ExternalIP; else the first address of another type; and only when
  none is listed does it look at \<open>status.network\<close> and then at \<open>status.vmIp\<close>.
\<close>

theorem extract_ip_priority:
  "extractIPFromUnstructured j =
    (let as = (case nested_slice [''status'', ''addresses''] j of None \<Rightarrow> [] | Some as \<Rightarrow> as) in
     if typed_ips ''InternalIP'' as \<noteq> [] then last (typed_ips ''InternalIP'' as)
     else if typed_ips ''ExternalIP'' as \<noteq> [] then last (typed_ips ''ExternalIP'' as)
     else if other_ips as \<noteq> [] then hd (other_ips as)
     else if network_ip j \<noteq> [] then network_ip j
     else vm_ip j)"
proof -
  have ne: "typed_ips t as \<noteq> [] \<Longrightarrow> last (typed_ips t as) \<noteq> []"
    "other_ips as \<noteq> [] \<Longrightarrow> hd (other_ips as) \<noteq> []" for t as
    using last_in_set [of "typed_ips t as"] hd_in_set [of "other_ips as"]
    by (auto simp: typed_ips_def other_ips_def)
  have none: "typed_ips t [] = []" "other_ips [] = []" for t
    by (simp_all add: typed_ips_def other_ips_def)
  show ?thesis
    unfolding extractIPFromUnstructured_def address_ip_def
    by (auto simp: note_address_fold none ne Let_def split: option.splits)
qed


section \<open>What the load balancer gets\<close>

definition vmi_of :: "env \<Rightarrow> machine \<Rightarrow> string \<Rightarrow> bool" where
  "vmi_of E m ip \<longleftrightarrow> isKubevirtMachine m \<and> ip \<noteq> [] \<and>
     (\<exists>n vmi is. e_vmi E n (m_infra_name m) = Inr vmi \<and>
        nested_slice [''status'', ''interfaces''] vmi = Some is \<and>
        ip \<in> (\<lambda>i. string_field i ''ipAddress'') ` set is)"

lemma first_interface_in:
  "first_interface_ip is = Some ip \<Longrightarrow> ip \<noteq> [] \<and> ip \<in> (\<lambda>i. string_field i ''ipAddress'') ` set is"
  by (induction "is") (auto split: if_splits)

lemma vmi_ip_trace:
  "traces (\<lambda>k k' r es. k' = k \<and> es = [] \<and> (\<forall>ip. r = Inr ip \<longrightarrow> isKubevirtMachine m \<longrightarrow> vmi_of E m ip))
     (getKubevirtVMIIP E m)"
  unfolding traces_def getKubevirtVMIIP_def
  by (auto simp: wpa_simps vmi_of_def split: sum.splits option.splits dest!: first_interface_in)

lemma collect_ips_trace:
  "traces (\<lambda>k k' r es. k' = k \<and> es = [] \<and>
     (\<exists>ips. r = Inr ips \<and> list_all (\<lambda>ip. \<exists>m\<in>set ms. vmi_of E m ip) ips \<and> length ips \<le> length ms))
     (collect_ips E ms)"
proof (induction ms)
  case Nil
  show ?case by (auto intro: traces_ret)
next
  case (Cons m ms)
  then show ?case
    unfolding traces_def
    by (auto simp: wpa_simps list_all_iff split: sum.splits
        intro!: traces_wpa [OF vmi_ip_trace] traces_wpa [OF Cons.IH])
qed

definition backends_owned :: "env \<Rightarrow> kcp \<Rightarrow> string list \<Rightarrow> bool" where
  "backends_owned E k ips \<longleftrightarrow> (\<exists>i ms. e_machines E i = Inr ms \<and>
     (\<forall>ip\<in>set ips. \<exists>m\<in>set ms. owned_by_kcp_name k m \<and> vmi_of E m ip))"

definition lb_effect :: "env \<Rightarrow> cluster \<Rightarrow> kcp \<Rightarrow> effect \<Rightarrow> bool" where
  "lb_effect E cl k e = (case e of
     ServiceEnsured n \<Rightarrow> n = controlPlaneLBServiceName (c_name cl)
   | EndpointsEnsured n ips \<Rightarrow> n = controlPlaneLBServiceName (c_name cl) \<and> backends_owned E k ips
   | _ \<Rightarrow> False)"

lemma ensure_controlled_trace:
  "traces (\<lambda>k k' r es. k' = k \<and> (case r of Inl _ \<Rightarrow> es = [] | Inr _ \<Rightarrow> es = [] \<or> es = [ef]))
     (ensure_controlled E kind name ef)"
  unfolding traces_def ensure_controlled_def
  by (auto simp: wpa_simps split: sum.splits option.splits)

lemma lb_service_trace:
  "traces (\<lambda>k k' r es. k' = k \<and> list_all (lb_effect E cl k) es \<and>
     (\<forall>n. r = Inr n \<longrightarrow> n = controlPlaneLBServiceName (c_name cl))) (ensureControlPlaneLBService E cl)"
  unfolding traces_def ensureControlPlaneLBService_def Let_def
  by (auto simp: wpa_simps lb_effect_def split: sum.splits intro!: traces_wpa [OF ensure_controlled_trace])

lemma lb_endpoints_trace:
  "traces (\<lambda>k k' r es. k' = k \<and> (es = [] \<or> (\<exists>ips. es = [EndpointsEnsured name ips] \<and> backends_owned E k ips)))
     (ensureControlPlaneLBEndpoints E cl name)"
proof -
  have owned: "backends_owned E k ips"
    if "e_machines E i = Inr ms"
      and "\<forall>ip\<in>set ips. \<exists>m. m \<in> set ms \<and> owned_by_kcp_name k m \<and> vmi_of E m ip" for i ms ips k
    unfolding backends_owned_def using that by blast
  show ?thesis
    unfolding traces_def ensureControlPlaneLBEndpoints_def getControlPlaneMachines_def
    by (auto simp: wpa_simps list_all_iff split: sum.splits
        intro!: traces_wpa [OF collect_ips_trace] traces_wpa [OF ensure_controlled_trace])
      (simp add: owned)
qed

lemma lb_trace:
  "traces (\<lambda>k k' r es. k' = k \<and> list_all (lb_effect E cl k) es) (reconcileControlPlaneLB E cl)"
  unfolding traces_def reconcileControlPlaneLB_def
  by (auto simp: wpa_simps lb_effect_def split: sum.splits
      intro!: traces_wpa [OF lb_service_trace] traces_wpa [OF lb_endpoints_trace])

text \<open>
  The load balancer of a KubeVirt control plane sends traffic only to its own Machines.
  \<open>reconcileControlPlaneLB\<close> writes the Service and Endpoints of the Cluster's load balancer and
  nothing else, and each address in the Endpoints is a non-empty address of an interface of the
  VirtualMachineInstance of a KubeVirt Machine that the control plane owns.
\<close>

theorem lb_backends_are_owned:
  assumes "reconcileControlPlaneLB E cl s = (r, s')" and "e \<in> set (new_effects s s')"
  shows "lb_effect E cl (s_kcp s) e"
  using tracesD [OF lb_trace assms(1)] assms(2) by (simp add: list_all_iff)

end
