(* ===== verification/Control_Plane_Reconcile.thy ===== *)
theory Control_Plane_Reconcile
  imports Pass_Frame Publish_Safety Teardown Load_Balancer
begin

text \<open>
  One call of \<open>KairosControlPlaneReconciler.Reconcile\<close>
  (\<open>kairoscontrolplane_controller.go\<close>), with \<open>template_ownership.go\<close>, \<open>deletionPaused\<close>
  (\<open>cleanup.go\<close>) and \<open>resolveEffectiveDistribution\<close> (\<open>ha_leave.go\<close>): the whole pass, as the
  composition of the parts the other theories model.

  The pass starts by reading the KairosControlPlane into \<open>s_kcp\<close>. A result is whether to come
  back at once and after how long. \<open>e_stored\<close> and \<open>e_generation\<close> are the status and generation in
  the server's answer to an update of the object, which the client copies over the object in
  memory.
\<close>

type_synonym pass_result = "bool \<times> duration option"

definition done_result :: pass_result where "done_result = (False, None)"


section \<open>The deferred patch\<close>

text \<open>\<open>patchHelper.Patch\<close>: on the exits that use it the pass has changed nothing but the
  observed generation since the helper was made, and an empty difference makes no request. An
  error of the patch is joined to the one of the pass.\<close>

definition flush_status :: "env \<Rightarrow> kcp \<Rightarrow> unit op" where
  "flush_status E base = bindA get_kcp (\<lambda>k.
     if ks_observed (k_status k) = ks_observed (k_status base) then ret ()
     else mgmt_write E (StatusPatched (k_status k)))"

definition with_flush :: "env \<Rightarrow> kcp \<Rightarrow> err + 'a \<Rightarrow> 'a op" where
  "with_flush E base r = bindA (tryA (flush_status E base)) (\<lambda>p. case r of
     Inl e \<Rightarrow> throw e
   | Inr x \<Rightarrow> (case p of Inl e \<Rightarrow> throw e | Inr _ \<Rightarrow> ret x))"

definition observe_generation :: "unit op" where
  "observe_generation = modA (\<lambda>s. s\<lparr>s_kcp := (s_kcp s)\<lparr>k_status := (k_status (s_kcp s))\<lparr>
     ks_observed := k_generation (s_kcp s)\<rparr>\<rparr>\<rparr>)"


section \<open>Finding the Cluster\<close>

definition paused_annotation :: string where "paused_annotation = ''cluster.x-k8s.io/paused''"

definition has_paused :: "kcp \<Rightarrow> bool" where
  "has_paused k \<longleftrightarrow> k_annotations k paused_annotation \<noteq> None"

definition is_paused :: "cluster \<Rightarrow> kcp \<Rightarrow> bool" where
  "is_paused cl k \<longleftrightarrow> c_paused cl \<or> has_paused k"

definition no_cluster :: err where "no_cluster = Failed ''no cluster-name label present''"

definition cluster_from_metadata :: "env \<Rightarrow> cluster op" where
  "cluster_from_metadata E = bindA get_kcp (\<lambda>k. case cluster_label k of
     None \<Rightarrow> throw no_cluster
   | Some cn \<Rightarrow> read_api (\<lambda>n. e_cluster E n cn))"

definition deletionPaused :: "env \<Rightarrow> bool op" where
  "deletionPaused E =
     bindA (tryA (cluster_from_metadata E)) (\<lambda>r.
     bindA get_kcp (\<lambda>k. case r of
       Inr cl \<Rightarrow> ret (is_paused cl k)
     | Inl e \<Rightarrow> if e = Api NotFound \<or> e = no_cluster then ret (has_paused k) else throw e))"

definition findClusterForControlPlane :: "env \<Rightarrow> cluster option op" where
  "findClusterForControlPlane E =
     bindA (read_api (e_clusters E)) (\<lambda>cls.
     bindA get_kcp (\<lambda>k. ret (find (\<lambda>cl. clusterControlPlaneRefMatches cl k) cls)))"

text \<open>The Cluster of the pass: found by label, found by search and then recorded in the label
  (which ends the pass), or not there yet.\<close>

datatype cluster_lookup = Found cluster | Labelled | NotYet

definition set_cluster_label :: "env \<Rightarrow> cluster \<Rightarrow> unit op" where
  "set_cluster_label E cl =
     bindA (modA (\<lambda>s. s\<lparr>s_kcp := (s_kcp s)\<lparr>k_labels := (k_labels (s_kcp s))(cluster_name_label \<mapsto> c_name cl)\<rparr>\<rparr>)) (\<lambda>_.
     mgmt_write E (LabelSet (c_name cl)))"

definition lookup_cluster :: "env \<Rightarrow> cluster_lookup op" where
  "lookup_cluster E =
     bindA (tryA (cluster_from_metadata E)) (\<lambda>r. case r of
       Inr cl \<Rightarrow> ret (Found cl)
     | Inl e \<Rightarrow>
         if e = no_cluster \<or> e = Api NotFound then
           bindA (findClusterForControlPlane E) (\<lambda>found. case found of
             None \<Rightarrow> ret NotYet
           | Some cl \<Rightarrow> bindA (set_cluster_label E cl) (\<lambda>_. ret Labelled))
         else throw e)"


section \<open>Finalizer and template ownership\<close>

definition take_stored :: "env \<Rightarrow> unit op" where
  "take_stored E = bindA tick (\<lambda>n. modA (\<lambda>s. s\<lparr>s_kcp := (s_kcp s)\<lparr>k_status := e_stored E n\<rparr>\<rparr>))"

text \<open>The result is the object the deferred patch compares with.\<close>

definition add_finalizer :: "env \<Rightarrow> kcp \<Rightarrow> kcp op" where
  "add_finalizer E base = bindA get_kcp (\<lambda>k.
     if k_finalizer k then ret base
     else
       bindA (modA (\<lambda>s. s\<lparr>s_kcp := (s_kcp s)\<lparr>k_finalizer := True\<rparr>\<rparr>)) (\<lambda>_.
       bindA (mgmt_write E FinalizerAdded) (\<lambda>_.
       bindA (take_stored E) (\<lambda>_.
       bindA get_kcp (\<lambda>stored.
       bindA (modA (\<lambda>s. s\<lparr>s_kcp := (s_kcp s)\<lparr>k_status := (k_status (s_kcp s))\<lparr>
         ks_observed := ks_observed (k_status k)\<rparr>\<rparr>\<rparr>)) (\<lambda>_.
       ret stored))))))"

definition cluster_ref :: "cluster \<Rightarrow> owner_ref" where
  "cluster_ref cl = \<lparr>or_kind = ''Cluster'', or_name = c_name cl, or_uid = c_uid cl, or_controller = False,
     or_api = ''cluster.x-k8s.io/v1beta2''\<rparr>"

text \<open>A reference to a template: kind, name and namespace.\<close>

type_synonym template_ref = "string \<times> string \<times> string"

definition ensureTemplateOwnedByCluster :: "env \<Rightarrow> template_ref \<Rightarrow> string \<Rightarrow> cluster \<Rightarrow> unit op" where
  "ensureTemplateOwnedByCluster E ref default_namespace cl = (case ref of (kind, name, ns) \<Rightarrow>
     if name = [] \<or> cut_suffix kind ''Template'' = None then ret ()
     else let namespace = (if ns = [] then default_namespace else ns) in
     if namespace \<noteq> c_namespace cl then ret ()
     else bindA (tryA (read_api (\<lambda>n. e_owners E n kind name))) (\<lambda>r. case r of
       Inl e \<Rightarrow> if e = Api NotFound \<or> e = Api NoMatch then ret () else throw e
     | Inr os \<Rightarrow>
         if e_has_owner E os (cluster_ref cl) then ret ()
         else mgmt_write E (TemplateOwned kind name (e_ensure_owner E os (cluster_ref cl)))))"

definition template_refs :: "kcp \<Rightarrow> template_ref list" where
  "template_refs k =
     (k_infra_kind k, k_infra_name k, k_infra_namespace k) #
     (if k_template k = [] then []
      else [(if k_template_kind k = [] then ''KairosConfigTemplate'' else k_template_kind k,
             k_template k, k_namespace k)])"

fun own_templates :: "env \<Rightarrow> cluster \<Rightarrow> string \<Rightarrow> template_ref list \<Rightarrow> unit op" where
  "own_templates E cl ns [] = ret ()"
| "own_templates E cl ns (ref # refs) =
     bindA (ensureTemplateOwnedByCluster E ref ns cl) (\<lambda>_. own_templates E cl ns refs)"

definition reconcileTemplateOwnerRefs :: "env \<Rightarrow> cluster \<Rightarrow> unit op" where
  "reconcileTemplateOwnerRefs E cl =
     bindA get_kcp (\<lambda>k. own_templates E cl (k_namespace k) (template_refs k))"


section \<open>The distribution\<close>

definition kubeadm_name :: string where "kubeadm_name = ''kubeadm''"

definition set_failure :: "string \<Rightarrow> unit op" where
  "set_failure reason = modA (\<lambda>s. s\<lparr>s_kcp := (s_kcp s)\<lparr>k_status := (k_status (s_kcp s))\<lparr>
     ks_failure := reason\<rparr>\<rparr>\<rparr>)"

definition update_status :: "env \<Rightarrow> unit op" where
  "update_status E = bindA get_kcp (\<lambda>k. mgmt_write E (StatusUpdated (k_status k)))"

text \<open>Both failed exits: Ready and Available False with a reason, the failure latched, and the
  status written.\<close>

definition report_failure :: "env \<Rightarrow> string \<Rightarrow> pass_result op" where
  "report_failure E reason =
     bindA (mark_false ready_cond reason SevWarning) (\<lambda>_.
     bindA (mark_false available_cond reason SevWarning) (\<lambda>_.
     bindA (set_failure reason) (\<lambda>_.
     bindA (update_status E) (\<lambda>_. ret done_result))))"

definition unsupported_distribution :: string where
  "unsupported_distribution = ''UnsupportedDistribution''"

definition refuseKubeadmControlPlane :: "env \<Rightarrow> pass_result op" where
  "refuseKubeadmControlPlane E = report_failure E unsupported_distribution"

definition persist_distribution :: "env \<Rightarrow> string \<Rightarrow> unit op" where
  "persist_distribution E d =
     bindA (modA (\<lambda>s. s\<lparr>s_kcp := (s_kcp s)\<lparr>k_distribution := d\<rparr>\<rparr>)) (\<lambda>_.
     bindA (mgmt_write E (DistributionSet d)) (\<lambda>_.
     bindA (take_stored E) (\<lambda>_.
     bindA tick (\<lambda>n.
     bindA (modA (\<lambda>s. s\<lparr>s_kcp := (s_kcp s)\<lparr>k_generation := e_generation E n\<rparr>\<rparr>)) (\<lambda>_.
     observe_generation)))))"

definition warn_override :: "env \<Rightarrow> unit op" where
  "warn_override E =
     (if \<not> e_recorder E then ret ()
      else bindA (tryA (resolveEffectiveDistribution E)) (\<lambda>r.
        bindA get_kcp (\<lambda>k. case r of
          Inl _ \<Rightarrow> ret ()
        | Inr d \<Rightarrow> if d \<noteq> [] \<and> d \<noteq> k_distribution k then event E Warning ''DistributionOverride'' else ret ())))"

text \<open>Whether the pass goes on; it stops at a kubeadm distribution.\<close>

definition settle_distribution :: "env \<Rightarrow> bool op" where
  "settle_distribution E = bindA get_kcp (\<lambda>k.
     if k_distribution k = kubeadm_name then ret False
     else if k_distribution k = [] then
       bindA (resolveEffectiveDistribution E) (\<lambda>d.
       if d = kubeadm_name then ret False
       else if d \<noteq> [] then bindA (persist_distribution E d) (\<lambda>_. ret True)
       else ret True)
     else bindA (warn_override E) (\<lambda>_. ret True))"


section \<open>The status of the pass\<close>

definition initialization_failed :: string where
  "initialization_failed = ''ControlPlaneInitializationFailed''"

text \<open>\<open>triggerClusterReconciliation\<close>: \<open>e_stamp\<close> is the annotation on the Cluster read again.\<close>

definition triggerClusterReconciliation :: "env \<Rightarrow> cluster \<Rightarrow> unit op" where
  "triggerClusterReconciliation E cl =
     bindA (read_api (e_stamp E)) (\<lambda>current.
     if current = format_rfc3339 (e_now E) then ret ()
     else bindA (tryA (mgmt_write E (ClusterTouched (c_name cl)))) (\<lambda>r. case r of
       Inl e \<Rightarrow> if e = Api Conflict then ret () else throw e
     | Inr _ \<Rightarrow> ret ()))"

definition report_status :: "env \<Rightarrow> cluster \<Rightarrow> bool \<Rightarrow> duration option \<Rightarrow> pass_result op" where
  "report_status E cl was_initialized machines_result =
     bindA (updateStatus E cl) (\<lambda>_.
     bindA (modA (\<lambda>s. s\<lparr>s_kcp := ready_conditions (c_endpoint_valid cl) (s_kcp s)\<rparr>)) (\<lambda>_.
     bindA (setHAConditions E (c_endpoint_valid cl)) (\<lambda>_.
     bindA (modA (\<lambda>s. s\<lparr>s_kcp := markWorkloadIdentityConditions (s_kcp s)\<rparr>)) (\<lambda>_.
     bindA (tryA (update_status E)) (\<lambda>r. case r of
       Inl e \<Rightarrow> if e = Api Conflict then ret (True, None) else throw e
     | Inr _ \<Rightarrow>
         bindA get_kcp (\<lambda>k.
         bindA (if \<not> was_initialized \<and> ks_initialized (k_status k)
                then bindA (tryA (triggerClusterReconciliation E cl)) (\<lambda>_. ret ())
                else ret ()) (\<lambda>_.
         ret (False, machines_result))))))))"

definition publish_and_report :: "env \<Rightarrow> cluster \<Rightarrow> duration option \<Rightarrow> pass_result op" where
  "publish_and_report E cl machines_result =
     bindA (set_failure []) (\<lambda>_.
     bindA get_kcp (\<lambda>k.
     bindA (if isKubevirtControlPlane k
            then bindA (tryA (reconcileControlPlaneLB E cl)) (\<lambda>_. ret ()) else ret ()) (\<lambda>_.
     bindA (reconcileKubeconfig E cl) (\<lambda>_.
     report_status E cl (ks_initialized (k_status k)) machines_result))))"


section \<open>The pass\<close>

definition reconcile_cluster :: "env \<Rightarrow> cluster \<Rightarrow> pass_result op" where
  "reconcile_cluster E cl =
     bindA (reconcileTemplateOwnerRefs E cl) (\<lambda>_.
     bindA (settle_distribution E) (\<lambda>supported.
     if \<not> supported then refuseKubeadmControlPlane E
     else bindA (tryA (reconcileMachines E cl)) (\<lambda>r. case r of
       Inl _ \<Rightarrow> report_failure E initialization_failed
     | Inr machines_result \<Rightarrow> publish_and_report E cl machines_result)))"

definition reconcile_deletion :: "env \<Rightarrow> kcp \<Rightarrow> pass_result op" where
  "reconcile_deletion E base =
     bindA (deletionPaused E) (\<lambda>paused.
     if paused then with_flush E base (Inr done_result)
     else bindA (reconcileDelete E) (\<lambda>(after, skip, e).
       let r = (case e of Some x \<Rightarrow> Inl x | None \<Rightarrow> Inr (False, after)) in
       if skip then (case r of Inl x \<Rightarrow> throw x | Inr v \<Rightarrow> ret v)
       else with_flush E base r))"

definition reconcile_live :: "env \<Rightarrow> kcp \<Rightarrow> pass_result op" where
  "reconcile_live E base0 =
     bindA (add_finalizer E base0) (\<lambda>base.
     bindA (lookup_cluster E) (\<lambda>found. case found of
       Labelled \<Rightarrow> ret (True, None)
     | NotYet \<Rightarrow> with_flush E base (Inr done_result)
     | Found cl \<Rightarrow> bindA get_kcp (\<lambda>k.
         if is_paused cl k then with_flush E base (Inr done_result)
         else reconcile_cluster E cl)))"

definition reconcile_object :: "env \<Rightarrow> pass_result op" where
  "reconcile_object E =
     bindA get_kcp (\<lambda>base.
     bindA observe_generation (\<lambda>_.
     if k_deletion base \<noteq> None then reconcile_deletion E base
     else reconcile_live E base))"

definition Reconcile :: "env \<Rightarrow> string \<Rightarrow> pass_result op" where
  "Reconcile E name =
     bindA (tryA (read_api (\<lambda>n. e_kcp E n name))) (\<lambda>r. case r of
       Inl e \<Rightarrow> if e = Api NotFound then ret done_result else throw e
     | Inr k \<Rightarrow> bindA (modA (\<lambda>s. s\<lparr>s_kcp := k\<rparr>)) (\<lambda>_. reconcile_object E))"



section \<open>What wakes the reconciler\<close>

text \<open>The mapping functions of the watches: the name and namespace to reconcile. A Secret is
  watched by its metadata only, so it is its labels and namespace here.\<close>

type_synonym request = "string \<times> string"

definition machineToKairosControlPlane :: "machine \<Rightarrow> request option" where
  "machineToKairosControlPlane m =
     (if m_labels m control_plane_label = None then None
      else case controller_of m of
        None \<Rightarrow> None
      | Some r \<Rightarrow> if or_kind r \<noteq> kcp_kind \<or> or_api r \<noteq> kcp_api then None
          else Some (or_name r, m_namespace m))"

definition clusterToKairosControlPlane :: "cluster \<Rightarrow> request option" where
  "clusterToKairosControlPlane cl = (case c_ref cl of
     None \<Rightarrow> None
   | Some (apiGroup, kind, name) \<Rightarrow>
       if kind \<noteq> kcp_kind \<or> (apiGroup \<noteq> [] \<and> apiGroup \<noteq> kcp_group) then None
       else Some (name, c_namespace cl))"

definition secretToKairosControlPlane :: "env \<Rightarrow> (string \<rightharpoonup> string) \<Rightarrow> string \<Rightarrow> request option op" where
  "secretToKairosControlPlane E labels ns =
     (if ann labels cluster_name_label = [] then ret None
      else bindA (tryA (read_api (\<lambda>n. e_cluster E n (ann labels cluster_name_label)))) (\<lambda>r. case r of
        Inl _ \<Rightarrow> ret None
      | Inr cl \<Rightarrow> (case c_ref cl of
          None \<Rightarrow> ret None
        | Some (apiGroup, kind, name) \<Rightarrow> if kind \<noteq> kcp_kind then ret None else ret (Some (name, ns)))))"

text \<open>A Cluster that names this control plane wakes it, and so does a Secret labelled with it.\<close>

lemma cluster_wakes:
  "clusterControlPlaneRefMatches cl k \<longleftrightarrow>
     (\<exists>ns. clusterToKairosControlPlane cl = Some (k_name k, ns))"
  by (auto simp: clusterControlPlaneRefMatches_def clusterToKairosControlPlane_def split: option.splits)

lemma secret_wakes:
  assumes "ann labels cluster_name_label = cn" "cn \<noteq> []" "\<And>n. e_cluster E n cn = Inr cl"
    and "clusterControlPlaneRefMatches cl k"
  shows "fst (secretToKairosControlPlane E labels ns s) = Inr (Some (k_name k, ns))"
  using assms
  by (auto simp: secretToKairosControlPlane_def clusterControlPlaneRefMatches_def bindA_def tryA_def read_api_def
      tick_def ret_def split: option.splits)

end
