(* ===== verification/Reconcile_Safety.thy ===== *)
theory Reconcile_Safety
  imports Control_Plane_Reconcile Membership_Change
begin

text \<open>
  What a whole call of \<open>Reconcile\<close> guarantees: how many Machines it creates or deletes, what it
  does while paused, what it may write into the status, and what it never writes into the
  specification. The guarantees of the parts (\<open>Membership_Change\<close>, \<open>Publish_Safety\<close>,
  \<open>Load_Balancer\<close>) are composed here.
\<close>


section \<open>The parts that write neither Machines nor the status\<close>

abbreviation calm :: "st \<Rightarrow> st \<Rightarrow> bool" where
  "calm \<equiv> logs_only quiet_effect"

lemma still_calm: "guards still m \<Longrightarrow> guards calm m"
  by (simp add: guards_def still_def)

lemma kubeconfig_still: "guards still (reconcileKubeconfig E cl)"
proof -
  have patch: "guards still (patch_in_place E kvs rm)" for kvs rm
    unfolding patch_in_place_def guards_wpa wpa_simps still_def
    by (auto intro: logs_same logs_grow [where es = "[KcpPatched kvs rm]"] split: option.splits)
  have mods: "guards still (set_last_push t)" for t
    unfolding set_last_push_def guards_wpa wpa_simps still_def by (simp add: logs_same)
  have cond: "guards still (modA (\<lambda>s. s\<lparr>s_kcp := set_cond t c (s_kcp s)\<rparr>))" for t c
    unfolding guards_wpa wpa_simps still_def by (simp add: logs_same)
  have rejected: "guards still (case x of Expired \<Rightarrow> a | _ \<Rightarrow> b)"
    if "guards still a" "guards still b" for x and a b :: "bool op"
    using that by (cases x) simp_all
  have server: "guards still (resolveExpectedServer E k cl)" for k
    unfolding resolveExpectedServer_def controlPlaneLBEndpoint_def
    by (intro still.flow guards_intros still_rules)
  show ?thesis
    unfolding reconcileKubeconfig_def with_server_def publish_or_wait_def ensureStagingKubeconfigSecret_def
      reconcileContractKubeconfig_def handleContractRejection_def recover_from_staging_def
      publishFromStaging_def accept_candidate_def neutralizeContract_def writeContract_def
      markKubeconfigReadyOrExpired_def markWaitingForNodePush_def markKubeconfigFalse_def
      setCAPinAnnotation_def consumeRepinAnnotation_def Let_def
    by (intro still.flow guards_intros still_rules patch mods cond rejected server; simp)
qed

lemma lb_calm: "guards calm (reconcileControlPlaneLB E cl)"
proof -
  have "quiet_effect e" if "lb_effect E cl k e" for k e
    using that by (cases e) (simp_all add: lb_effect_def)
  then have "traces (\<lambda>k k' r es. list_all quiet_effect es) (reconcileControlPlaneLB E cl)"
    by (intro traces_mono [OF lb_trace]) (auto simp: list_all_iff)
  then show ?thesis unfolding traces_def guards_wpa logs_only_def .
qed

lemma calm_writes:
  "quiet_effect e \<Longrightarrow> guards calm (mgmt_write E e)" "guards calm (event E t reason)"
  by (rule still_calm, rule still_writes, assumption) (rule still_calm, rule still_writes)

lemma calm_mod: "(\<And>s. s_log (f s) = s_log s) \<Longrightarrow> guards calm (modA f)"
  unfolding guards_wpa wpa_simps by (simp add: logs_same)

lemma tick_calm: "guards calm tick"
  unfolding guards_wpa wpa_simps by (simp add: logs_same)

lemma mark_calm: "guards calm (mark_true t)" "guards calm (mark_false t reason sev)"
  unfolding mark_true_def mark_false_def by (rule calm_mod, simp)+

lemmas reads_calm = silent_rules [THEN silent_still, THEN still_calm]

lemma steps_calm:
  "guards calm (flush_status E base)" "guards calm (with_flush E base r)" "guards calm observe_generation"
  "guards calm (deletionPaused E)" "guards calm (lookup_cluster E)" "guards calm (add_finalizer E base)"
  "guards calm (reconcileTemplateOwnerRefs E cl)" "guards calm (settle_distribution E)"
  "guards calm (set_failure reason)" "guards calm (triggerClusterReconciliation E cl)"
  "guards calm (updateStatus E cl)" "guards calm (setHAConditions E ep)"
proof -
  note rules = logs.flow guards_intros calm_writes calm_mod tick_calm mark_calm reads_calm
  show flush: "guards calm (flush_status E base)"
    unfolding flush_status_def by (intro rules) simp
  show "guards calm (with_flush E base r)"
    unfolding with_flush_def by (intro rules flush)
  show obs: "guards calm observe_generation"
    unfolding observe_generation_def by (intro rules) simp
  show meta: "guards calm (deletionPaused E)"
    unfolding deletionPaused_def cluster_from_metadata_def by (intro rules)
  show "guards calm (lookup_cluster E)"
    unfolding lookup_cluster_def cluster_from_metadata_def findClusterForControlPlane_def set_cluster_label_def
    by (intro rules; simp)
  show "guards calm (add_finalizer E base)"
    unfolding add_finalizer_def take_stored_def by (intro rules; simp)
  have ensure: "guards calm (ensureTemplateOwnedByCluster E ref ns cl)" for ref ns
    unfolding ensureTemplateOwnedByCluster_def Let_def by (cases ref) (simp only: prod.case, intro rules; simp)
  have own: "guards calm (own_templates E cl ns refs)" for ns refs
  proof (induction refs)
    case Nil
    show ?case unfolding own_templates.simps by (intro rules)
  next
    case (Cons ref refs)
    show ?case unfolding own_templates.simps by (intro rules ensure Cons)
  qed
  then show "guards calm (reconcileTemplateOwnerRefs E cl)"
    unfolding reconcileTemplateOwnerRefs_def by (intro rules)
  have resolve: "guards calm (resolveEffectiveDistribution E)"
    unfolding resolveEffectiveDistribution_def by (intro rules)
  show "guards calm (settle_distribution E)"
    unfolding settle_distribution_def persist_distribution_def warn_override_def take_stored_def
    by (intro rules resolve obs; simp)
  show "guards calm (set_failure reason)"
    unfolding set_failure_def by (intro rules) simp
  show "guards calm (triggerClusterReconciliation E cl)"
    unfolding triggerClusterReconciliation_def by (intro rules; simp)
  show "guards calm (updateStatus E cl)"
    unfolding updateStatus_def initialize_status_def mark_initialized_def by (intro rules; simp)
  show "guards calm (setHAConditions E ep)"
    unfolding setHAConditions_def by (intro rules; simp)
qed



section \<open>At most one Machine per pass\<close>

abbreviation fixed :: "st \<Rightarrow> st \<Rightarrow> bool" where
  "fixed \<equiv> logs_only (\<lambda>e. \<not> machine_change e)"

definition one_change :: "st \<Rightarrow> st \<Rightarrow> bool" where
  "one_change s s' \<longleftrightarrow> (\<exists>es. s_log s' = s_log s @ es \<and> length (filter machine_change es) \<le> 1)"

lemma guards_mono: "guards R m \<Longrightarrow> (\<And>s s'. R s s' \<Longrightarrow> S s s') \<Longrightarrow> guards S m"
  by (simp add: guards_def)

lemma fixed_log: "fixed s s' \<longleftrightarrow> (\<exists>es. s_log s' = s_log s @ es \<and> filter machine_change es = [])"
  by (auto simp: logs_only_def list_all_iff filter_empty_conv)

lemma calm_fixed: "guards calm m \<Longrightarrow> guards fixed m"
  by (erule guards_mono) (auto simp: logs_only_def list_all_iff)

lemma fixed_one_change: "fixed s s' \<Longrightarrow> one_change s s'"
  unfolding fixed_log one_change_def by (elim exE conjE) (rule exI, rule conjI, assumption, simp)

lemma one_then_fixed: "one_change s s1 \<Longrightarrow> fixed s1 s2 \<Longrightarrow> one_change s s2"
  and fixed_then_one: "fixed s s1 \<Longrightarrow> one_change s1 s2 \<Longrightarrow> one_change s s2"
  by (auto simp: fixed_log one_change_def)

lemma one_before:
  assumes "guards one_change m" "\<And>x. guards fixed (f x)"
  shows "guards one_change (bindA m f)"
  unfolding guards_wpa wpa_bind
proof
  fix s
  obtain r s1 where run: "m s = (r, s1)" by (cases "m s")
  have one: "one_change s s1" by (rule guardsD [OF assms(1) run])
  have "one_change s s2" if "f x s1 = (r2, s2)" for x r2 s2
    by (rule one_then_fixed [OF one guardsD [OF assms(2) that]])
  with one show "wpa m (\<lambda>r s'. case r of Inl e \<Rightarrow> one_change s s' | Inr x \<Rightarrow> wpa (f x) (\<lambda>_. one_change s) s') s"
    by (auto simp: wpa_def run split: sum.splits prod.splits)
qed

lemma one_after:
  assumes "guards fixed m" "\<And>x. guards one_change (f x)"
  shows "guards one_change (bindA m f)"
  unfolding guards_wpa wpa_bind
proof
  fix s
  obtain r s1 where run: "m s = (r, s1)" by (cases "m s")
  have fixed: "fixed s s1" by (rule guardsD [OF assms(1) run])
  have "one_change s s2" if "f x s1 = (r2, s2)" for x r2 s2
    by (rule fixed_then_one [OF fixed guardsD [OF assms(2) that]])
  with fixed_one_change [OF fixed]
  show "wpa m (\<lambda>r s'. case r of Inl e \<Rightarrow> one_change s s' | Inr x \<Rightarrow> wpa (f x) (\<lambda>_. one_change s) s') s"
    by (auto simp: wpa_def run split: sum.splits prod.splits)
qed

lemma try_one: "guards one_change m \<Longrightarrow> guards one_change (tryA m)"
  by (auto simp: guards_wpa wpa_simps)

text \<open>The reporting ends of a pass.\<close>

lemma report_fixed:
  "guards fixed (update_status E)" "guards fixed (report_failure E reason)"
  "guards fixed (report_status E cl was res)" "guards fixed (publish_and_report E cl res)"
proof -
  note rules = logs.flow guards_intros steps_calm [THEN calm_fixed] mark_calm [THEN calm_fixed]
    calm_mod [THEN calm_fixed] reads_calm [THEN calm_fixed]
  show update: "guards fixed (update_status E)"
    unfolding update_status_def guards_wpa wpa_simps
    by (auto split: option.splits intro: logs_same logs_grow [where es = "[StatusUpdated ks]" for ks])
  show "guards fixed (report_failure E reason)"
    unfolding report_failure_def by (intro rules update)
  show report: "guards fixed (report_status E cl was res)" for was
    unfolding report_status_def by (intro rules update) simp_all
  show "guards fixed (publish_and_report E cl res)"
    unfolding publish_and_report_def
    by (intro rules report lb_calm [THEN calm_fixed] kubeconfig_still [THEN still_calm, THEN calm_fixed])
qed

definition short_lists :: "env \<Rightarrow> bool" where
  "short_lists E \<longleftrightarrow> (\<forall>n ms. e_machines E n = Inr ms \<longrightarrow> int (length ms) \<le> int32_max)"

lemma machines_one: "short_lists E \<Longrightarrow> guards one_change (reconcileMachines E cl)"
proof -
  assume "short_lists E"
  then have "wpa (reconcileMachines E cl) (\<lambda>_. pass_fine E cl s) s" for s
    by (intro machines_pass_fine) (simp add: short_lists_def)
  moreover have "one_change s s'" if "pass_fine E cl s s'" for s s'
    using that by (auto simp: pass_fine_def one_change_def pass_change_def)
  ultimately show ?thesis unfolding guards_wpa by (blast intro: wpa_weaken)
qed

lemma reconcile_live_one:
  assumes "short_lists E"
  shows "guards one_change (reconcile_live E base)"
proof -
  note fixed_ops = steps_calm [THEN calm_fixed] report_fixed
  have unchanged: "guards one_change m" if "guards fixed m" for m :: "'a op"
    by (rule guards_mono [OF that fixed_one_change])
  have cluster: "guards one_change (reconcile_cluster E cl)" for cl
    unfolding reconcile_cluster_def refuseKubeadmControlPlane_def
    by (intro one_after fixed_ops guards_intros one_before try_one machines_one [OF assms])
      (intro unchanged fixed_ops)
  have pause: "guards one_change (bindA get_kcp (\<lambda>k. if is_paused cl k then with_flush E b (Inr done_result)
      else reconcile_cluster E cl))" for cl b
    by (intro one_after guards_intros cluster unchanged fixed_ops reads_calm [THEN calm_fixed])
  show ?thesis
    unfolding reconcile_live_def
  proof (intro one_after fixed_ops)
    fix b found
    show "guards one_change (case found of Found cl \<Rightarrow> bindA get_kcp (\<lambda>k. if is_paused cl k
        then with_flush E b (Inr done_result) else reconcile_cluster E cl)
      | Labelled \<Rightarrow> ret (True, None) | NotYet \<Rightarrow> with_flush E b (Inr done_result))"
      by (cases found) (simp_all add: pause unchanged fixed_ops logs.flow)
  qed
qed

lemma reconcile_wpa:
  assumes "\<And>n k s1. e_kcp E n name = Inr k \<Longrightarrow> s_log s1 = s_log s \<Longrightarrow> s_kcp s1 = k \<Longrightarrow>
      wpa (reconcile_object E) Q s1"
    and "\<And>r s1. s_log s1 = s_log s \<Longrightarrow> Q r s1"
  shows "wpa (Reconcile E name) Q s"
  unfolding Reconcile_def by (auto simp: wpa_simps split: sum.splits intro!: assms)

text \<open>
  C14: a whole reconcile of a control plane that is not being deleted creates or deletes at most
  one Machine, whatever else it does on the way: labelling, taking over templates, publishing
  the kubeconfig, the load balancer, and whichever way it ends, errors included.
\<close>

theorem reconcile_changes_one_machine:
  assumes "Reconcile E name s = (r, s')" and "short_lists E"
    and "\<forall>n k. e_kcp E n name = Inr k \<longrightarrow> k_deletion k = None"
  shows "length (filter machine_change (new_effects s s')) \<le> 1"
proof -
  have "wpa (Reconcile E name) (\<lambda>_ s'. one_change s s') s"
  proof (rule reconcile_wpa)
    fix n k and s1 :: st
    assume k: "e_kcp E n name = Inr k" "s_log s1 = s_log s" "s_kcp s1 = k"
    then have alive: "k_deletion (s_kcp s1) = None" using assms(3) by blast
    have live: "wpa (reconcile_live E b) (\<lambda>_ s'. one_change s s') s2" if "s_log s2 = s_log s" for b and s2 :: st
    proof -
      have "wpa (reconcile_live E b) (\<lambda>_. one_change s2) s2"
        using reconcile_live_one [OF assms(2)] by (simp add: guards_wpa)
      then show ?thesis by (rule wpa_weaken) (simp add: one_change_def that)
    qed
    show "wpa (reconcile_object E) (\<lambda>_ s'. one_change s s') s1"
      unfolding reconcile_object_def observe_generation_def
      by (auto simp: wpa_simps alive k(2) intro!: live)
  qed (simp add: one_change_def)
  then have "one_change s s'" using assms(1) by (simp add: wpa_def)
  then show ?thesis by (auto simp: one_change_def)
qed


section \<open>A paused Cluster\<close>

fun hold_effect :: "effect \<Rightarrow> bool" where
  "hold_effect FinalizerAdded = True"
| "hold_effect (LabelSet _) = True"
| "hold_effect (StatusPatched _) = True"
| "hold_effect _ = False"

text \<open>Paused by its own annotation, or by a Cluster that its label names and that is there.\<close>

definition paused_for :: "env \<Rightarrow> kcp \<Rightarrow> bool" where
  "paused_for E k \<longleftrightarrow> has_paused k \<or> (\<exists>cn. cluster_label k = Some cn \<and>
     (\<forall>n. case e_cluster E n cn of Inr cl \<Rightarrow> c_paused cl | Inl e \<Rightarrow> e \<noteq> NotFound))"

definition same_meta :: "kcp \<Rightarrow> kcp \<Rightarrow> bool" where
  "same_meta k k' \<longleftrightarrow> k_annotations k' = k_annotations k \<and> k_labels k' = k_labels k"

lemma paused_same: "same_meta k k' \<Longrightarrow> paused_for E k' = paused_for E k"
  by (simp add: same_meta_def paused_for_def has_paused_def cluster_label_def)

lemma flush_trace:
  "traces (\<lambda>k k' r es. k' = k \<and> list_all hold_effect es) (flush_status E base)"
  unfolding traces_def flush_status_def by (auto simp: wpa_simps split: option.splits)

lemma with_flush_trace:
  "traces (\<lambda>k k' r es. k' = k \<and> list_all hold_effect es) (with_flush E base r)"
  unfolding traces_def with_flush_def
  by (auto simp: wpa_simps split: sum.splits intro!: traces_wpa [OF flush_trace])

lemma finalizer_trace:
  "traces (\<lambda>k k' r es. same_meta k k' \<and> list_all hold_effect es) (add_finalizer E base)"
  unfolding traces_def add_finalizer_def take_stored_def
  by (auto simp: wpa_simps same_meta_def split: option.splits)

lemma metadata_trace:
  "traces (\<lambda>k k' r es. k' = k \<and> es = [] \<and> (case r of
      Inr cl \<Rightarrow> paused_for E k \<longrightarrow> is_paused cl k
    | Inl e \<Rightarrow> paused_for E k \<and> (e = Api NotFound \<or> e = no_cluster) \<longrightarrow> has_paused k))
   (cluster_from_metadata E)"
  unfolding traces_def cluster_from_metadata_def
  by (auto simp: wpa_simps paused_for_def is_paused_def no_cluster_def split: option.splits sum.splits)

lemma deletion_paused_trace:
  "traces (\<lambda>k k' r es. k' = k \<and> es = [] \<and> (paused_for E k \<longrightarrow> r \<noteq> Inr False)) (deletionPaused E)"
  unfolding traces_def deletionPaused_def
  by (auto simp: wpa_simps is_paused_def split: sum.splits intro!: traces_wpa [OF metadata_trace])

lemma lookup_trace:
  "traces (\<lambda>k k' r es. (\<forall>cl. r = Inr (Found cl) \<longrightarrow> k' = k \<and> (paused_for E k \<longrightarrow> is_paused cl k)) \<and>
     list_all hold_effect es) (lookup_cluster E)"
  unfolding traces_def lookup_cluster_def findClusterForControlPlane_def set_cluster_label_def
  by (auto simp: wpa_simps split: sum.splits option.splits intro!: traces_wpa [OF metadata_trace])

lemma deletion_held:
  "paused_for E (s_kcp s) \<Longrightarrow> wpa (reconcile_deletion E base) (\<lambda>_ s'. logs_only hold_effect s s') s"
  unfolding reconcile_deletion_def
  by (auto simp: wpa_simps logs_only_def intro!: traces_wpa [OF deletion_paused_trace]
      traces_wpa [OF with_flush_trace] split: sum.splits)

lemma live_held:
  "paused_for E (s_kcp s) \<Longrightarrow> wpa (reconcile_live E base) (\<lambda>_ s'. logs_only hold_effect s s') s"
  unfolding reconcile_live_def
  by (auto simp: wpa_simps logs_only_def paused_same intro!: traces_wpa [OF finalizer_trace]
      traces_wpa [OF lookup_trace] traces_wpa [OF with_flush_trace] split: sum.splits cluster_lookup.splits)

text \<open>
  C15: while a control plane or its Cluster is paused, a reconcile touches neither a Machine nor
  the workload cluster nor a Secret nor a template, also when the control plane is being
  deleted. All it may do is add its finalizer, record the Cluster it found in its label and
  patch its status.
\<close>

theorem paused_pass_is_quiet:
  assumes "Reconcile E name s = (r, s')" and "\<forall>n k. e_kcp E n name = Inr k \<longrightarrow> paused_for E k"
    and "e \<in> set (new_effects s s')"
  shows "hold_effect e"
proof -
  have "wpa (Reconcile E name) (\<lambda>_ s'. logs_only hold_effect s s') s"
  proof (rule reconcile_wpa)
    fix n k and s1 :: st
    assume k: "e_kcp E n name = Inr k" "s_log s1 = s_log s" "s_kcp s1 = k"
    let ?k = "(s_kcp s1)\<lparr>k_status := (k_status (s_kcp s1))\<lparr>ks_observed := k_generation (s_kcp s1)\<rparr>\<rparr>"
    have "same_meta (s_kcp s1) ?k" by (simp add: same_meta_def)
    then have paused: "paused_for E ?k" using paused_same assms(2) k(1,3) by blast
    then show "wpa (reconcile_object E) (\<lambda>_ s'. logs_only hold_effect s s') s1"
      using deletion_held [of E "s1\<lparr>s_kcp := ?k\<rparr>"] live_held [of E "s1\<lparr>s_kcp := ?k\<rparr>"] k(2)
      unfolding reconcile_object_def observe_generation_def
      by (auto simp: wpa_simps logs_only_def)
  qed (simp add: logs_same)
  then have "logs_only hold_effect s s'" using assms(1) by (simp add: wpa_def)
  then show ?thesis using assms(3) by (rule logs_onlyD)
qed



section \<open>The status that is written\<close>

abbreviation unreported :: "st \<Rightarrow> st \<Rightarrow> bool" where
  "unreported \<equiv> logs_only (\<lambda>e. \<not> status_write e)"

lemma calm_unreported: "guards calm m \<Longrightarrow> guards unreported m"
  by (erule guards_mono) (auto simp: logs_only_def list_all_iff)

lemma still_unreported: "guards still m \<Longrightarrow> guards unreported m"
  by (rule calm_unreported [OF still_calm])

lemma machines_unreported: "guards unreported (reconcileMachines E cl)"
proof -
  note rules = logs.flow guards_intros still_rules [THEN still_unreported]
    silent_rules [THEN silent_still, THEN still_unreported]
  have create: "guards unreported (createControlPlaneMachine E cl role tok)" for role tok
    by (rule create_logs) simp_all
  have delete: "guards unreported (deleteControlPlaneMachine E m)" for m
    unfolding deleteControlPlaneMachine_def refuse_if_frozen_def guards_wpa
    by (auto simp: wpa_simps split: option.splits intro: logs_same logs_grow [where es = "[MachineDeleted (m_name m)]"])
  have member: "guards unreported (add_member E cl ms desired)" "guards unreported (remove_member E target)"
    for ms desired target
    unfolding add_member_def remove_member_def come_back_def Let_def by (intro rules create delete)+
  have roll: "guards unreported (reconcileRollout E cl ms plan)" for ms plan
    unfolding reconcileRollout_def Let_def by (intro rules member)
  have scale: "guards unreported (scale_or_roll E cl ms desired)" for ms desired
    unfolding scale_or_roll_def Let_def by (intro rules member roll)
  show ?thesis
    unfolding reconcileMachines_def reconcile_listed_def change_membership_def orphans_then_scale_def
      come_back_def Let_def
    by (intro rules scale)
qed

definition cond_holds :: "kstatus \<Rightarrow> string \<Rightarrow> bool" where
  "cond_holds st t = (case ks_conds st t of None \<Rightarrow> False | Some c \<Rightarrow> cd_status c)"

definition backed :: "kstatus \<Rightarrow> bool" where
  "backed st \<longleftrightarrow> (cond_holds st ready_cond \<longrightarrow> ks_initialized st \<and> 0 < ks_ready st) \<and>
     (cond_holds st available_cond \<longrightarrow> ks_initialized st)"

definition honest :: "kcp \<Rightarrow> bool" where
  "honest k \<longleftrightarrow> backed (k_status k) \<and>
     (frozen k \<longrightarrow> \<not> cond_holds (k_status k) ready_cond \<and> \<not> cond_holds (k_status k) available_cond)"

lemma cond_names [simp]: "ready_cond \<noteq> available_cond" "available_cond \<noteq> ready_cond"
  "joined_cond \<noteq> ready_cond" "joined_cond \<noteq> available_cond"
  "etcd_healthy_cond \<noteq> ready_cond" "etcd_healthy_cond \<noteq> available_cond"
  "ready_cond \<noteq> joined_cond" "available_cond \<noteq> joined_cond"
  "ready_cond \<noteq> etcd_healthy_cond" "available_cond \<noteq> etcd_healthy_cond"
  by (simp_all add: ready_cond_def available_cond_def joined_cond_def etcd_healthy_cond_def)

lemma cond_holds_set [simp]:
  "cond_holds (k_status (set_cond t c k)) t' = (if t' = t then cd_status c else cond_holds (k_status k) t')"
  "ks_initialized (k_status (set_cond t c k)) = ks_initialized (k_status k)"
  "ks_ready (k_status (set_cond t c k)) = ks_ready (k_status k)"
  "k_annotations (set_cond t c k) = k_annotations k"
  by (simp_all add: cond_holds_def set_cond_def)

lemma cond_holds_failure [simp]: "cond_holds (st\<lparr>ks_failure := x\<rparr>) t = cond_holds st t"
  by (simp add: cond_holds_def)

lemma cond_status [simp]: "cd_status cond_true" "\<not> cd_status (cond_false reason sev)"
  by (simp_all add: cond_true_def cond_false_def)

lemma ready_backed: "backed (k_status (ready_conditions ep k))"
  by (simp add: ready_conditions_def Let_def backed_def)

lemma ha_backed:
  "backed (k_status (s_kcp s)) \<Longrightarrow> wpa (setHAConditions E ep) (\<lambda>_ s'. backed (k_status (s_kcp s')) \<and> s_log s' = s_log s) s"
  unfolding setHAConditions_def readEtcdStatus_def
  by (auto simp: wpa_simps backed_def split: sum.splits)

lemma marked_honest: "backed (k_status k) \<Longrightarrow> honest (markWorkloadIdentityConditions k)"
proof -
  assume b: "backed (k_status k)"
  have frozen: "frozen (markWorkloadIdentityConditions k) \<longleftrightarrow> workloadIdentityFrozen k \<noteq> None"
    by (simp add: markWorkloadIdentityConditions_def frozen_def workloadIdentityFrozen_def split: option.splits)
  show ?thesis
    unfolding honest_def frozen using b
    by (auto simp: markWorkloadIdentityConditions_def backed_def)
qed

text \<open>Every status an operation writes is the one in memory, and honest.\<close>

definition writes_honest :: "'a trace_pred" where
  "writes_honest k k' r es \<longleftrightarrow>
     (\<forall>st. StatusUpdated st \<in> set es \<longrightarrow> st = k_status k' \<and> honest k')"

lemma unreported_honest: "guards unreported m \<Longrightarrow> traces writes_honest m"
  by (drule traces_logs, erule traces_mono) (auto simp: writes_honest_def list_all_iff)

lemma honest_after:
  assumes "guards unreported m" "\<And>x. traces writes_honest (f x)"
  shows "traces writes_honest (bindA m f)"
  by (rule traces_bind [OF traces_logs [OF assms(1)] assms(2)]) (auto simp: writes_honest_def list_all_iff)

lemma update_honest:
  "honest (s_kcp s) \<Longrightarrow> wpa (update_status E) (\<lambda>r s'. s_kcp s' = s_kcp s \<and>
     (s_log s' = s_log s \<or> s_log s' = s_log s @ [StatusUpdated (k_status (s_kcp s))])) s"
  unfolding update_status_def by (auto simp: wpa_simps split: option.splits)

lemma failure_honest: "traces writes_honest (report_failure E reason)"
  unfolding traces_def report_failure_def mark_false_def set_failure_def
  by (auto simp: wpa_simps writes_honest_def honest_def backed_def split: sum.splits
      intro!: wpa_weaken [OF update_honest])

lemma trigger_trace:
  "traces (\<lambda>k k' r es. k' = k \<and> (\<forall>st. StatusUpdated st \<notin> set es)) (triggerClusterReconciliation E cl)"
  unfolding traces_def triggerClusterReconciliation_def by (auto simp: wpa_simps split: option.splits sum.splits)

lemma status_honest: "traces writes_honest (report_status E cl was res)"
proof -
  let ?tail = "bindA (setHAConditions E (c_endpoint_valid cl)) (\<lambda>_.
     bindA (modA (\<lambda>s. s\<lparr>s_kcp := markWorkloadIdentityConditions (s_kcp s)\<rparr>)) (\<lambda>_.
     bindA (tryA (update_status E)) (\<lambda>r. case r of
       Inl e \<Rightarrow> if e = Api Conflict then ret (True, None) else throw e
     | Inr _ \<Rightarrow> bindA get_kcp (\<lambda>k.
         bindA (if \<not> was \<and> ks_initialized (k_status k)
                then bindA (tryA (triggerClusterReconciliation E cl)) (\<lambda>_. ret ())
                else ret ()) (\<lambda>_. ret (False, res))))))"
  have tail: "wpa ?tail (\<lambda>r s'. \<exists>es. s_log s' = s_log s @ es \<and> writes_honest k (s_kcp s') r es) s"
    if "backed (k_status (s_kcp s))" for k and s :: st
    by (auto simp: wpa_simps writes_honest_def marked_honest list_all_iff that split: sum.splits
        intro!: wpa_weaken [OF ha_backed] wpa_weaken [OF update_honest] traces_wpa [OF trigger_trace])
  have "traces writes_honest (bindA (modA (\<lambda>s. s\<lparr>s_kcp := ready_conditions (c_endpoint_valid cl) (s_kcp s)\<rparr>)) (\<lambda>_. ?tail))"
    unfolding traces_def
  proof (intro allI)
    fix s
    show "wpa (bindA (modA (\<lambda>s. s\<lparr>s_kcp := ready_conditions (c_endpoint_valid cl) (s_kcp s)\<rparr>)) (\<lambda>_. ?tail))
        (\<lambda>r s'. \<exists>es. s_log s' = s_log s @ es \<and> writes_honest (s_kcp s) (s_kcp s') r es) s"
      using tail [of "s\<lparr>s_kcp := ready_conditions (c_endpoint_valid cl) (s_kcp s)\<rparr>" "s_kcp s"] ready_backed
      by (simp add: wpa_bind [of "modA f" for f] wpa_mod)
  qed
  then show ?thesis
    unfolding report_status_def by (rule honest_after [OF steps_calm(11) [THEN calm_unreported]])
qed

lemma cluster_honest: "traces writes_honest (reconcile_cluster E cl)"
proof -
  note calm_step = steps_calm [THEN calm_unreported]
  have publish: "traces writes_honest (publish_and_report E cl res)" for res
  proof -
    have lb: "guards unreported (if isKubevirtControlPlane k
        then bindA (tryA (reconcileControlPlaneLB E cl)) (\<lambda>_. ret ()) else ret ())" for k
      by (intro logs.flow guards_intros lb_calm [THEN calm_unreported])
    show ?thesis
      unfolding publish_and_report_def
      by (intro honest_after calm_step lb kubeconfig_still [THEN still_unreported] status_honest
          guards_intros reads_calm [THEN calm_unreported])
  qed
  have rest: "traces writes_honest (bindA (tryA (reconcileMachines E cl)) (\<lambda>r. case r of
      Inl _ \<Rightarrow> report_failure E initialization_failed
    | Inr res \<Rightarrow> publish_and_report E cl res))"
  proof (intro honest_after logs.flow machines_unreported)
    fix r :: "err + duration option"
    show "traces writes_honest (case r of Inl _ \<Rightarrow> report_failure E initialization_failed
      | Inr res \<Rightarrow> publish_and_report E cl res)"
      by (cases r) (simp_all add: failure_honest publish)
  qed
  show ?thesis
    unfolding reconcile_cluster_def refuseKubeadmControlPlane_def
    by (intro honest_after calm_step) (simp add: rest failure_honest)
qed

lemma live_honest: "traces writes_honest (reconcile_live E base)"
proof -
  note calm_step = steps_calm [THEN calm_unreported]
  have pause: "traces writes_honest (bindA get_kcp (\<lambda>k. if is_paused cl k then with_flush E b (Inr done_result)
      else reconcile_cluster E cl))" for cl b
    by (intro honest_after reads_calm [THEN calm_unreported])
      (simp add: cluster_honest unreported_honest calm_step)
  show ?thesis
    unfolding reconcile_live_def
  proof (intro honest_after calm_step)
    fix b found
    show "traces writes_honest (case found of Found cl \<Rightarrow> bindA get_kcp (\<lambda>k. if is_paused cl k
        then with_flush E b (Inr done_result) else reconcile_cluster E cl)
      | Labelled \<Rightarrow> ret (True, None) | NotYet \<Rightarrow> with_flush E b (Inr done_result))"
      by (cases found) (simp_all add: pause unreported_honest calm_step logs.flow)
  qed
qed

lemma deletion_honest: "traces writes_honest (reconcile_deletion E base)"
proof -
  note calm_step = steps_calm [THEN calm_unreported]
  have teardown: "guards unreported (reconcileDelete E)"
  proof -
    have "\<not> status_write e" if "teardown_effect E k e" for e k
      using that by (cases e) (simp_all add: teardown_effect_def)
    then have "traces (\<lambda>k k' r es. list_all (\<lambda>e. \<not> status_write e) es) (reconcileDelete E)"
      by (intro traces_mono [OF teardown_trace]) (auto simp: list_all_iff)
    then show ?thesis unfolding traces_def guards_wpa logs_only_def .
  qed
  have "guards unreported (reconcile_deletion E base)"
    unfolding reconcile_deletion_def Let_def
    by (intro logs.flow guards_intros calm_step teardown)
  then show ?thesis by (rule unreported_honest)
qed

text \<open>
  C16: A status that is written tells the truth. Whenever a reconcile writes the whole status of a
  control plane, what it writes is the status in memory at the end of the pass, Ready is True
  in it only if the control plane is initialized and a Machine is ready, Available only if it
  is initialized, and neither while the workload identity is frozen. This holds however the
  pass ends: refused distribution, failed Machines and conflicts included.
\<close>

theorem written_status_is_honest:
  assumes "Reconcile E name s = (r, s')" and "StatusUpdated st \<in> set (new_effects s s')"
  shows "st = k_status (s_kcp s') \<and> backed st \<and>
    (frozen (s_kcp s') \<longrightarrow> \<not> cond_holds st ready_cond \<and> \<not> cond_holds st available_cond)"
proof -
  have "wpa (Reconcile E name) (\<lambda>r s'. \<exists>es. s_log s' = s_log s @ es \<and> writes_honest (s_kcp s) (s_kcp s') r es) s"
  proof (rule reconcile_wpa)
    fix n k and s1 :: st
    assume log: "s_log s1 = s_log s"
    let ?Q = "\<lambda>r s'. \<exists>es. s_log s' = s_log s @ es \<and> writes_honest (s_kcp s) (s_kcp s') r es"
    have del: "wpa (reconcile_deletion E b) ?Q s2" and live: "wpa (reconcile_live E b) ?Q s2"
      if "s_log s2 = s_log s" for b and s2 :: st
      by (rule traces_wpa [OF deletion_honest], simp add: writes_honest_def that)
        (rule traces_wpa [OF live_honest], simp add: writes_honest_def that)
    show "wpa (reconcile_object E) ?Q s1"
      unfolding reconcile_object_def observe_generation_def
      by (simp add: wpa_bind [of get_kcp] wpa_bind [of "modA f" for f] wpa_mod wpa_get_kcp log del live)
  qed (simp add: writes_honest_def)
  with assms show ?thesis by (auto simp: wpa_def writes_honest_def honest_def)
qed



section \<open>A kubeadm control plane\<close>

text \<open>The effective distribution is kubeadm: set on the control plane, or unset there and set on
  every answer for the KairosConfigTemplate it names.\<close>

definition kubeadm_for :: "env \<Rightarrow> kcp \<Rightarrow> bool" where
  "kubeadm_for E k \<longleftrightarrow> k_distribution k = kubeadm_name \<or>
     (k_distribution k = [] \<and> k_template k \<noteq> [] \<and>
       (\<forall>n. case e_template E n (k_template k) of
          Inr t \<Rightarrow> kt_distribution t = kubeadm_name | Inl e \<Rightarrow> e \<noteq> NotFound))"

definition refusal :: "kstatus \<Rightarrow> bool" where
  "refusal st \<longleftrightarrow> ks_conds st ready_cond = Some (cond_false unsupported_distribution SevWarning) \<and>
     ks_conds st available_cond = Some (cond_false unsupported_distribution SevWarning) \<and>
     ks_failure st = unsupported_distribution"

fun refusal_effect :: "effect \<Rightarrow> bool" where
  "refusal_effect (TemplateOwned _ _ _) = True"
| "refusal_effect (StatusUpdated st) = refusal st"
| "refusal_effect e = hold_effect e"

definition same_source :: "kcp \<Rightarrow> kcp \<Rightarrow> bool" where
  "same_source k k' \<longleftrightarrow> k_distribution k' = k_distribution k \<and> k_template k' = k_template k"

lemma kubeadm_same: "same_source k k' \<Longrightarrow> kubeadm_for E k' = kubeadm_for E k"
  by (simp add: same_source_def kubeadm_for_def)

lemma held_refusal: "hold_effect e \<Longrightarrow> refusal_effect e"
  by (cases e) simp_all

lemma finalizer_source: "traces (\<lambda>k k' r es. same_source k k' \<and> list_all refusal_effect es) (add_finalizer E base)"
  unfolding traces_def add_finalizer_def take_stored_def
  by (auto simp: wpa_simps same_source_def split: option.splits)

lemma metadata_source: "traces (\<lambda>k k' r es. k' = k \<and> es = []) (cluster_from_metadata E)"
  unfolding traces_def cluster_from_metadata_def by (auto simp: wpa_simps split: option.splits sum.splits)

lemma lookup_source: "traces (\<lambda>k k' r es. same_source k k' \<and> list_all refusal_effect es) (lookup_cluster E)"
  unfolding traces_def lookup_cluster_def findClusterForControlPlane_def set_cluster_label_def
  by (auto simp: wpa_simps same_source_def split: sum.splits option.splits
      intro!: traces_wpa [OF metadata_source])

lemma flush_refusal: "traces (\<lambda>k k' r es. list_all refusal_effect es) (with_flush E base r)"
  by (rule traces_mono [OF with_flush_trace]) (auto simp: list_all_iff intro: held_refusal)

lemma templates_source: "traces (\<lambda>k k' r es. k' = k \<and> list_all refusal_effect es) (reconcileTemplateOwnerRefs E cl)"
proof -
  have one: "traces (\<lambda>k k' r es. k' = k \<and> list_all refusal_effect es) (ensureTemplateOwnedByCluster E ref ns cl)"
    for ref ns
    unfolding traces_def ensureTemplateOwnedByCluster_def
    by (cases ref) (auto simp: wpa_simps Let_def split: sum.splits option.splits)
  have own: "traces (\<lambda>k k' r es. k' = k \<and> list_all refusal_effect es) (own_templates E cl ns refs)" for ns refs
  proof (induction refs)
    case Nil
    show ?case by (auto intro: traces_ret)
  next
    case (Cons ref refs)
    show ?case unfolding own_templates.simps by (rule traces_bind [OF one Cons]) auto
  qed
  show ?thesis
    unfolding reconcileTemplateOwnerRefs_def
    by (rule traces_bind [OF traces_get_kcp own]) auto
qed

lemma settle_refuses:
  "kubeadm_for E (s_kcp s) \<Longrightarrow> wpa (settle_distribution E) (\<lambda>r s'. r \<noteq> Inr True \<and> s_log s' = s_log s) s"
  unfolding settle_distribution_def resolveEffectiveDistribution_def
  by (auto simp: wpa_simps kubeadm_for_def kubeadm_name_def split: sum.splits dest: spec [of _ "s_tick s"])

lemma refuse_refusal:
  "traces (\<lambda>k k' r es. list_all refusal_effect es) (refuseKubeadmControlPlane E)"
proof -
  have names: "''Ready'' \<noteq> ''Available''" by simp
  show ?thesis
    unfolding traces_def refuseKubeadmControlPlane_def report_failure_def mark_false_def set_failure_def
      update_status_def
    by (auto simp: wpa_simps refusal_def set_cond_def split: option.splits)
qed

lemma cluster_refuses:
  "kubeadm_for E (s_kcp s) \<Longrightarrow> wpa (reconcile_cluster E cl) (\<lambda>_ s'. logs_only refusal_effect s s') s"
  unfolding reconcile_cluster_def
  by (auto simp: wpa_simps logs_only_def split: sum.splits intro!: traces_wpa [OF templates_source]
      wpa_weaken [OF settle_refuses] traces_wpa [OF refuse_refusal])

text \<open>
  A kubeadm control plane is refused before anything is built for it. When the effective
  distribution is kubeadm, a reconcile of a live control plane creates, deletes and changes no
  Machine, writes no distribution into the specification and nothing to the workload cluster:
  its effects are those of a paused pass, the owner references of the templates, and a status
  in which Ready and Available are False and the failure names the unsupported distribution.
\<close>

theorem kubeadm_refused:
  assumes "Reconcile E name s = (r, s')" and "e \<in> set (new_effects s s')"
    and "\<forall>n k. e_kcp E n name = Inr k \<longrightarrow> k_deletion k = None \<and> kubeadm_for E k"
  shows "refusal_effect e"
proof -
  have live: "wpa (reconcile_live E b) (\<lambda>_ s'. logs_only refusal_effect s s') s"
    if "kubeadm_for E (s_kcp s)" for b and s :: st
    unfolding reconcile_live_def
    using that
    by (auto simp: wpa_simps logs_only_def kubeadm_same split: sum.splits cluster_lookup.splits
        intro!: traces_wpa [OF finalizer_source] traces_wpa [OF lookup_source] traces_wpa [OF flush_refusal]
          wpa_weaken [OF cluster_refuses [unfolded logs_only_def]])
  have "wpa (Reconcile E name) (\<lambda>_ s'. logs_only refusal_effect s s') s"
  proof (rule reconcile_wpa)
    fix n k and s1 :: st
    assume k: "e_kcp E n name = Inr k" "s_log s1 = s_log s" "s_kcp s1 = k"
    let ?k = "(s_kcp s1)\<lparr>k_status := (k_status (s_kcp s1))\<lparr>ks_observed := k_generation (s_kcp s1)\<rparr>\<rparr>"
    have "same_source (s_kcp s1) ?k" by (simp add: same_source_def)
    then have "kubeadm_for E ?k" "k_deletion (s_kcp s1) = None"
      using kubeadm_same assms(3) k(1,3) by blast+
    then show "wpa (reconcile_object E) (\<lambda>_ s'. logs_only refusal_effect s s') s1"
      using live [of "s1\<lparr>s_kcp := ?k\<rparr>"] k(2)
      unfolding reconcile_object_def observe_generation_def
      by (auto simp: wpa_simps logs_only_def)
  qed (simp add: logs_same)
  then have "logs_only refusal_effect s s'" using assms(1) by (simp add: wpa_def)
  then show ?thesis using assms(2) by (rule logs_onlyD)
qed



section \<open>When the Machines cannot be reconciled\<close>

text \<open>
  What becomes of an error of \<open>reconcileMachines\<close>. The pass reports it, writes that status,
  publishes no kubeconfig and touches no load balancer; and it returns neither an error nor a
  requeue: nothing but an event on one of the watched objects starts another pass, for a
  transient error of the API server as well. Only a failure of the status write itself is
  returned.
\<close>

theorem machines_error_is_not_retried:
  assumes "reconcileTemplateOwnerRefs E cl s = (Inr (), s1)" and "settle_distribution E s1 = (Inr True, s2)"
    and "reconcileMachines E cl s2 = (Inl e, s3)"
  shows "\<exists>st r s'. reconcile_cluster E cl s = (r, s') \<and> ks_failure st = initialization_failed \<and>
    \<not> cond_holds st ready_cond \<and> \<not> cond_holds st available_cond \<and>
    (r = Inr (False, None) \<and> s_log s' = s_log s3 @ [StatusUpdated st] \<or>
     (\<exists>x n. r = Inl (Api x) \<and> e_write E n = Some x \<and> s_log s' = s_log s3))"
proof -
  define st where "st = (k_status (set_cond available_cond (cond_false initialization_failed SevWarning)
    (set_cond ready_cond (cond_false initialization_failed SevWarning) (s_kcp s3))))\<lparr>ks_failure := initialization_failed\<rparr>"
  have run: "reconcile_cluster E cl s = report_failure E initialization_failed s3"
    by (simp add: reconcile_cluster_def bindA_def tryA_def assms)
  have st: "ks_failure st = initialization_failed" "\<not> cond_holds st ready_cond" "\<not> cond_holds st available_cond"
    by (simp_all add: st_def)
  have "wpa (report_failure E initialization_failed) (\<lambda>r s'.
      r = Inr (False, None) \<and> s_log s' = s_log s3 @ [StatusUpdated st] \<or>
      (\<exists>x n. r = Inl (Api x) \<and> e_write E n = Some x \<and> s_log s' = s_log s3)) s3"
    unfolding report_failure_def mark_false_def set_failure_def update_status_def done_result_def
    by (auto simp: wpa_simps st_def split: option.splits)
  with st show ?thesis unfolding run by (auto simp: wpa_def split: prod.splits)
qed

end
