(* ===== verification/Control_Examples.thy ===== *)
theory Control_Examples
  imports Worked_Examples Reconcile_Safety
begin

text \<open>
  Concrete passes of the control-plane reconciler: the theorems of \<open>Teardown\<close>,
  \<open>Control_Plane_Status\<close>, \<open>Load_Balancer\<close> and \<open>Reconcile_Safety\<close> applied where their
  assumptions hold.
\<close>

lemmas pass_steps = bindA_def tryA_def ret_def throw_def getsA_def modA_def get_kcp_def read_api_def
  tick_def mgmt_write_def log_effect_def event_def mark_false_def mark_true_def


section \<open>Teardown\<close>

definition kcp_owner :: owner_ref where
  "kcp_owner = \<lparr>or_kind = kcp_kind, or_name = ''cp'', or_uid = ''k-1'', or_controller = True, or_api = kcp_api\<rparr>"

definition labelled_kcp :: kcp where
  "labelled_kcp = kcp0\<lparr>k_labels := [cluster_name_label \<mapsto> ''c'']\<rparr>"

definition hooked :: machine where
  "hooked = machine0\<lparr>m_owners := [kcp_owner], m_annotations := [etcd_leave_hook \<mapsto> []]\<rparr>"

definition foreign :: machine where
  "foreign = machine0\<lparr>m_name := ''other''\<rparr>"

definition env_serving :: "machine list \<Rightarrow> env" where
  "env_serving ms = env0\<lparr>e_cluster_machines := (\<lambda>_ _. Inr ms)\<rparr>"

lemma serving: "serves (env_serving ms) labelled_kcp ms"
  by (simp add: serves_def env_serving_def env0_def labelled_kcp_def cluster_label_def)

lemma owned_facts [simp]:
  "ownedByKCP hooked ''k-1''" "hasEtcdLeaveHook hooked" "\<not> deleting hooked" "m_name hooked = ''cp-a''"
  "\<not> ownedByKCP foreign ''k-1''" "m_name foreign = ''other''" "k_uid labelled_kcp = ''k-1''"
  "\<not> deleting foreign"
  by (simp_all add: hooked_def foreign_def machine0_def no_machine_def kcp_owner_def ownedByKCP_def
      hasEtcdLeaveHook_def deleting_def labelled_kcp_def kcp0_def)

abbreviation tear :: "machine list \<Rightarrow> st \<Rightarrow> (err + delete_result) \<times> st" where
  "tear ms \<equiv> reconcileDelete (env_serving ms)"

lemma st_of_kcp [simp]: "s_kcp (st_of k) = k" "s_log (st_of k) = []"
  by (simp_all add: st_of_def)

lemma owned_both [simp]: "owned_in labelled_kcp [hooked, foreign] = [hooked]" "owned_in labelled_kcp [foreign] = []"
  by (simp_all add: owned_in_def)

lemma teardown_pass_witness:
  "\<exists>s'. tear [hooked, foreign] (st_of labelled_kcp) = (Inr (Some (seconds 10), False, None), s') \<and>
     s_log s' = [HookRemoved ''cp-a'', MachineDeleted ''cp-a'']"
proof (cases "tear [hooked, foreign] (st_of labelled_kcp)")
  case (Pair r s')
  then show ?thesis
    using teardown_pass [of "env_serving [hooked, foreign]" "st_of labelled_kcp" "[hooked, foreign]" r s'] serving
    by (simp add: strip_effects_def drain_effects_def)
qed

lemma teardown_safe_witness:
  "\<exists>s'. tear [hooked, foreign] (st_of labelled_kcp) = (Inr (Some (seconds 10), False, None), s') \<and>
     s_log s' \<noteq> [] \<and> list_all (teardown_effect (env_serving [hooked, foreign]) labelled_kcp) (s_log s')"
proof (cases "tear [hooked, foreign] (st_of labelled_kcp)")
  case (Pair r s')
  have "e \<in> set (s_log s') \<Longrightarrow> teardown_effect (env_serving [hooked, foreign]) labelled_kcp e" for e
    using teardown_safe [OF Pair, of e] by simp
  moreover have "r = Inr (Some (seconds 10), False, None) \<and> s_log s' = [HookRemoved ''cp-a'', MachineDeleted ''cp-a'']"
    using teardown_result [of "env_serving [hooked, foreign]" "st_of labelled_kcp" "[hooked, foreign]" r s'] serving Pair
    by (simp add: strip_effects_def drain_effects_def)
  ultimately show ?thesis using Pair by (simp add: list_all_iff)
qed

lemma teardown_refines_witness:
  "apply_writes 0 (new_effects (st_of labelled_kcp) (snd (tear [hooked, foreign] (st_of labelled_kcp)))) [hooked, foreign] =
   [mark_deleted 0 (unhook hooked), foreign]"
proof (cases "tear [hooked, foreign] (st_of labelled_kcp)")
  case (Pair r s')
  then show ?thesis
    using teardown_refines [of "env_serving [hooked, foreign]" "st_of labelled_kcp" "[hooked, foreign]" r s' 0] serving
    by (simp add: teardown_spec_def)
qed

lemma reaped: "reap (apply_writes 0 (new_effects (st_of labelled_kcp) (snd (tear [hooked, foreign] (st_of labelled_kcp))))
    [hooked, foreign]) = [foreign]"
proof (cases "tear [hooked, foreign] (st_of labelled_kcp)")
  case (Pair r s')
  then have log: "s_log s' = [HookRemoved ''cp-a'', MachineDeleted ''cp-a'']"
    using teardown_result(2) [of "env_serving [hooked, foreign]" "st_of labelled_kcp" "[hooked, foreign]" r s'] serving
    by (simp add: strip_effects_def drain_effects_def)
  show ?thesis unfolding Pair by (simp add: log at_name_def reap_def)
qed

lemma teardown_completes_witness:
  "\<exists>t'. tear [foreign] (st_of labelled_kcp) = (Inr (None, True, None), t') \<and> s_log t' = [FinalizerRemoved]"
proof (cases "tear [foreign] (st_of labelled_kcp)")
  case (Pair r2 t')
  obtain r s' where run: "tear [hooked, foreign] (st_of labelled_kcp) = (r, s')" by (cases "tear [hooked, foreign] (st_of labelled_kcp)")
  have "r2 = Inr (None, True, None) \<and> new_effects (st_of labelled_kcp) t' = [FinalizerRemoved]"
    by (rule teardown_completes [of "env_serving [hooked, foreign]" "st_of labelled_kcp" "[hooked, foreign]" r s'
        "env_serving [foreign]" "st_of labelled_kcp" 0, OF _ _ run _ _ Pair])
      (use serving reaped run in simp_all)
  then show ?thesis using Pair by simp
qed



section \<open>Status\<close>

definition booting :: machine where
  "booting = hooked\<lparr>m_name := ''cp-b'', m_node := None, m_phase := ''Provisioning''\<rparr>"

definition env_two :: env where
  "env_two = env0\<lparr>e_machines := (\<lambda>_. Inr [hooked, booting, foreign])\<rparr>"

lemma two_owned [simp]:
  "owned_by_kcp_name kcp0 hooked" "owned_by_kcp_name kcp0 booting" "\<not> owned_by_kcp_name kcp0 foreign"
  by (simp_all add: owned_by_kcp_name_def controller_of_def hooked_def booting_def foreign_def machine0_def
      no_machine_def kcp_owner_def kcp0_def)

lemma counted: "count_machines registered [hooked, booting] = 1"
  "count_machines available_machine [hooked, booting] = 1"
  "count_machines (updated_machine kcp0) [hooked, booting] = 2"
  by (simp_all add: registered_def available_machine_def updated_machine_def deleting_def machine_running_def
      hooked_def booting_def machine0_def no_machine_def kcp0_def wrap32_def)

lemma two_short: "short_lists env_two"
  by (simp add: short_lists_def env_two_def env0_def int32_max_def)

lemma updated_two:
  "\<exists>s'. updateStatus env_two cluster0 (st_of kcp0) = (Inr (), s') \<and>
     k_status (s_kcp s') = (kstatus0\<lparr>ks_replicas := 2, ks_ready := 1, ks_updated := 2, ks_unavailable := 2,
       ks_available := 1, ks_selector := selector_text ''c''\<rparr>)"
proof -
  have machines: "e_machines env_two n = Inr [hooked, booting, foreign]" for n by (simp add: env_two_def)
  have kcp: "desired_replicas kcp0 = 3" "k_status kcp0 = kstatus0" "k_version kcp0 = ''v1.30.0''"
    by (simp_all add: desired_replicas_def kcp0_def)
  show ?thesis
    unfolding updateStatus_def getControlPlaneMachines_def initialize_status_def
    by (simp add: pass_steps st_of_def machines count_status_def Let_def counted kcp unavailable_of_def wrap32_def
        kstatus0_def mirror_initialized_def cluster0_def del: count_machines.simps)
qed


definition unpublished_kcp :: kcp where
  "unpublished_kcp = kcp0\<lparr>k_status := kstatus0\<lparr>ks_initialized := False\<rparr>\<rparr>"

lemma initialized_latches_witness:
  "\<exists>s'. updateStatus env_two cluster0 (st_of kcp0) = (Inr (), s') \<and> ks_initialized (k_status (s_kcp s'))"
proof -
  obtain s' where run: "updateStatus env_two cluster0 (st_of kcp0) = (Inr (), s')" using updated_two by blast
  have "ks_initialized (k_status (s_kcp (st_of kcp0)))" by (simp add: kcp0_def kstatus0_def)
  then have "ks_initialized (k_status (s_kcp s'))" using initialized_latches [OF run] by blast
  with run show ?thesis by blast
qed

lemma at_risk_iff_no_removal_witness:
  "etcd_condition 3 2 = cond_false ''EtcdQuorumAtRisk'' SevWarning"
  using at_risk_iff_no_removal [of "[(''node-a'', healthy_report), (''node-b'', healthy_report)]" "''node-a''"
      healthy_report 3]
  by (simp add: healthy_report_def removal_keeps_quorum_def Let_def go_div_def)


section \<open>Load balancer\<close>

definition virtual :: machine where
  "virtual = hooked\<lparr>m_infra_kind := ''KubevirtMachine'', m_infra_name := ''vm-a''\<rparr>"

definition vmi0 :: json where
  "vmi0 = JObj [(''status'', JObj [(''interfaces'',
     JArr [JObj [(''ipAddress'', JStr [])], JObj [(''ipAddress'', JStr ''10.0.0.7'')]])])]"

definition env_lb :: env where
  "env_lb = env0\<lparr>e_machines := (\<lambda>_. Inr [virtual, foreign]), e_vmi := (\<lambda>_ _. Inr vmi0)\<rparr>"

lemma lb_backends_are_owned_witness:
  "\<exists>s'. reconcileControlPlaneLB env_lb cluster0 (st_of kcp0) = (Inr (), s') \<and>
     s_log s' = [ServiceEnsured ''c-control-plane-lb'', EndpointsEnsured ''c-control-plane-lb'' [''10.0.0.7'']] \<and>
     backends_owned env_lb kcp0 [''10.0.0.7'']"
proof -
  have answers: "e_machines env_lb n = Inr [virtual, foreign]" "e_vmi env_lb n v = Inr vmi0"
    "e_owners env_lb n a b = Inl NotFound" "e_write env_lb n = None" for n v a b
    by (simp_all add: env_lb_def env0_def)
  have owned: "owned_by_kcp_name kcp0 virtual" "isKubevirtMachine virtual" "m_infra_name virtual = ''vm-a''"
    by (simp_all add: virtual_def isKubevirtMachine_def owned_by_kcp_name_def controller_of_def hooked_def
        machine0_def no_machine_def kcp_owner_def kcp0_def)
  have vmi: "nested_slice [''status'', ''interfaces''] vmi0 =
      Some [JObj [(''ipAddress'', JStr [])], JObj [(''ipAddress'', JStr ''10.0.0.7'')]]"
    "first_interface_ip [JObj [(''ipAddress'', JStr [])], JObj [(''ipAddress'', JStr ''10.0.0.7'')]] = Some ''10.0.0.7''"
    by code_simp+
  have ip: "getKubevirtVMIIP env_lb virtual s = (Inr ''10.0.0.7'', s\<lparr>s_tick := Suc (s_tick s)\<rparr>)" for s
    unfolding getKubevirtVMIIP_def by (simp add: pass_steps answers vmi del: first_interface_ip.simps)
  obtain r s' where run: "reconcileControlPlaneLB env_lb cluster0 (st_of kcp0) = (r, s')"
    and ok: "r = Inr ()" "s_log s' = [ServiceEnsured ''c-control-plane-lb'', EndpointsEnsured ''c-control-plane-lb'' [''10.0.0.7'']]"
    unfolding reconcileControlPlaneLB_def ensureControlPlaneLBService_def ensureControlPlaneLBEndpoints_def
      ensure_controlled_def getControlPlaneMachines_def Let_def
    by (simp add: pass_steps st_of_def answers owned ip cluster0_def controlPlaneLBServiceName_def)
  have "lb_effect env_lb cluster0 (s_kcp (st_of kcp0)) (EndpointsEnsured ''c-control-plane-lb'' [''10.0.0.7''])"
    by (rule lb_backends_are_owned [OF run]) (simp add: ok)
  then show ?thesis using run ok by (simp add: lb_effect_def)
qed



section \<open>Whole passes\<close>

definition env_pass :: "kcp \<Rightarrow> env" where
  "env_pass k = env0\<lparr>e_kcp := (\<lambda>_ _. Inr k), e_cluster := (\<lambda>_ _. Inr cluster0),
     e_machines := (\<lambda>_. Inl OtherApi)\<rparr>"

lemma pass_answers:
  "e_kcp (env_pass k) n name = Inr k" "e_cluster (env_pass k) n cn = Inr cluster0"
  "e_machines (env_pass k) n = Inl OtherApi" "e_write (env_pass k) n = None"
  "e_owners (env_pass k) n a b = Inl NotFound" "e_template (env_pass k) n t = Inl NotFound"
  "e_stored (env_pass k) n = kstatus0" "e_recorder (env_pass k)"
  by (simp_all add: env_pass_def env0_def)

lemmas pass_defs = Reconcile_def reconcile_object_def reconcile_live_def add_finalizer_def take_stored_def
  observe_generation_def lookup_cluster_def cluster_from_metadata_def with_flush_def flush_status_def
  reconcile_cluster_def reconcileTemplateOwnerRefs_def ensureTemplateOwnedByCluster_def template_refs_def
  settle_distribution_def warn_override_def resolveEffectiveDistribution_def refuseKubeadmControlPlane_def
  report_failure_def set_failure_def update_status_def Let_def done_result_def

definition paused_kcp :: kcp where
  "paused_kcp = labelled_kcp\<lparr>k_annotations := [paused_annotation \<mapsto> []], k_finalizer := False\<rparr>"

lemma paused_run:
  "\<exists>s'. Reconcile (env_pass paused_kcp) ''cp'' (st_of kcp0) = (Inr (False, None), s') \<and> s_log s' = [FinalizerAdded]"
proof -
  have k: "k_deletion paused_kcp = None" "k_finalizer paused_kcp = False" "k_generation paused_kcp = 1"
    "cluster_label paused_kcp = Some ''c''" "has_paused paused_kcp" "ks_observed kstatus0 = 1"
    "k_status paused_kcp = kstatus0"
    by (simp_all add: paused_kcp_def labelled_kcp_def kcp0_def cluster_label_def has_paused_def kstatus0_def)
  have frame: "cluster_label (k\<lparr>k_status := x, k_finalizer := y\<rparr>) = cluster_label k"
    "has_paused (k\<lparr>k_status := x, k_finalizer := y\<rparr>) = has_paused k"
    "cluster_label (k\<lparr>k_finalizer := y, k_status := x\<rparr>) = cluster_label k"
    "has_paused (k\<lparr>k_finalizer := y, k_status := x\<rparr>) = has_paused k" for k :: kcp and x y
    by (simp_all add: cluster_label_def has_paused_def)
  show ?thesis
    by (simp add: pass_defs pass_steps st_of_def pass_answers k is_paused_def frame)
qed

lemma paused_pass_is_quiet_witness:
  "\<exists>s'. Reconcile (env_pass paused_kcp) ''cp'' (st_of kcp0) = (Inr (False, None), s') \<and>
     s_log s' \<noteq> [] \<and> list_all hold_effect (s_log s')"
proof -
  obtain s' where run: "Reconcile (env_pass paused_kcp) ''cp'' (st_of kcp0) = (Inr (False, None), s')"
    and log: "s_log s' = [FinalizerAdded]" using paused_run by blast
  have "hold_effect e" if "e \<in> set (s_log s')" for e
    by (rule paused_pass_is_quiet [OF run])
      (use that in \<open>simp_all add: pass_answers paused_for_def has_paused_def paused_kcp_def\<close>)
  then show ?thesis using run log by (simp add: list_all_iff)
qed

definition kubeadm_kcp :: kcp where
  "kubeadm_kcp = labelled_kcp\<lparr>k_distribution := kubeadm_name\<rparr>"

definition refused :: kcp where
  "refused = (let k = set_cond available_cond (cond_false unsupported_distribution SevWarning)
       (set_cond ready_cond (cond_false unsupported_distribution SevWarning) kubeadm_kcp)
     in k\<lparr>k_status := (k_status k)\<lparr>ks_failure := unsupported_distribution\<rparr>\<rparr>)"

lemma kubeadm_run:
  "\<exists>s'. Reconcile (env_pass kubeadm_kcp) ''cp'' (st_of kcp0) = (Inr (False, None), s') \<and>
     s_log s' = [StatusUpdated (k_status refused)]"
proof -
  have k: "k_deletion kubeadm_kcp = None" "k_finalizer kubeadm_kcp" "k_generation kubeadm_kcp = 1"
    "cluster_label kubeadm_kcp = Some ''c''" "\<not> has_paused kubeadm_kcp" "ks_observed kstatus0 = 1"
    "k_status kubeadm_kcp = kstatus0" "k_distribution kubeadm_kcp = kubeadm_name"
    "k_infra_kind kubeadm_kcp = ''VSphereMachineTemplate''" "k_infra_name kubeadm_kcp = ''vt''"
    "k_infra_namespace kubeadm_kcp = []" "k_template kubeadm_kcp = ''tmpl''" "k_template_kind kubeadm_kcp = []"
    "k_namespace kubeadm_kcp = ''default''"
    by (simp_all add: kubeadm_kcp_def labelled_kcp_def kcp0_def cluster_label_def has_paused_def kstatus0_def
        paused_annotation_def)
  have same: "kubeadm_kcp\<lparr>k_status := kstatus0\<lparr>ks_observed := 1\<rparr>\<rparr> = kubeadm_kcp"
    by (simp add: kubeadm_kcp_def labelled_kcp_def kcp0_def kstatus0_def)
  have cl: "c_paused cluster0 = False" "c_namespace cluster0 = ''default''" by (simp_all add: cluster0_def)
  have cut: "cut_suffix ''VSphereMachineTemplate'' ''Template'' \<noteq> None"
    "cut_suffix ''KairosConfigTemplate'' ''Template'' \<noteq> None" by code_simp+
  show ?thesis
    by (simp add: pass_defs pass_steps st_of_def pass_answers k is_paused_def same cl cut refused_def)
qed

lemma kubeadm_refused_witness:
  "\<exists>s'. Reconcile (env_pass kubeadm_kcp) ''cp'' (st_of kcp0) = (Inr (False, None), s') \<and>
     s_log s' = [StatusUpdated (k_status refused)] \<and> refusal (k_status refused)"
proof -
  obtain s' where run: "Reconcile (env_pass kubeadm_kcp) ''cp'' (st_of kcp0) = (Inr (False, None), s')"
    and log: "s_log s' = [StatusUpdated (k_status refused)]" using kubeadm_run by blast
  have "refusal_effect (StatusUpdated (k_status refused))"
    by (rule kubeadm_refused [OF run])
      (simp_all add: log pass_answers kubeadm_for_def kubeadm_kcp_def labelled_kcp_def kcp0_def)
  then show ?thesis using run log by simp
qed

lemma written_status_is_honest_witness:
  "\<exists>s'. Reconcile (env_pass kubeadm_kcp) ''cp'' (st_of kcp0) = (Inr (False, None), s') \<and>
     s_log s' = [StatusUpdated (k_status refused)] \<and> backed (k_status refused)"
proof -
  obtain s' where run: "Reconcile (env_pass kubeadm_kcp) ''cp'' (st_of kcp0) = (Inr (False, None), s')"
    and log: "s_log s' = [StatusUpdated (k_status refused)]" using kubeadm_run by blast
  have "StatusUpdated (k_status refused) \<in> set (new_effects (st_of kcp0) s')" using log by simp
  then have "backed (k_status refused)" using written_status_is_honest [OF run] by blast
  then show ?thesis using run log by blast
qed

lemma reconcile_changes_one_machine_witness:
  "\<exists>r s'. Reconcile (env_pass kubeadm_kcp) ''cp'' (st_of kcp0) = (r, s') \<and> s_log s' \<noteq> [] \<and>
     length (filter machine_change (s_log s')) \<le> 1"
proof -
  obtain s' where run: "Reconcile (env_pass kubeadm_kcp) ''cp'' (st_of kcp0) = (Inr (False, None), s')"
    and log: "s_log s' = [StatusUpdated (k_status refused)]" using kubeadm_run by blast
  have "length (filter machine_change (new_effects (st_of kcp0) s')) \<le> 1"
    by (rule reconcile_changes_one_machine [OF run])
      (simp_all add: pass_answers short_lists_def kubeadm_kcp_def labelled_kcp_def kcp0_def)
  then show ?thesis using run log by auto
qed

lemma machines_error_is_not_retried_witness:
  "\<exists>st r s'. reconcile_cluster (env_pass labelled_kcp) cluster0 (st_of labelled_kcp) = (r, s') \<and>
     ks_failure st = initialization_failed \<and> \<not> cond_holds st ready_cond \<and>
     r = Inr (False, None) \<and> s_log s' = [StatusUpdated st]"
proof -
  let ?E = "env_pass labelled_kcp"
  have k: "k_distribution labelled_kcp = ''k0s''" "k_infra_kind labelled_kcp = ''VSphereMachineTemplate''"
    "k_infra_name labelled_kcp = ''vt''" "k_infra_namespace labelled_kcp = []" "k_template labelled_kcp = ''tmpl''"
    "k_template_kind labelled_kcp = []" "k_namespace labelled_kcp = ''default''" "''k0s'' \<noteq> kubeadm_name"
    by (simp_all add: labelled_kcp_def kcp0_def kubeadm_name_def)
  have cl: "c_namespace cluster0 = ''default''" by (simp add: cluster0_def)
  have cut: "cut_suffix ''VSphereMachineTemplate'' ''Template'' \<noteq> None"
    "cut_suffix ''KairosConfigTemplate'' ''Template'' \<noteq> None" by code_simp+
  obtain s1 where s1: "reconcileTemplateOwnerRefs ?E cluster0 (st_of labelled_kcp) = (Inr (), s1)"
    "s_kcp s1 = labelled_kcp" "s_log s1 = []"
    by (simp add: pass_defs pass_steps st_of_def pass_answers k cl cut)
  obtain s2 where s2: "settle_distribution ?E s1 = (Inr True, s2)" "s_kcp s2 = labelled_kcp" "s_log s2 = []"
    by (simp add: pass_defs pass_steps s1 pass_answers k)
  obtain s3 where s3: "reconcileMachines ?E cluster0 s2 = (Inl (Api OtherApi), s3)" "s_log s3 = []"
    by (simp add: reconcileMachines_def getControlPlaneMachines_def Let_def pass_steps s2 pass_answers)
  obtain st r s' where run: "reconcile_cluster ?E cluster0 (st_of labelled_kcp) = (r, s')"
    "ks_failure st = initialization_failed" "\<not> cond_holds st ready_cond"
    "r = Inr (False, None) \<and> s_log s' = s_log s3 @ [StatusUpdated st] \<or>
     (\<exists>x n. r = Inl (Api x) \<and> e_write ?E n = Some x \<and> s_log s' = s_log s3)"
    using machines_error_is_not_retried [OF s1(1) s2(1) s3(1)] by blast
  then show ?thesis using s3(2) by (auto simp: pass_answers)
qed

end
