(* ===== verification/Admission.thy ===== *)
theory Admission
  imports Member_Leave
begin

text \<open>
  The admission webhooks: defaulting and validation of a KairosControlPlane, a
  KairosControlPlaneTemplate and a KairosConfig
  (\<open>api/controlplane/v1beta2/kairoscontrolplane_webhook.go\<close>,
  \<open>kairoscontrolplanetemplate_webhook.go\<close>, \<open>api/bootstrap/v1beta2/kairosconfig_webhook.go\<close>,
  \<open>distribution.go\<close>).

  A validator returns the list of field errors it found, empty for an accepted object; an
  error keeps its kind, its field path and, for an invalid value, the value, not its text.
  The checks of apimachinery (\<open>IsDNS1123Subdomain\<close>, \<open>IsDNS1123Label\<close>) and \<open>json.Marshal\<close> of
  the kubeadm block are parameters.
\<close>


section \<open>Field errors\<close>

datatype path_elem = Fld string | Idx nat

type_synonym fpath = "path_elem list"

definition new_path :: "string list \<Rightarrow> fpath" where
  "new_path ns = map Fld ns"

definition child :: "fpath \<Rightarrow> string list \<Rightarrow> fpath" where
  "child p ns = p @ map Fld ns"

datatype field_err = FieldInvalid fpath json | FieldRequired fpath | FieldForbidden fpath


section \<open>The regular expressions\<close>

definition is_alpha :: "char \<Rightarrow> bool" where
  "is_alpha c \<longleftrightarrow> is_lower c \<or> is_upper c"

text \<open>\<open>^[a-z_][a-z0-9_-]{0,31}$\<close> and \<open>^[a-zA-Z][a-zA-Z0-9._-]{0,14}$\<close>. Without the flag \<open>m\<close>,
  \<open>$\<close> of Go's \<open>regexp\<close> matches at the end of the text only.\<close>

definition name_head :: "char \<Rightarrow> bool" where
  "name_head c \<longleftrightarrow> is_lower c \<or> c = CHR ''_''"

definition name_char :: "char \<Rightarrow> bool" where
  "name_char c \<longleftrightarrow> is_lower c \<or> is_digit c \<or> c = CHR ''_'' \<or> c = CHR ''-''"

definition sshFallbackUserRegex :: "string \<Rightarrow> bool" where
  "sshFallbackUserRegex s =
     (case s of [] \<Rightarrow> False
      | c # t \<Rightarrow> name_head c \<and> length t \<le> 31 \<and> list_all name_char t)"

definition iface_char :: "char \<Rightarrow> bool" where
  "iface_char c \<longleftrightarrow> is_alpha c \<or> is_digit c \<or> c \<in> set ''._-''"

definition vipInterfaceRe :: "string \<Rightarrow> bool" where
  "vipInterfaceRe s =
     (case s of [] \<Rightarrow> False
      | c # t \<Rightarrow> is_alpha c \<and> length t \<le> 14 \<and> list_all iface_char t)"

text \<open>\<open>^0?[0-7]{3,4}$\<close>, and \<open>^[a-z_][a-z0-9_-]*(:[a-z_][a-z0-9_-]*)?$\<close>, in which no class
  holds the colon.\<close>

definition is_octal :: "char \<Rightarrow> bool" where
  "is_octal c \<longleftrightarrow> CHR ''0'' \<le> c \<and> c \<le> CHR ''7''"

definition octal_permissions :: "string \<Rightarrow> bool" where
  "octal_permissions s \<longleftrightarrow>
     list_all is_octal s \<and>
     (length s = 3 \<or> length s = 4 \<or> length s = 5 \<and> has_prefix s ''0'')"

definition posix_name :: "string \<Rightarrow> bool" where
  "posix_name s = (case s of [] \<Rightarrow> False | c # t \<Rightarrow> name_head c \<and> list_all name_char t)"

definition owner_format :: "string \<Rightarrow> bool" where
  "owner_format s =
     (case split_on CHR '':'' s of
        [u] \<Rightarrow> posix_name u
      | [u, g] \<Rightarrow> posix_name u \<and> posix_name g
      | _ \<Rightarrow> False)"


section \<open>The KairosControlPlane's spec\<close>

text \<open>\<open>sp_ha\<close> is \<open>None\<close> for no HA block and \<open>Some None\<close> for one without a VIP.\<close>

record ssh_fallback =
  sf_enabled :: bool
  sf_identity :: "secret_ref option"
  sf_known_hosts :: "secret_ref option"
  sf_user :: string
  sf_port :: int
  sf_activate :: "duration option"

record vip_config =
  vc_address :: string
  vc_interface :: string
  vc_mode :: string

record kcp_spec =
  sp_replicas :: "int option"
  sp_version :: string
  sp_distribution :: string
  sp_infra_kind :: string
  sp_infra_namespace :: string
  sp_infra_name :: string
  sp_drain :: "duration option"
  sp_template :: string
  sp_max_surge :: "int option"
  sp_ha :: "vip_config option option"
  sp_ssh :: "ssh_fallback option"

definition KubeconfigReadyTimeout :: duration where
  "KubeconfigReadyTimeout = minutes 10"

definition defaultSSHFallback :: "ssh_fallback option \<Rightarrow> ssh_fallback option" where
  "defaultSSHFallback so =
     (case so of
        None \<Rightarrow> None
      | Some s \<Rightarrow>
          Some (s\<lparr>sf_user := (if sf_user s = [] then ''kairos'' else sf_user s),
                  sf_port := (if sf_port s = 0 then 22 else sf_port s),
                  sf_activate := (case sf_activate s of
                     None \<Rightarrow> Some (minutes 15) | Some d \<Rightarrow> Some d)\<rparr>))"

definition kcp_default :: "kcp_spec \<Rightarrow> kcp_spec" where
  "kcp_default r =
     (let r = (if sp_replicas r = None then r\<lparr>sp_replicas := Some 1\<rparr> else r)
      in r\<lparr>sp_ssh := defaultSSHFallback (sp_ssh r)\<rparr>)"

definition warnVIPOnSingleReplica :: "kcp_spec \<Rightarrow> string \<Rightarrow> string list" where
  "warnVIPOnSingleReplica s base =
     (case (sp_ha s, sp_replicas s) of
        (Some (Some _), Some n) \<Rightarrow>
          if n \<noteq> 1 then []
          else [base @ ''.ha.vip is set but '' @ base @
                ''.replicas is 1: kube-vip is not rendered for single-node control planes. Remove '' @
                base @ ''.ha.vip or set '' @ base @ ''.replicas to 3 or 5.'']
      | _ \<Rightarrow> [])"

definition validateHA ::
  "(string \<Rightarrow> string list) \<Rightarrow> vip_config option option \<Rightarrow> fpath \<Rightarrow> field_err list" where
  "validateHA subdomain_errors ha base =
     (case ha of
        Some (Some v) \<Rightarrow>
          (if parse_ip (vc_address v) = None \<and> subdomain_errors (vc_address v) \<noteq> []
           then [FieldInvalid (child base [''vip'', ''address'']) (JStr (vc_address v))] else []) @
          (if \<not> vipInterfaceRe (vc_interface v)
           then [FieldInvalid (child base [''vip'', ''interface'']) (JStr (vc_interface v))] else [])
      | _ \<Rightarrow> [])"

definition ssh_secret_errs :: "secret_ref option \<Rightarrow> string \<Rightarrow> fpath \<Rightarrow> field_err list" where
  "ssh_secret_errs ro ownerNamespace p =
     (case ro of
        None \<Rightarrow> [FieldRequired p]
      | Some r \<Rightarrow>
          if sr_name r = [] then [FieldRequired p]
          else if sr_namespace r \<noteq> [] \<and> sr_namespace r \<noteq> ownerNamespace
          then [FieldForbidden (child p [''namespace''])]
          else [])"

definition validateSSHFallback :: "ssh_fallback option \<Rightarrow> string \<Rightarrow> fpath \<Rightarrow> field_err list" where
  "validateSSHFallback so ownerNamespace base =
     (case so of
        None \<Rightarrow> []
      | Some s \<Rightarrow>
          if \<not> sf_enabled s then []
          else
            ssh_secret_errs (sf_known_hosts s) ownerNamespace (child base [''knownHostsSecretRef'']) @
            ssh_secret_errs (sf_identity s) ownerNamespace (child base [''identitySecretRef'']) @
            (case sf_activate s of
               Some d \<Rightarrow> if d \<le> KubeconfigReadyTimeout
                         then [FieldInvalid (child base [''activateAfter'']) (JNum d)] else []
             | None \<Rightarrow> []) @
            (if sf_user s \<noteq> [] \<and> \<not> sshFallbackUserRegex (sf_user s)
             then [FieldInvalid (child base [''user'']) (JStr (sf_user s))] else []))"

definition validateInfrastructureRefNamespace :: "string \<Rightarrow> string \<Rightarrow> fpath \<Rightarrow> field_err list" where
  "validateInfrastructureRefNamespace refNamespace ownerNamespace p =
     (if refNamespace = [] \<or> refNamespace = ownerNamespace then [] else [FieldForbidden p])"

text \<open>\<open>(*KairosControlPlane).validate\<close>: \<open>ns\<close> is the object's namespace. Go's remainder by two is
  zero on exactly the even numbers.\<close>

definition kcp_validate ::
  "(string \<Rightarrow> string list) \<Rightarrow> string \<Rightarrow> kcp_spec \<Rightarrow> field_err list" where
  "kcp_validate subdomain_errors ns s =
     (case sp_replicas s of
        None \<Rightarrow> []
      | Some n \<Rightarrow>
          let replicasPath = new_path [''spec'', ''replicas'']
          in if n < 1 then [FieldInvalid replicasPath (JNum n)]
             else if n > 5 then [FieldInvalid replicasPath (JNum n)]
             else if even n then [FieldInvalid replicasPath (JNum n)]
             else []) @
     (if sp_distribution s \<noteq> [] \<and> sp_distribution s \<noteq> ''k0s'' \<and> sp_distribution s \<noteq> ''k3s''
      then [FieldInvalid (new_path [''spec'', ''distribution'']) (JStr (sp_distribution s))]
      else []) @
     validateHA subdomain_errors (sp_ha s) (new_path [''spec'', ''ha'']) @
     validateSSHFallback (sp_ssh s) ns (new_path [''spec'', ''sshFallback'']) @
     validateInfrastructureRefNamespace (sp_infra_namespace s) ns
       (new_path [''spec'', ''machineTemplate'', ''infrastructureRef'', ''namespace''])"

definition kcp_validateWithWarnings ::
  "(string \<Rightarrow> string list) \<Rightarrow> string \<Rightarrow> kcp_spec \<Rightarrow> string list \<times> field_err list" where
  "kcp_validateWithWarnings subdomain_errors ns s =
     (warnVIPOnSingleReplica s ''spec'', kcp_validate subdomain_errors ns s)"


section \<open>The KairosControlPlaneTemplate's spec\<close>

definition template_default :: "kcp_spec \<Rightarrow> kcp_spec" where
  "template_default s =
     (let s = (if sp_replicas s = None then s\<lparr>sp_replicas := Some 1\<rparr> else s);
          s = (if sp_distribution s = [] then s\<lparr>sp_distribution := ''k0s''\<rparr> else s)
      in s\<lparr>sp_ssh := defaultSSHFallback (sp_ssh s)\<rparr>)"

definition template_validate ::
  "(string \<Rightarrow> string list) \<Rightarrow> string \<Rightarrow> kcp_spec \<Rightarrow> field_err list" where
  "template_validate subdomain_errors ns s =
     (let base = new_path [''spec'', ''template'', ''spec'']
      in (case sp_replicas s of
            None \<Rightarrow> []
          | Some n \<Rightarrow>
              let replicasPath = child base [''replicas'']
              in if n < 1 then [FieldInvalid replicasPath (JNum n)]
                 else if n > 5 then [FieldInvalid replicasPath (JNum n)]
                 else if even n then [FieldInvalid replicasPath (JNum n)]
                 else []) @
         (if sp_distribution s \<noteq> [] \<and> sp_distribution s \<noteq> ''k0s'' \<and> sp_distribution s \<noteq> ''k3s''
          then [FieldInvalid (child base [''distribution'']) (JStr (sp_distribution s))]
          else []) @
         validateHA subdomain_errors (sp_ha s) (child base [''ha'']) @
         validateSSHFallback (sp_ssh s) ns (child base [''sshFallback'']) @
         validateInfrastructureRefNamespace (sp_infra_namespace s) ns
           (child base [''machineTemplate'', ''infrastructureRef'', ''namespace'']))"

definition template_validateWithWarnings ::
  "(string \<Rightarrow> string list) \<Rightarrow> string \<Rightarrow> kcp_spec \<Rightarrow> string list \<times> field_err list" where
  "template_validateWithWarnings subdomain_errors ns s =
     (warnVIPOnSingleReplica s ''spec.template.spec'', template_validate subdomain_errors ns s)"


section \<open>The KairosConfig's spec\<close>

record config_file =
  fl_path :: string
  fl_content :: string
  fl_permissions :: string
  fl_owner :: string

record config_manifest =
  mf_name :: string
  mf_file :: string
  mf_content :: string

record install_config =
  in_auto :: "bool option"
  in_device :: string
  in_reboot :: "bool option"

text \<open>The kubeadm JoinConfiguration is a type of Cluster API: its fields the code reads or sets (a
  taint is its key, value and effect), the other fields together in \<open>jc_rest\<close>.\<close>

record join_config =
  jc_endpoint :: string
  jc_token :: string
  jc_ca_hashes :: "string list"
  jc_unsafe :: "bool option"
  jc_tls_token :: string
  jc_file_path :: string
  jc_control_plane :: bool
  jc_node_name :: string
  jc_taints :: "(string \<times> string \<times> string) list option"
  jc_patches :: string
  jc_rest :: json

record kubeadm_config =
  ka_join :: "join_config option"

record config_spec =
  cg_role :: string
  cg_distribution :: string
  cg_version :: string
  cg_server_address :: string
  cg_token :: string
  cg_token_ref :: "secret_ref option"
  cg_ca_hashes :: "string list"
  cg_ca_ref :: "secret_ref option"
  cg_files :: "config_file list"
  cg_pre_commands :: "string list"
  cg_post_commands :: "string list"
  cg_pause :: bool
  cg_single_node :: bool
  cg_k0s_single_node :: "bool option"
  cg_cp_role :: string
  cg_user_name :: string
  cg_user_password :: string
  cg_user_password_ref :: "secret_ref option"
  cg_user_groups :: "string list"
  cg_github_user :: string
  cg_ssh_key :: string
  cg_worker_token :: string
  cg_worker_token_ref :: "secret_ref option"
  cg_k3s_token :: string
  cg_k3s_token_ref :: "secret_ref option"
  cg_join_token_ref :: "secret_ref option"
  cg_vip :: "vip_config option"
  cg_manifests :: "config_manifest list"
  cg_hostname :: string
  cg_hostname_prefix :: string
  cg_dns_servers :: "string list"
  cg_pod_cidr :: string
  cg_service_cidr :: string
  cg_primary_ip :: string
  cg_install :: "install_config option"
  cg_kubeadm :: "kubeadm_config option"


section \<open>Distributions\<close>

definition supportedDistributions :: "string list" where
  "supportedDistributions = [''k0s'', ''k3s'', ''kubeadm'']"

definition EffectiveDistribution :: "string \<Rightarrow> string" where
  "EffectiveDistribution d = (if d = [] then ''k0s'' else d)"

definition IsSupportedDistribution :: "string \<Rightarrow> bool" where
  "IsSupportedDistribution d \<longleftrightarrow> d \<in> set supportedDistributions"

definition ref_set :: "secret_ref option \<Rightarrow> bool" where
  "ref_set ro \<longleftrightarrow> (case ro of None \<Rightarrow> False | Some r \<Rightarrow> sr_name r \<noteq> [])"

definition validateK0sConfig :: "config_spec \<Rightarrow> field_err list" where
  "validateK0sConfig s =
     (if cg_role s \<noteq> ''worker'' then []
      else if cg_worker_token s = [] \<and> \<not> ref_set (cg_worker_token_ref s)
      then [FieldRequired (new_path [''spec'', ''workerToken''])]
      else [])"

definition validateK3sConfig :: "config_spec \<Rightarrow> field_err list" where
  "validateK3sConfig s =
     (if cg_role s \<noteq> ''worker'' then []
      else if cg_k3s_token s = [] \<and> \<not> ref_set (cg_k3s_token_ref s) \<and>
              cg_worker_token s = [] \<and> \<not> ref_set (cg_worker_token_ref s)
      then [FieldRequired (new_path [''spec'', ''k3sToken''])]
      else [])"

text \<open>Go's \<open>path.Clean\<close>, on the segments of the path: empty and \<open>.\<close> segments go, and \<open>..\<close> takes
  the segment before it away, which a rooted path has none of at its root. The segments kept
  so far are in reverse order.\<close>

fun clean_segs :: "bool \<Rightarrow> string list \<Rightarrow> string list \<Rightarrow> string list" where
  "clean_segs rooted out [] = rev out"
| "clean_segs rooted out (w # ws) =
     (if w = [] \<or> w = ''.'' then clean_segs rooted out ws
      else if w = ''..'' then
        (case out of
           v # out' \<Rightarrow> if v = ''..'' then clean_segs rooted (w # out) ws
                       else clean_segs rooted out' ws
         | [] \<Rightarrow> if rooted then clean_segs rooted [] ws else clean_segs rooted [w] ws)
      else clean_segs rooted (w # out) ws)"

definition path_clean :: "string \<Rightarrow> string" where
  "path_clean s =
     (if s = [] then ''.''
      else let rooted = has_prefix s ''/'';
               segs = clean_segs rooted [] (split_on CHR ''/'' s)
           in if \<not> rooted \<and> segs = [] then ''.''
              else (if rooted then ''/'' else []) @ join_str ''/'' segs)"

datatype patches_err = ControlChar | NotClean | OutsideRoot | StaticPods

definition kubeadmPatchesRoot :: string where
  "kubeadmPatchesRoot = ''/etc/kubernetes/''"

definition kubeletStaticPodPath :: string where
  "kubeletStaticPodPath = ''/etc/kubernetes/manifests''"

definition control_char :: "char \<Rightarrow> bool" where
  "control_char c \<longleftrightarrow> of_char c \<in> {0::nat, 10, 13}"

definition ValidatePatchesDirectory :: "string \<Rightarrow> patches_err option" where
  "ValidatePatchesDirectory dir =
     (if list_ex control_char dir then Some ControlChar
      else if \<not> has_prefix dir ''/'' \<or> path_clean dir \<noteq> dir then Some NotClean
      else if \<not> has_prefix dir kubeadmPatchesRoot then Some OutsideRoot
      else if dir = kubeletStaticPodPath \<or> has_prefix dir (kubeletStaticPodPath @ ''/'')
      then Some StaticPods
      else None)"

text \<open>\<open>marshal\<close> is \<open>json.Marshal\<close> of the block, \<open>None\<close> for an error.\<close>

definition join_config_errs ::
  "(string \<Rightarrow> string list) \<Rightarrow> join_config \<Rightarrow> fpath \<Rightarrow> field_err list" where
  "join_config_errs subdomain_errors jc jcPath =
     (if jc_token jc \<noteq> []
      then [FieldForbidden (child jcPath [''discovery'', ''bootstrapToken'', ''token''])] else []) @
     (if jc_tls_token jc \<noteq> []
      then [FieldForbidden (child jcPath [''discovery'', ''tlsBootstrapToken''])] else []) @
     (if jc_unsafe jc = Some True
      then [FieldForbidden (child jcPath [''discovery'', ''bootstrapToken'', ''unsafeSkipCAVerification''])]
      else []) @
     (if jc_file_path jc \<noteq> []
      then [FieldForbidden (child jcPath [''discovery'', ''file''])] else []) @
     (if jc_control_plane jc then [FieldForbidden (child jcPath [''controlPlane''])] else []) @
     (if jc_node_name jc \<noteq> [] \<and> subdomain_errors (jc_node_name jc) \<noteq> []
      then [FieldInvalid (child jcPath [''nodeRegistration'', ''name'']) (JStr (jc_node_name jc))]
      else []) @
     (if jc_patches jc \<noteq> [] \<and> ValidatePatchesDirectory (jc_patches jc) \<noteq> None
      then [FieldInvalid (child jcPath [''patches'', ''directory'']) (JStr (jc_patches jc))]
      else [])"

definition validateKubeadmConfig ::
  "(string \<Rightarrow> string list) \<Rightarrow> (kubeadm_config \<Rightarrow> string option) \<Rightarrow> config_spec \<Rightarrow> field_err list" where
  "validateKubeadmConfig subdomain_errors marshal s =
     (if cg_role s = ''control-plane''
      then [FieldInvalid (new_path [''spec'', ''role'']) (JStr (cg_role s))] else []) @
     (case cg_kubeadm s of
        None \<Rightarrow> []
      | Some ka \<Rightarrow>
          let kaPath = new_path [''spec'', ''kubeadm'']
          in (case marshal ka of
                Some raw \<Rightarrow> if contains_str raw ''{{''
                            then [FieldInvalid kaPath (JStr ''<redacted>'')] else []
              | None \<Rightarrow> []) @
             (case ka_join ka of
                None \<Rightarrow> []
              | Some jc \<Rightarrow> join_config_errs subdomain_errors jc (child kaPath [''joinConfiguration''])))"

definition rulesForDistribution ::
  "(string \<Rightarrow> string list) \<Rightarrow> (kubeadm_config \<Rightarrow> string option) \<Rightarrow> string \<Rightarrow> config_spec \<Rightarrow> field_err list" where
  "rulesForDistribution subdomain_errors marshal effective =
     (if effective = ''k0s'' then validateK0sConfig
      else if effective = ''k3s'' then validateK3sConfig
      else if effective = ''kubeadm'' then validateKubeadmConfig subdomain_errors marshal
      else validateK0sConfig)"

definition validateDistribution ::
  "(string \<Rightarrow> string list) \<Rightarrow> (kubeadm_config \<Rightarrow> string option) \<Rightarrow> config_spec \<Rightarrow> field_err list" where
  "validateDistribution subdomain_errors marshal s =
     (if cg_distribution s \<noteq> [] \<and> \<not> IsSupportedDistribution (cg_distribution s)
      then [FieldInvalid (new_path [''spec'', ''distribution'']) (JStr (cg_distribution s))] else []) @
     rulesForDistribution subdomain_errors marshal (EffectiveDistribution (cg_distribution s)) s"


section \<open>The KairosConfig webhook\<close>

definition config_default :: "config_spec \<Rightarrow> config_spec" where
  "config_default r =
     (let r = (if cg_user_name r = [] then r\<lparr>cg_user_name := ''kairos''\<rparr> else r);
          r = (if cg_user_groups r = [] then r\<lparr>cg_user_groups := [''admin'']\<rparr> else r);
          r = (if cg_distribution r = [] then r\<lparr>cg_distribution := ''k0s''\<rparr> else r)
      in if cg_role r = [] then r\<lparr>cg_role := ''worker''\<rparr> else r)"

definition validateHostname :: "(string \<Rightarrow> string list) \<Rightarrow> config_spec \<Rightarrow> field_err list" where
  "validateHostname label_errors r =
     (if cg_hostname r = [] \<or> cg_role r \<noteq> ''control-plane'' then []
      else map (\<lambda>_. FieldInvalid (new_path [''spec'', ''hostname'']) (JStr (cg_hostname r)))
             (NodeHostnameErrors label_errors (cg_hostname r)))"

definition config_warnings :: "config_spec \<Rightarrow> string list" where
  "config_warnings r =
     (if cg_ca_hashes r \<noteq> []
      then [''spec.caCertHashes is not implemented: it is accepted and stored, '' @
            ''but no controller reads it and it is rendered into no cloud-config, so the node join '' @
            ''is not pinned to it. For k3s, pass the server's full node-token '' @
            ''(K10<hash>::server:<password>) as spec.k3sToken or spec.k3sTokenSecretRef instead; '' @
            ''the k0s join token already carries the cluster CA.''] else []) @
     (if ref_set (cg_ca_ref r)
      then [''spec.caCertSecretRef is not implemented: it is accepted and stored, '' @
            ''but no controller reads the referenced Secret and its contents reach no node. '' @
            ''Use spec.files to place a CA certificate on the node.''] else [])"

definition foreign_ref :: "string \<Rightarrow> secret_ref option \<Rightarrow> string \<Rightarrow> field_err list" where
  "foreign_ref ns ro name =
     (case ro of
        None \<Rightarrow> []
      | Some r \<Rightarrow> if sr_namespace r \<noteq> [] \<and> sr_namespace r \<noteq> ns
                  then [FieldForbidden (new_path [''spec'', name, ''namespace''])] else [])"

definition validateSecretRefNamespaces :: "string \<Rightarrow> config_spec \<Rightarrow> field_err list" where
  "validateSecretRefNamespaces ns r =
     foreign_ref ns (cg_user_password_ref r) ''userPasswordSecretRef'' @
     foreign_ref ns (cg_worker_token_ref r) ''workerTokenSecretRef'' @
     foreign_ref ns (cg_k3s_token_ref r) ''k3sTokenSecretRef'' @
     foreign_ref ns (cg_join_token_ref r) ''controlPlaneJoinTokenSecretRef''"

definition file_errs :: "nat \<Rightarrow> config_file \<Rightarrow> field_err list" where
  "file_errs i f =
     (let fPath = new_path [''spec'', ''files''] @ [Idx i]
      in (if \<not> has_prefix (fl_path f) ''/''
          then [FieldInvalid (child fPath [''path'']) (JStr (fl_path f))]
          else if ''..'' \<in> set (split_on CHR ''/'' (fl_path f))
          then [FieldInvalid (child fPath [''path'']) (JStr (fl_path f))]
          else []) @
         (if fl_permissions f \<noteq> [] \<and> \<not> octal_permissions (fl_permissions f)
          then [FieldInvalid (child fPath [''permissions'']) (JStr (fl_permissions f))] else []) @
         (if fl_owner f \<noteq> [] \<and> \<not> owner_format (fl_owner f)
          then [FieldInvalid (child fPath [''owner'']) (JStr (fl_owner f))] else []))"

definition has_credential :: "config_spec \<Rightarrow> bool" where
  "has_credential r \<longleftrightarrow>
     cg_user_password r \<noteq> [] \<or> ref_set (cg_user_password_ref r) \<or>
     cg_ssh_key r \<noteq> [] \<or> cg_github_user r \<noteq> []"

definition validateWith ::
  "(string \<Rightarrow> string list) \<Rightarrow> (kubeadm_config \<Rightarrow> string option) \<Rightarrow> string \<Rightarrow>
   config_spec \<Rightarrow> field_err list \<Rightarrow> field_err list" where
  "validateWith subdomain_errors marshal ns r extra =
     extra @
     (if cg_role r \<noteq> ''control-plane'' \<and> cg_role r \<noteq> ''worker''
      then [FieldInvalid (new_path [''spec'', ''role'']) (JStr (cg_role r))] else []) @
     validateDistribution subdomain_errors marshal r @
     (if \<not> has_credential r then [FieldRequired (new_path [''spec''])] else []) @
     concat (map (\<lambda>(i, f). file_errs i f) (List.enumerate 0 (cg_files r))) @
     validateSecretRefNamespaces ns r"

definition config_validateCreate ::
  "(string \<Rightarrow> string list) \<Rightarrow> (string \<Rightarrow> string list) \<Rightarrow> (kubeadm_config \<Rightarrow> string option) \<Rightarrow>
   string \<Rightarrow> config_spec \<Rightarrow> string list \<times> field_err list" where
  "config_validateCreate label_errors subdomain_errors marshal ns r =
     (config_warnings r,
      validateWith subdomain_errors marshal ns r (validateHostname label_errors r))"

definition config_validateUpdate ::
  "(string \<Rightarrow> string list) \<Rightarrow> (string \<Rightarrow> string list) \<Rightarrow> (kubeadm_config \<Rightarrow> string option) \<Rightarrow>
   string \<Rightarrow> config_spec option \<Rightarrow> config_spec \<Rightarrow> string list \<times> field_err list" where
  "config_validateUpdate label_errors subdomain_errors marshal ns old r =
     (config_warnings r,
      validateWith subdomain_errors marshal ns r
        (case old of
           None \<Rightarrow> validateHostname label_errors r
         | Some o' \<Rightarrow> if cg_hostname o' \<noteq> cg_hostname r then validateHostname label_errors r else []))"

end
