(* ===== verification/Cloud_Config.thy ===== *)
theory Cloud_Config
  imports Admission
begin

text \<open>
  The renderer of cloud-configs (\<open>internal/bootstrap\<close>: \<open>template.go\<close>, \<open>validate.go\<close>, \<open>funcs.go\<close>,
  \<open>management_ca.go\<close>, \<open>persistency.go\<close>): the data of a render, the checks made before it, the
  functions the templates call, and \<open>Render\<close>.

  The template engine with the templates (which are not Go), \<open>yaml.Marshal\<close> and
  \<open>IsDNS1123Subdomain\<close> are the parameters of \<open>renderlib\<close>; PEM and X.509 are those of \<open>kubelib\<close>.
  Texts of errors are not modelled: an error is which check failed, on which field.
\<close>


section \<open>The data of a render\<close>

record management_endpoint =
  me_api_server :: string
  me_token :: string
  me_secret_name :: string
  me_secret_namespace :: string
  me_cluster_name :: string
  me_endpoint_host :: string
  me_etcd_secret :: string
  me_ca_bundle :: string

record kubeadm_data =
  kd_join :: string
  kd_provider_patch :: string
  kd_version :: string
  kd_patches :: string

record install_data =
  id_auto :: bool
  id_device :: string
  id_reboot :: bool

record template_data =
  td_role :: string
  td_single_node :: bool
  td_k0s_single_node :: bool
  td_hostname :: string
  td_user_name :: string
  td_user_password :: string
  td_user_groups :: "string list"
  td_github_user :: string
  td_ssh_key :: string
  td_worker_token :: string
  td_manifests :: "config_manifest list"
  td_files :: "config_file list"
  td_hostname_prefix :: string
  td_dns_servers :: "string list"
  td_pod_cidr :: string
  td_service_cidr :: string
  td_primary_ip :: string
  td_machine_name :: string
  td_cluster_ns :: string
  td_kubevirt :: bool
  td_metal3 :: bool
  td_fleet :: bool
  td_install :: "install_data option"
  td_provider_id :: string
  td_k3s_server :: string
  td_k3s_token :: string
  td_lb_name :: string
  td_lb_namespace :: string
  td_lb_endpoint :: string
  td_cp_role :: string
  td_join_token :: string
  td_vip :: "vip_config option"
  td_endpoint :: "management_endpoint option"
  td_kubeadm :: "kubeadm_data option"

definition HasKubeadm :: "template_data \<Rightarrow> bool" where
  "HasKubeadm d \<longleftrightarrow> td_kubeadm d \<noteq> None"

definition IsControlPlane :: "template_data \<Rightarrow> bool" where
  "IsControlPlane d \<longleftrightarrow> td_role d = ''control-plane''"

definition IsSingleControlPlane :: "template_data \<Rightarrow> bool" where
  "IsSingleControlPlane d \<longleftrightarrow> IsControlPlane d \<and> (td_cp_role d = [] \<or> td_cp_role d = ''single'')"

definition IsInitControlPlane :: "template_data \<Rightarrow> bool" where
  "IsInitControlPlane d \<longleftrightarrow> IsControlPlane d \<and> td_cp_role d = ''init''"

definition IsJoinControlPlane :: "template_data \<Rightarrow> bool" where
  "IsJoinControlPlane d \<longleftrightarrow> IsControlPlane d \<and> td_cp_role d = ''join''"

definition IsHAControlPlane :: "template_data \<Rightarrow> bool" where
  "IsHAControlPlane d \<longleftrightarrow> IsInitControlPlane d \<or> IsJoinControlPlane d"

definition RenderKubeVIP :: "template_data \<Rightarrow> bool" where
  "RenderKubeVIP d \<longleftrightarrow> IsHAControlPlane d \<and> td_vip d \<noteq> None \<and> \<not> td_kubevirt d"

record renderlib =
  rl_execute :: "string \<Rightarrow> string \<Rightarrow> template_data \<Rightarrow> string option"
  rl_yaml :: "json \<Rightarrow> string option"
  rl_subdomain_errors :: "string \<Rightarrow> string list"
  rl_kube :: kubelib


section \<open>Management CA bundles\<close>

datatype ca_error = CaEmpty | CaOversized | CaNotCertificate | CaUnparseable | CaTrailing | CaNone

text \<open>The loop of \<open>SanitizeManagementCABundle\<close>, with what it has re-encoded and the number of
  certificates; \<open>pem.Decode\<close> consumes what it returns, so the rest is shorter, and \<open>cert.Raw\<close> of
  a certificate that parses is the block's content.\<close>

function management_ca_loop :: "kubelib \<Rightarrow> string \<Rightarrow> string \<Rightarrow> nat \<Rightarrow> ca_error + string" where
  "management_ca_loop L rest out certs =
     (case kl_pem L rest of
        Some (block, rest') \<Rightarrow>
          if pb_type block \<noteq> ''CERTIFICATE'' then Inl CaNotCertificate
          else (case kl_x509 L (pb_bytes block) of
                  None \<Rightarrow> Inl CaUnparseable
                | Some _ \<Rightarrow>
                    if length rest' < length rest
                    then management_ca_loop L rest' (out @ kl_pem_encode L (pb_bytes block)) (Suc certs)
                    else Inl CaUnparseable)
      | None \<Rightarrow>
          if \<not> only_space (map of_char rest) then Inl CaTrailing
          else if certs = 0 then Inl CaNone
          else Inr out)"
  by pat_completeness auto
termination by (relation "measure (\<lambda>(L, rest, out, n). length rest)") auto

declare management_ca_loop.simps [simp del]

definition SanitizeManagementCABundle :: "kubelib \<Rightarrow> string \<Rightarrow> ca_error + string" where
  "SanitizeManagementCABundle L raw =
     (if raw = [] then Inl CaEmpty
      else if length raw > max_size then Inl CaOversized
      else management_ca_loop L raw [] 0)"


section \<open>Validation before a render\<close>

text \<open>\<open>^[a-zA-Z][a-zA-Z0-9+.\-]*://[a-zA-Z0-9._/:\-]+$\<close>: no character of the scheme is a colon,
  so the scheme is what stands before the first one.\<close>

definition scheme_char :: "char \<Rightarrow> bool" where
  "scheme_char c \<longleftrightarrow> is_alpha c \<or> is_digit c \<or> c \<in> set ''+.-''"

definition id_char :: "char \<Rightarrow> bool" where
  "id_char c \<longleftrightarrow> is_alpha c \<or> is_digit c \<or> c \<in> set ''._/:-''"

definition providerIDPattern :: "string \<Rightarrow> bool" where
  "providerIDPattern s =
     (let scheme = takeWhile scheme_char s;
          rest = dropWhile scheme_char s
      in scheme \<noteq> [] \<and> is_alpha (hd scheme) \<and> has_prefix rest ''://'' \<and>
         drop 3 rest \<noteq> [] \<and> list_all id_char (drop 3 rest))"

definition ValidateProviderID :: "string \<Rightarrow> bool" where
  "ValidateProviderID s \<longleftrightarrow> s = [] \<or> providerIDPattern s"

datatype render_error =
    BadProviderID
  | ControlIn string
  | ControlInItem string nat
  | BadCABundle ca_error
  | FileNotAbsolute nat
  | FileTraversal nat
  | FilePermissions nat
  | FileOwner nat
  | VipEmpty | VipAddress | VipInterface | VipMode
  | KubeadmMarkup string
  | KubeadmPatches patches_err

definition rejectControlChars :: "string \<Rightarrow> string \<Rightarrow> render_error list" where
  "rejectControlChars field s = (if list_ex control_char s then [ControlIn field] else [])"

definition string_fields :: "template_data \<Rightarrow> (string \<times> string) list" where
  "string_fields d =
    [(''hostname'', td_hostname d), (''hostnamePrefix'', td_hostname_prefix d),
     (''userName'', td_user_name d), (''userPassword'', td_user_password d),
     (''gitHubUser'', td_github_user d), (''sshPublicKey'', td_ssh_key d),
     (''workerToken'', td_worker_token d), (''k3sServerURL'', td_k3s_server d),
     (''k3sToken'', td_k3s_token d), (''podCIDR'', td_pod_cidr d),
     (''serviceCIDR'', td_service_cidr d), (''primaryIP'', td_primary_ip d),
     (''machineName'', td_machine_name d), (''clusterNS'', td_cluster_ns d),
     (''controlPlaneLBServiceName'', td_lb_name d),
     (''controlPlaneLBServiceNamespace'', td_lb_namespace d),
     (''controlPlaneLBEndpoint'', td_lb_endpoint d), (''controlPlaneRole'', td_cp_role d),
     (''joinToken'', td_join_token d)]"

definition endpoint_fields :: "management_endpoint \<Rightarrow> (string \<times> string) list" where
  "endpoint_fields e =
    [(''managementEndpoint.apiServer'', me_api_server e), (''managementEndpoint.token'', me_token e),
     (''managementEndpoint.kubeconfigSecretName'', me_secret_name e),
     (''managementEndpoint.kubeconfigSecretNamespace'', me_secret_namespace e)]"

definition reject_fields :: "(string \<times> string) list \<Rightarrow> render_error list" where
  "reject_fields fs = concat (map (\<lambda>(n, v). rejectControlChars n v) fs)"

definition reject_items :: "string \<Rightarrow> string list \<Rightarrow> render_error list" where
  "reject_items name vs =
     concat (map (\<lambda>(i, v). if list_ex control_char v then [ControlInItem name i] else [])
       (List.enumerate 0 vs))"

definition render_file_errs :: "nat \<Rightarrow> config_file \<Rightarrow> render_error list" where
  "render_file_errs i f =
     (if list_ex control_char (fl_path f) then [ControlInItem ''files.path'' i]
      else if \<not> has_prefix (fl_path f) ''/'' then [FileNotAbsolute i]
      else if ''..'' \<in> set (split_on CHR ''/'' (fl_path f)) then [FileTraversal i]
      else []) @
     (if fl_permissions f = [] then []
      else if list_ex control_char (fl_permissions f) then [ControlInItem ''files.permissions'' i]
      else if \<not> octal_permissions (fl_permissions f) then [FilePermissions i]
      else []) @
     (if fl_owner f = [] then []
      else if list_ex control_char (fl_owner f) then [ControlInItem ''files.owner'' i]
      else if \<not> owner_format (fl_owner f) then [FileOwner i]
      else [])"

text \<open>\<open>vipModePattern\<close> is \<open>^(ARP|BGP)?$\<close>, \<open>vipInterfacePattern\<close> that of the webhook.\<close>

definition vipModePattern :: "string \<Rightarrow> bool" where
  "vipModePattern s \<longleftrightarrow> s = [] \<or> s = ''ARP'' \<or> s = ''BGP''"

definition validateVIP :: "renderlib \<Rightarrow> vip_config \<Rightarrow> render_error list" where
  "validateVIP L v =
     (if vc_address v = [] then [VipEmpty]
      else if parse_ip (vc_address v) = None \<and> rl_subdomain_errors L (vc_address v) \<noteq> []
      then [VipAddress] else []) @
     (if \<not> vipInterfaceRe (vc_interface v) then [VipInterface] else []) @
     (if \<not> vipModePattern (vc_mode v) then [VipMode] else [])"

definition endpoint_errs :: "renderlib \<Rightarrow> management_endpoint option \<Rightarrow> render_error list" where
  "endpoint_errs L eo =
     (case eo of
        None \<Rightarrow> []
      | Some e \<Rightarrow>
          reject_fields (endpoint_fields e) @
          (if me_ca_bundle e = [] then []
           else case SanitizeManagementCABundle (rl_kube L) (me_ca_bundle e) of
                  Inl x \<Rightarrow> [BadCABundle x] | Inr _ \<Rightarrow> []))"

definition kubeadm_errs :: "kubeadm_data option \<Rightarrow> render_error list" where
  "kubeadm_errs ko =
     (case ko of
        None \<Rightarrow> []
      | Some k \<Rightarrow>
          (if contains_str (kd_join k) ''{{'' then [KubeadmMarkup ''kubeadm.joinConfiguration''] else []) @
          (if contains_str (kd_provider_patch k) ''{{'' then [KubeadmMarkup ''kubeadm.providerIDPatch''] else []) @
          (case ValidatePatchesDirectory (kd_patches k) of
             Some x \<Rightarrow> [KubeadmPatches x] | None \<Rightarrow> []))"

definition validateTemplateData :: "renderlib \<Rightarrow> template_data \<Rightarrow> render_error list" where
  "validateTemplateData L d =
     (if \<not> ValidateProviderID (td_provider_id d) then [BadProviderID] else []) @
     reject_fields (string_fields d) @
     endpoint_errs L (td_endpoint d) @
     reject_items ''userGroups'' (td_user_groups d) @
     reject_items ''dnsServers'' (td_dns_servers d) @
     concat (map (\<lambda>(i, f). render_file_errs i f) (List.enumerate 0 (td_files d))) @
     (case td_vip d of None \<Rightarrow> [] | Some v \<Rightarrow> validateVIP L v) @
     kubeadm_errs (td_kubeadm d)"


section \<open>Template functions\<close>

definition squote :: char where "squote = CHR 0x27"

text \<open>\<open>shquote\<close>: every quote inside becomes quote, backslash, quote, quote.\<close>

definition shquote :: "string \<Rightarrow> string" where
  "shquote s =
     [squote] @
     concat (map (\<lambda>c. if c = squote then [squote, CHR 0x5C, squote, squote] else [c]) s) @
     [squote]"

text \<open>
  \<open>safeIndent\<close> reads with a \<open>bufio.Scanner\<close>: \<open>ScanLines\<close> ends a line at a newline, gives no
  line for an empty rest, and drops one carriage return at the end of a line. The buffer holds
  \<open>1024*1024\<close> bytes; a line that does not fit, its newline included, or as the last line
  with a byte to spare, ends the scan, and \<open>safeIndent\<close> does not ask \<open>scanner.Err\<close>.
\<close>

definition max_token :: nat where "max_token = 1024 * 1024"

definition raw_lines :: "string \<Rightarrow> string list" where
  "raw_lines s =
     (let ls = split_on CHR 0x0A s in if last ls = [] then butlast ls else ls)"

definition drop_cr :: "string \<Rightarrow> string" where
  "drop_cr l = (if l \<noteq> [] \<and> last l = CHR 0x0D then butlast l else l)"

definition scan_lines :: "string \<Rightarrow> string list" where
  "scan_lines s = map drop_cr (takeWhile (\<lambda>l. length l < max_token) (raw_lines s))"

definition pad_line :: "nat \<Rightarrow> string \<Rightarrow> string" where
  "pad_line n l = (if l = [] then [] else replicate n CHR '' '' @ l)"

definition safeIndent :: "nat \<Rightarrow> string \<Rightarrow> string" where
  "safeIndent n s =
     (if s = [] then [] else join_str [CHR 0x0A] (map (pad_line n) (scan_lines s)))"

definition nindent :: "nat \<Rightarrow> string \<Rightarrow> string" where
  "nindent n s = CHR 0x0A # safeIndent n s"

text \<open>\<open>strings.TrimSuffix\<close>, and \<open>strings.TrimRight\<close> of the newlines \<open>yaml.Marshal\<close> ends with.\<close>

definition trimSuffix :: "string \<Rightarrow> string \<Rightarrow> string" where
  "trimSuffix suf s =
     (if has_prefix (rev s) (rev suf) then take (length s - length suf) s else s)"

definition toYaml :: "renderlib \<Rightarrow> json \<Rightarrow> string option" where
  "toYaml L v = map_option (trim_right (CHR 0x0A)) (rl_yaml L v)"

definition quote :: "renderlib \<Rightarrow> json \<Rightarrow> string option" where
  "quote L v = map_option (trim_right (CHR 0x0A)) (rl_yaml L v)"

definition persistent_paths :: "string list" where
  "persistent_paths = [''/etc/cni'', ''/etc/k0s'', ''/etc/kubernetes'', ''/etc/rancher'',
     ''/etc/ssh'', ''/etc/systemd'', ''/var/lib/cni'', ''/var/lib/containerd'', ''/var/lib/k0s'',
     ''/var/lib/kubelet'', ''/var/lib/rancher'', ''/var/log'']"

definition persistencyOEM :: string where
  "persistencyOEM =
     concat (map (\<lambda>l. l @ [CHR 0x0A])
      [''name: \"Kairos CAPI persistent state paths\"'',
       ''stages:'',
       ''  rootfs:'',
       ''    - environment_file: /run/cos/extra-layout.env'',
       ''      environment:'',
       ''        PERSISTENT_STATE_PATHS: \"'' @ join_str '' '' persistent_paths @ ''\"''])"


section \<open>The kube-vip manifest\<close>

definition env_var :: "string \<Rightarrow> string \<Rightarrow> json" where
  "env_var n v = JObj [(''name'', JStr n), (''value'', JStr v)]"

definition kubeVIPContainer :: "vip_config \<Rightarrow> string \<Rightarrow> json" where
  "kubeVIPContainer v mode =
     (let arpEnabled = (if mode = ''BGP'' then ''false'' else ''true'');
          bgpEnabled = (if mode = ''BGP'' then ''true'' else ''false'')
      in JObj
       [(''name'', JStr ''kube-vip''),
        (''image'', JStr ''ghcr.io/kube-vip/kube-vip:v0.8.7''),
        (''imagePullPolicy'', JStr ''IfNotPresent''),
        (''args'', JArr [JStr ''manager'']),
        (''env'', JArr
          [env_var ''vip_arp'' arpEnabled, env_var ''vip_interface'' (vc_interface v),
           env_var ''address'' (vc_address v), env_var ''port'' ''6443'',
           env_var ''cp_enable'' ''true'', env_var ''svc_enable'' ''false'',
           env_var ''vip_leaderelection'' ''true'', env_var ''vip_leaseduration'' ''5'',
           env_var ''vip_renewdeadline'' ''3'', env_var ''vip_retryperiod'' ''1'',
           env_var ''bgp_enable'' bgpEnabled, env_var ''KUBERNETES_SERVICE_HOST'' ''127.0.0.1'',
           env_var ''KUBERNETES_SERVICE_PORT'' ''6443'']),
        (''securityContext'', JObj [(''capabilities'',
           JObj [(''add'', JArr [JStr ''NET_ADMIN'', JStr ''NET_RAW''])])])])"

definition strs :: "string list \<Rightarrow> json" where
  "strs ws = JArr (map JStr ws)"

definition kube_vip_objects :: "vip_config \<Rightarrow> json list" where
  "kube_vip_objects v =
     (let mode = (if vc_mode v = [] then ''ARP'' else vc_mode v);
          labels = JObj [(''app.kubernetes.io/name'', JStr ''kube-vip'')];
          sa = JObj [(''apiVersion'', JStr ''v1''), (''kind'', JStr ''ServiceAccount''),
            (''metadata'', JObj [(''name'', JStr ''kube-vip''), (''namespace'', JStr ''kube-system'')])];
          cr = JObj [(''apiVersion'', JStr ''rbac.authorization.k8s.io/v1''),
            (''kind'', JStr ''ClusterRole''),
            (''metadata'', JObj [(''name'', JStr ''system:kube-vip-role'')]),
            (''rules'', JArr
              [JObj [(''apiGroups'', strs ['''']),
                 (''resources'', strs [''services'', ''services/status'', ''nodes'', ''endpoints'']),
                 (''verbs'', strs [''get'', ''list'', ''watch'', ''update''])],
               JObj [(''apiGroups'', strs [''coordination.k8s.io'']),
                 (''resources'', strs [''leases'']),
                 (''verbs'', strs [''get'', ''list'', ''watch'', ''update'', ''create''])]])];
          crb = JObj [(''apiVersion'', JStr ''rbac.authorization.k8s.io/v1''),
            (''kind'', JStr ''ClusterRoleBinding''),
            (''metadata'', JObj [(''name'', JStr ''system:kube-vip-binding'')]),
            (''roleRef'', JObj [(''apiGroup'', JStr ''rbac.authorization.k8s.io''),
               (''kind'', JStr ''ClusterRole''), (''name'', JStr ''system:kube-vip-role'')]),
            (''subjects'', JArr [JObj [(''kind'', JStr ''ServiceAccount''),
               (''name'', JStr ''kube-vip''), (''namespace'', JStr ''kube-system'')]])];
          tol = (\<lambda>k. JObj [(''key'', JStr k), (''operator'', JStr ''Exists''),
                           (''effect'', JStr ''NoSchedule'')]);
          ds = JObj [(''apiVersion'', JStr ''apps/v1''), (''kind'', JStr ''DaemonSet''),
            (''metadata'', JObj [(''name'', JStr ''kube-vip''), (''namespace'', JStr ''kube-system''),
               (''labels'', labels)]),
            (''spec'', JObj
              [(''selector'', JObj [(''matchLabels'', labels)]),
               (''template'', JObj
                 [(''metadata'', JObj [(''labels'', labels)]),
                  (''spec'', JObj
                    [(''serviceAccountName'', JStr ''kube-vip''), (''hostNetwork'', JBool True),
                     (''nodeSelector'', JObj [(''node-role.kubernetes.io/control-plane'', JStr ''true'')]),
                     (''tolerations'', JArr
                       [tol ''node-role.kubernetes.io/control-plane'',
                        tol ''node-role.kubernetes.io/master'']),
                     (''containers'', JArr [kubeVIPContainer v mode])])]),
               (''updateStrategy'', JObj [(''type'', JStr ''RollingUpdate'')])])]
      in [sa, cr, crb, ds])"

definition kubeVIPManifest :: "renderlib \<Rightarrow> vip_config option \<Rightarrow> string option" where
  "kubeVIPManifest L vo =
     (case vo of
        None \<Rightarrow> None
      | Some v \<Rightarrow>
          (let docs = map (rl_yaml L) (kube_vip_objects v)
           in if None \<in> set docs then None
              else Some (trim_right (CHR 0x0A)
                (join_str (''---'' @ [CHR 0x0A]) (map the docs)))))"


section \<open>Rendering\<close>

record template_set =
  tp_name :: string
  tp_generic :: string
  tp_kubevirt :: string
  tp_marker :: string

definition distributionTemplates :: "string \<Rightarrow> template_set option" where
  "distributionTemplates d =
     (if d = ''k0s'' then Some \<lparr>tp_name = ''k0s_kairos_cloud_config'',
        tp_generic = ''templates/k0s_kairos_cloud_config_capv.yaml.tmpl'',
        tp_kubevirt = ''templates/k0s_kairos_cloud_config_capk.yaml.tmpl'',
        tp_marker = ''kairos-k0s-post-bootstrap.service''\<rparr>
      else if d = ''k3s'' then Some \<lparr>tp_name = ''k3s_kairos_cloud_config'',
        tp_generic = ''templates/k3s_kairos_cloud_config_capv.yaml.tmpl'',
        tp_kubevirt = ''templates/k3s_kairos_cloud_config_capk.yaml.tmpl'',
        tp_marker = ''kairos-k3s-post-bootstrap.service''\<rparr>
      else if d = ''kubeadm'' then Some \<lparr>tp_name = ''kubeadm_kairos_cloud_config'',
        tp_generic = ''templates/kubeadm_kairos_cloud_config.yaml.tmpl'',
        tp_kubevirt = ''templates/kubeadm_kairos_cloud_config.yaml.tmpl'',
        tp_marker = ''kairos-kubeadm-post-bootstrap.service''\<rparr>
      else None)"

datatype render_failure = UnsupportedDistribution | KubeadmControlPlane
  | InvalidData "render_error list" | TemplateFailed | OverBudget nat

definition metal3_budget :: nat where "metal3_budget = 60 * 1024"

definition renderTemplate :: "renderlib \<Rightarrow> string \<Rightarrow> string \<Rightarrow> template_data \<Rightarrow> render_failure + string" where
  "renderTemplate L name path d =
     (case validateTemplateData L d of
        e # es \<Rightarrow> Inl (InvalidData (e # es))
      | [] \<Rightarrow>
          (case rl_execute L name path d of
             None \<Rightarrow> Inl TemplateFailed
           | Some rendered \<Rightarrow>
               if td_metal3 d \<and> length rendered > metal3_budget then Inl (OverBudget (length rendered))
               else Inr rendered))"

definition Render :: "renderlib \<Rightarrow> string \<Rightarrow> template_data \<Rightarrow> render_failure + string" where
  "Render L distribution d =
     (case distributionTemplates distribution of
        None \<Rightarrow> Inl UnsupportedDistribution
      | Some ts \<Rightarrow>
          if distribution = ''kubeadm'' \<and> td_role d = ''control-plane'' then Inl KubeadmControlPlane
          else renderTemplate L (tp_name ts)
                 (if td_kubevirt d then tp_kubevirt ts else tp_generic ts) d)"

definition ProviderIDMarker :: "string \<Rightarrow> string option" where
  "ProviderIDMarker distribution = map_option tp_marker (distributionTemplates distribution)"

definition RenderK0sCloudConfig :: "renderlib \<Rightarrow> template_data \<Rightarrow> render_failure + string" where
  "RenderK0sCloudConfig L d = Render L ''k0s'' d"

definition RenderK3sCloudConfig :: "renderlib \<Rightarrow> template_data \<Rightarrow> render_failure + string" where
  "RenderK3sCloudConfig L d = Render L ''k3s'' d"

end
