(* ===== verification/Admission_Safety.thy ===== *)
theory Admission_Safety
  imports Cloud_Config
begin

text \<open>
  What admission and the checks before a render establish: the two webhooks of the control
  plane agree, defaulting changes no verdict, a patches directory lies where it must, the
  values a cloud-config carries hold no character that could end the text around them.
\<close>


section \<open>Paths\<close>

text \<open>A segment that \<open>path.Clean\<close> keeps.\<close>

definition plain_seg :: "string \<Rightarrow> bool" where
  "plain_seg w \<longleftrightarrow> w \<noteq> [] \<and> w \<noteq> ''.'' \<and> w \<noteq> ''..'' \<and> CHR ''/'' \<notin> set w"

lemma clean_segs_step:
  "\<forall>v\<in>set out. plain_seg v \<Longrightarrow> CHR ''/'' \<notin> set w \<Longrightarrow>
   \<exists>out'. (\<forall>v\<in>set out'. plain_seg v) \<and> clean_segs True out (w # ws) = clean_segs True out' ws"
proof -
  assume out: "\<forall>v\<in>set out. plain_seg v" and w: "CHR ''/'' \<notin> set w"
  consider "w = [] \<or> w = ''.''" | "w = ''..''" | "plain_seg w"
    using w by (auto simp: plain_seg_def)
  then show ?thesis
  proof cases
    case 2
    with out show ?thesis
      by (intro exI [of _ "tl out"]) (cases out; simp add: plain_seg_def)
  next
    case 3
    with out show ?thesis by (intro exI [of _ "w # out"]) (simp add: plain_seg_def)
  qed (use out in auto)
qed

lemma clean_segs_plain:
  "\<forall>w\<in>set out. plain_seg w \<Longrightarrow> \<forall>w\<in>set ws. CHR ''/'' \<notin> set w \<Longrightarrow>
   \<forall>w\<in>set (clean_segs True out ws). plain_seg w"
proof (induction ws arbitrary: out)
  case (Cons w ws)
  from Cons.prems obtain out' where
    "\<forall>v\<in>set out'. plain_seg v" "clean_segs True out (w # ws) = clean_segs True out' ws"
    using clean_segs_step [of out w ws] by auto
  with Cons.IH [of out'] Cons.prems show ?case by simp
qed simp

lemma clean_segs_id:
  "\<forall>w\<in>set ws. plain_seg w \<Longrightarrow> clean_segs True out ws = rev out @ ws"
  by (induction ws arbitrary: out) (auto simp: plain_seg_def)

lemma join_slash: "ws \<noteq> [] \<Longrightarrow> join_str ''/'' ([] # ws) = CHR ''/'' # join_str ''/'' ws"
  by (cases ws) auto

lemma path_clean_rooted:
  assumes "\<forall>w\<in>set ws. plain_seg w"
  shows "path_clean (CHR ''/'' # join_str ''/'' ws) = CHR ''/'' # join_str ''/'' ws"
proof (cases "ws = []")
  case True
  then show ?thesis by (simp add: path_clean_def)
next
  case False
  with assms have "split_on CHR ''/'' (join_str ''/'' ws) = ws"
    by (intro split_on_join) (auto simp: plain_seg_def)
  with assms show ?thesis by (simp add: path_clean_def clean_segs_id Let_def)
qed

lemma path_clean_fixed:
  assumes "has_prefix s ''/''" "path_clean s = s"
  obtains ws where "\<forall>w\<in>set ws. plain_seg w" "s = CHR ''/'' # join_str ''/'' ws"
proof -
  let ?ws = "clean_segs True [] (split_on CHR ''/'' s)"
  have "\<forall>w\<in>set ?ws. plain_seg w"
    by (rule clean_segs_plain) (auto dest: split_on_free)
  moreover have "s = CHR ''/'' # join_str ''/'' ?ws"
    using assms by (auto simp: path_clean_def Let_def split: if_splits)
  ultimately show ?thesis by (rule that)
qed

text \<open>The directories below the kubeadm root and outside the static pods.\<close>

definition patches_dir :: "string list \<Rightarrow> string" where
  "patches_dir ws = ''/etc/kubernetes/'' @ join_str ''/'' ws"

definition good_segs :: "string list \<Rightarrow> bool" where
  "good_segs ws \<longleftrightarrow> ws \<noteq> [] \<and> (\<forall>w\<in>set ws. plain_seg w \<and> \<not> list_ex control_char w) \<and>
     hd ws \<noteq> ''manifests''"

lemma join_two:
  "ws \<noteq> [] \<Longrightarrow> join_str ''/'' (a # b # ws) = a @ ''/'' @ b @ ''/'' @ join_str ''/'' ws"
  by (cases ws) auto

lemma patches_dir_join:
  "ws \<noteq> [] \<Longrightarrow> patches_dir ws = CHR ''/'' # join_str ''/'' (''etc'' # ''kubernetes'' # ws)"
  by (subst join_two) (simp_all add: patches_dir_def)

lemma root_segs:
  assumes "\<forall>w\<in>set ws. plain_seg w" "has_prefix (CHR ''/'' # join_str ''/'' ws) kubeadmPatchesRoot"
  obtains vs where "ws = ''etc'' # ''kubernetes'' # vs" "vs \<noteq> []"
proof -
  from assms(2) obtain t where t: "join_str ''/'' ws = ''etc/kubernetes/'' @ t"
    by (auto simp: has_prefix_iff kubeadmPatchesRoot_def)
  then have "ws \<noteq> []" by auto
  with assms(1) have "ws = split_on CHR ''/'' (join_str ''/'' ws)"
    by (intro split_on_join [symmetric]) (auto simp: plain_seg_def)
  also have "\<dots> = ''etc'' # ''kubernetes'' # split_on CHR ''/'' t"
    using split_on_plain [of "CHR ''/''" "''etc''" "''kubernetes/'' @ t"]
      split_on_plain [of "CHR ''/''" "''kubernetes''" t] by (simp add: t)
  finally show ?thesis by (rule that) simp
qed

lemma join_hd_prefix:
  assumes "\<forall>w\<in>set (v # vs). plain_seg w" "plain_seg u"
  shows "join_str ''/'' (v # vs) = u \<or> has_prefix (join_str ''/'' (v # vs)) (u @ ''/'') \<longleftrightarrow> v = u"
proof
  assume "join_str ''/'' (v # vs) = u \<or> has_prefix (join_str ''/'' (v # vs)) (u @ ''/'')"
  then obtain t where "join_str ''/'' (v # vs) = u @ t" "t = [] \<or> (\<exists>r. t = CHR ''/'' # r)"
    by (auto simp: has_prefix_iff)
  moreover from this have "hd (split_on CHR ''/'' (u @ t)) = u"
    using assms(2) by (auto simp: split_on_plain split_on_word plain_seg_def)
  moreover have "split_on CHR ''/'' (join_str ''/'' (v # vs)) = v # vs"
    using assms(1) by (intro split_on_join) (auto simp: plain_seg_def)
  ultimately show "v = u" by simp
qed (cases vs; simp add: has_prefix_iff)

lemma manifests_plain: "plain_seg ''manifests''"
  by (simp add: plain_seg_def)

lemma list_ex_join:
  "list_ex P (join_str [d] ws) \<longleftrightarrow> (\<exists>w\<in>set ws. list_ex P w) \<or> P d \<and> 1 < length ws"
  by (induction "[d]" ws rule: join_str.induct) auto

lemma patches_dir_control:
  "ws \<noteq> [] \<Longrightarrow> list_ex control_char (patches_dir ws) \<longleftrightarrow> (\<exists>w\<in>set ws. list_ex control_char w)"
  by (simp add: patches_dir_def list_ex_join control_char_def)

lemma static_pods_iff:
  assumes "ws \<noteq> []" "\<forall>w\<in>set ws. plain_seg w"
  shows "patches_dir ws = kubeletStaticPodPath \<or> has_prefix (patches_dir ws) (kubeletStaticPodPath @ ''/'') \<longleftrightarrow>
    hd ws = ''manifests''"
proof -
  obtain v vs where ws: "ws = v # vs" using assms(1) by (cases ws) auto
  show ?thesis
    using join_hd_prefix [of v vs "''manifests''"] assms(2) manifests_plain
    by (simp add: ws patches_dir_def kubeletStaticPodPath_def)
qed

lemma accepted_patches_dir:
  "ValidatePatchesDirectory dir = None \<longleftrightarrow> (\<exists>ws. good_segs ws \<and> dir = patches_dir ws)"
proof
  assume ok: "ValidatePatchesDirectory dir = None"
  then have c: "\<not> list_ex control_char dir" and abs: "has_prefix dir ''/''" "path_clean dir = dir"
    and root: "has_prefix dir kubeadmPatchesRoot"
    and sp: "\<not> (dir = kubeletStaticPodPath \<or> has_prefix dir (kubeletStaticPodPath @ ''/''))"
    by (auto simp: ValidatePatchesDirectory_def split: if_splits)
  from abs obtain us where us: "\<forall>w\<in>set us. plain_seg w" "dir = CHR ''/'' # join_str ''/'' us"
    by (rule path_clean_fixed)
  from us(1) root [unfolded us(2)] obtain ws where ws: "us = ''etc'' # ''kubernetes'' # ws" "ws \<noteq> []"
    by (rule root_segs)
  then have dir: "dir = patches_dir ws" by (simp add: us(2) patches_dir_join)
  have "good_segs ws"
    using us(1) c sp static_pods_iff [of ws] ws unfolding good_segs_def dir
    by (auto simp: patches_dir_control)
  with dir show "\<exists>ws. good_segs ws \<and> dir = patches_dir ws" by blast
next
  assume "\<exists>ws. good_segs ws \<and> dir = patches_dir ws"
  then obtain ws where ws: "good_segs ws" and dir: "dir = patches_dir ws" by blast
  from ws have ne: "ws \<noteq> []" and pl: "\<forall>w\<in>set ws. plain_seg w" by (auto simp: good_segs_def)
  have "path_clean dir = dir"
    unfolding dir patches_dir_join [OF ne] using pl
    by (intro path_clean_rooted) (auto simp: plain_seg_def)
  with ws static_pods_iff [OF ne pl] patches_dir_control [OF ne] show "ValidatePatchesDirectory dir = None"
    by (auto simp: ValidatePatchesDirectory_def dir good_segs_def patches_dir_def kubeadmPatchesRoot_def)
qed

text \<open>
  C29: A kubeadm patches directory is accepted exactly when it is a chain of proper path
  segments (none empty, \<open>.\<close> or \<open>..\<close>) below \<open>/etc/kubernetes/\<close> that does not begin in the
  static-pod directory and holds no newline, carriage return or NUL: what kubeadm applies as
  root comes from no other place.
\<close>

theorem patches_directory_confined:
  "ValidatePatchesDirectory dir = None \<longleftrightarrow> (\<exists>ws. good_segs ws \<and> dir = patches_dir ws)"
  by (rule accepted_patches_dir)



section \<open>The control-plane webhooks\<close>

text \<open>An error of the KairosControlPlane webhook at the place the template has the same field.\<close>

definition in_template :: "fpath \<Rightarrow> fpath" where
  "in_template p = new_path [''spec'', ''template'', ''spec''] @ tl p"

fun template_err :: "field_err \<Rightarrow> field_err" where
  "template_err (FieldInvalid p v) = FieldInvalid (in_template p) v"
| "template_err (FieldRequired p) = FieldRequired (in_template p)"
| "template_err (FieldForbidden p) = FieldForbidden (in_template p)"

lemmas path_defs = new_path_def child_def in_template_def

lemma validateHA_template:
  "validateHA sub ha (child (new_path [''spec'', ''template'', ''spec'']) [''ha'']) =
   map template_err (validateHA sub ha (new_path [''spec'', ''ha'']))"
  by (simp add: validateHA_def path_defs split: option.split)

lemma validateSSHFallback_template:
  "validateSSHFallback s ns (child (new_path [''spec'', ''template'', ''spec'']) [''sshFallback'']) =
   map template_err (validateSSHFallback s ns (new_path [''spec'', ''sshFallback'']))"
  by (simp add: validateSSHFallback_def ssh_secret_errs_def path_defs split: option.split)

lemma warnings_template:
  "warnVIPOnSingleReplica s a = [] \<longleftrightarrow> warnVIPOnSingleReplica s b = []"
  by (simp add: warnVIPOnSingleReplica_def split: option.split)

text \<open>
  The webhook of a KairosControlPlaneTemplate gives the errors the KairosControlPlane
  webhook gives for the same spec in the same namespace, in the same order, each at the place
  below \<open>spec.template.spec\<close>, and warns when it does: a template that is admitted stamps
  control planes that are admitted, and no other template is refused.
\<close>

theorem template_mirrors_control_plane:
  "snd (template_validateWithWarnings sub ns s) =
     map template_err (snd (kcp_validateWithWarnings sub ns s)) \<and>
   (fst (template_validateWithWarnings sub ns s) = [] \<longleftrightarrow> fst (kcp_validateWithWarnings sub ns s) = [])"
  using warnings_template [of s "''spec.template.spec''" "''spec''"]
  by (simp add: template_validateWithWarnings_def kcp_validateWithWarnings_def template_validate_def
      kcp_validate_def validateHA_template [unfolded path_defs, simplified]
      validateSSHFallback_template [unfolded path_defs, simplified] Let_def
      validateInfrastructureRefNamespace_def path_defs split: option.split)

lemma default_user_ok: "sshFallbackUserRegex ''kairos''"
  by code_simp

lemma timeouts: "KubeconfigReadyTimeout < minutes 15"
  by (simp add: KubeconfigReadyTimeout_def minutes_def seconds_def ns_per_s_def)

lemma validateSSHFallback_default:
  "validateSSHFallback (defaultSSHFallback s) ns p = validateSSHFallback s ns p"
  using default_user_ok timeouts
  by (simp add: validateSSHFallback_def defaultSSHFallback_def split: option.split)

lemma defaultSSHFallback_idem [simp]:
  "defaultSSHFallback (defaultSSHFallback s) = defaultSSHFallback s"
  by (cases s) (auto simp: defaultSSHFallback_def split: option.split)

lemma kcp_default_fields:
  "sp_replicas (kcp_default s) = (if sp_replicas s = None then Some 1 else sp_replicas s)"
  "sp_distribution (kcp_default s) = sp_distribution s"
  "sp_ha (kcp_default s) = sp_ha s" "sp_infra_namespace (kcp_default s) = sp_infra_namespace s"
  "sp_ssh (kcp_default s) = defaultSSHFallback (sp_ssh s)"
  by (simp_all add: kcp_default_def Let_def)

lemma template_default_fields:
  "sp_replicas (template_default s) = (if sp_replicas s = None then Some 1 else sp_replicas s)"
  "sp_distribution (template_default s) =
     (if sp_distribution s = [] then ''k0s'' else sp_distribution s)"
  "sp_ha (template_default s) = sp_ha s"
  "sp_infra_namespace (template_default s) = sp_infra_namespace s"
  "sp_ssh (template_default s) = defaultSSHFallback (sp_ssh s)"
  by (simp_all add: template_default_def Let_def)

lemma kcp_default_idem: "kcp_default (kcp_default s) = kcp_default s"
  by (simp add: kcp_default_def Let_def)

lemma template_default_idem: "template_default (template_default s) = template_default s"
  by (simp add: template_default_def Let_def)

lemma kcp_validate_default: "kcp_validate sub ns (kcp_default s) = kcp_validate sub ns s"
  by (simp add: kcp_validate_def kcp_default_fields validateSSHFallback_default Let_def
      split: option.split)

lemma template_validate_default:
  "template_validate sub ns (template_default s) = template_validate sub ns s"
  by (simp add: template_validate_def template_default_fields validateSSHFallback_default Let_def
      split: option.split)

text \<open>
  Defaulting settles: applying it twice is applying it once, and the webhook's verdict on the
  defaulted object is its verdict on what the user wrote, for the control plane and for the
  template.
\<close>

theorem defaulting_keeps_the_verdict:
  "kcp_default (kcp_default s) = kcp_default s \<and>
   template_default (template_default s) = template_default s \<and>
   kcp_validate sub ns (kcp_default s) = kcp_validate sub ns s \<and>
   template_validate sub ns (template_default s) = template_validate sub ns s"
  by (simp add: kcp_default_idem template_default_idem kcp_validate_default template_validate_default)


section \<open>Texts of addresses\<close>

definition ip_char :: "char \<Rightarrow> bool" where
  "ip_char c \<longleftrightarrow> hex_val c \<noteq> None \<or> c = CHR ''.'' \<or> c = CHR '':''"

lemma set_join_str: "set (join_str sep ws) \<subseteq> set sep \<union> \<Union> (set ` set ws)"
  by (induction sep ws rule: join_str.induct) auto

lemma split_on_cover: "set s \<subseteq> insert d (\<Union> (set ` set (split_on d s)))"
  using set_join_str [of "[d]" "split_on d s"] by (simp add: join_split_on)

lemma v4_digits_ip: "v4_field_digits acc s = Some v \<Longrightarrow> list_all ip_char s"
  by (induction acc s rule: v4_field_digits.induct)
     (auto simp: ip_char_def hex_val_def digit_val_def split: option.splits if_splits)

lemma v4_field_ip: "v4_field s = Some v \<Longrightarrow> list_all ip_char s"
  by (auto simp: v4_field_def dest!: v4_digits_ip split: if_splits)

lemma parse_v4_ip:
  assumes "parse_v4 s = Some v" shows "list_all ip_char s"
proof -
  have "\<forall>w\<in>set (split_on CHR ''.'' s). v4_field w \<noteq> None"
    using assms by (auto simp: parse_v4_def split: list.splits option.splits)
  then have "\<forall>w\<in>set (split_on CHR ''.'' s). list_all ip_char w"
    by (auto dest!: v4_field_ip)
  with split_on_cover [of s "CHR ''.''"] show ?thesis
    by (fastforce simp: list_all_iff ip_char_def)
qed

lemma ip_char_sep [simp]: "ip_char CHR ''.''" "ip_char CHR '':''"
  by (simp_all add: ip_char_def)

lemma take_hex_split: "take_hex s = (h, rest) \<Longrightarrow> s = h @ rest \<and> list_all ip_char h"
  by (induction s arbitrary: h rest) (auto simp: ip_char_def split: if_splits prod.splits)

lemma parse_v6_loop_ip:
  "parse_v6_loop n s out ell = Some (left, r) \<Longrightarrow> left = [] \<Longrightarrow> list_all ip_char s"
proof (induction n s out ell rule: parse_v6_loop.induct)
  case (2 n s out ell)
  obtain h rest where th: "take_hex s = (h, rest)" by fastforce
  from take_hex_split [OF th] 2 th show ?case
    by (auto split: list.splits if_splits option.splits simp: Let_def dest: parse_v4_ip)
qed simp


lemma parse_v6_ip: "parse_v6 s = Some v \<Longrightarrow> list_all ip_char s"
proof -
  assume p: "parse_v6 s = Some v"
  show ?thesis
  proof (cases "has_prefix s ''::''")
    case True
    then obtain t where s: "s = CHR '':'' # CHR '':'' # t" by (auto simp: has_prefix_iff)
    have "t = [] \<or> list_all ip_char t"
      using p True by (auto simp: parse_v6_def s split: if_splits option.splits
          dest: parse_v6_loop_ip)
    then show ?thesis by (auto simp: s)
  next
    case False
    then have "s \<noteq> ''::''" by auto
    with p False show ?thesis
      by (auto simp: parse_v6_def split: if_splits option.splits dest: parse_v6_loop_ip)
  qed
qed

lemma parse_ip_chars: "parse_ip s \<noteq> None \<Longrightarrow> list_all ip_char s"
  by (auto simp: parse_ip_def split: option.splits if_splits dest: parse_v4_ip parse_v6_ip)


section \<open>Inert values\<close>

text \<open>Characters that end no YAML scalar, no shell word and no quotation, whatever stands
  around them.\<close>

definition inert :: "char \<Rightarrow> bool" where
  "inert c \<longleftrightarrow> is_alpha c \<or> is_digit c \<or> c \<in> set ''+._/:-''"

text \<open>What \<open>IsDNS1123Subdomain\<close> documents: a name it accepts is of lower-case letters, digits,
  \<open>-\<close> and \<open>.\<close>\<close>

definition subdomain_law :: "(string \<Rightarrow> string list) \<Rightarrow> bool" where
  "subdomain_law f \<longleftrightarrow> (\<forall>s. f s = [] \<longrightarrow>
     s \<noteq> [] \<and> list_all (\<lambda>c. is_lower c \<or> is_digit c \<or> c = CHR ''-'' \<or> c = CHR ''.'') s)"

lemma ip_char_inert: "ip_char c \<Longrightarrow> inert c"
  by (auto simp: ip_char_def hex_val_def inert_def is_alpha_def char_class_defs less_eq_char_def
      split: if_splits)

lemma iface_inert: "vipInterfaceRe s \<Longrightarrow> list_all inert s"
  by (auto simp: vipInterfaceRe_def iface_char_def inert_def list_all_iff split: list.splits)

lemma vip_address_inert:
  assumes "subdomain_law f" "parse_ip a \<noteq> None \<or> f a = []"
  shows "list_all inert a"
proof (cases "f a = []")
  case True
  with assms(1) have "list_all (\<lambda>c. is_lower c \<or> is_digit c \<or> c = CHR ''-'' \<or> c = CHR ''.'') a"
    by (auto simp: subdomain_law_def)
  then show ?thesis by (auto simp: list_all_iff inert_def is_alpha_def)
next
  case False
  with assms(2) parse_ip_chars [of a] show ?thesis by (auto simp: list_all_iff ip_char_inert)
qed

lemma scheme_inert: "scheme_char c \<Longrightarrow> inert c" "id_char c \<Longrightarrow> inert c"
  by (auto simp: scheme_char_def id_char_def inert_def)

lemma provider_id_inert:
  assumes "ValidateProviderID s" shows "list_all inert s"
proof (cases "s = []")
  case False
  define rest where "rest = dropWhile scheme_char s"
  have p: "has_prefix rest ''://''" "list_all id_char (drop 3 rest)"
    using assms False by (simp_all add: ValidateProviderID_def providerIDPattern_def Let_def rest_def)
  then obtain t where t: "rest = ''://'' @ t" by (auto simp: has_prefix_iff)
  have "s = takeWhile scheme_char s @ rest" by (simp add: rest_def)
  moreover have "list_all inert (takeWhile scheme_char s)"
    using set_takeWhileD [of _ scheme_char s] by (auto simp: list_all_iff scheme_inert)
  moreover have "list_all inert rest"
    using p(2) by (auto simp: t list_all_iff scheme_inert, simp_all add: inert_def)
  ultimately show ?thesis by (metis list_all_append)
qed simp

lemma octal_inert: "octal_permissions s \<Longrightarrow> list_all is_digit s"
  by (auto simp: octal_permissions_def list_all_iff is_octal_def is_digit_def less_eq_char_def)

lemma posix_name_inert: "posix_name u \<Longrightarrow> list_all inert u"
  by (auto simp: posix_name_def name_head_def name_char_def inert_def is_alpha_def list_all_iff
      split: list.splits)

lemma owner_inert:
  assumes "owner_format s" shows "list_all inert s"
proof -
  have "\<forall>w\<in>set (split_on CHR '':'' s). posix_name w"
    using assms by (auto simp: owner_format_def split: list.splits)
  then have "\<forall>w\<in>set (split_on CHR '':'' s). list_all inert w"
    by (auto dest: posix_name_inert)
  with split_on_cover [of s "CHR '':''"] show ?thesis
    by (fastforce simp: list_all_iff inert_def)
qed

end
