(* ===== verification/Cloud_Config_Safety.thy ===== *)
theory Cloud_Config_Safety
  imports Admission_Safety Sanitize_Safety
begin

text \<open>
  What the renderer guarantees: a quoted value reaches the shell as it is, an indented text
  stays in its block, a CA bundle is rebuilt from its certificates, and a render carries only
  values that were checked.
\<close>


section \<open>Shell quoting\<close>

text \<open>
  How a POSIX shell reads a word: between single quotes every character stands for itself; outside
  them a backslash makes the next one do so, and only characters without a meaning of their own
  may stand there.
\<close>

fun sh_word :: "bool \<Rightarrow> string \<Rightarrow> string option" where
  "sh_word False [] = Some []"
| "sh_word True [] = None"
| "sh_word False (c # s) =
     (if c = squote then sh_word True s
      else if c = CHR 0x5C then
        (case s of [] \<Rightarrow> None | d # t \<Rightarrow> map_option (Cons d) (sh_word False t))
      else if inert c then map_option (Cons c) (sh_word False s)
      else None)"
| "sh_word True (c # s) =
     (if c = squote then sh_word False s else map_option (Cons c) (sh_word True s))"

lemma sh_word_quoted:
  "sh_word True (concat (map (\<lambda>c. if c = squote then [squote, CHR 0x5C, squote, squote] else [c]) s)
     @ squote # t) = map_option ((@) s) (sh_word False t)"
  by (induction s) (auto simp: squote_def option.map_comp comp_def option.map_ident)

lemma shquote_reads: "sh_word False (shquote s @ t) = map_option ((@) s) (sh_word False t)"
  using sh_word_quoted [of s t] by (simp add: shquote_def)

text \<open>
  C30: The shell reads a quoted value as that value, byte by byte, whatever it holds, and goes on
  after it with the text that follows: no value of a render can end its quotation.
\<close>

theorem shquote_roundtrip:
  "sh_word False (shquote s @ t) = map_option ((@) s) (sh_word False t) \<and>
   sh_word False (shquote s) = Some s"
  using shquote_reads [of s t] shquote_reads [of s "[]"] by simp


section \<open>Indentation\<close>

lemma raw_lines_free: "l \<in> set (raw_lines s) \<Longrightarrow> CHR 0x0A \<notin> set l"
  by (auto simp: raw_lines_def Let_def dest: split_on_free in_set_butlastD split: if_splits)

lemma drop_cr_free: "d \<notin> set l \<Longrightarrow> d \<notin> set (drop_cr l)"
  by (auto simp: drop_cr_def dest: in_set_butlastD)

lemma scan_lines_free: "l \<in> set (scan_lines s) \<Longrightarrow> CHR 0x0A \<notin> set l"
  by (auto simp: scan_lines_def dest!: set_takeWhileD raw_lines_free drop_cr_free)

lemma pad_line_free: "CHR 0x0A \<notin> set l \<Longrightarrow> CHR 0x0A \<notin> set (pad_line n l)"
  by (auto simp: pad_line_def)

lemma indented_lines:
  "split_on CHR 0x0A (safeIndent n s) =
     (if s = [] \<or> scan_lines s = [] then [[]] else map (pad_line n) (scan_lines s))"
  by (auto simp: safeIndent_def intro!: split_on_join dest!: scan_lines_free pad_line_free [of _ n])

text \<open>What \<open>safeIndent\<close> can take whole: no line that exceeds the scanner's buffer, no carriage
  return.\<close>

definition scannable :: "string \<Rightarrow> bool" where
  "scannable s \<longleftrightarrow> CHR 0x0D \<notin> set s \<and> (\<forall>l\<in>set (raw_lines s). length l < max_token)"

lemma drop_cr_id: "CHR 0x0D \<notin> set l \<Longrightarrow> drop_cr l = l"
  by (cases l rule: rev_cases) (auto simp: drop_cr_def)

lemma raw_lines_set: "l \<in> set (raw_lines s) \<Longrightarrow> set l \<subseteq> set s"
  by (auto simp: raw_lines_def Let_def dest: split_on_set in_set_butlastD split: if_splits)

lemma scan_lines_all: "scannable s \<Longrightarrow> scan_lines s = raw_lines s"
proof -
  assume sc: "scannable s"
  then have "takeWhile (\<lambda>l. length l < max_token) (raw_lines s) = raw_lines s"
    by (simp add: scannable_def takeWhile_eq_all_conv)
  moreover have "map drop_cr (raw_lines s) = raw_lines s"
    using sc by (intro map_idI drop_cr_id) (auto simp: scannable_def dest!: raw_lines_set)
  ultimately show ?thesis by (simp only: scan_lines_def)
qed

lemma drop_pad: "drop n (pad_line n l) = l"
  by (simp add: pad_line_def)

lemma join_last_empty:
  "ws \<noteq> [] \<Longrightarrow> join_str [d] (ws @ [[]]) = join_str [d] ws @ [d]"
  by (induction "[d]" ws rule: join_str.induct) auto

lemma raw_lines_join:
  "s = join_str [CHR 0x0A] (raw_lines s) \<or> s = join_str [CHR 0x0A] (raw_lines s) @ [CHR 0x0A]"
proof (cases "last (split_on CHR 0x0A s) = []")
  case True
  define ls where "ls = butlast (split_on CHR 0x0A s)"
  have "split_on CHR 0x0A s = ls @ [[]]"
    using True append_butlast_last_id [OF split_on_nonempty, of "CHR 0x0A" s] by (simp add: ls_def)
  with join_split_on [of "CHR 0x0A" s] have "s = join_str [CHR 0x0A] (ls @ [[]])" by simp
  moreover have "raw_lines s = ls" using True by (simp add: raw_lines_def ls_def)
  ultimately show ?thesis using join_last_empty [of ls "CHR 0x0A"] by (cases "ls = []") auto
qed (simp add: raw_lines_def join_split_on)

text \<open>
  Indenting keeps a text in its YAML block and loses nothing of it: every line of the result is
  empty or begins with the indentation, and for a text without a carriage return and without
  an oversized line, taking the indentation off the lines gives back the text, but for a
  newline at its end.
\<close>

theorem indentation_confines:
  assumes "scannable s"
  shows "(\<forall>l\<in>set (split_on CHR 0x0A (safeIndent n s)). l = [] \<or> has_prefix l (replicate n CHR '' '')) \<and>
    (let t = join_str [CHR 0x0A] (map (drop n) (split_on CHR 0x0A (safeIndent n s)))
     in s = t \<or> s = t @ [CHR 0x0A])"
proof
  show "\<forall>l\<in>set (split_on CHR 0x0A (safeIndent n s)). l = [] \<or> has_prefix l (replicate n CHR '' '')"
    by (auto simp: indented_lines pad_line_def)
next
  have "join_str [CHR 0x0A] (map (drop n) (split_on CHR 0x0A (safeIndent n s))) =
      join_str [CHR 0x0A] (raw_lines s)"
    using scan_lines_all [OF assms] by (auto simp: indented_lines comp_def drop_pad raw_lines_def)
  with raw_lines_join [of s]
  show "let t = join_str [CHR 0x0A] (map (drop n) (split_on CHR 0x0A (safeIndent n s)))
     in s = t \<or> s = t @ [CHR 0x0A]" by simp
qed


section \<open>The management CA bundle\<close>

lemma management_ca_step:
  assumes "management_ca_loop L rest out certs = Inr res" "kl_pem L rest = Some (b, rest')"
  shows "\<exists>c. pb_type b = ''CERTIFICATE'' \<and> kl_x509 L (pb_bytes b) = Some c \<and>
    length rest' < length rest \<and>
    management_ca_loop L rest' (out @ kl_pem_encode L (pb_bytes b)) (Suc certs) = Inr res"
  using assms(1) unfolding management_ca_loop.simps [of L rest] assms(2)
  by (auto split: if_splits option.splits)

lemma management_ca_loop_out:
  "management_ca_loop L rest out certs = Inr res \<Longrightarrow>
   \<exists>ders. (\<forall>d\<in>set ders. kl_x509 L d \<noteq> None) \<and> res = out @ encoded L ders \<and> 0 < certs + length ders"
proof (induction "length rest" arbitrary: rest out certs rule: less_induct)
  case less
  show ?case
  proof (cases "kl_pem L rest")
    case None
    with less.prems show ?thesis
      by (auto simp: management_ca_loop.simps [of L rest] encoded_def split: if_splits
          intro!: exI [of _ "[]"])
  next
    case (Some p)
    obtain b rest' where pair: "p = (b, rest')" by (cases p) auto
    note step = management_ca_step [OF less.prems Some [unfolded pair]]
    then obtain c where c: "kl_x509 L (pb_bytes b) = Some c" by blast
    from step less.hyps [of rest'] obtain ders where
      "\<forall>d\<in>set ders. kl_x509 L d \<noteq> None"
      "res = (out @ kl_pem_encode L (pb_bytes b)) @ encoded L ders" by blast
    with c show ?thesis
      by (intro exI [of _ "pb_bytes b # ders"]) (auto simp: encoded_def)
  qed
qed

lemma management_ca_encoded:
  assumes law: "pem_law L"
  shows "\<forall>d\<in>set ders. kl_x509 L d \<noteq> None \<Longrightarrow> 0 < certs + length ders \<Longrightarrow>
    management_ca_loop L (encoded L ders) out certs = Inr (out @ encoded L ders)"
proof (induction ders arbitrary: out certs)
  case Nil
  with law show ?case
    by (simp add: management_ca_loop.simps [of L "[]"] encoded_def pem_law_def only_space.simps)
next
  case (Cons d ders)
  then obtain c where c: "kl_x509 L d = Some c" by auto
  with law have "kl_pem L (encoded L (d # ders)) =
      Some (\<lparr>pb_type = ''CERTIFICATE'', pb_bytes = d\<rparr>, encoded L ders)"
    and "length (encoded L ders) < length (encoded L (d # ders))"
    by (auto simp: pem_law_def encoded_def)
  with c Cons.IH [of "Suc certs" "out @ kl_pem_encode L d"] Cons.prems show ?case
    by (subst management_ca_loop.simps) (simp add: encoded_def)
qed

text \<open>
  The management CA bundle handed to the nodes is rebuilt: it is the encodings of certificates
  that parse, at least one, and nothing else of the input, and sanitizing it again changes
  nothing.
\<close>

theorem management_ca_is_rebuilt:
  assumes "SanitizeManagementCABundle L raw = Inr out" "pem_law L" "length out \<le> max_size"
  shows "(\<exists>ders. ders \<noteq> [] \<and> (\<forall>d\<in>set ders. kl_x509 L d \<noteq> None) \<and> out = encoded L ders) \<and>
    SanitizeManagementCABundle L out = Inr out"
proof -
  from assms(1) have "management_ca_loop L raw [] 0 = Inr out"
    by (simp add: SanitizeManagementCABundle_def split: if_splits)
  from management_ca_loop_out [OF this] obtain ders where
    ders: "\<forall>d\<in>set ders. kl_x509 L d \<noteq> None" "out = encoded L ders" "0 < length ders" by auto
  moreover from ders assms(2) have "out \<noteq> []" by (cases ders) (auto simp: encoded_def pem_law_def)
  moreover have "management_ca_loop L out [] 0 = Inr out"
    using management_ca_encoded [OF assms(2) ders(1), of 0 "[]"] ders by simp
  ultimately show ?thesis
    using assms(3) by (auto simp: SanitizeManagementCABundle_def)
qed


section \<open>What a render carries\<close>

lemma inert_no_control: "inert c \<Longrightarrow> \<not> control_char c"
  by (auto simp: inert_def control_char_def is_alpha_def char_class_defs less_eq_char_def)

lemma inert_list_no_control: "list_all inert s \<Longrightarrow> \<not> list_ex control_char s"
  by (auto simp: list_all_iff list_ex_iff dest: inert_no_control)

lemma digit_inert: "list_all is_digit s \<Longrightarrow> list_all inert s"
  by (auto simp: list_all_iff inert_def)

lemma render_file_ok:
  assumes "file_errs i f = []" "\<not> list_ex control_char (fl_path f)"
  shows "render_file_errs j f = []"
proof -
  have "fl_permissions f \<noteq> [] \<Longrightarrow> octal_permissions (fl_permissions f)"
    "fl_owner f \<noteq> [] \<Longrightarrow> owner_format (fl_owner f)"
    "has_prefix (fl_path f) ''/''" "''..'' \<notin> set (split_on CHR ''/'' (fl_path f))"
    using assms(1) by (auto simp: file_errs_def Let_def split: if_splits)
  with assms(2) show ?thesis
    by (auto simp: render_file_errs_def inert_list_no_control digit_inert octal_inert owner_inert)
qed

text \<open>
  The webhook and the renderer agree on files: a file the webhook admits is refused by the
  renderer exactly when its path holds a newline, carriage return or NUL, and what the
  renderer accepts the webhook admits.
\<close>

theorem webhook_and_renderer_agree_on_files:
  "render_file_errs i f = [] \<longleftrightarrow> file_errs i f = [] \<and> \<not> list_ex control_char (fl_path f)"
proof
  assume "render_file_errs i f = []"
  then show "file_errs i f = [] \<and> \<not> list_ex control_char (fl_path f)"
    by (auto simp: render_file_errs_def file_errs_def Let_def split: if_splits)
qed (auto intro: render_file_ok)

text \<open>A file, a VIP and a kubeadm block as a render may carry them.\<close>

definition safe_file :: "config_file \<Rightarrow> bool" where
  "safe_file f \<longleftrightarrow> has_prefix (fl_path f) ''/'' \<and> ''..'' \<notin> set (split_on CHR ''/'' (fl_path f)) \<and>
     \<not> list_ex control_char (fl_path f) \<and> list_all is_digit (fl_permissions f) \<and>
     list_all inert (fl_owner f)"

definition safe_vip :: "vip_config \<Rightarrow> bool" where
  "safe_vip v \<longleftrightarrow> vc_address v \<noteq> [] \<and> list_all inert (vc_address v) \<and>
     list_all inert (vc_interface v) \<and> vc_mode v \<in> {[], ''ARP'', ''BGP''}"

definition safe_kubeadm :: "kubeadm_data \<Rightarrow> bool" where
  "safe_kubeadm k \<longleftrightarrow> \<not> contains_str (kd_join k) ''{{'' \<and>
     \<not> contains_str (kd_provider_patch k) ''{{'' \<and>
     (\<exists>ws. good_segs ws \<and> kd_patches k = patches_dir ws)"

lemma render_file_safe: "render_file_errs i f = [] \<Longrightarrow> safe_file f"
  by (auto simp: render_file_errs_def safe_file_def octal_inert owner_inert split: if_splits)

lemma validateVIP_safe:
  assumes "subdomain_law (rl_subdomain_errors L)" "validateVIP L v = []"
  shows "safe_vip v"
  using assms(2) vip_address_inert [OF assms(1), of "vc_address v"]
  by (auto simp: validateVIP_def safe_vip_def iface_inert vipModePattern_def split: if_splits)

lemma enumerate_concat_nil:
  "concat (map (\<lambda>(i, x). f i x) (List.enumerate n xs)) = [] \<Longrightarrow> x \<in> set xs \<Longrightarrow> \<exists>i. f i x = []"
  by (induction xs arbitrary: n) auto

lemma reject_fields_nil:
  "reject_fields fs = [] \<longleftrightarrow> (\<forall>(n, v)\<in>set fs. \<not> list_ex control_char v)"
  by (auto simp: reject_fields_def rejectControlChars_def split: if_splits)

lemma kubeadm_errs_nil: "kubeadm_errs (Some k) = [] \<longleftrightarrow> safe_kubeadm k"
  by (auto simp: kubeadm_errs_def safe_kubeadm_def accepted_patches_dir [symmetric]
      split: option.splits)

lemma render_valid:
  assumes "Render L dist d = Inr out"
  shows "validateTemplateData L d = [] \<and> dist \<in> set supportedDistributions \<and>
    \<not> (dist = ''kubeadm'' \<and> td_role d = ''control-plane'') \<and>
    (td_metal3 d \<longrightarrow> length out \<le> metal3_budget)"
  using assms
  by (auto simp: Render_def renderTemplate_def distributionTemplates_def supportedDistributions_def
      split: if_splits list.splits option.splits)


end
