(* ===== verification/Cloud_Config_Examples.thy ===== *)
theory Cloud_Config_Examples
  imports Cloud_Config_Safety
begin

text \<open>
  The theorems on admission and rendering applied to concrete inputs, and behaviour that the
  comments of the code do not describe.
\<close>


section \<open>A PEM library\<close>

text \<open>A certificate is a text in angle brackets, a CA when it is not empty; what stands before the
  first bracket is skipped, as \<open>pem.Decode\<close> skips what stands before a block.\<close>

definition skip_pem :: "string \<Rightarrow> (pem_block \<times> string) option" where
  "skip_pem s =
     (let t = dropWhile (\<lambda>c. c \<noteq> CHR ''<'') s;
          body = takeWhile (\<lambda>c. c \<noteq> CHR ''>'') (tl t);
          rest = dropWhile (\<lambda>c. c \<noteq> CHR ''>'') (tl t)
      in if t = [] \<or> rest = [] then None
         else Some (\<lparr>pb_type = ''CERTIFICATE'', pb_bytes = body\<rparr>, tl rest))"

definition skip_kube :: kubelib where
  "skip_kube = \<lparr>kl_url_ok = \<lambda>_. True, kl_load = \<lambda>_. None, kl_write = \<lambda>_. None,
     kl_pem = skip_pem, kl_pem_encode = \<lambda>d. CHR ''<'' # d @ [CHR ''>''],
     kl_x509 = \<lambda>d. if CHR ''>'' \<in> set d then None
       else Some \<lparr>xc_ca = True, xc_not_before = 0, xc_not_after = 0\<rparr>,
     kl_pair_ok = \<lambda>_ _. True, kl_sha256_hex = \<lambda>_. []\<rparr>"

definition toy_subdomain :: "string \<Rightarrow> string list" where
  "toy_subdomain s =
     (if s \<noteq> [] \<and> list_all (\<lambda>c. is_lower c \<or> is_digit c \<or> c = CHR ''-'' \<or> c = CHR ''.'') s
      then [] else [''not a subdomain''])"

definition toy_render :: renderlib where
  "toy_render = \<lparr>rl_execute = \<lambda>_ _ _. Some ''#cloud-config'', rl_yaml = \<lambda>_. None,
     rl_subdomain_errors = toy_subdomain, rl_kube = skip_kube\<rparr>"

lemma toy_subdomain_law: "subdomain_law (rl_subdomain_errors toy_render)"
  by (auto simp: subdomain_law_def toy_render_def toy_subdomain_def split: if_splits)

lemma skip_kube_law: "pem_law skip_kube"
proof -
  have *: "dropWhile (\<lambda>c. c \<noteq> CHR ''>'') (der @ CHR ''>'' # rest) = CHR ''>'' # rest \<and>
      takeWhile (\<lambda>c. c \<noteq> CHR ''>'') (der @ CHR ''>'' # rest) = der"
    if "CHR ''>'' \<notin> set der" for der rest
    using that by (induction der) auto
  then show ?thesis
    by (auto simp: pem_law_def skip_kube_def skip_pem_def Let_def split: if_splits)
qed


section \<open>Renders\<close>

definition toy_file :: config_file where
  "toy_file = \<lparr>fl_path = ''/etc/motd'', fl_content = ''hello'', fl_permissions = ''0644'',
     fl_owner = ''root:root''\<rparr>"

definition toy_data :: template_data where
  "toy_data = \<lparr>td_role = ''control-plane'', td_single_node = False, td_k0s_single_node = False,
     td_hostname = ''cp-0'', td_user_name = ''kairos'', td_user_password = [], td_user_groups = [''admin''],
     td_github_user = ''me'', td_ssh_key = [], td_worker_token = [], td_manifests = [],
     td_files = [toy_file], td_hostname_prefix = ''metal-'', td_dns_servers = [''1.1.1.1''],
     td_pod_cidr = [], td_service_cidr = [], td_primary_ip = [], td_machine_name = ''cp-0'',
     td_cluster_ns = ''ns'', td_kubevirt = False, td_metal3 = True, td_fleet = False,
     td_install = None, td_provider_id = ''vsphere://42-ab'', td_k3s_server = [], td_k3s_token = [],
     td_lb_name = ''c-lb'', td_lb_namespace = ''ns'', td_lb_endpoint = [], td_cp_role = ''init'',
     td_join_token = [], td_vip = Some \<lparr>vc_address = ''10.0.0.9'', vc_interface = ''eth0'', vc_mode = []\<rparr>,
     td_endpoint = None, td_kubeadm = None\<rparr>"

lemma toy_valid: "validateTemplateData toy_render toy_data = []"
  by code_simp

lemma toy_rendered: "Render toy_render ''k0s'' toy_data = Inr ''#cloud-config''"
  by (simp add: Render_def distributionTemplates_def renderTemplate_def toy_valid,
      simp add: toy_render_def metal3_budget_def)


text \<open>The CRLF-free text of two lines.\<close>

definition toy_text :: string where
  "toy_text = ''a: 1'' @ [CHR 0x0A, CHR 0x0A] @ ''b: 2'' @ [CHR 0x0A]"

lemma toy_lines: "raw_lines toy_text = [''a: 1'', [], ''b: 2'']"
  by code_simp

lemma toy_scannable: "scannable toy_text"
  by (simp add: scannable_def toy_lines max_token_def) (simp add: toy_text_def)

lemma indentation_confines_witness:
  "safeIndent 2 toy_text = ''  a: 1'' @ [CHR 0x0A, CHR 0x0A] @ ''  b: 2'' \<and>
   (\<forall>l\<in>set (split_on CHR 0x0A (safeIndent 2 toy_text)). l = [] \<or> has_prefix l ''  '')"
proof
  show "safeIndent 2 toy_text = ''  a: 1'' @ [CHR 0x0A, CHR 0x0A] @ ''  b: 2''"
    using scan_lines_all [OF toy_scannable]
    by (simp add: safeIndent_def toy_lines pad_line_def numeral_2_eq_2) (simp add: toy_text_def)
  show "\<forall>l\<in>set (split_on CHR 0x0A (safeIndent 2 toy_text)). l = [] \<or> has_prefix l ''  ''"
    using indentation_confines [OF toy_scannable, of 2] by (simp add: numeral_2_eq_2)
qed

definition toy_bundle :: string where
  "toy_bundle = ''# our CA'' @ [CHR 0x0D] @ ''x<ca>'' @ [CHR 0x0A]"

lemma toy_bundle_sanitized: "SanitizeManagementCABundle skip_kube toy_bundle = Inr ''<ca>''"
proof -
  have first: "kl_pem skip_kube toy_bundle = Some (\<lparr>pb_type = ''CERTIFICATE'', pb_bytes = ''ca''\<rparr>, [CHR 0x0A])"
    and "kl_pem skip_kube [CHR 0x0A] = None"
    by code_simp+
  moreover have "only_space [10]" by (simp add: only_space.simps go_spaces_def)
  ultimately have "management_ca_loop skip_kube [CHR 0x0A] ''<ca>'' 1 = Inr ''<ca>''"
    by (simp add: management_ca_loop.simps)
  moreover have "kl_x509 skip_kube ''ca'' \<noteq> None" "kl_pem_encode skip_kube ''ca'' = ''<ca>''"
    "length [CHR 0x0A] < length toy_bundle" "length toy_bundle \<le> max_size" "toy_bundle \<noteq> []"
    by (simp_all add: skip_kube_def toy_bundle_def max_size_def)
  ultimately show ?thesis
    using first by (auto simp: SanitizeManagementCABundle_def management_ca_loop.simps [of _ toy_bundle])
qed

lemma management_ca_is_rebuilt_witness:
  "\<exists>ders. ders \<noteq> [] \<and> ''<ca>'' = encoded skip_kube ders"
  using management_ca_is_rebuilt [OF toy_bundle_sanitized skip_kube_law] by (auto simp: max_size_def)


section \<open>Unintended behaviour\<close>

text \<open>
  The render-time check of the CA bundle asks only whether the sanitizer accepts it and keeps the
  bundle as it was: text before the first certificate, which the sanitizer drops, stays in the
  data of the render, a carriage return in it included.
\<close>

definition raw_endpoint :: management_endpoint where
  "raw_endpoint = \<lparr>me_api_server = ''https://m:6443'', me_token = ''t'', me_secret_name = ''s'',
     me_secret_namespace = ''ns'', me_cluster_name = ''c'', me_endpoint_host = ''h'',
     me_etcd_secret = [], me_ca_bundle = toy_bundle\<rparr>"

lemma ca_bundle_check_keeps_the_input:
  "endpoint_errs toy_render (Some raw_endpoint) = [] \<and>
   SanitizeManagementCABundle skip_kube (me_ca_bundle raw_endpoint) = Inr ''<ca>'' \<and>
   me_ca_bundle raw_endpoint \<noteq> ''<ca>''"
proof -
  have "reject_fields (endpoint_fields raw_endpoint) = []" by code_simp
  then show ?thesis
    using toy_bundle_sanitized
    by (simp add: endpoint_errs_def raw_endpoint_def toy_render_def, simp add: toy_bundle_def)
qed

text \<open>
  A line that does not fit the scanner's buffer ends the scan, without an error: the line and
  everything after it are missing from the render.
\<close>

lemma long_line_is_lost:
  assumes "max_token \<le> length l" "CHR 0x0A \<notin> set l"
  shows "safeIndent n (l @ CHR 0x0A # t) = []"
proof -
  have "raw_lines (l @ CHR 0x0A # t) \<noteq> [] \<and> hd (raw_lines (l @ CHR 0x0A # t)) = l"
    using assms by (cases "split_on CHR 0x0A t") (auto simp: raw_lines_def split_on_plain Let_def)
  then have "scan_lines (l @ CHR 0x0A # t) = []"
    using assms(1) by (cases "raw_lines (l @ CHR 0x0A # t)") (auto simp: scan_lines_def)
  then show ?thesis by (simp add: safeIndent_def)
qed

lemma long_line_is_lost_witness:
  "safeIndent 6 (replicate 1048576 CHR ''x'' @ CHR 0x0A # ''lost'') = []"
  using long_line_is_lost [of "replicate 1048576 CHR ''x''" 6 "''lost''"] by (simp add: max_token_def)

text \<open>The webhook admits a file path with a newline, and the renderer then refuses it.\<close>

lemma newline_in_path_is_admitted:
  "file_errs 0 (toy_file\<lparr>fl_path := ''/etc/a'' @ [CHR 0x0A]\<rparr>) = [] \<and>
   render_file_errs 0 (toy_file\<lparr>fl_path := ''/etc/a'' @ [CHR 0x0A]\<rparr>) \<noteq> []"
  by code_simp

text \<open>The list of checked fields is not every string of the data: the role, the install device, the
  manifests and, of the management endpoint, the cluster name, the endpoint host and the etcd
  Secret are not looked at.\<close>

lemma unchecked_fields:
  "validateTemplateData L (d\<lparr>td_role := r, td_install := i, td_manifests := m\<rparr>) =
     validateTemplateData L d \<and>
   endpoint_errs L (Some (e\<lparr>me_cluster_name := a, me_endpoint_host := b, me_etcd_secret := c\<rparr>)) =
     endpoint_errs L (Some e)"
  by (simp add: validateTemplateData_def string_fields_def endpoint_errs_def endpoint_fields_def)

text \<open>The template's defaulting sets a distribution the control plane's leaves open.\<close>

lemma template_defaults_distribution:
  "sp_distribution s = [] \<Longrightarrow>
   sp_distribution (kcp_default s) = [] \<and> sp_distribution (template_default s) = ''k0s''"
  by (simp add: kcp_default_fields template_default_fields)

end
