(* ===== verification/Bootstrap_Model.thy ===== *)
theory Bootstrap_Model
  imports Cloud_Config Join_Tokens Load_Balancer Kubeconfig_Publish
begin

text \<open>
  The data of the bootstrap controller (\<open>internal/controllers/bootstrap\<close>), the environment it
  runs against and its effects.

  As for the control plane (\<open>Kcp_Model\<close>), what the servers answer is a parameter: the n-th
  request of a pass is answered by the field for it at n. The workload cluster is reached
  through a client made from a kubeconfig, and every effect there carries that kubeconfig.
  The pass state holds the KairosConfig in memory, the number of requests and the log of the
  effects, in which reads of Secrets of the management cluster are kept as well.
\<close>


section \<open>Objects\<close>

record config_status =
  gs_ready :: bool
  gs_data_secret :: "string option"
  gs_created :: bool
  gs_conds :: "string \<rightharpoonup> cond"
  gs_observed :: int
  gs_failure :: string
  gs_token_id :: string

record kconfig =
  g_name :: string
  g_namespace :: string
  g_uid :: string
  g_generation :: int
  g_deletion :: "time option"
  g_labels :: "string \<rightharpoonup> string"
  g_annotations :: "string \<rightharpoonup> string"
  g_owners :: "owner_ref list"
  g_finalizer :: bool
  g_spec :: config_spec
  g_status :: config_status

text \<open>What the bootstrap controller reads of a Machine and of a Cluster beyond what the control
  plane does: \<open>spec.providerID\<close>, \<open>spec.bootstrap.dataSecretName\<close> and the creation time; whether
  \<open>status.initialization\<close> says provisioned and initialized (a nil pointer is false), and
  \<open>spec.controlPlaneRef\<close>.\<close>

record bmachine = machine +
  bm_provider_id :: string
  bm_data_secret :: "string option"
  bm_created :: "time option"

record bcluster = cluster +
  bc_provisioned :: bool
  bc_initialized :: bool
  bc_ref_group :: string
  bc_ref_kind :: string
  bc_ref_name :: string

record bsecret =
  bs_name :: string
  bs_type :: string
  bs_labels :: "string \<rightharpoonup> string"
  bs_annotations :: "string \<rightharpoonup> string"
  bs_owners :: "owner_ref list"
  bs_data :: "string \<rightharpoonup> string"

definition node_name :: "bmachine \<Rightarrow> string" where
  "node_name m = (case m_node m of None \<Rightarrow> [] | Some n \<Rightarrow> n)"


section \<open>Errors\<close>

text \<open>The errors \<open>reconcileBootstrapData\<close> tells apart: the three sentinels, the one of the
  management CA, a \<open>bootstrapNotReadyError\<close> with its reason, an API error passed on, and any
  other.\<close>

datatype berr = TokenNotReady | LBEndpointNotReady | PushTargetNotReady | CAUnavailable
  | NotReady string | BApi apierr | Terminal string


section \<open>Effects\<close>

datatype writer_object = WriterAccount | WriterRole "(string list \<times> string list \<times> string list \<times> string list) list"
  | WriterBinding

datatype beffect =
    SecretRead string string
  | DataSecretCreated bsecret
  | DataSecretUpdated bsecret bsecret
  | SecretDeleted string
  | UserdataUpdated string string
  | TokenCreated string bsecret
  | TokenExtended string string string
  | TokenDeleted string string
  | WriterEnsured string writer_object
  | PushTokenIssued string
  | ConfigPatched kconfig
  | ConfigReleased kconfig

text \<open>The kubeconfig of the client an effect on the workload cluster went through.\<close>

fun via_kubeconfig :: "beffect \<Rightarrow> string option" where
  "via_kubeconfig (TokenCreated kc _) = Some kc"
| "via_kubeconfig (TokenExtended kc _ _) = Some kc"
| "via_kubeconfig (TokenDeleted kc _) = Some kc"
| "via_kubeconfig _ = None"


section \<open>Environment\<close>

text \<open>
  Answers of the management API server: \<open>b_secret\<close> is a cached read of a Secret, \<open>b_ca_secret\<close>
  the uncached one of \<open><cluster>-ca\<close>, \<open>b_infra\<close> and \<open>b_control_plane\<close>
  \<open>external.GetObjectFromContractVersionedRef\<close>, the latter with the object's UID. Of the
  workload cluster: whether a client can be made from a kubeconfig, and its answers through it.
  Libraries: \<open>b_url\<close> is \<open>url.Parse\<close> with the scheme, \<open>Hostname()\<close> and \<open>Port()\<close>, \<open>b_spki\<close> the
  subject public key of a certificate, \<open>b_token_id_ok\<close>, \<open>b_token_ok\<close> and \<open>b_token_parts\<close> those
  of \<open>k8s.io/cluster-bootstrap\<close>, \<open>b_marshal_join\<close> the version-aware marshaller.
\<close>

record benv =
  b_now :: time
  b_write :: "nat \<Rightarrow> apierr option"
  b_config :: "nat \<Rightarrow> apierr + kconfig"
  b_owner_machine :: "nat \<Rightarrow> apierr + bmachine option"
  b_owner_cluster :: "nat \<Rightarrow> apierr + bcluster option"
  b_secret :: "nat \<Rightarrow> string \<Rightarrow> string \<Rightarrow> apierr + bsecret"
  b_ca_secret :: "nat \<Rightarrow> string \<Rightarrow> apierr + bsecret"
  b_infra :: "nat \<Rightarrow> string \<Rightarrow> string \<Rightarrow> apierr + json"
  b_vsphere :: "nat \<Rightarrow> string \<Rightarrow> apierr + json"
  b_control_plane :: "nat \<Rightarrow> string \<Rightarrow> apierr + string \<times> json"
  b_service :: "nat \<Rightarrow> string \<Rightarrow> string \<Rightarrow> apierr + lb_service"
  b_machines :: "nat \<Rightarrow> string \<Rightarrow> apierr + bmachine list"
  b_configs :: "nat \<Rightarrow> string \<Rightarrow> string \<Rightarrow> apierr + kconfig list"
  b_push_token :: "nat \<Rightarrow> apierr + string"
  b_client :: "nat \<Rightarrow> string \<Rightarrow> bool"
  b_wl_secret :: "nat \<Rightarrow> string \<Rightarrow> string \<Rightarrow> apierr + bsecret"
  b_wl_list :: "nat \<Rightarrow> string \<Rightarrow> string \<Rightarrow> apierr + bsecret list"
  b_wl_write :: "nat \<Rightarrow> string \<Rightarrow> apierr option"
  b_new_token :: "nat \<Rightarrow> string option"
  b_extra_kinds :: "(string \<times> string) list"
  b_token_ttl :: duration
  b_join_wired :: bool
  b_push_server :: string
  b_push_ca :: string
  b_push_wired :: bool
  b_lib :: kubelib
  b_render :: renderlib
  b_url :: "string \<Rightarrow> (string \<times> string \<times> string) option"
  b_spki :: "string \<Rightarrow> string"
  b_token_id_ok :: "string \<Rightarrow> bool"
  b_token_ok :: "string \<Rightarrow> bool"
  b_token_parts :: "string \<Rightarrow> (string \<times> string) option"
  b_semver_ok :: "string \<Rightarrow> bool"
  b_marshal_join :: "join_config \<Rightarrow> string \<Rightarrow> string option"
  b_decode_join :: "string \<Rightarrow> join_token option"
  b_join_file :: "string \<Rightarrow> string \<Rightarrow> string option"
  b_sha1_hex :: "string \<Rightarrow> string"

record bst =
  bs_tick :: nat
  bs_config :: kconfig
  bs_log :: "beffect list"

type_synonym 'a bop = "(bst, berr, 'a) act"

definition btick :: "nat bop" where
  "btick s = (Inr (bs_tick s), s\<lparr>bs_tick := Suc (bs_tick s)\<rparr>)"

definition blog :: "beffect \<Rightarrow> unit bop" where
  "blog e = modA (\<lambda>s. s\<lparr>bs_log := bs_log s @ [e]\<rparr>)"

definition bread :: "(nat \<Rightarrow> apierr + 'a) \<Rightarrow> 'a bop" where
  "bread f = bindA btick (\<lambda>n. case f n of Inl x \<Rightarrow> throw (BApi x) | Inr v \<Rightarrow> ret v)"

text \<open>A Secret of the management cluster is read with its namespace and name.\<close>

definition read_secret :: "benv \<Rightarrow> string \<Rightarrow> string \<Rightarrow> bsecret bop" where
  "read_secret E ns name =
     bindA (blog (SecretRead ns name)) (\<lambda>_. bread (\<lambda>n. b_secret E n ns name))"

definition bwrite :: "benv \<Rightarrow> beffect \<Rightarrow> unit bop" where
  "bwrite E e = bindA btick (\<lambda>n. case b_write E n of Some x \<Rightarrow> throw (BApi x) | None \<Rightarrow> blog e)"

text \<open>A write to the workload cluster through the client of a kubeconfig.\<close>

definition wl_write :: "benv \<Rightarrow> string \<Rightarrow> beffect \<Rightarrow> unit bop" where
  "wl_write E kc e =
     bindA btick (\<lambda>n. case b_wl_write E n kc of Some x \<Rightarrow> throw (BApi x) | None \<Rightarrow> blog e)"

text \<open>An error replaced by another, as \<open>if err != nil { return newNotReady(...) }\<close> does.\<close>

definition or_throw :: "'a bop \<Rightarrow> (berr \<Rightarrow> berr) \<Rightarrow> 'a bop" where
  "or_throw a f = bindA (tryA a) (\<lambda>r. case r of Inl e \<Rightarrow> throw (f e) | Inr v \<Rightarrow> ret v)"

definition get_config :: "kconfig bop" where
  "get_config = getsA bs_config"

definition mod_status :: "(config_status \<Rightarrow> config_status) \<Rightarrow> unit bop" where
  "mod_status f = modA (\<lambda>s. s\<lparr>bs_config := (bs_config s)\<lparr>g_status := f (g_status (bs_config s))\<rparr>\<rparr>)"

definition config_cond :: "string \<Rightarrow> cond \<Rightarrow> config_status \<Rightarrow> config_status" where
  "config_cond t c gs = gs\<lparr>gs_conds := (gs_conds gs)(t \<mapsto> c)\<rparr>"

lemmas bop_defs = btick_def blog_def bread_def read_secret_def bwrite_def wl_write_def or_throw_def
  get_config_def mod_status_def

end
