(* ===== verification/Kubeadm_Join.thy ===== *)
theory Kubeadm_Join
  imports Bootstrap_Model
begin

text \<open>
  The kubeadm worker join (\<open>internal/controllers/bootstrap/kubeadm.go\<close>,
  \<open>kubeadm_kubeconfig.go\<close>): the trust check of the workload kubeconfig, the bootstrap token
  that is minted, reused, extended and revoked in the workload cluster, and the
  JoinConfiguration.
\<close>


section \<open>Requests and what is trusted\<close>

record join_request =
  jr_config :: "kconfig option"
  jr_machine :: "bmachine option"
  jr_cluster :: "bcluster option"
  jr_server :: string

record trusted =
  tr_name :: string
  tr_namespace :: string
  tr_host :: string
  tr_port :: int
  tr_hashes :: "string list"
  tr_kubeconfig :: string

record kubeadm_material =
  km_join :: string
  km_version :: string
  km_patches :: string
  km_token_id :: string
  km_replaced :: string

definition defaultKubeadmTokenTTL :: duration where
  "defaultKubeadmTokenTTL = minutes 15"

definition minKubeadmTokenRecheckInterval :: duration where
  "minKubeadmTokenRecheckInterval = seconds 10"

definition allowlistedControlPlaneKinds :: "(string \<times> string) list" where
  "allowlistedControlPlaneKinds =
    [(kcp_group, ''KubeadmControlPlane''), (kcp_group, ''KamajiControlPlane''),
     (kcp_group, ''KairosControlPlane'')]"

definition hasMachinePoolOwner :: "owner_ref list \<Rightarrow> bool" where
  "hasMachinePoolOwner refs \<longleftrightarrow> (\<exists>r\<in>set refs. or_kind r = ''MachinePool'')"


section \<open>The kubeconfig's server and CA\<close>

text \<open>\<open>serverAndCAFromKubeconfig\<close>. A nil cluster entry, which the fallback would dereference, is an
  error here: the panic ends the pass.\<close>

definition cluster_server_ca :: "kc_cluster option \<Rightarrow> (string \<times> string) option" where
  "cluster_server_ca e = map_option (\<lambda>c. (cl_server c, cl_ca_data c)) e"

definition serverAndCAFromKubeconfig :: "kubelib \<Rightarrow> string \<Rightarrow> (string \<times> string) option" where
  "serverAndCAFromKubeconfig L data =
     (case kl_load L data of
        None \<Rightarrow> None
      | Some cfg \<Rightarrow>
          (case map_of (cf_contexts cfg) (cf_current cfg) of
             Some (Some cx) \<Rightarrow>
               (case map_of (cf_clusters cfg) (cx_cluster cx) of
                  Some e \<Rightarrow> cluster_server_ca e | None \<Rightarrow> None)
           | _ \<Rightarrow>
               (case cf_clusters cfg of
                  [(n, e)] \<Rightarrow> cluster_server_ca e | _ \<Rightarrow> None)))"

definition url_port :: "string \<times> string \<times> string \<Rightarrow> string" where
  "url_port u = (case u of (scheme, host, port) \<Rightarrow>
     if port \<noteq> [] then port
     else if to_lower scheme = ''https'' then ''443'' else [])"

text \<open>\<open>strings.EqualFold\<close> on the ASCII range.\<close>

definition sameServer :: "benv \<Rightarrow> string \<Rightarrow> string \<Rightarrow> bool" where
  "sameServer E got want =
     (case b_url E got of None \<Rightarrow> False
      | Some g \<Rightarrow> (case b_url E want of None \<Rightarrow> False
         | Some w \<Rightarrow> to_lower (fst g) = to_lower (fst w) \<and>
             to_lower (fst (snd g)) = to_lower (fst (snd w)) \<and> url_port g = url_port w))"

definition anchoredServer :: "benv \<Rightarrow> string \<Rightarrow> string \<Rightarrow> string" where
  "anchoredServer E kubeconfigServer clusterEndpoint =
     (if sameServer E kubeconfigServer clusterEndpoint then clusterEndpoint else kubeconfigServer)"

text \<open>The loop of \<open>caCertHashesFromPEM\<close>: blocks that are no certificates are passed over.\<close>

function pem_certs :: "kubelib \<Rightarrow> string \<Rightarrow> string list option" where
  "pem_certs L rest =
     (case kl_pem L rest of
        None \<Rightarrow> Some []
      | Some (block, rest') \<Rightarrow>
          if length rest \<le> length rest' then None
          else if pb_type block \<noteq> ''CERTIFICATE'' then pem_certs L rest'
          else (case kl_x509 L (pb_bytes block) of
                  None \<Rightarrow> None
                | Some _ \<Rightarrow> map_option (Cons (pb_bytes block)) (pem_certs L rest')))"
  by pat_completeness auto
termination by (relation "measure (\<lambda>(L, rest). length rest)") auto

declare pem_certs.simps [simp del]

definition spki_hash :: "benv \<Rightarrow> string \<Rightarrow> string" where
  "spki_hash E der = ''sha256:'' @ kl_sha256_hex (b_lib E) (b_spki E der)"

definition caCertHashesFromPEM :: "benv \<Rightarrow> string \<Rightarrow> (string list \<times> string list) option" where
  "caCertHashesFromPEM E caPEM =
     (case pem_certs (b_lib E) caPEM of
        None \<Rightarrow> None
      | Some ders \<Rightarrow> if ders = [] then None else Some (map (spki_hash E) ders, ders))"

text \<open>\<open>sortDER\<close> orders by the hexadecimal text, which orders as the bytes do.\<close>

definition sortDER :: "string list \<Rightarrow> string list" where
  "sortDER s = sort s"

definition derCertSetsEqual :: "string list \<Rightarrow> string list \<Rightarrow> bool" where
  "derCertSetsEqual a b \<longleftrightarrow> length a = length b \<and> list_all2 (=) (sortDER a) (sortDER b)"

definition crossCheckClusterCA :: "benv \<Rightarrow> bcluster \<Rightarrow> string list \<Rightarrow> bool bop" where
  "crossCheckClusterCA E cl kubeconfigCADER =
     bindA (tryA (bread (\<lambda>n. b_ca_secret E n (c_name cl @ ''-ca'')))) (\<lambda>r.
       case r of
         Inl e \<Rightarrow> if e = BApi NotFound then ret False else throw (NotReady ''WaitingForClusterCA'')
       | Inr sec \<Rightarrow>
           if ann (bs_data sec) ''tls.crt'' = [] then throw (Terminal ''no tls.crt'')
           else (case caCertHashesFromPEM E (ann (bs_data sec) ''tls.crt'') of
                   None \<Rightarrow> throw (Terminal ''unparseable tls.crt'')
                 | Some (_, caDER) \<Rightarrow>
                     if \<not> derCertSetsEqual kubeconfigCADER caDER then throw (Terminal ''CA mismatch'')
                     else ret True))"


section \<open>The trust check\<close>

text \<open>\<open>verifyTrustChain\<close>, in the order of the code: what the request must carry, the control-plane
  reference and object, the kubeconfig Secret and its owner, the CA and its cross-check, the
  two anchors, and the sanitized kubeconfig.\<close>

definition kubeconfig_secret :: "bcluster \<Rightarrow> string" where
  "kubeconfig_secret cl = c_name cl @ ''-kubeconfig''"

definition endpoint_url :: "bcluster \<Rightarrow> string" where
  "endpoint_url cl = ''https://'' @ join_host_port (c_endpoint_host cl) (itoa (c_endpoint_port cl))"

definition check_request :: "join_request \<Rightarrow> (bmachine \<times> bcluster) bop" where
  "check_request req =
     (case jr_machine req of
        None \<Rightarrow> throw (Terminal ''no Machine'')
      | Some m \<Rightarrow>
          (case jr_cluster req of
             None \<Rightarrow> throw (NotReady ''WaitingForCluster'')
           | Some cl \<Rightarrow>
               if (case jr_config req of None \<Rightarrow> False | Some kc \<Rightarrow> hasMachinePoolOwner (g_owners kc)) \<or>
                  hasMachinePoolOwner (m_owners m)
               then throw (Terminal ''MachinePool'')
               else if m_version m = [] then throw (Terminal ''no version'')
               else if \<not> bc_initialized cl then throw (NotReady ''WaitingForControlPlaneInitialized'')
               else if \<not> c_endpoint_valid cl then throw (NotReady ''WaitingForControlPlaneEndpoint'')
               else ret (m, cl)))"

definition trusted_kind :: "benv \<Rightarrow> bcluster \<Rightarrow> bool" where
  "trusted_kind E cl \<longleftrightarrow>
     (bc_ref_group cl, bc_ref_kind cl) \<in> set allowlistedControlPlaneKinds \<or>
     (bc_ref_group cl, bc_ref_kind cl) \<in> set (b_extra_kinds E)"

text \<open>The UID of the control-plane object.\<close>

definition resolve_control_plane :: "benv \<Rightarrow> bcluster \<Rightarrow> string bop" where
  "resolve_control_plane E cl =
     (if bc_ref_kind cl = [] \<or> bc_ref_group cl = [] \<or> bc_ref_name cl = []
      then throw (NotReady ''WaitingForControlPlaneRef'')
      else if \<not> trusted_kind E cl then throw (Terminal ''not on the allowlist'')
      else bindA (or_throw (bread (\<lambda>n. b_control_plane E n (bc_ref_name cl)))
                    (\<lambda>_. NotReady ''WaitingForControlPlane'')) (\<lambda>(uid, obj).
        if uid = [] then throw (NotReady ''WaitingForControlPlane'')
        else if (bc_ref_group cl, bc_ref_kind cl) = (kcp_group, kcp_kind) \<and>
                nested [''spec'', ''distribution''] obj \<noteq> Some (JStr ''kubeadm'')
        then throw (Terminal ''not kubeadm'')
        else ret uid))"

definition owned_kubeconfig :: "benv \<Rightarrow> bcluster \<Rightarrow> string \<Rightarrow> string bop" where
  "owned_kubeconfig E cl cpUID =
     bindA (or_throw (read_secret E (c_namespace cl) (kubeconfig_secret cl))
              (\<lambda>_. NotReady ''WaitingForKubeconfig'')) (\<lambda>sec.
       case controller_ref (bs_owners sec) of
         None \<Rightarrow> throw (Terminal ''not owned'')
       | Some owner \<Rightarrow>
           if or_uid owner \<noteq> cpUID then throw (Terminal ''not owned'')
           else if ann (bs_data sec) ''value'' = [] then throw (NotReady ''WaitingForKubeconfig'')
           else ret (ann (bs_data sec) ''value''))"

definition anchor_kubeconfig :: "benv \<Rightarrow> bcluster \<Rightarrow> string \<Rightarrow> trusted bop" where
  "anchor_kubeconfig E cl kcData =
     (case serverAndCAFromKubeconfig (b_lib E) kcData of
        None \<Rightarrow> throw (Terminal ''not a kubeconfig'')
      | Some (server, caData) \<Rightarrow>
          (case caCertHashesFromPEM E caData of
             None \<Rightarrow> throw (Terminal ''unparseable CA'')
           | Some (hashes, ders) \<Rightarrow>
               bindA (crossCheckClusterCA E cl ders) (\<lambda>caCrossChecked.
                 if \<not> sameServer E server (endpoint_url cl) \<and> \<not> caCrossChecked
                 then throw (Terminal ''no anchor'')
                 else (case Sanitize (b_lib E) kcData (c_name cl) (anchoredServer E server (endpoint_url cl)) of
                         Inl _ \<Rightarrow> throw (Terminal ''refused by the sanitizer'')
                       | Inr sanitized \<Rightarrow>
                           ret \<lparr>tr_name = c_name cl, tr_namespace = c_namespace cl,
                                tr_host = c_endpoint_host cl, tr_port = c_endpoint_port cl,
                                tr_hashes = hashes, tr_kubeconfig = sanitized\<rparr>))))"

definition verifyTrustChain :: "benv \<Rightarrow> join_request \<Rightarrow> trusted bop" where
  "verifyTrustChain E req =
     bindA (check_request req) (\<lambda>(m, cl).
     bindA (resolve_control_plane E cl) (\<lambda>cpUID.
     bindA (owned_kubeconfig E cl cpUID) (\<lambda>kcData.
       anchor_kubeconfig E cl kcData)))"


section \<open>The workload client\<close>

definition requireSanitizedKubeconfig :: "kubelib \<Rightarrow> string \<Rightarrow> string \<Rightarrow> bool" where
  "requireSanitizedKubeconfig L data clusterName =
     (case kl_load L data of
        None \<Rightarrow> False
      | Some cfg \<Rightarrow>
          (case map_of (cf_clusters cfg) clusterName of
             Some (Some entry) \<Rightarrow> IsFixedPoint L data clusterName (cl_server entry) = Inr True
           | _ \<Rightarrow> False))"

text \<open>\<open>newOnDemandWorkloadClient\<close>: the client is the kubeconfig it is made from.\<close>

definition workloadClient :: "benv \<Rightarrow> string \<Rightarrow> string \<Rightarrow> string bop" where
  "workloadClient E clusterName verified =
     (if verified = [] then throw (Terminal ''no verified kubeconfig'')
      else if \<not> requireSanitizedKubeconfig (b_lib E) verified clusterName
      then throw (Terminal ''not the sanitized kubeconfig'')
      else bindA btick (\<lambda>n.
        if b_client E n verified then ret verified else throw (Terminal ''no client'')))"

definition trustedWorkloadClient :: "benv \<Rightarrow> join_request \<Rightarrow> string bop" where
  "trustedWorkloadClient E req =
     bindA (verifyTrustChain E req) (\<lambda>t.
       or_throw (workloadClient E (tr_name t) (tr_kubeconfig t)) (\<lambda>_. NotReady ''WorkloadClusterUnreachable''))"


section \<open>Bootstrap tokens\<close>

definition token_secret_name :: "string \<Rightarrow> string" where
  "token_secret_name tokenID = ''bootstrap-token-'' @ tokenID"

definition kubeadmTokenOwnerLabel :: string where
  "kubeadmTokenOwnerLabel = ''bootstrap.cluster.x-k8s.io/kairosconfig-uid''"

definition kubeadmBootstrapTokenGroups :: string where
  "kubeadmBootstrapTokenGroups = ''system:bootstrappers:kubeadm:default-node-token''"

definition token_ttl :: "benv \<Rightarrow> duration" where
  "token_ttl E = (if b_token_ttl E \<le> 0 then defaultKubeadmTokenTTL else b_token_ttl E)"

definition TokenRecheckInterval :: "benv \<Rightarrow> duration" where
  "TokenRecheckInterval E =
     (let d = go_div (token_ttl E) 3
      in if d > minKubeadmTokenRecheckInterval then d else minKubeadmTokenRecheckInterval)"

definition bootstrapTokenFromSecret :: "benv \<Rightarrow> bsecret \<Rightarrow> string \<Rightarrow> string option" where
  "bootstrapTokenFromSecret E sec tokenID =
     (if bs_type sec \<noteq> bootstrap_token_type then None
      else if ann (bs_data sec) key_id \<noteq> tokenID then None
      else let token = tokenID @ ''.'' @ ann (bs_data sec) key_secret
           in if b_token_ok E token then Some token else None)"

text \<open>\<open>time.Parse\<close> of the expiration, Go's zero time when it does not parse.\<close>

definition secret_expiry :: "bsecret \<Rightarrow> time option" where
  "secret_expiry sec = parse_rfc3339 (ann (bs_data sec) key_expiration)"

definition expiry_or_zero :: "bsecret \<Rightarrow> time" where
  "expiry_or_zero sec = (case secret_expiry sec of None \<Rightarrow> zero_time | Some t \<Rightarrow> t)"

definition tokenExpiresAfter :: "bsecret \<Rightarrow> bsecret \<Rightarrow> bool" where
  "tokenExpiresAfter a b =
     (if expiry_or_zero a \<noteq> expiry_or_zero b then expiry_or_zero a > expiry_or_zero b
      else bs_name a > bs_name b)"

fun best_token :: "benv \<Rightarrow> (bsecret \<times> string \<times> string) option \<Rightarrow> bsecret list \<Rightarrow>
    (bsecret \<times> string \<times> string) option" where
  "best_token E best [] = best"
| "best_token E best (s # ss) =
     (let i = ann (bs_data s) key_id
      in case bootstrapTokenFromSecret E s i of
           None \<Rightarrow> best_token E best ss
         | Some tok \<Rightarrow>
             if bs_name s \<noteq> token_secret_name i then best_token E best ss
             else (case best of
                     None \<Rightarrow> best_token E (Some (s, tok, i)) ss
                   | Some (b, _, _) \<Rightarrow>
                       if tokenExpiresAfter s b then best_token E (Some (s, tok, i)) ss
                       else best_token E best ss))"

definition findOwnedBootstrapToken ::
  "benv \<Rightarrow> string \<Rightarrow> string \<Rightarrow> (bsecret \<times> string \<times> string) option bop" where
  "findOwnedBootstrapToken E kc ownerUID =
     bindA (bread (\<lambda>n. b_wl_list E n kc ownerUID)) (\<lambda>items. ret (best_token E None items))"

definition getBootstrapTokenSecret :: "benv \<Rightarrow> string \<Rightarrow> string \<Rightarrow> bsecret option bop" where
  "getBootstrapTokenSecret E kc tokenID =
     (if \<not> b_token_id_ok E tokenID then ret None
      else bindA (tryA (bread (\<lambda>n. b_wl_secret E n kc (token_secret_name tokenID)))) (\<lambda>r.
        case r of
          Inl e \<Rightarrow> if e = BApi NotFound then ret None else throw e
        | Inr sec \<Rightarrow> ret (Some sec)))"

text \<open>Whether a token is left alone, \<open>ttl*5/6\<close> in Go's integers (which overflow only beyond 58
  years).\<close>

definition still_good :: "benv \<Rightarrow> bsecret \<Rightarrow> bool" where
  "still_good E sec \<longleftrightarrow>
     ann (bs_data sec) key_expiration \<noteq> [] \<and>
     (case secret_expiry sec of
        None \<Rightarrow> False | Some ex \<Rightarrow> ex > b_now E + go_div (token_ttl E * 5) 6)"

definition extendBootstrapToken :: "benv \<Rightarrow> string \<Rightarrow> bsecret \<Rightarrow> unit bop" where
  "extendBootstrapToken E kc sec =
     (if still_good E sec then ret ()
      else wl_write E kc (TokenExtended kc (bs_name sec) (format_rfc3339 (b_now E + token_ttl E))))"

definition new_token_secret :: "benv \<Rightarrow> string \<Rightarrow> string \<Rightarrow> string \<Rightarrow> bsecret" where
  "new_token_secret E tokenID secret ownerUID =
     \<lparr>bs_name = token_secret_name tokenID, bs_type = bootstrap_token_type,
      bs_labels = (if ownerUID = [] then Map.empty else [kubeadmTokenOwnerLabel \<mapsto> ownerUID]),
      bs_annotations = Map.empty, bs_owners = [],
      bs_data = map_of [(key_id, tokenID), (key_secret, secret),
        (key_expiration, format_rfc3339 (b_now E + token_ttl E)), (key_signing, ''true''),
        (key_authentication, ''true''), (key_groups, kubeadmBootstrapTokenGroups),
        (key_description, ''token minted by cluster-api-provider-kairos (kubeadm worker join)'')]\<rparr>"

definition mintBootstrapToken :: "benv \<Rightarrow> string \<Rightarrow> string \<Rightarrow> (string \<times> string) bop" where
  "mintBootstrapToken E kc ownerUID =
     bindA btick (\<lambda>n.
       case b_new_token E n of
         None \<Rightarrow> throw (Terminal ''no token'')
       | Some token \<Rightarrow>
           (case b_token_parts E token of
              None \<Rightarrow> throw (Terminal ''unexpected shape'')
            | Some (tokenID, secret) \<Rightarrow>
                bindA (wl_write E kc (TokenCreated kc (new_token_secret E tokenID secret ownerUID))) (\<lambda>_.
                  ret (token, tokenID))))"

definition extend_or_wait :: "benv \<Rightarrow> string \<Rightarrow> bsecret \<Rightarrow> unit bop" where
  "extend_or_wait E kc sec = or_throw (extendBootstrapToken E kc sec) (\<lambda>_. NotReady ''TokenExtendFailed'')"

text \<open>The token of the owner, or the recorded one, extended; \<open>None\<close> when neither is usable.\<close>

definition owned_token :: "benv \<Rightarrow> string \<Rightarrow> string \<Rightarrow> string \<Rightarrow> (string \<times> string) option bop" where
  "owned_token E kc storedID ownerUID =
     (if storedID = [] \<and> ownerUID \<noteq> []
      then bindA (or_throw (findOwnedBootstrapToken E kc ownerUID) (\<lambda>_. NotReady ''TokenLookupFailed'')) (\<lambda>r.
        case r of
          None \<Rightarrow> ret None
        | Some (sec, tok, i) \<Rightarrow> bindA (extend_or_wait E kc sec) (\<lambda>_. ret (Some (tok, i))))
      else ret None)"

definition recorded_token :: "benv \<Rightarrow> string \<Rightarrow> string \<Rightarrow> (string \<times> string) option bop" where
  "recorded_token E kc storedID =
     (if storedID = [] then ret None
      else bindA (or_throw (getBootstrapTokenSecret E kc storedID) (\<lambda>_. NotReady ''TokenLookupFailed'')) (\<lambda>r.
        case r of
          None \<Rightarrow> ret None
        | Some sec \<Rightarrow>
            (case bootstrapTokenFromSecret E sec storedID of
               None \<Rightarrow> ret None
             | Some tok \<Rightarrow> bindA (extend_or_wait E kc sec) (\<lambda>_. ret (Some (tok, storedID))))))"

definition reuseOrMintBootstrapToken ::
  "benv \<Rightarrow> string \<Rightarrow> string \<Rightarrow> string \<Rightarrow> (string \<times> string) bop" where
  "reuseOrMintBootstrapToken E kc storedID ownerUID =
     bindA (owned_token E kc storedID ownerUID) (\<lambda>r.
       case r of
         Some t \<Rightarrow> ret t
       | None \<Rightarrow>
           bindA (recorded_token E kc storedID) (\<lambda>r.
             case r of
               Some t \<Rightarrow> ret t
             | None \<Rightarrow> or_throw (mintBootstrapToken E kc ownerUID) (\<lambda>_. NotReady ''TokenMintFailed'')))"


section \<open>The JoinConfiguration\<close>

definition uninitialized_taint :: "string \<times> string \<times> string" where
  "uninitialized_taint = (''node.cluster.x-k8s.io/uninitialized'', [], ''NoSchedule'')"

definition appendUninitializedTaint ::
  "(string \<times> string \<times> string) list option \<Rightarrow> (string \<times> string \<times> string) list option" where
  "appendUninitializedTaint ts =
     (case ts of
        None \<Rightarrow> Some [uninitialized_taint]
      | Some xs \<Rightarrow>
          if \<exists>t\<in>set xs. fst t = fst uninitialized_taint \<and> snd (snd t) = snd (snd uninitialized_taint)
          then ts else Some (xs @ [uninitialized_taint]))"

definition kubeadmJoinEndpoint :: "benv \<Rightarrow> string \<Rightarrow> trusted \<Rightarrow> string option" where
  "kubeadmJoinEndpoint E serverAddress t =
     (if serverAddress = [] then Some (join_host_port (tr_host t) (itoa (tr_port t)))
      else let raw = (if contains_str serverAddress ''://'' then serverAddress
                      else ''https://'' @ serverAddress)
           in case b_url E raw of
                None \<Rightarrow> None
              | Some (_, host, port) \<Rightarrow>
                  if host = [] then None
                  else Some (join_host_port host (if port = [] then itoa (tr_port t) else port)))"

definition defaultKubeadmPatchesDir :: string where
  "defaultKubeadmPatchesDir = ''/etc/kubernetes/kairos-patches''"

definition empty_join :: join_config where
  "empty_join = \<lparr>jc_endpoint = [], jc_token = [], jc_ca_hashes = [], jc_unsafe = None,
     jc_tls_token = [], jc_file_path = [], jc_control_plane = False, jc_node_name = [],
     jc_taints = None, jc_patches = [], jc_rest = JObj []\<rparr>"

definition user_join :: "kconfig option \<Rightarrow> join_config" where
  "user_join kco =
     (case Option.bind kco (\<lambda>kc. Option.bind (cg_kubeadm (g_spec kc)) ka_join) of
        None \<Rightarrow> empty_join | Some jc \<Rightarrow> jc)"

definition overlay_join :: "join_config \<Rightarrow> string \<Rightarrow> string \<Rightarrow> trusted \<Rightarrow> string \<Rightarrow> join_config" where
  "overlay_join jc machineName endpoint t token =
     jc\<lparr>jc_node_name := (if jc_node_name jc = [] then machineName else jc_node_name jc),
        jc_taints := appendUninitializedTaint (jc_taints jc),
        jc_token := token, jc_endpoint := endpoint, jc_ca_hashes := tr_hashes t, jc_unsafe := None,
        jc_file_path := [], jc_tls_token := [], jc_control_plane := False,
        jc_patches := (if jc_patches jc = [] then defaultKubeadmPatchesDir else jc_patches jc)\<rparr>"

definition renderJoinConfiguration ::
  "benv \<Rightarrow> join_request \<Rightarrow> bmachine \<Rightarrow> trusted \<Rightarrow> string \<Rightarrow> (join_config \<times> string) bop" where
  "renderJoinConfiguration E req m t token =
     (case kubeadmJoinEndpoint E
             (case jr_config req of None \<Rightarrow> [] | Some kc \<Rightarrow> cg_server_address (g_spec kc)) t of
        None \<Rightarrow> throw (Terminal ''invalid spec.serverAddress'')
      | Some endpoint \<Rightarrow>
          let jc = overlay_join (user_join (jr_config req)) (m_name m) endpoint t token
          in if \<not> b_semver_ok E (m_version m) then throw (Terminal ''invalid Machine.spec.version'')
             else (case b_marshal_join E jc (m_version m) of
                     None \<Rightarrow> throw (Terminal ''marshal'')
                   | Some out \<Rightarrow> ret (jc, out)))"


section \<open>The join source\<close>

text \<open>\<open>WorkerJoin\<close>. A Machine is there when the trust check has passed.\<close>

definition kubeadm_worker_join :: "benv \<Rightarrow> join_request \<Rightarrow> kubeadm_material bop" where
  "kubeadm_worker_join E req =
     bindA (verifyTrustChain E req) (\<lambda>t.
     bindA (or_throw (workloadClient E (tr_name t) (tr_kubeconfig t))
              (\<lambda>_. NotReady ''WorkloadClusterUnreachable'')) (\<lambda>kc.
       let storedID = (case jr_config req of None \<Rightarrow> [] | Some g \<Rightarrow> gs_token_id (g_status g));
           ownerUID = (case jr_config req of None \<Rightarrow> [] | Some g \<Rightarrow> g_uid g)
       in bindA (reuseOrMintBootstrapToken E kc storedID ownerUID) (\<lambda>(token, tokenID).
          bindA (renderJoinConfiguration E req (the (jr_machine req)) t token) (\<lambda>(jc, out).
            ret \<lparr>km_join = out, km_version = m_version (the (jr_machine req)),
                 km_patches = jc_patches jc, km_token_id = tokenID,
                 km_replaced = (if storedID \<noteq> [] \<and> storedID \<noteq> tokenID then storedID else [])\<rparr>))))"

definition ExtendWorkerToken :: "benv \<Rightarrow> join_request \<Rightarrow> string \<Rightarrow> bool bop" where
  "ExtendWorkerToken E req tokenID =
     (if \<not> b_token_id_ok E tokenID then ret False
      else bindA (trustedWorkloadClient E req) (\<lambda>kc.
        bindA (or_throw (getBootstrapTokenSecret E kc tokenID) (\<lambda>_. NotReady ''TokenLookupFailed'')) (\<lambda>r.
          case r of
            None \<Rightarrow> ret False
          | Some sec \<Rightarrow>
              (case bootstrapTokenFromSecret E sec tokenID of
                 None \<Rightarrow> ret False
               | Some _ \<Rightarrow> bindA (extend_or_wait E kc sec) (\<lambda>_. ret True)))))"

definition RevokeWorkerToken :: "benv \<Rightarrow> join_request \<Rightarrow> string \<Rightarrow> unit bop" where
  "RevokeWorkerToken E req tokenID =
     (if \<not> b_token_id_ok E tokenID then ret ()
      else bindA (trustedWorkloadClient E req) (\<lambda>kc.
        bindA (tryA (wl_write E kc (TokenDeleted kc (token_secret_name tokenID)))) (\<lambda>r.
          case r of
            Inl e \<Rightarrow> if e = BApi NotFound then ret () else throw (NotReady ''TokenRevokeFailed'')
          | Inr _ \<Rightarrow> ret ())))"

end
