(* ===== verification/Bootstrap_Render.thy ===== *)
theory Bootstrap_Render
  imports Kubeadm_Join HA_Secrets
begin

text \<open>
  What the bootstrap controller renders from: tokens and passwords
  (\<open>tokens.go\<close>, \<open>join.go\<close>), the providerID, the management endpoint with the node's writer
  account (\<open>management_endpoint_resolver.go\<close>), and the data handed to the renderer
  (\<open>render.go\<close>, \<open>kairosconfig_controller.go\<close>).

  \<open>controllerutil.CreateOrUpdate\<close> of the writer's three objects is one request each.
\<close>


section \<open>Secret references\<close>

definition secretRefKey :: "string \<Rightarrow> secret_ref \<Rightarrow> (string \<times> string) option" where
  "secretRefKey ownerNamespace r =
     (if sr_namespace r \<noteq> [] \<and> sr_namespace r \<noteq> ownerNamespace then None
      else Some (ownerNamespace, sr_name r))"

definition cross_namespace :: berr where
  "cross_namespace = Terminal ''cross-namespace Secret references are not allowed''"

definition or_default :: "string \<Rightarrow> string \<Rightarrow> string" where
  "or_default s d = (if s = [] then d else s)"

text \<open>\<open>IsNotFound\<close> of a read becomes \<open>errTokenNotReady\<close>.\<close>

definition missing_is_not_ready :: "berr \<Rightarrow> berr" where
  "missing_is_not_ready e = (if e = BApi NotFound then TokenNotReady else e)"

definition tokenFromWorkerRef :: "benv \<Rightarrow> string \<Rightarrow> secret_ref \<Rightarrow> string bop" where
  "tokenFromWorkerRef E ownerNamespace r =
     (case secretRefKey ownerNamespace r of
        None \<Rightarrow> throw cross_namespace
      | Some (ns, name) \<Rightarrow>
          bindA (or_throw (read_secret E ns name) missing_is_not_ready) (\<lambda>sec.
            case bs_data sec (or_default (sr_key r) ''token'') of
              None \<Rightarrow> throw (Terminal ''missing key'')
            | Some tokenData \<Rightarrow> ret tokenData))"

definition tokenFromLegacyRef :: "benv \<Rightarrow> string \<Rightarrow> secret_ref \<Rightarrow> string bop" where
  "tokenFromLegacyRef E namespace r =
     bindA (or_throw (read_secret E namespace (sr_name r)) missing_is_not_ready) (\<lambda>sec.
       case bs_data sec ''token'' of
         Some t \<Rightarrow> ret t
       | None \<Rightarrow> (case bs_data sec ''value'' of
                    Some t \<Rightarrow> ret t
                  | None \<Rightarrow> throw (Terminal ''missing key'')))"

definition resolveWorkerToken :: "benv \<Rightarrow> kconfig \<Rightarrow> bcluster \<Rightarrow> string bop" where
  "resolveWorkerToken E kc cl =
     (case cg_worker_token_ref (g_spec kc) of
        Some r \<Rightarrow> tokenFromWorkerRef E (g_namespace kc) r
      | None \<Rightarrow>
          if cg_worker_token (g_spec kc) \<noteq> [] then ret (cg_worker_token (g_spec kc))
          else (case cg_token_ref (g_spec kc) of
                  Some r \<Rightarrow> tokenFromLegacyRef E (c_namespace cl) r
                | None \<Rightarrow> ret (cg_token (g_spec kc))))"

definition resolveK3sWorkerToken :: "benv \<Rightarrow> kconfig \<Rightarrow> bcluster \<Rightarrow> string bop" where
  "resolveK3sWorkerToken E kc cl =
     (case cg_k3s_token_ref (g_spec kc) of
        Some r \<Rightarrow> tokenFromWorkerRef E (g_namespace kc) r
      | None \<Rightarrow>
          if cg_k3s_token (g_spec kc) \<noteq> [] then ret (cg_k3s_token (g_spec kc))
          else resolveWorkerToken E kc cl)"

text \<open>The token the control plane issued for this joiner: the Secret's annotation and the token in
  it both carry the wanted ID.\<close>

definition k0sIssuedControlPlaneJoinToken :: "benv \<Rightarrow> string \<Rightarrow> secret_ref \<Rightarrow> string \<Rightarrow> string bop" where
  "k0sIssuedControlPlaneJoinToken E ownerNamespace r wantID =
     (case secretRefKey ownerNamespace r of
        None \<Rightarrow> throw cross_namespace
      | Some (ns, name) \<Rightarrow>
          bindA (or_throw (read_secret E ns name) missing_is_not_ready) (\<lambda>sec.
            if ann (bs_annotations sec) token_id_ann \<noteq> wantID then throw TokenNotReady
            else let token = ann (bs_data sec) (or_default (sr_key r) ''token'')
                 in if token = [] then throw TokenNotReady
                    else (case b_decode_join E token of
                            None \<Rightarrow> throw TokenNotReady
                          | Some d \<Rightarrow> if bt_id (jt_token d) \<noteq> wantID then throw TokenNotReady
                                      else ret token)))"

definition resolveControlPlaneJoinToken :: "benv \<Rightarrow> kconfig \<Rightarrow> string bop" where
  "resolveControlPlaneJoinToken E kc =
     (let distribution = EffectiveDistribution (cg_distribution (g_spec kc))
      in if distribution = ''k3s'' then
           (case cg_k3s_token_ref (g_spec kc) of
              None \<Rightarrow> throw TokenNotReady
            | Some r \<Rightarrow> tokenFromWorkerRef E (g_namespace kc) r)
         else if distribution = ''k0s'' then
           (case cg_join_token_ref (g_spec kc) of
              None \<Rightarrow> throw TokenNotReady
            | Some r \<Rightarrow>
                let wantID = ann (g_annotations kc) token_id_ann
                in if wantID \<noteq> [] then k0sIssuedControlPlaneJoinToken E (g_namespace kc) r wantID
                   else tokenFromWorkerRef E (g_namespace kc) r)
         else throw (Terminal ''unsupported distribution''))"

definition resolveUserPassword :: "benv \<Rightarrow> kconfig \<Rightarrow> string bop" where
  "resolveUserPassword E kc =
     (case cg_user_password_ref (g_spec kc) of
        Some r \<Rightarrow>
          if sr_name r = [] then ret (cg_user_password (g_spec kc))
          else (case secretRefKey (g_namespace kc) r of
                  None \<Rightarrow> throw cross_namespace
                | Some (ns, name) \<Rightarrow>
                    bindA (read_secret E ns name) (\<lambda>sec.
                      case bs_data sec (or_default (sr_key r) ''password'') of
                        None \<Rightarrow> throw (Terminal ''missing key'')
                      | Some p \<Rightarrow> ret p))
      | None \<Rightarrow> ret (cg_user_password (g_spec kc)))"


section \<open>Join sources\<close>

record worker_material =
  wm_token :: string
  wm_kubeadm :: "kubeadm_material option"

definition no_material :: worker_material where
  "no_material = \<lparr>wm_token = [], wm_kubeadm = None\<rparr>"

definition k0s_worker_join :: "benv \<Rightarrow> kconfig \<Rightarrow> bcluster \<Rightarrow> worker_material bop" where
  "k0s_worker_join E kc cl =
     bindA (resolveWorkerToken E kc cl) (\<lambda>token.
       if token = [] then throw (Terminal ''worker token is required'')
       else ret \<lparr>wm_token = token, wm_kubeadm = None\<rparr>)"

definition k3s_worker_join :: "benv \<Rightarrow> kconfig \<Rightarrow> bcluster \<Rightarrow> string \<Rightarrow> worker_material bop" where
  "k3s_worker_join E kc cl serverAddress =
     bindA (resolveK3sWorkerToken E kc cl) (\<lambda>token.
       if token = [] then throw (Terminal ''k3s worker requires a join token'')
       else if serverAddress = [] then throw (Terminal ''k3s worker requires serverAddress'')
       else ret \<lparr>wm_token = token, wm_kubeadm = None\<rparr>)"

text \<open>\<open>joinSourceFor\<close> and \<open>workerJoin\<close>: k0s and k3s have a built-in source, kubeadm's is wired by the
  manager or missing.\<close>

definition workerJoin ::
  "benv \<Rightarrow> string \<Rightarrow> kconfig \<Rightarrow> bmachine \<Rightarrow> bcluster \<Rightarrow> string \<Rightarrow> worker_material bop" where
  "workerJoin E distribution kc m cl serverAddress =
     (if distribution = ''kubeadm'' then
        (if \<not> b_join_wired E then throw (Terminal ''no worker join source configured'')
         else bindA (kubeadm_worker_join E \<lparr>jr_config = Some kc, jr_machine = Some m, jr_cluster = Some cl,
                       jr_server = serverAddress\<rparr>) (\<lambda>km.
                ret \<lparr>wm_token = [], wm_kubeadm = Some km\<rparr>))
      else if distribution = ''k0s'' then k0s_worker_join E kc cl
      else if distribution = ''k3s'' then k3s_worker_join E kc cl serverAddress
      else throw (Terminal ''no worker join source configured''))"


section \<open>Kinds of machines and the providerID\<close>

definition is_kubevirt :: "bmachine \<Rightarrow> bool" where
  "is_kubevirt m \<longleftrightarrow> m_infra_kind m = ''KubevirtMachine'' \<or> m_infra_kind m = ''KubeVirtMachine''"

definition is_metal3 :: "bmachine \<Rightarrow> bool" where
  "is_metal3 m \<longleftrightarrow> m_infra_kind m = ''Metal3Machine''"

definition is_fleet :: "bmachine \<Rightarrow> bool" where
  "is_fleet m \<longleftrightarrow> m_infra_kind m = ''KairosFleetMachine''"

definition supportsManagementEndpoint :: "bmachine \<Rightarrow> bool" where
  "supportsManagementEndpoint m \<longleftrightarrow> m_infra_kind m \<noteq> [] \<and> m_infra_kind m \<noteq> ''DockerMachine''"

definition resolveRole :: "kconfig \<Rightarrow> bmachine \<Rightarrow> string" where
  "resolveRole kc m =
     (if cg_role (g_spec kc) \<noteq> [] then cg_role (g_spec kc)
      else if m_labels m control_plane_label \<noteq> None then ''control-plane'' else ''worker'')"

definition filled_string :: "string list \<Rightarrow> json \<Rightarrow> string option" where
  "filled_string fs j =
     (case nested fs j of Some (JStr s) \<Rightarrow> if s = [] then None else Some s | _ \<Rightarrow> None)"

definition vsphere_provider_id :: "json \<Rightarrow> string option" where
  "vsphere_provider_id j =
     (case filled_string [''spec'', ''providerID''] j of
        Some p \<Rightarrow> Some p
      | None \<Rightarrow>
          (case filled_string [''status'', ''vmUUID''] j of
             Some u \<Rightarrow> Some (''vsphere://'' @ u)
           | None \<Rightarrow> filled_string [''status'', ''providerID''] j))"

definition option_or_empty :: "string option \<Rightarrow> string" where
  "option_or_empty x = (case x of None \<Rightarrow> [] | Some s \<Rightarrow> s)"

definition getProviderID :: "benv \<Rightarrow> bmachine \<Rightarrow> string bop" where
  "getProviderID E m =
     (if bm_provider_id m \<noteq> [] then ret (bm_provider_id m)
      else if m_infra_kind m = [] then ret []
      else if m_infra_kind m = ''VSphereMachine'' then
        bindA (tryA (bread (\<lambda>n. b_vsphere E n (m_infra_name m)))) (\<lambda>r.
          case r of Inl _ \<Rightarrow> ret [] | Inr j \<Rightarrow> ret (option_or_empty (vsphere_provider_id j)))
      else if is_kubevirt m \<or> m_infra_kind m = ''DockerMachine'' then
        bindA (tryA (bread (\<lambda>n. b_infra E n (m_infra_kind m) (m_infra_name m)))) (\<lambda>r.
          case r of Inl _ \<Rightarrow> ret []
          | Inr j \<Rightarrow> ret (option_or_empty (filled_string [''spec'', ''providerID''] j)))
      else ret [])"

definition ready_true :: "json \<Rightarrow> bool" where
  "ready_true j \<longleftrightarrow> string_field j ''type'' = ''Ready'' \<and> string_field j ''status'' = ''True''"

definition infraMachineReady :: "json \<Rightarrow> bool" where
  "infraMachineReady j =
     (if nested_bool [''status'', ''ready''] j = Some True then True
      else (case nested_slice [''status'', ''conditions''] j of
              None \<Rightarrow> False | Some cs \<Rightarrow> list_ex ready_true cs))"

text \<open>Whether to wait for the infrastructure provider to set the providerID.\<close>

definition waitForInfraProviderID :: "benv \<Rightarrow> bmachine \<Rightarrow> string \<Rightarrow> bool bop" where
  "waitForInfraProviderID E m currentProviderID =
     (if currentProviderID \<noteq> [] then ret False
      else if is_metal3 m \<or> is_fleet m then ret False
      else bindA (tryA (bread (\<lambda>n. b_infra E n (m_infra_kind m) (m_infra_name m)))) (\<lambda>r.
        case r of Inl _ \<Rightarrow> ret False | Inr j \<Rightarrow> ret (infraMachineReady j)))"

definition getControlPlaneLBEndpoint :: "benv \<Rightarrow> string \<Rightarrow> string \<Rightarrow> string bop" where
  "getControlPlaneLBEndpoint E namespace name =
     (if namespace = [] \<or> name = [] then ret []
      else bindA (tryA (bread (\<lambda>n. b_service E n namespace name))) (\<lambda>r.
        case r of
          Inl e \<Rightarrow> if e = BApi NotFound then ret [] else throw e
        | Inr svc \<Rightarrow>
            (case lb_ingress svc of
               [] \<Rightarrow> ret []
             | (ip, hostname) # _ \<Rightarrow> if ip \<noteq> [] then ret ip else ret hostname)))"


section \<open>The management endpoint\<close>

text \<open>\<open>kubeconfigWriterName\<close>: at most 63 characters; a longer name is cut and gets a hash, of
  which \<open>b_sha1_hex\<close> gives the first six bytes in hexadecimal.\<close>

definition writer_base :: string where "writer_base = ''kairos-kubeconfig-writer''"

definition kubeconfigWriterName :: "benv \<Rightarrow> string \<Rightarrow> string" where
  "kubeconfigWriterName E clusterName =
     (let name = writer_base @ ''-'' @ clusterName
      in if length name \<le> 63 then name
         else let sfx = b_sha1_hex E clusterName;
                  room = int 63 - int (length writer_base) - int (length sfx) - 2;
                  maxLen = (if room < 1 then 1 else nat room)
              in writer_base @ ''-'' @ take maxLen clusterName @ ''-'' @ sfx)"

definition requireOwnedStaging :: "benv \<Rightarrow> bmachine \<Rightarrow> bcluster \<Rightarrow> string \<Rightarrow> unit bop" where
  "requireOwnedStaging E m cl stagingName =
     (case controller_ref (m_owners m) of
        None \<Rightarrow> throw PushTargetNotReady
      | Some machineOwner \<Rightarrow>
          bindA (or_throw (read_secret E (c_namespace cl) stagingName)
                   (\<lambda>e. if e = BApi NotFound then PushTargetNotReady else e)) (\<lambda>staging.
            case controller_ref (bs_owners staging) of
              None \<Rightarrow> throw PushTargetNotReady
            | Some stagingOwner \<Rightarrow>
                if or_uid stagingOwner \<noteq> or_uid machineOwner then throw PushTargetNotReady else ret ()))"

text \<open>The rules of the writer's Role: groups, resources, resource names, verbs.\<close>

definition writer_rules ::
  "config_spec \<Rightarrow> string \<Rightarrow> (string list \<times> string list \<times> string list \<times> string list) list" where
  "writer_rules s clusterName =
     [([''''], [''secrets''], [stagingKubeconfigSecretName clusterName, etcdStatusSecretName clusterName], [''patch''])] @
     (if cg_role s = ''control-plane'' \<and> (cg_distribution s = ''k0s'' \<or> cg_distribution s = [])
      then [([''kubevirt.io''], [''virtualmachineinstances''], [], [''get''])] else [])"

definition resolve_endpoint ::
  "benv \<Rightarrow> kconfig \<Rightarrow> bmachine \<Rightarrow> bcluster \<Rightarrow> management_endpoint option bop" where
  "resolve_endpoint E kc m cl =
     (if b_push_server E = [] then ret None
      else if b_push_ca E = [] then throw CAUnavailable
      else
        let secretName = stagingKubeconfigSecretName (c_name cl); saName = kubeconfigWriterName E (c_name cl)
        in bindA (requireOwnedStaging E m cl secretName) (\<lambda>_.
           bindA (bwrite E (WriterEnsured saName WriterAccount)) (\<lambda>_.
           bindA (bwrite E (WriterEnsured saName (WriterRole (writer_rules (g_spec kc) (c_name cl))))) (\<lambda>_.
           bindA (bwrite E (WriterEnsured saName WriterBinding)) (\<lambda>_.
           bindA (bread (b_push_token E)) (\<lambda>token.
             if token = [] then throw (Terminal ''empty token'')
             else bindA (blog (PushTokenIssued saName)) (\<lambda>_.
               ret (Some \<lparr>me_api_server = b_push_server E, me_token = token,
                 me_secret_name = secretName, me_secret_namespace = c_namespace cl,
                 me_cluster_name = c_name cl, me_endpoint_host = c_endpoint_host cl,
                 me_etcd_secret = [], me_ca_bundle = b_push_ca E\<rparr>))))))))"


section \<open>The data of a render\<close>

definition install_of :: "install_config option \<Rightarrow> install_data option" where
  "install_of io =
     map_option (\<lambda>i. \<lparr>id_auto = (case in_auto i of None \<Rightarrow> True | Some b \<Rightarrow> b),
        id_device = or_default (in_device i) ''auto'',
        id_reboot = (case in_reboot i of None \<Rightarrow> True | Some b \<Rightarrow> b)\<rparr>) io"

definition config_hostname :: "config_spec \<Rightarrow> string \<Rightarrow> string" where
  "config_hostname s machineName = (if cg_hostname s \<noteq> [] then cg_hostname s else machineName)"

text \<open>\<open>%q\<close> of a providerID, which the renderer accepts only without a character that would be
  escaped.\<close>

definition go_quote :: "string \<Rightarrow> string" where
  "go_quote s = [CHR 0x22] @
     concat (map (\<lambda>c. if c = CHR 0x22 \<or> c = CHR 0x5C then [CHR 0x5C, c] else [c]) s) @ [CHR 0x22]"

definition kubeadmProviderIDPatch :: "string \<Rightarrow> string" where
  "kubeadmProviderIDPatch providerID =
     (if providerID = [] then [] else ''providerID: '' @ go_quote providerID @ [CHR 0x0A])"

definition fillTemplateData ::
  "string \<Rightarrow> config_spec \<Rightarrow> string \<Rightarrow> worker_material \<Rightarrow> template_data \<Rightarrow> template_data" where
  "fillTemplateData distr s serverAddress w td =
     (if distr = ''k0s'' then
        td\<lparr>td_worker_token := wm_token w, td_pod_cidr := cg_pod_cidr s, td_service_cidr := cg_service_cidr s\<rparr>
      else if distr = ''k3s'' then td\<lparr>td_k3s_server := serverAddress, td_k3s_token := wm_token w\<rparr>
      else (case wm_kubeadm w of
              None \<Rightarrow> td
            | Some km \<Rightarrow> td\<lparr>td_kubeadm := Some \<lparr>kd_join = km_join km,
                 kd_provider_patch = kubeadmProviderIDPatch (td_provider_id td),
                 kd_version = km_version km, kd_patches = km_patches km\<rparr>\<rparr>))"

definition lb_service_name :: "string \<Rightarrow> string" where
  "lb_service_name clusterName = clusterName @ ''-control-plane-lb''"

definition base_data ::
  "kconfig \<Rightarrow> bmachine \<Rightarrow> bcluster \<Rightarrow> string \<Rightarrow> string \<Rightarrow> string \<Rightarrow> template_data" where
  "base_data kc m cl role userPassword providerID =
     (let s = g_spec kc
      in \<lparr>td_role = role, td_single_node = cg_single_node s,
          td_k0s_single_node = (cg_k0s_single_node s = Some True),
          td_hostname = config_hostname s (m_name m),
          td_user_name = or_default (cg_user_name s) ''kairos'', td_user_password = userPassword,
          td_user_groups = (if cg_user_groups s = [] then [''admin''] else cg_user_groups s),
          td_github_user = cg_github_user s, td_ssh_key = cg_ssh_key s, td_worker_token = [],
          td_manifests = cg_manifests s, td_files = cg_files s,
          td_hostname_prefix = or_default (cg_hostname_prefix s) ''metal-'',
          td_dns_servers = cg_dns_servers s, td_pod_cidr = [], td_service_cidr = [],
          td_primary_ip = cg_primary_ip s, td_machine_name = m_name m, td_cluster_ns = c_namespace cl,
          td_kubevirt = is_kubevirt m, td_metal3 = is_metal3 m, td_fleet = is_fleet m,
          td_install = install_of (cg_install s), td_provider_id = providerID,
          td_k3s_server = [], td_k3s_token = [], td_lb_name = lb_service_name (c_name cl),
          td_lb_namespace = c_namespace cl, td_lb_endpoint = [], td_cp_role = [],
          td_join_token = [], td_vip = None, td_endpoint = None, td_kubeadm = None\<rparr>)"

definition lb_endpoint_data :: "benv \<Rightarrow> bmachine \<Rightarrow> bcluster \<Rightarrow> string \<Rightarrow> template_data \<Rightarrow> template_data bop" where
  "lb_endpoint_data E m cl role td =
     (if is_kubevirt m \<and> role = ''control-plane'' then
        bindA (getControlPlaneLBEndpoint E (c_namespace cl) (td_lb_name td)) (\<lambda>lbEndpoint.
          if lbEndpoint = [] then throw LBEndpointNotReady
          else ret (td\<lparr>td_lb_endpoint := lbEndpoint\<rparr>))
      else ret td)"

definition report_etcd :: "config_spec \<Rightarrow> bcluster \<Rightarrow> management_endpoint option \<Rightarrow> management_endpoint option" where
  "report_etcd s cl eo =
     (if cg_cp_role s = ''init'' \<or> cg_cp_role s = ''join''
      then map_option (\<lambda>e. e\<lparr>me_etcd_secret := etcdStatusSecretName (c_name cl)\<rparr>) eo else eo)"

definition applyControlPlaneRenderData ::
  "benv \<Rightarrow> kconfig \<Rightarrow> bcluster \<Rightarrow> string \<Rightarrow> template_data \<Rightarrow> template_data bop" where
  "applyControlPlaneRenderData E kc cl role td =
     (if role \<noteq> ''control-plane'' then ret td
      else
        let s = g_spec kc;
            td = td\<lparr>td_cp_role := cg_cp_role s, td_vip := cg_vip s,
                    td_endpoint := report_etcd s cl (td_endpoint td)\<rparr>
        in if cg_cp_role s = ''join'' \<or>
              cg_cp_role s = ''init'' \<and> EffectiveDistribution (cg_distribution s) \<noteq> ''k0s''
           then bindA (resolveControlPlaneJoinToken E kc) (\<lambda>token. ret (td\<lparr>td_join_token := token\<rparr>))
           else ret td)"

definition provider_id_for_render :: "benv \<Rightarrow> bmachine \<Rightarrow> string bop" where
  "provider_id_for_render E m = (if is_metal3 m \<or> is_fleet m then ret [] else getProviderID E m)"

definition endpoint_for_render ::
  "benv \<Rightarrow> kconfig \<Rightarrow> bmachine \<Rightarrow> bcluster \<Rightarrow> string \<Rightarrow> management_endpoint option bop" where
  "endpoint_for_render E kc m cl role =
     (if supportsManagementEndpoint m \<and> role = ''control-plane'' \<and> b_push_wired E
      then resolve_endpoint E kc m cl else ret None)"

definition render_error_of :: "render_failure + string \<Rightarrow> string bop" where
  "render_error_of r = (case r of Inl _ \<Rightarrow> throw (Terminal ''render'') | Inr cc \<Rightarrow> ret cc)"

definition renderCloudConfigM ::
  "benv \<Rightarrow> string \<Rightarrow> kconfig \<Rightarrow> bmachine \<Rightarrow> bcluster \<Rightarrow> string \<Rightarrow> string \<Rightarrow> (string \<times> worker_material) bop" where
  "renderCloudConfigM E distr kc m cl role serverAddress =
     (if distr \<notin> set supportedDistributions then throw (Terminal ''unsupported distribution'')
      else
        bindA (if role = ''worker'' then workerJoin E distr kc m cl serverAddress else ret no_material) (\<lambda>w.
        bindA (resolveUserPassword E kc) (\<lambda>userPassword.
        bindA (provider_id_for_render E m) (\<lambda>providerID.
        bindA (endpoint_for_render E kc m cl role) (\<lambda>endpoint.
          let td = (fillTemplateData distr (g_spec kc) serverAddress w
                     (base_data kc m cl role userPassword providerID))\<lparr>td_endpoint := endpoint\<rparr>
          in bindA (lb_endpoint_data E m cl role td) (\<lambda>td.
             bindA (applyControlPlaneRenderData E kc cl role td) (\<lambda>td.
             bindA (render_error_of (Render (b_render E) distr td)) (\<lambda>cc. ret (cc, w)))))))))"

definition server_address :: "kconfig \<Rightarrow> bcluster \<Rightarrow> string" where
  "server_address kc cl =
     (if cg_server_address (g_spec kc) = [] \<and> c_endpoint_valid cl
      then ''https://'' @ c_endpoint_host cl @ '':'' @ itoa (c_endpoint_port cl)
      else cg_server_address (g_spec kc))"

definition generateCloudConfigM ::
  "benv \<Rightarrow> kconfig \<Rightarrow> bmachine \<Rightarrow> bcluster \<Rightarrow> (string \<times> worker_material) bop" where
  "generateCloudConfigM E kc m cl =
     renderCloudConfigM E (EffectiveDistribution (cg_distribution (g_spec kc))) kc m cl
       (resolveRole kc m) (server_address kc cl)"

definition renderCarriesProviderID :: "string \<Rightarrow> string \<Rightarrow> string \<Rightarrow> bool \<times> bool" where
  "renderCarriesProviderID distr cloudConfig providerID =
     (contains_str cloudConfig providerID,
      contains_str cloudConfig
        (case ProviderIDMarker (EffectiveDistribution distr) of
           Some marker \<Rightarrow> marker | None \<Rightarrow> option_or_empty (ProviderIDMarker ''k0s'')))"

end
