(* ===== verification/Capk_Userdata.thy ===== *)
theory Capk_Userdata
  imports Kairos_Prelude
begin

text \<open>
  \<open>sanitizeCapkUserdata\<close> (\<open>kairosconfig_controller.go\<close>): the line editor that makes the
  userdata CAPK writes acceptable to Kairos. \<open>strings.TrimSpace\<close> is on the ASCII white space,
  which is all that CAPK's userdata has.
\<close>

definition trim_space :: "string \<Rightarrow> string" where
  "trim_space s = rev (dropWhile is_space (rev (dropWhile is_space s)))"

definition indent_of :: "string \<Rightarrow> nat" where
  "indent_of line = length (takeWhile (\<lambda>c. c = CHR '' '') line)"

definition spaces :: "nat \<Rightarrow> string" where
  "spaces n = replicate n (CHR '' '')"

text \<open>The variables of the loop: the user of the last \<open>- name:\<close> line, whether the lines are SSH
  keys and from which indent, whether they are the groups of a list that has been replaced, and
  whether anything was changed.\<close>

record capk =
  ck_user :: string
  ck_ssh :: bool
  ck_ssh_indent :: nat
  ck_groups :: bool
  ck_groups_indent :: nat
  ck_changed :: bool

definition capk0 :: capk where
  "capk0 = \<lparr>ck_user = [], ck_ssh = False, ck_ssh_indent = 0, ck_groups = False,
     ck_groups_indent = 0, ck_changed = False\<rparr>"

definition unquote_key :: "string \<Rightarrow> string" where
  "unquote_key v =
     (if has_prefix v [CHR 0x22] \<and> last v = CHR 0x22 then butlast (tl v) else v)"

definition ssh_line :: "capk \<Rightarrow> string \<Rightarrow> capk \<times> string" where
  "ssh_line c line =
     (let trimmed = trim_space line
      in if \<not> has_prefix trimmed ''-'' then (c, line)
         else let key = unquote_key (trim_space (drop 1 trimmed))
              in if key = [] then (c, line)
                 else (c\<lparr>ck_changed := True\<rparr>,
                       spaces (indent_of line) @ ''- '' @ [CHR 0x22] @ key @ [CHR 0x22]))"

definition flow_groups :: string where "flow_groups = ''groups: [users, admin]''"

definition capk_user_line :: "capk \<Rightarrow> string \<Rightarrow> capk \<times> string option" where
  "capk_user_line c line =
     (let trimmed = trim_space line
      in if ck_user c \<noteq> ''capk'' then (c, Some line)
         else if has_prefix trimmed ''sudo:'' then (c\<lparr>ck_changed := True\<rparr>, None)
         else if has_prefix trimmed ''ssh_authorized_keys:''
           then (c\<lparr>ck_ssh := True, ck_ssh_indent := indent_of line\<rparr>, Some line)
         else if trimmed = ''groups: users, admin''
           then (c\<lparr>ck_changed := True\<rparr>, Some (spaces (indent_of line) @ flow_groups))
         else if trimmed = ''groups:''
           then (c\<lparr>ck_groups := True, ck_groups_indent := indent_of line, ck_changed := True\<rparr>,
                 Some (spaces (indent_of line) @ flow_groups))
         else (c, Some line))"

definition capk_name :: "capk \<Rightarrow> string \<Rightarrow> capk" where
  "capk_name c line =
     (let trimmed = trim_space line
      in if has_prefix trimmed ''- name:''
         then c\<lparr>ck_user := trim_space (drop 7 trimmed), ck_ssh := False, ck_groups := False\<rparr> else c)"

text \<open>One line: the new state, and the line kept, if it is.\<close>

definition capk_line :: "capk \<Rightarrow> string \<Rightarrow> capk \<times> string option" where
  "capk_line c0 line =
     (let c = capk_name c0 line
      in if ck_groups c \<and> indent_of line > ck_groups_indent c then (c\<lparr>ck_changed := True\<rparr>, None)
         else let c = c\<lparr>ck_groups := False\<rparr>
              in if ck_ssh c \<and> indent_of line > ck_ssh_indent c
                 then (case ssh_line c line of (c, l) \<Rightarrow> (c, Some l))
                 else capk_user_line (c\<lparr>ck_ssh := False\<rparr>) line)"

fun capk_lines :: "capk \<Rightarrow> string list \<Rightarrow> capk \<times> string list" where
  "capk_lines c [] = (c, [])"
| "capk_lines c (l # ls) =
     (case capk_line c l of (c, out) \<Rightarrow>
       (case capk_lines c ls of (c, outs) \<Rightarrow>
          (c, (case out of None \<Rightarrow> outs | Some l \<Rightarrow> l # outs))))"

definition sanitizeCapkUserdata :: "string \<Rightarrow> string \<times> bool" where
  "sanitizeCapkUserdata content =
     (case capk_lines capk0 (split_on (CHR 0x0A) content) of
        (c, ls) \<Rightarrow> (join_str [CHR 0x0A] ls, ck_changed c))"


section \<open>What it leaves alone\<close>

text \<open>Userdata without a user \<open>capk\<close> comes back as it was.\<close>

definition names_capk :: "string \<Rightarrow> bool" where
  "names_capk line \<longleftrightarrow>
     has_prefix (trim_space line) ''- name:'' \<and> trim_space (drop 7 (trim_space line)) = ''capk''"

definition untouched :: "capk \<Rightarrow> bool" where
  "untouched c \<longleftrightarrow> ck_user c \<noteq> ''capk'' \<and> \<not> ck_ssh c \<and> \<not> ck_groups c \<and> \<not> ck_changed c"

lemma untouched_line:
  assumes "untouched c" "\<not> names_capk l"
  obtains c' where "capk_line c l = (c', Some l)" "untouched c'"
proof -
  have "untouched (capk_name c l)"
    using assms by (auto simp: capk_name_def untouched_def names_capk_def Let_def)
  then have "capk_line c l = ((capk_name c l)\<lparr>ck_groups := False, ck_ssh := False\<rparr>, Some l)"
    by (simp add: capk_line_def capk_user_line_def untouched_def Let_def)
  moreover have "untouched ((capk_name c l)\<lparr>ck_groups := False, ck_ssh := False\<rparr>)"
    using \<open>untouched (capk_name c l)\<close> by (simp add: untouched_def)
  ultimately show thesis by (rule that)
qed

lemma untouched_lines:
  "untouched c \<Longrightarrow> \<forall>l\<in>set ls. \<not> names_capk l \<Longrightarrow>
     \<exists>c'. capk_lines c ls = (c', ls) \<and> untouched c'"
proof (induction ls arbitrary: c)
  case Nil
  then show ?case by simp
next
  case (Cons l ls)
  from Cons.prems obtain c' where c': "capk_line c l = (c', Some l)" "untouched c'"
    by (metis list.set_intros(1) untouched_line)
  with Cons show ?case by fastforce
qed

lemma other_userdata_kept:
  assumes "\<forall>l\<in>set (split_on (CHR 0x0A) content). \<not> names_capk l"
  shows "sanitizeCapkUserdata content = (content, False)"
proof -
  have "untouched capk0" by (simp add: untouched_def capk0_def)
  from untouched_lines[OF this assms] show ?thesis
    by (auto simp: sanitizeCapkUserdata_def join_split_on untouched_def)
qed

text \<open>No \<open>sudo:\<close> line of the user \<open>capk\<close> is let through.\<close>

lemma sudo_line_dropped:
  assumes "ck_user (capk_name c l) = ''capk''" "has_prefix (trim_space l) ''sudo:''"
    and "\<not> (ck_ssh (capk_name c l) \<and> indent_of l > ck_ssh_indent (capk_name c l))"
  shows "snd (capk_line c l) = None"
  using assms by (auto simp: capk_line_def capk_user_line_def Let_def)

end
