(* ===== verification/Bootstrap_Reconcile.thy ===== *)
theory Bootstrap_Reconcile
  imports Bootstrap_Render Capk_Userdata Control_Plane_Reconcile
begin

text \<open>
  One call of \<open>KairosConfigReconciler.Reconcile\<close> (\<open>kairosconfig_controller.go\<close>), with
  \<open>deleteBootstrapSecret\<close> (\<open>cleanup.go\<close>), \<open>ResolveManagementCA\<close> (\<open>management_ca.go\<close>) and the
  mapping functions of the watches.

  A result is the requested delay, 0 for none. The Machine and the Cluster are there wherever
  \<open>Reconcile\<close> calls a function that would also take a nil one. Where the code wraps an error
  the wrapped one is thrown, since \<open>errors.Is\<close> and \<open>errors.As\<close> see through it.
\<close>


section \<open>Conditions\<close>

definition bootstrap_ready :: string where "bootstrap_ready = ''BootstrapReady''"

definition data_available :: string where "data_available = ''DataSecretAvailable''"

definition ready_type :: string where "ready_type = ''Ready''"

definition mark_all :: "cond \<Rightarrow> unit bop" where
  "mark_all c = mod_status (\<lambda>gs. config_cond data_available c
     (config_cond bootstrap_ready c (config_cond ready_type c gs)))"

definition mark_bootstrap :: "string \<Rightarrow> severity \<Rightarrow> unit bop" where
  "mark_bootstrap reason sev = mod_status (config_cond bootstrap_ready (cond_false reason sev))"

definition waiting_for_infrastructure :: "duration bop" where
  "waiting_for_infrastructure =
     bindA (mark_all (cond_false ''WaitingForClusterInfrastructure'' SevInfo)) (\<lambda>_. ret 0)"

definition generation_failed :: string where
  "generation_failed = ''BootstrapDataSecretGenerationFailed''"

definition park :: "duration bop" where
  "park =
     bindA (mark_all (cond_false generation_failed SevWarning)) (\<lambda>_.
     bindA (mod_status (\<lambda>gs. gs\<lparr>gs_failure := generation_failed, gs_ready := False\<rparr>)) (\<lambda>_. ret 0))"


section \<open>The kubeadm worker token\<close>

definition kubeadmTokenRefreshCap :: duration where
  "kubeadmTokenRefreshCap = hours 24"

definition kubeadmTokenRefreshCapRequeue :: duration where
  "kubeadmTokenRefreshCapRequeue = minutes 10"

datatype refresh = RefreshNone | RefreshRegenerate | RefreshCapped

definition kubeadmTokenRefresher :: "benv \<Rightarrow> kconfig \<Rightarrow> bmachine \<Rightarrow> berr + bool" where
  "kubeadmTokenRefresher E kc m =
     (if EffectiveDistribution (cg_distribution (g_spec kc)) \<noteq> ''kubeadm'' then Inr False
      else if resolveRole kc m \<noteq> ''worker'' then Inr False
      else if \<not> b_join_wired E then Inl (Terminal ''no worker join source configured'')
      else Inr True)"

definition bootstrapSecretBelongsTo :: "bsecret \<Rightarrow> kconfig \<Rightarrow> string \<Rightarrow> bool" where
  "bootstrapSecretBelongsTo sec kc clusterName \<longleftrightarrow>
     g_uid kc \<noteq> [] \<and> (\<exists>r\<in>set (bs_owners sec). or_uid r = g_uid kc) \<or>
     clusterName \<noteq> [] \<and> ann (bs_labels sec) cluster_name_label = clusterName"

text \<open>\<open>b_join_file\<close> is the token in the JoinConfiguration that the \<open>write_files\<close> entry of a path
  holds.\<close>

definition kubeadmJoinConfigPath :: string where
  "kubeadmJoinConfigPath = ''/etc/kubernetes/kairos-kubeadm-join.yaml''"

definition bootstrapTokenIDFromBootstrapData :: "benv \<Rightarrow> string \<Rightarrow> string" where
  "bootstrapTokenIDFromBootstrapData E data =
     (case b_join_file E data kubeadmJoinConfigPath of
        None \<Rightarrow> []
      | Some token \<Rightarrow> (case b_token_parts E token of None \<Rightarrow> [] | Some (i, _) \<Rightarrow> i))"

definition token_request :: "kconfig \<Rightarrow> bmachine \<Rightarrow> bcluster \<Rightarrow> join_request" where
  "token_request kc m cl = \<lparr>jr_config = Some kc, jr_machine = Some m, jr_cluster = Some cl, jr_server = []\<rparr>"

definition forget_token :: "unit bop" where
  "forget_token = mod_status (\<lambda>gs. gs\<lparr>gs_token_id := []\<rparr>)"

definition revoke_joined :: "benv \<Rightarrow> kconfig \<Rightarrow> bmachine \<Rightarrow> bcluster \<Rightarrow> refresh bop" where
  "revoke_joined E kc m cl =
     (if gs_token_id (g_status kc) = [] then ret RefreshNone
      else bindA (tryA (RevokeWorkerToken E (token_request kc m cl) (gs_token_id (g_status kc)))) (\<lambda>r.
        case r of
          Inl (NotReady reason) \<Rightarrow> throw (NotReady reason)
        | _ \<Rightarrow> bindA forget_token (\<lambda>_. ret RefreshNone)))"

definition recover_token_id :: "benv \<Rightarrow> kconfig \<Rightarrow> bcluster \<Rightarrow> bsecret \<Rightarrow> string bop" where
  "recover_token_id E kc cl dataSecret =
     (if gs_token_id (g_status kc) \<noteq> [] then ret (gs_token_id (g_status kc))
      else let i = (if bootstrapSecretBelongsTo dataSecret kc (c_name cl)
                    then bootstrapTokenIDFromBootstrapData E (ann (bs_data dataSecret) ''value'') else [])
           in if i = [] then ret []
              else bindA (mod_status (\<lambda>gs. gs\<lparr>gs_token_id := i\<rparr>)) (\<lambda>_. ret i))"

definition extend_waiting :: "benv \<Rightarrow> kconfig \<Rightarrow> bmachine \<Rightarrow> bcluster \<Rightarrow> bsecret \<Rightarrow> refresh bop" where
  "extend_waiting E kc m cl dataSecret =
     bindA (recover_token_id E kc cl dataSecret) (\<lambda>tokenID.
       if tokenID = [] then ret RefreshRegenerate
       else bindA get_config (\<lambda>kc.
            bindA (ExtendWorkerToken E (token_request kc m cl) tokenID) (\<lambda>found.
              ret (if found then RefreshNone else RefreshRegenerate))))"

definition past_cap :: "benv \<Rightarrow> bmachine \<Rightarrow> bool" where
  "past_cap E m \<longleftrightarrow>
     (case bm_created m of None \<Rightarrow> False | Some t \<Rightarrow> b_now E - t > kubeadmTokenRefreshCap)"

definition reconcileKubeadmWorkerToken ::
  "benv \<Rightarrow> kconfig \<Rightarrow> bmachine \<Rightarrow> bcluster \<Rightarrow> bsecret \<Rightarrow> refresh bop" where
  "reconcileKubeadmWorkerToken E kc m cl dataSecret =
     (case kubeadmTokenRefresher E kc m of
        Inl e \<Rightarrow> throw e
      | Inr refreshes \<Rightarrow>
          if \<not> refreshes then ret RefreshNone
          else if node_name m \<noteq> [] then revoke_joined E kc m cl
          else if past_cap E m then ret RefreshCapped
          else extend_waiting E kc m cl dataSecret)"

definition kubeadmTokenRecheck :: "benv \<Rightarrow> kconfig \<Rightarrow> bmachine \<Rightarrow> duration" where
  "kubeadmTokenRecheck E kc m =
     (if kubeadmTokenRefresher E kc m \<noteq> Inr True then 0
      else if node_name m = [] \<or> gs_token_id (g_status kc) \<noteq> [] then TokenRecheckInterval E else 0)"

definition revokeKubeadmTokenOnDelete :: "benv \<Rightarrow> kconfig \<Rightarrow> unit bop" where
  "revokeKubeadmTokenOnDelete E kc =
     (if gs_token_id (g_status kc) = [] then ret ()
      else bindA (tryA (bread (b_owner_machine E))) (\<lambda>r. case r of
        Inr (Some m) \<Rightarrow> bindA (tryA (bread (b_owner_cluster E))) (\<lambda>r. case r of
          Inr (Some cl) \<Rightarrow>
            if kubeadmTokenRefresher E kc m \<noteq> Inr True then ret ()
            else bindA (tryA (RevokeWorkerToken E (token_request kc m cl) (gs_token_id (g_status kc)))) (\<lambda>r.
                   case r of Inl _ \<Rightarrow> ret () | Inr _ \<Rightarrow> forget_token)
        | _ \<Rightarrow> ret ())
      | _ \<Rightarrow> ret ()))"


section \<open>The userdata of CAPK\<close>

definition is_named :: "string option \<Rightarrow> bool" where
  "is_named x \<longleftrightarrow> option_or_empty x \<noteq> []"

definition recorded_name :: "kconfig \<Rightarrow> bmachine \<Rightarrow> string" where
  "recorded_name kc m =
     (if is_named (bm_data_secret m) then option_or_empty (bm_data_secret m)
      else option_or_empty (gs_data_secret (g_status kc)))"

definition userdata_name :: "string \<Rightarrow> string" where
  "userdata_name secretName = secretName @ ''-userdata''"

text \<open>Whether the Secret was updated and whether it was found.\<close>

definition sanitizeCapkUserdataSecret :: "benv \<Rightarrow> kconfig \<Rightarrow> bmachine \<Rightarrow> (bool \<times> bool) bop" where
  "sanitizeCapkUserdataSecret E kc m =
     (if recorded_name kc m = [] then ret (False, False)
      else let name = userdata_name (recorded_name kc m)
      in bindA (tryA (read_secret E (g_namespace kc) name)) (\<lambda>r. case r of
           Inl e \<Rightarrow> if e = BApi NotFound then ret (False, False) else throw e
         | Inr sec \<Rightarrow>
             if ann (bs_data sec) ''userdata'' = [] then ret (False, True)
             else (case sanitizeCapkUserdata (ann (bs_data sec) ''userdata'') of (updated, changed) \<Rightarrow>
               if \<not> changed then ret (False, True)
               else bindA (tryA (bwrite E (UserdataUpdated name updated))) (\<lambda>r. case r of
                      Inl e \<Rightarrow> if e = BApi Conflict then ret (False, True) else throw e
                    | Inr _ \<Rightarrow> ret (True, True)))))"

definition settle_userdata :: "benv \<Rightarrow> bmachine \<Rightarrow> duration bop" where
  "settle_userdata E m =
     (if \<not> is_kubevirt m then ret 0
      else bindA get_config (\<lambda>kc.
           bindA (sanitizeCapkUserdataSecret E kc m) (\<lambda>(updated, found).
             ret (if found then 0 else seconds 10))))"


section \<open>The bootstrap data\<close>

text \<open>When the Machine names another Secret than the status, the recorded one and its userdata are
  deleted, without regard to errors, and the status forgets it.\<close>

definition delete_if_there :: "benv \<Rightarrow> string \<Rightarrow> string \<Rightarrow> unit bop" where
  "delete_if_there E ns name =
     bindA (tryA (read_secret E ns name)) (\<lambda>r. case r of
       Inl _ \<Rightarrow> ret ()
     | Inr _ \<Rightarrow> bindA (tryA (bwrite E (SecretDeleted name))) (\<lambda>_. ret ()))"

definition names_differ :: "kconfig \<Rightarrow> bmachine \<Rightarrow> bool" where
  "names_differ kc m \<longleftrightarrow> is_named (bm_data_secret m) \<and> is_named (gs_data_secret (g_status kc)) \<and>
     bm_data_secret m \<noteq> gs_data_secret (g_status kc)"

definition forget_secret :: "unit bop" where
  "forget_secret = mod_status (\<lambda>gs. gs\<lparr>gs_data_secret := None\<rparr>)"

definition align_secret_name :: "benv \<Rightarrow> bmachine \<Rightarrow> unit bop" where
  "align_secret_name E m =
     bindA get_config (\<lambda>kc.
       if \<not> names_differ kc m then ret ()
       else let old = option_or_empty (gs_data_secret (g_status kc)) in
            bindA (delete_if_there E (g_namespace kc) old) (\<lambda>_.
            bindA (delete_if_there E (g_namespace kc) (userdata_name old)) (\<lambda>_. forget_secret)))"

definition enables_ssh :: "string \<Rightarrow> bool" where
  "enables_ssh s \<longleftrightarrow> contains_str s ''systemctl enable --now sshd'' \<or>
     contains_str s ''systemctl enable --now ssh''"

definition embeds :: "kconfig \<Rightarrow> string \<Rightarrow> string \<Rightarrow> bool" where
  "embeds kc cloudConfig providerID =
     (case renderCarriesProviderID (cg_distribution (g_spec kc)) cloudConfig providerID of
        (hasID, hasService) \<Rightarrow> hasID \<and> hasService)"

definition needs_regeneration :: "kconfig \<Rightarrow> string \<Rightarrow> bsecret \<Rightarrow> bool" where
  "needs_regeneration kc providerID sec \<longleftrightarrow>
     providerID \<noteq> [] \<and>
     (case bs_data sec ''value'' of
        None \<Rightarrow> True
      | Some v \<Rightarrow> \<not> embeds kc v providerID \<or> \<not> enables_ssh v)"

definition mark_created :: "unit bop" where
  "mark_created = mod_status (\<lambda>gs. gs\<lparr>gs_ready := True, gs_created := True\<rparr>)"

text \<open>What the recorded Secret says: \<open>None\<close> to generate, otherwise the result.\<close>

definition check_existing ::
  "benv \<Rightarrow> bmachine \<Rightarrow> bcluster \<Rightarrow> string \<Rightarrow> bsecret \<Rightarrow> duration option bop" where
  "check_existing E m cl providerID sec =
     bindA get_config (\<lambda>kc.
     bindA (tryA (reconcileKubeadmWorkerToken E kc m cl sec)) (\<lambda>d. case d of
       Inl (NotReady _) \<Rightarrow> ret (Some (seconds 10))
     | Inl e \<Rightarrow> throw e
     | Inr RefreshCapped \<Rightarrow>
         bindA (mark_bootstrap ''BootstrapTokenRefreshCapExceeded'' SevWarning) (\<lambda>_.
           ret (Some kubeadmTokenRefreshCapRequeue))
     | Inr decision \<Rightarrow>
         if needs_regeneration kc providerID sec \<or> decision = RefreshRegenerate then ret None
         else bindA mark_created (\<lambda>_.
              bindA (settle_userdata E m) (\<lambda>after. ret (Some after)))))"

definition recorded_data :: "benv \<Rightarrow> bmachine \<Rightarrow> bcluster \<Rightarrow> string \<Rightarrow> duration option bop" where
  "recorded_data E m cl providerID =
     bindA get_config (\<lambda>kc. case gs_data_secret (g_status kc) of
       None \<Rightarrow> ret None
     | Some name \<Rightarrow>
         bindA (tryA (read_secret E (g_namespace kc) name)) (\<lambda>r. case r of
           Inl e \<Rightarrow> if e = BApi NotFound then bindA forget_secret (\<lambda>_. ret None) else throw e
         | Inr sec \<Rightarrow> check_existing E m cl providerID sec))"

definition secret_type :: string where
  "secret_type = ''cluster.x-k8s.io/secret''"

definition config_owner :: "kconfig \<Rightarrow> owner_ref" where
  "config_owner kc = \<lparr>or_kind = ''KairosConfig'', or_name = g_name kc, or_uid = g_uid kc,
     or_controller = True, or_api = bootstrap_api_group @ ''/v1beta2''\<rparr>"

definition data_secret :: "kconfig \<Rightarrow> bcluster \<Rightarrow> string \<Rightarrow> string \<Rightarrow> bsecret" where
  "data_secret kc cl name cloudConfig =
     \<lparr>bs_name = name, bs_type = secret_type, bs_labels = [cluster_name_label \<mapsto> c_name cl],
      bs_annotations = Map.empty, bs_owners = [config_owner kc], bs_data = [''value'' \<mapsto> cloudConfig]\<rparr>"

definition overwritten :: "bsecret \<Rightarrow> bsecret \<Rightarrow> bsecret" where
  "overwritten old new = old\<lparr>bs_type := bs_type new, bs_labels := bs_labels new,
     bs_owners := bs_owners new, bs_data := bs_data new\<rparr>"

definition secret_name :: "kconfig \<Rightarrow> bmachine \<Rightarrow> string" where
  "secret_name kc m = or_default (recorded_name kc m) (g_name kc)"

definition store_data :: "benv \<Rightarrow> kconfig \<Rightarrow> bcluster \<Rightarrow> string \<Rightarrow> string \<Rightarrow> unit bop" where
  "store_data E kc cl name cloudConfig =
     bindA (tryA (read_secret E (g_namespace kc) name)) (\<lambda>r. case r of
       Inl e \<Rightarrow> if e = BApi NotFound then bwrite E (DataSecretCreated (data_secret kc cl name cloudConfig))
                else throw e
     | Inr old \<Rightarrow>
         if \<not> bootstrapSecretBelongsTo old kc (c_name cl) then throw (Terminal ''refusing to overwrite'')
         else bwrite E (DataSecretUpdated old (overwritten old (data_secret kc cl name cloudConfig))))"

definition record_render :: "string \<Rightarrow> worker_material \<Rightarrow> unit bop" where
  "record_render name w = mod_status (\<lambda>gs. gs\<lparr>gs_data_secret := Some name,
     gs_token_id := (case wm_kubeadm w of None \<Rightarrow> gs_token_id gs | Some km \<Rightarrow> km_token_id km)\<rparr>)"

definition finish_data :: "benv \<Rightarrow> kconfig \<Rightarrow> bmachine \<Rightarrow> string \<Rightarrow> string \<Rightarrow> duration bop" where
  "finish_data E kc m providerID cloudConfig =
     (if providerID \<noteq> [] \<and> \<not> embeds kc cloudConfig providerID
      then bindA (mod_status (\<lambda>gs. gs\<lparr>gs_ready := False\<rparr>)) (\<lambda>_. ret (seconds 5))
      else bindA mark_created (\<lambda>_. settle_userdata E m))"

definition unless_failed :: "unit bop \<Rightarrow> unit bop" where
  "unless_failed a = bindA get_config (\<lambda>kc. if gs_failure (g_status kc) = [] then a else ret ())"

definition generation_error :: "berr \<Rightarrow> duration bop" where
  "generation_error e =
     (case e of
        LBEndpointNotReady \<Rightarrow> ret (seconds 10)
      | TokenNotReady \<Rightarrow> ret (seconds 10)
      | PushTargetNotReady \<Rightarrow>
          bindA (unless_failed (mark_bootstrap ''WaitingForKubeconfigPushTarget'' SevInfo)) (\<lambda>_. ret (seconds 10))
      | CAUnavailable \<Rightarrow>
          bindA (unless_failed (mark_bootstrap ''ManagementCAUnavailable'' SevWarning)) (\<lambda>_. ret (seconds 10))
      | NotReady _ \<Rightarrow> ret (seconds 10)
      | _ \<Rightarrow> throw e)"

definition generate_data :: "benv \<Rightarrow> bmachine \<Rightarrow> bcluster \<Rightarrow> string \<Rightarrow> duration bop" where
  "generate_data E m cl providerID =
     bindA get_config (\<lambda>kc.
     bindA (tryA (generateCloudConfigM E kc m cl)) (\<lambda>r. case r of
       Inl e \<Rightarrow> generation_error e
     | Inr (cloudConfig, w) \<Rightarrow>
         bindA (store_data E kc cl (secret_name kc m) cloudConfig) (\<lambda>_.
         bindA (record_render (secret_name kc m) w) (\<lambda>_.
           finish_data E kc m providerID cloudConfig))))"

definition current_provider_id :: "benv \<Rightarrow> bmachine \<Rightarrow> string bop" where
  "current_provider_id E m =
     bindA (getProviderID E m) (\<lambda>p. ret (if is_metal3 m \<or> is_fleet m then [] else p))"

definition reconcileBootstrapData :: "benv \<Rightarrow> bmachine \<Rightarrow> bcluster \<Rightarrow> duration bop" where
  "reconcileBootstrapData E m cl =
     bindA (current_provider_id E m) (\<lambda>providerID.
     bindA (waitForInfraProviderID E m providerID) (\<lambda>wait.
       if wait then ret (seconds 5)
       else bindA (align_secret_name E m) (\<lambda>_.
            bindA (recorded_data E m cl providerID) (\<lambda>r. case r of
              Some after \<Rightarrow> ret after
            | None \<Rightarrow> generate_data E m cl providerID))))"


section \<open>Deletion\<close>

definition deleteBootstrapSecret :: "benv \<Rightarrow> kconfig \<Rightarrow> bool bop" where
  "deleteBootstrapSecret E kc =
     (if \<not> is_named (gs_data_secret (g_status kc)) then ret True
      else let name = option_or_empty (gs_data_secret (g_status kc)) in
      bindA (tryA (read_secret E (g_namespace kc) name)) (\<lambda>r. case r of
        Inl e \<Rightarrow> if e = BApi NotFound then ret True else throw e
      | Inr _ \<Rightarrow> bindA (tryA (bwrite E (SecretDeleted name))) (\<lambda>r. case r of
          Inl e \<Rightarrow> if e = BApi NotFound then ret True else throw e
        | Inr _ \<Rightarrow> ret False)))"

definition set_finalizer :: "bool \<Rightarrow> unit bop" where
  "set_finalizer b = modA (\<lambda>s. s\<lparr>bs_config := (bs_config s)\<lparr>g_finalizer := b\<rparr>\<rparr>)"

definition release_config :: "benv \<Rightarrow> unit bop" where
  "release_config E =
     bindA (set_finalizer False) (\<lambda>_.
     bindA get_config (\<lambda>kc.
     bindA (tryA (bwrite E (ConfigReleased kc))) (\<lambda>r. case r of
       Inl e \<Rightarrow> if e = BApi NotFound then ret () else throw e
     | Inr _ \<Rightarrow> ret ())))"

text \<open>The delay, whether the deferred patch must be left out, and the error.\<close>

definition reconcileDeleteConfig :: "benv \<Rightarrow> (duration \<times> bool \<times> berr option) bop" where
  "reconcileDeleteConfig E =
     bindA get_config (\<lambda>kc.
     bindA (revokeKubeadmTokenOnDelete E kc) (\<lambda>_.
     bindA (tryA (deleteBootstrapSecret E kc)) (\<lambda>r. case r of
       Inl e \<Rightarrow> ret (0, False, Some e)
     | Inr gone \<Rightarrow>
         if \<not> gone then ret (seconds 5, False, None)
         else bindA (tryA (release_config E)) (\<lambda>r. case r of
                Inl e \<Rightarrow> ret (0, True, Some e) | Inr _ \<Rightarrow> ret (0, True, None)))))"


section \<open>The pass\<close>

text \<open>What the patch helper compares: the finalizer, the status and the three conditions the
  controller writes. A patch that would only change the text of a message is not modelled.\<close>

definition patched_view ::
  "kconfig \<Rightarrow> bool \<times> (bool \<times> string option \<times> bool \<times> int \<times> string \<times> string) \<times> cond option list" where
  "patched_view kc = (g_finalizer kc,
     (gs_ready (g_status kc), gs_data_secret (g_status kc), gs_created (g_status kc),
      gs_observed (g_status kc), gs_failure (g_status kc), gs_token_id (g_status kc)),
     map (gs_conds (g_status kc)) [ready_type, bootstrap_ready, data_available])"

definition flush_config :: "benv \<Rightarrow> kconfig \<Rightarrow> unit bop" where
  "flush_config E base =
     bindA get_config (\<lambda>kc.
       if patched_view kc = patched_view base then ret () else bwrite E (ConfigPatched kc))"

text \<open>The deferred patch runs whatever the pass returned, and its error is joined to the one of the
  pass.\<close>

definition flushed :: "benv \<Rightarrow> kconfig \<Rightarrow> 'a bop \<Rightarrow> 'a bop" where
  "flushed E base a =
     bindA (tryA a) (\<lambda>r.
     bindA (tryA (flush_config E base)) (\<lambda>p. case r of
       Inl e \<Rightarrow> throw e
     | Inr x \<Rightarrow> (case p of Inl e \<Rightarrow> throw e | Inr _ \<Rightarrow> ret x)))"

definition report_data :: "benv \<Rightarrow> bmachine \<Rightarrow> berr + duration \<Rightarrow> duration bop" where
  "report_data E m r = (case r of
     Inl _ \<Rightarrow> park
   | Inr after \<Rightarrow>
       if after > 0 then ret after
       else bindA (mark_all cond_true) (\<lambda>_.
            bindA (mod_status (\<lambda>gs. gs\<lparr>gs_failure := []\<rparr>)) (\<lambda>_.
            bindA get_config (\<lambda>kc. ret (kubeadmTokenRecheck E kc m)))))"

definition config_paused :: "bcluster \<Rightarrow> kconfig \<Rightarrow> bool" where
  "config_paused cl kc \<longleftrightarrow> c_paused cl \<or> g_annotations kc paused_annotation \<noteq> None"

definition reconcile_in_cluster :: "benv \<Rightarrow> kconfig \<Rightarrow> bmachine \<Rightarrow> bcluster \<Rightarrow> duration bop" where
  "reconcile_in_cluster E kc m cl =
     (if config_paused cl kc then ret 0
      else if \<not> bc_provisioned cl then waiting_for_infrastructure
      else if resolveRole kc m = ''control-plane'' \<and> \<not> c_endpoint_valid cl then waiting_for_infrastructure
      else bindA (tryA (reconcileBootstrapData E m cl)) (report_data E m))"

definition reconcile_live_config :: "benv \<Rightarrow> kconfig \<Rightarrow> duration bop" where
  "reconcile_live_config E kc =
     bindA (set_finalizer True) (\<lambda>_.
       if cg_pause (g_spec kc) then ret 0
       else bindA (bread (b_owner_machine E)) (\<lambda>mo. case mo of
         None \<Rightarrow> ret 0
       | Some m \<Rightarrow> bindA (bread (b_owner_cluster E)) (\<lambda>co. case co of
           None \<Rightarrow> ret 0
         | Some cl \<Rightarrow> reconcile_in_cluster E kc m cl)))"

definition reconcile_deleted_config :: "benv \<Rightarrow> kconfig \<Rightarrow> duration bop" where
  "reconcile_deleted_config E base =
     bindA (reconcileDeleteConfig E) (\<lambda>(after, skip, e).
       let r = (case e of None \<Rightarrow> ret after | Some x \<Rightarrow> throw x)
       in if skip then r else flushed E base r)"

definition observe_config :: "unit bop" where
  "observe_config = modA (\<lambda>s. s\<lparr>bs_config := (bs_config s)\<lparr>g_status := (g_status (bs_config s))\<lparr>
     gs_observed := g_generation (bs_config s)\<rparr>\<rparr>\<rparr>)"

definition ReconcileConfig :: "benv \<Rightarrow> duration bop" where
  "ReconcileConfig E =
     bindA (tryA (bread (b_config E))) (\<lambda>r. case r of
       Inl e \<Rightarrow> if e = BApi NotFound then ret 0 else throw e
     | Inr kc \<Rightarrow>
         bindA (modA (\<lambda>s. s\<lparr>bs_config := kc\<rparr>)) (\<lambda>_.
         bindA observe_config (\<lambda>_.
           if g_deletion kc \<noteq> None then reconcile_deleted_config E kc
           else flushed E kc (reconcile_live_config E kc))))"


section \<open>What wakes the reconciler\<close>

text \<open>The name and namespace to reconcile. A Secret is watched by its metadata only. A reference
  that names a kind is defined.\<close>

definition machineToKairosConfig :: "machine \<Rightarrow> request list" where
  "machineToKairosConfig m =
     (if m_cfg_group m \<noteq> bootstrap_api_group \<or> m_cfg_kind m \<noteq> ''KairosConfig'' then []
      else [(m_cfg_name m, m_namespace m)])"

definition in_cluster :: "string \<Rightarrow> bmachine \<Rightarrow> bool" where
  "in_cluster clusterName m \<longleftrightarrow> m_labels m cluster_name_label = Some clusterName"

definition as_machine :: "bmachine \<Rightarrow> machine" where
  "as_machine m = machine.truncate m"

definition clusterToKairosConfigs :: "benv \<Rightarrow> cluster \<Rightarrow> request list bop" where
  "clusterToKairosConfigs E cl =
     bindA (tryA (bread (\<lambda>n. b_machines E n (c_namespace cl)))) (\<lambda>r. case r of
       Inl _ \<Rightarrow> ret []
     | Inr ms \<Rightarrow> ret (concat (map (\<lambda>m. machineToKairosConfig (as_machine m))
                 (filter (in_cluster (c_name cl)) ms))))"

definition infraMachineToKairosConfig :: "benv \<Rightarrow> string \<Rightarrow> string \<Rightarrow> string \<Rightarrow> request list bop" where
  "infraMachineToKairosConfig E infraKind ns name =
     bindA (tryA (bread (\<lambda>n. b_machines E n ns))) (\<lambda>r. case r of
       Inl _ \<Rightarrow> ret []
     | Inr ms \<Rightarrow> ret (concat (map (\<lambda>m. machineToKairosConfig (as_machine m))
         (filter (\<lambda>m. m_infra_kind m = infraKind \<and> m_infra_name m = name \<and> m_namespace m = ns) ms))))"

definition userdata_suffix :: string where "userdata_suffix = ''-userdata''"

definition has_suffix :: "string \<Rightarrow> string \<Rightarrow> bool" where
  "has_suffix s p \<longleftrightarrow> has_prefix (rev s) (rev p)"

definition secretToKairosConfig ::
  "benv \<Rightarrow> (string \<rightharpoonup> string) \<Rightarrow> string \<Rightarrow> string \<Rightarrow> request list bop" where
  "secretToKairosConfig E labels ns name =
     (if \<not> has_suffix name userdata_suffix \<or> labels cluster_name_label = None then ret []
      else let wanted = take (length name - length userdata_suffix) name in
      bindA (tryA (bread (\<lambda>n. b_machines E n ns))) (\<lambda>r. case r of
        Inl _ \<Rightarrow> ret []
      | Inr ms \<Rightarrow>
          (case find (\<lambda>m. bm_data_secret m = Some wanted \<and> machineToKairosConfig (as_machine m) \<noteq> []) ms of
             None \<Rightarrow> ret []
           | Some m \<Rightarrow> ret (machineToKairosConfig (as_machine m)))))"

definition join_token_type_label :: string where
  "join_token_type_label = kcp_group @ ''/secret-type''"

definition join_token_type_value :: string where
  "join_token_type_value = ''control-plane-join-token''"

definition joinTokenSecretToKairosConfig ::
  "benv \<Rightarrow> (string \<rightharpoonup> string) \<Rightarrow> string \<Rightarrow> request list bop" where
  "joinTokenSecretToKairosConfig E labels ns =
     (if ann labels join_token_type_label \<noteq> join_token_type_value \<or> ann labels cluster_name_label = [] then ret []
      else bindA (tryA (bread (\<lambda>n. b_configs E n ns (ann labels cluster_name_label)))) (\<lambda>r. case r of
        Inl _ \<Rightarrow> ret []
      | Inr kcs \<Rightarrow> ret (map (\<lambda>kc. (g_name kc, g_namespace kc))
          (filter (\<lambda>kc. cg_role (g_spec kc) = ''control-plane'') kcs))))"


section \<open>The management CA\<close>

text \<open>The environment's override, the CA bytes and the CA file of the manager's \<open>rest.Config\<close>; the
  first argument reads a file.\<close>

definition ca_begin :: string where
  "ca_begin = ''-----BEGIN CERTIFICATE-----''"

definition readManagementCAOverride :: "(string \<Rightarrow> string option) \<Rightarrow> string \<Rightarrow> string option" where
  "readManagementCAOverride readFile v = (if contains_str v ca_begin then Some v else readFile v)"

definition ca_result :: "ca_error + string \<Rightarrow> string option" where
  "ca_result r = (case r of Inl _ \<Rightarrow> None | Inr b \<Rightarrow> Some b)"

definition ResolveManagementCA ::
  "kubelib \<Rightarrow> (string \<Rightarrow> string option) \<Rightarrow> string \<Rightarrow> (string \<times> string) option \<Rightarrow> string option" where
  "ResolveManagementCA L readFile override cfg =
     (let v = trim_space override in
      if v \<noteq> [] then Option.bind (readManagementCAOverride readFile v)
                      (\<lambda>raw. ca_result (SanitizeManagementCABundle L raw))
      else case cfg of
        None \<Rightarrow> None
      | Some (caData, caFile) \<Rightarrow>
          if caData \<noteq> [] then ca_result (SanitizeManagementCABundle L caData)
          else if caFile \<noteq> [] then Option.bind (readFile caFile)
                      (\<lambda>raw. ca_result (SanitizeManagementCABundle L raw))
          else None)"

end
