(* ===== verification/Bootstrap_Logic.thy ===== *)
theory Bootstrap_Logic
  imports Bootstrap_Reconcile
begin

text \<open>
  What an operation of the bootstrap controller may do: \<open>emits I P m Q\<close> says that from a
  KairosConfig that satisfies \<open>I\<close>, \<open>m\<close> ends in one that does, adds to the log only effects that
  satisfy \<open>P\<close>, and returns, if it returns a value, one that satisfies \<open>Q\<close>. The rules follow the
  operations of \<open>Bootstrap_Model\<close>, and \<open>emits_intros\<close> takes a program apart along its text.
\<close>

named_theorems emits_intros \<open>rules that reduce the effects of an operation to its parts\<close>

definition emits ::
  "(kconfig \<Rightarrow> bool) \<Rightarrow> (beffect \<Rightarrow> bool) \<Rightarrow> 'a bop \<Rightarrow> ('a \<Rightarrow> bool) \<Rightarrow> bool" where
  "emits I P m Q \<longleftrightarrow>
     (\<forall>s r s'. I (bs_config s) \<longrightarrow> m s = (r, s') \<longrightarrow>
        I (bs_config s') \<and> (\<exists>es. bs_log s' = bs_log s @ es \<and> (\<forall>e\<in>set es. P e)) \<and>
        (\<forall>v. r = Inr v \<longrightarrow> Q v))"

lemma emitsI:
  assumes "\<And>s r s'. I (bs_config s) \<Longrightarrow> m s = (r, s') \<Longrightarrow>
    I (bs_config s') \<and> (\<exists>es. bs_log s' = bs_log s @ es \<and> (\<forall>e\<in>set es. P e)) \<and> (\<forall>v. r = Inr v \<longrightarrow> Q v)"
  shows "emits I P m Q"
  unfolding emits_def by (intro allI impI) (rule assms)

lemma emitsD:
  assumes "emits I P m Q" "I (bs_config s)" "m s = (r, s')"
  obtains es where "I (bs_config s')" "bs_log s' = bs_log s @ es" "\<forall>e\<in>set es. P e"
    "\<And>v. r = Inr v \<Longrightarrow> Q v"
  using assms(1)[unfolded emits_def, rule_format, OF assms(2,3)] that by auto

lemma emits_weaken: "emits I P m R \<Longrightarrow> (\<And>v. R v \<Longrightarrow> Q v) \<Longrightarrow> emits I P m Q"
  unfolding emits_def by (elim all_forward imp_forward conj_forward) auto

lemma emits_more: "emits I P m Q \<Longrightarrow> (\<And>e. P e \<Longrightarrow> P' e) \<Longrightarrow> emits I P' m Q"
  unfolding emits_def by (elim all_forward imp_forward conj_forward ex_forward) auto

lemma emits_ret [emits_intros]: "Q v \<Longrightarrow> emits I P (ret v) Q"
  by (simp add: emits_def ret_def)

lemma emits_throw [emits_intros]: "emits I P (throw e) Q"
  by (simp add: emits_def throw_def)

lemma emits_bind:
  assumes "emits I P m R" "\<And>v. R v \<Longrightarrow> emits I P (f v) Q"
  shows "emits I P (bindA m f) Q"
proof (rule emitsI)
  fix s r s'
  assume I: "I (bs_config s)" and run: "bindA m f s = (r, s')"
  obtain r1 s1 where m: "m s = (r1, s1)" by fastforce
  obtain es where es: "I (bs_config s1)" "bs_log s1 = bs_log s @ es" "\<forall>e\<in>set es. P e"
    "\<And>v. r1 = Inr v \<Longrightarrow> R v"
    using emitsD[OF assms(1) I m] by metis
  show "I (bs_config s') \<and> (\<exists>es. bs_log s' = bs_log s @ es \<and> (\<forall>e\<in>set es. P e)) \<and> (\<forall>v. r = Inr v \<longrightarrow> Q v)"
  proof (cases r1)
    case (Inl e)
    with run m es show ?thesis by (auto simp: bindA_def)
  next
    case (Inr v)
    with run m have "f v s1 = (r, s')" by (simp add: bindA_def)
    then obtain es' where "I (bs_config s')" "bs_log s' = bs_log s1 @ es'" "\<forall>e\<in>set es'. P e"
      "\<And>v. r = Inr v \<Longrightarrow> Q v"
      using emitsD[OF assms(2)[OF es(4)[OF Inr]] es(1)] by metis
    with es show ?thesis by (auto intro!: exI[of _ "es @ es'"])
  qed
qed

lemma emits_try [emits_intros]:
  assumes "emits I P m (\<lambda>v. Q (Inr v))" "\<And>e. Q (Inl e)"
  shows "emits I P (tryA m) Q"
proof (rule emitsI)
  fix s r s'
  assume I: "I (bs_config s)" and run: "tryA m s = (r, s')"
  obtain r1 where m: "m s = (r1, s')" "r = Inr r1"
    using run by (auto simp: tryA_def split: prod.splits)
  obtain es where es: "I (bs_config s')" "bs_log s' = bs_log s @ es" "\<forall>e\<in>set es. P e"
    "\<And>v. r1 = Inr v \<Longrightarrow> Q (Inr v)"
    using emitsD[OF assms(1) I m(1)] by metis
  with m(2) assms(2) show "I (bs_config s') \<and> (\<exists>es. bs_log s' = bs_log s @ es \<and> (\<forall>e\<in>set es. P e)) \<and>
      (\<forall>v. r = Inr v \<longrightarrow> Q v)"
    by (cases r1) auto
qed

lemma emits_get: "emits I P get_config I"
  by (simp add: emits_def get_config_def getsA_def)

lemma emits_mod_status:
  assumes "\<And>c gs. I c \<Longrightarrow> I (c\<lparr>g_status := gs\<rparr>)"
  shows "emits I P (mod_status f) (\<lambda>_. True)"
  using assms by (simp add: emits_def mod_status_def modA_def)

lemma emits_tick [emits_intros]: "(\<And>n. Q n) \<Longrightarrow> emits I P btick Q"
  by (simp add: emits_def btick_def)

lemma emits_log: "P e \<Longrightarrow> emits I P (blog e) (\<lambda>_. True)"
  by (simp add: emits_def blog_def modA_def)

lemma emits_read: "emits I P (bread f) (\<lambda>v. \<exists>n. f n = Inr v)"
  by (auto simp: emits_def bread_def bindA_def btick_def throw_def ret_def split: sum.splits)

lemma emits_write: "P e \<Longrightarrow> emits I P (bwrite E e) (\<lambda>_. True)"
  by (auto simp: emits_def bwrite_def bindA_def btick_def throw_def blog_def modA_def split: option.splits)

lemma emits_wl_write: "P e \<Longrightarrow> emits I P (wl_write E kc e) (\<lambda>_. True)"
  by (auto simp: emits_def wl_write_def bindA_def btick_def throw_def blog_def modA_def split: option.splits)

lemma emits_secret:
  "P (SecretRead ns name) \<Longrightarrow> emits I P (read_secret E ns name) (\<lambda>v. \<exists>n. b_secret E n ns name = Inr v)"
  unfolding read_secret_def by (rule emits_bind[OF emits_log emits_read])

lemma emits_or_throw: "emits I P m Q \<Longrightarrow> emits I P (or_throw m f) Q"
  unfolding or_throw_def
  by (rule emits_bind[where R = "\<lambda>r. \<forall>v. r = Inr v \<longrightarrow> Q v"])
    (auto intro!: emits_intros elim: emits_weaken split: sum.split)

text \<open>Binding when the error is looked at, and when nothing is asked of the first result.\<close>

lemma emits_bind_try:
  assumes "emits I P m R" "\<And>e. emits I P (f (Inl e)) Q" "\<And>v. R v \<Longrightarrow> emits I P (f (Inr v)) Q"
  shows "emits I P (bindA (tryA m) f) Q"
proof (rule emits_bind[where R = "\<lambda>r. \<forall>v. r = Inr v \<longrightarrow> R v"])
  show "emits I P (tryA m) (\<lambda>r. \<forall>v. r = Inr v \<longrightarrow> R v)"
    by (rule emits_try) (use assms(1) in simp_all)
  show "emits I P (f r) Q" if "\<forall>v. r = Inr v \<longrightarrow> R v" for r
    using assms(2,3) that by (cases r) auto
qed

lemma emits_any: "emits I P m Q \<Longrightarrow> emits I P m (\<lambda>_. True)"
  by (erule emits_weaken) simp

lemmas emits_seq = emits_bind[where R = "\<lambda>_. True"]

lemma emits_if [emits_intros]:
  "(b \<Longrightarrow> emits I P m Q) \<Longrightarrow> (\<not> b \<Longrightarrow> emits I P n Q) \<Longrightarrow> emits I P (if b then m else n) Q"
  by simp

lemma emits_option [emits_intros]:
  "(x = None \<Longrightarrow> emits I P m Q) \<Longrightarrow> (\<And>v. x = Some v \<Longrightarrow> emits I P (f v) Q) \<Longrightarrow>
     emits I P (case x of None \<Rightarrow> m | Some v \<Rightarrow> f v) Q"
  by (cases x) auto

lemma emits_sum [emits_intros]:
  "(\<And>e. x = Inl e \<Longrightarrow> emits I P (f e) Q) \<Longrightarrow> (\<And>v. x = Inr v \<Longrightarrow> emits I P (g v) Q) \<Longrightarrow>
     emits I P (case x of Inl e \<Rightarrow> f e | Inr v \<Rightarrow> g v) Q"
  by (cases x) auto

lemma emits_prod [emits_intros]:
  "(\<And>a b. x = (a, b) \<Longrightarrow> emits I P (f a b) Q) \<Longrightarrow> emits I P (case x of (a, b) \<Rightarrow> f a b) Q"
  by (cases x) auto

lemma emits_list [emits_intros]:
  "(x = [] \<Longrightarrow> emits I P m Q) \<Longrightarrow> (\<And>a b. x = a # b \<Longrightarrow> emits I P (f a b) Q) \<Longrightarrow>
     emits I P (case x of [] \<Rightarrow> m | a # b \<Rightarrow> f a b) Q"
  by (cases x) auto

lemma emits_berr [emits_intros]:
  "emits I P m1 Q \<Longrightarrow> emits I P m2 Q \<Longrightarrow> emits I P m3 Q \<Longrightarrow> emits I P m4 Q \<Longrightarrow>
     (\<And>s. emits I P (m5 s) Q) \<Longrightarrow> (\<And>x. emits I P (m6 x) Q) \<Longrightarrow> (\<And>s. emits I P (m7 s) Q) \<Longrightarrow>
     emits I P (case e of TokenNotReady \<Rightarrow> m1 | LBEndpointNotReady \<Rightarrow> m2 | PushTargetNotReady \<Rightarrow> m3
       | CAUnavailable \<Rightarrow> m4 | NotReady s \<Rightarrow> m5 s | BApi x \<Rightarrow> m6 x | Terminal s \<Rightarrow> m7 s) Q"
  by (cases e) auto

lemma emits_refresh [emits_intros]:
  "emits I P m1 Q \<Longrightarrow> emits I P m2 Q \<Longrightarrow> emits I P m3 Q \<Longrightarrow>
     emits I P (case e of RefreshNone \<Rightarrow> m1 | RefreshRegenerate \<Rightarrow> m2 | RefreshCapped \<Rightarrow> m3) Q"
  by (cases e) auto

lemma emits_let [emits_intros]: "emits I P (f v) Q \<Longrightarrow> emits I P (let x = v in f x) Q"
  by simp

end
