(* ===== verification/Bootstrap_Policy.thy ===== *)
theory Bootstrap_Policy
  imports Bootstrap_Logic
begin

text \<open>
  What the bootstrap controller may do to either cluster, stated without the code: a policy for
  every effect, given the KairosConfig, its Machine and its Cluster. The operations of
  \<open>Kubeadm_Join\<close>, \<open>Bootstrap_Render\<close> and \<open>Bootstrap_Reconcile\<close> are shown to keep to it.
\<close>


section \<open>The policy\<close>

definition same_object :: "kconfig \<Rightarrow> kconfig \<Rightarrow> bool" where
  "same_object c c' \<longleftrightarrow> c' = c\<lparr>g_finalizer := g_finalizer c', g_status := g_status c'\<rparr>"

text \<open>A CA is confirmed when the certificates of \<open><cluster>-ca\<close> are the same ones.\<close>

definition ca_confirmed :: "benv \<Rightarrow> bcluster \<Rightarrow> string \<Rightarrow> bool" where
  "ca_confirmed E cl ca \<longleftrightarrow>
     (\<exists>n sec hs ds hs' ds'. b_ca_secret E n (c_name cl @ ''-ca'') = Inr sec \<and>
        caCertHashesFromPEM E ca = Some (hs, ds) \<and>
        caCertHashesFromPEM E (ann (bs_data sec) ''tls.crt'') = Some (hs', ds') \<and> mset ds = mset ds')"

text \<open>A control-plane object of a trusted kind, which is not a KairosControlPlane of another
  distribution.\<close>

definition trusted_control_plane :: "benv \<Rightarrow> bcluster \<Rightarrow> string \<Rightarrow> bool" where
  "trusted_control_plane E cl uid \<longleftrightarrow> uid \<noteq> [] \<and> trusted_kind E cl \<and>
     (\<exists>n obj. b_control_plane E n (bc_ref_name cl) = Inr (uid, obj) \<and>
        ((bc_ref_group cl, bc_ref_kind cl) = (kcp_group, kcp_kind) \<longrightarrow>
           nested [''spec'', ''distribution''] obj = Some (JStr ''kubeadm'')))"

text \<open>A kubeconfig the controller may talk to a workload cluster with: what the sanitizer makes of
  the contract Secret of a trusted control plane, for a server that one of two anchors
  vouches for.\<close>

definition genuine :: "benv \<Rightarrow> bcluster \<Rightarrow> string \<Rightarrow> bool" where
  "genuine E cl kc \<longleftrightarrow> bc_initialized cl \<and> c_endpoint_valid cl \<and>
     (\<exists>n uid sec owner server ca.
        trusted_control_plane E cl uid \<and>
        b_secret E n (c_namespace cl) (kubeconfig_secret cl) = Inr sec \<and>
        controller_ref (bs_owners sec) = Some owner \<and> or_uid owner = uid \<and>
        serverAndCAFromKubeconfig (b_lib E) (ann (bs_data sec) ''value'') = Some (server, ca) \<and>
        (sameServer E server (endpoint_url cl) \<or> ca_confirmed E cl ca) \<and>
        Sanitize (b_lib E) (ann (bs_data sec) ''value'') (c_name cl)
          (anchoredServer E server (endpoint_url cl)) = Inr kc)"

definition owned_staging :: "benv \<Rightarrow> bmachine \<Rightarrow> bcluster \<Rightarrow> bool" where
  "owned_staging E m cl \<longleftrightarrow>
     (\<exists>n sec o1 o2. controller_ref (m_owners m) = Some o1 \<and>
        b_secret E n (c_namespace cl) (stagingKubeconfigSecretName (c_name cl)) = Inr sec \<and>
        controller_ref (bs_owners sec) = Some o2 \<and> or_uid o2 = or_uid o1)"

definition owned_data :: "kconfig \<Rightarrow> bcluster \<Rightarrow> bsecret \<Rightarrow> bool" where
  "owned_data c cl sec \<longleftrightarrow> bs_owners sec = [config_owner c] \<and> bs_type sec = secret_type \<and>
     bs_labels sec = [cluster_name_label \<mapsto> c_name cl]"

definition fresh_token :: "benv \<Rightarrow> kconfig \<Rightarrow> bsecret \<Rightarrow> bool" where
  "fresh_token E c sec \<longleftrightarrow>
     (\<exists>i secret. sec = new_token_secret E i secret (g_uid c))"

fun permitted :: "benv \<Rightarrow> kconfig \<Rightarrow> bmachine \<Rightarrow> bcluster \<Rightarrow> beffect \<Rightarrow> bool" where
  "permitted E c m cl (SecretRead ns name) \<longleftrightarrow> ns = g_namespace c \<or> ns = c_namespace cl"
| "permitted E c m cl (DataSecretCreated sec) \<longleftrightarrow> owned_data c cl sec"
| "permitted E c m cl (DataSecretUpdated old new) \<longleftrightarrow>
     bootstrapSecretBelongsTo old c (c_name cl) \<and> owned_data c cl new \<and> bs_name new = bs_name old"
| "permitted E c m cl (SecretDeleted name) \<longleftrightarrow>
     (\<exists>old. Some old \<noteq> bm_data_secret m \<and> (name = old \<or> name = userdata_name old))"
| "permitted E c m cl (UserdataUpdated name t) \<longleftrightarrow>
     (\<exists>n sec. b_secret E n (g_namespace c) name = Inr sec \<and>
        sanitizeCapkUserdata (ann (bs_data sec) ''userdata'') = (t, True))"
| "permitted E c m cl (TokenCreated kc sec) \<longleftrightarrow> genuine E cl kc \<and> fresh_token E c sec"
| "permitted E c m cl (TokenExtended kc name ex) \<longleftrightarrow>
     genuine E cl kc \<and> ex = format_rfc3339 (b_now E + token_ttl E)"
| "permitted E c m cl (TokenDeleted kc name) \<longleftrightarrow> genuine E cl kc \<and> (node_name m \<noteq> [] \<or> g_deletion c \<noteq> None)"
| "permitted E c m cl (WriterEnsured sa ob) \<longleftrightarrow>
     sa = kubeconfigWriterName E (c_name cl) \<and>
     (\<forall>rules. ob = WriterRole rules \<longrightarrow> rules = writer_rules (g_spec c) (c_name cl))"
| "permitted E c m cl (PushTokenIssued sa) \<longleftrightarrow>
     sa = kubeconfigWriterName E (c_name cl) \<and> b_push_ca E \<noteq> [] \<and> owned_staging E m cl"
| "permitted E c m cl (ConfigPatched c') \<longleftrightarrow> same_object c c'"
| "permitted E c m cl (ConfigReleased c') \<longleftrightarrow> False"

lemma same_object_fields:
  assumes "same_object c c'"
  shows "g_uid c' = g_uid c" "g_namespace c' = g_namespace c" "g_name c' = g_name c"
    "g_spec c' = g_spec c" "g_owners c' = g_owners c" "g_annotations c' = g_annotations c"
    "g_deletion c' = g_deletion c" "g_labels c' = g_labels c"
  using arg_cong[OF assms[unfolded same_object_def], of g_uid]
    arg_cong[OF assms[unfolded same_object_def], of g_namespace]
    arg_cong[OF assms[unfolded same_object_def], of g_name]
    arg_cong[OF assms[unfolded same_object_def], of g_spec]
    arg_cong[OF assms[unfolded same_object_def], of g_owners]
    arg_cong[OF assms[unfolded same_object_def], of g_annotations]
    arg_cong[OF assms[unfolded same_object_def], of g_deletion]
    arg_cong[OF assms[unfolded same_object_def], of g_labels]
  by simp_all

lemma same_object_refl [simp]: "same_object c c"
  by (simp add: same_object_def)

lemma same_object_status: "same_object c c' \<Longrightarrow> same_object c (c'\<lparr>g_status := gs\<rparr>)"
  unfolding same_object_def by (cases c; cases c') simp

lemma same_object_finalizer: "same_object c c' \<Longrightarrow> same_object c (c'\<lparr>g_finalizer := b\<rparr>)"
  unfolding same_object_def by (cases c; cases c') simp

lemma same_belongs: "same_object c c' \<Longrightarrow> bootstrapSecretBelongsTo sec c' cn = bootstrapSecretBelongsTo sec c cn"
  by (simp add: bootstrapSecretBelongsTo_def same_object_fields)

abbreviation keeps ::
  "benv \<Rightarrow> kconfig \<Rightarrow> bmachine \<Rightarrow> bcluster \<Rightarrow> 'a bop \<Rightarrow> ('a \<Rightarrow> bool) \<Rightarrow> bool" where
  "keeps E c m cl a Q \<equiv> emits (same_object c) (permitted E c m cl) a Q"

lemma keeps_status: "emits (same_object c) P (mod_status f) (\<lambda>_. True)"
  by (rule emits_mod_status) (rule same_object_status)


section \<open>The trust check keeps to it\<close>

lemma cert_sets: "derCertSetsEqual a b \<longleftrightarrow> mset a = mset b"
proof
  assume "derCertSetsEqual a b"
  then have "sort a = sort b"
    by (auto simp: derCertSetsEqual_def sortDER_def list_all2_eq)
  then show "mset a = mset b" by (metis mset_sort)
next
  assume "mset a = mset b"
  then have "sort a = sort b" "length a = length b"
    by (metis properties_for_sort sorted_sort mset_sort, metis size_mset)
  then show "derCertSetsEqual a b"
    by (simp add: derCertSetsEqual_def sortDER_def list_all2_eq[symmetric])
qed

lemma check_request_keeps:
  "emits I P (check_request req) (\<lambda>(m, cl). jr_machine req = Some m \<and> jr_cluster req = Some cl \<and>
     bc_initialized cl \<and> c_endpoint_valid cl)"
  unfolding check_request_def by (auto intro!: emits_intros)

lemma resolve_keeps:
  "emits I P (resolve_control_plane E cl) (trusted_control_plane E cl)"
  unfolding resolve_control_plane_def
  by (intro emits_intros emits_bind[OF emits_or_throw[OF emits_read]])
    (auto simp: trusted_control_plane_def)

definition contract_of :: "benv \<Rightarrow> bcluster \<Rightarrow> string \<Rightarrow> string \<Rightarrow> bool" where
  "contract_of E cl uid data \<longleftrightarrow>
     (\<exists>n sec owner. b_secret E n (c_namespace cl) (kubeconfig_secret cl) = Inr sec \<and>
        controller_ref (bs_owners sec) = Some owner \<and> or_uid owner = uid \<and>
        data = ann (bs_data sec) ''value'')"

lemma owned_kubeconfig_keeps:
  assumes "P (SecretRead (c_namespace cl) (kubeconfig_secret cl))"
  shows "emits I P (owned_kubeconfig E cl uid) (contract_of E cl uid)"
  unfolding owned_kubeconfig_def
  by (intro emits_intros emits_bind[OF emits_or_throw[OF emits_secret]] assms)
    (auto simp: contract_of_def)

lemma cross_check_keeps:
  assumes "caCertHashesFromPEM E ca = Some (hs, ds)"
  shows "emits I P (crossCheckClusterCA E cl ds) (\<lambda>b. b \<longrightarrow> ca_confirmed E cl ca)"
  unfolding crossCheckClusterCA_def
  by (intro emits_intros emits_bind_try[OF emits_read])
    (use assms in \<open>auto simp: ca_confirmed_def cert_sets\<close>)

definition anchored_to :: "benv \<Rightarrow> bcluster \<Rightarrow> string \<Rightarrow> string \<Rightarrow> bool" where
  "anchored_to E cl data kc \<longleftrightarrow>
     (\<exists>server ca. serverAndCAFromKubeconfig (b_lib E) data = Some (server, ca) \<and>
        (sameServer E server (endpoint_url cl) \<or> ca_confirmed E cl ca) \<and>
        Sanitize (b_lib E) data (c_name cl) (anchoredServer E server (endpoint_url cl)) = Inr kc)"

lemma anchor_keeps:
  "emits I P (anchor_kubeconfig E cl data)
     (\<lambda>t. anchored_to E cl data (tr_kubeconfig t) \<and> tr_name t = c_name cl)"
  unfolding anchor_kubeconfig_def
  by (intro emits_intros emits_bind[OF cross_check_keeps]; (assumption | auto simp: anchored_to_def)?)

lemma genuine_parts:
  "bc_initialized cl \<Longrightarrow> c_endpoint_valid cl \<Longrightarrow> trusted_control_plane E cl uid \<Longrightarrow>
     contract_of E cl uid data \<Longrightarrow> anchored_to E cl data kc \<Longrightarrow> genuine E cl kc"
  unfolding genuine_def contract_of_def anchored_to_def by blast

lemma verify_keeps:
  assumes "jr_cluster req = Some cl" "P (SecretRead (c_namespace cl) (kubeconfig_secret cl))"
  shows "emits I P (verifyTrustChain E req) (\<lambda>t. genuine E cl (tr_kubeconfig t) \<and> tr_name t = c_name cl)"
  unfolding verifyTrustChain_def
proof (rule emits_bind[OF check_request_keeps], clarsimp simp: assms(1))
  fix m
  assume cl: "bc_initialized cl" "c_endpoint_valid cl"
  show "emits I P (bindA (resolve_control_plane E cl) (\<lambda>cpUID. bindA (owned_kubeconfig E cl cpUID)
      (anchor_kubeconfig E cl))) (\<lambda>t. genuine E cl (tr_kubeconfig t) \<and> tr_name t = c_name cl)"
    by (rule emits_bind[OF resolve_keeps], rule emits_bind[OF owned_kubeconfig_keeps[where P = P, OF assms(2)]],
        rule emits_weaken[OF anchor_keeps]) (use cl genuine_parts in blast)
qed

lemma client_keeps: "emits I P (workloadClient E name kc) (\<lambda>k. k = kc)"
  unfolding workloadClient_def by (intro emits_intros emits_seq[OF emits_tick]) auto

lemma trusted_client_keeps:
  assumes "jr_cluster req = Some cl" "P (SecretRead (c_namespace cl) (kubeconfig_secret cl))"
  shows "emits I P (trustedWorkloadClient E req) (genuine E cl)"
  unfolding trustedWorkloadClient_def
  by (rule emits_bind[OF verify_keeps[where P = P, OF assms]],
      rule emits_weaken[OF emits_or_throw[OF client_keeps]]) simp

end
