(* ===== verification/Bootstrap_Keeps.thy ===== *)
theory Bootstrap_Keeps
  imports Bootstrap_Policy
begin

text \<open>
  The operations of the bootstrap controller keep to the policy of \<open>Bootstrap_Policy\<close>: tokens,
  references to Secrets, the management endpoint, the render, the data Secret and the pass.
\<close>

lemma true_intro: "emits I P m Q \<Longrightarrow> emits I P m (\<lambda>_. True)"
  by (rule emits_any)

text \<open>The tactic of this theory: bindings whose first result does not matter.\<close>

lemmas unbind = emits_intros emits_seq


section \<open>Tokens\<close>

lemma extend_keeps:
  assumes "genuine E cl kc"
  shows "emits I (permitted E c m cl) (extendBootstrapToken E kc sec) (\<lambda>_. True)"
  unfolding extendBootstrapToken_def
  by (intro unbind emits_wl_write) (use assms in simp_all)

lemma extend_or_wait_keeps:
  "genuine E cl kc \<Longrightarrow> emits I (permitted E c m cl) (extend_or_wait E kc sec) (\<lambda>_. True)"
  unfolding extend_or_wait_def by (rule emits_or_throw[OF extend_keeps])

lemma mint_keeps:
  assumes "genuine E cl kc"
  shows "emits I (permitted E c m cl) (mintBootstrapToken E kc (g_uid c)) (\<lambda>_. True)"
  unfolding mintBootstrapToken_def
  by (intro unbind emits_wl_write TrueI) (use assms in \<open>auto simp: fresh_token_def\<close>)

lemma lookup_keeps:
  "emits I P (getBootstrapTokenSecret E kc i) (\<lambda>_. True)"
  unfolding getBootstrapTokenSecret_def
  by (intro emits_intros emits_bind_try[OF emits_read] TrueI)

lemma owned_token_keeps:
  assumes "genuine E cl kc"
  shows "emits I (permitted E c m cl) (owned_token E kc i uid) (\<lambda>_. True)"
  unfolding owned_token_def findOwnedBootstrapToken_def
  by (intro unbind emits_or_throw emits_bind[OF emits_read] extend_or_wait_keeps[OF assms] TrueI)

lemma recorded_token_keeps:
  assumes "genuine E cl kc"
  shows "emits I (permitted E c m cl) (recorded_token E kc i) (\<lambda>_. True)"
  unfolding recorded_token_def
  by (intro unbind emits_or_throw lookup_keeps extend_or_wait_keeps[OF assms] TrueI)

lemma reuse_or_mint_keeps:
  assumes "genuine E cl kc"
  shows "emits I (permitted E c m cl) (reuseOrMintBootstrapToken E kc i (g_uid c)) (\<lambda>_. True)"
  unfolding reuseOrMintBootstrapToken_def
  by (intro unbind owned_token_keeps recorded_token_keeps emits_or_throw mint_keeps assms TrueI)

lemma render_join_keeps: "emits I P (renderJoinConfiguration E req mm t token) (\<lambda>_. True)"
  unfolding renderJoinConfiguration_def by (intro emits_intros TrueI)

lemma kubeadm_join_keeps:
  assumes "jr_cluster req = Some cl" "jr_config req = Some c'" "g_uid c' = g_uid c"
  shows "emits I (permitted E c m cl) (kubeadm_worker_join E req) (\<lambda>_. True)"
  unfolding kubeadm_worker_join_def assms(2) option.case assms(3)
proof (rule emits_bind[OF verify_keeps[where P = "permitted E c m cl", OF assms(1)]], simp,
    rule emits_bind[OF emits_or_throw[OF client_keeps]])
  fix t :: trusted and kc
  assume "genuine E cl (tr_kubeconfig t) \<and> tr_name t = c_name cl" "kc = tr_kubeconfig t"
  then have "genuine E cl kc" by simp
  then show "emits I (permitted E c m cl) (let storedID = gs_token_id (g_status c'); ownerUID = g_uid c
       in bindA (reuseOrMintBootstrapToken E kc storedID ownerUID) (\<lambda>(token, tokenID).
          bindA (renderJoinConfiguration E req (the (jr_machine req)) t token) (\<lambda>(jc, out).
            ret \<lparr>km_join = out, km_version = m_version (the (jr_machine req)),
                 km_patches = jc_patches jc, km_token_id = tokenID,
                 km_replaced = (if storedID \<noteq> [] \<and> storedID \<noteq> tokenID then storedID else [])\<rparr>)))
     (\<lambda>_. True)"
    by (intro unbind reuse_or_mint_keeps render_join_keeps TrueI)
qed

lemma extend_worker_keeps:
  assumes "jr_cluster req = Some cl"
  shows "emits I (permitted E c m cl) (ExtendWorkerToken E req i) (\<lambda>_. True)"
  unfolding ExtendWorkerToken_def
  by (intro emits_intros emits_bind[OF trusted_client_keeps[where P = "permitted E c m cl", OF assms]] TrueI)
    (auto intro!: unbind emits_or_throw lookup_keeps extend_or_wait_keeps)

lemma revoke_worker_keeps:
  assumes "jr_cluster req = Some cl" "node_name m \<noteq> [] \<or> g_deletion c \<noteq> None"
  shows "emits I (permitted E c m cl) (RevokeWorkerToken E req i) (\<lambda>_. True)"
  unfolding RevokeWorkerToken_def
  by (intro emits_intros emits_bind[OF trusted_client_keeps[where P = "permitted E c m cl", OF assms(1)]] TrueI)
    (use assms(2) in \<open>auto intro!: unbind emits_wl_write\<close>)


section \<open>References to Secrets\<close>

lemma ref_home: "secretRefKey ns r = Some (a, b) \<Longrightarrow> a = ns"
  by (simp add: secretRefKey_def split: if_splits)

lemma worker_ref_keeps:
  assumes "\<And>name. P (SecretRead ns name)"
  shows "emits I P (tokenFromWorkerRef E ns r) (\<lambda>_. True)"
  unfolding tokenFromWorkerRef_def
  by (auto intro!: unbind emits_or_throw emits_any[OF emits_secret] assms dest!: ref_home)

lemma legacy_ref_keeps:
  assumes "\<And>name. P (SecretRead ns name)"
  shows "emits I P (tokenFromLegacyRef E ns r) (\<lambda>_. True)"
  unfolding tokenFromLegacyRef_def
  by (auto intro!: unbind emits_or_throw emits_any[OF emits_secret] assms dest!: ref_home)

lemma issued_keeps:
  assumes "\<And>name. P (SecretRead ns name)"
  shows "emits I P (k0sIssuedControlPlaneJoinToken E ns r i) (\<lambda>_. True)"
  unfolding k0sIssuedControlPlaneJoinToken_def
  by (auto intro!: unbind emits_or_throw emits_any[OF emits_secret] assms dest!: ref_home)

definition reads_at_home :: "(beffect \<Rightarrow> bool) \<Rightarrow> kconfig \<Rightarrow> bcluster \<Rightarrow> bool" where
  "reads_at_home P c cl \<longleftrightarrow> (\<forall>ns name. ns = g_namespace c \<or> ns = c_namespace cl \<longrightarrow> P (SecretRead ns name))"

lemma home_permitted [simp]:
  "g_namespace c' = g_namespace c \<Longrightarrow> reads_at_home (permitted E c m cl) c' cl"
  by (simp add: reads_at_home_def)

lemma worker_token_keeps:
  "reads_at_home P c cl \<Longrightarrow> emits I P (resolveWorkerToken E c cl) (\<lambda>_. True)"
  unfolding resolveWorkerToken_def reads_at_home_def
  by (intro emits_intros worker_ref_keeps legacy_ref_keeps TrueI) auto

lemma k3s_token_keeps:
  "reads_at_home P c cl \<Longrightarrow> emits I P (resolveK3sWorkerToken E c cl) (\<lambda>_. True)"
  unfolding resolveK3sWorkerToken_def
  by (intro emits_intros worker_ref_keeps worker_token_keeps TrueI) (auto simp: reads_at_home_def)

lemma control_token_keeps:
  "reads_at_home P c cl \<Longrightarrow> emits I P (resolveControlPlaneJoinToken E c) (\<lambda>_. True)"
  unfolding resolveControlPlaneJoinToken_def
  by (intro emits_intros worker_ref_keeps issued_keeps) (auto simp: reads_at_home_def)

lemma password_keeps:
  "reads_at_home P c cl \<Longrightarrow> emits I P (resolveUserPassword E c) (\<lambda>_. True)"
  unfolding resolveUserPassword_def
  by (auto intro!: unbind emits_any[OF emits_secret] dest!: ref_home simp: reads_at_home_def)


section \<open>The render\<close>

lemma worker_join_keeps:
  assumes "same_object c c'"
  shows "keeps E c m cl (workerJoin E d c' mm cl addr) (\<lambda>_. True)"
proof -
  note same = same_object_fields[OF assms]
  have home: "reads_at_home (permitted E c m cl) c' cl" by (simp add: same)
  show ?thesis
    unfolding workerJoin_def k0s_worker_join_def k3s_worker_join_def
    by (intro unbind kubeadm_join_keeps[where c' = c'] worker_token_keeps[OF home] k3s_token_keeps[OF home] TrueI)
      (simp_all add: same)
qed

text \<open>Operations that only read objects which are no Secrets.\<close>

lemma provider_keeps: "emits I P (getProviderID E mm) (\<lambda>_. True)"
  unfolding getProviderID_def
  by (intro emits_intros emits_bind_try[OF emits_read] TrueI)

lemma wait_keeps: "emits I P (waitForInfraProviderID E mm p) (\<lambda>_. True)"
  unfolding waitForInfraProviderID_def
  by (intro emits_intros emits_bind_try[OF emits_read] TrueI)

lemma lb_keeps: "emits I P (getControlPlaneLBEndpoint E ns name) (\<lambda>_. True)"
  unfolding getControlPlaneLBEndpoint_def
  by (intro emits_intros emits_bind_try[OF emits_read] TrueI)

lemma staging_keeps:
  "keeps E c m cl (requireOwnedStaging E m cl (stagingKubeconfigSecretName (c_name cl)))
     (\<lambda>_. owned_staging E m cl)"
  unfolding requireOwnedStaging_def
  by (intro emits_intros emits_bind[OF emits_or_throw[OF emits_secret]])
    (auto simp: owned_staging_def)

lemma resolve_endpoint_keeps:
  assumes "same_object c c'"
  shows "keeps E c m cl (resolve_endpoint E c' m cl) (\<lambda>_. True)"
  unfolding resolve_endpoint_def Let_def
  by (intro emits_if emits_ret emits_throw TrueI emits_bind[OF staging_keeps] emits_bind[OF emits_write]
      emits_bind[OF emits_read] emits_bind[OF emits_log])
    (auto simp: same_object_fields[OF assms])

lemma apply_control_keeps:
  assumes "same_object c c'"
  shows "keeps E c m cl (applyControlPlaneRenderData E c' cl role td) (\<lambda>_. True)"
  unfolding applyControlPlaneRenderData_def Let_def
  by (intro unbind control_token_keeps[where cl = cl] TrueI) (simp add: same_object_fields[OF assms])

lemma render_keeps:
  assumes "same_object c c'"
  shows "keeps E c m cl (renderCloudConfigM E d c' m cl role addr) (\<lambda>_. True)"
proof -
  have home: "reads_at_home (permitted E c m cl) c' cl" by (simp add: same_object_fields[OF assms])
  show ?thesis
    unfolding renderCloudConfigM_def provider_id_for_render_def endpoint_for_render_def lb_endpoint_data_def
      render_error_of_def
    by (intro unbind worker_join_keeps password_keeps[OF home] provider_keeps lb_keeps
        resolve_endpoint_keeps apply_control_keeps assms TrueI)
qed

lemma generate_config_keeps:
  "same_object c c' \<Longrightarrow> keeps E c m cl (generateCloudConfigM E c' m cl) (\<lambda>_. True)"
  unfolding generateCloudConfigM_def by (rule render_keeps)


section \<open>The data Secret and the token's life\<close>

lemma park_keeps: "emits (same_object c) P park (\<lambda>_. True)"
  unfolding park_def mark_all_def by (intro unbind keeps_status TrueI)

definition token_id_free :: "(kconfig \<Rightarrow> bool) \<Rightarrow> bool" where
  "token_id_free I \<longleftrightarrow> (\<forall>c i. I c \<longrightarrow> I (c\<lparr>g_status := (g_status c)\<lparr>gs_token_id := i\<rparr>\<rparr>))"

lemma token_id_emits:
  "token_id_free I \<Longrightarrow> emits I P (mod_status (\<lambda>gs. gs\<lparr>gs_token_id := i\<rparr>)) (\<lambda>_. True)"
  by (simp add: emits_def mod_status_def modA_def token_id_free_def)

lemma same_object_free: "token_id_free (same_object c)"
  by (simp add: token_id_free_def same_object_status)

lemma revoke_joined_keeps:
  "token_id_free I \<Longrightarrow> node_name m \<noteq> [] \<Longrightarrow> emits I (permitted E c m cl) (revoke_joined E c' m cl) (\<lambda>_. True)"
  unfolding revoke_joined_def token_request_def forget_token_def
  by (intro unbind emits_bind_try[OF revoke_worker_keeps] token_id_emits TrueI) simp_all

lemma extend_waiting_keeps:
  "token_id_free I \<Longrightarrow> emits I (permitted E c m cl) (extend_waiting E c' m cl sec) (\<lambda>_. True)"
  unfolding extend_waiting_def recover_token_id_def token_request_def Let_def
  by (intro unbind emits_any[OF emits_get] extend_worker_keeps token_id_emits TrueI) simp_all

lemma token_keeps:
  "token_id_free I \<Longrightarrow> emits I (permitted E c m cl) (reconcileKubeadmWorkerToken E c' m cl sec) (\<lambda>_. True)"
  unfolding reconcileKubeadmWorkerToken_def
  by (intro emits_intros revoke_joined_keeps extend_waiting_keeps TrueI)

lemma userdata_keeps:
  assumes "same_object c c'"
  shows "keeps E c m cl (sanitizeCapkUserdataSecret E c' m) (\<lambda>_. True)"
  unfolding sanitizeCapkUserdataSecret_def Let_def
  by (intro emits_if emits_ret emits_throw TrueI emits_bind_try[OF emits_secret] emits_prod
      emits_bind_try[OF emits_write] emits_sum)
    (auto simp: same_object_fields[OF assms])

lemma settle_keeps: "keeps E c m cl (settle_userdata E m) (\<lambda>_. True)"
  unfolding settle_userdata_def
  by (intro emits_intros emits_bind[OF emits_get] emits_seq[OF userdata_keeps] TrueI)

lemma delete_if_there_keeps:
  assumes "\<And>nm. P (SecretRead ns nm)" "P (SecretDeleted name)"
  shows "emits I P (delete_if_there E ns name) (\<lambda>_. True)"
  unfolding delete_if_there_def
  by (intro emits_bind_try[OF emits_secret] emits_bind_try[OF emits_write] emits_intros TrueI assms)

lemma align_keeps: "keeps E c m cl (align_secret_name E m) (\<lambda>_. True)"
  unfolding align_secret_name_def forget_secret_def
proof (rule emits_bind[OF emits_get], intro emits_if emits_ret TrueI)
  fix c'
  assume c': "same_object c c'" "\<not> \<not> names_differ c' m"
  define old where "old = option_or_empty (gs_data_secret (g_status c'))"
  from c'(2) have old: "Some old \<noteq> bm_data_secret m"
    by (auto simp: names_differ_def is_named_def old_def option_or_empty_def split: option.splits)
  show "keeps E c m cl (let old = option_or_empty (gs_data_secret (g_status c')) in
      bindA (delete_if_there E (g_namespace c') old) (\<lambda>_.
      bindA (delete_if_there E (g_namespace c') (userdata_name old)) (\<lambda>_.
      mod_status (\<lambda>gs. gs\<lparr>gs_data_secret := None\<rparr>)))) (\<lambda>_. True)"
    unfolding old_def[symmetric] Let_def
    by (intro emits_seq delete_if_there_keeps keeps_status)
      (use old in \<open>auto simp: same_object_fields[OF c'(1)]\<close>)
qed

lemma store_keeps:
  assumes "same_object c c'"
  shows "keeps E c m cl (store_data E c' cl name cc) (\<lambda>_. True)"
  unfolding store_data_def
  by (intro emits_bind_try[OF emits_secret] emits_intros emits_write TrueI)
    (auto simp: same_object_fields[OF assms] same_belongs[OF assms] owned_data_def data_secret_def
      overwritten_def config_owner_def)

lemma existing_keeps: "keeps E c m cl (check_existing E m cl p sec) (\<lambda>_. True)"
  unfolding check_existing_def mark_bootstrap_def mark_created_def
  by (intro emits_seq[OF emits_any[OF emits_get]] emits_bind_try[OF token_keeps[OF same_object_free]] unbind keeps_status
      settle_keeps TrueI)

lemma recorded_keeps: "keeps E c m cl (recorded_data E m cl p) (\<lambda>_. True)"
  unfolding recorded_data_def forget_secret_def
  by (intro emits_bind[OF emits_get] emits_option emits_ret TrueI emits_bind_try[OF emits_secret] emits_if
      emits_throw emits_seq[OF keeps_status] existing_keeps emits_sum)
    (auto simp: same_object_fields intro: existing_keeps)

lemma generate_keeps: "keeps E c m cl (generate_data E m cl p) (\<lambda>_. True)"
  unfolding generate_data_def generation_error_def unless_failed_def mark_bootstrap_def record_render_def
    finish_data_def mark_created_def
  by (intro emits_bind[OF emits_get] emits_bind_try[OF generate_config_keeps] emits_seq[OF store_keeps]
      emits_seq[OF keeps_status] unbind emits_any[OF emits_get] keeps_status settle_keeps TrueI; assumption?)

lemma data_keeps: "keeps E c m cl (reconcileBootstrapData E m cl) (\<lambda>_. True)"
  unfolding reconcileBootstrapData_def current_provider_id_def
  by (intro unbind provider_keeps wait_keeps align_keeps recorded_keeps generate_keeps TrueI)

end
