(* ===== verification/Bootstrap_Safety.thy ===== *)
theory Bootstrap_Safety
  imports Bootstrap_Keeps
begin

text \<open>
  What one call of \<open>KairosConfigReconciler.Reconcile\<close> may do, whatever the servers answer: every
  effect is one the policy of \<open>Bootstrap_Policy\<close> admits for the KairosConfig, Machine and
  Cluster read in the pass, or one of the few a deletion has.
\<close>


section \<open>The effects of a pass\<close>

text \<open>The data Secret is gone: none is recorded, or the server said so.\<close>

definition data_gone :: "benv \<Rightarrow> kconfig \<Rightarrow> bool" where
  "data_gone E c \<longleftrightarrow> \<not> is_named (gs_data_secret (g_status c)) \<or>
     (\<exists>n. b_secret E n (g_namespace c) (option_or_empty (gs_data_secret (g_status c))) = Inl NotFound) \<or>
     (\<exists>n. b_write E n = Some NotFound)"

fun of_deletion :: "benv \<Rightarrow> kconfig \<Rightarrow> beffect \<Rightarrow> bool" where
  "of_deletion E c (SecretRead ns name) \<longleftrightarrow> ns = g_namespace c"
| "of_deletion E c (SecretDeleted name) \<longleftrightarrow> gs_data_secret (g_status c) = Some name"
| "of_deletion E c (ConfigReleased c') \<longleftrightarrow> same_object c c' \<and> data_gone E c"
| "of_deletion E c _ \<longleftrightarrow> False"

definition of_machine :: "benv \<Rightarrow> kconfig \<Rightarrow> beffect \<Rightarrow> bool" where
  "of_machine E c e \<longleftrightarrow>
     (\<exists>n m n' cl. b_owner_machine E n = Inr (Some m) \<and> b_owner_cluster E n' = Inr (Some cl) \<and>
        permitted E c m cl e)"

definition allowed :: "benv \<Rightarrow> kconfig \<Rightarrow> beffect \<Rightarrow> bool" where
  "allowed E c e \<longleftrightarrow> of_machine E c e \<or> (\<exists>c'. e = ConfigPatched c' \<and> same_object c c') \<or>
     (g_deletion c \<noteq> None \<and> of_deletion E c e)"

lemma allowedI: "b_owner_machine E n = Inr (Some m) \<Longrightarrow> b_owner_cluster E n' = Inr (Some cl) \<Longrightarrow>
    permitted E c m cl e \<Longrightarrow> allowed E c e"
  unfolding allowed_def of_machine_def by blast

definition of_pass :: "benv \<Rightarrow> beffect \<Rightarrow> bool" where
  "of_pass E e \<longleftrightarrow> (\<exists>n c. b_config E n = Inr c \<and> allowed E c e)"


section \<open>The deferred patch\<close>

lemma flush_allowed:
  assumes "\<And>c'. I c' \<Longrightarrow> same_object c c'"
  shows "emits I (allowed E c) (flush_config E base) (\<lambda>_. True)"
  unfolding flush_config_def
  by (intro emits_bind[OF emits_get] emits_intros emits_write TrueI) (simp add: allowed_def assms)

lemma flushed_allowed:
  assumes "\<And>c'. I c' \<Longrightarrow> same_object c c'" "emits I (allowed E c) a (\<lambda>_. True)"
  shows "emits I (allowed E c) (flushed E base a) (\<lambda>_. True)"
  unfolding flushed_def
  by (intro emits_bind_try[OF assms(2)] emits_bind_try[OF flush_allowed] emits_intros TrueI assms(1))


section \<open>A live KairosConfig\<close>

lemma finalizer_emits: "emits (same_object c) P (set_finalizer b) (\<lambda>_. True)"
  by (simp add: emits_def set_finalizer_def modA_def same_object_finalizer)

lemma report_emits: "emits (same_object c) P (report_data E m r) (\<lambda>_. True)"
  unfolding report_data_def mark_all_def
  by (intro unbind park_keeps keeps_status emits_any[OF emits_get] TrueI)

lemma in_cluster_keeps: "keeps E c m cl (reconcile_in_cluster E c m cl) (\<lambda>_. True)"
  unfolding reconcile_in_cluster_def waiting_for_infrastructure_def mark_all_def
  by (intro emits_intros emits_bind_try[OF data_keeps] emits_seq[OF keeps_status] report_emits TrueI)

lemma live_allowed: "emits (same_object c) (allowed E c) (reconcile_live_config E c) (\<lambda>_. True)"
  unfolding reconcile_live_config_def
  by (intro emits_bind[OF finalizer_emits] emits_intros emits_bind[OF emits_read] TrueI
      emits_more[OF in_cluster_keeps]) (auto intro: allowedI)


section \<open>A deleted one\<close>

definition same_data :: "kconfig \<Rightarrow> kconfig \<Rightarrow> bool" where
  "same_data c c' \<longleftrightarrow> same_object c c' \<and> gs_data_secret (g_status c') = gs_data_secret (g_status c)"

lemma forget_same: "emits (same_data c) P forget_token (\<lambda>_. True)"
  by (simp add: emits_def forget_token_def mod_status_def modA_def same_data_def same_object_status)

lemma revoke_allowed:
  assumes "g_deletion c \<noteq> None"
  shows "emits (same_data c) (allowed E c) (revokeKubeadmTokenOnDelete E c') (\<lambda>_. True)"
  unfolding revokeKubeadmTokenOnDelete_def token_request_def
  by (intro emits_if emits_ret TrueI emits_bind_try[OF emits_read] emits_sum emits_option
      emits_bind_try[OF emits_more[OF revoke_worker_keeps[where c = c]]] forget_same)
    (use assms in \<open>auto intro: allowedI\<close>)

lemma delete_secret_emits:
  assumes "P (SecretRead (g_namespace c) (option_or_empty (gs_data_secret (g_status c))))"
    and "is_named (gs_data_secret (g_status c)) \<Longrightarrow> P (SecretDeleted (option_or_empty (gs_data_secret (g_status c))))"
  shows "emits I P (deleteBootstrapSecret E c) (\<lambda>gone. gone \<longrightarrow> data_gone E c)"
  unfolding deleteBootstrapSecret_def
  using assms
  by (auto simp: emits_def bindA_def tryA_def read_secret_def blog_def modA_def bread_def btick_def throw_def
      ret_def bwrite_def data_gone_def Let_def split: sum.splits option.splits if_splits)

lemma finalizer_same: "emits (same_data c) P (set_finalizer b) (\<lambda>_. True)"
  by (simp add: emits_def set_finalizer_def modA_def same_data_def same_object_finalizer)

lemma release_allowed:
  assumes "g_deletion c \<noteq> None" "data_gone E c"
  shows "emits (same_data c) (allowed E c) (release_config E) (\<lambda>_. True)"
  unfolding release_config_def
  by (intro emits_bind[OF finalizer_same] emits_bind[OF emits_get] emits_bind_try[OF emits_write] emits_intros TrueI)
    (use assms in \<open>auto simp: allowed_def same_data_def\<close>)

lemma same_data_gone: "same_data c c' \<Longrightarrow> data_gone E c' = data_gone E c"
  unfolding same_data_def by (auto simp: data_gone_def same_object_fields)

lemma delete_secret_allowed:
  assumes "g_deletion c \<noteq> None" "same_data c c'"
  shows "emits I (allowed E c) (deleteBootstrapSecret E c') (\<lambda>gone. gone \<longrightarrow> data_gone E c)"
proof -
  have fields: "g_namespace c' = g_namespace c" "gs_data_secret (g_status c') = gs_data_secret (g_status c)"
    using assms(2) by (auto simp: same_data_def same_object_fields)
  have "emits I (allowed E c) (deleteBootstrapSecret E c') (\<lambda>gone. gone \<longrightarrow> data_gone E c')"
  proof (rule delete_secret_emits)
    show "allowed E c (SecretRead (g_namespace c') (option_or_empty (gs_data_secret (g_status c'))))"
      using assms(1) by (simp add: allowed_def fields)
    show "allowed E c (SecretDeleted (option_or_empty (gs_data_secret (g_status c'))))"
      if "is_named (gs_data_secret (g_status c'))"
      using assms(1) that
      by (cases "gs_data_secret (g_status c)") (simp_all add: allowed_def fields is_named_def option_or_empty_def)
  qed
  then show ?thesis by (simp add: same_data_gone[OF assms(2)])
qed

lemma delete_config_allowed:
  assumes "g_deletion c \<noteq> None"
  shows "emits (same_data c) (allowed E c) (reconcileDeleteConfig E) (\<lambda>_. True)"
  unfolding reconcileDeleteConfig_def
  by (intro emits_bind[OF emits_get] emits_seq[OF revoke_allowed] emits_bind_try[OF delete_secret_allowed]
      emits_bind_try[OF release_allowed] emits_intros TrueI assms) (use assms in auto)

lemma deleted_allowed:
  assumes "g_deletion c \<noteq> None"
  shows "emits (same_data c) (allowed E c) (reconcile_deleted_config E base) (\<lambda>_. True)"
  unfolding reconcile_deleted_config_def Let_def
  by (intro emits_seq[OF delete_config_allowed] emits_intros flushed_allowed assms TrueI) (simp add: same_data_def)


section \<open>The pass\<close>

lemma observe_emits: "emits (same_data c) P observe_config (\<lambda>_. True)"
  by (simp add: emits_def observe_config_def modA_def same_data_def same_object_status)

lemma same_data_object: "emits (same_object c) P m Q \<Longrightarrow> same_data c (bs_config s) \<Longrightarrow> m s = (r, s') \<Longrightarrow>
    \<exists>es. bs_log s' = bs_log s @ es \<and> (\<forall>e\<in>set es. P e)"
  unfolding emits_def same_data_def by blast

lemma object_allowed:
  assumes "same_data c (bs_config s)"
    and "(if g_deletion c \<noteq> None then reconcile_deleted_config E c else flushed E c (reconcile_live_config E c)) s = (r, s')"
  shows "\<exists>es. bs_log s' = bs_log s @ es \<and> (\<forall>e\<in>set es. allowed E c e)"
proof (cases "g_deletion c = None")
  case True
  have "emits (same_object c) (allowed E c) (flushed E c (reconcile_live_config E c)) (\<lambda>_. True)"
    by (rule flushed_allowed[OF _ live_allowed])
  from same_data_object[OF this assms(1)] assms(2) True show ?thesis by simp
next
  case False
  from assms(2) False have "reconcile_deleted_config E c s = (r, s')" by simp
  from emitsD[OF deleted_allowed[OF False] assms(1) this] show ?thesis by metis
qed

lemma bread_run: "bread f s = (r, s') \<Longrightarrow> bs_log s' = bs_log s \<and>
    (case r of Inr v \<Rightarrow> \<exists>n. f n = Inr v | Inl _ \<Rightarrow> True)"
  by (auto simp: bread_def bindA_def btick_def throw_def ret_def split: sum.splits prod.splits)

lemma pass_effects:
  assumes "ReconcileConfig E s = (r, s')"
  shows "\<exists>es. bs_log s' = bs_log s @ es \<and> (\<forall>e\<in>set es. of_pass E e)"
proof -
  obtain a s1 where read: "bread (b_config E) s = (a, s1)" by fastforce
  note same = bread_run[OF read]
  show ?thesis
  proof (cases a)
    case (Inl e)
    with assms read same show ?thesis
      by (auto simp: ReconcileConfig_def bindA_def tryA_def ret_def throw_def split: if_splits)
  next
    case (Inr c)
    define s2 where "s2 = s1\<lparr>bs_config := c\<rparr>"
    define s3 where "s3 = snd (observe_config s2)"
    have obs: "observe_config s2 = (Inr (), s3)" by (simp add: s3_def observe_config_def modA_def)
    have "same_data c (bs_config s3)" "bs_log s3 = bs_log s"
      using same by (simp_all add: s3_def s2_def observe_config_def modA_def same_data_def same_object_status)
    moreover have "(if g_deletion c \<noteq> None then reconcile_deleted_config E c
        else flushed E c (reconcile_live_config E c)) s3 = (r, s')"
      using assms read Inr obs by (simp add: ReconcileConfig_def bindA_def tryA_def modA_def s2_def)
    ultimately obtain es where "bs_log s' = bs_log s @ es" "\<forall>e\<in>set es. allowed E c e"
      using object_allowed by metis
    moreover from same Inr obtain n where "b_config E n = Inr c" by auto
    ultimately show ?thesis unfolding of_pass_def by blast
  qed
qed

end
