(* ===== verification/Bootstrap_Claims.thy ===== *)
theory Bootstrap_Claims
  imports Bootstrap_Safety
begin

text \<open>
  The properties of the bootstrap controller: what a pass does to either cluster, the life of a
  kubeadm worker's token, the JoinConfiguration it goes into, and what a finished pass leaves.
\<close>


section \<open>What a pass may do\<close>

lemma pass_effect:
  assumes "ReconcileConfig E s = (r, s')" "bs_log s = []" "e \<in> set (bs_log s')"
  obtains n c where "b_config E n = Inr c" "allowed E c e"
  using pass_effects[OF assms(1)] assms(2,3) by (auto simp: of_pass_def)

lemma pass_effect_machine:
  assumes "ReconcileConfig E s = (r, s')" "bs_log s = []" "e \<in> set (bs_log s')"
    and "\<And>c. e \<noteq> ConfigPatched c" "\<And>c. \<not> of_deletion E c e"
  obtains n c k m j cl where "b_config E n = Inr c" "b_owner_machine E k = Inr (Some m)"
    "b_owner_cluster E j = Inr (Some cl)" "permitted E c m cl e"
  using pass_effect[OF assms(1-3)] assms(4,5) unfolding allowed_def of_machine_def by metis

lemma via_genuine: "permitted E c m cl e \<Longrightarrow> via_kubeconfig e = Some kc \<Longrightarrow> genuine E cl kc"
  by (cases e) auto

text \<open>
  C9: Whatever the API servers answer, a pass writes to a workload cluster only through a
  kubeconfig that passed the trust check: the sanitized contract Secret of an initialized
  Cluster, controller-owned by a control plane of an allowlisted kind (a KairosControlPlane only
  with distribution kubeadm), whose server is the Cluster's endpoint or whose CA is the one in
  \<open><cluster>-ca\<close>. This covers minting, extending and revoking a worker's bootstrap token, in a
  live pass and in a deletion.
\<close>

theorem worker_tokens_need_trust:
  assumes "ReconcileConfig E s = (r, s')" "bs_log s = []"
    and "e \<in> set (bs_log s')" "via_kubeconfig e = Some kc"
  shows "\<exists>n cl. b_owner_cluster E n = Inr (Some cl) \<and> genuine E cl kc"
proof -
  have "e \<noteq> ConfigPatched c" "\<not> of_deletion E c e" for c
    using assms(4) by (cases e; simp)+
  then show ?thesis
    using pass_effect_machine[OF assms(1-3)] via_genuine[OF _ assms(4)] by metis
qed

text \<open>
  C10: A pass overwrites a bootstrap Secret only if it belongs to the KairosConfig, by an owner
  reference with its UID or the label of its Cluster, and what it writes is owned by the
  KairosConfig, labelled with the Cluster and keeps the name.
\<close>

theorem foreign_secret_not_overwritten:
  assumes "ReconcileConfig E s = (r, s')" "bs_log s = []"
    and "DataSecretUpdated old new \<in> set (bs_log s')"
  shows "\<exists>n c k cl. b_config E n = Inr c \<and> b_owner_cluster E k = Inr (Some cl) \<and>
    bootstrapSecretBelongsTo old c (c_name cl) \<and> owned_data c cl new \<and> bs_name new = bs_name old"
proof -
  obtain n c k m j cl where "b_config E n = Inr c" "b_owner_machine E k = Inr (Some m)"
    "b_owner_cluster E j = Inr (Some cl)" "permitted E c m cl (DataSecretUpdated old new)"
    by (rule pass_effect_machine[OF assms]) simp_all
  then show ?thesis by auto
qed

text \<open>
  Every Secret of the management cluster that a pass reads is in the namespace of the
  KairosConfig or of its Cluster, whatever namespace a reference in the spec names.
\<close>

theorem secrets_read_at_home:
  assumes "ReconcileConfig E s = (r, s')" "bs_log s = []"
    and "SecretRead ns name \<in> set (bs_log s')"
  shows "\<exists>n c. b_config E n = Inr c \<and>
    (ns = g_namespace c \<or> (\<exists>k cl. b_owner_cluster E k = Inr (Some cl) \<and> ns = c_namespace cl))"
  using pass_effect[OF assms] by (auto simp: allowed_def of_machine_def) metis+

text \<open>
  A node's push token is requested only when the management API's CA is known and the
  staging kubeconfig Secret is controller-owned by the control plane that owns the Machine.
\<close>

theorem push_token_has_a_target:
  assumes "ReconcileConfig E s = (r, s')" "bs_log s = []"
    and "PushTokenIssued sa \<in> set (bs_log s')"
  shows "b_push_ca E \<noteq> [] \<and> (\<exists>k m j cl. b_owner_machine E k = Inr (Some m) \<and>
    b_owner_cluster E j = Inr (Some cl) \<and> owned_staging E m cl \<and>
    sa = kubeconfigWriterName E (c_name cl))"
proof -
  obtain n c k m j cl where "b_config E n = Inr c" "b_owner_machine E k = Inr (Some m)"
    "b_owner_cluster E j = Inr (Some cl)" "permitted E c m cl (PushTokenIssued sa)"
    by (rule pass_effect_machine[OF assms]) simp_all
  then show ?thesis by auto
qed



section \<open>A paused KairosConfig\<close>

definition observed :: "kconfig \<Rightarrow> kconfig" where
  "observed c = c\<lparr>g_status := (g_status c)\<lparr>gs_observed := g_generation c\<rparr>\<rparr>"

definition only_observed :: "kconfig \<Rightarrow> kconfig \<Rightarrow> bool" where
  "only_observed c c' \<longleftrightarrow> c' = (observed c)\<lparr>g_finalizer := g_finalizer c'\<rparr>"

definition is_patch :: "kconfig \<Rightarrow> beffect \<Rightarrow> bool" where
  "is_patch c e \<longleftrightarrow> (\<exists>c'. e = ConfigPatched c' \<and> only_observed c c')"

lemma only_observed_finalizer: "only_observed c c' \<Longrightarrow> only_observed c (c'\<lparr>g_finalizer := b\<rparr>)"
  unfolding only_observed_def by (cases "observed c"; cases c') simp

lemma finalizer_observed: "emits (only_observed c) P (set_finalizer b) (\<lambda>_. True)"
  by (simp add: emits_def set_finalizer_def modA_def only_observed_finalizer)

lemma flush_observed: "emits (only_observed c) (is_patch c) (flush_config E base) (\<lambda>_. True)"
  unfolding flush_config_def
  by (intro emits_bind[OF emits_get] emits_intros emits_write TrueI) (simp add: is_patch_def)

definition paused_config :: "benv \<Rightarrow> kconfig \<Rightarrow> bool" where
  "paused_config E c \<longleftrightarrow> cg_pause (g_spec c) \<or> g_annotations c paused_annotation \<noteq> None \<or>
     (\<forall>n cl. b_owner_cluster E n = Inr (Some cl) \<longrightarrow> c_paused cl)"

lemma paused_live:
  assumes "paused_config E c"
  shows "emits (only_observed c) (is_patch c) (reconcile_live_config E c) (\<lambda>_. True)"
proof -
  have *: "reconcile_in_cluster E c m cl = ret 0" if "b_owner_cluster E n = Inr (Some cl)" "\<not> cg_pause (g_spec c)"
    for m cl n using assms that by (auto simp: reconcile_in_cluster_def paused_config_def config_paused_def)
  show ?thesis
    unfolding reconcile_live_config_def
    by (intro emits_bind[OF finalizer_observed] emits_intros emits_bind[OF emits_read] TrueI)
      (use * in \<open>auto intro: emits_ret\<close>)
qed

text \<open>
  A pass over a live KairosConfig that is paused, by its own switch, by the annotation or by
  its Cluster, makes no request that changes anything but a patch of the KairosConfig itself, and
  that patch sets no more than the observed generation and the finalizer.
\<close>

theorem paused_config_is_quiet:
  assumes "\<And>n. b_config E n = Inr c" "g_deletion c = None" "paused_config E c"
    and "ReconcileConfig E s = (r, s')" "bs_log s = []" "e \<in> set (bs_log s')"
  shows "\<exists>c'. e = ConfigPatched c' \<and> only_observed c c'"
proof -
  have flushed: "emits (only_observed c) (is_patch c) (flushed E c (reconcile_live_config E c)) (\<lambda>_. True)"
    unfolding flushed_def
    by (intro emits_bind_try[OF paused_live[OF assms(3)]] emits_bind_try[OF flush_observed] emits_intros TrueI)
  define s1 where "s1 = s\<lparr>bs_tick := Suc (bs_tick s), bs_config := observed c\<rparr>"
  have "flushed E c (reconcile_live_config E c) s1 = (r, s')"
    using assms(1,2,4)
    by (simp add: ReconcileConfig_def bindA_def tryA_def bread_def btick_def ret_def modA_def
        observe_config_def observed_def s1_def)
  moreover have "only_observed c (bs_config s1)"
    by (simp add: s1_def only_observed_def observed_def)
  ultimately obtain es where "bs_log s' = bs_log s1 @ es" "\<forall>e\<in>set es. is_patch c e"
    using emitsD[OF flushed] by metis
  with assms(5,6) show ?thesis by (simp add: s1_def is_patch_def)
qed


section \<open>A worker's token\<close>

text \<open>
  Two lists of DER certificates are found equal exactly when they hold the same
  certificates, each as often, in whatever order: the cross-check of a kubeconfig's CA against
  \<open><cluster>-ca\<close> is equality of multisets.
\<close>

theorem cert_sets_are_multisets: "derCertSetsEqual a b \<longleftrightarrow> mset a = mset b"
  by (rule cert_sets)

lemma recheck_third:
  assumes "seconds 30 \<le> token_ttl E"
  shows "TokenRecheckInterval E = token_ttl E div 3" "go_div (token_ttl E * 5) 6 = token_ttl E * 5 div 6"
    "30000000000 \<le> token_ttl E"
proof -
  show ttl: "30000000000 \<le> token_ttl E"
    using assms by (simp add: seconds_def ns_per_s_def)
  then have thirds: "go_div (token_ttl E) 3 = token_ttl E div 3" "10000000000 \<le> token_ttl E div 3"
    by (simp_all add: go_div_nonneg)
  then show "TokenRecheckInterval E = token_ttl E div 3"
    by (auto simp: TokenRecheckInterval_def minKubeadmTokenRecheckInterval_def seconds_def ns_per_s_def Let_def)
  show "go_div (token_ttl E * 5) 6 = token_ttl E * 5 div 6" using ttl by (simp add: go_div_nonneg)
qed

lemma recheck_bound:
  assumes "seconds 30 \<le> token_ttl E"
  shows "2 * TokenRecheckInterval E + seconds 1 \<le> token_ttl E"
    and "2 * TokenRecheckInterval E < go_div (token_ttl E * 5) 6"
  using recheck_third(3)[OF assms] unfolding recheck_third(1,2)[OF assms] seconds_def ns_per_s_def
  by linarith+

text \<open>When a token expires after a check that found it: as it stood, or as it was rewritten.\<close>

definition expiry_after_check :: "benv \<Rightarrow> bsecret \<Rightarrow> time option" where
  "expiry_after_check E sec =
     (if still_good E sec then secret_expiry sec
      else parse_rfc3339 (format_rfc3339 (b_now E + token_ttl E)))"


text \<open>Left alone, it may lapse before the third: the comment at \<open>TokenRecheckInterval\<close> has it that
  two checks in a row can be missed.\<close>

lemma third_check_may_be_late:
  assumes "seconds 30 \<le> token_ttl E" "secret_expiry sec = Some ex" "ann (bs_data sec) key_expiration \<noteq> []"
    and "ex = b_now E + go_div (token_ttl E * 5) 6 + 1"
  shows "still_good E sec \<and> ex < b_now E + 3 * TokenRecheckInterval E"
proof -
  have "token_ttl E * 5 div 6 + 1 < 3 * (token_ttl E div 3)"
    using recheck_third(3)[OF assms(1)] by linarith
  then show ?thesis
    using assms(2-4) by (simp add: still_good_def recheck_third(1,2)[OF assms(1)])
qed

text \<open>The documented behaviour of \<open>k8s.io/cluster-bootstrap\<close>: a token that splits into an ID and a
  secret is the two joined by a dot, and is well-formed.\<close>

definition token_parts_law :: "benv \<Rightarrow> bool" where
  "token_parts_law E \<longleftrightarrow>
     (\<forall>t i sec. b_token_parts E t = Some (i, sec) \<longrightarrow> t = i @ ''.'' @ sec \<and> b_token_ok E t)"

text \<open>
  C26: The Secret a mint writes reads back as the token it minted, under the name a lookup by the
  ID uses, with the owner's UID in the label a lookup by owner selects; so the next render finds
  the token and mints no second one.
\<close>

theorem minted_token_reads_back:
  assumes "token_parts_law E" "b_token_parts E token = Some (i, sec)"
  shows "bootstrapTokenFromSecret E (new_token_secret E i sec uid) i = Some token \<and>
    bs_name (new_token_secret E i sec uid) = token_secret_name i \<and>
    best_token E None [new_token_secret E i sec uid] = Some (new_token_secret E i sec uid, token, i) \<and>
    (uid = [] \<or> bs_labels (new_token_secret E i sec uid) kubeadmTokenOwnerLabel = Some uid)"
proof -
  have keys: "ann (bs_data (new_token_secret E i sec uid)) key_id = i"
    "ann (bs_data (new_token_secret E i sec uid)) key_secret = sec"
    by (simp_all add: new_token_secret_def ann_def key_id_def key_secret_def)
  have token: "bootstrapTokenFromSecret E (new_token_secret E i sec uid) i = Some token"
    using assms keys
    by (auto simp: bootstrapTokenFromSecret_def token_parts_law_def Let_def) (simp_all add: new_token_secret_def)
  have name: "bs_name (new_token_secret E i sec uid) = token_secret_name i"
    by (simp add: new_token_secret_def)
  have "best_token E None [new_token_secret E i sec uid] = Some (new_token_secret E i sec uid, token, i)"
    using token keys name by (simp add: Let_def)
  moreover have "uid \<noteq> [] \<Longrightarrow> bs_labels (new_token_secret E i sec uid) kubeadmTokenOwnerLabel = Some uid"
    by (simp add: new_token_secret_def)
  ultimately show ?thesis using token name by blast
qed


section \<open>The JoinConfiguration\<close>

definition pins :: "trusted \<Rightarrow> string \<Rightarrow> join_config \<Rightarrow> bool" where
  "pins t token jc \<longleftrightarrow> jc_token jc = token \<and> jc_ca_hashes jc = tr_hashes t \<and> jc_unsafe jc = None \<and>
     jc_tls_token jc = [] \<and> jc_file_path jc = [] \<and> \<not> jc_control_plane jc \<and>
     (\<exists>ts. jc_taints jc = Some ts \<and> (\<exists>x\<in>set ts. fst x = fst uninitialized_taint \<and>
        snd (snd x) = snd (snd uninitialized_taint)))"

lemma taint_is_there:
  "\<exists>ts. appendUninitializedTaint xs = Some ts \<and> (\<exists>x\<in>set ts. fst x = fst uninitialized_taint \<and>
     snd (snd x) = snd (snd uninitialized_taint))"
  by (auto simp: appendUninitializedTaint_def split: option.splits)

lemma taint_once: "appendUninitializedTaint (appendUninitializedTaint xs) = appendUninitializedTaint xs"
  by (auto simp: appendUninitializedTaint_def split: option.splits)

text \<open>
  C25: The JoinConfiguration a kubeadm worker boots with carries the token of this render and the
  CA hashes of the trust check, whatever the user's own has in those fields: no skipped CA
  verification, no separate TLS bootstrap token, no file discovery, no control-plane material,
  and always the uninitialized taint. It names a node and a patches directory.
\<close>

theorem join_configuration_is_pinned:
  assumes "fst (renderJoinConfiguration E req m t token s) = Inr (jc, out)"
  shows "pins t token jc \<and> b_marshal_join E jc (m_version m) = Some out \<and> jc_patches jc \<noteq> [] \<and>
    (jc_node_name jc = m_name m \<or> jc_node_name jc = jc_node_name (user_join (jr_config req)))"
proof -
  from assms obtain endpoint where
    "jc = overlay_join (user_join (jr_config req)) (m_name m) endpoint t token"
    and out: "b_marshal_join E jc (m_version m) = Some out"
    by (auto simp: renderJoinConfiguration_def throw_def ret_def Let_def split: option.splits if_splits)
  moreover have "defaultKubeadmPatchesDir \<noteq> []" by (simp add: defaultKubeadmPatchesDir_def)
  ultimately show ?thesis
    using taint_is_there by (auto simp: overlay_join_def pins_def)
qed

lemma admitted_patches:
  assumes "validateKubeadmConfig subdomain_errors marshal (g_spec c) = []"
    and "jc_patches (user_join (Some c)) \<noteq> []"
  shows "ValidatePatchesDirectory (jc_patches (user_join (Some c))) = None"
proof (cases "Option.bind (cg_kubeadm (g_spec c)) ka_join")
  case None
  with assms(2) show ?thesis by (simp add: user_join_def empty_join_def)
next
  case (Some jc)
  then obtain ka where ka: "cg_kubeadm (g_spec c) = Some ka" "ka_join ka = Some jc"
    by (cases "cg_kubeadm (g_spec c)") auto
  with assms(1) have "join_config_errs subdomain_errors jc (child (new_path [''spec'', ''kubeadm'']) [''joinConfiguration'']) = []"
    by (simp add: validateKubeadmConfig_def Let_def)
  moreover have "user_join (Some c) = jc" using ka by (simp add: user_join_def)
  ultimately show ?thesis using assms(2) by (simp add: join_config_errs_def split: if_splits)
qed

text \<open>
  A KairosConfig that the webhook admits renders a JoinConfiguration whose patches directory
  passes the same check again at render time: lexically clean, under \<open>/etc/kubernetes\<close>, not the
  kubelet's directory of static Pods.
\<close>

theorem admitted_join_configuration_renders:
  assumes "validateKubeadmConfig subdomain_errors marshal (g_spec c) = []" "jr_config req = Some c"
    and "fst (renderJoinConfiguration E req m t token s) = Inr (jc, out)"
  shows "ValidatePatchesDirectory (jc_patches jc) = None"
proof -
  from assms(3) obtain endpoint where jc: "jc = overlay_join (user_join (Some c)) (m_name m) endpoint t token"
    by (auto simp: renderJoinConfiguration_def throw_def ret_def Let_def assms(2) split: option.splits if_splits)
  have "ValidatePatchesDirectory defaultKubeadmPatchesDir = None" by code_simp
  then show ?thesis using admitted_patches[OF assms(1)] by (simp add: jc overlay_join_def)
qed


section \<open>A finished pass\<close>

definition recorded :: "kconfig \<Rightarrow> bool" where
  "recorded c \<longleftrightarrow> gs_data_secret (g_status c) \<noteq> None"

definition finished :: "kconfig \<Rightarrow> bool" where
  "finished c \<longleftrightarrow> gs_ready (g_status c) \<and> gs_created (g_status c) \<and> recorded c"

lemma settle_fixed:
  assumes "settle_userdata E m s = (r, s')"
  shows "bs_config s' = bs_config s"
proof -
  have "emits (\<lambda>c. c = bs_config s) (\<lambda>_. True) (settle_userdata E m) (\<lambda>_. True)"
    unfolding settle_userdata_def sanitizeCapkUserdataSecret_def Let_def
    by (intro emits_if emits_ret emits_seq[OF emits_any[OF emits_get]] emits_prod emits_seq emits_throw
        emits_bind_try[OF emits_secret] emits_bind_try[OF emits_write] emits_sum TrueI)
  from emitsD[OF this refl assms] show ?thesis by metis
qed

lemma mark_and_settle:
  assumes "bindA mark_created (\<lambda>_. settle_userdata E m) s = (r, s')" "recorded (bs_config s)"
  shows "finished (bs_config s')"
proof -
  define s1 where "s1 = snd (mark_created s)"
  have "settle_userdata E m s1 = (r, s')"
    using assms(1) by (simp add: bindA_def mark_created_def mod_status_def modA_def s1_def)
  then have "bs_config s' = bs_config s1" by (rule settle_fixed)
  with assms(2) show ?thesis
    by (simp add: s1_def mark_created_def mod_status_def modA_def finished_def recorded_def)
qed

lemma finish_finished:
  assumes "finish_data E kc m p cc s = (Inr after, s')" "\<not> 0 < after" "recorded (bs_config s)"
  shows "finished (bs_config s')"
proof -
  have "bindA mark_created (\<lambda>_. settle_userdata E m) s = (Inr after, s')"
    using assms(1,2)
    by (auto simp: finish_data_def bindA_def ret_def mod_status_def modA_def seconds_def ns_per_s_def split: if_splits)
  from mark_and_settle[OF this assms(3)] show ?thesis .
qed

lemma generation_error_waits: "generation_error e s = (Inr after, s') \<Longrightarrow> 0 < after"
  by (auto simp: generation_error_def ret_def throw_def bindA_def unless_failed_def get_config_def getsA_def
      mark_bootstrap_def mod_status_def modA_def seconds_def ns_per_s_def split: berr.splits if_splits)

lemma generate_finished:
  assumes "generate_data E m cl p s = (Inr after, s')" "\<not> 0 < after"
  shows "finished (bs_config s')"
proof -
  obtain g s1 where g: "generateCloudConfigM E (bs_config s) m cl s = (g, s1)" by fastforce
  show ?thesis
  proof (cases g)
    case (Inl e)
    with assms g have "generation_error e s1 = (Inr after, s')"
      by (simp add: generate_data_def bindA_def tryA_def get_config_def getsA_def)
    with generation_error_waits assms(2) show ?thesis by blast
  next
    case (Inr v)
    obtain cc w where v: "v = (cc, w)" by fastforce
    obtain u s2 where u: "store_data E (bs_config s) cl (secret_name (bs_config s) m) cc s1 = (u, s2)" by fastforce
    define s3 where "s3 = snd (record_render (secret_name (bs_config s) m) w s2)"
    have "u = Inr ()" and fin: "finish_data E (bs_config s) m p cc s3 = (Inr after, s')"
      using assms(1) g Inr v u
      by (auto simp: generate_data_def bindA_def tryA_def get_config_def getsA_def record_render_def mod_status_def
          modA_def s3_def split: sum.splits)
    have "recorded (bs_config s3)"
      by (simp add: s3_def record_render_def mod_status_def modA_def recorded_def)
    with finish_finished[OF fin assms(2)] show ?thesis by blast
  qed
qed

lemma existing_finished:
  assumes "check_existing E m cl p sec s = (Inr (Some after), s')" "\<not> 0 < after" "recorded (bs_config s)"
  shows "finished (bs_config s')"
proof -
  obtain d s1 where d: "reconcileKubeadmWorkerToken E (bs_config s) m cl sec s = (d, s1)" by fastforce
  have "token_id_free recorded" by (simp add: token_id_free_def recorded_def)
  then have rec: "recorded (bs_config s1)"
    using emitsD[OF token_keeps[OF \<open>token_id_free recorded\<close>] assms(3) d] by metis
  have run: "bindA mark_created (\<lambda>_. settle_userdata E m) s1 = (Inr after, s')"
    using assms(1,2) d
    by (auto simp: check_existing_def bindA_def tryA_def get_config_def getsA_def ret_def throw_def
        mark_bootstrap_def mod_status_def modA_def mark_created_def seconds_def ns_per_s_def minutes_def
        kubeadmTokenRefreshCapRequeue_def split: sum.splits berr.splits refresh.splits if_splits prod.splits)
  from mark_and_settle[OF run rec] show ?thesis .
qed

lemma read_secret_fixed: "read_secret E ns name s = (r, s') \<Longrightarrow> bs_config s' = bs_config s"
  by (auto simp: read_secret_def bindA_def blog_def modA_def bread_def btick_def throw_def ret_def
      split: sum.splits)

lemma recorded_finished:
  assumes "recorded_data E m cl p s = (Inr (Some after), s')" "\<not> 0 < after"
  shows "finished (bs_config s')"
proof (cases "gs_data_secret (g_status (bs_config s))")
  case None
  with assms(1) show ?thesis by (simp add: recorded_data_def bindA_def get_config_def getsA_def ret_def)
next
  case (Some name)
  obtain r s1 where r: "read_secret E (g_namespace (bs_config s)) name s = (r, s1)" by fastforce
  note fixed = read_secret_fixed[OF r]
  show ?thesis
  proof (cases r)
    case (Inl e)
    with assms(1) Some r show ?thesis
      by (auto simp: recorded_data_def bindA_def get_config_def getsA_def tryA_def ret_def throw_def
          forget_secret_def mod_status_def modA_def split: if_splits)
  next
    case (Inr sec)
    with assms(1) Some r have "check_existing E m cl p sec s1 = (Inr (Some after), s')"
      by (simp add: recorded_data_def bindA_def get_config_def getsA_def tryA_def)
    moreover have "recorded (bs_config s1)" using Some fixed by (simp add: recorded_def)
    ultimately show ?thesis by (rule existing_finished[OF _ assms(2)])
  qed
qed

text \<open>
  When \<open>reconcileBootstrapData\<close> returns without asking for another pass, which is when
  \<open>Reconcile\<close> marks every condition true, the status is ready, the contract's
  \<open>dataSecretCreated\<close> is set and a data Secret is recorded, whichever way the pass went: the
  recorded Secret found up to date, or a new render stored.
\<close>

theorem finished_means_data:
  assumes "reconcileBootstrapData E m cl s = (Inr after, s')" "\<not> 0 < after"
  shows "finished (bs_config s')"
proof -
  obtain p s1 where p: "current_provider_id E m s = (p, s1)" by fastforce
  obtain w s2 where w: "waitForInfraProviderID E m (projr p) s1 = (w, s2)" by fastforce
  obtain a s3 where a: "align_secret_name E m s2 = (a, s3)" by fastforce
  obtain d s4 where d: "recorded_data E m cl (projr p) s3 = (d, s4)" by fastforce
  have positive: "0 < seconds 5" by (simp add: seconds_def ns_per_s_def)
  consider "d = Inr (Some after)" "s' = s4" | "generate_data E m cl (projr p) s4 = (Inr after, s')"
    using assms p w a d positive
    by (auto simp: reconcileBootstrapData_def bindA_def ret_def split: sum.splits option.splits if_splits)
  then show ?thesis
    using recorded_finished[OF _ assms(2)] generate_finished[OF _ assms(2)] d by cases blast+
qed

text \<open>An error of \<open>reconcileBootstrapData\<close>, a failed request among them, ends the pass with no
  error and no delay: the work queue does not come back by itself.\<close>

lemma bootstrap_error_is_not_retried:
  "fst (report_data E m (Inl e) s) = Inr 0 \<and>
   \<not> gs_ready (g_status (bs_config (snd (report_data E m (Inl e) s))))"
  by (simp add: report_data_def park_def mark_all_def bindA_def mod_status_def modA_def ret_def)

text \<open>A deletion does not look at the pause: with the own switch on, the pass still deletes the
  recorded Secret.\<close>

lemma paused_deletion_deletes:
  assumes "\<And>n. b_config E n = Inr c" "g_deletion c \<noteq> None" "cg_pause (g_spec c)"
    and "gs_data_secret (g_status c) = Some name" "name \<noteq> []" "gs_token_id (g_status c) = []"
    and "\<And>n. b_secret E n (g_namespace c) name = Inr sec" "\<And>n. b_write E n = None" "bs_log s = []"
  shows "SecretDeleted name \<in> set (bs_log (snd (ReconcileConfig E s)))"
  using assms
  by (cases "patched_view (observed c) = patched_view c")
    (simp_all add: observed_def ReconcileConfig_def reconcile_deleted_config_def reconcileDeleteConfig_def
        revokeKubeadmTokenOnDelete_def deleteBootstrapSecret_def is_named_def option_or_empty_def
        read_secret_def bread_def bwrite_def blog_def bindA_def tryA_def ret_def btick_def modA_def get_config_def
        getsA_def observe_config_def flushed_def flush_config_def Let_def)

text \<open>The server address of a k3s worker is written without the brackets an IPv6 host needs.\<close>

lemma ipv6_server_address:
  assumes "cg_server_address (g_spec kc) = []" "c_endpoint_valid cl"
    and "c_endpoint_host cl = ''fd00::1''" "c_endpoint_port cl = 6443"
  shows "server_address kc cl = ''https://fd00::1:6443'' \<and> endpoint_url cl = ''https://[fd00::1]:6443''"
proof -
  have "hex_char 6 = CHR ''6''" "hex_char 4 = CHR ''4''" "hex_char 3 = CHR ''3''" by code_simp+
  then have "itoa 6443 = ''6443''" by (simp add: itoa_def format_dec_def format_base.simps)
  with assms show ?thesis by (simp add: server_address_def endpoint_url_def join_host_port_def)
qed

end
