(* ===== verification/Role_Migrator.thy ===== *)
theory Role_Migrator
  imports Bootstrap_Render
begin

text \<open>
  The one-time migration of the nodes' Roles (\<open>rbac_migrator.go\<close>): at start-up the bootstrap
  manager narrows the Roles older releases gave to the service accounts nodes push with.

  A rule is its API groups, resources, resource names and verbs, as in \<open>writer_rules\<close>. What the
  API server answers to the list and to each patch is a parameter; a patch of \<open>rules\<close> replaces
  the list. A Role without rules decodes to the empty list, whether unset or empty.
\<close>


section \<open>Rules\<close>

type_synonym policy_rule = "string list \<times> string list \<times> string list \<times> string list"

definition ruleHas :: "string list \<Rightarrow> string \<Rightarrow> bool" where
  "ruleHas xs want \<longleftrightarrow> want \<in> set xs \<or> ''*'' \<in> set xs"

definition nodePushAllowedRules :: "string \<Rightarrow> policy_rule list" where
  "nodePushAllowedRules clusterName =
     [([''''], [''secrets''],
       [stagingKubeconfigSecretName clusterName, etcdStatusSecretName clusterName], [''patch'']),
      ([''kubevirt.io''], [''virtualmachineinstances''], [], [''get''])]"

text \<open>The body of the loop over the old rules: the verbs of a rule, if it is one for the name.\<close>

fun verbs_for :: "string \<Rightarrow> string \<Rightarrow> string \<Rightarrow> policy_rule \<Rightarrow> string list" where
  "verbs_for g r name (gs, rs, names, vs) =
     (if \<not> ruleHas gs g then []
      else if \<not> ruleHas rs r then []
      else if name = [] \<and> names \<noteq> [] then []
      else if name \<noteq> [] \<and> names \<noteq> [] \<and> name \<notin> set names then []
      else vs)"

definition grantedVerbs :: "policy_rule list \<Rightarrow> string \<Rightarrow> string \<Rightarrow> string \<Rightarrow> string list" where
  "grantedVerbs old g r name = concat (map (verbs_for g r name) old)"

definition intersectVerbs :: "string list \<Rightarrow> string list \<Rightarrow> string list" where
  "intersectVerbs allowed granted = filter (\<lambda>v. v \<in> set granted \<or> ''*'' \<in> set granted) allowed"

text \<open>\<open>buckets\<close> and \<open>order\<close> as one list: the names under each key, keys in the order met.\<close>

fun add_to_bucket :: "string \<Rightarrow> string \<Rightarrow> (string \<times> string list) list \<Rightarrow> (string \<times> string list) list" where
  "add_to_bucket key name [] = [(key, [name])]"
| "add_to_bucket key name ((k, ns) # bs) =
     (if k = key then (k, ns @ [name]) # bs else (k, ns) # add_to_bucket key name bs)"

fun fill_buckets ::
  "string list \<Rightarrow> (string \<Rightarrow> string list) \<Rightarrow> (string \<times> string list) list \<Rightarrow> string list \<Rightarrow>
    (string \<times> string list) list" where
  "fill_buckets allowed granted bs [] = bs"
| "fill_buckets allowed granted bs (name # names) =
     (let kept = intersectVerbs allowed (granted name)
      in if kept = [] then fill_buckets allowed granted bs names
         else fill_buckets allowed granted (add_to_bucket (join_str '','' kept) name bs) names)"

fun intersect_rule :: "policy_rule list \<Rightarrow> policy_rule \<Rightarrow> policy_rule list" where
  "intersect_rule old (gs, rs, names, vs) =
     (let g = hd gs; r = hd rs
      in if names = []
         then (let kept = intersectVerbs vs (grantedVerbs old g r [])
               in if kept = [] then [] else [([g], [r], [], kept)])
         else map (\<lambda>(key, ns). ([g], [r], ns, split_on CHR '','' key))
                (fill_buckets vs (grantedVerbs old g r) [] names))"

definition intersectNodePushRules :: "policy_rule list \<Rightarrow> string \<Rightarrow> policy_rule list" where
  "intersectNodePushRules old clusterName =
     concat (map (intersect_rule old) (nodePushAllowedRules clusterName))"


section \<open>Roles\<close>

record role =
  ro_name :: string
  ro_namespace :: string
  ro_labels :: "string \<rightharpoonup> string"
  ro_owners :: "owner_ref list"
  ro_rules :: "policy_rule list"

definition cluster_api_group :: string where "cluster_api_group = ''cluster.x-k8s.io''"

definition groupMatches :: "string \<Rightarrow> string \<Rightarrow> bool" where
  "groupMatches apiVersion grp =
     (if CHR ''/'' \<notin> set apiVersion then grp = []
      else takeWhile (\<lambda>c. c \<noteq> CHR ''/'') apiVersion = grp)"

definition targetNodePushCluster :: "benv \<Rightarrow> role \<Rightarrow> string option" where
  "targetNodePushCluster E ro =
     (case controller_ref (ro_owners ro) of
        None \<Rightarrow> None
      | Some owner \<Rightarrow>
          if or_kind owner = ''Cluster'' then
            (if or_api owner \<noteq> [] \<and> \<not> groupMatches (or_api owner) cluster_api_group then None
             else if or_name owner = [] \<or> ro_name ro \<noteq> kubeconfigWriterName E (or_name owner) then None
             else Some (or_name owner))
          else if or_kind owner = ''KairosConfig'' then
            (if or_api owner \<noteq> [] \<and> \<not> groupMatches (or_api owner) bootstrap_api_group then None
             else let clusterName = ann (ro_labels ro) cluster_name_label
                  in if clusterName = [] \<or> ro_name ro \<noteq> kubeconfigWriterName E clusterName then None
                     else Some clusterName)
          else None)"

text \<open>The Role to patch, if there is anything to patch.\<close>

definition narrowed_role :: "benv \<Rightarrow> role \<Rightarrow> role option" where
  "narrowed_role E ro =
     (case targetNodePushCluster E ro of
        None \<Rightarrow> None
      | Some clusterName \<Rightarrow>
          let newRules = intersectNodePushRules (ro_rules ro) clusterName
          in if ro_rules ro = newRules then None else Some (ro\<lparr>ro_rules := newRules\<rparr>))"

text \<open>The loop of \<open>Start\<close>, with the answer to the n-th patch: the Roles as patched. A refused
  patch is skipped.\<close>

fun migrate_roles :: "benv \<Rightarrow> (nat \<Rightarrow> apierr option) \<Rightarrow> nat \<Rightarrow> role list \<Rightarrow> role list" where
  "migrate_roles E resp n [] = []"
| "migrate_roles E resp n (ro # ros) =
     (case narrowed_role E ro of
        None \<Rightarrow> migrate_roles E resp n ros
      | Some ro' \<Rightarrow>
          (case resp n of
             Some _ \<Rightarrow> migrate_roles E resp (Suc n) ros
           | None \<Rightarrow> ro' # migrate_roles E resp (Suc n) ros))"

definition StartMigration :: "benv \<Rightarrow> apierr + role list \<Rightarrow> (nat \<Rightarrow> apierr option) \<Rightarrow> role list" where
  "StartMigration E listed resp =
     (case listed of Inl _ \<Rightarrow> [] | Inr roles \<Rightarrow> migrate_roles E resp 0 roles)"


section \<open>What a Role grants\<close>

text \<open>RBAC's reading of a list of rules: may the verb be used on the resource of this group and
  name?\<close>

definition authorizes :: "policy_rule list \<Rightarrow> string \<Rightarrow> string \<Rightarrow> string \<Rightarrow> string \<Rightarrow> bool" where
  "authorizes rules g r name v \<longleftrightarrow>
     (\<exists>(gs, rs, names, vs)\<in>set rules. ruleHas gs g \<and> ruleHas rs r \<and> ruleHas vs v \<and>
        (names = [] \<or> name \<in> set names))"

lemma verbs_for_iff:
  "v \<in> set (verbs_for g r name (gs, rs, names, vs)) \<longleftrightarrow>
     ruleHas gs g \<and> ruleHas rs r \<and> (names = [] \<or> name \<noteq> [] \<and> name \<in> set names) \<and> v \<in> set vs"
  by auto

declare verbs_for.simps [simp del]

lemma granted_iff:
  "v \<in> set (grantedVerbs old g r name) \<longleftrightarrow>
     (\<exists>gs rs names vs. (gs, rs, names, vs) \<in> set old \<and> ruleHas gs g \<and> ruleHas rs r \<and>
        (names = [] \<or> name \<noteq> [] \<and> name \<in> set names) \<and> v \<in> set vs)"
proof -
  have "v \<in> set (grantedVerbs old g r name) \<longleftrightarrow> (\<exists>R. R \<in> set old \<and> v \<in> set (verbs_for g r name R))"
    by (auto simp: grantedVerbs_def)
  then show ?thesis by (simp add: split_paired_Ex verbs_for_iff)
qed

text \<open>All the migration looks at is which of the three grants the old rules have.\<close>

definition may :: "policy_rule list \<Rightarrow> string \<Rightarrow> string \<Rightarrow> string \<Rightarrow> string \<Rightarrow> bool" where
  "may old g r name v \<longleftrightarrow>
     v \<in> set (grantedVerbs old g r name) \<or> ''*'' \<in> set (grantedVerbs old g r name)"

definition kept_names :: "policy_rule list \<Rightarrow> string \<Rightarrow> string list" where
  "kept_names old cn =
     filter (\<lambda>n. may old [] ''secrets'' n ''patch'')
       [stagingKubeconfigSecretName cn, etcdStatusSecretName cn]"

lemma may_iff:
  "may old g r name v \<longleftrightarrow>
     (\<exists>gs rs names vs. (gs, rs, names, vs) \<in> set old \<and> ruleHas gs g \<and> ruleHas rs r \<and> ruleHas vs v \<and>
        (names = [] \<or> name \<noteq> [] \<and> name \<in> set names))"
  unfolding may_def granted_iff ruleHas_def[of _ v] by (rule iffI) (elim disjE exE conjE; metis)+

lemma authorizes_iff:
  "authorizes old g r name v \<longleftrightarrow>
     (\<exists>gs rs names vs. (gs, rs, names, vs) \<in> set old \<and> ruleHas gs g \<and> ruleHas rs r \<and> ruleHas vs v \<and>
        (names = [] \<or> name \<in> set names))"
  by (simp add: authorizes_def Bex_def split_paired_Ex)

lemma may_authorizes: "may old g r name v \<Longrightarrow> authorizes old g r name v"
  unfolding may_iff authorizes_iff by (elim exE conjE disjE) metis+

lemma authorizes_may: "name \<noteq> [] \<Longrightarrow> authorizes old g r name v \<Longrightarrow> may old g r name v"
  unfolding may_iff authorizes_iff by (elim exE conjE disjE) metis+

lemma intersect_shape:
  "intersectNodePushRules old cn =
     (if kept_names old cn = [] then [] else [([''''], [''secrets''], kept_names old cn, [''patch''])]) @
     (if may old ''kubevirt.io'' ''virtualmachineinstances'' [] ''get''
      then [([''kubevirt.io''], [''virtualmachineinstances''], [], [''get''])] else [])"
  by (simp add: intersectNodePushRules_def nodePushAllowedRules_def kept_names_def may_def
      intersectVerbs_def)


section \<open>What the migration does to a Role\<close>

lemma authorizes_append:
  "authorizes (xs @ ys) g r name v \<longleftrightarrow> authorizes xs g r name v \<or> authorizes ys g r name v"
  by (auto simp: authorizes_def)

lemma authorizes_single:
  "authorizes [([g'], [r'], names, [v'])] g r name v \<longleftrightarrow>
     ruleHas [g'] g \<and> ruleHas [r'] r \<and> ruleHas [v'] v \<and> (names = [] \<or> name \<in> set names)"
  by (simp add: authorizes_def)

lemma authorizes_Cons:
  "authorizes ((gs, rs, names, vs) # xs) g r name v \<longleftrightarrow>
     ruleHas gs g \<and> ruleHas rs r \<and> ruleHas vs v \<and> (names = [] \<or> name \<in> set names) \<or>
     authorizes xs g r name v"
  by (simp add: authorizes_def)

lemma may_authorizes_iff: "name \<noteq> [] \<Longrightarrow> may old g r name v = authorizes old g r name v"
  by (rule iffI) (simp_all add: may_authorizes authorizes_may)

lemma authorizes_none [simp]: "\<not> authorizes [] g r name v"
  by (simp add: authorizes_def)

lemma ruleHas_single: "ruleHas [x] y \<longleftrightarrow> y = x \<or> x = ''*''"
  by (auto simp: ruleHas_def)

lemma names_not_empty: "stagingKubeconfigSecretName cn \<noteq> []" "etcdStatusSecretName cn \<noteq> []"
  by (simp_all add: stagingKubeconfigSecretName_def etcdStatusSecretName_def)

lemma names_differ: "stagingKubeconfigSecretName cn \<noteq> etcdStatusSecretName cn"
  by (simp add: stagingKubeconfigSecretName_def etcdStatusSecretName_def)

text \<open>What the narrowed rules grant, spelled out.\<close>

lemma narrowed_grants:
  "authorizes (intersectNodePushRules old cn) g r name v \<longleftrightarrow>
     g = [] \<and> r = ''secrets'' \<and> v = ''patch'' \<and> name \<in> set (kept_names old cn) \<or>
     g = ''kubevirt.io'' \<and> r = ''virtualmachineinstances'' \<and> v = ''get'' \<and>
       may old ''kubevirt.io'' ''virtualmachineinstances'' [] ''get''"
  unfolding intersect_shape
  by (auto simp: authorizes_append authorizes_single ruleHas_single)

lemma allowed_grants:
  "authorizes (nodePushAllowedRules cn) g r name v \<longleftrightarrow>
     g = [] \<and> r = ''secrets'' \<and> v = ''patch'' \<and>
       name \<in> {stagingKubeconfigSecretName cn, etcdStatusSecretName cn} \<or>
     g = ''kubevirt.io'' \<and> r = ''virtualmachineinstances'' \<and> v = ''get''"
  unfolding nodePushAllowedRules_def authorizes_def
  by (auto simp: ruleHas_single)

lemma kept_names_iff:
  "name \<in> set (kept_names old cn) \<longleftrightarrow>
     name \<in> {stagingKubeconfigSecretName cn, etcdStatusSecretName cn} \<and>
     authorizes old [] ''secrets'' name ''patch''"
  using names_not_empty[of cn] by (auto simp: kept_names_def intro: may_authorizes authorizes_may)

lemma may_all_names:
  "may old g r [] v \<Longrightarrow> authorizes old g r name v"
  unfolding may_iff authorizes_iff by (elim exE conjE disjE) metis+

text \<open>The intersection never broadens, and for Secrets it is exactly the intersection.\<close>

lemma narrowing_never_broadens:
  assumes "authorizes (intersectNodePushRules old cn) g r name v"
  shows "authorizes old g r name v \<and> authorizes (nodePushAllowedRules cn) g r name v"
  using assms unfolding narrowed_grants allowed_grants
  by (elim disjE conjE) (auto simp: kept_names_iff intro: may_all_names)

lemma narrowing_keeps_secrets:
  assumes "authorizes old g ''secrets'' name v" "authorizes (nodePushAllowedRules cn) g ''secrets'' name v"
  shows "authorizes (intersectNodePushRules old cn) g ''secrets'' name v"
  using assms unfolding narrowed_grants allowed_grants by (auto simp: kept_names_iff)

text \<open>What the resolver grants today is what it was before: the migration leaves it alone.\<close>

lemma resolver_rules_stay:
  "intersectNodePushRules (writer_rules s cn) cn = writer_rules s cn"
proof -
  have "may (writer_rules s cn) [] ''secrets'' n ''patch''"
    if "n \<in> {stagingKubeconfigSecretName cn, etcdStatusSecretName cn}" for n
    using that names_not_empty[of cn]
    by (intro authorizes_may) (auto simp: writer_rules_def authorizes_Cons ruleHas_single)
  then have "kept_names (writer_rules s cn) cn = [stagingKubeconfigSecretName cn, etcdStatusSecretName cn]"
    by (simp add: kept_names_def)
  moreover have "may (writer_rules s cn) ''kubevirt.io'' ''virtualmachineinstances'' [] ''get'' \<longleftrightarrow>
      cg_role s = ''control-plane'' \<and> (cg_distribution s = ''k0s'' \<or> cg_distribution s = [])"
    by (auto simp: may_iff writer_rules_def ruleHas_single split: if_splits)
  ultimately show ?thesis
    unfolding intersect_shape by (simp add: writer_rules_def)
qed

lemma narrowing_is_idempotent:
  "intersectNodePushRules (intersectNodePushRules old cn) cn = intersectNodePushRules old cn"
proof -
  let ?new = "intersectNodePushRules old cn"
  have secrets: "may ?new [] ''secrets'' n ''patch'' \<longleftrightarrow> may old [] ''secrets'' n ''patch''"
    if "n \<in> {stagingKubeconfigSecretName cn, etcdStatusSecretName cn}" for n
  proof -
    have "n \<noteq> []" using that names_not_empty[of cn] by auto
    then show ?thesis
      using that by (simp add: may_authorizes_iff narrowed_grants kept_names_iff)
  qed
  have "kept_names ?new cn = kept_names old cn"
    by (simp add: kept_names_def secrets)
  moreover have "may ?new ''kubevirt.io'' ''virtualmachineinstances'' [] ''get'' \<longleftrightarrow>
      may old ''kubevirt.io'' ''virtualmachineinstances'' [] ''get''"
  proof -
    have "may ((if k = [] then [] else [([''''], [''secrets''], k, [''patch''])]) @
        (if b then [([''kubevirt.io''], [''virtualmachineinstances''], [], [''get''])] else []))
        ''kubevirt.io'' ''virtualmachineinstances'' [] ''get'' \<longleftrightarrow> b" for k b
      by (simp add: may_def grantedVerbs_def verbs_for.simps ruleHas_def)
    then show ?thesis unfolding intersect_shape[of old] .
  qed
  ultimately show ?thesis
    unfolding intersect_shape[of ?new] by (simp only:) (rule intersect_shape[symmetric])
qed


section \<open>What the migration does\<close>

lemma narrowed_role_target:
  "narrowed_role E ro = Some ro' \<Longrightarrow>
     \<exists>cn. targetNodePushCluster E ro = Some cn \<and>
        ro' = ro\<lparr>ro_rules := intersectNodePushRules (ro_rules ro) cn\<rparr> \<and> ro_rules ro' \<noteq> ro_rules ro"
  by (auto simp: narrowed_role_def Let_def split: option.splits if_splits)

lemma migrate_roles_target:
  "ro' \<in> set (migrate_roles E resp n roles) \<Longrightarrow> \<exists>ro\<in>set roles. narrowed_role E ro = Some ro'"
  by (induction E resp n roles rule: migrate_roles.induct) (auto split: option.splits)

lemma target_name:
  "targetNodePushCluster E ro = Some cn \<Longrightarrow>
     cn \<noteq> [] \<and> ro_name ro = kubeconfigWriterName E cn \<and>
     (\<exists>owner. controller_ref (ro_owners ro) = Some owner \<and> or_kind owner \<in> {''Cluster'', ''KairosConfig''})"
  by (auto simp: targetNodePushCluster_def Let_def split: option.splits if_splits)

text \<open>
  C40: The migration only takes permissions away. Whatever the API server answers, every Role it
  patches is a listed one that carries the writer's name for a cluster and is controlled by a
  Cluster or a KairosConfig; only its rules change, and what the new rules allow was allowed
  before and is one of the grants the nodes of that cluster get today.
\<close>

theorem migration_only_narrows:
  assumes "ro' \<in> set (StartMigration E listed resp)"
  shows "\<exists>roles ro cn owner. listed = Inr roles \<and> ro \<in> set roles \<and>
    ro_name ro = kubeconfigWriterName E cn \<and> cn \<noteq> [] \<and>
    controller_ref (ro_owners ro) = Some owner \<and> or_kind owner \<in> {''Cluster'', ''KairosConfig''} \<and>
    ro' = ro\<lparr>ro_rules := intersectNodePushRules (ro_rules ro) cn\<rparr> \<and>
    (\<forall>g r name v. authorizes (ro_rules ro') g r name v \<longrightarrow>
       authorizes (ro_rules ro) g r name v \<and> authorizes (nodePushAllowedRules cn) g r name v)"
proof -
  obtain roles where listed: "listed = Inr roles" and mem: "ro' \<in> set (migrate_roles E resp 0 roles)"
    using assms by (cases listed) (auto simp: StartMigration_def)
  obtain ro cn where ro: "ro \<in> set roles" "targetNodePushCluster E ro = Some cn"
    "ro' = ro\<lparr>ro_rules := intersectNodePushRules (ro_rules ro) cn\<rparr>"
    using migrate_roles_target[OF mem] narrowed_role_target by metis
  then have rules: "ro_rules ro' = intersectNodePushRules (ro_rules ro) cn"
    by simp
  have "authorizes (ro_rules ro) g r name v \<and> authorizes (nodePushAllowedRules cn) g r name v"
    if "authorizes (ro_rules ro') g r name v" for g r name v
    by (rule narrowing_never_broadens) (use that rules in simp)
  with listed ro target_name[OF ro(2)] show ?thesis by metis
qed

end
