(* ===== verification/Bootstrap_Examples.thy ===== *)
theory Bootstrap_Examples
  imports Bootstrap_Claims Role_Migrator Sanitize_Examples Cloud_Config_Examples
begin

text \<open>
  The properties of the bootstrap controller on three passes: the deletion of a kubeadm worker
  whose token is revoked, the first render of a k0s control-plane node over a Secret that is
  already there, and a paused KairosConfig.
\<close>


section \<open>The world\<close>

definition plain_spec :: config_spec where
  "plain_spec = \<lparr>cg_role = [], cg_distribution = [], cg_version = [], cg_server_address = [], cg_token = [],
     cg_token_ref = None, cg_ca_hashes = [], cg_ca_ref = None, cg_files = [], cg_pre_commands = [],
     cg_post_commands = [], cg_pause = False, cg_single_node = False, cg_k0s_single_node = None,
     cg_cp_role = [], cg_user_name = [], cg_user_password = ''pw'', cg_user_password_ref = None,
     cg_user_groups = [], cg_github_user = [], cg_ssh_key = [], cg_worker_token = [],
     cg_worker_token_ref = None, cg_k3s_token = [], cg_k3s_token_ref = None, cg_join_token_ref = None,
     cg_vip = None, cg_manifests = [], cg_hostname = [], cg_hostname_prefix = [], cg_dns_servers = [],
     cg_pod_cidr = [], cg_service_cidr = [], cg_primary_ip = [], cg_install = None, cg_kubeadm = None\<rparr>"

definition fresh_status :: config_status where
  "fresh_status = \<lparr>gs_ready = False, gs_data_secret = None, gs_created = False, gs_conds = Map.empty,
     gs_observed = 0, gs_failure = [], gs_token_id = []\<rparr>"

definition config0 :: kconfig where
  "config0 = \<lparr>g_name = ''cp-0'', g_namespace = ''ns'', g_uid = ''g-1'', g_generation = 1,
     g_deletion = None, g_labels = Map.empty, g_annotations = Map.empty, g_owners = [],
     g_finalizer = True, g_spec = plain_spec\<lparr>cg_role := ''control-plane'', cg_distribution := ''k0s''\<rparr>,
     g_status = fresh_status\<rparr>"

definition cp_owner :: owner_ref where
  "cp_owner = \<lparr>or_kind = ''KubeadmControlPlane'', or_name = ''cp'', or_uid = ''k-1'', or_controller = True,
     or_api = ''controlplane.cluster.x-k8s.io/v1beta2''\<rparr>"

definition bmachine0 :: bmachine where
  "bmachine0 = \<lparr>m_name = ''cp-0'', m_namespace = ''ns'', m_created = 0, m_deletion = None,
     m_labels = Map.empty, m_annotations = Map.empty, m_owners = [cp_owner], m_version = ''v1.34.0'',
     m_phase = [], m_node = None, m_addresses = [], m_cfg_group = bootstrap_api_group,
     m_cfg_kind = ''KairosConfig'', m_cfg_name = ''cp-0'', m_infra_kind = ''VSphereMachine'',
     m_infra_name = ''cp-0'', m_conditions = [], m_drain = None, bm_provider_id = ''vsphere://1'',
     bm_data_secret = None, bm_created = None\<rparr>"

definition bcluster0 :: bcluster where
  "bcluster0 = \<lparr>c_name = ''c'', c_namespace = ''ns'', c_uid = ''c-1'', c_endpoint_host = ''10.0.0.100'',
     c_endpoint_valid = True, c_endpoint_port = 6443, c_created = 0, c_paused = False, c_ref = None,
     bc_provisioned = True, bc_initialized = True, bc_ref_group = kcp_group,
     bc_ref_kind = ''KubeadmControlPlane'', bc_ref_name = ''cp''\<rparr>"

definition sanitized0 :: string where
  "sanitized0 = ''c|https://10.0.0.100:6443|<C1><L2>|||t0ken''"

text \<open>Every Secret of the management cluster: the contract Secret, the staging one, and the data
  Secret, which carries the label of the Cluster.\<close>

definition bsecret0 :: "string \<Rightarrow> bsecret" where
  "bsecret0 name = \<lparr>bs_name = name, bs_type = [], bs_labels = [cluster_name_label \<mapsto> ''c''],
     bs_annotations = Map.empty, bs_owners = [cp_owner],
     bs_data = [''value'' \<mapsto> ''x|https://10.0.0.100:6443|<C1><L2>|||t0ken'']\<rparr>"

definition toy_url :: "string \<Rightarrow> (string \<times> string \<times> string) option" where
  "toy_url s = (if s = ''https://10.0.0.100:6443'' then Some (''https'', ''10.0.0.100'', ''6443'') else None)"

definition toy_parts :: "string \<Rightarrow> (string \<times> string) option" where
  "toy_parts t = (if t = ''abcdef.s3cret'' then Some (''abcdef'', ''s3cret'') else None)"

definition benv0 :: benv where
  "benv0 = \<lparr>b_now = 0, b_write = \<lambda>_. None, b_config = \<lambda>_. Inr config0,
     b_owner_machine = \<lambda>_. Inr (Some bmachine0), b_owner_cluster = \<lambda>_. Inr (Some bcluster0),
     b_secret = \<lambda>_ _ name. Inr (bsecret0 name), b_ca_secret = \<lambda>_ _. Inl NotFound,
     b_infra = \<lambda>_ _ _. Inl NotFound, b_vsphere = \<lambda>_ _. Inl NotFound,
     b_control_plane = \<lambda>_ _. Inr (''k-1'', JObj []), b_service = \<lambda>_ _ _. Inl NotFound,
     b_machines = \<lambda>_ _. Inr [], b_configs = \<lambda>_ _ _. Inr [], b_push_token = \<lambda>_. Inr ''tok'',
     b_client = \<lambda>_ _. True, b_wl_secret = \<lambda>_ _ _. Inl NotFound, b_wl_list = \<lambda>_ _ _. Inr [],
     b_wl_write = \<lambda>_ _. None, b_new_token = \<lambda>_. Some ''abcdef.s3cret'', b_extra_kinds = [],
     b_token_ttl = 0, b_join_wired = True, b_push_server = ''https://m:6443'', b_push_ca = ''<ca>'',
     b_push_wired = True, b_lib = toy_lib, b_render = toy_render, b_url = toy_url, b_spki = id,
     b_token_id_ok = \<lambda>i. length i = 6, b_token_ok = \<lambda>t. toy_parts t \<noteq> None, b_token_parts = toy_parts,
     b_semver_ok = \<lambda>_. True, b_marshal_join = \<lambda>_ _. Some ''join'', b_decode_join = \<lambda>_. None,
     b_join_file = \<lambda>_ _. None, b_sha1_hex = \<lambda>_. []\<rparr>"

definition bst0 :: bst where
  "bst0 = \<lparr>bs_tick = 0, bs_config = config0, bs_log = []\<rparr>"


section \<open>The deletion of a kubeadm worker\<close>

definition deleted_worker :: kconfig where
  "deleted_worker = config0\<lparr>g_deletion := Some 0,
     g_spec := plain_spec\<lparr>cg_role := ''worker'', cg_distribution := ''kubeadm''\<rparr>,
     g_status := fresh_status\<lparr>gs_token_id := ''abcdef''\<rparr>\<rparr>"

definition deletion_env :: benv where
  "deletion_env = benv0\<lparr>b_config := \<lambda>_. Inr deleted_worker\<rparr>"

definition url0 :: string where "url0 = ''https://10.0.0.100:6443''"

definition raw0 :: string where "raw0 = ''x|https://10.0.0.100:6443|<C1><L2>|||t0ken''"

lemma sanitized: "Sanitize toy_lib raw0 ''c'' url0 = Inr sanitized0"
  by code_simp

lemma sanitized_filled [simp]: "sanitized0 \<noteq> []"
  by (simp add: sanitized0_def)

lemma fixed: "requireSanitizedKubeconfig toy_lib sanitized0 ''c''"
  by code_simp

lemma server_and_ca: "serverAndCAFromKubeconfig toy_lib raw0 = Some (url0, ''<C1><L2>'')"
  by code_simp

lemma certs: "pem_certs toy_lib ''<C1><L2>'' = Some [''C1'', ''L2'']"
  by code_simp

lemma endpoint: "endpoint_url bcluster0 = url0"
proof -
  have "hex_char 6 = CHR ''6''" "hex_char 4 = CHR ''4''" "hex_char 3 = CHR ''3''" by code_simp+
  then show ?thesis
    by (simp add: endpoint_url_def bcluster0_def join_host_port_def itoa_def format_dec_def url0_def format_base.simps)
qed

lemma url: "toy_url url0 = Some (''https'', ''10.0.0.100'', ''6443'')"
  by (simp add: toy_url_def url0_def)

definition trusted0 :: trusted where
  "trusted0 = \<lparr>tr_name = ''c'', tr_namespace = ''ns'', tr_host = ''10.0.0.100'', tr_port = 6443,
     tr_hashes = [''sha256:C1'', ''sha256:L2''], tr_kubeconfig = sanitized0\<rparr>"

lemmas runs = bindA_def tryA_def ret_def throw_def getsA_def modA_def btick_def blog_def bread_def bwrite_def
  wl_write_def read_secret_def or_throw_def get_config_def mod_status_def

lemma deletion_fields [simp]:
  "b_lib deletion_env = toy_lib" "b_spki deletion_env = id" "b_url deletion_env = toy_url"
  "b_secret deletion_env n ns name = Inr (bsecret0 name)" "b_ca_secret deletion_env n name = Inl NotFound"
  "b_control_plane deletion_env n name = Inr (''k-1'', JObj [])" "b_client deletion_env n kc"
  "b_config deletion_env n = Inr deleted_worker" "b_owner_machine deletion_env n = Inr (Some bmachine0)"
  "b_owner_cluster deletion_env n = Inr (Some bcluster0)" "b_write deletion_env n = None"
  "b_wl_write deletion_env n kc = None" "b_token_id_ok deletion_env i = (length i = 6)"
  "b_join_wired deletion_env"
  by (simp_all add: deletion_env_def benv0_def)

lemma bcluster_fields [simp]:
  "c_name bcluster0 = ''c''" "c_namespace bcluster0 = ''ns''" "bc_initialized bcluster0" "c_endpoint_valid bcluster0"
  "bc_ref_kind bcluster0 = ''KubeadmControlPlane''" "bc_ref_group bcluster0 = kcp_group" "bc_ref_name bcluster0 = ''cp''"
  "c_endpoint_host bcluster0 = ''10.0.0.100''" "c_endpoint_port bcluster0 = 6443" "bc_provisioned bcluster0"
  "\<not> c_paused bcluster0"
  by (simp_all add: bcluster0_def)

lemma verified:
  assumes "g_owners c = []"
  shows "verifyTrustChain deletion_env (token_request c bmachine0 bcluster0) s =
     (Inr trusted0, s\<lparr>bs_tick := Suc (Suc (Suc (bs_tick s))),
        bs_log := bs_log s @ [SecretRead ''ns'' ''c-kubeconfig'']\<rparr>)"
proof -
  have hashes: "caCertHashesFromPEM deletion_env ''<C1><L2>'' =
      Some ([''sha256:C1'', ''sha256:L2''], [''C1'', ''L2''])"
    by (simp add: caCertHashesFromPEM_def certs spki_hash_def) (simp add: toy_lib_def)
  have anchor: "anchor_kubeconfig deletion_env bcluster0 raw0 s = (Inr trusted0, s\<lparr>bs_tick := Suc (bs_tick s)\<rparr>)" for s
    by (simp add: anchor_kubeconfig_def server_and_ca hashes crossCheckClusterCA_def runs sameServer_def url
        endpoint anchoredServer_def sanitized trusted0_def)
  show ?thesis
    using assms
    by (simp add: verifyTrustChain_def check_request_def token_request_def hasMachinePoolOwner_def bmachine0_def cp_owner_def resolve_control_plane_def trusted_kind_def
        allowlistedControlPlaneKinds_def kcp_group_def kcp_kind_def owned_kubeconfig_def kubeconfig_secret_def bsecret0_def controller_ref_def
        ann_def runs anchor[unfolded raw0_def])
qed

lemma deleted_fields [simp]:
  "g_deletion deleted_worker = Some 0" "g_owners deleted_worker = []"
  "gs_token_id (g_status deleted_worker) = ''abcdef''" "gs_data_secret (g_status deleted_worker) = None"
  "g_namespace deleted_worker = ''ns''" "cg_distribution (g_spec deleted_worker) = ''kubeadm''"
  "cg_role (g_spec deleted_worker) = ''worker''"
  by (simp_all add: deleted_worker_def config0_def fresh_status_def)

lemma deletion_run:
  "bs_log (snd (ReconcileConfig deletion_env bst0)) =
     [SecretRead ''ns'' ''c-kubeconfig'', TokenDeleted sanitized0 ''bootstrap-token-abcdef'',
      ConfigReleased ((observed deleted_worker)\<lparr>g_finalizer := False,
        g_status := (g_status (observed deleted_worker))\<lparr>gs_token_id := []\<rparr>\<rparr>)]"
  by (simp add: ReconcileConfig_def reconcile_deleted_config_def reconcileDeleteConfig_def observe_config_def
      revokeKubeadmTokenOnDelete_def kubeadmTokenRefresher_def EffectiveDistribution_def resolveRole_def
      RevokeWorkerToken_def trustedWorkloadClient_def verified workloadClient_def fixed trusted0_def
      deleteBootstrapSecret_def is_named_def option_or_empty_def release_config_def set_finalizer_def
      forget_token_def observed_def bst0_def token_secret_name_def runs)

lemma bst0_empty [simp]: "bs_log bst0 = []"
  by (simp add: bst0_def)

lemma deletion_pass: "ReconcileConfig deletion_env bst0 =
    (fst (ReconcileConfig deletion_env bst0), snd (ReconcileConfig deletion_env bst0))"
  by simp

lemma worker_tokens_need_trust_witness:
  "TokenDeleted sanitized0 ''bootstrap-token-abcdef'' \<in> set (bs_log (snd (ReconcileConfig deletion_env bst0))) \<and>
   genuine deletion_env bcluster0 sanitized0"
  using worker_tokens_need_trust[OF deletion_pass bst0_empty, of "TokenDeleted sanitized0 ''bootstrap-token-abcdef''"]
  by (simp add: deletion_run)

lemma secrets_read_at_home_witness:
  "SecretRead ''ns'' ''c-kubeconfig'' \<in> set (bs_log (snd (ReconcileConfig deletion_env bst0))) \<and>
   g_namespace deleted_worker = ''ns''"
  using secrets_read_at_home[OF deletion_pass bst0_empty, of "''ns''" "''c-kubeconfig''"]
  by (simp add: deletion_run)



section \<open>The render of a control-plane node\<close>

definition quiet_env :: benv where
  "quiet_env = benv0\<lparr>b_push_wired := False\<rparr>"

definition cp_data :: template_data where
  "cp_data = fillTemplateData ''k0s'' (g_spec config0) [] no_material
     (base_data config0 bmachine0 bcluster0 ''control-plane'' ''pw'' ''vsphere://1'')"

lemma cp_valid: "validateTemplateData toy_render (cp_data\<lparr>td_cp_role := [], td_vip := None, td_endpoint := None\<rparr>) = []"
  by code_simp

lemma cp_rendered:
  "Render toy_render ''k0s'' (cp_data\<lparr>td_cp_role := [], td_vip := None, td_endpoint := None\<rparr>) = Inr ''#cloud-config''"
  by (simp add: Render_def distributionTemplates_def renderTemplate_def cp_valid)
    (simp add: toy_render_def cp_data_def fillTemplateData_def base_data_def is_metal3_def bmachine0_def Let_def)

lemma quiet_fields [simp]:
  "b_config quiet_env n = Inr config0" "b_owner_machine quiet_env n = Inr (Some bmachine0)"
  "b_owner_cluster quiet_env n = Inr (Some bcluster0)" "b_write quiet_env n = None"
  "b_secret quiet_env n ns name = Inr (bsecret0 name)" "\<not> b_push_wired quiet_env" "b_render quiet_env = toy_render"
  by (simp_all add: quiet_env_def benv0_def)

lemma config0_fields [simp]:
  "g_deletion config0 = None" "g_namespace config0 = ''ns''" "g_name config0 = ''cp-0''" "g_uid config0 = ''g-1''"
  "g_annotations config0 = Map.empty" "gs_data_secret (g_status config0) = None" "gs_token_id (g_status config0) = []"
  "cg_pause (g_spec config0) = False" "cg_role (g_spec config0) = ''control-plane''"
  "cg_distribution (g_spec config0) = ''k0s''" "cg_user_password_ref (g_spec config0) = None"
  "cg_user_password (g_spec config0) = ''pw''" "cg_cp_role (g_spec config0) = []" "cg_vip (g_spec config0) = None"
  by (simp_all add: config0_def fresh_status_def plain_spec_def)

lemma bmachine0_fields [simp]:
  "m_infra_kind bmachine0 = ''VSphereMachine''" "bm_provider_id bmachine0 = ''vsphere://1''"
  "bm_data_secret bmachine0 = None" "m_owners bmachine0 = [cp_owner]" "m_name bmachine0 = ''cp-0''"
  by (simp_all add: bmachine0_def)

lemma base_data_same: "g_spec c = g_spec config0 \<Longrightarrow>
    base_data c bmachine0 bcluster0 r p i = base_data config0 bmachine0 bcluster0 r p i"
  by (simp add: base_data_def Let_def)

lemma cp_generated:
  assumes "g_spec c = g_spec config0"
  shows "generateCloudConfigM quiet_env c bmachine0 bcluster0 s = (Inr (''#cloud-config'', no_material), s)"
proof -
  have data: "fillTemplateData ''k0s'' (g_spec c) addr no_material
      (base_data c bmachine0 bcluster0 ''control-plane'' ''pw'' ''vsphere://1'') = cp_data" for addr
    by (simp only: assms base_data_same[OF assms]) (simp add: cp_data_def fillTemplateData_def)
  have password: "resolveUserPassword quiet_env c = ret ''pw''"
    using assms by (simp add: resolveUserPassword_def)
  have provider: "provider_id_for_render quiet_env bmachine0 = ret ''vsphere://1''"
    by (simp add: provider_id_for_render_def is_metal3_def is_fleet_def getProviderID_def)
  have endpoint: "endpoint_for_render quiet_env c bmachine0 bcluster0 r = ret None" for r
    by (simp add: endpoint_for_render_def)
  have lb: "lb_endpoint_data quiet_env bmachine0 bcluster0 r td = ret td" for r td
    by (simp add: lb_endpoint_data_def is_kubevirt_def)
  have control: "applyControlPlaneRenderData quiet_env c bcluster0 ''control-plane'' (cp_data\<lparr>td_endpoint := None\<rparr>) =
      ret (cp_data\<lparr>td_cp_role := [], td_vip := None, td_endpoint := None\<rparr>)"
    using assms by (simp add: applyControlPlaneRenderData_def report_etcd_def Let_def)
  have "renderCloudConfigM quiet_env ''k0s'' c bmachine0 bcluster0 ''control-plane'' addr =
      ret (''#cloud-config'', no_material)" for addr
    by (simp add: renderCloudConfigM_def supportedDistributions_def password provider endpoint lb data control
        cp_rendered render_error_of_def)
  then show ?thesis
    using assms by (simp add: generateCloudConfigM_def EffectiveDistribution_def resolveRole_def ret_def)
qed

lemma label0 [simp]: "bs_labels (bsecret0 name) cluster_name_label = Some ''c''"
  by (simp add: bsecret0_def)

lemma not_embedded: "\<not> embeds config0 ''#cloud-config'' ''vsphere://1''"
  by code_simp

lemma quiet_data:
  assumes "bs_config s = c" "g_spec c = g_spec config0" "gs_data_secret (g_status c) = None"
    and "g_namespace c = ''ns''" "g_name c = ''cp-0''"
  shows "\<exists>new s'. reconcileBootstrapData quiet_env bmachine0 bcluster0 s = (Inr (seconds 5), s') \<and>
    bs_log s' = bs_log s @ [SecretRead ''ns'' ''cp-0'', DataSecretUpdated (bsecret0 ''cp-0'') new]"
proof -
  have not: "\<not> embeds c ''#cloud-config'' ''vsphere://1''"
    using not_embedded assms(2) by (simp add: embeds_def)
  have start: "reconcileBootstrapData quiet_env bmachine0 bcluster0 s =
      generate_data quiet_env bmachine0 bcluster0 ''vsphere://1'' s"
    using assms(1,3)
    by (simp add: reconcileBootstrapData_def current_provider_id_def getProviderID_def waitForInfraProviderID_def
        is_metal3_def is_fleet_def align_secret_name_def names_differ_def is_named_def option_or_empty_def
        recorded_data_def bindA_def get_config_def getsA_def ret_def)
  have name: "secret_name c bmachine0 = ''cp-0''"
    using assms(3,5) by (simp add: secret_name_def recorded_name_def or_default_def is_named_def option_or_empty_def)
  have "bootstrapSecretBelongsTo (bsecret0 ''cp-0'') c ''c''"
    by (simp add: bootstrapSecretBelongsTo_def ann_def)
  then obtain new s2 where store: "store_data quiet_env c bcluster0 ''cp-0'' ''#cloud-config'' s = (Inr (), s2)"
    "bs_log s2 = bs_log s @ [SecretRead ''ns'' ''cp-0'', DataSecretUpdated (bsecret0 ''cp-0'') new]"
    using assms(4) by (simp add: store_data_def runs)
  have "\<exists>s3. generate_data quiet_env bmachine0 bcluster0 ''vsphere://1'' s = (Inr (seconds 5), s3) \<and>
      bs_log s3 = bs_log s2"
    using assms(1) store(1) not
    by (simp add: generate_data_def cp_generated[OF assms(2)] name record_render_def finish_data_def
        bindA_def tryA_def get_config_def getsA_def mod_status_def modA_def ret_def)
  with start store(2) show ?thesis by auto
qed

lemma quiet_live:
  assumes "bs_config s = observed config0"
  shows "\<exists>new s'. reconcile_live_config quiet_env config0 s = (Inr (seconds 5), s') \<and>
    bs_log s' = bs_log s @ [SecretRead ''ns'' ''cp-0'', DataSecretUpdated (bsecret0 ''cp-0'') new]"
proof -
  define s1 where "s1 = s\<lparr>bs_config := (observed config0)\<lparr>g_finalizer := True\<rparr>, bs_tick := Suc (Suc (bs_tick s))\<rparr>"
  obtain new s' where new: "reconcileBootstrapData quiet_env bmachine0 bcluster0 s1 = (Inr (seconds 5), s')"
    "bs_log s' = bs_log s1 @ [SecretRead ''ns'' ''cp-0'', DataSecretUpdated (bsecret0 ''cp-0'') new]"
    using quiet_data[of s1 "bs_config s1"] by (auto simp: s1_def observed_def)
  have "reconcile_live_config quiet_env config0 s = (Inr (seconds 5), s')"
    using assms new(1)[unfolded s1_def]
    by (simp add: reconcile_live_config_def set_finalizer_def reconcile_in_cluster_def config_paused_def
        resolveRole_def report_data_def seconds_def ns_per_s_def runs)
  with new(2) show ?thesis by (auto simp: s1_def)
qed

lemma quiet_run:
  "\<exists>new. DataSecretUpdated (bsecret0 ''cp-0'') new \<in> set (bs_log (snd (ReconcileConfig quiet_env bst0)))"
proof -
  define s1 where "s1 = bst0\<lparr>bs_tick := Suc 0, bs_config := observed config0\<rparr>"
  obtain new s' where "reconcile_live_config quiet_env config0 s1 = (Inr (seconds 5), s')"
    "bs_log s' = bs_log s1 @ [SecretRead ''ns'' ''cp-0'', DataSecretUpdated (bsecret0 ''cp-0'') new]"
    using quiet_live[of s1] by (auto simp: s1_def)
  then show ?thesis
    by (cases "patched_view (bs_config s') = patched_view config0")
      (auto simp: ReconcileConfig_def observe_config_def observed_def bst0_def s1_def flushed_def flush_config_def runs)
qed

lemma foreign_secret_not_overwritten_witness:
  "\<exists>new. DataSecretUpdated (bsecret0 ''cp-0'') new \<in> set (bs_log (snd (ReconcileConfig quiet_env bst0))) \<and>
     bootstrapSecretBelongsTo (bsecret0 ''cp-0'') config0 ''c'' \<and> bs_name new = ''cp-0''"
proof -
  obtain new where new: "DataSecretUpdated (bsecret0 ''cp-0'') new \<in> set (bs_log (snd (ReconcileConfig quiet_env bst0)))"
    using quiet_run by blast
  have "bs_name (bsecret0 ''cp-0'') = ''cp-0''" by (simp add: bsecret0_def)
  then show ?thesis
    using new foreign_secret_not_overwritten[OF prod.collapse[symmetric] bst0_empty new] by auto
qed


section \<open>A push token\<close>

text \<open>A KubeVirt node waits for the LoadBalancer after its push token has been issued.\<close>

definition push_machine :: bmachine where
  "push_machine = bmachine0\<lparr>m_infra_kind := ''KubevirtMachine''\<rparr>"

definition push_env :: benv where
  "push_env = benv0\<lparr>b_owner_machine := \<lambda>_. Inr (Some push_machine)\<rparr>"

lemma push_fields [simp]:
  "b_config push_env n = Inr config0" "b_owner_machine push_env n = Inr (Some push_machine)"
  "b_owner_cluster push_env n = Inr (Some bcluster0)" "b_write push_env n = None"
  "b_secret push_env n ns name = Inr (bsecret0 name)" "b_push_wired push_env" "b_push_ca push_env = ''<ca>''"
  "b_push_server push_env = ''https://m:6443''" "b_push_token push_env n = Inr ''tok''"
  "b_service push_env n ns name = Inl NotFound" "m_infra_kind push_machine = ''KubevirtMachine''"
  "bm_provider_id push_machine = ''vsphere://1''" "bm_data_secret push_machine = None"
  "m_owners push_machine = [cp_owner]" "bs_owners (bsecret0 name) = [cp_owner]"
  by (simp_all add: push_env_def benv0_def push_machine_def bsecret0_def)

lemma push_generated:
  assumes "g_spec c = g_spec config0"
  shows "\<exists>s'. generateCloudConfigM push_env c push_machine bcluster0 s = (Inl LBEndpointNotReady, s') \<and>
    PushTokenIssued (kubeconfigWriterName push_env ''c'') \<in> set (bs_log s')"
  using assms
  by (simp add: generateCloudConfigM_def EffectiveDistribution_def resolveRole_def renderCloudConfigM_def
      supportedDistributions_def resolveUserPassword_def provider_id_for_render_def is_metal3_def is_fleet_def
      getProviderID_def endpoint_for_render_def supportsManagementEndpoint_def resolve_endpoint_def
      requireOwnedStaging_def controller_ref_def cp_owner_def lb_endpoint_data_def is_kubevirt_def fillTemplateData_def
      base_data_def lb_service_name_def getControlPlaneLBEndpoint_def Let_def runs)

lemma push_data:
  assumes "g_spec (bs_config s) = g_spec config0" "gs_data_secret (g_status (bs_config s)) = None"
  shows "\<exists>s'. reconcileBootstrapData push_env push_machine bcluster0 s = (Inr (seconds 10), s') \<and>
    PushTokenIssued (kubeconfigWriterName push_env ''c'') \<in> set (bs_log s')"
proof -
  have start: "reconcileBootstrapData push_env push_machine bcluster0 s =
      generate_data push_env push_machine bcluster0 ''vsphere://1'' s"
    using assms(2)
    by (simp add: reconcileBootstrapData_def current_provider_id_def getProviderID_def waitForInfraProviderID_def
        is_metal3_def is_fleet_def align_secret_name_def names_differ_def is_named_def option_or_empty_def
        recorded_data_def bindA_def get_config_def getsA_def ret_def)
  obtain s1 where "generateCloudConfigM push_env (bs_config s) push_machine bcluster0 s = (Inl LBEndpointNotReady, s1)"
    "PushTokenIssued (kubeconfigWriterName push_env ''c'') \<in> set (bs_log s1)"
    using push_generated[OF assms(1), of s] by (elim exE conjE)
  then show ?thesis
    by (simp add: start generate_data_def generation_error_def bindA_def tryA_def get_config_def getsA_def ret_def)
qed

lemma push_live:
  assumes "bs_config s = observed config0"
  shows "\<exists>s'. reconcile_live_config push_env config0 s = (Inr (seconds 10), s') \<and>
    PushTokenIssued (kubeconfigWriterName push_env ''c'') \<in> set (bs_log s')"
proof -
  define s1 where "s1 = s\<lparr>bs_config := (observed config0)\<lparr>g_finalizer := True\<rparr>, bs_tick := Suc (Suc (bs_tick s))\<rparr>"
  obtain s' where "reconcileBootstrapData push_env push_machine bcluster0 s1 = (Inr (seconds 10), s')"
    "PushTokenIssued (kubeconfigWriterName push_env ''c'') \<in> set (bs_log s')"
    using push_data[of s1] by (auto simp: s1_def observed_def)
  then show ?thesis
    using assms unfolding s1_def
    by (simp add: reconcile_live_config_def set_finalizer_def reconcile_in_cluster_def config_paused_def
        resolveRole_def report_data_def seconds_def ns_per_s_def runs)
qed

lemma push_run:
  "PushTokenIssued (kubeconfigWriterName push_env ''c'') \<in> set (bs_log (snd (ReconcileConfig push_env bst0)))"
proof -
  define s1 where "s1 = bst0\<lparr>bs_tick := Suc 0, bs_config := observed config0\<rparr>"
  obtain s' where "reconcile_live_config push_env config0 s1 = (Inr (seconds 10), s')"
    "PushTokenIssued (kubeconfigWriterName push_env ''c'') \<in> set (bs_log s')"
    using push_live[of s1] by (auto simp: s1_def)
  then show ?thesis
    by (cases "patched_view (bs_config s') = patched_view config0")
      (auto simp: ReconcileConfig_def observe_config_def observed_def bst0_def s1_def flushed_def flush_config_def runs)
qed

lemma push_token_has_a_target_witness:
  "PushTokenIssued (kubeconfigWriterName push_env ''c'') \<in> set (bs_log (snd (ReconcileConfig push_env bst0))) \<and>
   owned_staging push_env push_machine bcluster0"
  using push_token_has_a_target[OF prod.collapse[symmetric] bst0_empty push_run] push_run by auto


section \<open>A paused KairosConfig\<close>

definition paused0 :: kconfig where
  "paused0 = config0\<lparr>g_spec := (g_spec config0)\<lparr>cg_pause := True\<rparr>\<rparr>"

definition paused_env :: benv where
  "paused_env = benv0\<lparr>b_config := \<lambda>_. Inr paused0\<rparr>"

lemma paused_config_run:
  "bs_log (snd (ReconcileConfig paused_env bst0)) = [ConfigPatched ((observed paused0)\<lparr>g_finalizer := True\<rparr>)]"
  by (simp add: ReconcileConfig_def paused_env_def benv0_def observe_config_def observed_def bst0_def flushed_def
      reconcile_live_config_def set_finalizer_def flush_config_def patched_view_def paused0_def config0_def
      plain_spec_def fresh_status_def runs)

lemma paused_config_is_quiet_witness:
  "only_observed paused0 ((observed paused0)\<lparr>g_finalizer := True\<rparr>)"
proof -
  have "paused_config paused_env paused0" by (simp add: paused_config_def paused0_def)
  moreover have "b_config paused_env n = Inr paused0" "g_deletion paused0 = None" for n
    by (simp_all add: paused_env_def paused0_def)
  ultimately show ?thesis
    using paused_config_is_quiet[of paused_env paused0 bst0, OF _ _ _ prod.collapse[symmetric] bst0_empty]
    by (auto simp: paused_config_run)
qed


section \<open>A finished pass\<close>

definition done_config :: kconfig where
  "done_config = config0\<lparr>g_status := fresh_status\<lparr>gs_data_secret := Some ''cp-0''\<rparr>\<rparr>"

definition metal_machine :: bmachine where
  "metal_machine = bmachine0\<lparr>m_infra_kind := ''Metal3Machine''\<rparr>"

lemma finished_means_data_witness:
  "finished (bs_config (snd (reconcileBootstrapData quiet_env metal_machine bcluster0 (bst0\<lparr>bs_config := done_config\<rparr>))))"
proof -
  have fields: "g_spec done_config = g_spec config0" "g_namespace done_config = ''ns''"
    "gs_data_secret (g_status done_config) = Some ''cp-0''" "m_infra_kind metal_machine = ''Metal3Machine''"
    "bm_provider_id metal_machine = ''vsphere://1''" "bm_data_secret metal_machine = None"
    by (simp_all add: done_config_def metal_machine_def config0_def)
  have "fst (reconcileBootstrapData quiet_env metal_machine bcluster0 (bst0\<lparr>bs_config := done_config\<rparr>)) = Inr 0"
    by (simp add: reconcileBootstrapData_def current_provider_id_def getProviderID_def waitForInfraProviderID_def
        is_metal3_def align_secret_name_def names_differ_def is_named_def option_or_empty_def recorded_data_def
        check_existing_def reconcileKubeadmWorkerToken_def kubeadmTokenRefresher_def EffectiveDistribution_def
        needs_regeneration_def mark_created_def settle_userdata_def is_kubevirt_def fields runs)
  then have "reconcileBootstrapData quiet_env metal_machine bcluster0 (bst0\<lparr>bs_config := done_config\<rparr>) =
      (Inr 0, snd (reconcileBootstrapData quiet_env metal_machine bcluster0 (bst0\<lparr>bs_config := done_config\<rparr>)))"
    by (metis prod.collapse)
  from finished_means_data[OF this] show ?thesis by simp
qed


section \<open>Tokens and the JoinConfiguration\<close>


lemma toy_parts_law: "token_parts_law benv0"
  by (simp add: token_parts_law_def benv0_def toy_parts_def)

lemma minted_token_reads_back_witness:
  "bootstrapTokenFromSecret benv0 (new_token_secret benv0 ''abcdef'' ''s3cret'' ''g-1'') ''abcdef'' =
     Some ''abcdef.s3cret''"
  using minted_token_reads_back[OF toy_parts_law, of "''abcdef.s3cret''" "''abcdef''" "''s3cret''" "''g-1''"]
  by (simp add: benv0_def toy_parts_def)

definition own_join :: join_config where
  "own_join = empty_join\<lparr>jc_patches := ''/etc/kubernetes/p'', jc_node_name := ''w-0''\<rparr>"

definition join_config0 :: kconfig where
  "join_config0 = config0\<lparr>g_spec := plain_spec\<lparr>cg_role := ''worker'', cg_distribution := ''kubeadm'',
     cg_kubeadm := Some \<lparr>ka_join = Some own_join\<rparr>\<rparr>\<rparr>"

definition join_request0 :: join_request where
  "join_request0 = token_request join_config0 bmachine0 bcluster0"

lemma join_rendered:
  "\<exists>jc. fst (renderJoinConfiguration benv0 join_request0 bmachine0 trusted0 ''abcdef.s3cret'' bst0) = Inr (jc, ''join'')"
  by (simp add: renderJoinConfiguration_def join_request0_def token_request_def join_config0_def config0_def
      kubeadmJoinEndpoint_def plain_spec_def benv0_def ret_def Let_def)

lemma join_configuration_is_pinned_witness:
  "\<exists>jc. fst (renderJoinConfiguration benv0 join_request0 bmachine0 trusted0 ''abcdef.s3cret'' bst0) = Inr (jc, ''join'') \<and>
     pins trusted0 ''abcdef.s3cret'' jc"
  using join_rendered join_configuration_is_pinned by metis

lemma admitted_join_configuration_renders_witness:
  "\<exists>jc. fst (renderJoinConfiguration benv0 join_request0 bmachine0 trusted0 ''abcdef.s3cret'' bst0) = Inr (jc, ''join'') \<and>
     ValidatePatchesDirectory (jc_patches jc) = None"
proof -
  have "validateKubeadmConfig toy_subdomain (\<lambda>_. None) (g_spec join_config0) = []" by code_simp
  moreover have "jr_config join_request0 = Some join_config0" by (simp add: join_request0_def token_request_def)
  ultimately show ?thesis using join_rendered admitted_join_configuration_renders by metis
qed


section \<open>A Role of an older release\<close>

definition wide_role :: role where
  "wide_role = \<lparr>ro_name = ''kairos-kubeconfig-writer-c'', ro_namespace = ''ns'', ro_labels = Map.empty,
     ro_owners = [\<lparr>or_kind = ''Cluster'', or_name = ''c'', or_uid = ''u'', or_controller = True,
       or_api = ''cluster.x-k8s.io/v1beta2''\<rparr>],
     ro_rules = [([''''], [''secrets''], [], [''get'', ''patch''])]\<rparr>"

definition narrow_role :: role where
  "narrow_role = wide_role\<lparr>ro_rules :=
     [([''''], [''secrets''], [''c-kubeconfig-push'', ''c-etcd-status''], [''patch''])]\<rparr>"

lemma wide_role_narrowed:
  "StartMigration benv0 (Inr [wide_role]) (\<lambda>_. None) = [narrow_role]"
proof -
  have names: "stagingKubeconfigSecretName ''c'' = ''c-kubeconfig-push''"
    "etcdStatusSecretName ''c'' = ''c-etcd-status''"
    by (simp_all add: stagingKubeconfigSecretName_def etcdStatusSecretName_def)
  have target: "targetNodePushCluster benv0 wide_role = Some ''c''"
    by (simp add: targetNodePushCluster_def wide_role_def controller_ref_def groupMatches_def
        cluster_api_group_def kubeconfigWriterName_def writer_base_def)
  have rules: "intersectNodePushRules (ro_rules wide_role) ''c'' = ro_rules narrow_role"
    unfolding intersect_shape kept_names_def names
    by (simp add: wide_role_def narrow_role_def may_def grantedVerbs_def verbs_for.simps ruleHas_def)
  have differ: "ro_rules wide_role \<noteq> ro_rules narrow_role"
    by (simp add: wide_role_def narrow_role_def)
  have "narrowed_role benv0 wide_role = Some narrow_role"
    using differ by (simp add: narrowed_role_def target rules) (simp add: narrow_role_def)
  then show ?thesis by (simp add: StartMigration_def)
qed

lemma migration_only_narrows_witness:
  "narrow_role \<in> set (StartMigration benv0 (Inr [wide_role]) (\<lambda>_. None)) \<and>
   (\<exists>roles ro cn owner. (Inr [wide_role] :: apierr + role list) = Inr roles \<and> ro \<in> set roles \<and>
    ro_name ro = kubeconfigWriterName benv0 cn \<and> cn \<noteq> [] \<and>
    controller_ref (ro_owners ro) = Some owner \<and> or_kind owner \<in> {''Cluster'', ''KairosConfig''} \<and>
    narrow_role = ro\<lparr>ro_rules := intersectNodePushRules (ro_rules ro) cn\<rparr> \<and>
    (\<forall>g r name v. authorizes (ro_rules narrow_role) g r name v \<longrightarrow>
       authorizes (ro_rules ro) g r name v \<and> authorizes (nodePushAllowedRules cn) g r name v))"
proof -
  have "narrow_role \<in> set (StartMigration benv0 (Inr [wide_role]) (\<lambda>_. None))"
    by (simp add: wide_role_narrowed)
  then show ?thesis
    using migration_only_narrows[of narrow_role benv0 "Inr [wide_role]" "\<lambda>_. None"] by (intro conjI)
qed

end
