(* ===== verification/Ssh_Fallback.thy ===== *)
theory Ssh_Fallback
  imports Admission Kubeconfig_Publish
begin

text \<open>
  The SSH fallback (\<open>ssh_fallback_worker.go\<close>, \<open>ssh_fallback_controller.go\<close>): a control plane
  whose node never pushes its kubeconfig may have it fetched over SSH. The reconciler decides
  when, a job of the worker pool does it, and the result goes into the condition. The pool is
  \<open>Ssh_Pool\<close>.

  What \<open>golang.org/x/crypto/ssh\<close> and the node answer is a parameter: whether a known-hosts file
  and a private key parse, how a dial ends, and what a remote command writes. A host-key
  callback is the content of the file it was made from, and a signer the key it was made from.
  The budget of a job and its other timeouts are answers like any other.
\<close>


section \<open>Data\<close>

datatype category = FbOK | FbMisconfigured | HostKeyMismatch | AuthFailed | DialTimeout | DialRefused
  | RemoteFileMissing | PayloadInvalid | WriteFailed

text \<open>\<open>types.NamespacedName\<close>: the namespace and the name.\<close>

datatype fb_key = NamespacedName string string

record fb_job =
  jb_key :: fb_key
  jb_cluster :: cluster
  jb_spec :: ssh_fallback
  jb_distribution :: string
  jb_host :: string
  jb_server :: string

text \<open>\<open>ssh.ClientConfig\<close>.\<close>

record ssh_config =
  sc_user :: string
  sc_auth :: "string list"
  sc_callback :: "string option"

text \<open>What \<open>classifyDialError\<close> asks of an error: whether it is a context's, whether it is a
  \<open>net.OpError\<close> and then whether that is a timeout, and its text.\<close>

record dial_error =
  de_context :: bool
  de_op :: "bool option"
  de_text :: string

text \<open>What the fallback reads of a Machine: its owners and its addresses with their types.\<close>

record fb_machine =
  fm_owners :: "owner_ref list"
  fm_addresses :: "(string \<times> string) list"

datatype fb_effect =
    ConditionPatched kstatus
  | JobStarted fb_job
  | Dialed string ssh_config
  | RemoteCommand string
  | ContractUpserted "ksecret option" ksecret
  | FallbackEvent event_type category

record fb_env =
  f_env :: env
  f_now :: time
  f_kcp :: "nat \<Rightarrow> apierr + kcp \<times> ssh_fallback option"
  f_helper :: "nat \<Rightarrow> apierr option"
  f_patch :: "nat \<Rightarrow> apierr option"
  f_cluster :: "nat \<Rightarrow> apierr + cluster"
  f_secret :: "nat \<Rightarrow> string \<Rightarrow> string \<Rightarrow> apierr + (string \<rightharpoonup> string)"
  f_machines :: "nat \<Rightarrow> apierr + fb_machine list"
  f_eval :: duration
  f_worker :: bool
  f_in_flight :: bool
  f_accepts :: bool
  f_recorder :: bool
  f_callback :: "nat \<Rightarrow> string \<Rightarrow> bool"
  f_signer :: "string \<Rightarrow> bool"
  f_dial :: "nat \<Rightarrow> string \<Rightarrow> ssh_config \<Rightarrow> dial_error option"
  f_session :: "nat \<Rightarrow> bool"
  f_run :: "nat \<Rightarrow> string \<Rightarrow> string list \<times> bool"
  f_contract :: "nat \<Rightarrow> string \<Rightarrow> string \<Rightarrow> apierr + ksecret"
  f_write :: "nat \<Rightarrow> apierr option"

record fb_st =
  fb_tick :: nat
  fb_kcp :: kcp
  fb_log :: "fb_effect list"

text \<open>The reconciler's operations fail with an error, the worker's with a category.\<close>

type_synonym 'a fop = "(fb_st, err, 'a) act"
type_synonym 'a wop = "(fb_st, category, 'a) act"

definition ftick :: "(fb_st, 'e, nat) act" where
  "ftick s = (Inr (fb_tick s), s\<lparr>fb_tick := Suc (fb_tick s)\<rparr>)"

definition flog :: "fb_effect \<Rightarrow> (fb_st, 'e, unit) act" where
  "flog e = modA (\<lambda>s. s\<lparr>fb_log := fb_log s @ [e]\<rparr>)"

definition fread :: "(nat \<Rightarrow> apierr + 'a) \<Rightarrow> 'a fop" where
  "fread f = bindA ftick (\<lambda>n. case f n of Inl x \<Rightarrow> throw (Api x) | Inr v \<Rightarrow> ret v)"

text \<open>An answer to the n-th request, for the worker's code that looks at it itself.\<close>

definition fask :: "(nat \<Rightarrow> 'a) \<Rightarrow> (fb_st, 'e, 'a) act" where
  "fask f = bindA ftick (\<lambda>n. ret (f n))"

definition fmark :: "string \<Rightarrow> severity \<Rightarrow> unit fop" where
  "fmark reason sev = modA (\<lambda>s. s\<lparr>fb_kcp := set_cond kubeconfig_ready (cond_false reason sev) (fb_kcp s)\<rparr>)"

text \<open>\<open>patchHelper.Patch(ctx, kcp)\<close>.\<close>

definition fpatch :: "fb_env \<Rightarrow> unit fop" where
  "fpatch F = bindA ftick (\<lambda>n. case f_patch F n of
     Some x \<Rightarrow> throw (Api x)
   | None \<Rightarrow> bindA (getsA fb_kcp) (\<lambda>k. flog (ConditionPatched (k_status k))))"

text \<open>An operation of the control-plane controller that only reads.\<close>

definition in_control_plane :: "'a op \<Rightarrow> 'a fop" where
  "in_control_plane m s =
     (case m \<lparr>s_tick = fb_tick s, s_kcp = fb_kcp s, s_identity_checked = None,
              s_orphan_checked = None, s_log = []\<rparr> of
        (r, t) \<Rightarrow> (r, s\<lparr>fb_tick := s_tick t\<rparr>))"


section \<open>The worker's functions\<close>

definition max_payload :: nat where "max_payload = 1048576"

text \<open>\<open>boundedBuffer\<close>.\<close>

record bounded_buffer =
  bb_buf :: string
  bb_cap :: nat
  bb_overflowed :: bool

definition bb_write :: "bounded_buffer \<Rightarrow> string \<Rightarrow> bounded_buffer" where
  "bb_write b p =
     (if bb_overflowed b then b
      else let remaining = bb_cap b - length (bb_buf b)
      in if length p \<le> remaining
         then (let b' = b\<lparr>bb_buf := bb_buf b @ p\<rparr>
               in if bb_cap b \<le> length (bb_buf b') then b'\<lparr>bb_overflowed := True\<rparr> else b')
         else b\<lparr>bb_buf := bb_buf b @ take remaining p, bb_overflowed := True\<rparr>)"

definition bb_bytes :: "bounded_buffer \<Rightarrow> string" where
  "bb_bytes b = (if bb_overflowed b then [] else bb_buf b)"

definition bb_new :: "nat \<Rightarrow> bounded_buffer" where
  "bb_new cap = \<lparr>bb_buf = [], bb_cap = cap, bb_overflowed = False\<rparr>"

text \<open>\<open>containsCI\<close>: the inner loop at one position, and the loop over the positions.\<close>

fun matches_ci :: "string \<Rightarrow> string \<Rightarrow> bool" where
  "matches_ci _ [] = True"
| "matches_ci [] (_ # _) = False"
| "matches_ci (h # hs) (n # ns) = (lower_char h = lower_char n \<and> matches_ci hs ns)"

definition containsCI :: "string \<Rightarrow> string \<Rightarrow> bool" where
  "containsCI haystack needle =
     (if length needle = 0 then False
      else if length haystack < length needle then False
      else list_ex (\<lambda>i. matches_ci (drop i haystack) needle) [0 ..< Suc (length haystack - length needle)])"

definition classifyDialError :: "dial_error \<Rightarrow> category" where
  "classifyDialError e =
     (if de_context e then DialTimeout
      else case de_op e of
        Some timeout \<Rightarrow> if timeout then DialTimeout else DialRefused
      | None \<Rightarrow>
          if containsCI (de_text e) ''knownhosts'' \<or> containsCI (de_text e) ''host key'' then HostKeyMismatch
          else if containsCI (de_text e) ''unable to authenticate''
               \<or> containsCI (de_text e) ''no supported methods remain'' then AuthFailed
          else DialRefused)"

definition remoteKubeconfigPath :: "string \<Rightarrow> string" where
  "remoteKubeconfigPath distribution =
     (if distribution = ''k0s'' \<or> distribution = [] then ''/var/lib/k0s/pki/admin.conf''
      else if distribution = ''k3s'' then ''/etc/rancher/k3s/k3s.yaml''
      else [])"

definition secretRefNamespace :: "secret_ref \<Rightarrow> string \<Rightarrow> string" where
  "secretRefNamespace ref parentNamespace =
     (if sr_namespace ref \<noteq> [] then sr_namespace ref else parentNamespace)"

definition shellQuotePath :: "string \<Rightarrow> string" where
  "shellQuotePath p =
     [CHR 0x27] @
     concat (map (\<lambda>c. if c = CHR 0x27 then [CHR 0x27] @ [CHR 0x5C, CHR 0x27] @ [CHR 0x27] else [c]) p) @
     [CHR 0x27]"

text \<open>\<open>loadKnownHosts\<close> and \<open>loadIdentity\<close> read the key of a referenced Secret in the same way.\<close>

definition load_ref :: "fb_env \<Rightarrow> fb_job \<Rightarrow> secret_ref option \<Rightarrow> string \<Rightarrow> string wop" where
  "load_ref F job ro defaultKey =
     (case ro of
        None \<Rightarrow> throw FbMisconfigured
      | Some ref \<Rightarrow>
          if sr_name ref = [] then throw FbMisconfigured
          else let key = (if sr_key ref = [] then defaultKey else sr_key ref) in
          bindA (fask (\<lambda>n. f_secret F n (secretRefNamespace ref (c_namespace (jb_cluster job))) (sr_name ref)))
          (\<lambda>r. case r of
             Inl _ \<Rightarrow> throw FbMisconfigured
           | Inr data \<Rightarrow> if ann data key = [] then throw FbMisconfigured else ret (ann data key)))"

definition loadKnownHosts :: "fb_env \<Rightarrow> fb_job \<Rightarrow> string wop" where
  "loadKnownHosts F job =
     bindA (load_ref F job (sf_known_hosts (jb_spec job)) ''known_hosts'') (\<lambda>data.
     bindA (fask (\<lambda>n. f_callback F n data)) (\<lambda>parsed.
       if \<not> parsed then throw FbMisconfigured else ret data))"

definition loadIdentity :: "fb_env \<Rightarrow> fb_job \<Rightarrow> string wop" where
  "loadIdentity F job =
     bindA (load_ref F job (sf_identity (jb_spec job)) ''ssh-privatekey'') (\<lambda>pem.
       if \<not> f_signer F pem then throw FbMisconfigured else ret pem)"

text \<open>What a session's output leaves in the buffer, the output coming in pieces.\<close>

definition read_output :: "string list \<Rightarrow> bounded_buffer" where
  "read_output chunks = fold (\<lambda>p b. bb_write b p) chunks (bb_new (max_payload + 1))"

definition runRemoteCat :: "fb_env \<Rightarrow> string \<Rightarrow> string wop" where
  "runRemoteCat F path =
     bindA (fask (f_session F)) (\<lambda>opened.
     if \<not> opened then throw RemoteFileMissing
     else let cmd = ''cat '' @ shellQuotePath path in
       bindA (flog (RemoteCommand cmd)) (\<lambda>_.
       bindA (fask (\<lambda>n. f_run F n cmd)) (\<lambda>(chunks, failed).
         if failed then throw RemoteFileMissing
         else let stdout = read_output chunks in
           if bb_overflowed stdout then throw PayloadInvalid
           else if bb_bytes stdout = [] then throw PayloadInvalid
           else ret (bb_bytes stdout))))"

definition cluster_owner :: "cluster \<Rightarrow> owner_ref" where
  "cluster_owner cl = \<lparr>or_kind = ''Cluster'', or_name = c_name cl, or_uid = c_uid cl,
     or_controller = False, or_api = ''cluster.x-k8s.io/v1beta2''\<rparr>"

text \<open>The function \<open>CreateOrUpdate\<close> is given.\<close>

definition fetched_secret :: "cluster \<Rightarrow> ksecret \<Rightarrow> string \<Rightarrow> ksecret" where
  "fetched_secret cl sec sanitized = sec\<lparr>
     sec_labels := (sec_labels sec)(cluster_name_label \<mapsto> c_name cl),
     sec_annotations := (sec_annotations sec)(source_ann \<mapsto> source_ssh),
     sec_type := secret_type,
     sec_value := Some sanitized,
     sec_owners := upsert_owner (cluster_owner cl) (sec_owners sec)\<rparr>"

text \<open>\<open>controllerutil.CreateOrUpdate\<close>: create what is not there, otherwise update it if the
  function changes it.\<close>

definition upsert_contract ::
  "fb_env \<Rightarrow> string \<Rightarrow> string \<Rightarrow> (ksecret \<Rightarrow> ksecret) \<Rightarrow> unit wop" where
  "upsert_contract F ns name f =
     bindA (fask (\<lambda>n. f_contract F n ns name)) (\<lambda>r.
     let upsert = (\<lambda>old new. bindA (fask (f_write F)) (\<lambda>w. case w of
           Some _ \<Rightarrow> throw WriteFailed
         | None \<Rightarrow> flog (ContractUpserted old new)))
     in case r of
          Inl e \<Rightarrow> if e = NotFound then upsert None (f (empty_secret name)) else throw WriteFailed
        | Inr old \<Rightarrow> if f old = old then ret () else upsert (Some old) (f old))"

definition writeKubeconfigSecret :: "fb_env \<Rightarrow> fb_job \<Rightarrow> string \<Rightarrow> unit wop" where
  "writeKubeconfigSecret F job payload =
     (if jb_server job = [] then throw WriteFailed
      else case Sanitize (e_lib (f_env F)) payload (c_name (jb_cluster job)) (jb_server job) of
        Inl _ \<Rightarrow> throw WriteFailed
      | Inr sanitized \<Rightarrow>
          upsert_contract F (c_namespace (jb_cluster job))
            (contractKubeconfigSecretName (c_name (jb_cluster job)))
            (\<lambda>sec. fetched_secret (jb_cluster job) sec sanitized))"

definition ssh_port :: "ssh_fallback \<Rightarrow> int" where
  "ssh_port spec = (if sf_port spec \<noteq> 0 then sf_port spec else 22)"

definition dial :: "fb_env \<Rightarrow> string \<Rightarrow> ssh_config \<Rightarrow> unit wop" where
  "dial F addr cfg =
     bindA (flog (Dialed addr cfg)) (\<lambda>_.
     bindA (fask (\<lambda>n. f_dial F n addr cfg)) (\<lambda>r. case r of
       Some e \<Rightarrow> throw (classifyDialError e)
     | None \<Rightarrow> ret ()))"

definition execute :: "fb_env \<Rightarrow> fb_job \<Rightarrow> unit wop" where
  "execute F job =
     bindA (loadKnownHosts F job) (\<lambda>hostKeyCB.
     bindA (loadIdentity F job) (\<lambda>signer.
     let cfg = \<lparr>sc_user = sf_user (jb_spec job), sc_auth = [signer], sc_callback = Some hostKeyCB\<rparr> in
     if sc_callback cfg = None \<or> length (sc_auth cfg) = 0 then throw FbMisconfigured
     else
       bindA (dial F (join_host_port (jb_host job) (itoa (ssh_port (jb_spec job)))) cfg) (\<lambda>_.
       let path = remoteKubeconfigPath (jb_distribution job) in
       if path = [] then throw FbMisconfigured
       else bindA (runRemoteCat F path) (\<lambda>payload. writeKubeconfigSecret F job payload))))"

text \<open>A job up to the result it posts.\<close>

definition emitEvent :: "fb_env \<Rightarrow> category \<Rightarrow> unit wop" where
  "emitEvent F c =
     (if \<not> f_recorder F then ret ()
      else bindA (fask (f_kcp F)) (\<lambda>r. case r of
        Inl _ \<Rightarrow> ret ()
      | Inr _ \<Rightarrow> flog (FallbackEvent (if c = FbOK then Normal else Warning) c)))"

definition run_job :: "fb_env \<Rightarrow> fb_job \<Rightarrow> category wop" where
  "run_job F job =
     bindA (tryA (execute F job)) (\<lambda>r.
     let c = (case r of Inl c \<Rightarrow> c | Inr _ \<Rightarrow> FbOK)
     in bindA (emitEvent F c) (\<lambda>_. ret c))"

end
