(* ===== verification/Ssh_Reconcile.thy ===== *)
theory Ssh_Reconcile
  imports Ssh_Fallback
begin

text \<open>
  The sibling reconciler of the SSH fallback (\<open>ssh_fallback_controller.go\<close>): the gate, the
  Secrets and the host a job needs, one call of \<open>Reconcile\<close>, and what the result of a job does
  to the condition. \<open>f_in_flight\<close> and \<open>f_accepts\<close> are the answers of the pool to
  \<open>IsInFlight\<close> and \<open>Enqueue\<close>.
\<close>


section \<open>The gate\<close>

definition dialing_reason :: string where "dialing_reason = ''SSHFallbackDialing''"
definition failed_reason :: string where "failed_reason = ''SSHFallbackFailed''"
definition misconfigured_reason :: string where "misconfigured_reason = ''SSHFallbackMisconfigured''"

definition sshFallbackEvalRequeue :: duration where "sshFallbackEvalRequeue = minutes 1"

definition evalRequeue :: "fb_env \<Rightarrow> duration" where
  "evalRequeue F = (if f_eval F > 0 then f_eval F else sshFallbackEvalRequeue)"

definition activate_after :: "ssh_fallback \<Rightarrow> duration" where
  "activate_after ssh = (case sf_activate ssh of None \<Rightarrow> minutes 15 | Some d \<Rightarrow> d)"

definition evaluateEligibility :: "fb_env \<Rightarrow> kcp \<Rightarrow> ssh_fallback \<Rightarrow> bool \<times> duration" where
  "evaluateEligibility F k ssh =
     (case ks_conds (k_status k) kubeconfig_ready of
        None \<Rightarrow> (False, evalRequeue F)
      | Some c \<Rightarrow>
          if cd_status c then (False, evalRequeue F)
          else if cd_reason c \<notin> {''WaitingForNodePush'', failed_reason, misconfigured_reason}
          then (False, evalRequeue F)
          else case ks_last_push (k_status k) of
            None \<Rightarrow> (False, evalRequeue F)
          | Some t \<Rightarrow>
              let elapsed = f_now F - t in
              if elapsed < activate_after ssh
              then (let soon = go_div (activate_after ssh - elapsed) 2
                    in (False, if soon < evalRequeue F then evalRequeue F else soon))
              else (True, 0))"


section \<open>The Secrets and the host\<close>

text \<open>\<open>check\<close>: what is missing of one reference, at most one name.\<close>

definition check_ref :: "fb_env \<Rightarrow> secret_ref option \<Rightarrow> string \<Rightarrow> string \<Rightarrow> string \<Rightarrow> string list fop" where
  "check_ref F ro unsetLabel defaultKey clusterNamespace =
     (case ro of
        None \<Rightarrow> ret [unsetLabel]
      | Some ref \<Rightarrow>
          if sr_name ref = [] then ret [unsetLabel]
          else let key = (if sr_key ref = [] then defaultKey else sr_key ref) in
          bindA (tryA (fread (\<lambda>n. f_secret F n (secretRefNamespace ref clusterNamespace) (sr_name ref))))
          (\<lambda>r. case r of
             Inl e \<Rightarrow> ret (if e = Api NotFound then [sr_name ref] else [])
           | Inr data \<Rightarrow>
               ret (if ann data key = [] then [sr_name ref @ '' (empty key '' @ key @ '')''] else [])))"

definition missingSSHFallbackSecrets :: "fb_env \<Rightarrow> ssh_fallback \<Rightarrow> string \<Rightarrow> string list fop" where
  "missingSSHFallbackSecrets F ssh clusterNamespace =
     bindA (check_ref F (sf_known_hosts ssh) ''knownHostsSecretRef (unset)'' ''known_hosts'' clusterNamespace)
     (\<lambda>a. bindA (check_ref F (sf_identity ssh) ''identitySecretRef (unset)'' ''ssh-privatekey'' clusterNamespace)
     (\<lambda>b. ret (a @ b)))"

text \<open>The loop over \<open>status.addresses\<close>: the first of each sort, internal, external, any other.\<close>

fun prefer_address :: "string \<times> string \<Rightarrow> string \<times> string \<times> string \<Rightarrow> string \<times> string \<times> string" where
  "prefer_address (t, a) (internalIP, externalIP, anyIP) =
     (if a = [] then (internalIP, externalIP, anyIP)
      else if t = ''InternalIP'' then ((if internalIP = [] then a else internalIP), externalIP, anyIP)
      else if t = ''ExternalIP'' then (internalIP, (if externalIP = [] then a else externalIP), anyIP)
      else (internalIP, externalIP, (if anyIP = [] then a else anyIP)))"

definition preferredMachineAddress :: "fb_machine \<Rightarrow> string" where
  "preferredMachineAddress m =
     (case fold prefer_address (fm_addresses m) ([], [], []) of
        (internalIP, externalIP, anyIP) \<Rightarrow>
          if internalIP \<noteq> [] then internalIP else if externalIP \<noteq> [] then externalIP else anyIP)"

definition owned_address :: "kcp \<Rightarrow> fb_machine \<Rightarrow> string" where
  "owned_address k m =
     (case controller_ref (fm_owners m) of
        None \<Rightarrow> []
      | Some r \<Rightarrow> if or_uid r \<noteq> k_uid k then [] else preferredMachineAddress m)"

definition resolveControlPlaneHost :: "fb_env \<Rightarrow> kcp \<Rightarrow> string fop" where
  "resolveControlPlaneHost F k =
     bindA (fread (f_machines F)) (\<lambda>ms.
     case find (\<lambda>m. owned_address k m \<noteq> []) ms of
       None \<Rightarrow> throw (Failed ''no control-plane Machine with a usable address found'')
     | Some m \<Rightarrow> ret (owned_address k m))"


section \<open>Reconcile\<close>

definition fb_enqueue :: "fb_env \<Rightarrow> fb_job \<Rightarrow> unit fop" where
  "fb_enqueue F job = (if f_accepts F then flog (JobStarted job) else ret ())"

text \<open>From the gate on; the result is whether to patch on exit, and the delay.\<close>

definition dispatch_job ::
  "fb_env \<Rightarrow> kcp \<Rightarrow> ssh_fallback \<Rightarrow> fb_key \<Rightarrow> cluster \<Rightarrow> string \<Rightarrow> string \<Rightarrow> (bool \<times> duration) fop" where
  "dispatch_job F k ssh key cl host server =
     bindA (fmark dialing_reason SevInfo) (\<lambda>_.
     bindA (fb_enqueue F \<lparr>jb_key = key, jb_cluster = cl, jb_spec = ssh, jb_distribution = k_distribution k,
         jb_host = host, jb_server = server\<rparr>) (\<lambda>_.
     ret (True, evalRequeue F)))"

definition with_host ::
  "fb_env \<Rightarrow> kcp \<Rightarrow> ssh_fallback \<Rightarrow> fb_key \<Rightarrow> cluster \<Rightarrow> string \<Rightarrow> (bool \<times> duration) fop" where
  "with_host F k ssh key cl host =
     bindA (tryA (in_control_plane (resolveExpectedServer (f_env F) k cl))) (\<lambda>r. case r of
       Inl _ \<Rightarrow> ret (False, evalRequeue F)
     | Inr expected \<Rightarrow>
         (case expected of
            None \<Rightarrow> ret (False, evalRequeue F)
          | Some server \<Rightarrow> dispatch_job F k ssh key cl host server))"

definition with_cluster ::
  "fb_env \<Rightarrow> kcp \<Rightarrow> ssh_fallback \<Rightarrow> fb_key \<Rightarrow> cluster \<Rightarrow> (bool \<times> duration) fop" where
  "with_cluster F k ssh key cl =
     bindA (missingSSHFallbackSecrets F ssh (c_namespace cl)) (\<lambda>missing.
       if missing \<noteq> []
       then bindA (fmark misconfigured_reason SevWarning) (\<lambda>_. ret (True, evalRequeue F))
       else bindA (tryA (resolveControlPlaneHost F k)) (\<lambda>r. case r of
         Inl _ \<Rightarrow> ret (False, evalRequeue F)
       | Inr host \<Rightarrow> with_host F k ssh key cl host))"

definition decide_fallback ::
  "fb_env \<Rightarrow> kcp \<Rightarrow> ssh_fallback \<Rightarrow> fb_key \<Rightarrow> (bool \<times> duration) fop" where
  "decide_fallback F k ssh key =
     (case evaluateEligibility F k ssh of
        (eligible, requeue) \<Rightarrow>
          if \<not> eligible then ret (False, requeue)
          else bindA (tryA (fread (f_cluster F))) (\<lambda>r. case r of
            Inl _ \<Rightarrow> ret (False, evalRequeue F)
          | Inr cl \<Rightarrow> with_cluster F k ssh key cl))"

definition SshReconcile :: "fb_env \<Rightarrow> fb_key \<Rightarrow> duration fop" where
  "SshReconcile F key =
     bindA (tryA (fread (f_kcp F))) (\<lambda>r. case r of
       Inl e \<Rightarrow> if e = Api NotFound then ret 0 else throw e
     | Inr (k, so) \<Rightarrow>
         (case so of
            None \<Rightarrow> ret 0
          | Some ssh \<Rightarrow>
              if \<not> sf_enabled ssh then ret 0
              else if \<not> f_worker F then ret 0
              else if f_in_flight F then ret (evalRequeue F)
              else
                bindA (fask (f_helper F)) (\<lambda>h. case h of
                  Some x \<Rightarrow> throw (Api x)
                | None \<Rightarrow>
                    bindA (modA (\<lambda>s. s\<lparr>fb_kcp := k\<rparr>)) (\<lambda>_.
                    bindA (decide_fallback F k ssh key) (\<lambda>(patchOnExit, requeue).
                    bindA (if patchOnExit then fpatch F else ret ()) (\<lambda>_.
                    ret requeue))))))"


section \<open>The result of a job\<close>

definition result_reason :: "category \<Rightarrow> string option" where
  "result_reason c =
     (case c of FbOK \<Rightarrow> None
      | FbMisconfigured \<Rightarrow> Some misconfigured_reason
      | _ \<Rightarrow> Some failed_reason)"

text \<open>\<open>applyWorkerResult\<close> logs the errors and returns none.\<close>

definition applyWorkerResult :: "fb_env \<Rightarrow> category \<Rightarrow> unit fop" where
  "applyWorkerResult F c =
     bindA (tryA (fread (f_kcp F))) (\<lambda>r. case r of
       Inl _ \<Rightarrow> ret ()
     | Inr (k, _) \<Rightarrow>
         bindA (fask (f_helper F)) (\<lambda>h. case h of
           Some _ \<Rightarrow> ret ()
         | None \<Rightarrow>
             bindA (modA (\<lambda>s. s\<lparr>fb_kcp := k\<rparr>)) (\<lambda>_.
             case result_reason c of
               None \<Rightarrow> ret ()
             | Some reason \<Rightarrow>
                 bindA (fmark reason SevWarning) (\<lambda>_.
                 bindA (tryA (fpatch F)) (\<lambda>_. ret ())))))"

end
