(* ===== verification/Ssh_Logic.thy ===== *)
theory Ssh_Logic
  imports Ssh_Reconcile
begin

text \<open>
  What the operations of the SSH fallback do to the log and to the control plane in memory, in
  the form \<open>wpa\<close>: the reconciler (\<open>SshReconcile\<close>, \<open>applyWorkerResult\<close>) and the job (\<open>execute\<close>).
\<close>

lemma wpa_ftick [wpa_simps]: "wpa ftick Q s = Q (Inr (fb_tick s)) (s\<lparr>fb_tick := Suc (fb_tick s)\<rparr>)"
  by (simp add: wpa_def ftick_def)

lemma wpa_flog [wpa_simps]: "wpa (flog e) Q s = Q (Inr ()) (s\<lparr>fb_log := fb_log s @ [e]\<rparr>)"
  by (simp add: flog_def wpa_simps)

lemma wpa_fread [wpa_simps]:
  "wpa (fread f) Q s =
     (case f (fb_tick s) of
        Inl x \<Rightarrow> Q (Inl (Api x)) (s\<lparr>fb_tick := Suc (fb_tick s)\<rparr>)
      | Inr v \<Rightarrow> Q (Inr v) (s\<lparr>fb_tick := Suc (fb_tick s)\<rparr>))"
  by (simp add: fread_def wpa_simps split: sum.splits)

lemma wpa_fask [wpa_simps]:
  "wpa (fask f) Q s = Q (Inr (f (fb_tick s))) (s\<lparr>fb_tick := Suc (fb_tick s)\<rparr>)"
  by (simp add: fask_def wpa_simps)

lemma wpa_fmark [wpa_simps]:
  "wpa (fmark reason sev) Q s =
     Q (Inr ()) (s\<lparr>fb_kcp := set_cond kubeconfig_ready (cond_false reason sev) (fb_kcp s)\<rparr>)"
  by (simp add: fmark_def wpa_simps)

lemma wpa_fpatch [wpa_simps]:
  "wpa (fpatch F) Q s =
     (case f_patch F (fb_tick s) of
        Some x \<Rightarrow> Q (Inl (Api x)) (s\<lparr>fb_tick := Suc (fb_tick s)\<rparr>)
      | None \<Rightarrow> Q (Inr ()) (s\<lparr>fb_tick := Suc (fb_tick s),
          fb_log := fb_log s @ [ConditionPatched (k_status (fb_kcp s))]\<rparr>))"
  by (simp add: fpatch_def wpa_simps split: option.splits)

text \<open>The state but for its clock.\<close>

definition same_but_tick :: "fb_st \<Rightarrow> fb_st \<Rightarrow> bool" where
  "same_but_tick s s' \<longleftrightarrow> s' = s\<lparr>fb_tick := fb_tick s'\<rparr>"

lemma same_but_tick_simps [simp]:
  "same_but_tick s s" "same_but_tick s (s\<lparr>fb_tick := n\<rparr>)"
  by (simp_all add: same_but_tick_def)

lemma same_but_tick_trans: "same_but_tick s t \<Longrightarrow> same_but_tick t u \<Longrightarrow> same_but_tick s u"
  unfolding same_but_tick_def by (cases s, cases t, cases u) auto

lemma same_but_tickD: "same_but_tick s s' \<Longrightarrow> fb_log s' = fb_log s \<and> fb_kcp s' = fb_kcp s"
  unfolding same_but_tick_def by (cases s, cases s') auto

lemma wpa_seq: "wpa m P s \<Longrightarrow> (\<And>e s'. P (Inl e) s' \<Longrightarrow> Q (Inl e) s') \<Longrightarrow>
    (\<And>x s'. P (Inr x) s' \<Longrightarrow> wpa (f x) Q s') \<Longrightarrow> wpa (bindA m f) Q s"
  unfolding wpa_bind by (erule wpa_weaken) (auto split: sum.splits)

lemma wpa_seq_try: "wpa m P s \<Longrightarrow> (\<And>r s'. P r s' \<Longrightarrow> wpa (f r) Q s') \<Longrightarrow> wpa (bindA (tryA m) f) Q s"
  unfolding wpa_bind wpa_try by (erule wpa_weaken) simp


section \<open>The reads of the reconciler\<close>

lemma check_ref_post:
  "wpa (check_ref F ro label key ns)
     (\<lambda>r s'. same_but_tick s s' \<and> (\<exists>v. r = Inr v \<and>
        (v = [] \<longrightarrow> (\<exists>ref n. ro = Some ref \<and> sr_name ref \<noteq> [] \<and>
           f_secret F n (secretRefNamespace ref ns) (sr_name ref) \<noteq> Inl NotFound)))) s"
proof (cases ro)
  case (Some ref)
  show ?thesis
    by (auto simp: check_ref_def Some wpa_simps Let_def split: sum.split intro: exI[of _ "fb_tick s"])
qed (simp add: check_ref_def wpa_simps)

definition names_secret :: "fb_env \<Rightarrow> string \<Rightarrow> secret_ref option \<Rightarrow> bool" where
  "names_secret F ns ro \<longleftrightarrow> (\<exists>ref n. ro = Some ref \<and> sr_name ref \<noteq> [] \<and>
     f_secret F n (secretRefNamespace ref ns) (sr_name ref) \<noteq> Inl NotFound)"

lemma missing_post:
  "wpa (missingSSHFallbackSecrets F ssh ns)
     (\<lambda>r s'. same_but_tick s s' \<and> (\<exists>v. r = Inr v \<and>
        (v = [] \<longrightarrow> names_secret F ns (sf_known_hosts ssh) \<and> names_secret F ns (sf_identity ssh)))) s"
  unfolding missingSSHFallbackSecrets_def
  by (rule wpa_seq[OF check_ref_post], simp, rule wpa_seq[OF check_ref_post])
    (auto simp: wpa_simps names_secret_def elim: same_but_tick_trans)

lemma host_post:
  "wpa (resolveControlPlaneHost F k)
     (\<lambda>r s'. same_but_tick s s' \<and> (\<forall>host. r = Inr host \<longrightarrow>
        (\<exists>n ms m. f_machines F n = Inr ms \<and> m \<in> set ms \<and> host = owned_address k m \<and> host \<noteq> []))) s"
  unfolding resolveControlPlaneHost_def
  by (auto simp: wpa_simps dest!: find_member split: sum.splits option.splits)

lemma in_control_plane_post:
  "wpa (in_control_plane m)
     (\<lambda>r s'. same_but_tick s s' \<and> (\<exists>t. fst (m t) = r)) s"
  unfolding wpa_def in_control_plane_def by (auto split: prod.splits) (metis fst_conv)


section \<open>One call of Reconcile\<close>

definition marked :: "kcp \<Rightarrow> string \<Rightarrow> severity \<Rightarrow> kstatus" where
  "marked k reason sev = k_status (set_cond kubeconfig_ready (cond_false reason sev) k)"

text \<open>What must have been found before a job is dispatched.\<close>

definition dispatchable :: "fb_env \<Rightarrow> kcp \<Rightarrow> ssh_fallback \<Rightarrow> fb_key \<Rightarrow> fb_job \<Rightarrow> bool" where
  "dispatchable F k ssh key job \<longleftrightarrow>
     jb_key job = key \<and> jb_spec job = ssh \<and> jb_distribution job = k_distribution k \<and>
     (\<exists>n. f_cluster F n = Inr (jb_cluster job)) \<and>
     names_secret F (c_namespace (jb_cluster job)) (sf_known_hosts ssh) \<and>
     names_secret F (c_namespace (jb_cluster job)) (sf_identity ssh) \<and>
     (\<exists>n ms m. f_machines F n = Inr ms \<and> m \<in> set ms \<and> jb_host job = owned_address k m \<and> jb_host job \<noteq> []) \<and>
     (\<exists>t. fst (resolveExpectedServer (f_env F) k (jb_cluster job) t) = Inr (Some (jb_server job)))"

definition decided :: "fb_env \<Rightarrow> kcp \<Rightarrow> ssh_fallback \<Rightarrow> fb_key \<Rightarrow> bool \<Rightarrow> kcp \<Rightarrow> fb_effect list \<Rightarrow> bool" where
  "decided F k ssh key patch k' es \<longleftrightarrow>
     \<not> patch \<and> es = [] \<or>
     patch \<and> es = [] \<and> k_status k' = marked k misconfigured_reason SevWarning \<or>
     patch \<and> k_status k' = marked k dialing_reason SevInfo \<and>
       (\<exists>job. dispatchable F k ssh key job \<and> es = (if f_accepts F then [JobStarted job] else []))"

definition outcome ::
  "fb_env \<Rightarrow> kcp \<Rightarrow> ssh_fallback \<Rightarrow> fb_key \<Rightarrow> fb_effect list \<Rightarrow> err + bool \<times> duration \<Rightarrow> fb_st \<Rightarrow> bool" where
  "outcome F k ssh key lg r s' \<longleftrightarrow> (\<exists>patch requeue es. r = Inr (patch, requeue) \<and>
     fb_log s' = lg @ es \<and> decided F k ssh key patch (fb_kcp s') es)"

lemma outcome_quiet: "fb_log s' = lg \<Longrightarrow> outcome F k ssh key lg (Inr (False, d)) s'"
  unfolding outcome_def decided_def by (intro exI[of _ False] exI[of _ d] exI[of _ "[]"]) simp

text \<open>The state in which a part of the call starts.\<close>

abbreviation starts :: "kcp \<Rightarrow> fb_effect list \<Rightarrow> fb_st \<Rightarrow> bool" where
  "starts k lg s \<equiv> fb_kcp s = k \<and> fb_log s = lg"

lemma dispatch_outcome:
  assumes "starts k lg s"
    and "dispatchable F k ssh key \<lparr>jb_key = key, jb_cluster = cl, jb_spec = ssh,
      jb_distribution = k_distribution k, jb_host = host, jb_server = server\<rparr>"
  shows "wpa (dispatch_job F k ssh key cl host server) (outcome F k ssh key lg) s"
  unfolding dispatch_job_def fb_enqueue_def
  using assms by (auto simp: wpa_simps marked_def outcome_def decided_def)

lemma with_host_outcome:
  assumes "starts k lg s" "\<exists>n. f_cluster F n = Inr cl"
    "names_secret F (c_namespace cl) (sf_known_hosts ssh)" "names_secret F (c_namespace cl) (sf_identity ssh)"
    "\<exists>n ms m. f_machines F n = Inr ms \<and> m \<in> set ms \<and> host = owned_address k m \<and> host \<noteq> []"
  shows "wpa (with_host F k ssh key cl host) (outcome F k ssh key lg) s"
  unfolding with_host_def
proof (rule wpa_seq_try[OF in_control_plane_post])
  fix r :: "err + string option" and s'
  assume r: "same_but_tick s s' \<and> (\<exists>t. fst (resolveExpectedServer (f_env F) k cl t) = r)"
  then have st: "starts k lg s'" using assms(1) same_but_tickD by metis
  show "wpa (case r of Inl _ \<Rightarrow> ret (False, evalRequeue F) | Inr expected \<Rightarrow>
      (case expected of None \<Rightarrow> ret (False, evalRequeue F)
       | Some server \<Rightarrow> dispatch_job F k ssh key cl host server)) (outcome F k ssh key lg) s'"
  proof (cases "\<exists>server. r = Inr (Some server)")
    case True
    then obtain server where server: "r = Inr (Some server)" by auto
    have "wpa (dispatch_job F k ssh key cl host server) (outcome F k ssh key lg) s'"
      by (rule dispatch_outcome[OF st]) (use assms(2-) r server in \<open>simp add: dispatchable_def\<close>)
    then show ?thesis by (simp add: server)
  next
    case False
    then show ?thesis
      using st by (cases r) (auto simp: wpa_simps outcome_quiet split: option.split)
  qed
qed

lemma with_cluster_outcome:
  assumes "starts k lg s" "\<exists>n. f_cluster F n = Inr cl"
  shows "wpa (with_cluster F k ssh key cl) (outcome F k ssh key lg) s"
  unfolding with_cluster_def
proof (rule wpa_seq[OF missing_post])
  fix missing s1
  assume m: "same_but_tick s s1 \<and> (\<exists>v. Inr missing = (Inr v :: err + string list) \<and> (v = [] \<longrightarrow>
      names_secret F (c_namespace cl) (sf_known_hosts ssh) \<and> names_secret F (c_namespace cl) (sf_identity ssh)))"
  then have st: "starts k lg s1" using assms(1) same_but_tickD by metis
  have host: "wpa (bindA (tryA (resolveControlPlaneHost F k)) (\<lambda>r. case r of
      Inl _ \<Rightarrow> ret (False, evalRequeue F) | Inr host \<Rightarrow> with_host F k ssh key cl host))
      (outcome F k ssh key lg) s1" if "missing = []"
  proof (rule wpa_seq_try[OF host_post])
    fix r :: "err + string" and s2
    assume h: "same_but_tick s1 s2 \<and> (\<forall>host. r = Inr host \<longrightarrow>
      (\<exists>n ms m. f_machines F n = Inr ms \<and> m \<in> set ms \<and> host = owned_address k m \<and> host \<noteq> []))"
    then have "starts k lg s2" using st same_but_tickD by metis
    then show "wpa (case r of Inl _ \<Rightarrow> ret (False, evalRequeue F)
        | Inr host \<Rightarrow> with_host F k ssh key cl host) (outcome F k ssh key lg) s2"
      using h m that assms(2) by (cases r) (auto simp: wpa_simps outcome_quiet intro: with_host_outcome)
  qed
  show "wpa (if missing \<noteq> [] then bindA (fmark misconfigured_reason SevWarning) (\<lambda>_. ret (True, evalRequeue F))
      else bindA (tryA (resolveControlPlaneHost F k)) (\<lambda>r. case r of
        Inl _ \<Rightarrow> ret (False, evalRequeue F) | Inr host \<Rightarrow> with_host F k ssh key cl host))
      (outcome F k ssh key lg) s1"
    using host st by (auto simp: wpa_simps outcome_def decided_def marked_def)
qed simp

lemma decide_outcome:
  assumes "starts k lg s"
  shows "wpa (decide_fallback F k ssh key)
     (\<lambda>r s'. outcome F k ssh key lg r s' \<and>
        (\<not> fst (evaluateEligibility F k ssh) \<longrightarrow> r = Inr (False, snd (evaluateEligibility F k ssh)) \<and>
           fb_log s' = lg)) s"
proof (cases "evaluateEligibility F k ssh")
  case (Pair ok d)
  show ?thesis
  proof (cases ok)
    case True
    have "wpa (with_cluster F k ssh key cl) (\<lambda>r s'. outcome F k ssh key lg r s') (s\<lparr>fb_tick := n\<rparr>)"
      if "f_cluster F (fb_tick s) = Inr cl" for cl n
      using with_cluster_outcome[of "s\<lparr>fb_tick := n\<rparr>" k lg F cl ssh key] assms that by auto
    then show ?thesis
      using assms True
      by (simp add: decide_fallback_def Pair wpa_bind wpa_try wpa_fread wpa_ret outcome_quiet split: sum.split)
  qed (use assms in \<open>simp add: decide_fallback_def Pair wpa_simps outcome_quiet\<close>)
qed

definition fallback_effects :: "fb_env \<Rightarrow> fb_key \<Rightarrow> fb_effect list \<Rightarrow> bool" where
  "fallback_effects F key es \<longleftrightarrow> es = [] \<or>
     (\<exists>n k ssh. f_kcp F n = Inr (k, Some ssh) \<and> sf_enabled ssh \<and> \<not> f_in_flight F \<and>
        fst (evaluateEligibility F k ssh) \<and>
        (es = [ConditionPatched (marked k misconfigured_reason SevWarning)] \<or>
         (\<exists>job. dispatchable F k ssh key job \<and>
            (es = (if f_accepts F then [JobStarted job] else []) \<or>
             es = (if f_accepts F then [JobStarted job] else []) @
               [ConditionPatched (marked k dialing_reason SevInfo)]))))"

lemma fallback_effects_none [simp]: "fallback_effects F key []"
  by (simp add: fallback_effects_def)

lemma decided_effects:
  assumes "decided F k ssh key True k' es" "f_kcp F n = Inr (k, Some ssh)" "sf_enabled ssh"
    "\<not> f_in_flight F" "fst (evaluateEligibility F k ssh)"
  shows "fallback_effects F key es"
    and "fallback_effects F key (es @ [ConditionPatched (k_status k')])"
proof -
  have intro: "fallback_effects F key es'"
    if "es' = [ConditionPatched (marked k misconfigured_reason SevWarning)] \<or>
      (\<exists>job. dispatchable F k ssh key job \<and>
         (es' = (if f_accepts F then [JobStarted job] else []) \<or>
          es' = (if f_accepts F then [JobStarted job] else []) @
            [ConditionPatched (marked k dialing_reason SevInfo)]))" for es'
    unfolding fallback_effects_def by (intro disjI2 exI[of _ n] exI[of _ k] exI[of _ ssh] conjI assms(2-) that)
  show "fallback_effects F key es" "fallback_effects F key (es @ [ConditionPatched (k_status k')])"
    using assms(1) intro[of es] intro[of "es @ [ConditionPatched (k_status k')]"]
    by (auto simp: decided_def)
qed

lemma reconcile_tail:
  assumes "starts k lg s" "f_kcp F n = Inr (k, Some ssh)" "sf_enabled ssh" "\<not> f_in_flight F"
  shows "wpa (bindA (decide_fallback F k ssh key) (\<lambda>(patchOnExit, requeue).
      bindA (if patchOnExit then fpatch F else ret ()) (\<lambda>_. ret requeue)))
    (\<lambda>r s'. \<exists>es. fb_log s' = lg @ es \<and> fallback_effects F key es) s"
proof (rule wpa_seq[OF decide_outcome[OF assms(1)]])
  fix e s'
  assume "outcome F k ssh key lg (Inl e) s' \<and>
    (\<not> fst (evaluateEligibility F k ssh) \<longrightarrow>
       Inl e = (Inr (False, snd (evaluateEligibility F k ssh)) :: err + bool \<times> duration) \<and> fb_log s' = lg)"
  then show "\<exists>es. fb_log s' = lg @ es \<and> fallback_effects F key es" by (simp add: outcome_def)
next
  fix x s1
  assume x: "outcome F k ssh key lg (Inr x) s1 \<and>
    (\<not> fst (evaluateEligibility F k ssh) \<longrightarrow>
       Inr x = (Inr (False, snd (evaluateEligibility F k ssh)) :: err + bool \<times> duration) \<and> fb_log s1 = lg)"
  obtain patch requeue where px: "x = (patch, requeue)" by fastforce
  obtain es where es: "fb_log s1 = lg @ es" "decided F k ssh key patch (fb_kcp s1) es"
    using x px by (auto simp: outcome_def)
  have elig: "fst (evaluateEligibility F k ssh)" if patch
    using x px that by auto
  have step: "fallback_effects F key es"
      "patch \<Longrightarrow> fallback_effects F key (es @ [ConditionPatched (k_status (fb_kcp s1))])"
    using es(2) elig decided_effects[OF _ assms(2-4)] by (cases patch; auto simp: decided_def)+
  show "wpa (case x of (patchOnExit, requeue) \<Rightarrow>
      bindA (if patchOnExit then fpatch F else ret ()) (\<lambda>_. ret requeue))
      (\<lambda>r s'. \<exists>es. fb_log s' = lg @ es \<and> fallback_effects F key es) s1"
    using es(1) step by (cases patch) (auto simp: px wpa_simps split: option.split)
qed

lemma SshReconcile_effects:
  "wpa (SshReconcile F key) (\<lambda>r s'. \<exists>es. fb_log s' = fb_log s @ es \<and> fallback_effects F key es) s"
proof -
  have quiet: "\<exists>es. fb_log s' = fb_log s @ es \<and> fallback_effects F key es" if "fb_log s' = fb_log s" for s'
    using that by (simp add: fallback_effects_def)
  show ?thesis
  proof (cases "f_kcp F (fb_tick s)")
    case (Inr kso)
    obtain k so where kso: "kso = (k, so)" by fastforce
    have tail: "wpa (bindA (decide_fallback F k ssh key) (\<lambda>(patchOnExit, requeue).
        bindA (if patchOnExit then fpatch F else ret ()) (\<lambda>_. ret requeue)))
        (\<lambda>r s'. \<exists>es. fb_log s' = fb_log s @ es \<and> fallback_effects F key es)
        (s\<lparr>fb_tick := n, fb_kcp := k\<rparr>)" if "so = Some ssh" "sf_enabled ssh" "\<not> f_in_flight F" for ssh n
      by (rule reconcile_tail) (use that Inr kso in simp_all)
    show ?thesis
      using Inr quiet tail
      by (auto simp: SshReconcile_def kso wpa_bind[of "tryA (fread (f_kcp F))"] wpa_try wpa_fread wpa_ret
          wpa_bind[of "fask (f_helper F)"] wpa_fask wpa_throw wpa_bind[of "modA m" for m] wpa_mod
          split: option.split)
  qed (use quiet in \<open>simp add: SshReconcile_def wpa_simps\<close>)
qed

text \<open>What a result does: nothing, or one patch of the condition.\<close>

lemma apply_effects:
  "wpa (applyWorkerResult F c) (\<lambda>r s'. r = Inr () \<and> (fb_log s' = fb_log s \<or>
     (\<exists>n k so reason. f_kcp F n = Inr (k, so) \<and> result_reason c = Some reason \<and>
        fb_log s' = fb_log s @ [ConditionPatched (marked k reason SevWarning)]))) s"
  by (auto simp: applyWorkerResult_def wpa_simps marked_def split: sum.split option.split)


section \<open>A job\<close>

text \<open>The configuration a job may dial with, made of the Secrets its spec names.\<close>

definition referenced :: "fb_env \<Rightarrow> fb_job \<Rightarrow> secret_ref option \<Rightarrow> string \<Rightarrow> string \<Rightarrow> bool" where
  "referenced F job ro defaultKey v \<longleftrightarrow> v \<noteq> [] \<and>
     (\<exists>ref n data. ro = Some ref \<and> sr_name ref \<noteq> [] \<and>
        f_secret F n (secretRefNamespace ref (c_namespace (jb_cluster job))) (sr_name ref) = Inr data \<and>
        data (if sr_key ref = [] then defaultKey else sr_key ref) = Some v)"

lemma load_ref_post:
  "wpa (load_ref F job ro defaultKey)
     (\<lambda>r s'. same_but_tick s s' \<and> (\<forall>c. r = Inl c \<longrightarrow> c = FbMisconfigured) \<and>
        (\<forall>v. r = Inr v \<longrightarrow> referenced F job ro defaultKey v)) s"
proof (cases ro)
  case (Some ref)
  have "referenced F job ro defaultKey (ann data (if sr_key ref = [] then defaultKey else sr_key ref))"
    if "f_secret F n (secretRefNamespace ref (c_namespace (jb_cluster job))) (sr_name ref) = Inr data"
      "ann data (if sr_key ref = [] then defaultKey else sr_key ref) \<noteq> []" "sr_name ref \<noteq> []" for data n
    using that unfolding referenced_def Some
    by (intro conjI exI[of _ ref] exI[of _ n] exI[of _ data]) (cases "sr_key ref = []"; auto simp: ann_def split: option.splits)+
  then show ?thesis
    by (auto simp: load_ref_def Some wpa_simps Let_def split: sum.split)
qed (simp add: load_ref_def wpa_simps)

lemma load_known_hosts_post:
  "wpa (loadKnownHosts F job)
     (\<lambda>r s'. same_but_tick s s' \<and> (\<forall>c. r = Inl c \<longrightarrow> c = FbMisconfigured) \<and>
        (\<forall>v. r = Inr v \<longrightarrow> referenced F job (sf_known_hosts (jb_spec job)) ''known_hosts'' v \<and>
           (\<exists>n. f_callback F n v))) s"
  unfolding loadKnownHosts_def
  by (rule wpa_seq[OF load_ref_post]) (auto simp: wpa_simps elim: same_but_tick_trans)

lemma load_identity_post:
  "wpa (loadIdentity F job)
     (\<lambda>r s'. same_but_tick s s' \<and> (\<forall>c. r = Inl c \<longrightarrow> c = FbMisconfigured) \<and>
        (\<forall>v. r = Inr v \<longrightarrow> referenced F job (sf_identity (jb_spec job)) ''ssh-privatekey'' v \<and> f_signer F v)) s"
  unfolding loadIdentity_def
  by (rule wpa_seq[OF load_ref_post]) (auto simp: wpa_simps elim: same_but_tick_trans)

end
