(* ===== verification/Ssh_Safety.thy ===== *)
theory Ssh_Safety
  imports Ssh_Logic Cloud_Config_Safety
begin

text \<open>
  The SSH fallback's functions against what they are to compute, and what a job may do: it dials
  only with a verified configuration, reads one file, and writes one Secret with what the
  sanitizer made of it.
\<close>


section \<open>The functions of the worker\<close>

text \<open>The bounded buffer keeps everything up to the cap, and says so when there was more.\<close>

lemma bb_write_fold:
  assumes "0 < bb_cap b" "\<not> bb_overflowed b \<longrightarrow> length (bb_buf b) < bb_cap b"
  shows "let b' = fold (\<lambda>p b. bb_write b p) cs b in
    bb_overflowed b' = (bb_overflowed b \<or> bb_cap b \<le> length (bb_buf b @ concat cs)) \<and>
    (\<not> bb_overflowed b' \<longrightarrow> bb_buf b' = bb_buf b @ concat cs) \<and> length (bb_buf b') \<le> max (bb_cap b) (length (bb_buf b))"
  using assms
proof (induction cs arbitrary: b)
  case (Cons p cs)
  let ?b = "bb_write b p"
  have step: "bb_cap ?b = bb_cap b"
    "bb_overflowed ?b = (bb_overflowed b \<or> bb_cap b \<le> length (bb_buf b @ p))"
    "\<not> bb_overflowed ?b \<Longrightarrow> bb_buf ?b = bb_buf b @ p \<and> length (bb_buf ?b) < bb_cap b"
    "length (bb_buf ?b) \<le> max (bb_cap b) (length (bb_buf b))"
    using Cons.prems by (cases "bb_overflowed b"; cases "length p \<le> bb_cap b - length (bb_buf b)";
      auto simp: bb_write_def Let_def)+
  show ?case
    using Cons.IH[of ?b] Cons.prems step by (auto simp: Let_def)
qed auto

lemma read_output_bounded:
  "bb_overflowed (read_output cs) \<longleftrightarrow> max_payload < length (concat cs)"
  "bb_bytes (read_output cs) = (if max_payload < length (concat cs) then [] else concat cs)"
  "length (bb_buf (read_output cs)) \<le> max_payload + 1"
  using bb_write_fold[of "bb_new (max_payload + 1)" cs]
  by (auto simp: read_output_def bb_new_def bb_bytes_def Let_def)

lemma matches_ci_prefix: "matches_ci s n \<longleftrightarrow> has_prefix (to_lower s) (to_lower n)"
  by (induction s n rule: matches_ci.induct) (auto simp: to_lower_def)

lemma contains_str_at: "contains_str s p \<longleftrightarrow> (\<exists>i \<le> length s. has_prefix (drop i s) p)"
proof (induction s)
  case Nil
  then show ?case by (cases p) auto
next
  case (Cons c s)
  have "(\<exists>i \<le> length (c # s). has_prefix (drop i (c # s)) p) \<longleftrightarrow>
      has_prefix (c # s) p \<or> (\<exists>i \<le> length s. has_prefix (drop i s) p)"
  proof
    assume "\<exists>i \<le> length (c # s). has_prefix (drop i (c # s)) p"
    then obtain i where i: "i \<le> Suc (length s)" "has_prefix (drop i (c # s)) p" by auto
    then show "has_prefix (c # s) p \<or> (\<exists>i \<le> length s. has_prefix (drop i s) p)"
      by (cases i) auto
  next
    assume "has_prefix (c # s) p \<or> (\<exists>i \<le> length s. has_prefix (drop i s) p)"
    then show "\<exists>i \<le> length (c # s). has_prefix (drop i (c # s)) p"
    proof (elim disjE exE conjE)
      show ?thesis if "has_prefix (c # s) p" using that by (intro exI[of _ 0]) simp
      show ?thesis if "i \<le> length s" "has_prefix (drop i s) p" for i
        using that by (intro exI[of _ "Suc i"]) simp
    qed
  qed
  with Cons show ?case by simp
qed

text \<open>\<open>containsCI\<close> is \<open>strings.Contains\<close> on the lower-cased texts, but for the empty needle.\<close>

theorem containsCI_spec:
  "containsCI s n \<longleftrightarrow> n \<noteq> [] \<and> contains_str (to_lower s) (to_lower n)"
proof -
  have at: "has_prefix (drop i (to_lower s)) (to_lower n) \<longleftrightarrow> matches_ci (drop i s) n" for i
    by (simp add: matches_ci_prefix to_lower_def drop_map)
  have fits: "i \<le> length s - length n \<and> length n \<le> length s"
    if "matches_ci (drop i s) n" "i \<le> length s" for i
    using has_prefix_long[OF that(1)[unfolded matches_ci_prefix]] that(2) by simp linarith
  have "list_ex (\<lambda>i. matches_ci (drop i s) n) [0 ..< Suc (length s - length n)] \<longleftrightarrow>
      (\<exists>i \<le> length s - length n. matches_ci (drop i s) n)"
    unfolding list_ex_iff set_upt by (metis atLeastLessThan_iff less_Suc_eq_le zero_le)
  moreover have "(\<exists>i \<le> length s - length n. matches_ci (drop i s) n) \<and> length n \<le> length s \<longleftrightarrow>
      (\<exists>i \<le> length s. matches_ci (drop i s) n)"
    using fits by (metis diff_le_self order_trans)
  moreover have "contains_str (to_lower s) (to_lower n) \<longleftrightarrow> (\<exists>i \<le> length s. matches_ci (drop i s) n)"
    unfolding contains_str_at at to_lower_length ..
  ultimately show ?thesis
    unfolding containsCI_def by auto
qed

lemma shellQuotePath_shquote: "shellQuotePath p = shquote p"
  unfolding shellQuotePath_def shquote_def squote_def append.simps ..


section \<open>What a job may do\<close>

text \<open>The one configuration a job dials with: the key and the known hosts the Secrets of its spec
  hold, both parsed.\<close>

definition verified_config :: "fb_env \<Rightarrow> fb_job \<Rightarrow> ssh_config \<Rightarrow> bool" where
  "verified_config F job cfg \<longleftrightarrow> sc_user cfg = sf_user (jb_spec job) \<and>
     (\<exists>known pem n. sc_callback cfg = Some known \<and> sc_auth cfg = [pem] \<and>
        referenced F job (sf_known_hosts (jb_spec job)) ''known_hosts'' known \<and> f_callback F n known \<and>
        referenced F job (sf_identity (jb_spec job)) ''ssh-privatekey'' pem \<and> f_signer F pem)"

definition job_address :: "fb_job \<Rightarrow> string" where
  "job_address job = join_host_port (jb_host job) (itoa (ssh_port (jb_spec job)))"

definition job_command :: "fb_job \<Rightarrow> string" where
  "job_command job = ''cat '' @ shquote (remoteKubeconfigPath (jb_distribution job))"

text \<open>The Secret a job may leave, and the one it starts from.\<close>

definition job_result :: "fb_env \<Rightarrow> fb_job \<Rightarrow> ksecret \<Rightarrow> ksecret \<Rightarrow> bool" where
  "job_result F job base new \<longleftrightarrow> jb_server job \<noteq> [] \<and>
     (\<exists>payload sanitized. length payload \<le> max_payload \<and> payload \<noteq> [] \<and>
        (\<exists>n chunks. f_run F n (job_command job) = (chunks, False) \<and> payload = concat chunks) \<and>
        Sanitize (e_lib (f_env F)) payload (c_name (jb_cluster job)) (jb_server job) = Inr sanitized \<and>
        new = fetched_secret (jb_cluster job) base sanitized)"

fun job_effect :: "fb_env \<Rightarrow> fb_job \<Rightarrow> fb_effect \<Rightarrow> bool" where
  "job_effect F job (Dialed addr cfg) \<longleftrightarrow> addr = job_address job \<and> verified_config F job cfg"
| "job_effect F job (RemoteCommand cmd) \<longleftrightarrow>
     cmd = job_command job \<and> remoteKubeconfigPath (jb_distribution job) \<noteq> []"
| "job_effect F job (ContractUpserted old new) \<longleftrightarrow>
     (case old of
        None \<Rightarrow> job_result F job (empty_secret (contractKubeconfigSecretName (c_name (jb_cluster job)))) new
      | Some base \<Rightarrow> (\<exists>n. f_contract F n (c_namespace (jb_cluster job))
            (contractKubeconfigSecretName (c_name (jb_cluster job))) = Inr base) \<and> job_result F job base new)"
| "job_effect F job _ \<longleftrightarrow> False"

text \<open>The effects of a job come in this order, and it may stop after any of them.\<close>

definition job_trace :: "fb_env \<Rightarrow> fb_job \<Rightarrow> fb_effect list \<Rightarrow> bool" where
  "job_trace F job es \<longleftrightarrow> list_all (job_effect F job) es \<and>
     (\<exists>addr cfg cmd old new. prefix es [Dialed addr cfg, RemoteCommand cmd, ContractUpserted old new])"

text \<open>A job that says it succeeded has the contract Secret hold what it fetched.\<close>

definition job_delivered :: "fb_env \<Rightarrow> fb_job \<Rightarrow> fb_effect list \<Rightarrow> bool" where
  "job_delivered F job es \<longleftrightarrow>
     (\<exists>d r old new. es = [d, r, ContractUpserted old new]) \<or>
     (\<exists>d r n base. es = [d, r] \<and> f_contract F n (c_namespace (jb_cluster job))
        (contractKubeconfigSecretName (c_name (jb_cluster job))) = Inr base \<and> job_result F job base base)"

definition job_post :: "fb_env \<Rightarrow> fb_job \<Rightarrow> fb_effect list \<Rightarrow> fb_effect list \<Rightarrow> category + unit \<Rightarrow> fb_st \<Rightarrow> bool" where
  "job_post F job lg pre r s' \<longleftrightarrow> (\<exists>es. fb_log s' = lg @ es \<and> job_trace F job es \<and> prefix pre es \<and>
     (\<forall>u. r = Inr u \<longrightarrow> job_delivered F job es) \<and> r \<noteq> Inl FbOK)"

lemma classify_not_ok: "classifyDialError e \<noteq> FbOK"
  by (simp add: classifyDialError_def split: option.split)

lemma upsert_post:
  assumes "fb_log s = lg @ [d, c]" "job_effect F job d" "job_effect F job c"
    "d = Dialed addr cfg" "c = RemoteCommand cmd"
    "\<And>base. job_result F job base (f base)"
  shows "wpa (upsert_contract F (c_namespace (jb_cluster job))
      (contractKubeconfigSecretName (c_name (jb_cluster job))) f) (job_post F job lg [d, c]) s"
proof -
  have trace: "job_trace F job ([d, c] @ ws)" if "list_all (job_effect F job) ws" "ws = [] \<or> (\<exists>old new. ws = [ContractUpserted old new])" for ws
    using that assms(2-5) unfolding job_trace_def
    by (intro conjI, simp, elim disjE exE; intro exI[of _ addr] exI[of _ cfg] exI[of _ cmd]; auto)
  have stay: "job_post F job lg [d, c] r s'" if same: "fb_log s' = fb_log s" "r \<noteq> Inl FbOK"
      and found: "r = Inr () \<Longrightarrow> \<exists>n base. f_contract F n (c_namespace (jb_cluster job))
        (contractKubeconfigSecretName (c_name (jb_cluster job))) = Inr base \<and> f base = base" for r s'
  proof -
    have "job_delivered F job [d, c]" if ok: "r = Inr ()"
    proof -
      obtain n base where "f_contract F n (c_namespace (jb_cluster job))
          (contractKubeconfigSecretName (c_name (jb_cluster job))) = Inr base" "f base = base"
        using found[OF ok] by metis
      moreover from this have "job_result F job base base" using assms(6)[of base] by simp
      ultimately show ?thesis unfolding job_delivered_def by (intro disjI2) metis
    qed
    then show ?thesis
      unfolding job_post_def using same trace[of "[]"] assms(1)
      by (intro exI[of _ "[d, c]"]) simp
  qed
  have wrote: "job_post F job lg [d, c] r s'"
    if "fb_log s' = fb_log s @ [ContractUpserted old new]" "r = Inr ()"
      "job_effect F job (ContractUpserted old new)" for r s' old new
    unfolding job_post_def using that trace[of "[ContractUpserted old new]"] assms(1)
    by (intro exI[of _ "[d, c, ContractUpserted old new]"]) (auto simp: job_delivered_def)
  have upsert: "wpa (bindA (fask (f_write F)) (\<lambda>w. case w of Some _ \<Rightarrow> throw WriteFailed
        | None \<Rightarrow> flog (ContractUpserted old new))) (job_post F job lg [d, c]) s1"
    if "fb_log s1 = fb_log s" "job_effect F job (ContractUpserted old new)" for old new s1
    using that by (auto simp: wpa_simps simp del: job_effect.simps split: option.split intro: stay wrote)
  define name where "name = contractKubeconfigSecretName (c_name (jb_cluster job))"
  show ?thesis
  proof (cases "f_contract F (fb_tick s) (c_namespace (jb_cluster job)) name")
    case (Inl e)
    have "job_effect F job (ContractUpserted None (f (empty_secret name)))" by (simp add: assms(6) name_def)
    then show ?thesis
      unfolding upsert_contract_def Let_def
      using Inl[unfolded name_def]
      by (auto simp: wpa_bind[of "fask (\<lambda>n. f_contract F n ns nm)" for ns nm] wpa_fask wpa_throw name_def
          simp del: job_effect.simps intro!: upsert intro: stay)
  next
    case (Inr old)
    have "job_effect F job (ContractUpserted (Some old) (f old))"
      using Inr by (auto simp: assms(6) name_def)
    moreover have same: "job_post F job lg [d, c] (Inr ()) s'" if "f old = old" "fb_log s' = fb_log s" for s'
      by (rule stay) (use that Inr in \<open>auto simp: name_def intro!: exI[of _ "fb_tick s"] exI[of _ old]\<close>)
    ultimately show ?thesis
      using Inr[unfolded name_def] unfolding upsert_contract_def Let_def
      by (auto simp: wpa_bind[of "fask (\<lambda>n. f_contract F n ns nm)" for ns nm] wpa_fask wpa_ret
          simp del: job_effect.simps intro!: upsert intro: same)
  qed
qed

lemma write_post:
  assumes "fb_log s = lg @ [d, c]" "job_effect F job d" "job_effect F job c"
    "d = Dialed addr cfg" "c = RemoteCommand cmd"
    "length payload \<le> max_payload" "payload \<noteq> []"
    "\<exists>n chunks. f_run F n (job_command job) = (chunks, False) \<and> payload = concat chunks"
  shows "wpa (writeKubeconfigSecret F job payload) (job_post F job lg [d, c]) s"
proof -
  have stop: "job_post F job lg [d, c] (Inl WriteFailed) s"
    unfolding job_post_def job_trace_def using assms(1-5)
    by (intro exI[of _ "[d, c]"]) auto
  have upsert: "wpa (upsert_contract F (c_namespace (jb_cluster job))
      (contractKubeconfigSecretName (c_name (jb_cluster job)))
      (\<lambda>sec. fetched_secret (jb_cluster job) sec sanitized)) (job_post F job lg [d, c]) s"
    if "jb_server job \<noteq> []"
      "Sanitize (e_lib (f_env F)) payload (c_name (jb_cluster job)) (jb_server job) = Inr sanitized" for sanitized
    by (rule upsert_post[OF assms(1-5)]) (use that assms(6-8) in \<open>auto simp: job_result_def\<close>)
  show ?thesis
    unfolding writeKubeconfigSecret_def
    using stop upsert by (auto simp: wpa_throw split: sum.split)
qed

lemma job_post_stop:
  assumes "fb_log s' = lg @ es" "job_trace F job es" "prefix pre es" "c \<noteq> FbOK"
  shows "job_post F job lg pre (Inl c) s'"
  unfolding job_post_def by (intro exI[of _ es]) (use assms in auto)

lemma job_post_pre: "job_post F job lg (pre @ ws) r s' \<Longrightarrow> job_post F job lg pre r s'"
  unfolding job_post_def by (meson append_prefixD)

lemma cat_post:
  assumes "fb_log s = lg @ [d]" "job_effect F job d" "d = Dialed addr cfg"
    "remoteKubeconfigPath (jb_distribution job) \<noteq> []"
  shows "wpa (bindA (runRemoteCat F (remoteKubeconfigPath (jb_distribution job)))
      (\<lambda>payload. writeKubeconfigSecret F job payload)) (job_post F job lg [d]) s"
proof -
  let ?c = "RemoteCommand (job_command job)"
  have effects: "job_effect F job ?c" using assms(4) by simp
  have one: "job_trace F job [d]" and two: "job_trace F job [d, ?c]"
    unfolding job_trace_def using assms(2,3) effects by auto
  have fail: "job_post F job lg [d] (Inl c) s'"
    if "c \<noteq> FbOK" "fb_log s' = fb_log s \<or> fb_log s' = fb_log s @ [?c]" for c s'
    using that job_post_stop[OF _ one] job_post_stop[OF _ two] assms(1) by auto
  have go: "wpa (writeKubeconfigSecret F job payload) (job_post F job lg [d]) s'"
    if "fb_log s' = fb_log s @ [?c]" "length payload \<le> max_payload" "payload \<noteq> []"
      "f_run F n (job_command job) = (chunks, False)" "payload = concat chunks" for payload s' n chunks
  proof -
    have "wpa (writeKubeconfigSecret F job payload) (job_post F job lg [d, ?c]) s'"
      by (rule write_post[OF _ assms(2) effects assms(3) refl]) (use that assms(1) in auto)
    then show ?thesis
      by (rule wpa_weaken) (use job_post_pre[of F job lg "[d]" "[?c]"] in simp)
  qed
  show ?thesis
    unfolding runRemoteCat_def Let_def shellQuotePath_shquote job_command_def[symmetric]
    using fail go
    by (auto simp: wpa_bind wpa_fask wpa_flog wpa_throw wpa_ret read_output_bounded split: prod.split)
qed

lemma execute_post: "wpa (execute F job) (job_post F job (fb_log s) []) s"
proof -
  have none: "job_post F job (fb_log s) [] (Inl c) s'" if "c \<noteq> FbOK" "fb_log s' = fb_log s" for c s'
    by (rule job_post_stop[of _ _ "[]"]) (use that in \<open>auto simp: job_trace_def\<close>)
  have dialed: "wpa (bindA (dial F (job_address job) cfg) (\<lambda>_.
      let path = remoteKubeconfigPath (jb_distribution job) in
      if path = [] then throw FbMisconfigured
      else bindA (runRemoteCat F path) (\<lambda>payload. writeKubeconfigSecret F job payload)))
      (job_post F job (fb_log s) []) s'"
    if "verified_config F job cfg" "fb_log s' = fb_log s" for cfg s'
  proof -
    let ?d = "Dialed (job_address job) cfg"
    have eff: "job_effect F job ?d" using that(1) by simp
    have one: "job_trace F job [?d]" unfolding job_trace_def using that(1) by auto
    have stop: "job_post F job (fb_log s) [] (Inl c) s2" if "c \<noteq> FbOK" "fb_log s2 = fb_log s @ [?d]" for c s2
      using that job_post_stop[OF _ one] by auto
    have go: "wpa (bindA (runRemoteCat F (remoteKubeconfigPath (jb_distribution job)))
        (\<lambda>payload. writeKubeconfigSecret F job payload)) (job_post F job (fb_log s) []) s2"
      if "remoteKubeconfigPath (jb_distribution job) \<noteq> []" "fb_log s2 = fb_log s @ [?d]" for s2
      by (rule wpa_weaken[OF cat_post[OF that(2) eff refl that(1)]])
        (use job_post_pre[of F job "fb_log s" "[]" "[?d]"] in simp)
    show ?thesis
      unfolding dial_def Let_def
      using stop go that(2)
      by (auto simp: wpa_bind[of "bindA m f" for m f] wpa_bind[of "flog e" for e] wpa_bind[of "fask f" for f]
          wpa_flog wpa_fask wpa_throw wpa_ret classify_not_ok split: option.split)
  qed
  have "wpa (bindA (loadIdentity F job) (\<lambda>signer.
      let cfg = \<lparr>sc_user = sf_user (jb_spec job), sc_auth = [signer], sc_callback = Some known\<rparr> in
      if sc_callback cfg = None \<or> length (sc_auth cfg) = 0 then throw FbMisconfigured
      else bindA (dial F (join_host_port (jb_host job) (itoa (ssh_port (jb_spec job)))) cfg) (\<lambda>_.
        let path = remoteKubeconfigPath (jb_distribution job) in
        if path = [] then throw FbMisconfigured
        else bindA (runRemoteCat F path) (\<lambda>payload. writeKubeconfigSecret F job payload))))
      (job_post F job (fb_log s) []) s1"
    if "fb_log s1 = fb_log s" "referenced F job (sf_known_hosts (jb_spec job)) ''known_hosts'' known"
      "\<exists>n. f_callback F n known" for known s1
    by (rule wpa_seq[OF load_identity_post])
      (use that in \<open>auto simp: verified_config_def job_address_def[symmetric] dest: same_but_tickD
         intro!: none dialed\<close>)
  then show ?thesis
    unfolding execute_def
    by (intro wpa_seq[OF load_known_hosts_post]) (auto dest: same_but_tickD intro: none)
qed

end
