(* ===== verification/Ssh_Pool.thy ===== *)
theory Ssh_Pool
  imports Ssh_Safety
begin

text \<open>
  The worker pool of the SSH fallback (\<open>SSHFallbackWorker\<close>) and its interleaving with the
  reconciler, the drain of the results and the control-plane controller.

  A goroutine is a key and the phase it is in: it executes, posts its result on a channel of
  bounded size, leaves \<open>inFlight\<close>, and gives its slot of the semaphore back. \<open>Enqueue\<close> is
  atomic under the mutex. What a job returns is left open: \<open>run_job\<close> says what it may be.
\<close>


section \<open>The pool\<close>

definition pool_size :: nat where "pool_size = 4"

datatype phase = Executing | Posting category | HasPosted | HasCleared

record pool =
  pl_jobs :: "(fb_key \<times> phase) list"
  pl_sem :: nat
  pl_in_flight :: "fb_key list"
  pl_results :: "(fb_key \<times> category) list"

definition new_pool :: pool where
  "new_pool = \<lparr>pl_jobs = [], pl_sem = 0, pl_in_flight = [], pl_results = []\<rparr>"

definition IsInFlight :: "pool \<Rightarrow> fb_key \<Rightarrow> bool" where
  "IsInFlight p key \<longleftrightarrow> key \<in> set (pl_in_flight p)"

definition Enqueue :: "pool \<Rightarrow> fb_key \<Rightarrow> bool \<times> pool" where
  "Enqueue p key =
     (if key \<in> set (pl_in_flight p) then (False, p)
      else if pl_sem p < pool_size
      then (True, p\<lparr>pl_sem := Suc (pl_sem p), pl_in_flight := key # pl_in_flight p,
                    pl_jobs := pl_jobs p @ [(key, Executing)]\<rparr>)
      else (False, p))"

text \<open>\<open>run\<close> after the job, \<open>postResult\<close>, and the two steps deferred in \<open>run\<close>; the receiver's end
  of the channel is in \<open>drain\<close> below. The flag says whether a result was given up for the end
  of the context.\<close>

inductive worker_step :: "bool \<Rightarrow> pool \<Rightarrow> pool \<Rightarrow> bool" where
  executed: "pl_jobs p = xs @ (key, Executing) # ys \<Longrightarrow>
     worker_step False p (p\<lparr>pl_jobs := xs @ (key, Posting c) # ys\<rparr>)"
| sent: "pl_jobs p = xs @ (key, Posting c) # ys \<Longrightarrow> length (pl_results p) < 2 * pool_size \<Longrightarrow>
     worker_step False p (p\<lparr>pl_jobs := xs @ (key, HasPosted) # ys, pl_results := pl_results p @ [(key, c)]\<rparr>)"
| given_up: "pl_jobs p = xs @ (key, Posting c) # ys \<Longrightarrow>
     worker_step True p (p\<lparr>pl_jobs := xs @ (key, HasPosted) # ys\<rparr>)"
| cleared: "pl_jobs p = xs @ (key, HasPosted) # ys \<Longrightarrow>
     worker_step False p (p\<lparr>pl_jobs := xs @ (key, HasCleared) # ys,
       pl_in_flight := removeAll key (pl_in_flight p)\<rparr>)"
| released: "pl_jobs p = xs @ (key, HasCleared) # ys \<Longrightarrow>
     worker_step False p (p\<lparr>pl_jobs := xs @ ys, pl_sem := pl_sem p - 1\<rparr>)"

text \<open>The jobs that count as in flight, and those whose result is still to come.\<close>

definition live_keys :: "pool \<Rightarrow> fb_key list" where
  "live_keys p = map fst (filter (\<lambda>j. snd j \<noteq> HasCleared) (pl_jobs p))"

definition awaited :: "pool \<Rightarrow> fb_key \<Rightarrow> bool" where
  "awaited p key \<longleftrightarrow> (\<exists>ph. (key, ph) \<in> set (pl_jobs p) \<and> (ph = Executing \<or> (\<exists>c. ph = Posting c))) \<or>
     (\<exists>c. (key, c) \<in> set (pl_results p))"

definition pool_ok :: "pool \<Rightarrow> bool" where
  "pool_ok p \<longleftrightarrow> length (pl_jobs p) = pl_sem p \<and> pl_sem p \<le> pool_size \<and>
     length (pl_results p) \<le> 2 * pool_size \<and> distinct (live_keys p) \<and>
     set (pl_in_flight p) = set (live_keys p)"

lemma pool_ok_new: "pool_ok new_pool"
  by (simp add: pool_ok_def new_pool_def live_keys_def pool_size_def)

lemma pool_ok_enqueue: "pool_ok p \<Longrightarrow> pool_ok (snd (Enqueue p key))"
  by (auto simp: pool_ok_def Enqueue_def live_keys_def image_iff)

lemma pool_ok_step: "worker_step b p p' \<Longrightarrow> pool_ok p \<Longrightarrow> pool_ok p'"
  by (induction rule: worker_step.induct) (auto simp: pool_ok_def live_keys_def)

lemma pool_ok_received: "pool_ok p \<Longrightarrow> pl_results p = kc # rs \<Longrightarrow> pool_ok (p\<lparr>pl_results := rs\<rparr>)"
  by (auto simp: pool_ok_def live_keys_def)

lemma awaited_enqueue:
  "awaited p key' \<Longrightarrow> awaited (snd (Enqueue p key)) key'"
  "fst (Enqueue p key) \<Longrightarrow> awaited (snd (Enqueue p key)) key"
  by (auto simp: awaited_def Enqueue_def split: if_splits)

lemma awaited_step: "worker_step False p p' \<Longrightarrow> awaited p key' \<Longrightarrow> awaited p' key'"
  by (erule worker_step.cases) (auto simp: awaited_def)

lemma unawaited_step: "worker_step b p p' \<Longrightarrow> \<not> awaited p key' \<Longrightarrow> \<not> awaited p' key'"
  by (erule worker_step.cases) (auto simp: awaited_def)


section \<open>The system\<close>

text \<open>The pool, the KairosControlPlanes as the API server has them, and, for the proofs, the keys
  whose success has been reported.\<close>

record fb_system =
  y_pool :: pool
  y_kcp :: "fb_key \<Rightarrow> kcp"
  y_reported :: "fb_key set"

definition dialing :: "kcp \<Rightarrow> bool" where
  "dialing k \<longleftrightarrow> (\<exists>c. ks_conds (k_status k) kubeconfig_ready = Some c \<and> \<not> cd_status c \<and>
     cd_reason c = dialing_reason)"

fun stored :: "kcp \<Rightarrow> fb_effect list \<Rightarrow> kcp" where
  "stored k [] = k"
| "stored k (ConditionPatched ks # es) = stored (k\<lparr>k_status := ks\<rparr>) es"
| "stored k (e # es) = stored k es"

definition started :: "fb_effect list \<Rightarrow> bool" where
  "started es \<longleftrightarrow> (\<exists>job. JobStarted job \<in> set es)"

text \<open>The answers of the API server and of the pool in a state.\<close>

definition reads :: "fb_system \<Rightarrow> fb_key \<Rightarrow> fb_env \<Rightarrow> bool" where
  "reads y key F \<longleftrightarrow> (\<forall>n k so. f_kcp F n = Inr (k, so) \<longrightarrow> k = y_kcp y key)"

definition answers_of :: "fb_system \<Rightarrow> fb_key \<Rightarrow> fb_env \<Rightarrow> bool" where
  "answers_of y key F \<longleftrightarrow> reads y key F \<and>
     f_in_flight F = IsInFlight (y_pool y) key \<and> f_accepts F = fst (Enqueue (y_pool y) key)"

definition fresh_fb :: "kcp \<Rightarrow> fb_st" where
  "fresh_fb k = \<lparr>fb_tick = 0, fb_kcp = k, fb_log = []\<rparr>"

definition reconciled :: "fb_system \<Rightarrow> fb_key \<Rightarrow> fb_env \<Rightarrow> fb_system" where
  "reconciled y key F =
     (let es = fb_log (snd (SshReconcile F key (fresh_fb (y_kcp y key))))
      in y\<lparr>y_pool := (if started es then snd (Enqueue (y_pool y) key) else y_pool y),
           y_kcp := (y_kcp y)(key := stored (y_kcp y key) es)\<rparr>)"

definition drained :: "fb_system \<Rightarrow> fb_key \<Rightarrow> category \<Rightarrow> (fb_key \<times> category) list \<Rightarrow> fb_env \<Rightarrow> fb_system" where
  "drained y key c rs F =
     y\<lparr>y_pool := (y_pool y)\<lparr>pl_results := rs\<rparr>,
       y_kcp := (y_kcp y)(key :=
         stored (y_kcp y key) (fb_log (snd (applyWorkerResult F c (fresh_fb (y_kcp y key)))))),
       y_reported := (if c = FbOK then insert key (y_reported y) else y_reported y)\<rparr>"

text \<open>A pass of the control-plane controller that finds no kubeconfig.\<close>

definition waited :: "env \<Rightarrow> kcp \<Rightarrow> kcp" where
  "waited E k = s_kcp (snd (markWaitingForNodePush E
     \<lparr>s_tick = 0, s_kcp = k, s_identity_checked = None, s_orphan_checked = None, s_log = []\<rparr>))"

text \<open>The steps of the fallback, and of a controller that goes on waiting. The flag says whether
  something got lost: a full pool refused a job, a result was given up, or the drain could not
  write a failure.\<close>

inductive fallback_step :: "bool \<Rightarrow> fb_system \<Rightarrow> fb_system \<Rightarrow> bool" where
  reconcile: "answers_of y key F \<Longrightarrow> lost = (\<not> f_accepts F \<and> \<not> f_in_flight F) \<Longrightarrow>
     fallback_step lost y (reconciled y key F)"
| work: "worker_step lost (y_pool y) p' \<Longrightarrow> fallback_step lost y (y\<lparr>y_pool := p'\<rparr>)"
| drain: "pl_results (y_pool y) = (key, c) # rs \<Longrightarrow> reads y key F \<Longrightarrow>
     lost = (c \<noteq> FbOK \<and> fb_log (snd (applyWorkerResult F c (fresh_fb (y_kcp y key)))) = []) \<Longrightarrow>
     fallback_step lost y (drained y key c rs F)"
| waits: "fallback_step False y (y\<lparr>y_kcp := (y_kcp y)(key := waited E (y_kcp y key))\<rparr>)"

text \<open>Runs of it, and runs in which others may write any condition but \<open>SSHFallbackDialing\<close>.\<close>

inductive fallback_run :: "fb_system \<Rightarrow> fb_system \<Rightarrow> bool" for y0 where
  refl: "fallback_run y0 y0"
| step: "fallback_run y0 y \<Longrightarrow> fallback_step lost y y' \<Longrightarrow> fallback_run y0 y'"

inductive open_run :: "fb_system \<Rightarrow> bool \<Rightarrow> fb_system \<Rightarrow> bool" for y0 where
  start: "open_run y0 False y0"
| go: "open_run y0 l y \<Longrightarrow> fallback_step lost y y' \<Longrightarrow> open_run y0 (l \<or> lost) y'"
| other: "open_run y0 l y \<Longrightarrow> \<not> dialing k \<Longrightarrow> open_run y0 l (y\<lparr>y_kcp := (y_kcp y)(key := k)\<rparr>)"


section \<open>What the parts do to the condition\<close>

lemma dialing_ineligible: "dialing k \<Longrightarrow> \<not> fst (evaluateEligibility F k ssh)"
  by (auto simp: dialing_def evaluateEligibility_def dialing_reason_def failed_reason_def
      misconfigured_reason_def)

lemma marked_dialing: "dialing (k\<lparr>k_status := marked k' reason sev\<rparr>) \<longleftrightarrow> reason = dialing_reason"
  by (auto simp: dialing_def marked_def set_cond_def cond_false_def)

lemma stored_snoc: "stored k (es @ [ConditionPatched ks]) = k\<lparr>k_status := ks\<rparr>"
  by (induction k es rule: stored.induct) auto

lemma result_not_dialing: "result_reason c = Some reason \<Longrightarrow> reason \<noteq> dialing_reason"
  by (cases c) (auto simp: result_reason_def dialing_reason_def failed_reason_def misconfigured_reason_def)

text \<open>A call of \<open>Reconcile\<close>, in three cases.\<close>

lemma reconcile_cases:
  obtains (quiet) "fb_log (snd (SshReconcile F key (fresh_fb k0))) = []"
  | (wrong) n k ssh where "f_kcp F n = Inr (k, Some ssh)" "\<not> f_in_flight F" "\<not> dialing k"
      "fb_log (snd (SshReconcile F key (fresh_fb k0))) =
         [ConditionPatched (marked k misconfigured_reason SevWarning)]"
  | (right) n k ssh job ps where "f_kcp F n = Inr (k, Some ssh)" "\<not> f_in_flight F" "\<not> dialing k"
      "dispatchable F k ssh key job" "ps = [] \<or> ps = [ConditionPatched (marked k dialing_reason SevInfo)]"
      "fb_log (snd (SshReconcile F key (fresh_fb k0))) = (if f_accepts F then [JobStarted job] else []) @ ps"
proof -
  obtain es where es: "fb_log (snd (SshReconcile F key (fresh_fb k0))) = es" "fallback_effects F key es"
    using SshReconcile_effects[of F key "fresh_fb k0"]
    by (auto simp: wpa_def fresh_fb_def split: prod.splits)
  show thesis
  proof (cases "es = []")
    case True
    with es quiet show thesis by simp
  next
    case False
    then obtain n k ssh where k: "f_kcp F n = Inr (k, Some ssh)" "\<not> f_in_flight F" "\<not> dialing k"
      and alt: "es = [ConditionPatched (marked k misconfigured_reason SevWarning)] \<or>
        (\<exists>job. dispatchable F k ssh key job \<and>
          (es = (if f_accepts F then [JobStarted job] else []) \<or>
           es = (if f_accepts F then [JobStarted job] else []) @
             [ConditionPatched (marked k dialing_reason SevInfo)]))"
      using es(2) dialing_ineligible unfolding fallback_effects_def by metis
    from alt show thesis
    proof (elim disjE exE conjE)
      show thesis if "es = [ConditionPatched (marked k misconfigured_reason SevWarning)]"
        using wrong[OF k] that es(1) by simp
      show thesis if "dispatchable F k ssh key job" "es = (if f_accepts F then [JobStarted job] else [])" for job
        using right[OF k that(1), of "[]"] that(2) es(1) by simp
      show thesis if "dispatchable F k ssh key job" "es = (if f_accepts F then [JobStarted job] else []) @
          [ConditionPatched (marked k dialing_reason SevInfo)]" for job
        using right[OF k that(1), of "[ConditionPatched (marked k dialing_reason SevInfo)]"] that(2) es(1) by simp
    qed
  qed
qed

lemma apply_cases:
  obtains (quiet) "fb_log (snd (applyWorkerResult F c (fresh_fb k0))) = []"
  | (wrote) n k so reason where "f_kcp F n = Inr (k, so)" "result_reason c = Some reason"
      "fb_log (snd (applyWorkerResult F c (fresh_fb k0))) = [ConditionPatched (marked k reason SevWarning)]"
  using apply_effects[of F c "fresh_fb k0"]
  by (auto simp: wpa_def fresh_fb_def split: prod.splits)

lemma waited_dialing: "dialing (waited E k) \<longleftrightarrow> dialing k"
proof -
  have "ks_conds (k_status (waited E k)) kubeconfig_ready = ks_conds (k_status k) kubeconfig_ready"
    if "sshFallbackOwnsKubeconfigCondition k"
    using that unfolding waited_def markWaitingForNodePush_def
    by (auto simp: act_defs op_defs set_last_push_def sshFallbackOwnsKubeconfigCondition_def)
  moreover have "\<not> dialing (waited E k)" if "\<not> sshFallbackOwnsKubeconfigCondition k"
    using that unfolding waited_def markWaitingForNodePush_def dialing_def
    by (auto simp: act_defs op_defs set_last_push_def sshFallbackOwnsKubeconfigCondition_def
        set_cond_def cond_false_def dialing_reason_def)
  moreover have "sshFallbackOwnsKubeconfigCondition k" if "dialing k"
    using that by (auto simp: dialing_def sshFallbackOwnsKubeconfigCondition_def dialing_reason_def)
  ultimately show ?thesis unfolding dialing_def by metis
qed

lemma refused_enqueue: "\<not> fst (Enqueue p key) \<Longrightarrow> snd (Enqueue p key) = p"
  by (auto simp: Enqueue_def)

lemma awaited_other: "key' \<noteq> key \<Longrightarrow> awaited (snd (Enqueue p key)) key' = awaited p key'"
  by (auto simp: awaited_def Enqueue_def)

lemma started_effects [simp]: "\<not> started []" "\<not> started [ConditionPatched ks]"
  by (simp_all add: started_def)

lemma started_right [simp]:
  "started ((if a then [JobStarted job] else []) @ ps) \<longleftrightarrow> a" if "ps = [] \<or> ps = [ConditionPatched ks]"
  using that by (auto simp: started_def)

lemma stored_right:
  "stored (k :: kcp) ((if a then [JobStarted job] else []) @ ps) = stored k ps"
  by simp


section \<open>The pool stays within its bounds\<close>

lemma pool_ok_fallback: "fallback_step lost y y' \<Longrightarrow> pool_ok (y_pool y) \<Longrightarrow> pool_ok (y_pool y')"
  by (erule fallback_step.cases)
    (auto simp: reconciled_def drained_def Let_def pool_ok_enqueue pool_ok_step
      intro: pool_ok_received)

lemma pool_ok_run: "open_run y0 l y \<Longrightarrow> pool_ok (y_pool y0) \<Longrightarrow> pool_ok (y_pool y)"
  by (induction rule: open_run.induct) (auto intro: pool_ok_fallback)


section \<open>Dialing means that a job is under way\<close>

definition accounted :: "fb_system \<Rightarrow> bool" where
  "accounted y \<longleftrightarrow> (\<forall>key. dialing (y_kcp y key) \<longrightarrow> awaited (y_pool y) key \<or> key \<in> y_reported y)"

lemma accounted_reconcile:
  assumes "answers_of y key F" "f_accepts F \<or> f_in_flight F" "accounted y"
  shows "accounted (reconciled y key F)"
proof (cases rule: reconcile_cases[of F key "y_kcp y key"])
  case quiet
  then show ?thesis using assms(3) by (simp add: reconciled_def Let_def)
next
  case (wrong n k ssh)
  then show ?thesis
    using assms(3)
    by (auto simp: reconciled_def Let_def accounted_def marked_dialing dialing_reason_def misconfigured_reason_def)
next
  case (right n k ssh job ps)
  have accepts: "f_accepts F" "fst (Enqueue (y_pool y) key)"
    using assms(1,2) right(2) by (auto simp: answers_of_def)
  have "y_pool (reconciled y key F) = snd (Enqueue (y_pool y) key)"
    using right(5,6) accepts by (auto simp: reconciled_def Let_def started_def)
  moreover have "y_reported (reconciled y key F) = y_reported y"
    "\<And>key'. key' \<noteq> key \<Longrightarrow> y_kcp (reconciled y key F) key' = y_kcp y key'"
    by (simp_all add: reconciled_def Let_def)
  ultimately show ?thesis
    using assms(3) awaited_enqueue accepts(2) unfolding accounted_def by metis
qed

lemma accounted_drain:
  assumes "pl_results (y_pool y) = (key, c) # rs"
    and "c = FbOK \<or> fb_log (snd (applyWorkerResult F c (fresh_fb (y_kcp y key)))) \<noteq> []" "accounted y"
  shows "accounted (drained y key c rs F)"
proof -
  have others: "awaited (y_pool (drained y key c rs F)) key'" if "awaited (y_pool y) key'" "key' \<noteq> key" for key'
    using that assms(1) by (auto simp: awaited_def drained_def)
  have own: "\<not> dialing (y_kcp (drained y key c rs F) key) \<or> key \<in> y_reported (drained y key c rs F)"
  proof (cases rule: apply_cases[of F c "y_kcp y key"])
    case quiet
    then show ?thesis using assms(2) by (simp add: drained_def)
  next
    case (wrote n k so reason)
    then show ?thesis
      using result_not_dialing[OF wrote(2)] marked_dialing by (simp add: drained_def)
  qed
  show ?thesis
    unfolding accounted_def
  proof (intro allI impI)
    fix key' assume d: "dialing (y_kcp (drained y key c rs F) key')"
    show "awaited (y_pool (drained y key c rs F)) key' \<or> key' \<in> y_reported (drained y key c rs F)"
    proof (cases "key' = key")
      case False
      then have "y_kcp (drained y key c rs F) key' = y_kcp y key'"
        "y_reported y \<subseteq> y_reported (drained y key c rs F)" by (auto simp: drained_def)
      with d assms(3) others[OF _ False] show ?thesis unfolding accounted_def by (metis subsetD)
    qed (use own d in auto)
  qed
qed

lemma accounted_step: "fallback_step False y y' \<Longrightarrow> accounted y \<Longrightarrow> accounted y'"
proof (erule fallback_step.cases)
  show "accounted y'" if "accounted y" "False = lost" "y = y1" "y' = reconciled y1 key F"
      "answers_of y1 key F" "lost = (\<not> f_accepts F \<and> \<not> f_in_flight F)" for key F lost y1
    using that accounted_reconcile by metis
  show "accounted y'" if "accounted y" "False = lost" "y = y1" "y' = y1\<lparr>y_pool := p'\<rparr>"
      "worker_step lost (y_pool y1) p'" for lost y1 p'
    using that awaited_step[of "y_pool y1" p'] by (simp add: accounted_def) metis
  show "accounted y'" if "accounted y" "False = lost" "y = y1" "y' = drained y1 key c rs F"
      "pl_results (y_pool y1) = (key, c) # rs"
      "lost = (c \<noteq> FbOK \<and> fb_log (snd (applyWorkerResult F c (fresh_fb (y_kcp y1 key)))) = [])"
    for lost y1 key c rs F
    using that accounted_drain by metis
  show "accounted y'" if "accounted y" "False = False" "y = y1"
      "y' = y1\<lparr>y_kcp := (y_kcp y1)(key := waited E (y_kcp y1 key))\<rparr>" for y1 key E
    using that waited_dialing[of E "y_kcp y1 key"] by (simp add: accounted_def)
qed

end
