(* ===== verification/Ssh_Claims.thy ===== *)
theory Ssh_Claims
  imports Ssh_Pool
begin

text \<open>
  The properties of the SSH fallback: when it starts a job, what a job may do, and the pool as
  its steps interleave, with the state in which the fallback stops for good.
\<close>


section \<open>Runs\<close>

lemma accounted_run: "open_run y0 l y \<Longrightarrow> \<not> l \<Longrightarrow> accounted y0 \<Longrightarrow> accounted y"
proof (induction rule: open_run.induct)
  case (other l y k key)
  then show ?case by (auto simp: accounted_def)
qed (auto intro: accounted_step)

text \<open>Stuck: the condition says that a job is under way, and none is.\<close>

definition stuck :: "fb_system \<Rightarrow> fb_key \<Rightarrow> bool" where
  "stuck y key \<longleftrightarrow> dialing (y_kcp y key) \<and> \<not> awaited (y_pool y) key"

lemma stuck_reconcile:
  assumes "answers_of y key' F" "stuck y key"
  shows "stuck (reconciled y key' F) key"
proof (cases "key' = key")
  case True
  show ?thesis
  proof (cases rule: reconcile_cases[of F key' "y_kcp y key'"])
    case quiet
    then show ?thesis using assms(2) True by (simp add: stuck_def reconciled_def Let_def)
  qed (use assms True in \<open>auto simp: stuck_def answers_of_def reads_def\<close>)
next
  case False
  then have "y_kcp (reconciled y key' F) key = y_kcp y key"
    "awaited (y_pool (reconciled y key' F)) key = awaited (y_pool y) key"
    using awaited_other[of key key' "y_pool y"] by (simp_all add: reconciled_def Let_def)
  with assms(2) show ?thesis by (simp add: stuck_def)
qed

lemma stuck_step:
  assumes "fallback_step lost y y'" "stuck y key"
  shows "stuck y' key"
  using assms(1)
proof cases
  case (reconcile key' F)
  then show ?thesis using stuck_reconcile assms(2) by simp
next
  case (work p')
  then show ?thesis using unawaited_step[OF work(2)] assms(2) by (simp add: stuck_def)
next
  case (drain key' c rs F)
  then have "key' \<noteq> key" using assms(2) by (auto simp: stuck_def awaited_def)
  then show ?thesis using drain assms(2) by (auto simp: stuck_def drained_def awaited_def)
next
  case (waits key' E)
  then show ?thesis using assms(2) waited_dialing by (auto simp: stuck_def)
qed

lemma stuck_run: "fallback_run y z \<Longrightarrow> stuck y key \<Longrightarrow> stuck z key"
  by (induction rule: fallback_run.induct) (auto intro: stuck_step)

lemma eligible_iff:
  "fst (evaluateEligibility F k ssh) \<longleftrightarrow>
     (\<exists>c t. ks_conds (k_status k) kubeconfig_ready = Some c \<and> \<not> cd_status c \<and>
        cd_reason c \<in> {''WaitingForNodePush'', failed_reason, misconfigured_reason} \<and>
        ks_last_push (k_status k) = Some t \<and> activate_after ssh \<le> f_now F - t)"
  by (auto simp: evaluateEligibility_def Let_def split: option.splits if_splits)


section \<open>The properties\<close>

text \<open>
  C36: A job is started only when it is wanted. Whatever the servers answer, a call of the
  fallback's Reconcile starts at most one job, for a control plane with the fallback enabled
  and none in flight, whose kubeconfig has been waited for or whose last attempt failed, not
  before the configured time since the wait began; and the job has a Cluster that was read, two
  Secrets not known to be missing, the address of a Machine the control plane owns, and the
  server the control-plane controller expects.
\<close>

theorem fallback_starts_when_due:
  assumes "SshReconcile F key s = (r, s')" "fb_log s = []" "JobStarted job \<in> set (fb_log s')"
  shows "\<exists>n k ssh c t. f_kcp F n = Inr (k, Some ssh) \<and> sf_enabled ssh \<and> \<not> f_in_flight F \<and> f_accepts F \<and>
    ks_conds (k_status k) kubeconfig_ready = Some c \<and> \<not> cd_status c \<and>
    cd_reason c \<in> {''WaitingForNodePush'', failed_reason, misconfigured_reason} \<and>
    ks_last_push (k_status k) = Some t \<and> activate_after ssh \<le> f_now F - t \<and>
    dispatchable F k ssh key job \<and> filter (\<lambda>e. \<exists>j. e = JobStarted j) (fb_log s') = [JobStarted job]"
proof -
  have es: "fallback_effects F key (fb_log s')"
    using wpa_result[OF assms(1) SshReconcile_effects] assms(2) by auto
  obtain n k ssh where k: "f_kcp F n = Inr (k, Some ssh)" "sf_enabled ssh" "\<not> f_in_flight F"
      "fst (evaluateEligibility F k ssh)"
    and alt: "fb_log s' = [ConditionPatched (marked k misconfigured_reason SevWarning)] \<or>
      (\<exists>j. dispatchable F k ssh key j \<and>
         (fb_log s' = (if f_accepts F then [JobStarted j] else []) \<or>
          fb_log s' = (if f_accepts F then [JobStarted j] else []) @
            [ConditionPatched (marked k dialing_reason SevInfo)]))"
    using es assms(3) unfolding fallback_effects_def by (metis empty_iff empty_set)
  have j: "f_accepts F" "dispatchable F k ssh key job"
    "filter (\<lambda>e. \<exists>j. e = JobStarted j) (fb_log s') = [JobStarted job]"
    using alt assms(3) by (auto split: if_splits)
  obtain c t where "ks_conds (k_status k) kubeconfig_ready = Some c" "\<not> cd_status c"
    "cd_reason c \<in> {''WaitingForNodePush'', failed_reason, misconfigured_reason}"
    "ks_last_push (k_status k) = Some t" "activate_after ssh \<le> f_now F - t"
    using k(4) unfolding eligible_iff by (elim exE conjE)
  with j k(1-3) show ?thesis
    by (intro exI[of _ n] exI[of _ k] exI[of _ ssh] exI[of _ c] exI[of _ t] conjI)
qed

text \<open>
  C35: A job keeps to its task. Whatever the node and the servers answer, it dials the one
  address it was given, with the user of its spec, the key of the identity Secret and a host-key
  check made of the known-hosts Secret, both parsed; it runs one command, which reads the
  kubeconfig of the distribution; and it writes the contract Secret of its Cluster at most once,
  with what the sanitizer made of at most a mebibyte of that file for the expected server. It
  does so in this order, reports one event, and success only when the Secret holds the result.
\<close>

theorem fallback_job_is_confined:
  assumes "run_job F job s = (r, s')" "fb_log s = []"
  shows "\<exists>es ev c. r = Inr c \<and> fb_log s' = es @ ev \<and> job_trace F job es \<and>
    (c = FbOK \<longrightarrow> job_delivered F job es) \<and>
    ev \<in> {[], [FallbackEvent (if c = FbOK then Normal else Warning) c]}"
proof -
  define Q where "Q = (\<lambda>(r :: category + category) (s' :: fb_st). \<exists>es ev c. r = Inr c \<and>
    fb_log s' = es @ ev \<and> job_trace F job es \<and> (c = FbOK \<longrightarrow> job_delivered F job es) \<and>
    ev \<in> {[], [FallbackEvent (if c = FbOK then Normal else Warning) c]})"
  have event: "wpa (bindA (emitEvent F c) (\<lambda>_. ret c)) Q s1"
    if "job_trace F job (fb_log s1)" "c = FbOK \<longrightarrow> job_delivered F job (fb_log s1)" for c s1
  proof -
    have stop: "Q (Inr c) s2" if "fb_log s2 = fb_log s1 @ ev"
        "ev \<in> {[], [FallbackEvent (if c = FbOK then Normal else Warning) c]}" for s2 ev
      unfolding Q_def
      by (rule exI[of _ "fb_log s1"], rule exI[of _ ev], rule exI[of _ c])
        (use that \<open>_ \<longrightarrow> job_delivered _ _ _\<close> \<open>job_trace _ _ (fb_log s1)\<close> in simp)
    show ?thesis
      unfolding emitEvent_def
      using stop[of _ "[]"] stop[of _ "[FallbackEvent (if c = FbOK then Normal else Warning) c]"]
      by (auto simp: wpa_bind wpa_fask wpa_flog wpa_ret split: sum.split)
  qed
  have "wpa (run_job F job) Q s"
    unfolding run_job_def Let_def
  proof (rule wpa_seq_try[OF execute_post])
    fix r1 s1 assume "job_post F job (fb_log s) [] r1 s1"
    then have post: "job_trace F job (fb_log s1)" "r1 = Inr () \<longrightarrow> job_delivered F job (fb_log s1)" "r1 \<noteq> Inl FbOK"
      using assms(2) by (auto simp: job_post_def)
    show "wpa (bindA (emitEvent F (case r1 of Inl c \<Rightarrow> c | Inr _ \<Rightarrow> FbOK))
        (\<lambda>_. ret (case r1 of Inl c \<Rightarrow> c | Inr _ \<Rightarrow> FbOK))) Q s1"
      by (rule event) (use post in \<open>auto split: sum.split\<close>)
  qed
  then have "Q r s'" using assms(1) by (simp add: wpa_def)
  then show ?thesis by (simp only: Q_def)
qed

text \<open>
  C37: The pool keeps its bounds. In every run, however reconciles, jobs, results and other
  writers interleave, at most four goroutines hold a slot and each slot belongs to one, at most
  eight results are queued, a control plane has at most one job in flight, and IsInFlight says
  for which there is one.
\<close>

theorem pool_stays_bounded:
  assumes "open_run y0 l y" "y_pool y0 = new_pool"
  shows "length (pl_jobs (y_pool y)) = pl_sem (y_pool y) \<and> pl_sem (y_pool y) \<le> 4 \<and>
    length (pl_results (y_pool y)) \<le> 8 \<and> distinct (live_keys (y_pool y)) \<and>
    (\<forall>key. IsInFlight (y_pool y) key \<longleftrightarrow> key \<in> set (live_keys (y_pool y)))"
  using pool_ok_run[OF assms(1)] assms(2) pool_ok_new
  by (simp add: pool_ok_def pool_size_def IsInFlight_def)

text \<open>
  C38: Dialing means that something will come of it. In every run in which the pool refused no
  job, no result was given up and every failure could be written, a control plane whose
  condition says SSHFallbackDialing has a job executing or posting its result, a result queued,
  or a success reported that the control-plane controller is to see.
\<close>

theorem dialing_is_accounted_for:
  assumes "open_run y0 False y" "\<And>key. \<not> dialing (y_kcp y0 key)" "dialing (y_kcp y key)"
  shows "(\<exists>ph. (key, ph) \<in> set (pl_jobs (y_pool y)) \<and> (ph = Executing \<or> (\<exists>c. ph = Posting c))) \<or>
    (\<exists>c. (key, c) \<in> set (pl_results (y_pool y))) \<or> key \<in> y_reported y"
  using accounted_run[OF assms(1)] assms(2,3) unfolding accounted_def awaited_def by blast

text \<open>
  C39: A full pool stops the fallback for good. When a Reconcile that writes SSHFallbackDialing
  meets a full pool, no job is started for the control plane, and however the fallback goes on,
  with the slots free again and the control-plane controller waiting for the node, the condition
  stays and none is ever started.
\<close>

theorem full_pool_stops_fallback:
  assumes "answers_of y key F" "pl_sem (y_pool y) = 4" "\<not> awaited (y_pool y) key"
    and "dialing (y_kcp (reconciled y key F) key)" "fallback_run (reconciled y key F) z"
  shows "dialing (y_kcp z key) \<and> \<not> awaited (y_pool z) key"
proof -
  have "y_pool (reconciled y key F) = y_pool y"
    using assms(2) by (simp add: reconciled_def Let_def Enqueue_def pool_size_def)
  with assms(3,4) have "stuck (reconciled y key F) key" by (simp add: stuck_def)
  from stuck_run[OF assms(5) this] show ?thesis by (simp add: stuck_def)
qed

end
