(* ===== verification/Ssh_Examples.thy ===== *)
theory Ssh_Examples
  imports Ssh_Claims Publish_Examples
begin

text \<open>
  The SSH fallback on a control plane that has waited an hour for its node: a Reconcile that
  starts a job, the job, and the same Reconcile when the pool is full.
\<close>


section \<open>The world\<close>

definition ssh0 :: ssh_fallback where
  "ssh0 = \<lparr>sf_enabled = True,
     sf_identity = Some \<lparr>sr_name = ''id'', sr_namespace = [], sr_key = []\<rparr>,
     sf_known_hosts = Some \<lparr>sr_name = ''kh'', sr_namespace = [], sr_key = []\<rparr>,
     sf_user = ''kairos'', sf_port = 0, sf_activate = None\<rparr>"

definition waiting_kcp :: kcp where
  "waiting_kcp = kcp0\<lparr>k_status := kstatus0\<lparr>
     ks_conds := [kubeconfig_ready \<mapsto> cond_false ''WaitingForNodePush'' SevWarning],
     ks_last_push := Some (hours 47)\<rparr>\<rparr>"

definition fb_machine0 :: fb_machine where
  "fb_machine0 = \<lparr>fm_owners = [kcp_ref kcp0], fm_addresses = [(''Hostname'', ''a''), (''InternalIP'', ''10.0.0.7'')]\<rparr>"

definition fb_env0 :: "bool \<Rightarrow> fb_env" where
  "fb_env0 a = \<lparr>f_env = env0, f_now = now0, f_kcp = (\<lambda>_. Inr (waiting_kcp, Some ssh0)),
     f_helper = (\<lambda>_. None), f_patch = (\<lambda>_. None), f_cluster = (\<lambda>_. Inr cluster0),
     f_secret = (\<lambda>_ _ _. Inr [''known_hosts'' \<mapsto> ''hosts'', ''ssh-privatekey'' \<mapsto> ''pem'']),
     f_machines = (\<lambda>_. Inr [fb_machine0]), f_eval = 0, f_worker = True, f_in_flight = False,
     f_accepts = a, f_recorder = True, f_callback = (\<lambda>_ _. True), f_signer = (\<lambda>_. True),
     f_dial = (\<lambda>_ _ _. None), f_session = (\<lambda>_. True), f_run = (\<lambda>_ _. ([toy_raw], False)),
     f_contract = (\<lambda>_ _ _. Inl NotFound), f_write = (\<lambda>_. None)\<rparr>"

definition key0 :: fb_key where "key0 = NamespacedName ''default'' ''cp''"

definition job0 :: fb_job where
  "job0 = \<lparr>jb_key = key0, jb_cluster = cluster0, jb_spec = ssh0, jb_distribution = ''k0s'',
     jb_host = ''10.0.0.7'', jb_server = server0\<rparr>"

lemma fb_env0_fields [simp]:
  "f_env (fb_env0 a) = env0" "f_now (fb_env0 a) = now0" "f_kcp (fb_env0 a) n = Inr (waiting_kcp, Some ssh0)"
  "f_helper (fb_env0 a) n = None" "f_patch (fb_env0 a) n = None" "f_cluster (fb_env0 a) n = Inr cluster0"
  "f_secret (fb_env0 a) n ns name = Inr [''known_hosts'' \<mapsto> ''hosts'', ''ssh-privatekey'' \<mapsto> ''pem'']"
  "f_machines (fb_env0 a) n = Inr [fb_machine0]" "f_eval (fb_env0 a) = 0" "f_worker (fb_env0 a)"
  "\<not> f_in_flight (fb_env0 a)" "f_accepts (fb_env0 a) = a" "f_recorder (fb_env0 a)"
  "f_callback (fb_env0 a) n d" "f_signer (fb_env0 a) d" "f_dial (fb_env0 a) n addr cfg = None"
  "f_session (fb_env0 a) n" "f_run (fb_env0 a) n cmd = ([toy_raw], False)"
  "f_contract (fb_env0 a) n ns name = Inl NotFound" "f_write (fb_env0 a) n = None"
  by (simp_all add: fb_env0_def)

lemma ssh0_fields [simp]:
  "sf_enabled ssh0" "sf_identity ssh0 = Some \<lparr>sr_name = ''id'', sr_namespace = [], sr_key = []\<rparr>"
  "sf_known_hosts ssh0 = Some \<lparr>sr_name = ''kh'', sr_namespace = [], sr_key = []\<rparr>"
  "sf_user ssh0 = ''kairos''" "sf_port ssh0 = 0" "sf_activate ssh0 = None"
  by (simp_all add: ssh0_def)

lemma due: "evaluateEligibility (fb_env0 a) waiting_kcp ssh0 = (True, 0)"
  by (simp add: evaluateEligibility_def waiting_kcp_def cond_false_def activate_after_def now0_def
      hours_def minutes_def seconds_def ns_per_s_def)

lemma host0: "owned_address waiting_kcp fb_machine0 = ''10.0.0.7''"
  by (simp add: owned_address_def fb_machine0_def controller_ref_def kcp_ref_def waiting_kcp_def
      preferredMachineAddress_def)

lemma server_resolved: "resolveExpectedServer E waiting_kcp cluster0 s = (Inr (Some server0), s)"
  by (simp add: resolveExpectedServer_def isKubevirtControlPlane_def waiting_kcp_def kcp0_def cluster0_def
      server0 ret_def)

lemma distribution0 [simp]: "k_distribution waiting_kcp = ''k0s''"
  by (simp add: waiting_kcp_def kcp0_def)

lemmas fb_runs = ftick_def flog_def fread_def fask_def fmark_def fpatch_def act_defs

lemma fb_reconciled:
  "\<exists>s'. SshReconcile (fb_env0 a) key0 (fresh_fb k0) = (Inr (minutes 1), s') \<and>
     fb_log s' = (if a then [JobStarted job0] else []) @
       [ConditionPatched (marked waiting_kcp dialing_reason SevInfo)]"
  by (simp add: SshReconcile_def decide_fallback_def due with_cluster_def missingSSHFallbackSecrets_def
      check_ref_def ann_def resolveControlPlaneHost_def host0 with_host_def in_control_plane_def
      server_resolved dispatch_job_def fb_enqueue_def fresh_fb_def evalRequeue_def
      sshFallbackEvalRequeue_def marked_def job0_def Let_def fb_runs)

lemma fallback_starts_when_due_witness:
  "\<exists>s' k. SshReconcile (fb_env0 True) key0 (fresh_fb waiting_kcp) = (Inr (minutes 1), s') \<and>
     filter (\<lambda>e. \<exists>j. e = JobStarted j) (fb_log s') = [JobStarted job0] \<and>
     dispatchable (fb_env0 True) k ssh0 key0 job0"
proof -
  obtain s' where run: "SshReconcile (fb_env0 True) key0 (fresh_fb waiting_kcp) = (Inr (minutes 1), s')"
    and log: "fb_log s' = [JobStarted job0, ConditionPatched (marked waiting_kcp dialing_reason SevInfo)]"
    using fb_reconciled[of True waiting_kcp] by auto
  have "JobStarted job0 \<in> set (fb_log s')" "fb_log (fresh_fb waiting_kcp) = []"
    by (simp_all add: log fresh_fb_def)
  from fallback_starts_when_due[OF run this(2,1)] run show ?thesis by auto
qed


section \<open>The job\<close>

lemma job0_fields [simp]:
  "jb_key job0 = key0" "jb_cluster job0 = cluster0" "jb_spec job0 = ssh0" "jb_distribution job0 = ''k0s''"
  "jb_host job0 = ''10.0.0.7''" "jb_server job0 = server0"
  by (simp_all add: job0_def)

lemma toy_raw_read: "bb_overflowed (read_output [toy_raw]) = False" "bb_bytes (read_output [toy_raw]) = toy_raw"
  by (simp_all add: read_output_bounded toy_raw_def max_payload_def)

lemma server0_there: "server0 \<noteq> []"
  by (simp add: server0_def)

lemma lib0 [simp]: "e_lib env0 = toy_lib"
  by (simp add: env0_def)

lemma job_run:
  "\<exists>s' d cmd sec. run_job (fb_env0 True) job0 (fresh_fb waiting_kcp) = (Inr FbOK, s') \<and>
     fb_log s' = [d, cmd, ContractUpserted None sec, FallbackEvent Normal FbOK]"
  by (simp add: run_job_def execute_def loadKnownHosts_def loadIdentity_def load_ref_def ann_def dial_def
      remoteKubeconfigPath_def runRemoteCat_def toy_raw_read writeKubeconfigSecret_def server0_there
      toy_sanitized upsert_contract_def emitEvent_def fresh_fb_def Let_def fb_runs)

lemma fallback_job_is_confined_witness:
  "\<exists>s' es ev. run_job (fb_env0 True) job0 (fresh_fb waiting_kcp) = (Inr FbOK, s') \<and>
     fb_log s' = es @ ev \<and> job_trace (fb_env0 True) job0 es \<and> job_delivered (fb_env0 True) job0 es \<and>
     ev \<in> {[], [FallbackEvent Normal FbOK]}"
proof -
  obtain s' where run: "run_job (fb_env0 True) job0 (fresh_fb waiting_kcp) = (Inr FbOK, s')"
    using job_run by metis
  have "fb_log (fresh_fb waiting_kcp) = []" by (simp add: fresh_fb_def)
  from fallback_job_is_confined[OF run this] run show ?thesis by auto
qed


section \<open>The pool\<close>

definition idle_system :: "pool \<Rightarrow> fb_system" where
  "idle_system p = \<lparr>y_pool = p, y_kcp = (\<lambda>_. waiting_kcp), y_reported = {}\<rparr>"

lemma waiting_not_dialing: "\<not> dialing waiting_kcp"
  by (simp add: dialing_def waiting_kcp_def cond_false_def dialing_reason_def)

lemma started_system:
  "reconciled (idle_system p) key0 (fb_env0 a) =
     (idle_system p)\<lparr>y_pool := (if a then snd (Enqueue p key0) else p),
       y_kcp := (\<lambda>_. waiting_kcp)(key0 := waiting_kcp\<lparr>k_status := marked waiting_kcp dialing_reason SevInfo\<rparr>)\<rparr>"
proof -
  obtain s' where "SshReconcile (fb_env0 a) key0 (fresh_fb waiting_kcp) = (Inr (minutes 1), s')"
    "fb_log s' = (if a then [JobStarted job0] else []) @
       [ConditionPatched (marked waiting_kcp dialing_reason SevInfo)]"
    using fb_reconciled[of a waiting_kcp] by auto
  then show ?thesis
    by (simp add: reconciled_def idle_system_def started_def)
qed

lemma answers_of_idle:
  "answers_of (idle_system p) key0 (fb_env0 a) \<longleftrightarrow> \<not> IsInFlight p key0 \<and> a = fst (Enqueue p key0)"
  by (auto simp: answers_of_def reads_def idle_system_def)

text \<open>The pool is new and the job has been accepted.\<close>

lemma first_run: "open_run (idle_system new_pool) False (reconciled (idle_system new_pool) key0 (fb_env0 True))"
proof -
  have "fallback_step False (idle_system new_pool) (reconciled (idle_system new_pool) key0 (fb_env0 True))"
    by (rule fallback_step.reconcile)
      (auto simp: answers_of_idle IsInFlight_def Enqueue_def new_pool_def pool_size_def)
  from open_run.go[OF open_run.start this] show ?thesis by simp
qed

lemma pool_stays_bounded_witness:
  "length (pl_results (y_pool (reconciled (idle_system new_pool) key0 (fb_env0 True)))) \<le> 8"
  using pool_stays_bounded[OF first_run] by (simp add: idle_system_def)

lemma dialing_is_accounted_for_witness:
  "\<exists>ph. (key0, ph) \<in> set (pl_jobs (y_pool (reconciled (idle_system new_pool) key0 (fb_env0 True)))) \<and>
     (ph = Executing \<or> (\<exists>c. ph = Posting c))"
proof -
  let ?y = "reconciled (idle_system new_pool) key0 (fb_env0 True)"
  have "dialing (y_kcp ?y key0)"
    by (simp add: started_system marked_dialing)
  moreover have "pl_results (y_pool ?y) = []" "y_reported ?y = {}"
    unfolding started_system by (simp_all add: idle_system_def Enqueue_def new_pool_def pool_size_def)
  ultimately show ?thesis
    using dialing_is_accounted_for[OF first_run, of key0] waiting_not_dialing
    by (simp add: idle_system_def)
qed

text \<open>A pool whose four goroutines have reported and are about to give their slots back, and the
  same once they have.\<close>

definition last_key :: fb_key where "last_key = NamespacedName ''default'' ''other''"

definition releasing :: "nat \<Rightarrow> pool" where
  "releasing n = new_pool\<lparr>pl_sem := n, pl_jobs := replicate n (last_key, HasCleared)\<rparr>"

definition full_pool :: pool where "full_pool = releasing 4"

lemma release_one: "worker_step False (releasing (Suc n)) (releasing n)"
  using worker_step.released[of "releasing (Suc n)" "[]" last_key "replicate n (last_key, HasCleared)"]
  by (simp add: releasing_def new_pool_def)

lemma work_in: "worker_step False p p' \<Longrightarrow> fallback_step False (y\<lparr>y_pool := p\<rparr>) (y\<lparr>y_pool := p'\<rparr>)"
  using fallback_step.work[of False "y\<lparr>y_pool := p\<rparr>" p'] by simp

lemma pool_empties: "fallback_run (y\<lparr>y_pool := releasing (n + m)\<rparr>) (y\<lparr>y_pool := releasing m\<rparr>)"
proof (induction n arbitrary: m)
  case (Suc n)
  then have "fallback_run (y\<lparr>y_pool := releasing (Suc n + m)\<rparr>) (y\<lparr>y_pool := releasing (Suc m)\<rparr>)"
    using Suc.IH[of "Suc m"] by simp
  then show ?case by (rule fallback_run.step) (rule work_in[OF release_one])
qed (simp add: fallback_run.refl)

lemma releasing_fields [simp]:
  "pl_sem (releasing n) = n" "pl_in_flight (releasing n) = []" "pl_results (releasing n) = []"
  "\<not> awaited (releasing n) key" "releasing 0 = new_pool"
  by (auto simp: releasing_def new_pool_def awaited_def)

text \<open>The control plane was waiting, the pool full; then the pool is empty, and it stays so.\<close>

lemma full_pool_stops_fallback_witness:
  "\<not> dialing (y_kcp (idle_system full_pool) key0) \<and>
   (\<exists>z. fallback_run (reconciled (idle_system full_pool) key0 (fb_env0 False)) z \<and> y_pool z = new_pool \<and>
      dialing (y_kcp z key0) \<and> \<not> awaited (y_pool z) key0)"
proof -
  let ?y = "reconciled (idle_system full_pool) key0 (fb_env0 False)"
  have answers: "answers_of (idle_system full_pool) key0 (fb_env0 False)"
    by (simp add: answers_of_idle IsInFlight_def Enqueue_def full_pool_def pool_size_def)
  have full: "pl_sem (y_pool (idle_system full_pool)) = 4" "\<not> awaited (y_pool (idle_system full_pool)) key0"
    by (auto simp: idle_system_def full_pool_def)
  have dials: "dialing (y_kcp ?y key0)" by (simp add: started_system marked_dialing)
  have "?y = ?y\<lparr>y_pool := full_pool\<rparr>" unfolding started_system by (simp add: idle_system_def)
  then have run: "fallback_run ?y (?y\<lparr>y_pool := new_pool\<rparr>)"
    using pool_empties[where y = ?y and n = 4 and m = 0] by (simp add: full_pool_def)
  from full_pool_stops_fallback[OF answers full dials run] run
  show ?thesis
    using waiting_not_dialing by (intro conjI exI[of _ "?y\<lparr>y_pool := new_pool\<rparr>"]) (simp_all add: idle_system_def)
qed

end
