(* ===== verification/Spec2Isabelle.thy ===== *)
theory Spec2Isabelle
  imports Reconcile_Examples Publish_Examples Control_Examples Admission_Safety
    Cloud_Config_Examples Bootstrap_Examples Ssh_Examples
begin

text \<open>
  The Kairos Cluster API provider.

  The program is a set of Kubernetes controllers. The control-plane controller
  (\<open>internal/controllers/controlplane\<close>) keeps the control-plane Machines of a cluster at the
  number and version its KairosControlPlane asks for, takes a member out of etcd before its
  Machine goes, gives k0s joiners their tokens, and publishes the kubeconfig the nodes push.
  The bootstrap controller (\<open>internal/controllers/bootstrap\<close>) turns a KairosConfig into the
  cloud-config of one node, with \<open>internal/bootstrap\<close> rendering it, and gives kubeadm workers
  their tokens. Admission webhooks (\<open>api\<close>) check the objects both work from. The controllers
  talk to two API servers, the management cluster's and the workload cluster's, and keep what
  they must remember in annotations, conditions and status. This development models them as
  state-passing programs and proves what they may do to a running cluster.

  \<^bold>\<open>How the code is modelled.\<close> A Go function that returns \<open>(T, error)\<close> is a function from the
  pass state to an error or a value and the next state (\<open>Kairos_Prelude\<close>); \<open>bindA\<close> is
  \<open>if err != nil { return err }\<close>, \<open>tryA\<close> leaves the error to the code that follows. The pass
  state holds the reconciled object in memory (\<open>st\<close> for the KairosControlPlane, \<open>bst\<close> for the
  KairosConfig), the number of requests made and the log of the effects that took place. What
  the servers, the clock and the random source answer is a record (\<open>env\<close>, \<open>benv\<close>): the answer
  to the n-th request is what its field says at n, and nothing is assumed of it, so a theorem
  holds under every failure and every interleaving with other writers. Objects are records
  with the fields the code reads or writes (\<open>Kcp_Model\<close>, \<open>Bootstrap_Model\<close>, \<open>Admission\<close>).

  \<^bold>\<open>Theories and code: the control plane.\<close>
  \<^item> \<open>Kairos_Prelude\<close>, \<open>Go_Net\<close>, \<open>Go_Time\<close>: int32 arithmetic, \<open>strings\<close>, IP addresses,
    RFC 3339 stamps; the action type and its proof principles \<open>guards\<close>, \<open>wpa\<close>.
  \<^item> \<open>Workload_Identity\<close> (\<open>ha_identity.go\<close>): the pinned UID of the workload cluster and the
    freeze. \<open>Leave_Candidates\<close>, \<open>Leave_Connect\<close> (\<open>ha_leave_member.go\<close>): which addresses the
    controller may talk to, and verified connections.
  \<^item> \<open>Etcd_Status\<close> (\<open>ha_etcd.go\<close>): reported etcd health and the quorum guard. \<open>Member_Leave\<close>,
    \<open>Leave_Protocol\<close> (\<open>ha_leave*.go\<close>): the etcd-leave handshake. \<open>Etcd_Orphans\<close>
    (\<open>ha_etcd_orphans.go\<close>): removal of etcd members no Machine accounts for.
  \<^item> \<open>Machine_Names\<close>, \<open>Infra_Clone\<close>, \<open>Machine_Create\<close> (\<open>machine_names.go\<close>, \<open>node_drain.go\<close>,
    \<open>machine_metadata.go\<close>, \<open>infrastructure/clone.go\<close>, the create and delete functions of
    \<open>kairoscontrolplane_controller.go\<close>): names, order, metadata, clones, one create.
  \<^item> \<open>Join_Tokens\<close>, \<open>Join_Token_Safety\<close>, \<open>HA_Secrets\<close> (\<open>ha_k0s_jointoken.go\<close>, \<open>ha_tokens.go\<close>,
    \<open>internal/k0sjointoken\<close>): join tokens and the HA Secrets.
  \<^item> \<open>Rollout\<close>, \<open>Reconcile_Machines\<close> (\<open>rollout.go\<close>, \<open>reconcileMachines\<close>): the pass over the
    Machines. \<open>Pass_Frame\<close>, \<open>Membership_Change\<close>, \<open>Rollout_Runs\<close>: what a pass may change, and
    runs of passes.
  \<^item> \<open>Kubeconfig_Sanitize\<close>, \<open>Sanitize_Safety\<close> (\<open>internal/kubeconfig\<close>): the sanitizer.
    \<open>Kubeconfig_Publish\<close>, \<open>Publish_Safety\<close> (\<open>kubeconfig_publish.go\<close>): publishing.
  \<^item> \<open>Load_Balancer\<close>, \<open>Teardown\<close>, \<open>Control_Plane_Status\<close>, \<open>Control_Plane_Reconcile\<close>,
    \<open>Reconcile_Safety\<close> (\<open>kairoscontrolplane_controller.go\<close>, \<open>cleanup.go\<close>, \<open>template_ownership.go\<close>,
    \<open>infrastructure/lookup.go\<close>): the LoadBalancer Service and the node addresses, deletion, the
    status and conditions, the whole of \<open>Reconcile\<close>, and what it may do.

  \<^item> \<open>Ssh_Fallback\<close>, \<open>Ssh_Reconcile\<close> (\<open>ssh_fallback_worker.go\<close>, \<open>ssh_fallback_controller.go\<close>):
    the opt-in recovery path that fetches a kubeconfig over SSH. The first has one job of the
    worker, from the known-hosts Secret to the contract Secret; the second the reconciler, its
    eligibility test, the worker's entry points and what is done with a result. Both run in a
    state of their own (\<open>fb_st\<close>) against the answers \<open>fb_env\<close>.
  \<^item> \<open>Ssh_Logic\<close>, \<open>Ssh_Safety\<close>, \<open>Ssh_Pool\<close>, \<open>Ssh_Claims\<close>: the post-conditions of these
    operations; what a job may do; the worker's pool, its result queue and the other writers
    of the control plane as a step relation (\<open>worker_step\<close>, \<open>fallback_step\<close>), with its
    invariants along every run; what follows.

  \<^bold>\<open>Theories and code: the nodes.\<close>
  \<^item> \<open>Admission\<close>, \<open>Admission_Safety\<close> (\<open>api/bootstrap/v1beta2\<close>, \<open>api/controlplane/v1beta2\<close>):
    defaulting and validation of KairosConfig, KairosControlPlane and its template.
  \<^item> \<open>Cloud_Config\<close>, \<open>Cloud_Config_Safety\<close> (\<open>internal/bootstrap\<close>): the renderer, its checks and
    the functions its templates call.
  \<^item> \<open>Bootstrap_Model\<close>, \<open>Kubeadm_Join\<close>, \<open>Bootstrap_Render\<close> (\<open>internal/controllers/bootstrap\<close>):
    the data of the bootstrap controller; the kubeadm trust check, token and JoinConfiguration
    (\<open>kubeadm*.go\<close>); references to Secrets, the management endpoint and the data of a render
    (\<open>tokens.go\<close>, \<open>join.go\<close>, \<open>render.go\<close>, \<open>management_endpoint_resolver.go\<close>).
  \<^item> \<open>Capk_Userdata\<close>, \<open>Bootstrap_Reconcile\<close> (\<open>kairosconfig_controller.go\<close>, \<open>cleanup.go\<close>,
    \<open>management_ca.go\<close>): the rewriting of CAPK userdata; the whole of the KairosConfig's
    \<open>Reconcile\<close> with deletion, the bootstrap Secret, status and conditions, and the mapping
    functions of the watches. \<open>Role_Migrator\<close> (\<open>rbac_migrator.go\<close>): the migration that narrows
    the Roles of nodes at start-up, and that it never grants a node anything new.
  \<^item> \<open>Bootstrap_Logic\<close>, \<open>Bootstrap_Policy\<close>, \<open>Bootstrap_Keeps\<close>, \<open>Bootstrap_Safety\<close>,
    \<open>Bootstrap_Claims\<close>: the rules of \<open>emits\<close>; which effects are allowed, stated without the
    code; that every operation and every pass keeps to it; what follows, with the life of a
    token and what a finished pass leaves.
  \<^item> \<open>Worked_Examples\<close>, \<open>Machine_Examples\<close>, \<open>Reconcile_Examples\<close>, \<open>Sanitize_Examples\<close>,
    \<open>Publish_Examples\<close>, \<open>Control_Examples\<close>, \<open>Cloud_Config_Examples\<close>,
    \<open>Bootstrap_Examples\<close>, \<open>Ssh_Examples\<close>: the theorems applied to concrete inputs, and unintended
    behaviour.

  \<^bold>\<open>Groups of lemmas.\<close> Two-state guarantees compose along an operation, and each has a
  collection of rules: \<open>freeze_ok\<close> (no membership change under a freeze), \<open>quiet\<close> and
  \<open>silent\<close> (no effect that matters, none at all), \<open>still\<close> (no Machine created or deleted, the
  spec unchanged), \<open>logs_only\<close> (which effects an operation may have), and \<open>emits\<close>
  (the same for the bootstrap controller, with an invariant and the value). \<open>traces\<close> relates the
  control plane before and after to the result and the list of effects. The locales
  \<open>guarantee\<close>, \<open>deadline\<close> and others carry what their instances share.

  \<^bold>\<open>Bounds.\<close> int32 sums wrap around where the code can overflow them. A create tries five
  names; the wait for the cache polls at most \<open>e_polls\<close> times (63 in the code). Loops over lists
  are structural; the loops over PEM blocks and white space end because each step shortens
  the rest. The SSH worker has four slots, a queue of eight results and a limit of 1 MiB on what
  it reads. A pass is modelled at one instant.

  \<^bold>\<open>Not modelled.\<close> Texts of conditions' messages, log lines and API errors. Decoding of
  reports, tokens and kubeconfigs (JSON, YAML, PEM, X.509) is a parameter, as are the checks of
  apimachinery and of cluster-bootstrap, the text templates with their engine and the
  marshalling of a JoinConfiguration. The construction of REST clients beyond the host they
  dial or the kubeconfig they are made from. Of the SSH fallback, the parsing of
  keys and known hosts, the connection and the answer of the node are parameters, and the
  budget of a job is one of the answers a request may get; the manager set-up and the development
  environment are glue.
\<close>

end
